(* ===== verification/Prelude.thy ===== *)
theory Prelude
  imports Main "HOL-Library.Word"
begin

text \<open>
  Shared ground of the development: the machine words of the 32-bit RISC-V targets, the
  alignment macros, the byte-addressed data memory with 32-bit little-endian accesses, and the
  generic lemmas about them.
\<close>

unbundle bit_operations_syntax

type_synonym u8 = "8 word"
type_synonym u16 = "16 word"
type_synonym u32 = "32 word"
type_synonym u64 = "64 word"

type_synonym mem = "u32 \<Rightarrow> u8"

named_theorems mem_simps

definition ALIGN_UP :: "u32 \<Rightarrow> u32 \<Rightarrow> u32" where
  "ALIGN_UP addr sz = (addr + sz - 1) AND NOT (sz - 1)"

definition ALIGN_DOWN :: "u32 \<Rightarrow> u32 \<Rightarrow> u32" where
  "ALIGN_DOWN addr sz = addr AND NOT (sz - 1)"

definition byte_of :: "nat \<Rightarrow> u32 \<Rightarrow> u8" where
  "byte_of k w = ucast (drop_bit (8 * k) w)"

definition rd32 :: "mem \<Rightarrow> u32 \<Rightarrow> u32" where
  "rd32 m p = ucast (m p) OR push_bit 8 (ucast (m (p + 1)))
              OR push_bit 16 (ucast (m (p + 2))) OR push_bit 24 (ucast (m (p + 3)))"

definition wr32 :: "mem \<Rightarrow> u32 \<Rightarrow> u32 \<Rightarrow> mem" where
  "wr32 m p v = m(p := byte_of 0 v, p + 1 := byte_of 1 v, p + 2 := byte_of 2 v, p + 3 := byte_of 3 v)"

lemma bytes_join: "ucast (byte_of 0 v) OR push_bit 8 (ucast (byte_of 1 v))
     OR push_bit 16 (ucast (byte_of 2 v)) OR push_bit 24 (ucast (byte_of 3 v)) = (v :: u32)"
  apply (rule bit_word_eqI)
  apply (simp add: byte_of_def bit_simps)
  apply (case_tac "n < 8"; case_tac "n < 16"; case_tac "n < 24"; auto)
  done

lemma rd32_wr32_same [simp, mem_simps]: "rd32 (wr32 m p v) p = v"
proof -
  have "p + 1 \<noteq> p" "p + 2 \<noteq> p" "p + 3 \<noteq> p" "p + 2 \<noteq> p + 1" "p + 3 \<noteq> p + 1" "p + 3 \<noteq> p + 2"
    by simp_all
  then show ?thesis unfolding rd32_def wr32_def by (simp add: bytes_join del: One_nat_def)
qed

lemma unat_less_2p32 [simp]: "unat (x :: u32) < 4294967296"
  using unsigned_less [of x] by simp

lemma unat_plus_u32: "unat x + unat y < 4294967296 \<Longrightarrow> unat (x + y :: u32) = unat x + unat y"
  by (simp add: unat_word_ariths)

lemma wr32_other:
  assumes "unat p + 4 \<le> 4294967296" "unat x < unat p \<or> unat p + 4 \<le> unat x"
  shows "wr32 m p v x = m x"
proof -
  have "unat (p + 1) = unat p + 1" "unat (p + 2) = unat p + 2" "unat (p + 3) = unat p + 3"
    using assms(1) by (subst unat_plus_u32; simp)+
  then have "x \<noteq> p" "x \<noteq> p + 1" "x \<noteq> p + 2" "x \<noteq> p + 3"
    using assms(2) by auto
  then show ?thesis unfolding wr32_def by simp
qed

lemma rd32_cong:
  assumes "unat p + 4 \<le> 4294967296"
    and "\<And>x. unat p \<le> unat x \<Longrightarrow> unat x < unat p + 4 \<Longrightarrow> m x = m' x"
  shows "rd32 m p = rd32 m' p"
proof -
  have "unat (p + 1) = unat p + 1" "unat (p + 2) = unat p + 2" "unat (p + 3) = unat p + 3"
    using assms(1) by (subst unat_plus_u32; simp)+
  then show ?thesis unfolding rd32_def using assms(2) by simp
qed

lemma rd32_wr32_other [mem_simps]:
  assumes "unat p + 4 \<le> 4294967296" "unat q + 4 \<le> 4294967296"
    and "unat q + 4 \<le> unat p \<or> unat p + 4 \<le> unat q"
  shows "rd32 (wr32 m p v) q = rd32 m q"
  using assms by (intro rd32_cong wr32_other) auto

lemma unat_and_not_mask: "unat (w AND NOT (mask k) :: u32) = unat w div 2 ^ k * 2 ^ k"
proof -
  have "w AND NOT (mask k) = push_bit k (drop_bit k w)"
    by (rule bit_word_eqI) (auto simp: bit_simps)
  moreover have "take_bit 32 (unat w div 2 ^ k * 2 ^ k) = unat w div 2 ^ k * 2 ^ k"
    by (rule take_bit_nat_eq_self)
      (use order.strict_trans1 [OF div_times_less_eq_dividend unat_less_2p32, of w "2 ^ k"] in simp)
  moreover have "unat (push_bit k (drop_bit k w)) = take_bit 32 (unat w div 2 ^ k * 2 ^ k)"
    unfolding unsigned_push_bit_eq unsigned_drop_bit_eq
    by (simp add: push_bit_eq_mult drop_bit_eq_div take_bit_nat_eq_self)
  ultimately show ?thesis by (simp only:)
qed

lemma unat_ALIGN_DOWN8: "unat (ALIGN_DOWN x 8) = unat x div 8 * 8"
  using unat_and_not_mask [of x 3] by (simp add: ALIGN_DOWN_def mask_eq_exp_minus_1)

lemma unat_ALIGN_UP8:
  assumes "unat x + 7 < 4294967296"
  shows "unat (ALIGN_UP x 8) = (unat x + 7) div 8 * 8"
proof -
  have "ALIGN_UP x 8 = (x + 7) AND NOT (mask 3)"
    by (simp add: ALIGN_UP_def mask_eq_exp_minus_1 add.commute)
  then show ?thesis using assms by (simp add: unat_and_not_mask unat_plus_u32)
qed

lemma sint_small: 
  assumes "unat (x :: u32) < 2147483648" 
  shows "sint x = int (unat x)"
proof -
  have "uint x < 2147483648" using assms unfolding unat_eq_nat_uint by linarith
  then have "signed_take_bit 31 (uint x) = uint x"
    by (intro signed_take_bit_int_eq_self order.trans [OF _ uint_ge_0]) simp_all
  then show ?thesis by (simp add: sint_uint)
qed

lemma unat_pow2:
  assumes "k < 32"
  shows "unat (2 ^ k :: u32) = 2 ^ k"
proof -
  have "take_bit 32 ((2 :: nat) ^ k) = 2 ^ k"
    by (rule take_bit_nat_eq_self) (use power_strict_increasing [OF assms, of "2 :: nat"] in simp)
  then have "unat (word_of_nat (2 ^ k) :: u32) = 2 ^ k"
    by (simp only: unsigned_of_nat) simp
  then show ?thesis by simp
qed

end
