(* ===== verification/FreeList.thy ===== *)
theory FreeList
  imports Prelude
begin

text \<open>
  The abstract free list the allocators promise: a list of chunks, each an address with a size,
  in increasing address order with a gap between any two of them.
\<close>

type_synonym chunk = "nat \<times> nat"

definition heap_top :: nat where
  "heap_top = 2147483648"

definition block :: "nat \<Rightarrow> nat \<Rightarrow> nat set" where
  "block a n = {a ..< a + n}"

fun fl_ok :: "nat \<Rightarrow> chunk list \<Rightarrow> bool" where
  "fl_ok lo [] = True"
| "fl_ok lo ((a, n) # xs) =
     (lo < a \<and> 8 dvd a \<and> 8 dvd n \<and> 0 < n \<and> a + n \<le> heap_top \<and> fl_ok (a + n) xs)"

fun fl_bytes :: "chunk list \<Rightarrow> nat set" where
  "fl_bytes [] = {}"
| "fl_bytes ((a, n) # xs) = block a n \<union> fl_bytes xs"

definition fl_total :: "chunk list \<Rightarrow> nat" where
  "fl_total xs = sum_list (map snd xs)"

fun fl_alloc :: "nat \<Rightarrow> chunk list \<Rightarrow> (nat \<times> chunk list) option" where
  "fl_alloc s [] = None"
| "fl_alloc s ((a, n) # xs) =
     (if n < s then (case fl_alloc s xs of None \<Rightarrow> None | Some (p, ys) \<Rightarrow> Some (p, (a, n) # ys))
      else if n = s then Some (a, xs)
      else Some (a + n - s, (a, n - s) # xs))"

fun fl_join :: "chunk \<Rightarrow> chunk list \<Rightarrow> chunk list" where
  "fl_join (a, n) [] = [(a, n)]"
| "fl_join (a, n) ((b, k) # xs) = (if a + n = b then (a, n + k) # xs else (a, n) # (b, k) # xs)"

fun fl_free :: "nat \<Rightarrow> nat \<Rightarrow> chunk list \<Rightarrow> chunk list" where
  "fl_free c s [] = [(c, s)]"
| "fl_free c s ((a, n) # xs) =
     (if a < c then fl_join (a, n) (fl_free c s xs) else fl_join (c, s) ((a, n) # xs))"

definition round8 :: "nat \<Rightarrow> nat" where
  "round8 n = (n + 7) div 8 * 8"

subsection \<open>Bytes and order\<close>

lemma round8_dvd [simp]: "8 dvd round8 n"
  by (simp add: round8_def)

lemma round8_pos [simp]: "0 < n \<Longrightarrow> 0 < round8 n"
  by (simp add: round8_def)

lemma round8_id [simp]: "8 dvd n \<Longrightarrow> round8 n = n"
  by (auto simp: round8_def elim!: dvdE)

lemma round8_le: "n \<le> k \<Longrightarrow> 8 dvd k \<Longrightarrow> round8 n \<le> k"
  by (auto simp: round8_def elim!: dvdE)

lemma round8_ge: "n \<le> round8 n"
  by (simp add: round8_def)

lemma fl_ok_mono: "fl_ok lo xs \<Longrightarrow> lo' \<le> lo \<Longrightarrow> fl_ok lo' xs"
  by (cases xs rule: fl_bytes.cases) auto

lemma fl_ok_bytes: "fl_ok lo xs \<Longrightarrow> x \<in> fl_bytes xs \<Longrightarrow> lo < x \<and> x < heap_top"
  by (induction xs arbitrary: lo rule: fl_bytes.induct) (auto simp: block_def, fastforce)

lemma fl_ok_not_bytes: "fl_ok lo xs \<Longrightarrow> x \<le> lo \<Longrightarrow> x \<notin> fl_bytes xs"
  using fl_ok_bytes by fastforce

lemma finite_fl_bytes [simp]: "finite (fl_bytes xs)"
  by (induction xs rule: fl_bytes.induct) (auto simp: block_def)

lemma fl_total_card: "fl_ok lo xs \<Longrightarrow> fl_total xs = card (fl_bytes xs)"
proof (induction xs arbitrary: lo rule: fl_bytes.induct)
  case (2 a n xs)
  then have "block a n \<inter> fl_bytes xs = {}"
    using fl_ok_not_bytes [of "a + n" xs] by (fastforce simp: block_def)
  then show ?case using 2 by (auto simp: fl_total_def card_Un_disjoint block_def)
qed (simp add: fl_total_def)

lemma fl_ok_member: "fl_ok lo xs \<Longrightarrow> (a, n) \<in> set xs \<Longrightarrow>
    lo < a \<and> 8 dvd a \<and> 8 dvd n \<and> 8 \<le> n \<and> a + n \<le> heap_top"
  by (induction xs arbitrary: lo rule: fl_bytes.induct) (auto dest: dvd_imp_le, fastforce)

subsection \<open>Allocation\<close>

lemma fl_alloc_None: "fl_alloc s xs = None \<longleftrightarrow> (\<forall>(a, n) \<in> set xs. n < s)"
  by (induction xs rule: fl_bytes.induct) (auto split: option.splits)

lemma fl_alloc_ok:
  "fl_alloc s xs = Some (p, ys) \<Longrightarrow> fl_ok lo xs \<Longrightarrow> 0 < s \<Longrightarrow> 8 dvd s \<Longrightarrow>
   fl_ok lo ys \<and> 8 dvd p \<and> lo < p \<and> block p s \<subseteq> fl_bytes xs \<and> fl_bytes ys = fl_bytes xs - block p s"
proof (induction xs arbitrary: lo ys rule: fl_bytes.induct)
  case 1 then show ?case by simp
next
  case (2 a n xs)
  note tl = fl_ok_not_bytes [of "a + n" xs]
  show ?case
  proof (cases "n < s")
    case True
    then obtain zs where zs: "fl_alloc s xs = Some (p, zs)" "ys = (a, n) # zs"
      using 2 by (auto split: option.splits)
    have "fl_ok (a + n) zs \<and> 8 dvd p \<and> a + n < p \<and> block p s \<subseteq> fl_bytes xs
          \<and> fl_bytes zs = fl_bytes xs - block p s"
      using 2 zs by auto
    moreover from this have "block p s \<inter> block a n = {}" by (auto simp: block_def)
    ultimately show ?thesis using "2.prems" zs by auto
  next
    case False
    then obtain r where r: "n = r + s" by (metis add.commute le_add_diff_inverse not_less)
    then have ok: "fl_ok (a + r) xs" "8 dvd r" "8 dvd a + r"
      using 2 fl_ok_mono [of "a + n" xs "a + r"] by (auto simp: dvd_add_right_iff dvd_add_left_iff)
    show ?thesis
    proof (cases "r = 0")
      case True
      then show ?thesis using 2 tl r ok fl_ok_mono [of "a + n" xs lo] by (auto simp: block_def)
    next
      case False
      then show ?thesis using 2 tl r ok by (auto simp: block_def)
    qed
  qed
qed

subsection \<open>Freeing\<close>

lemma fl_free_head: "fl_ok c xs \<Longrightarrow> fl_free c s xs = fl_join (c, s) xs"
  by (cases xs rule: fl_bytes.cases) auto

lemma fl_join_gap: "fl_ok (a + n) xs \<Longrightarrow> fl_join (a, n) xs = (a, n) # xs"
  by (cases xs rule: fl_bytes.cases) auto

lemma fl_join_bytes: "fl_bytes (fl_join (a, n) xs) = block a n \<union> fl_bytes xs"
  by (cases xs rule: fl_bytes.cases) (auto simp: block_def)

lemma fl_free_bytes: "fl_bytes (fl_free c s xs) = block c s \<union> fl_bytes xs"
  by (induction c s xs rule: fl_free.induct) (auto simp: fl_join_bytes simp del: fl_join.simps)

lemma fl_join_ok:
  assumes "fl_ok c xs" "lo < c" "8 dvd c" "8 dvd s" "0 < s" "c + s \<le> heap_top"
    and "block c s \<inter> fl_bytes xs = {}"
  shows "fl_ok lo (fl_join (c, s) xs)"
proof (cases xs rule: fl_bytes.cases)
  case (2 a n ys)
  have "c + s \<le> a"
  proof (rule ccontr)
    assume "\<not> c + s \<le> a"
    then have "a \<in> block c s" "a \<in> fl_bytes xs" using assms 2 by (auto simp: block_def)
    then show False using assms by blast
  qed
  then show ?thesis using assms 2 by (auto simp: algebra_simps)
qed (use assms in auto)

lemma fl_free_ok:
  assumes "fl_ok lo xs" "lo < c" "8 dvd c" "8 dvd s" "0 < s" "c + s \<le> heap_top"
    and "block c s \<inter> fl_bytes xs = {}"
  shows "fl_ok lo (fl_free c s xs)"
  using assms
proof (induction c s xs arbitrary: lo rule: fl_free.induct)
  case (2 c s a n xs)
  note p = "2.prems"
  show ?case
  proof (cases "a < c")
    case True
    have "a + n \<le> c"
    proof (rule ccontr)
      assume "\<not> a + n \<le> c"
      then have "c \<in> block c s" "c \<in> fl_bytes ((a, n) # xs)" using True p by (auto simp: block_def)
      then show False using p by blast
    qed
    then consider "a + n < c" | "a + n = c" by linarith
    then show ?thesis
    proof cases
      case 1
      then have "fl_ok (a + n) (fl_free c s xs)" using 2 True by auto
      then show ?thesis using True p by (simp add: fl_join_gap)
    next
      case c: 2
      then have "fl_ok (c - 1) (fl_join (c, s) xs)"
        using p by (intro fl_join_ok) auto
      with c show ?thesis using True p fl_free_head [of c xs s]
        by (cases "fl_join (c, s) xs" rule: fl_bytes.cases) (auto split: if_splits intro: fl_ok_mono)
    qed
  next
    case False
    have "c \<noteq> a"
    proof
      assume "c = a"
      then have "c \<in> block c s" "c \<in> fl_bytes ((a, n) # xs)" using p by (auto simp: block_def)
      then show False using p by blast
    qed
    then show ?thesis using p False
      by (simp del: fl_join.simps) (intro fl_join_ok, auto)
  qed
qed auto

subsection \<open>Canonicity and round trip\<close>

lemma fl_alloc_free:
  "fl_alloc s xs = Some (p, ys) \<Longrightarrow> fl_ok lo xs \<Longrightarrow> 0 < s \<Longrightarrow> 8 dvd s \<Longrightarrow> fl_free p s ys = xs"
proof (induction xs arbitrary: lo ys rule: fl_bytes.induct)
  case (2 a n xs)
  show ?case
  proof (cases "n < s")
    case True
    then obtain zs where zs: "fl_alloc s xs = Some (p, zs)" "ys = (a, n) # zs"
      using 2 by (auto split: option.splits)
    then have "a + n < p" "fl_free p s zs = xs" using 2 fl_alloc_ok [OF zs(1), of "a + n"] by auto
    then show ?thesis using zs 2 by (simp add: fl_join_gap)
  next
    case False
    then obtain r where r: "n = r + s" by (metis add.commute le_add_diff_inverse not_less)
    then have ok: "fl_ok a xs" "fl_ok (a + r) xs"
      using 2 fl_ok_mono [of "a + n" xs a] fl_ok_mono [of "a + n" xs "a + r"] by auto
    then have "fl_free (a + r) s xs = (a + r, s) # xs" "fl_free a s xs = fl_join (a, s) xs"
      using 2 r by (auto simp: fl_free_head fl_join_gap add.assoc)
    then show ?thesis using 2 r
      by (cases "r = 0") (auto simp: fl_join_gap)
  qed
qed simp

lemma fl_canonical:
  "fl_ok lo xs \<Longrightarrow> fl_ok lo' ys \<Longrightarrow> fl_bytes xs = fl_bytes ys \<Longrightarrow> xs = ys"
proof (induction xs arbitrary: lo lo' ys rule: fl_bytes.induct)
  case 1
  then show ?case by (cases ys rule: fl_bytes.cases) (auto simp: block_def)
next
  case (2 a n xs)
  have "a \<in> fl_bytes ys" using 2 by (auto simp: block_def)
  then obtain b k zs where ys: "ys = (b, k) # zs" by (cases ys rule: fl_bytes.cases) auto
  note x = fl_ok_bytes [of "a + n" xs] and y = fl_ok_bytes [of "b + k" zs]
  have "b \<le> a" using \<open>a \<in> fl_bytes ys\<close> ys "2.prems"(2) y [of a] by (auto simp: block_def)
  moreover have "b \<in> fl_bytes ((a, n) # xs)" using "2.prems"(2,3) ys by (auto simp: block_def)
  then have "a \<le> b" using "2.prems"(1) x [of b] by (auto simp: block_def)
  ultimately have ab: "a = b" by simp
  have "a + n \<notin> fl_bytes xs" using "2.prems"(1) x [of "a + n"] by auto
  then have "a + n \<notin> fl_bytes ys" unfolding "2.prems"(3) [symmetric] by (simp add: block_def)
  then have "k \<le> n" using ys ab by (simp add: block_def)
  moreover have "b + k \<notin> fl_bytes zs" using "2.prems"(2) ys y [of "b + k"] by auto
  then have "b + k \<notin> fl_bytes ((a, n) # xs)" unfolding "2.prems"(3) ys by (simp add: block_def)
  then have "n \<le> k" using ab by (simp add: block_def)
  ultimately have nk: "n = k" by simp
  have tl: "\<And>lo c r us. fl_ok lo ((c, r) # us) \<Longrightarrow> fl_bytes us = fl_bytes ((c, r) # us) - block c r"
    using fl_ok_not_bytes by (fastforce simp: block_def)
  have "fl_bytes xs = fl_bytes zs"
    using tl [OF "2.prems"(1)] tl [of lo' b k zs] "2.prems"(2,3) ys ab nk by simp
  then show ?case using "2.IH" [of "a + n" "b + k" zs] "2.prems"(1,2) ys ab nk by simp
qed

end
