(* ===== verification/MallocInternal.thy ===== *)
theory MallocInternal
  imports FreeList
begin

text \<open>
  The allocator of libc/malloc/malloc_internal.c: a free list threaded through the free memory
  itself, each free chunk starting with its size and the address of the next chunk.
\<close>

subsection \<open>Model\<close>

record malloc_t =
  first_free :: u32
  mem_type :: u8

definition INTERNAL_MALLOC :: u8 where
  "INTERNAL_MALLOC = 0"

definition EXTERNAL_MALLOC :: u8 where
  "EXTERNAL_MALLOC = 1"

definition MIN_CHUNK_SIZE :: u32 where
  "MIN_CHUNK_SIZE = 8"

definition sizeof_chunk :: u32 where
  "sizeof_chunk = 12"

definition chunk_size :: "mem \<Rightarrow> u32 \<Rightarrow> u32" where
  "chunk_size m p = rd32 m p"

definition chunk_next :: "mem \<Rightarrow> u32 \<Rightarrow> u32" where
  "chunk_next m p = rd32 m (p + 4)"

definition set_chunk_size :: "u32 \<Rightarrow> u32 \<Rightarrow> mem \<Rightarrow> mem" where
  "set_chunk_size p v m = wr32 m p v"

definition set_chunk_next :: "u32 \<Rightarrow> u32 \<Rightarrow> mem \<Rightarrow> mem" where
  "set_chunk_next p v m = wr32 m (p + 4) v"

partial_function (option) malloc_info_loop :: "mem \<Rightarrow> u32 \<Rightarrow> u32 \<Rightarrow> u32 \<Rightarrow> (u32 \<times> u32) option" where
  "malloc_info_loop m pt sz nb_chunks =
     (if pt \<noteq> 0 then malloc_info_loop m (chunk_next m pt) (sz + chunk_size m pt) (nb_chunks + 1)
      else Some (sz, nb_chunks))"

definition malloc_info :: "malloc_t \<Rightarrow> mem \<Rightarrow> (u32 \<times> u32 \<times> u32) option" where
  "malloc_info a m =
     (case malloc_info_loop m (first_free a) 0 0 of
        None \<Rightarrow> None
      | Some (sz, nb_chunks) \<Rightarrow> Some (sz, first_free a, nb_chunks))"

datatype dump_line =
  Dump_begin
| Free_Block (blk_at: u32) (blk_size: u32) (blk_next: u32) (corrupted: bool)
| Dump_end

partial_function (option) malloc_dump_loop :: "mem \<Rightarrow> u32 \<Rightarrow> dump_line list \<Rightarrow> dump_line list option" where
  "malloc_dump_loop m pt out =
     (if pt \<noteq> 0 then
        (let ln = Free_Block pt (chunk_size m pt) (chunk_next m pt) (pt = chunk_next m pt) in
         if pt = chunk_next m pt then Some (out @ [ln])
         else malloc_dump_loop m (chunk_next m pt) (out @ [ln]))
      else Some out)"

definition malloc_dump :: "malloc_t \<Rightarrow> mem \<Rightarrow> dump_line list option" where
  "malloc_dump a m =
     (case malloc_dump_loop m (first_free a) [Dump_begin] of
        None \<Rightarrow> None
      | Some out \<Rightarrow> Some (out @ [Dump_end]))"

definition malloc_init :: "malloc_t \<Rightarrow> mem \<Rightarrow> u32 \<Rightarrow> u32 \<Rightarrow> malloc_t \<times> mem" where
  "malloc_init a m chunk0 size0 =
     (let chunk = ALIGN_UP chunk0 MIN_CHUNK_SIZE;
          a' = a\<lparr>first_free := chunk\<rparr>;
          sz = size0 - (chunk - chunk0) in
      if 0 < sint sz
      then (a', set_chunk_next chunk 0 (set_chunk_size chunk (ALIGN_DOWN sz MIN_CHUNK_SIZE) m))
      else (a', m))"

partial_function (option) malloc_scan :: "mem \<Rightarrow> u32 \<Rightarrow> u32 \<Rightarrow> u32 \<Rightarrow> (u32 \<times> u32) option" where
  "malloc_scan m sz prev pt =
     (if pt \<noteq> 0 \<and> sint (chunk_size m pt) < sint sz
      then malloc_scan m sz pt (chunk_next m pt)
      else Some (prev, pt))"

definition malloc :: "malloc_t \<Rightarrow> mem \<Rightarrow> u32 \<Rightarrow> (u32 \<times> malloc_t \<times> mem) option" where
  "malloc a m size0 =
     (let sz = ALIGN_UP size0 MIN_CHUNK_SIZE in
      case malloc_scan m sz 0 (first_free a) of
        None \<Rightarrow> None
      | Some (prev, pt) \<Rightarrow>
          if pt \<noteq> 0 then
            if chunk_size m pt = sz then
              (if prev \<noteq> 0 then Some (pt, a, set_chunk_next prev (chunk_next m pt) m)
               else Some (pt, a\<lparr>first_free := chunk_next m pt\<rparr>, m))
            else
              (let result = pt + chunk_size m pt - sz in
               Some (result, a, set_chunk_size pt (chunk_size m pt - sz) m))
          else Some (0, a, m))"

partial_function (option) malloc_free_scan :: "mem \<Rightarrow> u32 \<Rightarrow> u32 \<Rightarrow> u32 \<Rightarrow> (u32 \<times> u32) option" where
  "malloc_free_scan m chunk prev nxt =
     (if nxt \<noteq> 0 \<and> nxt < chunk
      then malloc_free_scan m chunk nxt (chunk_next m nxt)
      else Some (prev, nxt))"

definition malloc_free :: "malloc_t \<Rightarrow> mem \<Rightarrow> u32 \<Rightarrow> u32 \<Rightarrow> (malloc_t \<times> mem) option" where
  "malloc_free a m chunk size0 =
     (let sz = ALIGN_UP size0 MIN_CHUNK_SIZE in
      case malloc_free_scan m chunk 0 (first_free a) of
        None \<Rightarrow> None
      | Some (prev, nxt) \<Rightarrow>
          (let m1 = (if chunk + sz = nxt
                     then (let m' = set_chunk_size chunk (sz + chunk_size m nxt) m in
                           set_chunk_next chunk (chunk_next m' nxt) m')
                     else set_chunk_next chunk nxt (set_chunk_size chunk sz m)) in
           if prev \<noteq> 0 then
             if prev + chunk_size m1 prev = chunk
             then (let m2 = set_chunk_size prev (chunk_size m1 prev + chunk_size m1 chunk) m1 in
                   Some (a, set_chunk_next prev (chunk_next m2 chunk) m2))
             else Some (a, set_chunk_next prev chunk m1)
           else Some (a\<lparr>first_free := chunk\<rparr>, m1)))"

definition malloc_align :: "malloc_t \<Rightarrow> mem \<Rightarrow> u32 \<Rightarrow> u32 \<Rightarrow> (u32 \<times> malloc_t \<times> mem) option" where
  "malloc_align a m size0 align =
     (if sint align < sint sizeof_chunk then malloc a m size0
      else
        (let size_align = size0 + align + sizeof_chunk * 2 in
         case malloc a m size_align of
           None \<Rightarrow> None
         | Some (result, a1, m1) \<Rightarrow>
             if result = 0 then Some (0, a1, m1)
             else
               (let result_align = (result + align - 1) AND (- align);
                    headersize = result_align - result in
                if headersize \<noteq> 0 then
                  (let result_align' = (if result_align - result < sizeof_chunk
                                        then result_align + align else result_align) in
                   case malloc_free a1 m1 result headersize of
                     None \<Rightarrow> None
                   | Some (a2, m2) \<Rightarrow>
                       (case malloc_free a2 m2 (result_align' + size0) (size_align - headersize - size0) of
                          None \<Rightarrow> None
                        | Some (a3, m3) \<Rightarrow> Some (result_align', a3, m3)))
                else
                  (case malloc_free a1 m1 (result_align + size0) (size_align - headersize - size0) of
                     None \<Rightarrow> None
                   | Some (a3, m3) \<Rightarrow> Some (result_align, a3, m3)))))"

end
