(* ===== verification/MallocRefine.thy ===== *)
theory MallocRefine
  imports MallocInternal
begin

text \<open>
  The internal allocator implements the abstract free list: what it means that the memory holds
  a free list, and the refinement of every operation of MallocInternal, each with its frame.
\<close>

subsection \<open>The memory holds a free list\<close>

fun flseg :: "mem \<Rightarrow> u32 \<Rightarrow> chunk list \<Rightarrow> u32 \<Rightarrow> bool" where
  "flseg m p [] q = (p = q)"
| "flseg m p ((a, n) # xs) q =
     (p \<noteq> 0 \<and> unat p = a \<and> unat (chunk_size m p) = n \<and> flseg m (chunk_next m p) xs q)"

definition malloc_rep :: "malloc_t \<Rightarrow> mem \<Rightarrow> chunk list \<Rightarrow> bool" where
  "malloc_rep a m xs \<longleftrightarrow> flseg m (first_free a) xs 0 \<and> fl_ok 0 xs"

fun hdrs :: "chunk list \<Rightarrow> nat set" where
  "hdrs [] = {}"
| "hdrs ((a, n) # xs) = block a 8 \<union> hdrs xs"

fun fl_end :: "nat \<Rightarrow> chunk list \<Rightarrow> nat" where
  "fl_end lo [] = lo"
| "fl_end lo ((a, n) # xs) = fl_end (a + n) xs"

lemma flseg_append: "flseg m p (ys @ zs) r \<longleftrightarrow> (\<exists>q. flseg m p ys q \<and> flseg m q zs r)"
  by (induction ys arbitrary: p rule: fl_bytes.induct) auto

lemma fl_ok_append: "fl_ok lo (ys @ zs) \<longleftrightarrow> fl_ok lo ys \<and> fl_ok (fl_end lo ys) zs"
  by (induction ys arbitrary: lo rule: fl_bytes.induct) auto

lemma fl_end_append [simp]: "fl_end lo (ys @ zs) = fl_end (fl_end lo ys) zs"
  by (induction ys arbitrary: lo rule: fl_bytes.induct) auto

lemma fl_bytes_append [simp]: "fl_bytes (ys @ zs) = fl_bytes ys \<union> fl_bytes zs"
  by (induction ys rule: fl_bytes.induct) auto

lemma hdrs_append [simp]: "hdrs (ys @ zs) = hdrs ys \<union> hdrs zs"
  by (induction ys rule: hdrs.induct) auto

lemma fl_end_ge: "fl_ok lo xs \<Longrightarrow> lo \<le> fl_end lo xs"
  by (induction xs arbitrary: lo rule: fl_bytes.induct) (auto, fastforce)

lemma fl_bytes_less_end: "fl_ok lo xs \<Longrightarrow> x \<in> fl_bytes xs \<Longrightarrow> x < fl_end lo xs"
  by (induction xs arbitrary: lo rule: fl_bytes.induct)
    (auto simp: block_def dest: fl_end_ge)

lemma hdrs_bytes: "fl_ok lo xs \<Longrightarrow> hdrs xs \<subseteq> fl_bytes xs"
  by (induction xs arbitrary: lo rule: fl_bytes.induct) (auto simp: block_def dest: dvd_imp_le)

lemma fl_bytes_split_disjoint: "fl_ok lo (ys @ zs) \<Longrightarrow> fl_bytes ys \<inter> fl_bytes zs = {}"
  using fl_bytes_less_end fl_ok_bytes unfolding fl_ok_append by fastforce

subsection \<open>Header writes\<close>

lemma unat_plus4: "unat p + 4 < 4294967296 \<Longrightarrow> unat (p + 4 :: u32) = unat p + 4"
  using unat_plus_u32 [of p 4] by simp

lemma set_chunk_size_frame:
  "unat p + 8 < 4294967296 \<Longrightarrow> unat x \<notin> block (unat p) 8 \<Longrightarrow> set_chunk_size p v m x = m x"
  unfolding set_chunk_size_def by (rule wr32_other) (auto simp: block_def)

lemma set_chunk_next_frame:
  "unat p + 8 < 4294967296 \<Longrightarrow> unat x \<notin> block (unat p) 8 \<Longrightarrow> set_chunk_next p v m x = m x"
  unfolding set_chunk_next_def by (rule wr32_other) (auto simp: block_def unat_plus4)

lemma chunk_size_set_size [simp]: "chunk_size (set_chunk_size p v m) p = v"
  by (simp add: chunk_size_def set_chunk_size_def)

lemma chunk_next_set_next [simp]: "chunk_next (set_chunk_next p v m) p = v"
  by (simp add: chunk_next_def set_chunk_next_def)

lemma chunk_next_set_size [simp]:
  "unat p + 8 < 4294967296 \<Longrightarrow> chunk_next (set_chunk_size p v m) p = chunk_next m p"
  by (simp add: chunk_next_def set_chunk_size_def rd32_wr32_other unat_plus4)

lemma chunk_size_set_next [simp]:
  "unat p + 8 < 4294967296 \<Longrightarrow> chunk_size (set_chunk_next p v m) p = chunk_size m p"
  by (simp add: chunk_size_def set_chunk_next_def rd32_wr32_other unat_plus4)

lemma chunk_cong:
  assumes "unat p + 8 < 4294967296" "\<And>x. unat x \<in> block (unat p) 8 \<Longrightarrow> m' x = m x"
  shows "chunk_size m' p = chunk_size m p" "chunk_next m' p = chunk_next m p"
  using assms unfolding chunk_size_def chunk_next_def
  by (auto intro!: rd32_cong simp: block_def unat_plus4)

lemma flseg_frame:
  "flseg m p xs q \<Longrightarrow> fl_ok lo xs \<Longrightarrow> (\<And>x. unat x \<in> hdrs xs \<Longrightarrow> m' x = m x) \<Longrightarrow> flseg m' p xs q"
proof (induction xs arbitrary: p lo rule: fl_bytes.induct)
  case (2 a n xs)
  have "8 \<le> n" using 2 by (auto dest: dvd_imp_le)
  then have "unat p + 8 < 4294967296" using 2 by (auto simp: heap_top_def)
  then have "chunk_size m' p = chunk_size m p" "chunk_next m' p = chunk_next m p"
    using 2 by (auto intro!: chunk_cong)
  then show ?case using 2 by auto
qed simp

lemma flseg_cons_write:
  assumes "flseg m q xs r" "fl_ok lo xs" "c \<noteq> 0" "unat c + 8 < 4294967296"
    and "block (unat c) 8 \<inter> hdrs xs = {}"
    and "chunk_size m' c = v" "chunk_next m' c = q"
    and "\<And>x. unat x \<notin> block (unat c) 8 \<Longrightarrow> m' x = m x"
  shows "flseg m' c ((unat c, unat v) # xs) r"
proof -
  have "flseg m' q xs r" by (rule flseg_frame [OF assms(1,2)]) (use assms in blast)
  then show ?thesis using assms by simp
qed

subsection \<open>The scans\<close>

lemma flseg_null: "flseg m 0 xs q \<Longrightarrow> xs = []"
  by (cases xs rule: fl_bytes.cases) auto

definition prev_of :: "u32 \<Rightarrow> chunk list \<Rightarrow> u32" where
  "prev_of prev ys = (if ys = [] then prev else word_of_nat (fst (last ys)))"

lemma malloc_scan_spec:
  assumes "flseg m p xs 0" "fl_ok lo xs" "unat sz < heap_top"
  shows "\<exists>ys zs q. malloc_scan m sz prev p = Some (prev_of prev ys, q) \<and> xs = ys @ zs
           \<and> flseg m p ys q \<and> flseg m q zs 0 \<and> (\<forall>(a, n) \<in> set ys. n < unat sz)
           \<and> (zs = [] \<or> unat sz \<le> snd (hd zs))"
  using assms
proof (induction xs arbitrary: p lo prev rule: fl_bytes.induct)
  case 1
  then show ?case by (simp add: malloc_scan.simps prev_of_def)
next
  case (2 a n xs)
  have n: "unat (chunk_size m p) < heap_top" "p \<noteq> 0" "unat p = a" "unat (chunk_size m p) = n"
    using 2 by auto
  then have cmp: "sint (chunk_size m p) < sint sz \<longleftrightarrow> n < unat sz"
    using "2.prems"(3) by (simp add: sint_small heap_top_def del: of_nat_unat)
  show ?case
  proof (cases "n < unat sz")
    case True
    obtain ys zs q where h: "malloc_scan m sz p (chunk_next m p) = Some (prev_of p ys, q)"
      "xs = ys @ zs" "flseg m (chunk_next m p) ys q" "flseg m q zs 0"
      "\<forall>(a, n) \<in> set ys. n < unat sz" "zs = [] \<or> unat sz \<le> snd (hd zs)"
      using "2.IH" [of "chunk_next m p" "a + n" p] "2.prems" by auto
    have "prev_of prev ((a, n) # ys) = prev_of p ys" using n by (auto simp: prev_of_def)
    then show ?thesis using h n cmp True
      by (intro exI [of _ "(a, n) # ys"] exI [of _ zs] exI [of _ q])
        (simp add: malloc_scan.simps [of m sz prev p])
  next
    case False
    then show ?thesis using "2.prems" n cmp
      by (intro exI [of _ "[]"] exI [of _ "(a, n) # xs"] exI [of _ p])
        (simp add: malloc_scan.simps [of m sz prev p] prev_of_def)
  qed
qed

lemma malloc_free_scan_spec:
  assumes "flseg m p xs 0" "fl_ok lo xs"
  shows "\<exists>ys zs q. malloc_free_scan m c prev p = Some (prev_of prev ys, q) \<and> xs = ys @ zs
           \<and> flseg m p ys q \<and> flseg m q zs 0 \<and> (\<forall>(a, n) \<in> set ys. a < unat c)
           \<and> (zs = [] \<or> unat c \<le> fst (hd zs))"
  using assms
proof (induction xs arbitrary: p lo prev rule: fl_bytes.induct)
  case 1
  then show ?case by (simp add: malloc_free_scan.simps prev_of_def)
next
  case (2 a n xs)
  have n: "p \<noteq> 0" "unat p = a" "unat (chunk_size m p) = n" using 2 by auto
  then have cmp: "p < c \<longleftrightarrow> a < unat c" by (simp add: word_less_nat_alt)
  show ?case
  proof (cases "a < unat c")
    case True
    obtain ys zs q where h: "malloc_free_scan m c p (chunk_next m p) = Some (prev_of p ys, q)"
      "xs = ys @ zs" "flseg m (chunk_next m p) ys q" "flseg m q zs 0"
      "\<forall>(a, n) \<in> set ys. a < unat c" "zs = [] \<or> unat c \<le> fst (hd zs)"
      using "2.IH" [of "chunk_next m p" "a + n" p] "2.prems" by auto
    have "prev_of prev ((a, n) # ys) = prev_of p ys" using n by (auto simp: prev_of_def)
    then show ?thesis using h n cmp True
      by (intro exI [of _ "(a, n) # ys"] exI [of _ zs] exI [of _ q])
        (simp add: malloc_free_scan.simps [of m c prev p])
  next
    case False
    then show ?thesis using "2.prems" n cmp
      by (intro exI [of _ "[]"] exI [of _ "(a, n) # xs"] exI [of _ p])
        (simp add: malloc_free_scan.simps [of m c prev p] prev_of_def)
  qed
qed

lemma fl_alloc_append:
  "(\<forall>(a, n) \<in> set ys. n < s) \<Longrightarrow>
   fl_alloc s (ys @ zs) = (case fl_alloc s zs of None \<Rightarrow> None | Some (p, us) \<Rightarrow> Some (p, ys @ us))"
  by (induction ys rule: fl_bytes.induct) (auto split: option.splits)

lemma fl_join_gap_hd: "xs = [] \<or> a + n < fst (hd xs) \<Longrightarrow> fl_join (a, n) xs = (a, n) # xs"
  by (cases xs rule: fl_bytes.cases) auto

lemma hd_fl_join [simp]: "fst (hd (fl_join (a, n) xs)) = a" "fl_join (a, n) xs \<noteq> []"
  by (cases xs rule: fl_bytes.cases; simp)+

lemma fl_free_append:
  "fl_ok lo (ys @ [(b, k)]) \<Longrightarrow> b < c \<Longrightarrow> zs = [] \<or> c \<le> fst (hd zs) \<Longrightarrow>
   fl_free c s (ys @ (b, k) # zs) = ys @ fl_join (b, k) (fl_join (c, s) zs)"
proof (induction ys arbitrary: lo rule: fl_bytes.induct)
  case 1
  then show ?case by (cases zs rule: fl_bytes.cases) auto
next
  case (2 a n ys)
  have "a + n < b" using "2.prems"(1) fl_end_ge [of "a + n" ys] by (auto simp: fl_ok_append)
  moreover have "ys = [] \<or> a + n < fst (hd ys)" using "2.prems"(1) by (cases ys rule: fl_bytes.cases) auto
  ultimately have "fl_join (a, n) (ys @ fl_join (b, k) (fl_join (c, s) zs))
      = (a, n) # ys @ fl_join (b, k) (fl_join (c, s) zs)"
    by (intro fl_join_gap_hd) (auto simp: hd_append)
  moreover have "a < c" using \<open>a + n < b\<close> "2.prems"(2) by simp
  ultimately show ?case using "2.prems" "2.IH" [of "a + n"] by simp
qed


subsection \<open>Allocation refines first fit\<close>

lemma unat_MIN_ALIGN:
  "unat x \<le> heap_top - 8 \<Longrightarrow> unat (ALIGN_UP x MIN_CHUNK_SIZE) = round8 (unat x)"
  unfolding MIN_CHUNK_SIZE_def by (subst unat_ALIGN_UP8) (simp_all add: heap_top_def round8_def)

lemma flseg_update:
  assumes "flseg m p ws c" "fl_ok lo ws" "flseg m q us r" "fl_ok lo' us"
    and "c \<noteq> 0" "unat c + 8 < 4294967296"
    and "block (unat c) 8 \<inter> (hdrs ws \<union> hdrs us) = {}"
    and "chunk_size m' c = v" "chunk_next m' c = q"
    and "\<And>x. unat x \<notin> block (unat c) 8 \<Longrightarrow> m' x = m x"
  shows "flseg m' p (ws @ (unat c, unat v) # us) r"
proof -
  have "flseg m' p ws c" by (rule flseg_frame [OF assms(1,2)]) (use assms in blast)
  moreover have "flseg m' c ((unat c, unat v) # us) r"
    by (rule flseg_cons_write [OF assms(3,4)]) (use assms in blast)+
  ultimately show ?thesis by (auto simp: flseg_append)
qed

lemma flseg_snocD: "flseg m p (ws @ [(c, j)]) q \<Longrightarrow>
   \<exists>pc. flseg m p ws pc \<and> pc \<noteq> 0 \<and> unat pc = c \<and> unat (chunk_size m pc) = j \<and> chunk_next m pc = q"
  by (auto simp: flseg_append)

lemma hdrs_sub_block: "fl_ok lo xs \<Longrightarrow> (a, n) \<in> set xs \<Longrightarrow> block a 8 \<subseteq> hdrs xs"
  by (induction xs arbitrary: lo rule: hdrs.induct) (auto simp: block_def)

lemma fl_ok_split_hdrs:
  assumes "fl_ok lo (ws @ (c, j) # us)"
  shows "block c 8 \<inter> (hdrs ws \<union> hdrs us) = {}" "c + 8 < 4294967296" "c \<noteq> 0"
proof -
  have ok: "fl_ok lo ws" "fl_ok (fl_end lo ws) ((c, j) # us)" using assms by (auto simp: fl_ok_append)
  then have "8 \<le> j" by (auto dest: dvd_imp_le)
  moreover have "hdrs ws \<subseteq> {..< fl_end lo ws}" "hdrs us \<subseteq> {c + j <..}"
    using ok hdrs_bytes [of lo ws] hdrs_bytes [of "c + j" us] fl_bytes_less_end [of lo ws]
      fl_ok_bytes [of "c + j" us] by auto
  ultimately show "block c 8 \<inter> (hdrs ws \<union> hdrs us) = {}" "c + 8 < 4294967296" "c \<noteq> 0"
    using ok by (auto simp: block_def heap_top_def)
qed


lemma flseg_det: "flseg m p ys q \<Longrightarrow> flseg m p ys q' \<Longrightarrow> q = q'"
  by (induction ys arbitrary: p rule: fl_bytes.induct) auto

lemma malloc_rep_split:
  assumes "malloc_rep a m (ys @ (b, k) # us)" "flseg m (first_free a) ys q"
  shows "q \<noteq> 0" "unat q = b" "unat (chunk_size m q) = k" "flseg m (chunk_next m q) us 0"
    "fl_ok 0 ys" "fl_ok (fl_end 0 ys) ((b, k) # us)" "fl_ok (b + k) us" "b + k \<le> heap_top"
    "block b 8 \<subseteq> hdrs (ys @ (b, k) # us)" "unat q + 8 < 4294967296"
    "block b 8 \<inter> (hdrs ys \<union> hdrs us) = {}"
proof -
  obtain q' where "flseg m (first_free a) ys q'" "flseg m q' ((b, k) # us) 0"
    using assms(1) by (auto simp: malloc_rep_def flseg_append)
  then have "flseg m q ((b, k) # us) 0" using flseg_det [OF assms(2)] by simp
  then show "q \<noteq> 0" and q: "unat q = b" and "unat (chunk_size m q) = k" "flseg m (chunk_next m q) us 0"
    by auto
  have ok: "fl_ok 0 (ys @ (b, k) # us)" using assms(1) by (simp add: malloc_rep_def)
  then show "fl_ok 0 ys" "fl_ok (fl_end 0 ys) ((b, k) # us)" "fl_ok (b + k) us" "b + k \<le> heap_top"
    by (auto simp: fl_ok_append)
  show "block b 8 \<subseteq> hdrs (ys @ (b, k) # us)" by auto
  show "unat q + 8 < 4294967296" "block b 8 \<inter> (hdrs ys \<union> hdrs us) = {}"
    using fl_ok_split_hdrs [OF ok] q by simp_all
qed

lemma ok_drop_node: "fl_ok lo (ys @ (b, k) # us) \<Longrightarrow> fl_ok lo (ys @ us)"
  by (auto simp: fl_ok_append intro: fl_ok_mono [of "b + k"])

lemma unlink_rep:
  assumes rep: "malloc_rep a m (ys @ (b, k) # us)" and q: "flseg m (first_free a) ys q"
  shows "\<exists>a' m'. (if prev_of 0 ys \<noteq> 0
                  then Some (q, a, set_chunk_next (prev_of 0 ys) (chunk_next m q) m)
                  else Some (q, a\<lparr>first_free := chunk_next m q\<rparr>, m)) = Some (q, a', m')
           \<and> malloc_rep a' m' (ys @ us) \<and> mem_type a' = mem_type a
           \<and> (\<forall>x. unat x \<notin> hdrs (ys @ (b, k) # us) \<longrightarrow> m' x = m x)"
proof (cases ys rule: rev_cases)
  case Nil
  then show ?thesis using malloc_rep_split [OF rep q] ok_drop_node [of 0 ys b k us] rep
    by (auto simp: prev_of_def malloc_rep_def intro: fl_ok_mono [of "b + k"])
next
  case (snoc ws cj)
  obtain c j where cj: "cj = (c, j)" by (cases cj)
  then obtain pc where pc: "flseg m (first_free a) ws pc" "pc \<noteq> 0" "unat pc = c"
      "unat (chunk_size m pc) = j"
    using q snoc flseg_snocD by blast
  have prev: "prev_of 0 ys = pc" using snoc cj pc by (auto simp: prev_of_def)
  let ?m = "set_chunk_next pc (chunk_next m q) m"
  note qs = malloc_rep_split [OF rep q]
  have rep': "malloc_rep a m (ws @ (c, j) # (b, k) # us)" using rep snoc cj by simp
  note cs = malloc_rep_split [OF rep' pc(1)]
  have "flseg ?m (first_free a) (ws @ (unat pc, unat (chunk_size m pc)) # us) 0"
    by (rule flseg_update [OF pc(1) cs(5) qs(4,7)])
      (use pc cs set_chunk_next_frame in auto)
  moreover have "fl_ok 0 (ys @ us)" using rep by (auto simp: malloc_rep_def intro: ok_drop_node)
  moreover have "\<forall>x. unat x \<notin> hdrs (ys @ (b, k) # us) \<longrightarrow> ?m x = m x"
    using pc cs(9,10) snoc cj by (auto intro!: set_chunk_next_frame)
  ultimately show ?thesis using snoc cj pc prev by (simp add: malloc_rep_def)
qed

lemma shrink_rep:
  assumes rep: "malloc_rep a m (ys @ (b, k) # us)" and q: "flseg m (first_free a) ys q"
    and sz: "0 < unat sz" "unat sz < k" "8 dvd unat sz"
  shows "unat (q + chunk_size m q - sz) = b + k - unat sz"
    "malloc_rep a (set_chunk_size q (chunk_size m q - sz) m) (ys @ (b, k - unat sz) # us)"
    "unat x \<notin> hdrs (ys @ (b, k) # us) \<Longrightarrow> set_chunk_size q (chunk_size m q - sz) m x = m x"
proof -
  note qs = malloc_rep_split [OF rep q]
  have "unat (q + chunk_size m q) = b + k" using qs by (simp add: unat_plus_u32 heap_top_def)
  then show "unat (q + chunk_size m q - sz) = b + k - unat sz"
    using sz by (simp add: unat_sub word_le_nat_alt)
  have v: "unat (chunk_size m q - sz) = k - unat sz" using sz qs by (simp add: unat_sub word_le_nat_alt)
  have "flseg (set_chunk_size q (chunk_size m q - sz) m) (first_free a)
          (ys @ (unat q, unat (chunk_size m q - sz)) # us) 0"
    by (rule flseg_update [OF q qs(5) qs(4,7)]) (use qs set_chunk_size_frame in auto)
  moreover have "fl_ok 0 (ys @ (b, k - unat sz) # us)"
    using rep sz by (auto simp: malloc_rep_def fl_ok_append intro: fl_ok_mono [of "b + k"])
  ultimately show "malloc_rep a (set_chunk_size q (chunk_size m q - sz) m) (ys @ (b, k - unat sz) # us)"
    using v qs by (simp add: malloc_rep_def)
  show "unat x \<notin> hdrs (ys @ (b, k) # us) \<Longrightarrow> set_chunk_size q (chunk_size m q - sz) m x = m x"
    using qs by (intro set_chunk_size_frame) auto
qed

lemma malloc_scan_rep:
  assumes "malloc_rep a m xs" "unat sz < heap_top"
  obtains ys zs q where "malloc_scan m sz 0 (first_free a) = Some (prev_of 0 ys, q)" "xs = ys @ zs"
    "flseg m (first_free a) ys q" "flseg m q zs 0" "zs = [] \<or> unat sz \<le> snd (hd zs)"
    "fl_alloc (unat sz) xs = (case fl_alloc (unat sz) zs of None \<Rightarrow> None | Some (p, us) \<Rightarrow> Some (p, ys @ us))"
  using assms malloc_scan_spec [of m "first_free a" xs 0 sz 0]
  by (force simp: malloc_rep_def fl_alloc_append)

lemma malloc_refines:
  assumes rep: "malloc_rep a m xs" and sizes: "0 < unat sz0" "unat sz0 \<le> heap_top - 8"
  shows "case fl_alloc (round8 (unat sz0)) xs of
           None \<Rightarrow> malloc a m sz0 = Some (0, a, m)
         | Some (r, ys) \<Rightarrow> \<exists>r' a' m'. malloc a m sz0 = Some (r', a', m') \<and> unat r' = r
             \<and> malloc_rep a' m' ys \<and> mem_type a' = mem_type a
             \<and> (\<forall>x. unat x \<notin> hdrs xs \<longrightarrow> m' x = m x)" (is "?goal")
proof -
  define sz where "sz = ALIGN_UP sz0 MIN_CHUNK_SIZE"
  have s: "unat sz = round8 (unat sz0)" "0 < unat sz" "8 dvd unat sz" "unat sz < heap_top"
    using sizes unat_MIN_ALIGN [of sz0] round8_le [of "unat sz0" "heap_top - 8"]
    by (auto simp: sz_def heap_top_def)
  obtain ys zs q where scan: "malloc_scan m sz 0 (first_free a) = Some (prev_of 0 ys, q)" "xs = ys @ zs"
    "flseg m (first_free a) ys q" "flseg m q zs 0" "zs = [] \<or> unat sz \<le> snd (hd zs)"
    "fl_alloc (unat sz) xs = (case fl_alloc (unat sz) zs of None \<Rightarrow> None | Some (p, us) \<Rightarrow> Some (p, ys @ us))"
    using malloc_scan_rep [OF rep s(4)] by blast
  note code = malloc_def [of a m sz0, folded sz_def, unfolded Let_def scan(1) option.case prod.case]
  show ?goal
  proof (cases zs rule: fl_bytes.cases)
    case 1
    then show ?thesis using scan code s by simp
  next
    case (2 b k us)
    then have rep': "malloc_rep a m (ys @ (b, k) # us)" using rep scan by simp
    note qs = malloc_rep_split [OF rep' scan(3)]
    show ?thesis
    proof (cases "k = unat sz")
      case True
      then have "chunk_size m q = sz" using qs by (simp add: word_unat_eq_iff)
      then show ?thesis using unlink_rep [OF rep' scan(3)] code qs True scan(2,6) 2 s(1) by auto
    next
      case False
      then have "unat sz < k" "chunk_size m q \<noteq> sz" using scan(5) 2 qs by auto
      then show ?thesis using shrink_rep [OF rep' scan(3) s(2) _ s(3)] code qs False scan(2,6) 2 s(1)
        by auto
    qed
  qed
qed

subsection \<open>Freeing refines coalescing insertion\<close>

definition write_chunk :: "mem \<Rightarrow> u32 \<Rightarrow> u32 \<Rightarrow> u32 \<Rightarrow> mem" where
  "write_chunk m chunk sz nxt =
     (if chunk + sz = nxt
      then (let m' = set_chunk_size chunk (sz + chunk_size m nxt) m in
            set_chunk_next chunk (chunk_next m' nxt) m')
      else set_chunk_next chunk nxt (set_chunk_size chunk sz m))"

lemma write_chunk_frame:
  "unat chunk + 8 < 4294967296 \<Longrightarrow> unat x \<notin> block (unat chunk) 8 \<Longrightarrow>
   write_chunk m chunk sz nxt x = m x"
  by (simp add: write_chunk_def Let_def set_chunk_next_frame set_chunk_size_frame)

lemma write_chunk_rep:
  assumes zs: "flseg m q zs 0" "fl_ok lo zs" "zs = [] \<or> unat chunk + unat sz \<le> fst (hd zs)"
    and c: "chunk \<noteq> 0" "unat chunk + unat sz \<le> heap_top" "8 \<le> unat sz"
  shows "\<exists>v us. fl_join (unat chunk, unat sz) zs = (unat chunk, v) # us
           \<and> flseg (write_chunk m chunk sz q) chunk ((unat chunk, v) # us) 0"
proof -
  have sum: "unat (chunk + sz) = unat chunk + unat sz" using c by (simp add: unat_plus_u32 heap_top_def)
  have c8: "unat chunk + 8 < 4294967296" using c by (simp add: heap_top_def)
  let ?m = "write_chunk m chunk sz q"
  have above: "block (unat chunk) 8 \<inter> hdrs us = {}" if "fl_ok lo us" "us = [] \<or> unat chunk + unat sz \<le> fst (hd us)" for us lo
  proof -
    have "fl_ok (unat chunk + unat sz - 1) us" using that c by (cases us rule: fl_bytes.cases) auto
    then show ?thesis using hdrs_bytes fl_ok_not_bytes c by (fastforce simp: block_def)
  qed
  show ?thesis
  proof (cases "zs \<noteq> [] \<and> fst (hd zs) = unat chunk + unat sz")
    case True
    then obtain k us where z: "zs = (unat chunk + unat sz, k) # us" by (cases zs rule: fl_bytes.cases) auto
    then have q: "q = chunk + sz" "unat (chunk_size m q) = k" "flseg m (chunk_next m q) us 0"
      using zs sum by (auto simp: word_unat_eq_iff)
    have us: "fl_ok (unat chunk + unat sz + k) us" "unat chunk + unat sz + k \<le> heap_top" using zs z by auto
    have dis: "block (unat chunk) 8 \<inter> hdrs us = {}"
      by (rule above [OF us(1)]) (use us in \<open>cases us rule: fl_bytes.cases; simp\<close>)
    have nx: "chunk_next (set_chunk_size chunk w m) q = chunk_next m q" for w
      using c8 q sum c by (intro chunk_cong set_chunk_size_frame) (auto simp: block_def heap_top_def)
    have "flseg ?m chunk ((unat chunk, unat (sz + chunk_size m q)) # us) 0"
      using q nx c8 dis c
      by (intro flseg_cons_write [OF q(3) us(1)])
        (auto simp: write_chunk_def Let_def set_chunk_next_frame set_chunk_size_frame)
    moreover have "unat (sz + chunk_size m q) = unat sz + k"
      using q us by (simp add: unat_plus_u32 heap_top_def)
    ultimately show ?thesis using z by auto
  next
    case False
    then have j: "fl_join (unat chunk, unat sz) zs = (unat chunk, unat sz) # zs"
      by (cases zs rule: fl_bytes.cases) auto
    have ne: "chunk + sz \<noteq> q"
      using False zs sum c by (cases zs rule: fl_bytes.cases) auto
    have "flseg ?m chunk ((unat chunk, unat sz) # zs) 0"
      using zs ne c8 above [OF zs(2,3)] c
      by (intro flseg_cons_write [OF zs(1,2)])
        (auto simp: write_chunk_def Let_def set_chunk_next_frame set_chunk_size_frame)
    then show ?thesis using j by blast
  qed
qed

definition link_chunk :: "malloc_t \<Rightarrow> mem \<Rightarrow> u32 \<Rightarrow> u32 \<Rightarrow> malloc_t \<times> mem" where
  "link_chunk a m1 prev chunk =
     (if prev \<noteq> 0 then
        if prev + chunk_size m1 prev = chunk
        then (let m2 = set_chunk_size prev (chunk_size m1 prev + chunk_size m1 chunk) m1 in
              (a, set_chunk_next prev (chunk_next m2 chunk) m2))
        else (a, set_chunk_next prev chunk m1)
      else (a\<lparr>first_free := chunk\<rparr>, m1))"

lemma malloc_free_parts:
  "malloc_free a m chunk sz0 =
     (case malloc_free_scan m chunk 0 (first_free a) of
        None \<Rightarrow> None
      | Some (prev, nxt) \<Rightarrow>
          Some (link_chunk a (write_chunk m chunk (ALIGN_UP sz0 MIN_CHUNK_SIZE) nxt) prev chunk))"
  by (simp add: malloc_free_def link_chunk_def write_chunk_def Let_def cong: if_cong split: option.split)

lemma link_chunk_rep:
  assumes ws: "flseg m p ws pb" "pb \<noteq> 0" "unat pb = b" "unat (chunk_size m pb) = k" "8 \<le> k"
    and ch: "flseg m chunk ((c, v) # us) 0" "fl_ok lo ((c, v) # us)" "b + k \<le> c"
    and ok: "fl_ok 0 (ws @ fl_join (b, k) ((c, v) # us))"
  shows "\<exists>m'. link_chunk a m pb chunk = (a, m')
           \<and> flseg m' p (ws @ fl_join (b, k) ((c, v) # us)) 0
           \<and> (\<forall>x. unat x \<notin> block b 8 \<longrightarrow> m' x = m x)"
proof -
  have cv: "chunk \<noteq> 0" "unat chunk = c" "unat (chunk_size m chunk) = v" "flseg m (chunk_next m chunk) us 0"
    using ch by auto
  have bk: "unat (pb + chunk_size m pb) = b + k" using ws ch by (simp add: unat_plus_u32 heap_top_def)
  show ?thesis
  proof (cases "b + k = c")
    case True
    then have ok': "fl_ok 0 (ws @ (b, k + v) # us)" using ok by simp
    note sp = fl_ok_split_hdrs [OF ok']
    let ?v = "chunk_size m pb + chunk_size m chunk"
    let ?m2 = "set_chunk_size pb ?v m"
    let ?m = "set_chunk_next pb (chunk_next ?m2 chunk) ?m2"
    have "pb + chunk_size m pb = chunk" using bk True cv by (simp add: word_unat_eq_iff)
    then have l: "link_chunk a m pb chunk = (a, ?m)" using ws by (simp add: link_chunk_def Let_def)
    have v: "unat ?v = k + v" using ws cv ch by (simp add: unat_plus_u32 heap_top_def)
    have nx: "chunk_next ?m2 chunk = chunk_next m chunk"
      using cv ws sp True ch by (intro chunk_cong set_chunk_size_frame) (auto simp: block_def heap_top_def)
    have "flseg ?m p (ws @ (unat pb, unat ?v) # us) 0"
      by (rule flseg_update [OF ws(1) _ cv(4)])
        (use ok' ws sp nx in \<open>auto simp: fl_ok_append set_chunk_next_frame set_chunk_size_frame\<close>)
    then show ?thesis using l v ws True sp by (auto simp: set_chunk_next_frame set_chunk_size_frame)
  next
    case False
    then have ok': "fl_ok 0 (ws @ (b, k) # (c, v) # us)" using ok by simp
    note sp = fl_ok_split_hdrs [OF ok']
    have "pb + chunk_size m pb \<noteq> chunk" using bk False cv by (metis)
    then have l: "link_chunk a m pb chunk = (a, set_chunk_next pb chunk m)"
      using ws by (simp add: link_chunk_def)
    have "flseg (set_chunk_next pb chunk m) p (ws @ (unat pb, unat (chunk_size m pb)) # (c, v) # us) 0"
      by (rule flseg_update [OF ws(1) _ ch(1)])
        (use ok' ws sp in \<open>auto simp: fl_ok_append set_chunk_next_frame\<close>)
    then show ?thesis using l ws False sp by (auto simp: set_chunk_next_frame)
  qed
qed


lemma malloc_free_scan_rep:
  assumes "malloc_rep a m xs"
  obtains ys zs q where "malloc_free_scan m c 0 (first_free a) = Some (prev_of 0 ys, q)" "xs = ys @ zs"
    "flseg m (first_free a) ys q" "flseg m q zs 0" "zs = [] \<or> unat c \<le> fst (hd zs)"
    "\<forall>(b, k) \<in> set ys. b < unat c"
  using assms malloc_free_scan_spec [of m "first_free a" xs 0 c 0]
  by (force simp: malloc_rep_def)

lemma below_chunk:
  assumes "fl_ok lo xs" "(b, k) \<in> set xs" "b < c" "block c s \<inter> fl_bytes xs = {}" "0 < s"
  shows "b + k \<le> c"
proof (rule ccontr)
  assume "\<not> b + k \<le> c"
  moreover have "block b k \<subseteq> fl_bytes xs"
    using assms(2) by (induction xs rule: fl_bytes.induct) auto
  ultimately have "c \<in> fl_bytes xs" "c \<in> block c s" using assms by (auto simp: block_def)
  then show False using assms(4) by blast
qed

lemma above_chunk:
  assumes "fl_ok lo xs" "(b, k) \<in> set xs" "c \<le> b" "block c s \<inter> fl_bytes xs = {}" "0 < s"
  shows "c + s \<le> b"
proof (rule ccontr)
  assume "\<not> c + s \<le> b"
  moreover have "block b k \<subseteq> fl_bytes xs"
    using assms(2) by (induction xs rule: fl_bytes.induct) auto
  moreover have "0 < k" using fl_ok_member [OF assms(1,2)] by simp
  ultimately have "b \<in> fl_bytes xs" "b \<in> block c s" using assms by (auto simp: block_def)
  then show False using assms(4) by blast
qed

lemma fl_free_front: "zs = [] \<or> c \<le> fst (hd zs) \<Longrightarrow> fl_free c s zs = fl_join (c, s) zs"
  by (cases zs rule: fl_bytes.cases) auto

lemma link_after_rep:
  assumes ws: "flseg m p (ws @ [(b, k)]) q" "fl_ok 0 (ws @ [(b, k)])" "b + k \<le> c"
    and m1: "\<And>x. unat x \<notin> block c 8 \<Longrightarrow> m1 x = m x"
    and ch: "flseg m1 chunk ((c, v) # us) 0" "fl_ok lo ((c, v) # us)"
    and ok: "fl_ok 0 (ws @ fl_join (b, k) ((c, v) # us))"
  shows "\<exists>m'. link_chunk a m1 (prev_of 0 (ws @ [(b, k)])) chunk = (a, m')
           \<and> flseg m' p (ws @ fl_join (b, k) ((c, v) # us)) 0
           \<and> (\<forall>x. unat x \<notin> block b 8 \<longrightarrow> m' x = m1 x)"
proof -
  obtain pb where pb: "flseg m p ws pb" "pb \<noteq> 0" "unat pb = b" "unat (chunk_size m pb) = k"
    using ws flseg_snocD by blast
  then have prev: "prev_of 0 (ws @ [(b, k)]) = pb" by (auto simp: prev_of_def)
  have k: "8 \<le> k" "fl_ok 0 ws" "b + k \<le> heap_top"
    using ws(2) by (auto simp: fl_ok_append dest: dvd_imp_le)
  have below: "\<And>x. x \<in> hdrs ws \<union> block b 8 \<Longrightarrow> x < c"
    using hdrs_bytes [OF ws(2)] fl_bytes_less_end [OF ws(2)] ws(3) by fastforce
  have "flseg m1 p ws pb"
    by (rule flseg_frame [OF pb(1) k(2)]) (use below m1 in \<open>force simp: block_def\<close>)
  moreover have "chunk_size m1 pb = chunk_size m pb"
    using pb k below by (intro chunk_cong m1) (force simp: heap_top_def block_def)+
  ultimately show ?thesis unfolding prev using pb k ws ch ok by (intro link_chunk_rep) auto
qed

lemma malloc_free_refines:
  assumes rep: "malloc_rep a m xs"
    and c: "chunk \<noteq> 0" "8 dvd unat chunk" "0 < unat sz0"
      "unat chunk + round8 (unat sz0) \<le> heap_top"
      "block (unat chunk) (round8 (unat sz0)) \<inter> fl_bytes xs = {}"
  shows "\<exists>a' m'. malloc_free a m chunk sz0 = Some (a', m')
           \<and> malloc_rep a' m' (fl_free (unat chunk) (round8 (unat sz0)) xs) \<and> mem_type a' = mem_type a
           \<and> (\<forall>x. unat x \<notin> hdrs xs \<union> block (unat chunk) 8 \<longrightarrow> m' x = m x)"
proof -
  define sz where "sz = ALIGN_UP sz0 MIN_CHUNK_SIZE"
  have cpos: "0 < unat chunk" "8 \<le> unat chunk" using c by (auto simp: unat_gt_0 dest: dvd_imp_le)
  then have s: "unat sz = round8 (unat sz0)" "8 dvd unat sz" "8 \<le> unat sz"
    using c unat_MIN_ALIGN [of sz0] round8_ge [of "unat sz0"] dvd_imp_le [OF round8_dvd, of "unat sz0"]
    by (auto simp: sz_def heap_top_def dest: dvd_imp_le)
  have okx: "fl_ok 0 xs" using rep by (simp add: malloc_rep_def)
  obtain ys zs q where scan: "malloc_free_scan m chunk 0 (first_free a) = Some (prev_of 0 ys, q)"
    "xs = ys @ zs" "flseg m (first_free a) ys q" "flseg m q zs 0" "zs = [] \<or> unat chunk \<le> fst (hd zs)"
    "\<forall>(b, k) \<in> set ys. b < unat chunk"
    using malloc_free_scan_rep [OF rep, of chunk thesis] by blast
  have ok: "fl_ok 0 (fl_free (unat chunk) (unat sz) xs)"
    using fl_free_ok [OF okx] c cpos s by simp
  have okz: "fl_ok (fl_end 0 ys) zs" using okx scan by (simp add: fl_ok_append)
  have hz: "zs = [] \<or> unat chunk + unat sz \<le> fst (hd zs)"
    using above_chunk [OF okx, of "fst (hd zs)" "snd (hd zs)" "unat chunk" "unat sz"] scan c s
    by (cases zs) auto
  let ?m1 = "write_chunk m chunk sz q"
  obtain v us where ch: "fl_join (unat chunk, unat sz) zs = (unat chunk, v) # us"
      "flseg ?m1 chunk ((unat chunk, v) # us) 0"
    using write_chunk_rep [OF scan(4) okz hz c(1)] c s by auto
  have code: "malloc_free a m chunk sz0 = Some (link_chunk a ?m1 (prev_of 0 ys) chunk)"
    using scan by (simp add: malloc_free_parts sz_def)
  have fr: "\<And>x. unat x \<notin> block (unat chunk) 8 \<Longrightarrow> ?m1 x = m x"
    using c s by (intro write_chunk_frame) (auto simp: heap_top_def)
  show ?thesis
  proof (cases ys rule: rev_cases)
    case Nil
    then show ?thesis
      using code ch fr ok scan s fl_free_front [OF scan(5), of "unat sz"]
      by (auto simp: prev_of_def link_chunk_def malloc_rep_def)
  next
    case (snoc ws bk)
    obtain b k where bk: "bk = (b, k)" by (cases bk)
    have "b < unat chunk" "b + k \<le> unat chunk"
      using scan(2,6) snoc bk below_chunk [OF okx, of b k "unat chunk" "unat sz"] c s by auto
    moreover have "fl_free (unat chunk) (unat sz) xs = ws @ fl_join (b, k) ((unat chunk, v) # us)"
      using fl_free_append [of 0 ws b k "unat chunk" zs "unat sz"] scan okx snoc bk ch calculation
      by (simp add: fl_ok_append)
    moreover have "fl_ok (unat chunk) zs"
      using okz hz s(3) by (cases zs rule: fl_bytes.cases) auto
    then have "fl_ok (unat chunk - 1) (fl_join (unat chunk, unat sz) zs)"
      using c s cpos scan(2) by (intro fl_join_ok s(2)) auto
    then have "fl_ok (unat chunk - 1) ((unat chunk, v) # us)" by (simp only: ch(1))
    ultimately show ?thesis
      using link_after_rep [of m "first_free a" ws b k q "unat chunk" ?m1 chunk v us "unat chunk - 1" a]
        scan snoc bk ch fr ok okx code s(1) by (auto simp: malloc_rep_def fl_ok_append)
  qed
qed

end
