(* ===== verification/Allocator.thy ===== *)
theory Allocator
  imports FreeList
begin

text \<open>
  The interface between an allocator and its clients. The client sees an opaque state, a request
  and a release operation and its own reads and writes of memory; the locale lists what an
  allocator promises, and the client's guarantees are proved once from that: live blocks never
  overlap, no byte is lost or handed out twice, and nobody else writes into a live block.
\<close>

type_synonym blk = "u32 \<times> u32"

definition span :: "blk \<Rightarrow> nat set" where
  "span b = block (unat (fst b)) (round8 (unat (snd b)))"

definition size_ok :: "u32 \<Rightarrow> bool" where
  "size_ok n \<longleftrightarrow> 0 < unat n \<and> unat n \<le> heap_top - 8"

definition blk_ok :: "blk \<Rightarrow> bool" where
  "blk_ok b \<longleftrightarrow> fst b \<noteq> 0 \<and> 8 dvd unat (fst b) \<and> 0 < unat (snd b)
     \<and> unat (fst b) + round8 (unat (snd b)) \<le> heap_top"

datatype heap_op = Get u32 | Put blk | Store blk u32 u8

inductive heap_run ::
  "('s \<Rightarrow> u32 \<Rightarrow> (u32 \<times> 's) option) \<Rightarrow> ('s \<Rightarrow> u32 \<Rightarrow> u32 \<Rightarrow> 's option) \<Rightarrow> ('s \<Rightarrow> u32 \<Rightarrow> u8 \<Rightarrow> 's)
   \<Rightarrow> 's \<times> blk list \<Rightarrow> heap_op list \<Rightarrow> 's \<times> blk list \<Rightarrow> bool"
  for get put poke where
  run_nil: "heap_run get put poke c [] c"
| run_get: "heap_run get put poke c os (s, L) \<Longrightarrow> size_ok n \<Longrightarrow> get s n = Some (r, s') \<Longrightarrow> r \<noteq> 0 \<Longrightarrow>
    heap_run get put poke c (os @ [Get n]) (s', (r, n) # L)"
| run_get_fail: "heap_run get put poke c os (s, L) \<Longrightarrow> size_ok n \<Longrightarrow> get s n = Some (0, s') \<Longrightarrow>
    heap_run get put poke c (os @ [Get n]) (s', L)"
| run_put: "heap_run get put poke c os (s, L) \<Longrightarrow> b \<in> set L \<Longrightarrow> put s (fst b) (snd b) = Some s' \<Longrightarrow>
    heap_run get put poke c (os @ [Put b]) (s', remove1 b L)"
| run_store: "heap_run get put poke c os (s, L) \<Longrightarrow> b \<in> set L \<Longrightarrow> unat x \<in> span b \<Longrightarrow>
    heap_run get put poke c (os @ [Store b x v]) (poke s x v, L)"

fun live_disjoint :: "blk list \<Rightarrow> bool" where
  "live_disjoint [] = True"
| "live_disjoint (b # L) = ((\<forall>c \<in> set L. span b \<inter> span c = {}) \<and> live_disjoint L)"

definition live_bytes :: "blk list \<Rightarrow> nat set" where
  "live_bytes L = (\<Union>b \<in> set L. span b)"

lemma live_bytes_simps [simp]: "live_bytes [] = {}" "live_bytes (b # L) = span b \<union> live_bytes L"
  by (auto simp: live_bytes_def)

lemma live_disjoint_remove1: "live_disjoint L \<Longrightarrow> live_disjoint (remove1 b L)"
proof (induction L)
  case (Cons a L)
  then show ?case using set_remove1_subset [of b L] by auto
qed simp

lemma live_bytes_remove1:
  "live_disjoint L \<Longrightarrow> b \<in> set L \<Longrightarrow> live_bytes (remove1 b L) = live_bytes L - span b"
  by (induction L) (auto simp: live_bytes_def)

lemma live_disjoint_other:
  "live_disjoint L \<Longrightarrow> b \<in> set L \<Longrightarrow> c \<in> set (remove1 b L) \<Longrightarrow> span b \<inter> span c = {}"
  by (induction L) (auto split: if_splits)

locale allocator =
  fixes inv :: "'s \<Rightarrow> bool"
    and free_set :: "'s \<Rightarrow> nat set"
    and get :: "'s \<Rightarrow> u32 \<Rightarrow> (u32 \<times> 's) option"
    and put :: "'s \<Rightarrow> u32 \<Rightarrow> u32 \<Rightarrow> 's option"
    and peek :: "'s \<Rightarrow> u32 \<Rightarrow> u8"
    and poke :: "'s \<Rightarrow> u32 \<Rightarrow> u8 \<Rightarrow> 's"
  assumes get_law: "inv s \<Longrightarrow> size_ok n \<Longrightarrow> \<exists>r s'. get s n = Some (r, s') \<and> inv s'
        \<and> (if r = 0 then free_set s' = free_set s
           else blk_ok (r, n) \<and> span (r, n) \<subseteq> free_set s \<and> free_set s' = free_set s - span (r, n))
        \<and> (\<forall>x. unat x \<notin> free_set s \<longrightarrow> peek s' x = peek s x)"
    and put_law: "inv s \<Longrightarrow> blk_ok b \<Longrightarrow> span b \<inter> free_set s = {} \<Longrightarrow>
        \<exists>s'. put s (fst b) (snd b) = Some s' \<and> inv s' \<and> free_set s' = free_set s \<union> span b
        \<and> (\<forall>x. unat x \<notin> free_set s' \<longrightarrow> peek s' x = peek s x)"
    and poke_law: "inv s \<Longrightarrow> unat x \<notin> free_set s \<Longrightarrow>
        inv (poke s x v) \<and> free_set (poke s x v) = free_set s \<and> peek (poke s x v) = (peek s)(x := v)"
begin

definition client_inv :: "nat set \<Rightarrow> 's \<times> blk list \<Rightarrow> bool" where
  "client_inv F c \<longleftrightarrow> inv (fst c) \<and> live_disjoint (snd c) \<and> (\<forall>b \<in> set (snd c). blk_ok b)
     \<and> live_bytes (snd c) \<inter> free_set (fst c) = {} \<and> live_bytes (snd c) \<union> free_set (fst c) = F"

lemma client_inv_put:
  assumes "client_inv F (s, L)" "b \<in> set L"
  shows "\<exists>s'. put s (fst b) (snd b) = Some s' \<and> client_inv F (s', remove1 b L)
           \<and> (\<forall>x. unat x \<notin> free_set s' \<longrightarrow> peek s' x = peek s x)"
proof -
  have b: "inv s" "blk_ok b" "span b \<inter> free_set s = {}" "span b \<subseteq> live_bytes L"
    using assms by (auto simp: client_inv_def live_bytes_def)
  obtain s' where s': "put s (fst b) (snd b) = Some s'" "inv s'" "free_set s' = free_set s \<union> span b"
      "\<forall>x. unat x \<notin> free_set s' \<longrightarrow> peek s' x = peek s x"
    using put_law [OF b(1-3)] by blast
  moreover have "live_bytes (remove1 b L) = live_bytes L - span b" "live_disjoint (remove1 b L)"
    using assms live_bytes_remove1 live_disjoint_remove1 by (auto simp: client_inv_def)
  ultimately show ?thesis using assms b by (auto simp: client_inv_def dest: notin_set_remove1)
qed

lemma client_inv_get:
  assumes "client_inv F (s, L)" "size_ok n"
  shows "\<exists>r s'. get s n = Some (r, s') \<and> client_inv F (s', if r = 0 then L else (r, n) # L)
           \<and> (\<forall>x. unat x \<notin> free_set s \<longrightarrow> peek s' x = peek s x)"
proof -
  obtain r s' where g: "get s n = Some (r, s')" "inv s'"
      "if r = 0 then free_set s' = free_set s
       else blk_ok (r, n) \<and> span (r, n) \<subseteq> free_set s \<and> free_set s' = free_set s - span (r, n)"
      "\<forall>x. unat x \<notin> free_set s \<longrightarrow> peek s' x = peek s x"
    using get_law assms by (force simp: client_inv_def)
  moreover from this assms have "client_inv F (s', if r = 0 then L else (r, n) # L)"
    by (cases "r = 0") (auto simp: client_inv_def live_bytes_def)
  ultimately show ?thesis by blast
qed

lemma client_inv_store:
  assumes "client_inv F (s, L)" "b \<in> set L" "unat x \<in> span b"
  shows "client_inv F (poke s x v, L)" "peek (poke s x v) = (peek s)(x := v)"
proof -
  have "inv s" "unat x \<notin> free_set s" using assms by (auto simp: client_inv_def live_bytes_def)
  from poke_law [OF this] show "client_inv F (poke s x v, L)" "peek (poke s x v) = (peek s)(x := v)"
    using assms by (auto simp: client_inv_def)
qed

lemma heap_run_inv:
  "heap_run get put poke c os c' \<Longrightarrow> client_inv F c \<Longrightarrow> client_inv F c'"
proof (induction rule: heap_run.induct)
  case (run_get c os s L n r s')
  then show ?case using client_inv_get [of F s L n] by auto
next
  case (run_get_fail c os s L n s')
  then show ?case using client_inv_get [of F s L n] by auto
next
  case (run_put c os s L b s')
  then show ?case using client_inv_put [of F s L b] by auto
qed (auto dest: client_inv_store)

lemma get_never_stuck:
  "heap_run get put poke c os (s, L) \<Longrightarrow> client_inv F c \<Longrightarrow> size_ok n \<Longrightarrow> get s n \<noteq> None"
  using heap_run_inv [of c os "(s, L)" F] client_inv_get [of F s L n] by auto

lemma put_never_stuck:
  "heap_run get put poke c os (s, L) \<Longrightarrow> client_inv F c \<Longrightarrow> b \<in> set L \<Longrightarrow> put s (fst b) (snd b) \<noteq> None"
  using heap_run_inv [of c os "(s, L)" F] client_inv_put [of F s L b] by auto

lemma conservation:
  assumes "heap_run get put poke (s, []) os (s', L)" "inv s"
  shows "live_disjoint L" "live_bytes L \<inter> free_set s' = {}" "live_bytes L \<union> free_set s' = free_set s"
  using heap_run_inv [OF assms(1), of "free_set s"] assms(2) by (auto simp: client_inv_def)

lemma no_leak:
  assumes "heap_run get put poke (s, []) os (s', [])" "inv s"
  shows "free_set s' = free_set s"
  using conservation [OF assms] by simp

lemma data_kept:
  assumes "client_inv F (s, L)" "b \<in> set L" "unat x \<in> span b"
  shows "size_ok n \<Longrightarrow> get s n = Some (r, s') \<Longrightarrow> peek s' x = peek s x"
    and "c \<in> set (remove1 b L) \<Longrightarrow> put s (fst c) (snd c) = Some s' \<Longrightarrow> peek s' x = peek s x"
    and "c \<in> set (remove1 b L) \<Longrightarrow> unat y \<in> span c \<Longrightarrow> peek (poke s y v) x = peek s x"
proof -
  have x: "unat x \<notin> free_set s" using assms by (auto simp: client_inv_def live_bytes_def)
  show "size_ok n \<Longrightarrow> get s n = Some (r, s') \<Longrightarrow> peek s' x = peek s x"
    using client_inv_get [OF assms(1), of n] x by auto
  have d: "c \<in> set L \<and> span b \<inter> span c = {}" if "c \<in> set (remove1 b L)"
    using assms that live_disjoint_other [of L b c] by (auto simp: client_inv_def dest: notin_set_remove1)
  show "peek s' x = peek s x" if c: "c \<in> set (remove1 b L)" "put s (fst c) (snd c) = Some s'"
  proof -
    have "blk_ok c" "span c \<inter> free_set s = {}" "inv s"
      using d [OF c(1)] assms(1) by (auto simp: client_inv_def live_bytes_def)
    with put_law [of s c] c d [OF c(1)] x assms(3) show ?thesis by auto
  qed
  show "c \<in> set (remove1 b L) \<Longrightarrow> unat y \<in> span c \<Longrightarrow> peek (poke s y v) x = peek s x"
    using d client_inv_store(2) [OF assms(1), of c y v] assms(3) by auto
qed

end

end
