(* ===== verification/MallocHeap.thy ===== *)
theory MallocHeap
  imports MallocRefine Allocator
begin

text \<open>
  The internal allocator as a provider of the allocator interface, and what its clients get.
\<close>

type_synonym heap = "malloc_t \<times> mem"

definition heap_inv :: "heap \<Rightarrow> bool" where
  "heap_inv h \<longleftrightarrow> (\<exists>xs. malloc_rep (fst h) (snd h) xs)"

definition heap_free :: "heap \<Rightarrow> nat set" where
  "heap_free h = {x. \<exists>xs. malloc_rep (fst h) (snd h) xs \<and> x \<in> fl_bytes xs}"

definition heap_get :: "heap \<Rightarrow> u32 \<Rightarrow> (u32 \<times> heap) option" where
  "heap_get h n = malloc (fst h) (snd h) n"

definition heap_put :: "heap \<Rightarrow> u32 \<Rightarrow> u32 \<Rightarrow> heap option" where
  "heap_put h p n = malloc_free (fst h) (snd h) p n"

definition heap_peek :: "heap \<Rightarrow> u32 \<Rightarrow> u8" where
  "heap_peek h x = snd h x"

definition heap_poke :: "heap \<Rightarrow> u32 \<Rightarrow> u8 \<Rightarrow> heap" where
  "heap_poke h x v = (fst h, (snd h)(x := v))"

lemmas heap_defs = heap_get_def heap_put_def heap_peek_def heap_poke_def

lemma flseg_unique: "flseg m p xs 0 \<Longrightarrow> flseg m p ys 0 \<Longrightarrow> xs = ys"
proof (induction xs arbitrary: p ys rule: fl_bytes.induct)
  case 1
  then show ?case by (cases ys rule: fl_bytes.cases) auto
next
  case (2 a n xs)
  then show ?case by (cases ys rule: fl_bytes.cases) auto
qed

lemma malloc_rep_unique: "malloc_rep a m xs \<Longrightarrow> malloc_rep a m ys \<Longrightarrow> xs = ys"
  using flseg_unique by (auto simp: malloc_rep_def)

lemma heap_free_rep: "malloc_rep (fst h) (snd h) xs \<Longrightarrow> heap_free h = fl_bytes xs"
  unfolding heap_free_def by (blast dest: malloc_rep_unique [of "fst h" "snd h" xs])

lemma malloc_rep_ok: "malloc_rep a m xs \<Longrightarrow> fl_ok 0 xs"
  by (simp add: malloc_rep_def)

lemma malloc_rep_hdrs: "malloc_rep a m xs \<Longrightarrow> hdrs xs \<subseteq> fl_bytes xs"
  using hdrs_bytes malloc_rep_ok by blast

lemma malloc_rep_cong:
  "malloc_rep a m xs \<Longrightarrow> (\<And>x. unat x \<in> fl_bytes xs \<Longrightarrow> m' x = m x) \<Longrightarrow> malloc_rep a m' xs"
  unfolding malloc_rep_def using hdrs_bytes flseg_frame by (metis subsetD)

lemma fl_bytes_heap_top: "fl_ok lo xs \<Longrightarrow> block p s \<subseteq> fl_bytes xs \<Longrightarrow> 0 < s \<Longrightarrow> p + s \<le> heap_top"
proof -
  assume a: "fl_ok lo xs" "block p s \<subseteq> fl_bytes xs" "0 < s"
  then have "p + s - 1 \<in> fl_bytes xs" by (auto simp: block_def)
  then show ?thesis using fl_ok_bytes [OF a(1)] a(3) by fastforce
qed

lemma heap_get_law:
  assumes "heap_inv h" "size_ok n"
  shows "\<exists>r h'. heap_get h n = Some (r, h') \<and> heap_inv h'
        \<and> (if r = 0 then heap_free h' = heap_free h
           else blk_ok (r, n) \<and> span (r, n) \<subseteq> heap_free h \<and> heap_free h' = heap_free h - span (r, n))
        \<and> (\<forall>x. unat x \<notin> heap_free h \<longrightarrow> heap_peek h' x = heap_peek h x)"
proof -
  obtain a m where h: "h = (a, m)" by (cases h)
  then obtain xs where rep: "malloc_rep a m xs" using assms(1) by (auto simp: heap_inv_def)
  have free: "heap_free h = fl_bytes xs" using heap_free_rep rep h by simp
  have n: "0 < unat n" "unat n \<le> heap_top - 8" using assms(2) by (auto simp: size_ok_def)
  note R = malloc_refines [OF rep n]
  show ?thesis
  proof (cases "fl_alloc (round8 (unat n)) xs")
    case None
    then show ?thesis using R assms h by (auto simp: heap_defs)
  next
    case (Some py)
    obtain p ys where py: "py = (p, ys)" by (cases py)
    then obtain r a' m' where r: "malloc a m n = Some (r, a', m')" "unat r = p" "malloc_rep a' m' ys"
        "\<forall>x. unat x \<notin> hdrs xs \<longrightarrow> m' x = m x"
      using R Some by auto
    have "fl_alloc (round8 (unat n)) xs = Some (p, ys)" using Some py by simp
    from fl_alloc_ok [OF this malloc_rep_ok [OF rep]]
    have p: "8 dvd p" "0 < p" "block p (round8 (unat n)) \<subseteq> fl_bytes xs"
        "fl_bytes ys = fl_bytes xs - block p (round8 (unat n))"
      using n by auto
    have "p + round8 (unat n) \<le> heap_top" using fl_bytes_heap_top [OF malloc_rep_ok [OF rep] p(3)] n by simp
    moreover have "heap_free (a', m') = fl_bytes ys" using heap_free_rep r by simp
    ultimately show ?thesis
      using r p n h free malloc_rep_hdrs [OF rep]
      by (auto simp: heap_defs heap_inv_def blk_ok_def span_def)
  qed
qed

lemma heap_put_law:
  assumes "heap_inv h" "blk_ok b" "span b \<inter> heap_free h = {}"
  shows "\<exists>h'. heap_put h (fst b) (snd b) = Some h' \<and> heap_inv h' \<and> heap_free h' = heap_free h \<union> span b
        \<and> (\<forall>x. unat x \<notin> heap_free h' \<longrightarrow> heap_peek h' x = heap_peek h x)"
proof -
  obtain a m where h: "h = (a, m)" by (cases h)
  then obtain xs where rep: "malloc_rep a m xs" using assms(1) by (auto simp: heap_inv_def)
  have free: "heap_free h = fl_bytes xs" using heap_free_rep rep h by simp
  obtain p n where b: "b = (p, n)" by (cases b)
  have 8: "8 \<le> round8 (unat n)" using assms(2) b dvd_imp_le [OF round8_dvd, of "unat n"] by (simp add: blk_ok_def)
  obtain a' m' where r: "malloc_free a m p n = Some (a', m')"
      "malloc_rep a' m' (fl_free (unat p) (round8 (unat n)) xs)"
      "\<forall>x. unat x \<notin> hdrs xs \<union> block (unat p) 8 \<longrightarrow> m' x = m x"
    using malloc_free_refines [OF rep, of p n] assms b free by (auto simp: blk_ok_def span_def)
  have "heap_free (a', m') = fl_bytes xs \<union> span b"
    using heap_free_rep [of "(a', m')"] r(2) b by (auto simp: fl_free_bytes span_def)
  then show ?thesis
    using r h b free 8 malloc_rep_hdrs [OF rep]
    by (auto simp: heap_defs heap_inv_def span_def block_def)
qed

lemma heap_poke_law:
  assumes "heap_inv h" "unat x \<notin> heap_free h"
  shows "heap_inv (heap_poke h x v) \<and> heap_free (heap_poke h x v) = heap_free h
           \<and> heap_peek (heap_poke h x v) = (heap_peek h)(x := v)"
proof -
  obtain xs where rep: "malloc_rep (fst h) (snd h) xs" using assms(1) by (auto simp: heap_inv_def)
  then have "malloc_rep (fst h) ((snd h)(x := v)) xs"
    by (rule malloc_rep_cong) (use assms(2) heap_free_rep [OF rep] in auto)
  then show ?thesis using rep heap_free_rep [of "heap_poke h x v" xs] heap_free_rep [OF rep]
    by (auto simp: heap_defs heap_inv_def)
qed

interpretation ih: allocator heap_inv heap_free heap_get heap_put heap_peek heap_poke
  using heap_get_law heap_put_law heap_poke_law by unfold_locales blast+

subsection \<open>What the clients get\<close>

lemma heap_run_conserves:
  assumes "heap_run heap_get heap_put heap_poke ((a, m), []) os ((a', m'), L)" "malloc_rep a m xs"
  shows "\<exists>ys. malloc_rep a' m' ys \<and> live_disjoint L \<and> live_bytes L \<inter> fl_bytes ys = {}
           \<and> live_bytes L \<union> fl_bytes ys = fl_bytes xs"
proof -
  have inv: "heap_inv (a, m)" using assms(2) by (auto simp: heap_inv_def)
  then have "ih.client_inv (heap_free (a, m)) ((a, m), [])" by (simp add: ih.client_inv_def)
  from ih.heap_run_inv [OF assms(1) this] obtain ys where "malloc_rep a' m' ys"
    by (auto simp: ih.client_inv_def heap_inv_def)
  then show ?thesis using ih.conservation [OF assms(1) inv] heap_free_rep [of "(a, m)"] assms(2)
      heap_free_rep [of "(a', m')" ys] by auto
qed

lemma heap_run_restores:
  assumes "heap_run heap_get heap_put heap_poke ((a, m), []) os ((a', m'), [])" "malloc_rep a m xs"
  shows "malloc_rep a' m' xs"
proof -
  obtain ys where "malloc_rep a' m' ys" "fl_bytes ys = fl_bytes xs"
    using heap_run_conserves [OF assms] by auto
  then show ?thesis using fl_canonical [of 0 ys 0 xs] assms(2) malloc_rep_ok by auto
qed

end
