(* ===== verification/MallocAlign.thy ===== *)
theory MallocAlign
  imports MallocHeap
begin

text \<open>
  Aligned allocation (malloc_align of malloc_internal.c): where it keeps its promise, and the
  branch in which it frees bytes that it does not own.
\<close>

lemma unat_align_result:
  fixes r align :: u32
  assumes "align = 2 ^ k" "k < 31" "unat r + unat align \<le> heap_top"
  shows "unat ((r + align - 1) AND (- align)) = (unat r + 2 ^ k - 1) div 2 ^ k * 2 ^ k"
    and "unat align = 2 ^ k"
proof -
  show a: "unat align = 2 ^ k" using assms(1,2) by (simp add: unat_pow2)
  have "- align = NOT (mask k)" using assms(1) by (simp add: minus_exp_eq_not_mask)
  moreover have "unat (r + align - 1) = unat r + 2 ^ k - 1"
  proof -
    have s: "unat (r + align) = unat r + 2 ^ k" using assms a by (simp add: unat_plus_u32 heap_top_def)
    then have "unat (1 :: u32) \<le> unat (r + align)"
      using zero_less_power [of "2 :: nat" k, OF zero_less_numeral] unfolding unat_1 by linarith
    then have "1 \<le> r + align" by (simp only: word_le_nat_alt)
    then show ?thesis using s by (simp add: unat_sub)
  qed
  ultimately show "unat ((r + align - 1) AND (- align)) = (unat r + 2 ^ k - 1) div 2 ^ k * 2 ^ k"
    by (simp add: unat_and_not_mask)
qed

lemma align_up_facts:
  fixes r k :: nat
  defines "p \<equiv> (r + 2 ^ k - 1) div 2 ^ k * 2 ^ k"
  shows "2 ^ k dvd p" "r \<le> p" "p < r + 2 ^ k" "8 dvd r \<Longrightarrow> 8 dvd (2 :: nat) ^ k \<Longrightarrow> 8 dvd p - r"
proof -
  have pos: "0 < (2 :: nat) ^ k" by simp
  have "(r + 2 ^ k - 1) mod 2 ^ k < 2 ^ k" by simp
  moreover have "p + (r + 2 ^ k - 1) mod 2 ^ k = r + 2 ^ k - 1" unfolding p_def by (rule div_mult_mod_eq)
  ultimately show "r \<le> p" "p < r + 2 ^ k" using pos by linarith+
  show "2 ^ k dvd p" by (simp add: p_def)
  then show "8 dvd r \<Longrightarrow> 8 dvd (2 :: nat) ^ k \<Longrightarrow> 8 dvd p - r"
    by (intro dvd_diff_nat) (auto intro: dvd_trans)
qed


definition gap_of :: "nat \<Rightarrow> nat \<Rightarrow> nat" where
  "gap_of k r = (r + 2 ^ k - 1) div 2 ^ k * 2 ^ k - r"

definition align_request ::
  "malloc_t \<Rightarrow> mem \<Rightarrow> chunk list \<Rightarrow> u32 \<Rightarrow> u32 \<Rightarrow> nat \<Rightarrow> nat \<Rightarrow> chunk list \<Rightarrow> bool" where
  "align_request a m xs size0 align k r ys \<longleftrightarrow>
     malloc_rep a m xs \<and> align = 2 ^ k \<and> 4 \<le> k \<and> k < 31
     \<and> 8 dvd unat size0 \<and> 0 < unat size0 \<and> unat size0 + unat align + 24 \<le> heap_top - 8
     \<and> fl_alloc (unat size0 + unat align + 24) xs = Some (r, ys)"

lemma align_dvd:
  assumes "align_request a m xs size0 align k r ys"
  shows "8 dvd (2 :: nat) ^ k" "unat align = 2 ^ k" "16 \<le> (2 :: nat) ^ k"
proof -
  obtain j where "k = j + 4"
    using assms by (metis align_request_def add.commute le_add_diff_inverse)
  then have "(2 :: nat) ^ k = 16 * 2 ^ j" by (simp add: power_add)
  then show "8 dvd (2 :: nat) ^ k" "16 \<le> (2 :: nat) ^ k" by auto
  show "unat align = 2 ^ k" using assms by (simp add: align_request_def unat_pow2)
qed

lemma align_total:
  assumes "align_request a m xs size0 align k r ys"
  shows "unat (size0 + align + sizeof_chunk * 2) = unat size0 + 2 ^ k + 24"
    "8 dvd unat size0 + 2 ^ k + 24"
proof -
  note A = assms [unfolded align_request_def] align_dvd [OF assms]
  have "unat (size0 + align) = unat size0 + 2 ^ k"
    using A by (simp add: unat_plus_u32 heap_top_def)
  then show "unat (size0 + align + sizeof_chunk * 2) = unat size0 + 2 ^ k + 24"
    using A unat_plus_u32 [of "size0 + align" 24] by (simp add: sizeof_chunk_def heap_top_def)
  show "8 dvd unat size0 + 2 ^ k + 24" using A by auto
qed

lemma align_inner:
  assumes "align_request a m xs size0 align k r ys"
  shows "\<exists>r' a' m'. malloc a m (size0 + align + sizeof_chunk * 2) = Some (r', a', m')
    \<and> unat r' = r \<and> malloc_rep a' m' ys \<and> mem_type a' = mem_type a
    \<and> (\<forall>x. unat x \<notin> hdrs xs \<longrightarrow> m' x = m x)"
  using malloc_refines [of a m xs "size0 + align + sizeof_chunk * 2"] align_total [OF assms]
    assms align_dvd [OF assms] by (auto simp: align_request_def)

lemma align_block:
  assumes "align_request a m xs size0 align k r ys"
  shows "8 dvd r" "0 < r" "block r (unat size0 + 2 ^ k + 24) \<subseteq> fl_bytes xs"
    "fl_bytes ys = fl_bytes xs - block r (unat size0 + 2 ^ k + 24)"
    "r + (unat size0 + 2 ^ k + 24) \<le> heap_top"
proof -
  have ok: "fl_ok 0 xs" and fit: "fl_alloc (unat size0 + 2 ^ k + 24) xs = Some (r, ys)"
    using assms align_dvd [OF assms] malloc_rep_ok by (auto simp: align_request_def)
  show *: "8 dvd r" "0 < r" "block r (unat size0 + 2 ^ k + 24) \<subseteq> fl_bytes xs"
    "fl_bytes ys = fl_bytes xs - block r (unat size0 + 2 ^ k + 24)"
    using fl_alloc_ok [OF fit ok] align_total [OF assms] by auto
  show "r + (unat size0 + 2 ^ k + 24) \<le> heap_top"
    using fl_bytes_heap_top [OF ok *(3)] by simp
qed

lemma align_gap:
  assumes "align_request a m xs size0 align k r ys"
  shows "8 dvd gap_of k r" "gap_of k r < 2 ^ k" "2 ^ k dvd r + gap_of k r"
    "\<And>r'. unat r' = r \<Longrightarrow> unat ((r' + align - 1) AND (- align)) = r + gap_of k r"
proof -
  have b: "8 dvd r" "r + (unat size0 + 2 ^ k + 24) \<le> heap_top" using align_block [OF assms] by auto
  have al: "align = 2 ^ k" "k < 31" using assms by (auto simp: align_request_def)
  note U = align_up_facts [of r k] and D = align_dvd [OF assms]
  show "8 dvd gap_of k r" "gap_of k r < 2 ^ k" unfolding gap_of_def using U b(1) D by linarith+
  have g: "r + gap_of k r = (r + 2 ^ k - 1) div 2 ^ k * 2 ^ k" unfolding gap_of_def using U(2) by linarith
  then show "2 ^ k dvd r + gap_of k r" by simp
  show "unat ((r' + align - 1) AND (- align)) = r + gap_of k r" if "unat r' = r" for r'
    unfolding g using unat_align_result(1) [OF al, of r'] that b(2) D by simp
qed


lemma align_header_free:
  assumes req: "align_request a m xs size0 align k r ys"
    and r': "unat r' = r" and rep: "malloc_rep a1 m1 ys" and h: "unat h = g" "0 < g" "8 dvd g" "g \<le> 2 ^ k"
  shows "\<exists>a2 m2. malloc_free a1 m1 r' h = Some (a2, m2) \<and> malloc_rep a2 m2 (fl_free r g ys)
    \<and> (\<forall>x. unat x \<notin> hdrs ys \<union> block r 8 \<longrightarrow> m2 x = m1 x)"
proof -
  note B = align_block [OF req]
  have "block r g \<inter> fl_bytes ys = {}" unfolding B(4) using h by (auto simp: block_def)
  moreover have "r' \<noteq> 0" using r' B(2) by auto
  ultimately show ?thesis using malloc_free_refines [OF rep, of r' h] h r' B by auto
qed

lemma align_tail_free:
  assumes req: "align_request a m xs size0 align k r ys"
    and rep: "malloc_rep a2 m2 zs" and p: "unat p = r + g" and h: "unat h = g'"
    and g: "8 dvd g" "8 dvd g'" "g' < 2 ^ k" "r + g + unat size0 + (2 ^ k + 24 - g') \<le> heap_top"
    and dis: "block (r + g + unat size0) (2 ^ k + 24 - g') \<inter> fl_bytes zs = {}"
  shows "\<exists>a3 m3. malloc_free a2 m2 (p + size0) (size0 + align + sizeof_chunk * 2 - h - size0) = Some (a3, m3)
    \<and> malloc_rep a3 m3 (fl_free (r + g + unat size0) (2 ^ k + 24 - g') zs)
    \<and> (\<forall>x. unat x \<notin> hdrs zs \<union> block (r + g + unat size0) 8 \<longrightarrow> m3 x = m2 x)"
proof -
  note B = align_block [OF req] and T = align_total [OF req] and D = align_dvd [OF req]
  have sz: "8 dvd unat size0" using req by (simp add: align_request_def)
  have p': "unat (p + size0) = r + g + unat size0" using p g by (simp add: unat_plus_u32 heap_top_def)
  let ?n = "size0 + align + sizeof_chunk * 2 - h - size0"
  have "unat (size0 + align + sizeof_chunk * 2 - h) = unat size0 + 2 ^ k + 24 - g'"
    using T(1) h g by (subst unat_sub) (simp_all add: word_le_nat_alt)
  then have n: "unat ?n = 2 ^ k + 24 - g'" using g by (subst unat_sub) (simp_all add: word_le_nat_alt)
  have n8: "8 dvd 2 ^ k + 24 - g'" using D g by (intro dvd_diff_nat) auto
  have "p + size0 \<noteq> 0" using p' B(2) by auto
  moreover have "8 dvd r + g + unat size0" using B(1) g sz by auto
  ultimately show ?thesis
    using malloc_free_refines [OF rep, of "p + size0" ?n] p' n n8 g dis by auto
qed

lemma malloc_align_code:
  assumes req: "align_request a m xs size0 align k r ys"
    and inner: "malloc a m (size0 + align + sizeof_chunk * 2) = Some (r', a1, m1)" "unat r' = r"
  defines "p \<equiv> (r' + align - 1) AND (- align)" and "n \<equiv> size0 + align + sizeof_chunk * 2"
  shows "unat p = r + gap_of k r" "unat (p - r') = gap_of k r"
    and "malloc_align a m size0 align =
      (if gap_of k r = 0 then map_option (Pair p) (malloc_free a1 m1 (p + size0) (n - 0 - size0))
       else let p' = (if gap_of k r < 12 then p + align else p) in
            Option.bind (malloc_free a1 m1 r' (p - r'))
              (\<lambda>(a2, m2). map_option (Pair p') (malloc_free a2 m2 (p' + size0) (n - (p - r') - size0))))"
proof -
  note B = align_block [OF req] and D = align_dvd [OF req] and G = align_gap [OF req]
  show p: "unat p = r + gap_of k r" unfolding p_def using G(4) inner by simp
  then have le: "r' \<le> p" using inner by (simp add: word_le_nat_alt)
  then show h: "unat (p - r') = gap_of k r" using p inner by (simp add: unat_sub)
  have nz: "r' \<noteq> 0" using inner B(2) by auto
  have "sint align = int (unat align)" using req D by (intro sint_small) (simp add: align_request_def heap_top_def)
  moreover have "16 \<le> unat align" using D by simp
  ultimately have big: "\<not> sint align < sint sizeof_chunk" unfolding sizeof_chunk_def by (simp del: of_nat_unat)
  have lt: "p - r' < sizeof_chunk \<longleftrightarrow> gap_of k r < 12"
    using h by (simp add: word_less_nat_alt sizeof_chunk_def)
  have z: "p - r' = 0 \<longleftrightarrow> gap_of k r = 0" using h by (metis unat_0 unat_eq_zero)
  show "malloc_align a m size0 align =
      (if gap_of k r = 0 then map_option (Pair p) (malloc_free a1 m1 (p + size0) (n - 0 - size0))
       else let p' = (if gap_of k r < 12 then p + align else p) in
            Option.bind (malloc_free a1 m1 r' (p - r'))
              (\<lambda>(a2, m2). map_option (Pair p') (malloc_free a2 m2 (p' + size0) (n - (p - r') - size0))))"
    using big nz lt z inner(1) unfolding malloc_align_def p_def [symmetric] n_def
    by (auto simp: Let_def p_def [symmetric] split: option.splits prod.splits)
qed

lemma align_parts:
  assumes "g < 2 ^ k"
  shows "block r g \<union> block (r + g) s \<union> block (r + g + s) (2 ^ k + 24 - g) = block r (s + 2 ^ k + 24)"
    "block (r + g) s \<inter> (block r g \<union> block (r + g + s) (2 ^ k + 24 - g)) = {}"
    "block r g \<inter> block (r + g + s) (2 ^ k + 24 - g) = {}"
  using assms by (auto simp: block_def)

lemma align_bytes:
  assumes "g < 2 ^ k" "block r (s + 2 ^ k + 24) \<subseteq> X"
  shows "X - block r (s + 2 ^ k + 24) \<union> block r g \<union> block (r + g + s) (2 ^ k + 24 - g) = X - block (r + g) s"
  using align_parts [OF assms(1), of r s] assms(2) by blast

lemma align_finish:
  assumes req: "align_request a m xs size0 align k r ys"
    and rep: "malloc_rep a2 m2 zs" and p: "unat p = r + gap_of k r" and h: "unat h = gap_of k r"
    and zs: "fl_bytes zs = fl_bytes ys \<union> block r (gap_of k r)"
  shows "\<exists>a3 m3 us. malloc_free a2 m2 (p + size0) (size0 + align + sizeof_chunk * 2 - h - size0) = Some (a3, m3)
    \<and> malloc_rep a3 m3 us \<and> fl_bytes us = fl_bytes xs - block (unat p) (unat size0)"
proof -
  note B = align_block [OF req] and G = align_gap [OF req]
  note P = align_parts [OF G(2), of r "unat size0"]
  let ?g = "gap_of k r"
  have "block (r + ?g + unat size0) (2 ^ k + 24 - ?g) \<inter> fl_bytes zs = {}"
    using P B(4) zs by blast
  moreover have "r + ?g + unat size0 + (2 ^ k + 24 - ?g) \<le> heap_top" using B(5) G(2) by linarith
  ultimately obtain a3 m3 where f: "malloc_free a2 m2 (p + size0) (size0 + align + sizeof_chunk * 2 - h - size0) = Some (a3, m3)"
    "malloc_rep a3 m3 (fl_free (r + ?g + unat size0) (2 ^ k + 24 - ?g) zs)"
    using align_tail_free [OF req rep p h G(1,1,2)] by blast
  moreover have "fl_bytes (fl_free (r + ?g + unat size0) (2 ^ k + 24 - ?g) zs) = fl_bytes xs - block (unat p) (unat size0)"
    unfolding fl_free_bytes zs p B(4) using align_bytes [OF G(2) B(3)] by blast
  ultimately show ?thesis by blast
qed

lemma malloc_align_ok:
  assumes req: "align_request a m xs size0 align k r ys" and gap: "gap_of k r \<noteq> 8"
  shows "\<exists>p a' m' zs. malloc_align a m size0 align = Some (p, a', m')
    \<and> unat p = r + gap_of k r \<and> 2 ^ k dvd unat p
    \<and> malloc_rep a' m' zs \<and> fl_bytes zs = fl_bytes xs - block (unat p) (unat size0)"
proof -
  obtain r' a1 m1 where inner: "malloc a m (size0 + align + sizeof_chunk * 2) = Some (r', a1, m1)"
    "unat r' = r" "malloc_rep a1 m1 ys"
    using align_inner [OF req] by blast
  define p where "p = ((r' + align - 1) AND (- align))"
  note C = malloc_align_code [OF req inner(1,2), folded p_def]
  note G = align_gap [OF req]
  show ?thesis
  proof (cases "gap_of k r = 0")
    case True
    then have "fl_bytes ys = fl_bytes ys \<union> block r (gap_of k r)" by (simp add: block_def)
    with align_finish [OF req inner(3) C(1), of 0] True C(1,3) G(3) show ?thesis by auto
  next
    case False
    then have g: "12 \<le> gap_of k r" "0 < gap_of k r" using G(1) gap by presburger+
    obtain a2 m2 where f: "malloc_free a1 m1 r' (p - r') = Some (a2, m2)"
      "malloc_rep a2 m2 (fl_free r (gap_of k r) ys)"
      using align_header_free [OF req inner(2,3) C(2) g(2) G(1)] G(2) by auto
    have "fl_bytes (fl_free r (gap_of k r) ys) = fl_bytes ys \<union> block r (gap_of k r)"
      by (auto simp: fl_free_bytes)
    from align_finish [OF req f(2) C(1,2) this] f g C(1,3) G(3) show ?thesis by auto
  qed
qed

text \<open>
  With a gap of exactly eight bytes the code moves the result one alignment step further but
  keeps the old header size, so the tail it frees ends align bytes past the block it owns.
\<close>

lemma malloc_align_overrun:
  assumes req: "align_request a m xs size0 align k r ys" and gap: "gap_of k r = 8"
    and room: "r + (unat size0 + 2 ^ k + 24) + 2 ^ k \<le> heap_top"
      "block (r + (unat size0 + 2 ^ k + 24)) (2 ^ k) \<inter> fl_bytes xs = {}"
  shows "\<exists>p a' m' zs. malloc_align a m size0 align = Some (p, a', m')
    \<and> malloc_rep a' m' zs \<and> block (r + (unat size0 + 2 ^ k + 24)) (2 ^ k) \<subseteq> fl_bytes zs"
proof -
  obtain r' a1 m1 where inner: "malloc a m (size0 + align + sizeof_chunk * 2) = Some (r', a1, m1)"
    "unat r' = r" "malloc_rep a1 m1 ys"
    using align_inner [OF req] by blast
  define p where "p = ((r' + align - 1) AND (- align))"
  note C = malloc_align_code [OF req inner(1,2), folded p_def]
  note B = align_block [OF req] and D = align_dvd [OF req] and G = align_gap [OF req]
  obtain a2 m2 where f: "malloc_free a1 m1 r' (p - r') = Some (a2, m2)"
    "malloc_rep a2 m2 (fl_free r 8 ys)"
    using align_header_free [OF req inner(2,3) C(2) _ G(1)] G(2) gap by auto
  let ?t = "r + (8 + 2 ^ k) + unat size0"
  have p2: "unat (p + align) = r + (8 + 2 ^ k)"
    using C(1) gap D room by (simp add: unat_plus_u32 heap_top_def)
  have dis: "block ?t (2 ^ k + 24 - 8) \<inter> fl_bytes (fl_free r 8 ys) = {}"
  proof -
    have "block ?t (2 ^ k + 24 - 8) \<subseteq> block r (unat size0 + 2 ^ k + 24) \<union> block (r + (unat size0 + 2 ^ k + 24)) (2 ^ k)"
      "block ?t (2 ^ k + 24 - 8) \<inter> block r 8 = {}"
      by (auto simp: block_def)
    then show ?thesis using room(2) unfolding fl_free_bytes B(4) by blast
  qed
  have bnd: "r + (8 + 2 ^ k) + unat size0 + (2 ^ k + 24 - 8) \<le> heap_top" using room(1) by linarith
  have h: "8 dvd 8 + (2 :: nat) ^ k" "8 dvd (8 :: nat)" "8 < (2 :: nat) ^ k" using D by auto
  obtain a3 m3 where t: "malloc_free a2 m2 (p + align + size0) (size0 + align + sizeof_chunk * 2 - (p - r') - size0) = Some (a3, m3)"
    "malloc_rep a3 m3 (fl_free ?t (2 ^ k + 24 - 8) (fl_free r 8 ys))"
    using align_tail_free [OF req f(2) p2 C(2) h(1) _ _ _ ] h bnd dis gap by auto
  have "block (r + (unat size0 + 2 ^ k + 24)) (2 ^ k) \<subseteq> block ?t (2 ^ k + 24 - 8)"
    by (auto simp: block_def)
  then have "block (r + (unat size0 + 2 ^ k + 24)) (2 ^ k) \<subseteq> fl_bytes (fl_free ?t (2 ^ k + 24 - 8) (fl_free r 8 ys))"
    unfolding fl_free_bytes by blast
  then show ?thesis using C(3) f(1) t gap by auto
qed

end
