(* ===== verification/MallocReport.thy ===== *)
theory MallocReport
  imports MallocHeap
begin

text \<open>
  Initialisation of the internal allocator and its two reports: the totals of malloc_info and
  the listing of malloc_dump.
\<close>

subsection \<open>Initialisation\<close>

definition demo_heap :: heap where
  "demo_heap = malloc_init \<lparr>first_free = 0, mem_type = INTERNAL_MALLOC\<rparr> (\<lambda>_. 0) 0x1C000004 4096"

lemma malloc_init_chunk:
  assumes "0 < unat chunk0" "unat chunk0 + unat size0 \<le> heap_top" "round8 (unat chunk0) + 8 \<le> unat chunk0 + unat size0"
  shows "unat (ALIGN_UP chunk0 MIN_CHUNK_SIZE) = round8 (unat chunk0)"
    and "unat (size0 - (ALIGN_UP chunk0 MIN_CHUNK_SIZE - chunk0)) = unat chunk0 + unat size0 - round8 (unat chunk0)"
    and "sint (size0 - (ALIGN_UP chunk0 MIN_CHUNK_SIZE - chunk0)) = int (unat chunk0 + unat size0 - round8 (unat chunk0))"
proof -
  have r: "unat chunk0 \<le> round8 (unat chunk0)" by (rule round8_ge)
  show c: "unat (ALIGN_UP chunk0 MIN_CHUNK_SIZE) = round8 (unat chunk0)"
    using assms r by (intro unat_MIN_ALIGN) linarith
  have d: "unat (ALIGN_UP chunk0 MIN_CHUNK_SIZE - chunk0) = round8 (unat chunk0) - unat chunk0"
    using c r by (simp add: unat_sub word_le_nat_alt)
  show s: "unat (size0 - (ALIGN_UP chunk0 MIN_CHUNK_SIZE - chunk0)) = unat chunk0 + unat size0 - round8 (unat chunk0)"
    using d r assms by (subst unat_sub) (auto simp: word_le_nat_alt)
  have "unat (size0 - (ALIGN_UP chunk0 MIN_CHUNK_SIZE - chunk0)) < 2147483648"
    unfolding s using assms r unfolding heap_top_def by linarith
  from sint_small [OF this] s show "sint (size0 - (ALIGN_UP chunk0 MIN_CHUNK_SIZE - chunk0)) = int (unat chunk0 + unat size0 - round8 (unat chunk0))"
    by simp
qed

lemma malloc_init_rep:
  assumes "0 < unat chunk0" "unat chunk0 + unat size0 \<le> heap_top" "round8 (unat chunk0) + 8 \<le> unat chunk0 + unat size0"
    and "malloc_init a m chunk0 size0 = (a', m')"
  shows "malloc_rep a' m' [(round8 (unat chunk0), (unat chunk0 + unat size0 - round8 (unat chunk0)) div 8 * 8)]"
    and "mem_type a' = mem_type a"
proof -
  note I = malloc_init_chunk [OF assms(1-3)]
  let ?c = "ALIGN_UP chunk0 MIN_CHUNK_SIZE" and ?s = "size0 - (ALIGN_UP chunk0 MIN_CHUNK_SIZE - chunk0)"
  have r: "unat chunk0 \<le> round8 (unat chunk0)" by (rule round8_ge)
  have "0 < sint ?s" unfolding I(3) using assms(3) by (simp del: of_nat_unat of_nat_add)
  then have code: "a' = a\<lparr>first_free := ?c\<rparr>"
      "m' = set_chunk_next ?c 0 (set_chunk_size ?c (ALIGN_DOWN ?s MIN_CHUNK_SIZE) m)"
    using assms(4) by (auto simp: malloc_init_def Let_def)
  have c8: "unat ?c + 8 < 4294967296" using I(1) assms unfolding heap_top_def by linarith
  have dn: "unat (ALIGN_DOWN ?s MIN_CHUNK_SIZE) = (unat chunk0 + unat size0 - round8 (unat chunk0)) div 8 * 8"
    unfolding MIN_CHUNK_SIZE_def unat_ALIGN_DOWN8 using I(2) unfolding MIN_CHUNK_SIZE_def by simp
  have ge: "8 \<le> (unat chunk0 + unat size0 - round8 (unat chunk0)) div 8 * 8"
    "(unat chunk0 + unat size0 - round8 (unat chunk0)) div 8 * 8 \<le> unat chunk0 + unat size0 - round8 (unat chunk0)"
    using assms(3) by auto
  have "0 < round8 (unat chunk0)" using assms(1) by simp
  moreover from this have "?c \<noteq> 0" using I(1) by auto
  ultimately show "malloc_rep a' m' [(round8 (unat chunk0), (unat chunk0 + unat size0 - round8 (unat chunk0)) div 8 * 8)]"
    using ge I(1) dn c8 r assms(2) by (simp add: malloc_rep_def code)
  show "mem_type a' = mem_type a" by (simp add: code)
qed

lemma demo_heap_rep: "malloc_rep (fst demo_heap) (snd demo_heap) [(0x1C000008, 4088)]"
  using malloc_init_rep(1) [of "0x1C000004" 4096 "\<lparr>first_free = 0, mem_type = INTERNAL_MALLOC\<rparr>" "\<lambda>_. 0"
      "fst demo_heap" "snd demo_heap"]
  by (simp add: demo_heap_def heap_top_def round8_def)

subsection \<open>Reports\<close>

lemma malloc_info_loop_spec:
  "flseg m p xs 0 \<Longrightarrow> malloc_info_loop m p s n = Some (s + word_of_nat (fl_total xs), n + word_of_nat (length xs))"
proof (induction xs arbitrary: p s n rule: fl_bytes.induct)
  case 1
  then show ?case by (simp add: malloc_info_loop.simps fl_total_def)
next
  case (2 a k xs)
  have "chunk_size m p = word_of_nat k" using 2 by auto
  then show ?case using 2
    by (simp add: malloc_info_loop.simps [of m p] fl_total_def add.assoc)
qed

lemma fl_total_less: "fl_ok 0 xs \<Longrightarrow> fl_total xs < heap_top"
proof -
  assume ok: "fl_ok 0 xs"
  have "fl_bytes xs \<subseteq> {1 ..< heap_top}" using fl_ok_bytes [OF ok] by force
  then have "card (fl_bytes xs) \<le> heap_top - 1" using card_mono [of "{1 ..< heap_top}"] by simp
  then show ?thesis using fl_total_card [OF ok] by (simp add: heap_top_def)
qed

lemma fl_length_total: "fl_ok lo xs \<Longrightarrow> 8 * length xs \<le> fl_total xs"
proof (induction xs arbitrary: lo rule: fl_bytes.induct)
  case (2 a n xs)
  then have "8 \<le> n" "8 * length xs \<le> fl_total xs" by (auto dest: dvd_imp_le)
  then show ?case by (simp add: fl_total_def)
qed simp

lemma malloc_info_spec:
  assumes "malloc_rep a m xs"
  shows "\<exists>total count. malloc_info a m = Some (total, first_free a, count)
    \<and> unat total = card (fl_bytes xs) \<and> unat count = length xs"
proof -
  have ok: "fl_ok 0 xs" using assms malloc_rep_ok by blast
  have b: "fl_total xs < 4294967296" "length xs < 4294967296"
    using fl_total_less [OF ok] fl_length_total [OF ok] by (auto simp: heap_top_def)
  then have "unat (word_of_nat (fl_total xs) :: u32) = fl_total xs" "unat (word_of_nat (length xs) :: u32) = length xs"
    by (simp_all add: unsigned_of_nat take_bit_nat_eq_self)
  then show ?thesis using malloc_info_loop_spec [of m "first_free a" xs 0 0] assms fl_total_card [OF ok]
    by (simp add: malloc_info_def malloc_rep_def)
qed

fun dump_of :: "chunk list \<Rightarrow> dump_line list" where
  "dump_of [] = []"
| "dump_of ((a, n) # xs) =
     Free_Block (word_of_nat a) (word_of_nat n) (case xs of [] \<Rightarrow> 0 | (b, _) # _ \<Rightarrow> word_of_nat b) False # dump_of xs"

lemma malloc_dump_loop_spec:
  "flseg m p xs 0 \<Longrightarrow> fl_ok lo xs \<Longrightarrow> malloc_dump_loop m p out = Some (out @ dump_of xs)"
proof (induction xs arbitrary: p lo out rule: fl_bytes.induct)
  case 1
  then show ?case by (simp add: malloc_dump_loop.simps)
next
  case (2 a k xs)
  have p: "p = word_of_nat a" "chunk_size m p = word_of_nat k" "p \<noteq> 0" "unat p = a" using 2 by auto
  have nx: "chunk_next m p = (case xs of [] \<Rightarrow> 0 | (b, _) # _ \<Rightarrow> word_of_nat b)"
    using "2.prems"(1) by (cases xs rule: fl_bytes.cases) auto
  have "p \<noteq> chunk_next m p"
    using "2.prems" p(3,4) by (cases xs rule: fl_bytes.cases) auto
  then have "malloc_dump_loop m p out =
      malloc_dump_loop m (chunk_next m p) (out @ [Free_Block p (chunk_size m p) (chunk_next m p) False])"
    using p(3) by (subst malloc_dump_loop.simps) simp
  then show ?case using "2.IH" [of "chunk_next m p" "a + k"] "2.prems" p nx by simp
qed

lemma malloc_dump_spec:
  "malloc_rep a m xs \<Longrightarrow> malloc_dump a m = Some (Dump_begin # dump_of xs @ [Dump_end])"
  using malloc_dump_loop_spec [of m "first_free a" xs 0 "[Dump_begin]"]
  by (simp add: malloc_dump_def malloc_rep_def)

end
