(* ===== verification/MallocProps.thy ===== *)
theory MallocProps
  imports MallocAlign MallocReport
begin

text \<open>
  The properties of the internal allocator, each with an instance on a freshly initialised heap
  of 4 KiB in the L2 memory.
\<close>

lemma demo_parts: "malloc_rep (fst demo_heap) (snd demo_heap) [(0x1C000008, 4088)]"
  by (rule demo_heap_rep)

lemma demo_get:
  "\<exists>r a' m'. malloc (fst demo_heap) (snd demo_heap) 60 = Some (r, a', m')
     \<and> r \<noteq> 0 \<and> unat r = 0x1C000FC0 \<and> malloc_rep a' m' [(0x1C000008, 4024)]"
  using malloc_refines [OF demo_parts, of 60]
  by (auto simp: heap_top_def round8_def)

lemma demo_run:
  "\<exists>r a' m'. heap_run heap_get heap_put heap_poke ((fst demo_heap, snd demo_heap), []) [Get 60] ((a', m'), [(r, 60)])"
  using demo_get run_get [OF run_nil, of 60 heap_get "(fst demo_heap, snd demo_heap)" _ _ heap_put heap_poke "[]"]
  by (force simp: size_ok_def heap_top_def heap_get_def)

text \<open>C1: malloc returns for every well-formed heap and is the first fit of the
  abstract free list: it returns NULL and changes nothing exactly when no chunk is large enough,
  otherwise the address of an 8-aligned block taken from the first chunk that is, and only
  headers of free chunks are written.\<close>
theorem malloc_first_fit:
  assumes "malloc_rep a m xs" "0 < unat n" "unat n \<le> heap_top - 8"
  shows "case fl_alloc (round8 (unat n)) xs of
           None \<Rightarrow> malloc a m n = Some (0, a, m) \<and> (\<forall>(b, k) \<in> set xs. k < round8 (unat n))
         | Some (r, ys) \<Rightarrow> \<exists>r' a' m'. malloc a m n = Some (r', a', m') \<and> unat r' = r \<and> 8 dvd r
             \<and> malloc_rep a' m' ys \<and> (\<forall>x. unat x \<notin> hdrs xs \<longrightarrow> m' x = m x)"
  using malloc_refines [OF assms] fl_alloc_ok [OF _ malloc_rep_ok [OF assms(1)], of "round8 (unat n)"]
    fl_alloc_None [of "round8 (unat n)" xs] assms(2)
  by (auto split: option.splits)

lemma malloc_first_fit_witness:
  "\<exists>r a' m'. malloc (fst demo_heap) (snd demo_heap) 61 = Some (r, a', m')
     \<and> unat r = 0x1C000FC0 \<and> malloc_rep a' m' [(0x1C000008, 4024)]"
  using malloc_first_fit [OF demo_parts, of 61] by (auto simp: heap_top_def round8_def)

text \<open>C2: malloc_free returns for every block outside the free list and
  implements the ordered insertion that merges the block with the free chunk that ends at it
  and with the one that starts behind it; it writes headers of free chunks only.\<close>
theorem free_coalesces:
  assumes "malloc_rep a m xs" "blk_ok (p, n)" "span (p, n) \<inter> fl_bytes xs = {}"
  shows "\<exists>a' m'. malloc_free a m p n = Some (a', m')
           \<and> malloc_rep a' m' (fl_free (unat p) (round8 (unat n)) xs)
           \<and> (\<forall>x. unat x \<notin> hdrs xs \<union> block (unat p) 8 \<longrightarrow> m' x = m x)"
  using malloc_free_refines [OF assms(1), of p n] assms(2,3) by (auto simp: blk_ok_def span_def)

lemma free_coalesces_witness:
  "\<exists>a' m'. malloc_free (fst demo_heap) (snd demo_heap) 0x1C001000 20 = Some (a', m')
     \<and> malloc_rep a' m' [(0x1C000008, 4112)]"
  using free_coalesces [OF demo_parts, of "0x1C001000" 20]
  by (auto simp: blk_ok_def span_def block_def heap_top_def round8_def)

text \<open>Freeing what malloc returned, with the size that was asked for,
  gives back exactly the free list from before the allocation.\<close>
lemma malloc_free_roundtrip:
  assumes "malloc_rep a m xs" "size_ok n" "malloc a m n = Some (r, a1, m1)" "r \<noteq> 0"
  shows "\<exists>a2 m2. malloc_free a1 m1 r n = Some (a2, m2) \<and> malloc_rep a2 m2 xs"
proof -
  have n: "0 < unat n" "unat n \<le> heap_top - 8" using assms(2) by (auto simp: size_ok_def)
  obtain ys where al: "fl_alloc (round8 (unat n)) xs = Some (unat r, ys)" and rep: "malloc_rep a1 m1 ys"
    using malloc_refines [OF assms(1) n] assms(3,4) by (auto split: option.splits)
  have "ih.client_inv (fl_bytes xs) ((a, m), [])"
    using assms(1) heap_free_rep [of "(a, m)"] by (auto simp: ih.client_inv_def heap_inv_def)
  from ih.client_inv_get [OF this assms(2)]
  have "ih.client_inv (fl_bytes xs) ((a1, m1), [(r, n)])" using assms(3,4) by (simp add: heap_get_def)
  then have b: "blk_ok (r, n)" "span (r, n) \<inter> fl_bytes ys = {}"
    using heap_free_rep [of "(a1, m1)"] rep by (auto simp: ih.client_inv_def)
  then show ?thesis
    using malloc_free_refines [OF rep, of r n] fl_alloc_free [OF al malloc_rep_ok [OF assms(1)]] n
    by (auto simp: blk_ok_def span_def)
qed

lemma malloc_free_roundtrip_witness:
  "\<exists>r a1 m1 a2 m2. malloc (fst demo_heap) (snd demo_heap) 60 = Some (r, a1, m1)
     \<and> malloc_free a1 m1 r 60 = Some (a2, m2) \<and> malloc_rep a2 m2 [(0x1C000008, 4088)]"
  using demo_get malloc_free_roundtrip [OF demo_parts, of 60] by (force simp: size_ok_def heap_top_def)

text \<open>C3: over every sequence of allocations, frees of live blocks and client
  writes into live blocks, the live blocks stay pairwise disjoint and disjoint from the free
  list, and live and free bytes together are always the bytes of the initial heap.\<close>
theorem heap_clients_safe:
  assumes "heap_run heap_get heap_put heap_poke ((a, m), []) os ((a', m'), L)" "malloc_rep a m xs"
  shows "\<exists>ys. malloc_rep a' m' ys \<and> live_disjoint L \<and> live_bytes L \<inter> fl_bytes ys = {}
           \<and> live_bytes L \<union> fl_bytes ys = fl_bytes xs"
  using heap_run_conserves [OF assms] .

lemma heap_clients_safe_witness:
  "\<exists>r a' m' ys. malloc_rep a' m' ys
     \<and> live_bytes [(r, 60)] \<union> fl_bytes ys = fl_bytes [(0x1C000008, 4088)]"
  using demo_run heap_clients_safe [OF _ demo_parts] by blast

text \<open>C4: when a client has given back every block, in whatever order, the free list
  is the initial one again: nothing leaks and no fragmentation remains.\<close>
theorem heap_quiescent:
  assumes "heap_run heap_get heap_put heap_poke ((a, m), []) os ((a', m'), [])" "malloc_rep a m xs"
  shows "malloc_rep a' m' xs"
  using heap_run_restores [OF assms] .

lemma heap_quiescent_witness:
  "\<exists>os a' m'. os \<noteq> [] \<and> heap_run heap_get heap_put heap_poke ((fst demo_heap, snd demo_heap), []) os ((a', m'), [])
     \<and> malloc_rep a' m' [(0x1C000008, 4088)]"
proof -
  obtain r a1 m1 where g: "heap_run heap_get heap_put heap_poke ((fst demo_heap, snd demo_heap), []) [Get 60] ((a1, m1), [(r, 60)])"
    using demo_run by blast
  moreover have "ih.client_inv (fl_bytes [(0x1C000008, 4088)]) ((fst demo_heap, snd demo_heap), [])"
    using demo_parts heap_free_rep [OF demo_parts] by (auto simp: ih.client_inv_def heap_inv_def)
  ultimately obtain h where "heap_put (a1, m1) r 60 = Some h"
    using ih.put_never_stuck [of _ _ "(a1, m1)" "[(r, 60)]" _ "(r, 60)"] by fastforce
  then have "heap_run heap_get heap_put heap_poke ((fst demo_heap, snd demo_heap), []) ([Get 60] @ [Put (r, 60)]) (h, [])"
    using run_put [OF g, of "(r, 60)" h] by simp
  then show ?thesis using heap_quiescent [of "fst demo_heap" "snd demo_heap" _ "fst h" "snd h"] demo_parts
    by (intro exI [of _ "[Get 60] @ [Put (r, 60)]"] exI [of _ "fst h"] exI [of _ "snd h"]) auto
qed

text \<open>C5: in every state a client can reach, the scan loops of malloc and of
  malloc_free terminate: a request returns a block or NULL, and every live block can be freed.\<close>
theorem heap_never_stuck:
  assumes "heap_run heap_get heap_put heap_poke ((a, m), []) os ((a', m'), L)" "malloc_rep a m xs" "size_ok n"
  shows "(\<exists>r h. malloc a' m' n = Some (r, h)) \<and> (\<forall>b \<in> set L. \<exists>h. malloc_free a' m' (fst b) (snd b) = Some h)"
proof -
  have c: "ih.client_inv (fl_bytes xs) ((a, m), [])"
    using assms(2) heap_free_rep [of "(a, m)"] by (auto simp: ih.client_inv_def heap_inv_def)
  show ?thesis
    using ih.get_never_stuck [OF assms(1) c assms(3)] ih.put_never_stuck [OF assms(1) c]
    by (auto simp: heap_get_def heap_put_def)
qed

lemma heap_never_stuck_witness:
  "\<exists>r a' m'. (\<exists>q h. malloc a' m' 60 = Some (q, h)) \<and> (\<exists>h. malloc_free a' m' r 60 = Some h)"
proof -
  obtain r a' m' where "heap_run heap_get heap_put heap_poke ((fst demo_heap, snd demo_heap), []) [Get 60] ((a', m'), [(r, 60)])"
    using demo_run by blast
  from heap_never_stuck [OF this demo_parts, of 60]
  have "(\<exists>q h. malloc a' m' 60 = Some (q, h)) \<and> (\<exists>h. malloc_free a' m' r 60 = Some h)"
    by (simp add: size_ok_def heap_top_def)
  then show ?thesis by blast
qed

text \<open>The aligned requests considered: an alignment below the size of a chunk header, which is an ordinary request, or a power of two of at least 16
  for a multiple of 8 bytes, unless the block that first fit finds begins 8 bytes below an aligned address.\<close>

definition align_served :: "malloc_t \<Rightarrow> mem \<Rightarrow> u32 \<Rightarrow> u32 \<Rightarrow> bool" where
  "align_served a m size0 align \<longleftrightarrow> sint align < sint sizeof_chunk \<and> size_ok size0
     \<or> (\<exists>k. align = 2 ^ k \<and> 4 \<le> k \<and> k < 31 \<and> 8 dvd unat size0 \<and> 0 < unat size0 \<and> unat size0 + 2 ^ k + 24 \<le> heap_top - 8
          \<and> (\<forall>xs r ys. malloc_rep a m xs \<longrightarrow> fl_alloc (unat size0 + 2 ^ k + 24) xs = Some (r, ys) \<longrightarrow> gap_of k r \<noteq> 8))"

lemma malloc_align_full:
  assumes "malloc_rep a m xs" "align = 2 ^ k" "4 \<le> k" "k < 31" "8 dvd unat size0" "unat size0 + 2 ^ k + 24 \<le> heap_top - 8"
    "fl_alloc (unat size0 + 2 ^ k + 24) xs = None"
  shows "malloc_align a m size0 align = Some (0, a, m)"
proof -
  obtain j where j: "k = j + 4" using assms(3) by (metis add.commute le_add_diff_inverse)
  have al: "unat align = 2 ^ k" using assms(2,4) by (simp add: unat_pow2)
  have "(2 :: nat) ^ k = 16 * 2 ^ j" by (simp add: j power_add)
  then have two: "16 \<le> (2 :: nat) ^ k" "8 dvd (2 :: nat) ^ k" by auto
  have lt: "(2 :: nat) ^ k < 2 ^ 31" using assms(4) by (intro power_strict_increasing) auto
  have "unat (size0 + align) = unat size0 + 2 ^ k" using assms(6) al by (simp add: unat_plus_u32 heap_top_def)
  then have total: "unat (size0 + align + sizeof_chunk * 2) = unat size0 + 2 ^ k + 24"
    using assms(6) unat_plus_u32 [of "size0 + align" 24] by (simp add: sizeof_chunk_def heap_top_def)
  have "8 dvd unat size0 + 2 ^ k + 24" using assms(5) two(2) by auto
  then have "malloc a m (size0 + align + sizeof_chunk * 2) = Some (0, a, m)"
    using malloc_refines [of a m xs "size0 + align + sizeof_chunk * 2"] assms(1,6,7) total by simp
  moreover have "\<not> sint align < sint sizeof_chunk"
  proof -
    have "sint align = int (unat align)" using al lt by (intro sint_small) simp
    moreover have "int 16 \<le> int (unat align)" using two(1) unfolding al of_nat_le_iff .
    ultimately show ?thesis unfolding sizeof_chunk_def by (simp del: of_nat_unat)
  qed
  ultimately show ?thesis by (simp add: malloc_align_def Let_def)
qed

text \<open>The heaps that the operations build from a region of n bytes at p, by requests of 1 to 2 to the 31 - 8 bytes and the aligned requests
  considered. A client frees bytes of the region that are not free, and writes no free byte.\<close>

inductive heap_built :: "u32 \<Rightarrow> u32 \<Rightarrow> malloc_t \<Rightarrow> mem \<Rightarrow> bool" for p n where
  built_init: "0 < unat p \<Longrightarrow> unat p + unat n \<le> heap_top \<Longrightarrow> round8 (unat p) + 8 \<le> unat p + unat n
    \<Longrightarrow> malloc_init a m p n = (a', m') \<Longrightarrow> heap_built p n a' m'"
| built_malloc: "heap_built p n a m \<Longrightarrow> size_ok k \<Longrightarrow> malloc a m k = Some (r, a', m') \<Longrightarrow> heap_built p n a' m'"
| built_align: "heap_built p n a m \<Longrightarrow> align_served a m k align \<Longrightarrow> malloc_align a m k align = Some (c, a', m') \<Longrightarrow> heap_built p n a' m'"
| built_free: "heap_built p n a m \<Longrightarrow> malloc_rep a m xs \<Longrightarrow> blk_ok (c, k) \<Longrightarrow> span (c, k) \<inter> fl_bytes xs = {}
    \<Longrightarrow> span (c, k) \<subseteq> block (unat p) (unat n) \<Longrightarrow> malloc_free a m c k = Some (a', m') \<Longrightarrow> heap_built p n a' m'"
| built_write: "heap_built p n a m \<Longrightarrow> malloc_rep a m xs \<Longrightarrow> \<forall>x. unat x \<in> fl_bytes xs \<longrightarrow> m' x = m x \<Longrightarrow> heap_built p n a m'"

lemma malloc_within:
  assumes "malloc_rep a m xs" "size_ok k" "malloc a m k = Some (r, a', m')"
  shows "\<exists>ys. malloc_rep a' m' ys \<and> fl_bytes ys \<subseteq> fl_bytes xs"
proof -
  have k: "0 < unat k" "unat k \<le> heap_top - 8" using assms(2) by (auto simp: size_ok_def)
  show ?thesis
  proof (cases "fl_alloc (round8 (unat k)) xs")
    case None
    then show ?thesis using malloc_refines [OF assms(1) k] assms by auto
  next
    case (Some z)
    obtain q ys where z: "z = (q, ys)" by (cases z)
    have "malloc_rep a' m' ys" using malloc_refines [OF assms(1) k] assms(3) Some z by auto
    moreover have "fl_bytes ys \<subseteq> fl_bytes xs"
      using fl_alloc_ok [OF Some [unfolded z] malloc_rep_ok [OF assms(1)]] k(1) by (auto simp: round8_pos)
    ultimately show ?thesis by blast
  qed
qed

lemma malloc_align_within:
  assumes "malloc_rep a m xs" "align_served a m k align" "malloc_align a m k align = Some (c, a', m')"
  shows "\<exists>ys. malloc_rep a' m' ys \<and> fl_bytes ys \<subseteq> fl_bytes xs"
proof (cases "sint align < sint sizeof_chunk \<and> size_ok k")
  case True
  then show ?thesis using malloc_within [OF assms(1), of k] assms(3) by (auto simp: malloc_align_def)
next
  case False
  then obtain e where e: "align = 2 ^ e" "4 \<le> e" "e < 31" "8 dvd unat k" "0 < unat k" "unat k + 2 ^ e + 24 \<le> heap_top - 8"
      "\<forall>xs r ys. malloc_rep a m xs \<longrightarrow> fl_alloc (unat k + 2 ^ e + 24) xs = Some (r, ys) \<longrightarrow> gap_of e r \<noteq> 8"
    using assms(2) unfolding align_served_def by blast
  show ?thesis
  proof (cases "fl_alloc (unat k + 2 ^ e + 24) xs")
    case None
    then show ?thesis using malloc_align_full [OF assms(1) e(1-4,6)] assms(1,3) by auto
  next
    case (Some z)
    obtain r ys where z: "z = (r, ys)" by (cases z)
    have "align_request a m xs k align e r ys" using assms(1) e Some z by (simp add: align_request_def unat_pow2)
    from malloc_align_ok [OF this] show ?thesis using e(7) assms(1,3) Some z by fastforce
  qed
qed

lemma built_rep: "heap_built p n a m \<Longrightarrow> \<exists>xs. malloc_rep a m xs \<and> fl_bytes xs \<subseteq> block (unat p) (unat n)"
proof (induction rule: heap_built.induct)
  case (built_init a m a' m')
  have "unat p \<le> round8 (unat p)" by (rule round8_ge)
  then have "fl_bytes [(round8 (unat p), (unat p + unat n - round8 (unat p)) div 8 * 8)] \<subseteq> block (unat p) (unat n)"
    using built_init(3) by (auto simp: block_def)
  then show ?case using malloc_init_rep(1) [OF built_init] by blast
next
  case (built_malloc a m k r a' m')
  then obtain xs where xs: "malloc_rep a m xs" "fl_bytes xs \<subseteq> block (unat p) (unat n)" by blast
  from malloc_within [OF xs(1) built_malloc(2,3)] show ?case using xs(2) by auto
next
  case (built_align a m k align c a' m')
  then obtain xs where xs: "malloc_rep a m xs" "fl_bytes xs \<subseteq> block (unat p) (unat n)" by blast
  from malloc_align_within [OF xs(1) built_align(2,3)] show ?case using xs(2) by auto
next
  case (built_free a m xs c k a' m')
  have "fl_bytes xs \<subseteq> block (unat p) (unat n)" using built_free.IH built_free(2) malloc_rep_unique by blast
  moreover have "malloc_rep a' m' (fl_free (unat c) (round8 (unat k)) xs)"
    using malloc_free_refines [OF built_free(2), of c k] built_free(3,4,6) by (auto simp: blk_ok_def span_def)
  ultimately show ?case using built_free(5) by (auto simp: span_def fl_free_bytes intro!: exI)
next
  case (built_write a m xs m')
  then show ?case using malloc_rep_unique malloc_rep_cong [OF built_write(2)] by blast
qed

text \<open>C6: well-formedness of the heap is a type that every operation keeps: from malloc_init on, whatever
  sequence of malloc of 1 to 2 to the 31 - 8 bytes, of malloc_align of a multiple of 8 bytes at a power of two of at least 16 outside the eight-byte-gap
  case (or at an alignment below 12, which it ignores), of malloc_free of allocated bytes of the region and of writes of the clients to bytes that are not free
  follows, the memory holds exactly one free list, its chunks are 8-aligned, ascending, apart from each other
  and inside the region that malloc_init was given.\<close>
theorem malloc_well_formed:
  assumes "heap_built p n a m"
  shows "\<exists>xs. malloc_rep a m xs \<and> (\<forall>ys. malloc_rep a m ys \<longrightarrow> ys = xs) \<and> fl_ok 0 xs \<and> fl_bytes xs \<subseteq> block (unat p) (unat n)"
  using built_rep [OF assms] malloc_rep_unique malloc_rep_ok by blast

lemma malloc_well_formed_witness:
  "\<exists>r a m xs. malloc (fst demo_heap) (snd demo_heap) 61 = Some (r, a, m) \<and> malloc_rep a m xs
     \<and> fl_bytes xs \<subseteq> block 0x1C000004 4096 \<and> fl_bytes xs \<noteq> {}"
proof -
  have init: "heap_built 0x1C000004 4096 (fst demo_heap) (snd demo_heap)"
    by (rule built_init [where a = "\<lparr>first_free = 0, mem_type = INTERNAL_MALLOC\<rparr>" and m = "\<lambda>_. 0"])
      (simp_all add: demo_heap_def heap_top_def round8_def)
  obtain r a m where g: "malloc (fst demo_heap) (snd demo_heap) 61 = Some (r, a, m)" "malloc_rep a m [(0x1C000008, 4024)]"
    using malloc_refines [OF demo_parts, of 61] by (auto simp: heap_top_def round8_def)
  have "heap_built 0x1C000004 4096 a m"
    by (rule built_malloc [OF init _ g(1)]) (simp add: size_ok_def heap_top_def)
  from malloc_well_formed [OF this] obtain xs where "malloc_rep a m xs" "fl_bytes xs \<subseteq> block 0x1C000004 4096" by auto
  moreover have "xs = [(0x1C000008, 4024)]" using malloc_rep_unique calculation(1) g(2) .
  ultimately show ?thesis using g(1) by (auto simp: block_def)
qed

text \<open>Malloc_info terminates on every well-formed heap and reports the number of
  free bytes and of free chunks without wrapping around.\<close>
lemma malloc_info_reports:
  assumes "malloc_rep a m xs"
  shows "\<exists>total count. malloc_info a m = Some (total, first_free a, count)
    \<and> unat total = card (fl_bytes xs) \<and> unat count = length xs"
  using malloc_info_spec [OF assms] .

lemma malloc_info_reports_witness:
  "\<exists>total count p. malloc_info (fst demo_heap) (snd demo_heap) = Some (total, p, count)
    \<and> unat total = 4088 \<and> unat count = 1"
  using malloc_info_reports [OF demo_parts] by (auto simp: block_def)

text \<open>C30: for an alignment that is a power of two of at least 16 and a size that is a multiple
  of 8, malloc_align returns NULL with nothing changed exactly when no free chunk holds size, alignment and two chunk headers; otherwise,
  unless the block that first fit finds starts exactly 8 bytes below an aligned
  address, it returns an aligned block and the free list loses exactly its bytes.\<close>
theorem malloc_align_correct:
  assumes "malloc_rep a m xs" "align = 2 ^ k" "4 \<le> k" "k < 31" "8 dvd unat size0" "0 < unat size0" "unat size0 + 2 ^ k + 24 \<le> heap_top - 8"
  shows "case fl_alloc (unat size0 + 2 ^ k + 24) xs of
      None \<Rightarrow> malloc_align a m size0 align = Some (0, a, m)
    | Some (r, ys) \<Rightarrow> gap_of k r \<noteq> 8 \<longrightarrow>
        (\<exists>p a' m' zs. malloc_align a m size0 align = Some (p, a', m') \<and> p \<noteq> 0
           \<and> unat p = r + gap_of k r \<and> 2 ^ k dvd unat p
           \<and> malloc_rep a' m' zs \<and> fl_bytes zs = fl_bytes xs - block (unat p) (unat size0))"
proof (cases "fl_alloc (unat size0 + 2 ^ k + 24) xs")
  case None
  then show ?thesis using malloc_align_full [OF assms(1-5,7)] by simp
next
  case (Some z)
  obtain r ys where z: "z = (r, ys)" by (cases z)
  have req: "align_request a m xs size0 align k r ys" using assms Some z by (simp add: align_request_def unat_pow2)
  have "\<exists>p a' m' zs. malloc_align a m size0 align = Some (p, a', m') \<and> p \<noteq> 0 \<and> unat p = r + gap_of k r \<and> 2 ^ k dvd unat p
      \<and> malloc_rep a' m' zs \<and> fl_bytes zs = fl_bytes xs - block (unat p) (unat size0)" if gap: "gap_of k r \<noteq> 8"
  proof -
    obtain p a' m' zs where p: "malloc_align a m size0 align = Some (p, a', m')" "unat p = r + gap_of k r" "2 ^ k dvd unat p"
        "malloc_rep a' m' zs" "fl_bytes zs = fl_bytes xs - block (unat p) (unat size0)"
      using malloc_align_ok [OF req gap] by blast
    moreover have "p \<noteq> 0" using p(2) align_block(2) [OF req] by auto
    ultimately show ?thesis by blast
  qed
  then show ?thesis using Some z by simp
qed

lemma malloc_align_correct_witness:
  "(\<exists>p a' m'. malloc_align (fst demo_heap) (snd demo_heap) 64 32 = Some (p, a', m') \<and> unat p = 0x1C000FA0)
    \<and> malloc_align (fst demo_heap) (snd demo_heap) 4064 32 = Some (0, fst demo_heap, snd demo_heap)"
  using malloc_align_correct [OF demo_parts, of 32 5 64] malloc_align_correct [OF demo_parts, of 32 5 4064]
  by (auto simp: gap_of_def heap_top_def)

text \<open>C31: when that block does start 8 bytes below an aligned address, malloc_align
  puts align bytes behind the block it owns on the free list, although they were not free.\<close>
theorem malloc_align_overruns:
  assumes "align_request a m xs size0 align k r ys" "gap_of k r = 8"
    and "r + (unat size0 + 2 ^ k + 24) + 2 ^ k \<le> heap_top"
    and "block (r + (unat size0 + 2 ^ k + 24)) (2 ^ k) \<inter> fl_bytes xs = {}"
  shows "\<exists>p a' m' zs. malloc_align a m size0 align = Some (p, a', m')
    \<and> malloc_rep a' m' zs \<and> block (r + (unat size0 + 2 ^ k + 24)) (2 ^ k) \<subseteq> fl_bytes zs"
  using malloc_align_overrun [OF assms] .

lemma malloc_align_overruns_witness:
  "\<exists>p a' m' zs. malloc_align (fst demo_heap) (snd demo_heap) 16 32 = Some (p, a', m')
    \<and> malloc_rep a' m' zs \<and> 0x1C001000 \<in> fl_bytes zs"
proof -
  have "align_request (fst demo_heap) (snd demo_heap) [(0x1C000008, 4088)] 16 32 5 0x1C000FB8 [(0x1C000008, 4016)]"
    using demo_parts by (simp add: align_request_def heap_top_def)
  from malloc_align_overruns [OF this]
  have "\<exists>p a' m' zs. malloc_align (fst demo_heap) (snd demo_heap) 16 32 = Some (p, a', m')
    \<and> malloc_rep a' m' zs \<and> block 0x1C001000 32 \<subseteq> fl_bytes zs"
    by (simp add: gap_of_def heap_top_def block_def)
  moreover have "0x1C001000 \<in> block 0x1C001000 32" by (simp add: block_def)
  ultimately show ?thesis by blast
qed

end
