(* ===== verification/Machine.thy ===== *)
theory Machine
  imports Prelude
begin

text \<open>
  The part of the RISC-V core and of the bus that the drivers touch: control and status
  registers, and memory-mapped peripheral registers with the log of the writes to them. A
  register holds what was last written to it; what a peripheral does by itself is not modelled,
  so a status register is an input of the model.
\<close>

record machine =
  csrs :: "u32 \<Rightarrow> u32"
  regs :: "u32 \<Rightarrow> u32"
  io_log :: "(u32 \<times> u32) list"

subsection \<open>Bits (drivers/include/bits.h)\<close>

definition BIT :: "nat \<Rightarrow> u32" where
  "BIT n = push_bit n 1"

definition BIT_MASK :: "nat \<Rightarrow> u32" where
  "BIT_MASK n = BIT n - 1"

definition WRITE_BIT :: "u32 \<Rightarrow> nat \<Rightarrow> u32 \<Rightarrow> u32" where
  "WRITE_BIT var b v = (if v \<noteq> 0 then var OR BIT b else var AND NOT (BIT b))"

definition GENMASK :: "nat \<Rightarrow> nat \<Rightarrow> u32" where
  "GENMASK h l = ((NOT 0) - push_bit l 1 + 1) AND drop_bit (31 - h) (NOT 0)"

definition REG_SET :: "nat \<Rightarrow> u32 \<Rightarrow> u32 \<Rightarrow> u32" where
  "REG_SET shift msk v = push_bit shift v AND msk"

definition REG_GET :: "nat \<Rightarrow> u32 \<Rightarrow> u32 \<Rightarrow> u32" where
  "REG_GET shift msk v = drop_bit shift (v AND msk)"

subsection \<open>Control and status registers (target/arch/csr.h, riscv.h)\<close>

definition CSR_MSTATUS :: u32 where "CSR_MSTATUS = 0x300"
definition CSR_MIE :: u32 where "CSR_MIE = 0x304"
definition CSR_MCAUSE :: u32 where "CSR_MCAUSE = 0x342"
definition CSR_MTVEC :: u32 where "CSR_MTVEC = 0x305"
definition CSR_MINTTHRESH :: u32 where "CSR_MINTTHRESH = 0x347"
definition CSR_MHARTID :: u32 where "CSR_MHARTID = 0xf14"

definition MSTATUS_IE :: u32 where "MSTATUS_IE = BIT 3"

definition csr_read :: "u32 \<Rightarrow> 'a machine_scheme \<Rightarrow> u32" where
  "csr_read c s = csrs s c"

definition csr_write :: "u32 \<Rightarrow> u32 \<Rightarrow> 'a machine_scheme \<Rightarrow> 'a machine_scheme" where
  "csr_write c v s = s\<lparr>csrs := (csrs s)(c := v)\<rparr>"

definition csr_read_clear :: "u32 \<Rightarrow> u32 \<Rightarrow> 'a machine_scheme \<Rightarrow> u32 \<times> 'a machine_scheme" where
  "csr_read_clear c v s = (csrs s c, s\<lparr>csrs := (csrs s)(c := csrs s c AND NOT v)\<rparr>)"

definition csr_read_set :: "u32 \<Rightarrow> u32 \<Rightarrow> 'a machine_scheme \<Rightarrow> u32 \<times> 'a machine_scheme" where
  "csr_read_set c v s = (csrs s c, s\<lparr>csrs := (csrs s)(c := csrs s c OR v)\<rparr>)"

definition restore_irq :: "u32 \<Rightarrow> 'a machine_scheme \<Rightarrow> 'a machine_scheme" where
  "restore_irq irq s = csr_write CSR_MSTATUS irq s"

definition enable_irq :: "'a machine_scheme \<Rightarrow> 'a machine_scheme" where
  "enable_irq s = snd (csr_read_set CSR_MSTATUS (BIT 3) s)"

definition disable_irq :: "'a machine_scheme \<Rightarrow> u32 \<times> 'a machine_scheme" where
  "disable_irq s = csr_read_clear CSR_MSTATUS (BIT 3) s"

definition irqs_on :: "'a machine_scheme \<Rightarrow> bool" where
  "irqs_on s = bit (csrs s CSR_MSTATUS) 3"

subsection \<open>Register access (target/arch/io.h, target.h)\<close>

definition writew :: "u32 \<Rightarrow> u32 \<Rightarrow> 'a machine_scheme \<Rightarrow> 'a machine_scheme" where
  "writew v addr s = s\<lparr>regs := (regs s)(addr := v), io_log := io_log s @ [(addr, v)]\<rparr>"

definition readw :: "u32 \<Rightarrow> 'a machine_scheme \<Rightarrow> u32" where
  "readw addr s = regs s addr"

definition hal_or32 :: "u32 \<Rightarrow> u32 \<Rightarrow> 'a machine_scheme \<Rightarrow> 'a machine_scheme" where
  "hal_or32 addr v s = writew (readw addr s OR v) addr s"

definition hal_and32 :: "u32 \<Rightarrow> u32 \<Rightarrow> 'a machine_scheme \<Rightarrow> 'a machine_scheme" where
  "hal_and32 addr v s = writew (readw addr s AND v) addr s"

subsection \<open>Lemmas\<close>

lemma bit_BIT [simp]: "bit (BIT n) i \<longleftrightarrow> i = n \<and> n < 32"
  by (auto simp: BIT_def bit_simps)

lemma bit_WRITE_BIT: "bit (WRITE_BIT w n v) i \<longleftrightarrow> (if i = n \<and> n < 32 then v \<noteq> 0 else bit w i)"
  by (auto simp: WRITE_BIT_def bit_simps dest: bit_imp_le_length)

lemma bit_mask_word: "bit (BIT_MASK n) i \<longleftrightarrow> i < n \<and> i < 32"
proof -
  have "BIT_MASK n = mask n" by (simp add: BIT_MASK_def BIT_def mask_eq_exp_minus_1)
  then show ?thesis by (auto simp: bit_simps)
qed

lemma REG_roundtrip:
  assumes "msk = push_bit shift (mask n)" "shift + n \<le> 32" "v = take_bit n v"
  shows "REG_GET shift msk (REG_SET shift msk v) = v"
proof (rule bit_word_eqI)
  fix i assume "i < LENGTH(32)"
  then show "bit (REG_GET shift msk (REG_SET shift msk v)) i = bit v i"
    using assms bit_take_bit_iff [of n v i] by (auto simp: REG_GET_def REG_SET_def bit_simps)
qed

lemma regs_writew [simp]: "regs (writew v a s) = (regs s)(a := v)"
  and csrs_writew [simp]: "csrs (writew v a s) = csrs s"
  and log_writew [simp]: "io_log (writew v a s) = io_log s @ [(a, v)]"
  by (simp_all add: writew_def)

lemma readw_writew [simp]: "readw a (writew v b s) = (if a = b then v else readw a s)"
  by (simp add: readw_def)

lemma more_writew [simp]: "machine.more (writew v a s) = machine.more s"
  by (simp add: writew_def)

lemma disable_irq_off [simp]: "\<not> irqs_on (snd (disable_irq s))"
  by (simp add: disable_irq_def csr_read_clear_def irqs_on_def bit_simps)

lemma disable_restore [simp]:
  "csrs (restore_irq (fst (disable_irq s)) (snd (disable_irq s))) = csrs s"
  by (simp add: disable_irq_def csr_read_clear_def restore_irq_def csr_write_def)

lemma irq_frame [simp]:
  "regs (snd (disable_irq s)) = regs s" "io_log (snd (disable_irq s)) = io_log s"
  "regs (restore_irq w s) = regs s" "io_log (restore_irq w s) = io_log s"
  "csrs (restore_irq w s) = (csrs s)(CSR_MSTATUS := w)" "fst (disable_irq s) = csrs s CSR_MSTATUS"
  "regs (enable_irq s) = regs s" "io_log (enable_irq s) = io_log s"
  by (simp_all add: disable_irq_def csr_read_clear_def restore_irq_def csr_write_def enable_irq_def csr_read_set_def)

lemma irq_frame_more [simp]:
  "machine.more (snd (disable_irq s)) = machine.more s" "machine.more (restore_irq w s) = machine.more s"
  "machine.more (enable_irq s) = machine.more s"
  by (simp_all add: disable_irq_def csr_read_clear_def restore_irq_def csr_write_def enable_irq_def csr_read_set_def)

lemma irqs_enable [simp]: "irqs_on (enable_irq s)"
  by (simp add: enable_irq_def csr_read_set_def irqs_on_def bit_simps)

lemma unat_small_nat: "n < 4294967296 \<Longrightarrow> unat (word_of_nat n :: u32) = n"
  using take_bit_nat_eq_self [of n 32] by (simp only: unsigned_of_nat) simp

end
