(* ===== verification/Events.thy ===== *)
theory Events
  imports Machine
begin

text \<open>
  Interrupts and SoC events: the mask banks of the SoC event unit (soc_eu.c, soc_eu.h), the
  two interrupt controllers (pclint.c, clic.c), the dispatch of SoC events to driver handlers
  (fc_event.c) and the tick timer (timer_irq.c).
\<close>

named_theorems mmio

subsection \<open>SoC event unit\<close>

definition SOC_EU_ADDR :: u32 where [mmio]: "SOC_EU_ADDR = 0x1A106000"
definition SOC_EVENT_OFFSET :: u32 where [mmio]: "SOC_EVENT_OFFSET = 0x00"
definition SOC_FC_MASK0_OFFSET :: u32 where [mmio]: "SOC_FC_MASK0_OFFSET = 0x04"
definition SOC_CL_MASK0_OFFSET :: u32 where [mmio]: "SOC_CL_MASK0_OFFSET = 0x24"
definition SOC_PR_MASK0_OFFSET :: u32 where [mmio]: "SOC_PR_MASK0_OFFSET = 0x44"
definition SOC_FC_FIRST_MASK :: u32 where [mmio]: "SOC_FC_FIRST_MASK = 0x04"
definition SOC_NB_EVENT_REGS :: nat where "SOC_NB_EVENT_REGS = 8"

definition soc_eu_mask_set :: "u32 \<Rightarrow> u32 \<Rightarrow> 'a machine_scheme \<Rightarrow> 'a machine_scheme" where
  "soc_eu_mask_set offset msk s = writew msk (SOC_EU_ADDR + offset) s"

definition soc_eu_mask_get :: "u32 \<Rightarrow> 'a machine_scheme \<Rightarrow> u32" where
  "soc_eu_mask_get offset s = readw (SOC_EU_ADDR + offset) s"

definition soc_eu_event_init :: "'a machine_scheme \<Rightarrow> 'a machine_scheme" where
  "soc_eu_event_init s =
     fold (\<lambda>i. soc_eu_mask_set (SOC_FC_FIRST_MASK + word_of_nat i * 4) 0xffffffff) [0..<SOC_NB_EVENT_REGS] s"

definition soc_eu_fc_write :: "u32 \<Rightarrow> u32 \<Rightarrow> 'a machine_scheme \<Rightarrow> 'a machine_scheme" where
  "soc_eu_fc_write val reg s = writew val (SOC_EU_ADDR + SOC_FC_MASK0_OFFSET + reg) s"

definition soc_eu_fc_read :: "u32 \<Rightarrow> 'a machine_scheme \<Rightarrow> u32" where
  "soc_eu_fc_read reg s = readw (SOC_EU_ADDR + SOC_FC_MASK0_OFFSET + reg) s"

definition soc_eu_cl_write :: "u32 \<Rightarrow> u32 \<Rightarrow> 'a machine_scheme \<Rightarrow> 'a machine_scheme" where
  "soc_eu_cl_write val reg s = writew val (SOC_EU_ADDR + SOC_CL_MASK0_OFFSET + reg) s"

definition soc_eu_cl_read :: "u32 \<Rightarrow> 'a machine_scheme \<Rightarrow> u32" where
  "soc_eu_cl_read reg s = readw (SOC_EU_ADDR + SOC_CL_MASK0_OFFSET + reg) s"

definition soc_eu_pr_write :: "u32 \<Rightarrow> u32 \<Rightarrow> 'a machine_scheme \<Rightarrow> 'a machine_scheme" where
  "soc_eu_pr_write val reg s = writew val (SOC_EU_ADDR + SOC_PR_MASK0_OFFSET + reg) s"

definition soc_eu_pr_read :: "u32 \<Rightarrow> 'a machine_scheme \<Rightarrow> u32" where
  "soc_eu_pr_read reg s = readw (SOC_EU_ADDR + SOC_PR_MASK0_OFFSET + reg) s"

definition hal_soc_eu_set_fc_mask :: "int \<Rightarrow> 'a machine_scheme \<Rightarrow> 'a machine_scheme" where
  "hal_soc_eu_set_fc_mask evt s =
     (if evt \<ge> 256 \<or> evt < 0 then s
      else let shift = nat (evt mod 32); reg_offset = word_of_int (evt div 32) * 4 in
        soc_eu_fc_write (soc_eu_fc_read reg_offset s AND NOT (push_bit shift 1)) reg_offset s)"

definition hal_soc_eu_set_pr_mask :: "int \<Rightarrow> 'a machine_scheme \<Rightarrow> 'a machine_scheme" where
  "hal_soc_eu_set_pr_mask evt s =
     (if evt \<ge> 256 \<or> evt < 0 then s
      else let shift = nat (evt mod 32); reg_offset = word_of_int (evt div 32) * 4 in
        soc_eu_pr_write (soc_eu_pr_read reg_offset s AND NOT (push_bit shift 1)) reg_offset s)"

definition hal_soc_eu_set_cl_mask :: "int \<Rightarrow> int \<Rightarrow> 'a machine_scheme \<Rightarrow> 'a machine_scheme" where
  "hal_soc_eu_set_cl_mask clusterId evt s =
     (if evt \<ge> 256 \<or> evt < 0 then s
      else let shift = nat (evt mod 32); reg_offset = word_of_int (evt div 32) * 4 in
        soc_eu_cl_write (soc_eu_cl_read reg_offset s AND NOT (push_bit shift 1)) reg_offset s)"

definition hal_soc_eu_clear_fc_mask :: "int \<Rightarrow> 'a machine_scheme \<Rightarrow> 'a machine_scheme" where
  "hal_soc_eu_clear_fc_mask evt s =
     (if evt \<ge> 256 \<or> evt < 0 then s
      else let shift = nat (evt mod 32); reg_offset = word_of_int (evt div 32) * 4 in
        soc_eu_fc_write (soc_eu_fc_read reg_offset s OR push_bit shift 1) reg_offset s)"

definition hal_soc_eu_clear_pr_mask :: "int \<Rightarrow> 'a machine_scheme \<Rightarrow> 'a machine_scheme" where
  "hal_soc_eu_clear_pr_mask evt s =
     (if evt \<ge> 256 \<or> evt < 0 then s
      else let shift = nat (evt mod 32); reg_offset = word_of_int (evt div 32) * 4 in
        soc_eu_pr_write (soc_eu_pr_read reg_offset s OR push_bit shift 1) reg_offset s)"

definition hal_soc_eu_clear_cl_mask :: "int \<Rightarrow> int \<Rightarrow> 'a machine_scheme \<Rightarrow> 'a machine_scheme" where
  "hal_soc_eu_clear_cl_mask clusterId evt s =
     (if evt \<ge> 256 \<or> evt < 0 then s
      else let shift = nat (evt mod 32); reg_offset = word_of_int (evt div 32) * 4 in
        soc_eu_cl_write (soc_eu_cl_read reg_offset s OR push_bit shift 1) reg_offset s)"

definition hal_soc_eu_set_mask :: "u32 \<Rightarrow> 'a machine_scheme \<Rightarrow> 'a machine_scheme" where
  "hal_soc_eu_set_mask msk s = writew msk (SOC_EU_ADDR + SOC_EVENT_OFFSET) s"

subsection \<open>Interrupt controllers\<close>

definition PULP_FC_IRQ_ADDR :: u32 where [mmio]: "PULP_FC_IRQ_ADDR = 0x1A109800"
definition IRQ_REG_MASK_OFFSET :: u32 where [mmio]: "IRQ_REG_MASK_OFFSET = 0x000"
definition IRQ_REG_MASK_SET_OFFSET :: u32 where [mmio]: "IRQ_REG_MASK_SET_OFFSET = 0x004"
definition IRQ_REG_MASK_CLEAR_OFFSET :: u32 where [mmio]: "IRQ_REG_MASK_CLEAR_OFFSET = 0x008"
definition IRQ_REG_INT_SET_OFFSET :: u32 where [mmio]: "IRQ_REG_INT_SET_OFFSET = 0x010"
definition IRQ_REG_INT_CLEAR_OFFSET :: u32 where [mmio]: "IRQ_REG_INT_CLEAR_OFFSET = 0x014"
definition IRQ_REG_FIFO_OFFSET :: u32 where [mmio]: "IRQ_REG_FIFO_OFFSET = 0x024"

definition irq_mask :: "u32 \<Rightarrow> 'a machine_scheme \<Rightarrow> 'a machine_scheme" where
  "irq_mask msk s = writew msk (PULP_FC_IRQ_ADDR + IRQ_REG_MASK_OFFSET) s"

definition irq_enable :: "int \<Rightarrow> 'a machine_scheme \<Rightarrow> 'a machine_scheme option" where
  "irq_enable irqn s =
     (if 0 \<le> irqn \<and> irqn < 32
      then Some (writew (push_bit (nat irqn) 1) (PULP_FC_IRQ_ADDR + IRQ_REG_MASK_SET_OFFSET) s)
      else None)"

definition irq_disable :: "int \<Rightarrow> 'a machine_scheme \<Rightarrow> 'a machine_scheme option" where
  "irq_disable irqn s =
     (if 0 \<le> irqn \<and> irqn < 32
      then Some (writew (push_bit (nat irqn) 1) (PULP_FC_IRQ_ADDR + IRQ_REG_MASK_CLEAR_OFFSET) s)
      else None)"

definition irq_pend :: "int \<Rightarrow> 'a machine_scheme \<Rightarrow> 'a machine_scheme option" where
  "irq_pend irqn s =
     (if 0 \<le> irqn \<and> irqn < 32
      then Some (writew (push_bit (nat irqn) 1) (PULP_FC_IRQ_ADDR + IRQ_REG_INT_SET_OFFSET) s)
      else None)"

definition irq_clear :: "int \<Rightarrow> 'a machine_scheme \<Rightarrow> 'a machine_scheme option" where
  "irq_clear irqn s =
     (if 0 \<le> irqn \<and> irqn < 32
      then Some (writew (push_bit (nat irqn) 1) (PULP_FC_IRQ_ADDR + IRQ_REG_INT_CLEAR_OFFSET) s)
      else None)"

definition irq_clint_global_disable :: "'a machine_scheme \<Rightarrow> u32 \<times> 'a machine_scheme" where
  "irq_clint_global_disable s = csr_read_clear CSR_MSTATUS MSTATUS_IE s"

definition irq_clint_global_enable :: "'a machine_scheme \<Rightarrow> u32 \<times> 'a machine_scheme" where
  "irq_clint_global_enable s = csr_read_set CSR_MSTATUS MSTATUS_IE s"

definition irq_clint_disable :: "nat \<Rightarrow> 'a machine_scheme \<Rightarrow> u32 \<times> 'a machine_scheme" where
  "irq_clint_disable irqn s = csr_read_clear CSR_MIE (push_bit irqn 1) s"

definition irq_clint_enable :: "nat \<Rightarrow> 'a machine_scheme \<Rightarrow> u32 \<times> 'a machine_scheme" where
  "irq_clint_enable irqn s = csr_read_set CSR_MIE (push_bit irqn 1) s"

definition pulp_irq_init :: "'a machine_scheme \<Rightarrow> 'a machine_scheme" where
  "pulp_irq_init s = writew 0xffffffff (PULP_FC_IRQ_ADDR + IRQ_REG_MASK_CLEAR_OFFSET) s"

definition irq_set_handler :: "int \<Rightarrow> 'h \<Rightarrow> 'h list \<Rightarrow> 'h list option" where
  "irq_set_handler irqn handler isr_table =
     (if 0 \<le> irqn \<and> irqn < 32 then Some (isr_table[nat irqn := handler]) else None)"

text \<open>
  What the interrupt controller makes of the register writes, from the register descriptions in
  irq.h: MASK holds the mask, MASK\_SET sets and MASK\_CLEAR clears the bits written as one.
\<close>

fun irq_mask_after :: "u32 \<Rightarrow> (u32 \<times> u32) list \<Rightarrow> u32" where
  "irq_mask_after w [] = w"
| "irq_mask_after w ((a, v) # log) =
     irq_mask_after
       (if a = PULP_FC_IRQ_ADDR + IRQ_REG_MASK_OFFSET then v
        else if a = PULP_FC_IRQ_ADDR + IRQ_REG_MASK_SET_OFFSET then w OR v
        else if a = PULP_FC_IRQ_ADDR + IRQ_REG_MASK_CLEAR_OFFSET then w AND NOT v
        else w) log"

subsection \<open>The CLIC of control-pulp\<close>

definition PULP_CLIC_ADDR :: u32 where [mmio]: "PULP_CLIC_ADDR = 0x1A200000"
definition CLIC_CLICCFG_REG_OFFSET :: u32 where [mmio]: "CLIC_CLICCFG_REG_OFFSET = 0x0"
definition CLIC_CLICCFG_NLBITS_OFFSET :: nat where "CLIC_CLICCFG_NLBITS_OFFSET = 1"
definition CLIC_CLICCFG_NLBITS_MASK :: u32 where "CLIC_CLICCFG_NLBITS_MASK = 0xf"
definition CLIC_CLICINTATTR_SHV_BIT :: nat where "CLIC_CLICINTATTR_SHV_BIT = 0"
definition CLIC_CLICINTATTR_TRIG_MASK :: u32 where "CLIC_CLICINTATTR_TRIG_MASK = 0x3"
definition CLIC_CLICINTATTR_TRIG_OFFSET :: nat where "CLIC_CLICINTATTR_TRIG_OFFSET = 1"
definition CLIC_TRIG_LEVEL :: u32 where "CLIC_TRIG_LEVEL = 0"
definition CLIC_TRIG_EDGE :: u32 where "CLIC_TRIG_EDGE = 1"
definition CLIC_TRIG_POSITIVE :: u32 where "CLIC_TRIG_POSITIVE = 0"
definition CLIC_TRIG_NEGATIVE :: u32 where "CLIC_TRIG_NEGATIVE = 2"

definition CLIC_CLICINTIP_REG_OFFSET :: "u32 \<Rightarrow> u32" where "CLIC_CLICINTIP_REG_OFFSET irqn = 0x1000 + 0x10 * irqn"
definition CLIC_CLICINTIE_REG_OFFSET :: "u32 \<Rightarrow> u32" where "CLIC_CLICINTIE_REG_OFFSET irqn = 0x1004 + 0x10 * irqn"
definition CLIC_CLICINTATTR_REG_OFFSET :: "u32 \<Rightarrow> u32" where "CLIC_CLICINTATTR_REG_OFFSET irqn = 0x1008 + 0x10 * irqn"
definition CLIC_CLICINTCTL_REG_OFFSET :: "u32 \<Rightarrow> u32" where "CLIC_CLICINTCTL_REG_OFFSET irqn = 0x100c + 0x10 * irqn"

definition clic_irq_set_lvl_and_prio :: "int \<Rightarrow> u32 \<Rightarrow> u32 \<Rightarrow> 'a machine_scheme \<Rightarrow> 'a machine_scheme option" where
  "clic_irq_set_lvl_and_prio irqn lvl prio s =
     (let nlbits = unat (drop_bit CLIC_CLICCFG_NLBITS_OFFSET (readw (PULP_CLIC_ADDR + CLIC_CLICCFG_REG_OFFSET) s)
                    AND CLIC_CLICCFG_NLBITS_MASK) in
      if nlbits \<le> 8
      then let shift = 8 - nlbits;
               val = (push_bit shift (lvl AND BIT_MASK nlbits) OR (prio AND BIT_MASK shift)) AND 0xff in
           Some (writew val (PULP_CLIC_ADDR + CLIC_CLICINTCTL_REG_OFFSET (word_of_int irqn)) s)
      else None)"

definition clic_irq_set_trigger_type :: "int \<Rightarrow> u32 \<Rightarrow> 'a machine_scheme \<Rightarrow> 'a machine_scheme" where
  "clic_irq_set_trigger_type irqn flags s =
     (let a = PULP_CLIC_ADDR + CLIC_CLICINTATTR_REG_OFFSET (word_of_int irqn);
          reg = readw a s AND NOT (push_bit CLIC_CLICINTATTR_TRIG_OFFSET CLIC_CLICINTATTR_TRIG_MASK);
          reg = reg OR push_bit CLIC_CLICINTATTR_TRIG_OFFSET (flags AND CLIC_CLICINTATTR_TRIG_MASK) in
      writew reg a s)"

definition clic_irq_enable :: "int \<Rightarrow> 'a machine_scheme \<Rightarrow> 'a machine_scheme option" where
  "clic_irq_enable irqn s =
     (if 0 \<le> irqn \<and> irqn < 256
      then let s = writew (push_bit CLIC_CLICINTATTR_SHV_BIT 1) (PULP_CLIC_ADDR + CLIC_CLICINTATTR_REG_OFFSET (word_of_int irqn)) s;
               s = writew 1 (PULP_CLIC_ADDR + CLIC_CLICINTIE_REG_OFFSET (word_of_int irqn)) s in
           map_option (clic_irq_set_trigger_type irqn (CLIC_TRIG_EDGE OR CLIC_TRIG_POSITIVE))
             (clic_irq_set_lvl_and_prio irqn 1 1 s)
      else None)"

definition clic_irq_disable :: "int \<Rightarrow> 'a machine_scheme \<Rightarrow> 'a machine_scheme option" where
  "clic_irq_disable irqn s =
     (if 0 \<le> irqn \<and> irqn < 256
      then let s = writew (push_bit CLIC_CLICINTATTR_SHV_BIT 0) (PULP_CLIC_ADDR + CLIC_CLICINTATTR_REG_OFFSET (word_of_int irqn)) s in
           Some (writew 0 (PULP_CLIC_ADDR + CLIC_CLICINTIE_REG_OFFSET (word_of_int irqn)) s)
      else None)"

definition clic_irq_pend :: "int \<Rightarrow> 'a machine_scheme \<Rightarrow> 'a machine_scheme option" where
  "clic_irq_pend irqn s =
     (if 0 \<le> irqn \<and> irqn < 256 then Some (writew 1 (PULP_CLIC_ADDR + CLIC_CLICINTIP_REG_OFFSET (word_of_int irqn)) s) else None)"

definition clic_irq_clear :: "int \<Rightarrow> 'a machine_scheme \<Rightarrow> 'a machine_scheme option" where
  "clic_irq_clear irqn s =
     (if 0 \<le> irqn \<and> irqn < 256 then Some (writew 0 (PULP_CLIC_ADDR + CLIC_CLICINTIP_REG_OFFSET (word_of_int irqn)) s) else None)"

definition clic_pulp_irq_init :: "'a machine_scheme \<Rightarrow> 'a machine_scheme" where
  "clic_pulp_irq_init s =
     (let s = csr_write CSR_MINTTHRESH 0 s;
          a = PULP_CLIC_ADDR + CLIC_CLICCFG_REG_OFFSET in
      writew ((readw a s AND NOT 0xff) OR push_bit CLIC_CLICCFG_NLBITS_OFFSET 0x4) a s)"

subsection \<open>Dispatch of SoC events (fc_event.c)\<close>

definition NB_SOC_EVENTS :: nat where "NB_SOC_EVENTS = 168"

datatype 'h fc_handler = FC_null_event | FC_handler 'h

datatype 'h fc_call = Called "'h fc_handler" u32 | Not_called

record 'h fc_events = machine +
  fc_event_handlers :: "'h fc_handler option list"

definition pi_fc_event_handler_set :: "u32 \<Rightarrow> 'h fc_handler option \<Rightarrow> ('h, 'a) fc_events_scheme \<Rightarrow> ('h, 'a) fc_events_scheme option" where
  "pi_fc_event_handler_set event_id event_handler s =
     (if unat event_id < length (fc_event_handlers s)
      then Some (s\<lparr>fc_event_handlers := (fc_event_handlers s)[unat event_id := event_handler]\<rparr>)
      else None)"

definition pi_fc_event_handler_clear :: "u32 \<Rightarrow> ('h, 'a) fc_events_scheme \<Rightarrow> ('h, 'a) fc_events_scheme option" where
  "pi_fc_event_handler_clear event_id s =
     (if unat event_id < length (fc_event_handlers s)
      then Some (s\<lparr>fc_event_handlers := (fc_event_handlers s)[unat event_id := Some FC_null_event]\<rparr>)
      else None)"

fun fc_clear_handlers :: "nat list \<Rightarrow> ('h, 'a) fc_events_scheme \<Rightarrow> ('h, 'a) fc_events_scheme option" where
  "fc_clear_handlers [] s = Some s"
| "fc_clear_handlers (i # is) s = Option.bind (pi_fc_event_handler_clear (word_of_nat i) s) (fc_clear_handlers is)"

definition pi_fc_event_handler_init :: "bool \<Rightarrow> u32 \<Rightarrow> ('h, 'a) fc_events_scheme \<Rightarrow> ('h, 'a) fc_events_scheme option" where
  "pi_fc_event_handler_init config_clic fc_event_irq s =
     Option.bind (fc_clear_handlers [0..<NB_SOC_EVENTS] s)
       (\<lambda>s. if config_clic
            then map_option (clic_irq_set_trigger_type (sint fc_event_irq) (CLIC_TRIG_LEVEL OR CLIC_TRIG_POSITIVE))
                   (clic_irq_enable (sint fc_event_irq) s)
            else irq_enable (sint fc_event_irq) s)"

definition PULP_EVENT_TO_INT_ADDR :: u32 where [mmio]: "PULP_EVENT_TO_INT_ADDR = 0x1A109000"

definition fc_soc_event_handler :: "bool \<Rightarrow> ('h, 'a) fc_events_scheme \<Rightarrow> 'h fc_call option" where
  "fc_soc_event_handler config_clic s =
     (let event = (if config_clic then readw PULP_EVENT_TO_INT_ADDR s
                   else readw (PULP_FC_IRQ_ADDR + IRQ_REG_FIFO_OFFSET) s) AND 0xff in
      if unat event < length (fc_event_handlers s)
      then Some (case fc_event_handlers s ! unat event of None \<Rightarrow> Not_called | Some h \<Rightarrow> Called h event)
      else None)"

subsection \<open>Tick timer (timer_irq.c)\<close>

definition PULP_FC_TIMER_ADDR :: u32 where [mmio]: "PULP_FC_TIMER_ADDR = 0x1A10B000"
definition TIMER_CFG_LO_OFFSET :: u32 where [mmio]: "TIMER_CFG_LO_OFFSET = 0x0"
definition TIMER_CNT_LO_OFFSET :: u32 where [mmio]: "TIMER_CNT_LO_OFFSET = 0x8"
definition TIMER_CMP_LO_OFFSET :: u32 where [mmio]: "TIMER_CMP_LO_OFFSET = 0x10"
definition TIMER_RESET_LO_OFFSET :: u32 where [mmio]: "TIMER_RESET_LO_OFFSET = 0x20"
definition TIMER_CFG_LO_ENABLE_MASK :: u32 where "TIMER_CFG_LO_ENABLE_MASK = 0x1"
definition TIMER_CFG_LO_RESET_MASK :: u32 where "TIMER_CFG_LO_RESET_MASK = 0x2"
definition TIMER_CFG_LO_IRQEN_MASK :: u32 where "TIMER_CFG_LO_IRQEN_MASK = 0x4"
definition TIMER_CFG_LO_MODE_MASK :: u32 where "TIMER_CFG_LO_MODE_MASK = 0x10"
definition TIMER_CFG_LO_CCFG_MASK :: u32 where "TIMER_CFG_LO_CCFG_MASK = 0x80"

definition timer_irq_set_timeout :: "u32 \<Rightarrow> bool \<Rightarrow> 'a machine_scheme \<Rightarrow> int \<times> 'a machine_scheme" where
  "timer_irq_set_timeout ticks idle s =
     (let s = writew 1 (PULP_FC_TIMER_ADDR + TIMER_RESET_LO_OFFSET) s;
          s = writew ticks (PULP_FC_TIMER_ADDR + TIMER_CMP_LO_OFFSET) s in (0, s))"

definition timer_irq_init :: "u32 \<Rightarrow> 'a machine_scheme \<Rightarrow> int \<times> 'a machine_scheme" where
  "timer_irq_init ticks s =
     (let s = snd (timer_irq_set_timeout ticks False s);
          s = writew (TIMER_CFG_LO_ENABLE_MASK OR TIMER_CFG_LO_RESET_MASK OR TIMER_CFG_LO_CCFG_MASK
                OR TIMER_CFG_LO_MODE_MASK OR TIMER_CFG_LO_IRQEN_MASK) (PULP_FC_TIMER_ADDR + TIMER_CFG_LO_OFFSET) s in
      (0, s))"

definition timer_irq_clock_elapsed :: u32 where
  "timer_irq_clock_elapsed = 0"

definition timer_irq_cycle_get_32 :: "'a machine_scheme \<Rightarrow> u32" where
  "timer_irq_cycle_get_32 s = readw (PULP_FC_TIMER_ADDR + TIMER_CNT_LO_OFFSET) s"

end
