(* ===== verification/EventProps.thy ===== *)
theory EventProps
  imports Events
begin

text \<open>
  Properties of the interrupt and event layer.
\<close>

subsection \<open>Mask banks of the SoC event unit\<close>

definition eu_masked :: "u32 \<Rightarrow> int \<Rightarrow> 'a machine_scheme \<Rightarrow> bool" where
  "eu_masked bank evt s = bit (regs s (SOC_EU_ADDR + bank + word_of_int (evt div 32) * 4)) (nat (evt mod 32))"

lemma reg_unat:
  assumes "0 \<le> k" "k < 8" "unat b \<le> 4096"
  shows "unat (b + word_of_int k * 4 :: u32) = unat b + 4 * nat k"
proof -
  have k: "word_of_int k * 4 = (word_of_nat (4 * nat k) :: u32)" using assms(1) by simp
  have "unat (word_of_nat (4 * nat k) :: u32) = 4 * nat k"
    using assms(2) take_bit_nat_eq_self [of "4 * nat k" 32] by (simp only: unsigned_of_nat) simp
  then show ?thesis unfolding k using assms by (subst unat_plus_u32) simp_all
qed

lemma bank_arith:
  "(ub :: nat) \<in> {4, 36, 68} \<Longrightarrow> uc \<in> {4, 36, 68} \<Longrightarrow> K < 8 \<Longrightarrow> L < 8 \<Longrightarrow>
   (ub + 4 * K = uc + 4 * L) = (ub = uc \<and> K = L)"
  by auto

lemma bank_addr:
  assumes "0 \<le> e" "e < 256" "0 \<le> f" "f < 256" and b: "b \<in> {4, 0x24, 0x44}" "c \<in> {4, 0x24, 0x44}"
  shows "(SOC_EU_ADDR + b + word_of_int (e div 32) * 4 = SOC_EU_ADDR + c + word_of_int (f div 32) * 4)
     \<longleftrightarrow> b = c \<and> e div 32 = f div 32"
proof -
  have k: "0 \<le> e div 32" "e div 32 < 8" "0 \<le> f div 32" "f div 32 < 8" using assms(1-4) by linarith+
  have bc: "unat b \<in> {4, 36, 68}" "unat c \<in> {4, 36, 68}" using b by auto
  have "unat (b + word_of_int (e div 32) * 4) = unat b + 4 * nat (e div 32)"
    "unat (c + word_of_int (f div 32) * 4) = unat c + 4 * nat (f div 32)"
    by (rule reg_unat; use k bc in force)+
  then have "(b + word_of_int (e div 32) * 4 = c + word_of_int (f div 32) * 4)
      \<longleftrightarrow> unat b + 4 * nat (e div 32) = unat c + 4 * nat (f div 32)"
    by (simp only: word_unat_eq_iff)
  also have "\<dots> \<longleftrightarrow> unat b = unat c \<and> nat (e div 32) = nat (f div 32)"
    by (rule bank_arith) (use bc k in auto)
  also have "\<dots> \<longleftrightarrow> b = c \<and> e div 32 = f div 32" using k by (simp add: word_unat_eq_iff eq_nat_nat_iff)
  finally show ?thesis by (simp only: add.assoc add_left_cancel)
qed

lemma event_split: "0 \<le> e \<Longrightarrow> 0 \<le> f \<Longrightarrow> e div 32 = f div 32 \<Longrightarrow> nat (e mod 32) = nat (f mod 32) \<longleftrightarrow> (e :: int) = f"
  by (metis div_mult_mod_eq eq_nat_nat_iff pos_mod_sign zero_less_numeral)

lemma eu_masked_write:
  assumes "0 \<le> e" "e < 256" "0 \<le> f" "f < 256" "b \<in> {4, 0x24, 0x44}" "c \<in> {4, 0x24, 0x44}"
  defines "a \<equiv> SOC_EU_ADDR + b + word_of_int (e div 32) * 4"
  shows "eu_masked c f (writew (regs s a AND NOT (push_bit (nat (e mod 32)) 1)) a s)
      \<longleftrightarrow> \<not> (b = c \<and> e = f) \<and> eu_masked c f s"
    and "eu_masked c f (writew (regs s a OR push_bit (nat (e mod 32)) 1) a s)
      \<longleftrightarrow> (b = c \<and> e = f) \<or> eu_masked c f s"
proof -
  define a' where "a' = SOC_EU_ADDR + c + word_of_int (f div 32) * 4"
  define i j where "i = nat (e mod 32)" and "j = nat (f mod 32)"
  have n: "i < 32" "j < 32" unfolding i_def j_def by (simp_all add: nat_less_iff)
  have A: "a = a' \<longleftrightarrow> b = c \<and> e div 32 = f div 32" unfolding a_def a'_def by (rule bank_addr [OF assms(1-6)])
  have B: "a = a' \<Longrightarrow> i = j \<longleftrightarrow> e = f" unfolding i_def j_def using A event_split [OF assms(1,3)] by blast
  have C: "b = c \<and> e = f \<longleftrightarrow> a = a' \<and> i = j" using A B by blast
  show "eu_masked c f (writew (regs s a AND NOT (push_bit (nat (e mod 32)) 1)) a s)
      \<longleftrightarrow> \<not> (b = c \<and> e = f) \<and> eu_masked c f s"
    "eu_masked c f (writew (regs s a OR push_bit (nat (e mod 32)) 1) a s)
      \<longleftrightarrow> (b = c \<and> e = f) \<or> eu_masked c f s"
    unfolding C eu_masked_def a'_def [symmetric] i_def [symmetric] j_def [symmetric]
    using n by (cases "a = a'"; auto simp: bit_simps)+
qed

lemmas eu_ops = hal_soc_eu_set_fc_mask_def hal_soc_eu_clear_fc_mask_def hal_soc_eu_set_cl_mask_def
  hal_soc_eu_clear_cl_mask_def hal_soc_eu_set_pr_mask_def hal_soc_eu_clear_pr_mask_def
  soc_eu_fc_write_def soc_eu_fc_read_def soc_eu_cl_write_def soc_eu_cl_read_def
  soc_eu_pr_write_def soc_eu_pr_read_def readw_def SOC_FC_MASK0_OFFSET_def SOC_CL_MASK0_OFFSET_def SOC_PR_MASK0_OFFSET_def

text \<open>The six mask operations of the event unit flip the mask bit of exactly the named
  event in exactly the named bank: "set" unmasks it, "clear" masks it, every other event of all
  three banks keeps its mask, and event numbers outside 0..255 change nothing.\<close>
lemma soc_eu_banks:
  assumes "0 \<le> f" "f < 256" "b \<in> {SOC_FC_MASK0_OFFSET, SOC_CL_MASK0_OFFSET, SOC_PR_MASK0_OFFSET}"
  shows "eu_masked b f (hal_soc_eu_set_fc_mask e s) = (\<not> (b = SOC_FC_MASK0_OFFSET \<and> e = f) \<and> eu_masked b f s)
     \<and> eu_masked b f (hal_soc_eu_clear_fc_mask e s) = (b = SOC_FC_MASK0_OFFSET \<and> e = f \<or> eu_masked b f s)
     \<and> eu_masked b f (hal_soc_eu_set_cl_mask cid e s) = (\<not> (b = SOC_CL_MASK0_OFFSET \<and> e = f) \<and> eu_masked b f s)
     \<and> eu_masked b f (hal_soc_eu_clear_cl_mask cid e s) = (b = SOC_CL_MASK0_OFFSET \<and> e = f \<or> eu_masked b f s)
     \<and> eu_masked b f (hal_soc_eu_set_pr_mask e s) = (\<not> (b = SOC_PR_MASK0_OFFSET \<and> e = f) \<and> eu_masked b f s)
     \<and> eu_masked b f (hal_soc_eu_clear_pr_mask e s) = (b = SOC_PR_MASK0_OFFSET \<and> e = f \<or> eu_masked b f s)"
proof (cases "0 \<le> e \<and> e < 256")
  case True
  have b: "b \<in> {4, 0x24, 0x44}" using assms(3) by (simp add: mmio)
  note W = eu_masked_write [OF _ _ assms(1,2) _ b]
  have e: "0 \<le> e" "e < 256" and g: "\<not> (e \<ge> 256 \<or> e < 0)" using True by auto
  have m: "(4 :: u32) \<in> {4, 0x24, 0x44}" "(0x24 :: u32) \<in> {4, 0x24, 0x44}" "(0x44 :: u32) \<in> {4, 0x24, 0x44}" by simp_all
  show ?thesis using W [OF e m(1), of s] W [OF e m(2), of s] W [OF e m(3), of s]
    by (simp only: eu_ops Let_def g if_False eq_commute [of b])
next
  case False
  then show ?thesis using assms by (auto simp: hal_soc_eu_set_fc_mask_def hal_soc_eu_clear_fc_mask_def
      hal_soc_eu_set_cl_mask_def hal_soc_eu_clear_cl_mask_def hal_soc_eu_set_pr_mask_def hal_soc_eu_clear_pr_mask_def)
qed

lemma soc_eu_banks_witness:
  "\<not> eu_masked SOC_FC_MASK0_OFFSET 139 (hal_soc_eu_set_fc_mask 139 (soc_eu_event_init \<lparr>csrs = \<lambda>_. 0, regs = \<lambda>_. 0, io_log = []\<rparr>))"
  using soc_eu_banks [of 139 SOC_FC_MASK0_OFFSET 139 "soc_eu_event_init \<lparr>csrs = \<lambda>_. 0, regs = \<lambda>_. 0, io_log = []\<rparr>" 0]
  by simp

subsection \<open>Dispatch\<close>

lemma fc_clear_handlers_ok:
  "(\<forall>i \<in> set is. i < length (fc_event_handlers s) \<and> i < 4294967296) \<Longrightarrow>
   \<exists>s'. fc_clear_handlers is s = Some s' \<and> regs s' = regs s \<and> io_log s' = io_log s \<and> csrs s' = csrs s
     \<and> length (fc_event_handlers s') = length (fc_event_handlers s)
     \<and> (\<forall>j < length (fc_event_handlers s). fc_event_handlers s' ! j
          = (if j \<in> set is then Some FC_null_event else fc_event_handlers s ! j))"
proof (induction "is" arbitrary: s)
  case (Cons i "is")
  let ?s = "s\<lparr>fc_event_handlers := (fc_event_handlers s)[i := Some FC_null_event]\<rparr>"
  have "unat (word_of_nat i :: u32) = i" using Cons.prems by (simp add: unsigned_of_nat take_bit_nat_eq_self)
  then have c: "pi_fc_event_handler_clear (word_of_nat i) s = Some ?s"
    using Cons.prems by (simp add: pi_fc_event_handler_clear_def)
  obtain s' where s': "fc_clear_handlers is ?s = Some s'" "regs s' = regs s" "io_log s' = io_log s" "csrs s' = csrs s"
      "length (fc_event_handlers s') = length (fc_event_handlers s)"
      "\<forall>j < length (fc_event_handlers s). fc_event_handlers s' ! j
          = (if j \<in> set is then Some FC_null_event else fc_event_handlers ?s ! j)"
    using Cons.IH [of ?s] Cons.prems by auto
  then show ?case using c Cons.prems by (auto simp: nth_list_update)
qed simp

lemma fc_init_ok:
  assumes "length (fc_event_handlers s) = NB_SOC_EVENTS" "0 \<le> sint irqn" "sint irqn < 32"
  shows "\<exists>s'. pi_fc_event_handler_init False irqn s = Some s'
     \<and> fc_event_handlers s' = replicate NB_SOC_EVENTS (Some FC_null_event)
     \<and> io_log s' = io_log s @ [(PULP_FC_IRQ_ADDR + IRQ_REG_MASK_SET_OFFSET, push_bit (nat (sint irqn)) 1)]"
proof -
  obtain s' where s': "fc_clear_handlers [0..<NB_SOC_EVENTS] s = Some s'" "io_log s' = io_log s"
      "length (fc_event_handlers s') = NB_SOC_EVENTS"
      "\<forall>j < NB_SOC_EVENTS. fc_event_handlers s' ! j = Some FC_null_event"
    using fc_clear_handlers_ok [of "[0..<NB_SOC_EVENTS]" s] assms by (auto simp: NB_SOC_EVENTS_def)
  then have "fc_event_handlers s' = replicate NB_SOC_EVENTS (Some FC_null_event)"
    by (intro nth_equalityI) auto
  then show ?thesis using s' assms by (auto simp: pi_fc_event_handler_init_def irq_enable_def writew_def)
qed

text \<open>C28: after the handler table is initialised and one handler is installed, a popped
  event runs that handler exactly when it is its event, the null handler for every other event of
  the table, and indexes past the end of the table when its number is 168 to 255.\<close>
theorem fc_event_dispatch:
  assumes "length (fc_event_handlers s) = NB_SOC_EVENTS" "0 \<le> sint irqn" "sint irqn < 32" "unat ev < NB_SOC_EVENTS"
    and "pi_fc_event_handler_init False irqn s = Some s1" "pi_fc_event_handler_set ev (Some (FC_handler h)) s1 = Some s2"
    and "readw (PULP_FC_IRQ_ADDR + IRQ_REG_FIFO_OFFSET) s2 AND 0xff = e"
  shows "fc_soc_event_handler False s2 =
     (if e = ev then Some (Called (FC_handler h) e)
      else if unat e < NB_SOC_EVENTS then Some (Called FC_null_event e) else None)"
proof -
  have "fc_event_handlers s1 = replicate NB_SOC_EVENTS (Some FC_null_event)"
    using fc_init_ok [OF assms(1-3)] assms(5) by auto
  then have "fc_event_handlers s2 = (replicate NB_SOC_EVENTS (Some FC_null_event))[unat ev := Some (FC_handler h)]"
    using assms(4,6) by (auto simp: pi_fc_event_handler_set_def)
  then show ?thesis using assms(4,7)
    by (auto simp: fc_soc_event_handler_def Let_def nth_list_update word_unat_eq_iff)
qed

definition demo_events :: "nat fc_events" where
  "demo_events = \<lparr>csrs = \<lambda>_. 0, regs = (\<lambda>_. 0)(0x1A109824 := 0x2a), io_log = [], fc_event_handlers = replicate NB_SOC_EVENTS None\<rparr>"

lemma fc_event_dispatch_witness:
  "\<exists>s1 s2. pi_fc_event_handler_init False 26 demo_events = Some s1 \<and>
     pi_fc_event_handler_set 42 (Some (FC_handler 7)) s1 = Some s2 \<and>
     fc_soc_event_handler False s2 = Some (Called (FC_handler 7) 42)"
proof -
  have l: "length (fc_event_handlers demo_events) = NB_SOC_EVENTS" by (simp add: demo_events_def)
  obtain s1 where s1: "fc_clear_handlers [0..<NB_SOC_EVENTS] demo_events = Some s1" "regs s1 = regs demo_events"
      "length (fc_event_handlers s1) = NB_SOC_EVENTS"
    using fc_clear_handlers_ok [of "[0..<NB_SOC_EVENTS]" demo_events] l by (auto simp: NB_SOC_EVENTS_def)
  let ?s = "writew (push_bit 26 1) (PULP_FC_IRQ_ADDR + IRQ_REG_MASK_SET_OFFSET) s1"
  have i: "pi_fc_event_handler_init False 26 demo_events = Some ?s"
    using s1 by (simp add: pi_fc_event_handler_init_def irq_enable_def)
  let ?t = "?s\<lparr>fc_event_handlers := (fc_event_handlers ?s)[42 := Some (FC_handler 7)]\<rparr>"
  have "pi_fc_event_handler_set 42 (Some (FC_handler 7)) ?s = Some ?t"
    using s1 by (simp add: pi_fc_event_handler_set_def writew_def NB_SOC_EVENTS_def)
  moreover have "readw (PULP_FC_IRQ_ADDR + IRQ_REG_FIFO_OFFSET) ?t AND 0xff = 42"
    using s1 by (simp add: readw_def writew_def demo_events_def mmio)
  ultimately show ?thesis
    using fc_event_dispatch [OF l, of 26 42 ?s 7 ?t 42] i by (auto simp: NB_SOC_EVENTS_def)
qed


subsection \<open>Interrupt controllers\<close>

definition fc_mask :: "u32 \<Rightarrow> 'a machine_scheme \<Rightarrow> u32" where
  "fc_mask w s = irq_mask_after w (io_log s)"

lemma irq_mask_after_append: "irq_mask_after w (l @ l') = irq_mask_after (irq_mask_after w l) l'"
  by (induction l arbitrary: w rule: irq_mask_after.induct) auto

datatype irq_cmd = Irq_on int | Irq_off int

fun irq_cmds :: "irq_cmd list \<Rightarrow> 'a machine_scheme \<Rightarrow> 'a machine_scheme option" where
  "irq_cmds [] s = Some s"
| "irq_cmds (Irq_on i # cs) s = Option.bind (irq_enable i s) (irq_cmds cs)"
| "irq_cmds (Irq_off i # cs) s = Option.bind (irq_disable i s) (irq_cmds cs)"

fun last_cmd :: "nat \<Rightarrow> irq_cmd list \<Rightarrow> bool \<Rightarrow> bool" where
  "last_cmd j [] b = b"
| "last_cmd j (Irq_on i # cs) b = last_cmd j cs (b \<or> i = int j)"
| "last_cmd j (Irq_off i # cs) b = last_cmd j cs (b \<and> i \<noteq> int j)"

lemma fc_mask_step:
  assumes "j < 32"
  shows "irq_enable i s = Some s' \<Longrightarrow> bit (fc_mask w s') j = (bit (fc_mask w s) j \<or> i = int j)"
    and "irq_disable i s = Some s' \<Longrightarrow> bit (fc_mask w s') j = (bit (fc_mask w s) j \<and> i \<noteq> int j)"
  using assms
  by (auto simp: irq_enable_def irq_disable_def fc_mask_def irq_mask_after_append mmio bit_simps split: if_splits)

lemma irq_cmds_mask:
  "irq_cmds cs s = Some s' \<Longrightarrow> j < 32 \<Longrightarrow> bit (fc_mask w s') j = last_cmd j cs (bit (fc_mask w s) j)"
proof (induction cs arbitrary: s)
  case (Cons c cs)
  then show ?case
    by (cases c) (auto simp: fc_mask_step split: Option.bind_splits)
qed simp

lemma not_all_ones: "(- 4294967296 :: u32) = 0"
  by (simp add: word_unat_eq_iff)

text \<open>C29: after pulp_irq_init has masked every line, the mask of the interrupt controller
  is, for each line, what the last irq_enable or irq_disable of that line made it, whatever
  other lines were switched in between.\<close>
theorem irq_mask_history:
  assumes "irq_cmds cs (pulp_irq_init s) = Some s'" "j < 32"
  shows "bit (fc_mask w s') j = last_cmd j cs False"
proof -
  have "fc_mask w (pulp_irq_init s) = 0"
    by (simp add: fc_mask_def pulp_irq_init_def irq_mask_after_append mmio not_all_ones)
  then show ?thesis using irq_cmds_mask [OF assms] by simp
qed

lemma irq_mask_history_witness:
  "\<exists>s'. irq_cmds [Irq_on 26, Irq_on 10, Irq_off 26] (pulp_irq_init \<lparr>csrs = \<lambda>_. 0, regs = \<lambda>_. 0, io_log = []\<rparr>) = Some s'
     \<and> bit (fc_mask 0 s') 10 \<and> \<not> bit (fc_mask 0 s') 26"
  using irq_mask_history [of "[Irq_on 26, Irq_on 10, Irq_off 26]" "\<lparr>csrs = \<lambda>_. 0, regs = \<lambda>_. 0, io_log = []\<rparr>" _ 10 0]
    irq_mask_history [of "[Irq_on 26, Irq_on 10, Irq_off 26]" "\<lparr>csrs = \<lambda>_. 0, regs = \<lambda>_. 0, io_log = []\<rparr>" _ 26 0]
  by (simp add: irq_enable_def irq_disable_def)

definition clic_attr :: "int \<Rightarrow> u32" where
  "clic_attr i = PULP_CLIC_ADDR + CLIC_CLICINTATTR_REG_OFFSET (word_of_int i)"

definition clic_ie :: "int \<Rightarrow> u32" where
  "clic_ie i = PULP_CLIC_ADDR + CLIC_CLICINTIE_REG_OFFSET (word_of_int i)"

definition clic_ctl :: "int \<Rightarrow> u32" where
  "clic_ctl i = PULP_CLIC_ADDR + CLIC_CLICINTCTL_REG_OFFSET (word_of_int i)"

definition clic_cfg :: u32 where
  "clic_cfg = PULP_CLIC_ADDR + CLIC_CLICCFG_REG_OFFSET"

lemma clic_id_unat:
  assumes "0 \<le> i" "i < 256"
  shows "unat (0x10 * word_of_int i :: u32) = 16 * nat i"
proof -
  have w: "0x10 * word_of_int i = (word_of_nat (16 * nat i) :: u32)" using assms(1) by simp
  show ?thesis unfolding w using assms(2) take_bit_nat_eq_self [of "16 * nat i" 32] by (simp only: unsigned_of_nat) simp
qed

lemma clic_addr_distinct:
  assumes "0 \<le> i" "i < 256"
  shows "clic_cfg \<notin> {clic_attr i, clic_ie i, clic_ctl i}" "distinct [clic_attr i, clic_ie i, clic_ctl i]"
proof -
  note U = clic_id_unat [OF assms]
  have b: "unat (0x10 * word_of_int i :: u32) < 4096" using U assms by simp
  have "unat (clic_attr i) = 0x1A201008 + 16 * nat i" "unat (clic_ie i) = 0x1A201004 + 16 * nat i"
    "unat (clic_ctl i) = 0x1A20100c + 16 * nat i" "unat clic_cfg = 0x1A200000"
    using b U by (simp_all add: clic_attr_def clic_ie_def clic_ctl_def clic_cfg_def mmio unat_plus_u32
        CLIC_CLICINTATTR_REG_OFFSET_def CLIC_CLICINTIE_REG_OFFSET_def CLIC_CLICINTCTL_REG_OFFSET_def
        flip: add.assoc)
  then show "clic_cfg \<notin> {clic_attr i, clic_ie i, clic_ctl i}" "distinct [clic_attr i, clic_ie i, clic_ctl i]"
    by (auto simp: word_unat_eq_iff)
qed

lemma clic_nlbits_init: "drop_bit 1 ((w AND NOT 0xff) OR push_bit 1 4) AND 0xf = (4 :: u32)"
proof (rule bit_word_eqI)
  fix n assume "n < LENGTH(32)"
  have four: "bit (4 :: nat) n \<longleftrightarrow> n = 2" "bit (4 :: int) n \<longleftrightarrow> n = 2" for n
    using bit_exp_iff [of 2 n, where ?'a = nat] bit_exp_iff [of 2 n, where ?'a = int] by auto
  have f: "(0xf :: u32) = mask 4" "(0xff :: u32) = mask 8"
    by (simp_all add: mask_eq_exp_minus_1)
  show "bit (drop_bit 1 ((w AND NOT 0xff) OR push_bit 1 4) AND 0xf) n = bit (4 :: u32) n"
    unfolding f by (auto simp: bit_simps four)
qed

lemma clic_lvl_code:
  assumes "drop_bit 1 (readw clic_cfg s) AND 0xf = 4"
  shows "clic_irq_set_lvl_and_prio i 1 1 s = Some (writew 0x11 (clic_ctl i) s)"
proof -
  have "unat (drop_bit CLIC_CLICCFG_NLBITS_OFFSET (readw (PULP_CLIC_ADDR + CLIC_CLICCFG_REG_OFFSET) s)
                    AND CLIC_CLICCFG_NLBITS_MASK) = 4"
    using assms by (simp add: clic_cfg_def CLIC_CLICCFG_NLBITS_OFFSET_def CLIC_CLICCFG_NLBITS_MASK_def)
  then show ?thesis
    by (simp add: clic_irq_set_lvl_and_prio_def clic_ctl_def BIT_MASK_def BIT_def)
qed

lemma clic_trigger_code:
  assumes "readw (clic_attr i) s = 1"
  shows "clic_irq_set_trigger_type i (CLIC_TRIG_EDGE OR CLIC_TRIG_POSITIVE) s = writew 3 (clic_attr i) s"
  using assms by (simp add: clic_irq_set_trigger_type_def clic_attr_def CLIC_TRIG_EDGE_def CLIC_TRIG_POSITIVE_def
      CLIC_CLICINTATTR_TRIG_OFFSET_def CLIC_CLICINTATTR_TRIG_MASK_def)

text \<open>After pulp_irq_init on the CLIC has split the control bits into four level
  and four priority bits, irq_enable of any of the 256 lines succeeds and enables the line,
  hardware-vectored and edge-triggered, at level 1 and priority 1.\<close>
lemma clic_enable_after_init:
  assumes "0 \<le> i" "i < 256"
  shows "\<exists>s'. clic_irq_enable i (clic_pulp_irq_init s) = Some s'
     \<and> readw (clic_ie i) s' = 1 \<and> readw (clic_attr i) s' = 3 \<and> readw (clic_ctl i) s' = 0x11"
proof -
  note D = clic_addr_distinct [OF assms]
  let ?s1 = "writew 1 (clic_ie i) (writew 1 (clic_attr i) (clic_pulp_irq_init s))"
  have "drop_bit 1 (readw clic_cfg (clic_pulp_irq_init s)) AND 0xf = 4"
    using clic_nlbits_init [of "readw clic_cfg (csr_write CSR_MINTTHRESH 0 s)"]
    unfolding clic_pulp_irq_init_def Let_def clic_cfg_def [symmetric] CLIC_CLICCFG_NLBITS_OFFSET_def readw_writew by simp
  then have "drop_bit 1 (readw clic_cfg ?s1) AND 0xf = 4" using D by simp
  note L = clic_lvl_code [OF this, of i]
  have "readw (clic_attr i) (writew 0x11 (clic_ctl i) ?s1) = 1" using D by simp
  note T = clic_trigger_code [OF this]
  have "clic_irq_enable i (clic_pulp_irq_init s) = Some (writew 3 (clic_attr i) (writew 0x11 (clic_ctl i) ?s1))"
    using assms L T unfolding clic_irq_enable_def Let_def clic_attr_def [symmetric] clic_ie_def [symmetric]
    by (simp add: CLIC_CLICINTATTR_SHV_BIT_def)
  then show ?thesis using D by auto
qed

lemma clic_enable_after_init_witness:
  "\<exists>s'. clic_irq_enable 7 (clic_pulp_irq_init \<lparr>csrs = \<lambda>_. 0, regs = \<lambda>_. 0xffffffff, io_log = []\<rparr>) = Some s'
     \<and> readw 0x1A20107C s' = 0x11"
  using clic_enable_after_init [of 7 "\<lparr>csrs = \<lambda>_. 0, regs = \<lambda>_. 0xffffffff, io_log = []\<rparr>"]
  by (auto simp: clic_ctl_def CLIC_CLICINTCTL_REG_OFFSET_def mmio)

end
