(* ===== verification/Gpio.thy ===== *)
theory Gpio
  imports Machine
begin

text \<open>
  Pins: the pad multiplexer (drivers/pinmux.c) and the GPIO driver (drivers/gpio.c). A failed
  assert and a shift by the width of the type or more are the value None.
\<close>

named_theorems gpio_regs

definition PULP_APB_SOC_CTRL_ADDR :: u32 where [gpio_regs]: "PULP_APB_SOC_CTRL_ADDR = 0x1A104000"
definition APB_SOC_PADFUN0_OFFSET :: u32 where [gpio_regs]: "APB_SOC_PADFUN0_OFFSET = 0x10"
definition PULP_GPIO_ADDR :: u32 where [gpio_regs]: "PULP_GPIO_ADDR = 0x1A101000"
definition GPIO_PADDIR_OFFSET :: u32 where [gpio_regs]: "GPIO_PADDIR_OFFSET = 0x0"
definition GPIO_GPIOEN_OFFSET :: u32 where [gpio_regs]: "GPIO_GPIOEN_OFFSET = 0x4"
definition GPIO_PADIN_OFFSET :: u32 where [gpio_regs]: "GPIO_PADIN_OFFSET = 0x8"
definition GPIO_PADOUT_OFFSET :: u32 where [gpio_regs]: "GPIO_PADOUT_OFFSET = 0xc"
definition GPIO_PADCFG0_OFFSET :: u32 where [gpio_regs]: "GPIO_PADCFG0_OFFSET = 0x28"

definition PINMUX_FUNC_B :: u32 where "PINMUX_FUNC_B = 1"
definition GPIO_PULL_ENABLE :: u32 where "GPIO_PULL_ENABLE = push_bit 1 1"
definition GPIO_DRIVE_STRENGTH_HIGH :: u32 where "GPIO_DRIVE_STRENGTH_HIGH = push_bit 1 1"
definition GPIO_INPUT :: u32 where "GPIO_INPUT = push_bit 8 1"
definition GPIO_OUTPUT :: u32 where "GPIO_OUTPUT = push_bit 9 1"
definition GPIO_OUTPUT_INIT_LOW :: u32 where "GPIO_OUTPUT_INIT_LOW = push_bit 10 1"
definition GPIO_OUTPUT_INIT_HIGH :: u32 where "GPIO_OUTPUT_INIT_HIGH = push_bit 11 1"

subsection \<open>Pad multiplexer\<close>

definition padfun_reg :: "u32 \<Rightarrow> u32" where
  "padfun_reg pin = drop_bit 4 (pin AND 0xf) * 4 + (PULP_APB_SOC_CTRL_ADDR + APB_SOC_PADFUN0_OFFSET)"

definition padfun_shift :: "u32 \<Rightarrow> u32" where
  "padfun_shift pin = push_bit 1 (pin AND 0x7)"

definition pinmux_pin_set :: "int \<Rightarrow> u32 \<Rightarrow> 'a machine_scheme \<Rightarrow> 'a machine_scheme option" where
  "pinmux_pin_set pin func s =
     (if 0 \<le> pin \<and> pin < 32
      then Some (writew (push_bit (unat (padfun_shift (word_of_int pin))) (func AND 0x3)) (padfun_reg (word_of_int pin)) s)
      else None)"

definition pinmux_pin_get :: "int \<Rightarrow> 'a machine_scheme \<Rightarrow> u32 option" where
  "pinmux_pin_get pin s =
     (if 0 \<le> pin \<and> pin < 32
      then Some (drop_bit (unat (padfun_shift (word_of_int pin))) (readw (padfun_reg (word_of_int pin)) s) AND 0x3)
      else None)"

subsection \<open>GPIO ports and pins\<close>

definition gpio_port_get_raw :: "'a machine_scheme \<Rightarrow> u32" where
  "gpio_port_get_raw s = readw (PULP_GPIO_ADDR + GPIO_PADIN_OFFSET) s"

definition gpio_port_set_masked_raw :: "u32 \<Rightarrow> u32 \<Rightarrow> 'a machine_scheme \<Rightarrow> 'a machine_scheme" where
  "gpio_port_set_masked_raw msk val s =
     (let outval = readw (PULP_GPIO_ADDR + GPIO_PADOUT_OFFSET) s in
      writew ((outval AND NOT msk) OR (val AND msk)) (PULP_GPIO_ADDR + GPIO_PADOUT_OFFSET) s)"

definition gpio_port_set_bits_raw :: "u32 \<Rightarrow> 'a machine_scheme \<Rightarrow> 'a machine_scheme" where
  "gpio_port_set_bits_raw msk s =
     (let outval = readw (PULP_GPIO_ADDR + GPIO_PADOUT_OFFSET) s in
      writew (outval OR msk) (PULP_GPIO_ADDR + GPIO_PADOUT_OFFSET) s)"

definition gpio_port_clear_bits_raw :: "u32 \<Rightarrow> 'a machine_scheme \<Rightarrow> 'a machine_scheme" where
  "gpio_port_clear_bits_raw msk s =
     (let outval = readw (PULP_GPIO_ADDR + GPIO_PADOUT_OFFSET) s in
      writew (outval AND NOT msk) (PULP_GPIO_ADDR + GPIO_PADOUT_OFFSET) s)"

definition gpio_port_toggle_bits :: "u32 \<Rightarrow> 'a machine_scheme \<Rightarrow> 'a machine_scheme" where
  "gpio_port_toggle_bits msk s =
     (let outval = readw (PULP_GPIO_ADDR + GPIO_PADOUT_OFFSET) s in
      writew (outval XOR msk) (PULP_GPIO_ADDR + GPIO_PADOUT_OFFSET) s)"

definition gpio_pin_get_raw :: "int \<Rightarrow> 'a machine_scheme \<Rightarrow> int option" where
  "gpio_pin_get_raw pin s =
     (if 0 \<le> pin \<and> pin < 32
      then Some (if gpio_port_get_raw s AND BIT (nat pin) \<noteq> 0 then 1 else 0)
      else None)"

definition gpio_pin_set_raw :: "int \<Rightarrow> int \<Rightarrow> 'a machine_scheme \<Rightarrow> 'a machine_scheme option" where
  "gpio_pin_set_raw pin val s =
     (if 0 \<le> pin \<and> pin < 32
      then Some (if val \<noteq> 0 then gpio_port_set_bits_raw (BIT (nat pin)) s
                 else gpio_port_clear_bits_raw (BIT (nat pin)) s)
      else None)"

definition gpio_pin_toggle :: "int \<Rightarrow> 'a machine_scheme \<Rightarrow> 'a machine_scheme option" where
  "gpio_pin_toggle pin s =
     (if 0 \<le> pin \<and> pin < 32 then Some (gpio_port_toggle_bits (BIT (nat pin)) s) else None)"

definition gpio_pin_conf_pad :: "int \<Rightarrow> u32 \<Rightarrow> 'a machine_scheme \<Rightarrow> 'a machine_scheme option" where
  "gpio_pin_conf_pad pin flags s =
     (if 0 \<le> pin \<and> pin < 32
      then let p = word_of_int pin;
               pad_conf_reg = drop_bit 3 (p AND 0xf) * 4 + (PULP_GPIO_ADDR + GPIO_PADCFG0_OFFSET);
               pad_shift = unat (push_bit 3 (p AND 0x3) :: u32);
               val = (flags AND GPIO_PULL_ENABLE) OR push_bit 1 (flags AND GPIO_DRIVE_STRENGTH_HIGH) in
           Some (writew (push_bit pad_shift val) pad_conf_reg s)
      else None)"

definition gpio_pin_configure :: "int \<Rightarrow> u32 \<Rightarrow> 'a machine_scheme \<Rightarrow> 'a machine_scheme option" where
  "gpio_pin_configure pin flags s =
     (if flags AND GPIO_INPUT \<noteq> 0 \<and> flags AND GPIO_OUTPUT \<noteq> 0 then None
      else
       Option.bind (pinmux_pin_set pin PINMUX_FUNC_B s) (\<lambda>s.
       Option.bind (gpio_pin_conf_pad pin flags s) (\<lambda>s.
       let pads = WRITE_BIT (readw (PULP_GPIO_ADDR + GPIO_PADDIR_OFFSET) s) (nat pin) (flags AND GPIO_OUTPUT);
           s = writew pads (PULP_GPIO_ADDR + GPIO_PADDIR_OFFSET) s in
       Option.bind (if flags AND GPIO_OUTPUT_INIT_HIGH \<noteq> 0 then gpio_pin_set_raw pin 1 s else Some s) (\<lambda>s.
       Option.bind (if flags AND GPIO_OUTPUT_INIT_LOW \<noteq> 0 then gpio_pin_set_raw pin 0 s else Some s) (\<lambda>s.
       let en = WRITE_BIT (readw (PULP_GPIO_ADDR + GPIO_GPIOEN_OFFSET) s) (nat pin) GPIO_INPUT in
       Some (writew en (PULP_GPIO_ADDR + GPIO_GPIOEN_OFFSET) s))))))"


end
