(* ===== verification/GpioProps.thy ===== *)
theory GpioProps
  imports Gpio
begin

text \<open>
  Properties of the pin drivers.
\<close>

definition pad_out :: "'a machine_scheme \<Rightarrow> nat \<Rightarrow> bool" where
  "pad_out s i = bit (regs s (PULP_GPIO_ADDR + GPIO_PADOUT_OFFSET)) i"

definition pad_dir :: "'a machine_scheme \<Rightarrow> nat \<Rightarrow> bool" where
  "pad_dir s i = bit (regs s (PULP_GPIO_ADDR + GPIO_PADDIR_OFFSET)) i"

definition pad_clk :: "'a machine_scheme \<Rightarrow> nat \<Rightarrow> bool" where
  "pad_clk s i = bit (regs s (PULP_GPIO_ADDR + GPIO_GPIOEN_OFFSET)) i"

lemmas pad_defs = pad_out_def pad_dir_def pad_clk_def

lemmas port_ops = gpio_port_set_masked_raw_def gpio_port_set_bits_raw_def gpio_port_clear_bits_raw_def
  gpio_port_toggle_bits_def Let_def readw_def

lemma port_bits:
  "i < 32 \<Longrightarrow> pad_out (gpio_port_set_masked_raw k v s) i = (if bit k i then bit v i else pad_out s i)"
  "i < 32 \<Longrightarrow> pad_out (gpio_port_set_bits_raw k s) i = (bit k i \<or> pad_out s i)"
  "i < 32 \<Longrightarrow> pad_out (gpio_port_clear_bits_raw k s) i = (\<not> bit k i \<and> pad_out s i)"
  "i < 32 \<Longrightarrow> pad_out (gpio_port_toggle_bits k s) i = (bit k i \<noteq> pad_out s i)"
  by (auto simp: port_ops pad_out_def bit_simps)

lemma port_frame:
  "a \<noteq> PULP_GPIO_ADDR + GPIO_PADOUT_OFFSET \<Longrightarrow>
     regs (gpio_port_set_masked_raw k v s) a = regs s a \<and> regs (gpio_port_set_bits_raw k s) a = regs s a
     \<and> regs (gpio_port_clear_bits_raw k s) a = regs s a \<and> regs (gpio_port_toggle_bits k s) a = regs s a"
  by (simp add: port_ops)

lemma bind_out: "(Option.bind (if b then gpio_pin_set_raw p v t else Some t) f = Some s') \<longleftrightarrow>
   (\<exists>u. (if b then gpio_pin_set_raw p v t = Some u else u = t) \<and> f u = Some s')"
  by (auto split: Option.bind_splits)

lemma flag_bits: "flags AND BIT k \<noteq> 0 \<longleftrightarrow> k < 32 \<and> bit flags k"
proof
  assume "flags AND BIT k \<noteq> 0"
  then obtain i where "bit (flags AND BIT k) i" by (metis bit_eq_iff bit_0_eq bot_apply bot_bool_def)
  then show "k < 32 \<and> bit flags k" by (auto simp: bit_and_iff)
next
  assume "k < 32 \<and> bit flags k"
  then have "bit (flags AND BIT k) k" by (simp add: bit_and_iff)
  then show "flags AND BIT k \<noteq> 0" by (metis bit_0_eq bot_apply bot_bool_def)
qed

lemma pin_get: "0 \<le> pin \<Longrightarrow> pin < 32 \<Longrightarrow>
    gpio_pin_get_raw pin s = Some (if bit (regs s (PULP_GPIO_ADDR + GPIO_PADIN_OFFSET)) (nat pin) then 1 else 0)"
  by (simp add: gpio_pin_get_raw_def gpio_port_get_raw_def readw_def flag_bits nat_less_iff)

text \<open>Writing or toggling one pin changes the output bit of that pin as asked, no other
  output bit and no other register; reading returns the input bit of the pin; pin numbers
  outside 0..31 are refused.\<close>
lemma gpio_pin_ops:
  assumes "i < 32" "a \<noteq> PULP_GPIO_ADDR + GPIO_PADOUT_OFFSET"
  shows "(gpio_pin_set_raw pin v s = Some t1 \<longrightarrow>
            pad_out t1 i = (if int i = pin then v \<noteq> 0 else pad_out s i) \<and> regs t1 a = regs s a)
     \<and> (gpio_pin_toggle pin s = Some t2 \<longrightarrow>
            pad_out t2 i = (pad_out s i \<noteq> (int i = pin)) \<and> regs t2 a = regs s a)
     \<and> gpio_pin_get_raw (int i) s = Some (if bit (regs s (PULP_GPIO_ADDR + GPIO_PADIN_OFFSET)) i then 1 else 0)
     \<and> (gpio_pin_set_raw pin v s = None \<longleftrightarrow> \<not> (0 \<le> pin \<and> pin < 32))
     \<and> (gpio_pin_toggle pin s = None \<longleftrightarrow> \<not> (0 \<le> pin \<and> pin < 32))"
  using assms pin_get [of "int i" s] port_frame [OF assms(2), of _ _ s]
  by (auto simp: gpio_pin_set_raw_def gpio_pin_toggle_def port_bits split: if_splits)

lemma gpio_pin_ops_witness:
  "\<exists>t1. gpio_pin_set_raw 5 1 \<lparr>csrs = \<lambda>_. 0, regs = \<lambda>_. 0, io_log = []\<rparr> = Some t1
     \<and> pad_out t1 5 \<and> \<not> pad_out t1 6"
proof -
  let ?s = "\<lparr>csrs = \<lambda>_. 0, regs = \<lambda>_. 0, io_log = []\<rparr>"
  obtain t where t: "gpio_pin_set_raw 5 1 ?s = Some t" by (simp add: gpio_pin_set_raw_def)
  show ?thesis
    using t gpio_pin_ops [of 5 0 5 1 ?s t] gpio_pin_ops [of 6 0 5 1 ?s t]
    by (auto simp: gpio_regs pad_out_def)
qed

lemma padfun_reg_const: "padfun_reg p = 0x1A104010"
proof -
  have "drop_bit 4 (p AND 0xf) = (0 :: u32)"
    by (rule bit_word_eqI) (auto simp: bit_simps simp flip: mask_numeral)
  then show ?thesis by (simp add: padfun_reg_def gpio_regs)
qed

lemma padconf_reg_cases: "drop_bit 3 (p AND 0xf) = (0 :: u32) \<or> drop_bit 3 (p AND 0xf) = (1 :: u32)"
proof -
  have "drop_bit 3 (p AND 0xf) = of_bool (bit (p :: u32) 3)"
    by (rule bit_word_eqI) (auto simp: bit_simps numeral_eq_Suc simp flip: mask_numeral)
  then show ?thesis by auto
qed

definition pads_only :: "'a machine_scheme \<Rightarrow> 'a machine_scheme \<Rightarrow> bool" where
  "pads_only s t \<longleftrightarrow> (\<forall>i. pad_dir t i = pad_dir s i \<and> pad_out t i = pad_out s i \<and> pad_clk t i = pad_clk s i)"

lemma pinmux_pads_only: "pinmux_pin_set pin f s = Some t \<Longrightarrow> pads_only s t"
  by (auto simp: pinmux_pin_set_def padfun_reg_const pads_only_def pad_defs gpio_regs split: if_splits)

lemma conf_pad_pads_only: "gpio_pin_conf_pad pin flags s = Some t \<Longrightarrow> pads_only s t"
  using padconf_reg_cases [of "word_of_int pin"]
  by (auto simp: gpio_pin_conf_pad_def pads_only_def pad_defs gpio_regs Let_def split: if_splits)

lemma pin_refused:
  "pinmux_pin_set pin f s = None \<longleftrightarrow> \<not> (0 \<le> pin \<and> pin < 32)"
  "gpio_pin_conf_pad pin flags s = None \<longleftrightarrow> \<not> (0 \<le> pin \<and> pin < 32)"
  "gpio_pin_set_raw pin v s = None \<longleftrightarrow> \<not> (0 \<le> pin \<and> pin < 32)"
  by (auto simp: pinmux_pin_set_def gpio_pin_conf_pad_def gpio_pin_set_raw_def Let_def)

lemma flag_names:
  "flags AND GPIO_INPUT \<noteq> 0 \<longleftrightarrow> bit flags 8" "flags AND GPIO_OUTPUT \<noteq> 0 \<longleftrightarrow> bit flags 9"
  "flags AND GPIO_OUTPUT_INIT_LOW \<noteq> 0 \<longleftrightarrow> bit flags 10" "flags AND GPIO_OUTPUT_INIT_HIGH \<noteq> 0 \<longleftrightarrow> bit flags 11"
  using flag_bits [of flags 8] flag_bits [of flags 9] flag_bits [of flags 10] flag_bits [of flags 11]
  by (simp_all add: GPIO_INPUT_def GPIO_OUTPUT_def GPIO_OUTPUT_INIT_LOW_def GPIO_OUTPUT_INIT_HIGH_def BIT_def)

lemma set_raw_pads:
  "0 \<le> pin \<Longrightarrow> pin < 32 \<Longrightarrow> i < 32 \<Longrightarrow> gpio_pin_set_raw pin v s = Some t \<Longrightarrow>
   pad_dir t i = pad_dir s i \<and> pad_clk t i = pad_clk s i
   \<and> pad_out t i = (if int i = pin then v \<noteq> 0 else pad_out s i)"
  by (auto simp: gpio_pin_set_raw_def port_bits split: if_splits)
    (auto simp: port_ops pad_defs gpio_regs)

definition conf_tail :: "int \<Rightarrow> u32 \<Rightarrow> 'a machine_scheme \<Rightarrow> 'a machine_scheme option" where
  "conf_tail pin flags s =
     (let pads = WRITE_BIT (readw (PULP_GPIO_ADDR + GPIO_PADDIR_OFFSET) s) (nat pin) (flags AND GPIO_OUTPUT);
           s = writew pads (PULP_GPIO_ADDR + GPIO_PADDIR_OFFSET) s in
       Option.bind (if flags AND GPIO_OUTPUT_INIT_HIGH \<noteq> 0 then gpio_pin_set_raw pin 1 s else Some s) (\<lambda>s.
       Option.bind (if flags AND GPIO_OUTPUT_INIT_LOW \<noteq> 0 then gpio_pin_set_raw pin 0 s else Some s) (\<lambda>s.
       let en = WRITE_BIT (readw (PULP_GPIO_ADDR + GPIO_GPIOEN_OFFSET) s) (nat pin) GPIO_INPUT in
       Some (writew en (PULP_GPIO_ADDR + GPIO_GPIOEN_OFFSET) s))))"

lemma write_dir_pads:
  assumes "0 \<le> pin" "pin < 32" "i < 32"
  shows "pad_dir (writew (WRITE_BIT (readw (PULP_GPIO_ADDR + GPIO_PADDIR_OFFSET) s) (nat pin) v) (PULP_GPIO_ADDR + GPIO_PADDIR_OFFSET) s) i
      = (if int i = pin then v \<noteq> 0 else pad_dir s i)"
    "pad_out (writew w (PULP_GPIO_ADDR + GPIO_PADDIR_OFFSET) s) i = pad_out s i"
    "pad_clk (writew w (PULP_GPIO_ADDR + GPIO_PADDIR_OFFSET) s) i = pad_clk s i"
    "pad_clk (writew (WRITE_BIT (readw (PULP_GPIO_ADDR + GPIO_GPIOEN_OFFSET) s) (nat pin) v) (PULP_GPIO_ADDR + GPIO_GPIOEN_OFFSET) s) i
      = (if int i = pin then v \<noteq> 0 else pad_clk s i)"
    "pad_out (writew w (PULP_GPIO_ADDR + GPIO_GPIOEN_OFFSET) s) i = pad_out s i"
    "pad_dir (writew w (PULP_GPIO_ADDR + GPIO_GPIOEN_OFFSET) s) i = pad_dir s i"
  using assms by (auto simp: pad_defs gpio_regs bit_WRITE_BIT readw_def)

lemma conf_tail_pads:
  assumes p: "0 \<le> pin" "pin < 32" "i < 32" and t: "conf_tail pin flags s = Some t"
  shows "pad_dir t i = (if int i = pin then bit flags 9 else pad_dir s i)
     \<and> pad_out t i = (if int i = pin then \<not> bit flags 10 \<and> (bit flags 11 \<or> pad_out s i) else pad_out s i)
     \<and> pad_clk t i = (int i = pin \<or> pad_clk s i)"
proof -
  let ?s1 = "writew (WRITE_BIT (readw (PULP_GPIO_ADDR + GPIO_PADDIR_OFFSET) s) (nat pin) (flags AND GPIO_OUTPUT)) (PULP_GPIO_ADDR + GPIO_PADDIR_OFFSET) s"
  obtain u v where u: "if bit flags 11 then gpio_pin_set_raw pin 1 ?s1 = Some u else u = ?s1"
      and v: "if bit flags 10 then gpio_pin_set_raw pin 0 u = Some v else v = u"
      and tv: "t = writew (WRITE_BIT (readw (PULP_GPIO_ADDR + GPIO_GPIOEN_OFFSET) v) (nat pin) GPIO_INPUT) (PULP_GPIO_ADDR + GPIO_GPIOEN_OFFSET) v"
    using t unfolding conf_tail_def Let_def bind_out flag_names by auto
  note W = write_dir_pads [OF p]
  have gi: "GPIO_INPUT \<noteq> 0" by (simp add: GPIO_INPUT_def)
  have 1: "pad_dir ?s1 i = (if int i = pin then bit flags 9 else pad_dir s i)" "pad_out ?s1 i = pad_out s i"
    "pad_clk ?s1 i = pad_clk s i" by (simp_all only: W flag_names)
  have 2: "pad_dir u i = pad_dir ?s1 i" "pad_clk u i = pad_clk ?s1 i"
    "pad_out u i = (if int i = pin then bit flags 11 \<or> pad_out s i else pad_out s i)"
    using u 1 set_raw_pads [OF p, of 1 ?s1 u] by (auto split: if_splits)
  have 3: "pad_dir v i = pad_dir u i" "pad_clk v i = pad_clk u i"
    "pad_out v i = (if int i = pin then \<not> bit flags 10 \<and> pad_out u i else pad_out u i)"
    using v set_raw_pads [OF p, of 0 u v] by (auto split: if_splits)
  have 4: "pad_dir t i = pad_dir v i" "pad_out t i = pad_out v i" "pad_clk t i = (int i = pin \<or> pad_clk v i)"
    unfolding tv W using gi by auto
  show ?thesis using 1 2 3 4 by auto
qed

lemma conf_tail_ok: "0 \<le> pin \<Longrightarrow> pin < 32 \<Longrightarrow> conf_tail pin flags s \<noteq> None"
  by (auto simp: conf_tail_def Let_def pin_refused split: Option.bind_splits)

text \<open>C38: configuring a pin as input or output makes its direction bit the output flag,
  drives the initial level that the flags ask for, enables the pad clock of the pin and leaves
  direction, level and clock of every other pin alone; asking for input and output at once and
  pins outside 0..31 are refused.\<close>
theorem gpio_configure:
  assumes "i < 32"
  shows "(gpio_pin_configure pin flags s = Some t \<longrightarrow>
            pad_dir t i = (if int i = pin then bit flags 9 else pad_dir s i)
          \<and> pad_out t i = (if int i = pin then \<not> bit flags 10 \<and> (bit flags 11 \<or> pad_out s i) else pad_out s i)
          \<and> pad_clk t i = (int i = pin \<or> pad_clk s i))
     \<and> (gpio_pin_configure pin flags s = None \<longleftrightarrow> bit flags 8 \<and> bit flags 9 \<or> \<not> (0 \<le> pin \<and> pin < 32))"
proof -
  have code: "gpio_pin_configure pin flags s =
      (if bit flags 8 \<and> bit flags 9 then None
       else Option.bind (pinmux_pin_set pin PINMUX_FUNC_B s) (\<lambda>s.
            Option.bind (gpio_pin_conf_pad pin flags s) (conf_tail pin flags)))"
    unfolding gpio_pin_configure_def conf_tail_def flag_names ..
  show ?thesis
  proof (cases "bit flags 8 \<and> bit flags 9 \<or> \<not> (0 \<le> pin \<and> pin < 32)")
    case True
    then show ?thesis using code pin_refused(1) [of pin PINMUX_FUNC_B s] by auto
  next
    case False
    then obtain u v where uv: "pinmux_pin_set pin PINMUX_FUNC_B s = Some u" "gpio_pin_conf_pad pin flags u = Some v"
      using pin_refused by (metis option.exhaust)
    then have "pads_only s v" using pinmux_pads_only conf_pad_pads_only by (fastforce simp: pads_only_def)
    then show ?thesis
      using code uv False conf_tail_pads [OF _ _ assms, of pin flags v t] conf_tail_ok [of pin flags v]
      by (auto simp: pads_only_def)
  qed
qed

lemma gpio_configure_witness:
  "\<exists>t. gpio_pin_configure 3 0xA00 \<lparr>csrs = \<lambda>_. 0, regs = \<lambda>_. 0, io_log = []\<rparr> = Some t
     \<and> pad_dir t 3 \<and> pad_out t 3 \<and> \<not> pad_dir t 4"
proof -
  let ?s = "\<lparr>csrs = \<lambda>_. 0, regs = \<lambda>_. 0, io_log = []\<rparr>"
  have f: "bit (0xA00 :: u32) 9" "\<not> bit (0xA00 :: u32) 8" "bit (0xA00 :: u32) 11" "\<not> bit (0xA00 :: u32) 10"
    by (simp_all add: bit_iff_odd)
  then obtain t where t: "gpio_pin_configure 3 0xA00 ?s = Some t"
    using gpio_configure [of 3 3 "0xA00" ?s] by fastforce
  then show ?thesis using gpio_configure [of 3 3 "0xA00" ?s t] gpio_configure [of 4 3 "0xA00" ?s t] f
    by (auto simp: pad_defs)
qed

lemma padfun_shift_unat:
  assumes "0 \<le> p" "p < 32"
  shows "unat (padfun_shift (word_of_int p)) = 2 * nat (p mod 8)"
proof -
  have "nat p < 32" using assms by simp
  then have u: "unat (word_of_nat (nat p) :: u32) = nat p"
    using take_bit_nat_eq_self [of "nat p" 32] by (simp only: unsigned_of_nat) simp
  have w: "word_of_int p = (word_of_nat (nat p) :: u32)" using assms(1) by simp
  have "(word_of_nat (nat p) :: u32) AND 0x7 = take_bit 3 (word_of_nat (nat p))"
    by (simp add: take_bit_eq_mask mask_eq_exp_minus_1)
  then have a: "unat ((word_of_nat (nat p) :: u32) AND 0x7) = nat p mod 8"
    using u by (simp only: unsigned_take_bit_eq) (simp add: take_bit_eq_mod)
  have "unat (push_bit 1 ((word_of_nat (nat p) :: u32) AND 0x7)) = take_bit 32 (2 * (nat p mod 8))"
    unfolding unsigned_push_bit_eq a by (simp add: push_bit_eq_mult mult.commute)
  also have "\<dots> = 2 * (nat p mod 8)" by (rule take_bit_nat_eq_self) simp
  finally show ?thesis unfolding padfun_shift_def w using assms(1) by (simp add: nat_mod_distrib)
qed

lemma field_move:
  assumes ab: "a < 8" "b < 8"
  shows "drop_bit (2 * b) (push_bit (2 * a) (f AND 3)) AND 3 = (if a = b then f AND 3 else (0 :: u32))"
proof -
  have three: "(3 :: u32) = mask 2" by (simp add: mask_eq_exp_minus_1)
  have "bit (drop_bit (2 * b) (push_bit (2 * a) (f AND mask 2)) AND mask 2 :: u32) n
      = (a = b \<and> bit (f AND mask 2) n)" if "n < 32" for n
  proof (cases "n < 2")
    case True
    have "2 * a \<le> 2 * b + n \<and> 2 * b + n - 2 * a < 2 \<longleftrightarrow> a = b" using True by presburger
    then show ?thesis using True ab
      by (simp only: bit_and_iff bit_drop_bit_eq bit_push_bit_iff bit_mask_iff comp_apply) auto
  qed (simp add: bit_simps)
  then show ?thesis unfolding three by (intro bit_word_eqI) auto
qed
text \<open>pinmux_pin_set and pinmux_pin_get agree on one pin, but all 32 pins share one
  register and pins that agree modulo 8 share one field of it: after setting a pin every
  aliasing pin reads the same function, and every other pin reads function 0.\<close>
lemma pinmux_aliases:
  assumes "0 \<le> q" "q < 32" "pinmux_pin_set p f s = Some t"
  shows "pinmux_pin_get q t = Some (if p mod 8 = q mod 8 then f AND 3 else 0)"
proof -
  have p: "0 \<le> p" "p < 32" using assms(3) by (auto simp: pinmux_pin_set_def split: if_splits)
  have m: "nat (p mod 8) < 8" "nat (q mod 8) < 8" "nat (p mod 8) = nat (q mod 8) \<longleftrightarrow> p mod 8 = q mod 8"
    by (simp_all add: nat_less_iff eq_nat_nat_iff)
  have t: "t = writew (push_bit (2 * nat (p mod 8)) (f AND 3)) 0x1A104010 s"
    using assms(3) p unfolding pinmux_pin_set_def padfun_reg_const padfun_shift_unat [OF p] by (simp only: simp_thms if_True option.inject)
  have "pinmux_pin_get q t = Some (drop_bit (2 * nat (q mod 8)) (push_bit (2 * nat (p mod 8)) (f AND 3)) AND 3)"
    unfolding pinmux_pin_get_def padfun_reg_const t readw_writew padfun_shift_unat [OF assms(1,2)]
    using assms(1,2) by (simp only: simp_thms if_True)
  then show ?thesis unfolding field_move [OF m(1,2)] m(3) .
qed

end
