(* ===== verification/Clock.thy ===== *)
theory Clock
  imports Events
begin

text \<open>
  Clock sources: the frequency-locked loops (drivers/fll.c), the clock dividers of control-pulp
  (drivers/clkdiv.c) and the constant clocks of the FPGA builds (drivers/clkconst.c). Undefined
  C behaviour (the logarithm of 0, a shift by the word width or more) and abort are None.
\<close>

datatype pi_freq_domain = PI_FREQ_DOMAIN_FC | PI_FREQ_DOMAIN_CL | PI_FREQ_DOMAIN_PERIPH

datatype fll_type = FLL_SOC | FLL_PERI | FLL_CLUSTER

subsection \<open>Frequency-locked loops\<close>

record clocks = machine +
  flls_frequency :: "fll_type \<Rightarrow> u32"
  core_clock :: u32

definition FLL_LOG2_MAXDCO :: nat where "FLL_LOG2_MAXDCO = 29"
definition FLL_LOG2_REFCLK :: nat where "FLL_LOG2_REFCLK = 15"
definition FLL_LOG2_MAXM :: nat where "FLL_LOG2_MAXM = FLL_LOG2_MAXDCO - FLL_LOG2_REFCLK"
definition FLL_REF_CLK :: u32 where "FLL_REF_CLK = 32768"
definition FLL_CTRL_BASE :: u32 where [mmio]: "FLL_CTRL_BASE = 0x1A100000"

definition FLL_CTRL_CONF1_MULTI_FACTOR_MASK :: u32 where "FLL_CTRL_CONF1_MULTI_FACTOR_MASK = 0xFFFF"
definition FLL_CTRL_CONF1_CLK_OUT_DIV_MASK :: u32 where "FLL_CTRL_CONF1_CLK_OUT_DIV_MASK = 0x3C000000"
definition FLL_CTRL_CONF1_OUTPUT_LOCK_EN_MASK :: u32 where "FLL_CTRL_CONF1_OUTPUT_LOCK_EN_MASK = 0x40000000"
definition FLL_CTRL_CONF1_MODE_MASK :: u32 where "FLL_CTRL_CONF1_MODE_MASK = 0x80000000"
definition FLL_CTRL_CONF2_ASSERT_CYCLES_MASK :: u32 where "FLL_CTRL_CONF2_ASSERT_CYCLES_MASK = 0xFC00"
definition FLL_CTRL_CONF2_LOCK_TOLERANCE_MASK :: u32 where "FLL_CTRL_CONF2_LOCK_TOLERANCE_MASK = 0xFFF0000"
definition FLL_CTRL_INTEGRATOR_INT_PART_MASK :: u32 where "FLL_CTRL_INTEGRATOR_INT_PART_MASK = 0x3FF0000"

fun fll_num :: "fll_type \<Rightarrow> u32" where
  "fll_num FLL_SOC = 0" | "fll_num FLL_PERI = 1" | "fll_num FLL_CLUSTER = 2"

definition FLL_STATUS :: "fll_type \<Rightarrow> u32" where "FLL_STATUS f = FLL_CTRL_BASE + 16 * fll_num f"
definition FLL_CONF1 :: "fll_type \<Rightarrow> u32" where "FLL_CONF1 f = FLL_CTRL_BASE + 16 * fll_num f + 4"
definition FLL_CONF2 :: "fll_type \<Rightarrow> u32" where "FLL_CONF2 f = FLL_CTRL_BASE + 16 * fll_num f + 8"
definition FLL_INTEGRATOR :: "fll_type \<Rightarrow> u32" where "FLL_INTEGRATOR f = FLL_CTRL_BASE + 16 * fll_num f + 12"

fun log2_floor :: "nat \<Rightarrow> nat" where
  "log2_floor n = (if n < 2 then 0 else Suc (log2_floor (n div 2)))"

declare log2_floor.simps [simp del]

definition FL1 :: "u32 \<Rightarrow> u32 option" where
  "FL1 x = (if x = 0 then None else Some (word_of_nat (log2_floor (unat x))))"

definition fll_get_mult_div_from_frequency :: "u32 \<Rightarrow> (u32 \<times> u32 \<times> u32) option" where
  "fll_get_mult_div_from_frequency freq =
     (let fref = FLL_REF_CLK in
      case (FL1 freq, FL1 fref) of
        (Some lf, Some lr) \<Rightarrow>
          (let Log2M = lf - lr;
               d0 = drop_bit 1 (word_of_nat FLL_LOG2_MAXM - Log2M);
               D = (if 1 > d0 then 1 else d0) in
           if unat D < 32
           then let M = push_bit (unat D) freq div fref;
                    fres = drop_bit (unat D) (fref * M + push_bit (unat D - 1) 1) in
                Some (M, D + 1, fres)
           else None)
      | _ \<Rightarrow> None)"

definition fll_get_frequency_from_mult_div :: "u32 \<Rightarrow> u32 \<Rightarrow> u32" where
  "fll_get_frequency_from_mult_div mult div' =
     (let fref = FLL_REF_CLK in
      if div' = 0 then fref * mult else drop_bit (unat (div' - 1)) (fref * mult))"

definition pi_fll_get_frequency :: "fll_type \<Rightarrow> bool \<Rightarrow> 'a clocks_scheme \<Rightarrow> u32 \<times> 'a clocks_scheme" where
  "pi_fll_get_frequency which real s =
     (let s = (if real
               then s\<lparr>flls_frequency := (flls_frequency s)(which :=
                      fll_get_frequency_from_mult_div (readw (FLL_STATUS which) s)
                        (REG_GET 26 FLL_CTRL_CONF1_CLK_OUT_DIV_MASK (readw (FLL_CONF1 which) s)))\<rparr>
               else s) in
      (flls_frequency s which, s))"

definition system_core_clock_update :: "'a clocks_scheme \<Rightarrow> 'a clocks_scheme" where
  "system_core_clock_update s =
     (let (f, s) = pi_fll_get_frequency FLL_SOC False s in s\<lparr>core_clock := f\<rparr>)"

definition system_core_clock_get :: "'a clocks_scheme \<Rightarrow> u32 \<times> 'a clocks_scheme" where
  "system_core_clock_get s = (let s = system_core_clock_update s in (core_clock s, s))"

definition pi_fll_set_frequency :: "fll_type \<Rightarrow> u32 \<Rightarrow> 'a clocks_scheme \<Rightarrow> (int \<times> 'a clocks_scheme) option" where
  "pi_fll_set_frequency which frequency s =
     (let (irq, s) = disable_irq s in
      case fll_get_mult_div_from_frequency frequency of
        None \<Rightarrow> None
      | Some (mult, div', _) \<Rightarrow>
          (let reg1 = readw (FLL_CONF1 which) s;
               reg1 = reg1 AND NOT FLL_CTRL_CONF1_MULTI_FACTOR_MASK;
               reg1 = reg1 OR REG_SET 0 FLL_CTRL_CONF1_MULTI_FACTOR_MASK mult;
               reg1 = reg1 AND NOT FLL_CTRL_CONF1_CLK_OUT_DIV_MASK;
               reg1 = reg1 OR REG_SET 26 FLL_CTRL_CONF1_CLK_OUT_DIV_MASK div';
               s = writew reg1 (FLL_CONF1 which) s;
               s = (if which = FLL_SOC then system_core_clock_update s else s);
               s = s\<lparr>flls_frequency := (flls_frequency s)(which := frequency)\<rparr>;
               s = restore_irq irq s in
           Some (sint frequency, s)))"

definition pi_fll_init :: "fll_type \<Rightarrow> bool \<Rightarrow> 'a clocks_scheme \<Rightarrow> 'a clocks_scheme option" where
  "pi_fll_init which ret_state s =
     (if ret_state then Some (snd (pi_fll_get_frequency which True s))
      else
        (let reg1 = readw (FLL_CONF1 which) s;
             (reg1, s) =
               (if REG_GET 31 FLL_CTRL_CONF1_MODE_MASK reg1 = 0
                then let reg2 = readw (FLL_CONF2 which) s;
                         reg2 = reg2 AND NOT FLL_CTRL_CONF2_ASSERT_CYCLES_MASK;
                         reg2 = reg2 OR REG_SET 10 FLL_CTRL_CONF2_ASSERT_CYCLES_MASK 0x6;
                         reg2 = reg2 AND NOT FLL_CTRL_CONF2_LOCK_TOLERANCE_MASK;
                         reg2 = reg2 OR REG_SET 16 FLL_CTRL_CONF2_LOCK_TOLERANCE_MASK 0x50;
                         s = writew reg2 (FLL_CONF2 which) s;
                         regint = readw (FLL_INTEGRATOR which) s;
                         regint = regint AND NOT FLL_CTRL_INTEGRATOR_INT_PART_MASK;
                         regint = regint OR REG_SET 16 FLL_CTRL_INTEGRATOR_INT_PART_MASK 332;
                         s = writew regint (FLL_INTEGRATOR which) s;
                         reg1 = reg1 AND NOT FLL_CTRL_CONF1_OUTPUT_LOCK_EN_MASK;
                         reg1 = reg1 OR REG_SET 30 FLL_CTRL_CONF1_OUTPUT_LOCK_EN_MASK 1;
                         reg1 = reg1 AND NOT FLL_CTRL_CONF1_MODE_MASK;
                         reg1 = reg1 OR REG_SET 31 FLL_CTRL_CONF1_MODE_MASK 1;
                         s = writew reg1 (FLL_CONF1 which) s in
                     (reg1, s)
                else (reg1, s));
             freq = flls_frequency s which in
         if freq \<noteq> 0
         then (case pi_fll_set_frequency which freq s of
                 None \<Rightarrow> None
               | Some (ret, s) \<Rightarrow> if ret \<noteq> 0 then None else Some s)
         else
           (let freq = fll_get_frequency_from_mult_div
                         (REG_GET 0 FLL_CTRL_CONF1_MULTI_FACTOR_MASK reg1)
                         (REG_GET 26 FLL_CTRL_CONF1_CLK_OUT_DIV_MASK reg1) in
            Some (s\<lparr>flls_frequency := (flls_frequency s)(which := freq)\<rparr>))))"

definition pi_fll_deinit :: "fll_type \<Rightarrow> 'a clocks_scheme \<Rightarrow> 'a clocks_scheme" where
  "pi_fll_deinit which s = s\<lparr>flls_frequency := (flls_frequency s)(which := 0)\<rparr>"

definition pi_freq_get :: "pi_freq_domain \<Rightarrow> 'a clocks_scheme \<Rightarrow> u32 \<times> 'a clocks_scheme" where
  "pi_freq_get domain s =
     (case domain of
        PI_FREQ_DOMAIN_FC \<Rightarrow> pi_fll_get_frequency FLL_SOC False s
      | PI_FREQ_DOMAIN_CL \<Rightarrow> pi_fll_get_frequency FLL_CLUSTER False s
      | PI_FREQ_DOMAIN_PERIPH \<Rightarrow> pi_fll_get_frequency FLL_SOC False s)"

definition pi_freq_set :: "pi_freq_domain \<Rightarrow> u32 \<Rightarrow> 'a clocks_scheme \<Rightarrow> (int \<times> 'a clocks_scheme) option" where
  "pi_freq_set domain freq s =
     map_option (\<lambda>(retval, s). (if retval = -1 then -1 else 0, s))
       (case domain of
          PI_FREQ_DOMAIN_FC \<Rightarrow> pi_fll_set_frequency FLL_SOC freq s
        | PI_FREQ_DOMAIN_CL \<Rightarrow> pi_fll_set_frequency FLL_CLUSTER freq s
        | PI_FREQ_DOMAIN_PERIPH \<Rightarrow> pi_fll_set_frequency FLL_SOC freq s)"

definition pi_fll_soc_max_freq_at_V :: "int \<Rightarrow> int" where
  "pi_fll_soc_max_freq_at_V voltage =
     150000000 + (voltage - 1000) * ((250000000 - 150000000) div (1200 - 1000))"

definition pi_fll_cluster_max_freq_at_V :: "int \<Rightarrow> int" where
  "pi_fll_cluster_max_freq_at_V voltage =
     87000000 + (voltage - 1000) * ((175000000 - 87000000) div (1200 - 1000))"

subsection \<open>Clock dividers of control-pulp\<close>

definition CLKDIV_ADDR :: u32 where "CLKDIV_ADDR = 0x1A100000"
definition CLKDIV_FC_OFFSET :: u32 where "CLKDIV_FC_OFFSET = 0xf00"
definition CLKDIV_CL_OFFSET :: u32 where "CLKDIV_CL_OFFSET = 0xf08"
definition CLKDIV_PERIPH_OFFSET :: u32 where "CLKDIV_PERIPH_OFFSET = 0xf10"

definition freq_from_div :: "u32 \<Rightarrow> u32 \<Rightarrow> u32" where
  "freq_from_div freq div' =
     (if div' = 0 \<or> div' = 1 then freq
      else if div' mod 2 = 0 then freq div div' else freq div (2 * (div' - 1)))"

definition div_from_freq :: "u32 \<Rightarrow> u32 \<Rightarrow> u32" where
  "div_from_freq base_freq target_freq = base_freq div target_freq"

definition clkdiv_freq_get :: "u32 \<Rightarrow> u32 \<Rightarrow> pi_freq_domain \<Rightarrow> 'a machine_scheme \<Rightarrow> u32" where
  "clkdiv_freq_get sys_clk periph_clk domain s =
     (case domain of
        PI_FREQ_DOMAIN_FC \<Rightarrow> freq_from_div sys_clk (readw (CLKDIV_ADDR + CLKDIV_FC_OFFSET) s)
      | PI_FREQ_DOMAIN_CL \<Rightarrow> freq_from_div sys_clk (readw (CLKDIV_ADDR + CLKDIV_CL_OFFSET) s)
      | PI_FREQ_DOMAIN_PERIPH \<Rightarrow> freq_from_div periph_clk (readw (CLKDIV_ADDR + CLKDIV_PERIPH_OFFSET) s))"

definition clkdiv_freq_set :: "u32 \<Rightarrow> u32 \<Rightarrow> pi_freq_domain \<Rightarrow> u32 \<Rightarrow> 'a machine_scheme \<Rightarrow> int \<times> 'a machine_scheme" where
  "clkdiv_freq_set sys_clk periph_clk domain freq s =
     (if freq > sys_clk \<or> freq = 0 then (1, s)
      else case domain of
        PI_FREQ_DOMAIN_FC \<Rightarrow>
          (let d = div_from_freq sys_clk freq in
           if d \<ge> 0xff then (-1, s) else (0, writew d (CLKDIV_ADDR + CLKDIV_FC_OFFSET) s))
      | PI_FREQ_DOMAIN_CL \<Rightarrow>
          (let d = div_from_freq sys_clk freq in
           if d \<ge> 0xff then (-1, s) else (0, writew d (CLKDIV_ADDR + CLKDIV_CL_OFFSET) s))
      | PI_FREQ_DOMAIN_PERIPH \<Rightarrow>
          (let d = div_from_freq periph_clk freq in
           if d \<ge> 0xff then (-1, s) else (0, writew d (CLKDIV_ADDR + CLKDIV_PERIPH_OFFSET) s)))"

subsection \<open>Constant clocks\<close>

definition clkconst_freq_get :: "u32 \<Rightarrow> u32 \<Rightarrow> pi_freq_domain \<Rightarrow> u32" where
  "clkconst_freq_get sys_clk periph_clk domain =
     (case domain of
        PI_FREQ_DOMAIN_FC \<Rightarrow> sys_clk
      | PI_FREQ_DOMAIN_CL \<Rightarrow> sys_clk
      | PI_FREQ_DOMAIN_PERIPH \<Rightarrow> periph_clk)"

definition clkconst_freq_set :: "pi_freq_domain \<Rightarrow> u32 \<Rightarrow> int" where
  "clkconst_freq_set domain freq = 1"

end
