(* ===== verification/ClockProps.thy ===== *)
theory ClockProps
  imports Clock
begin

text \<open>
  Properties of the clock drivers: what frequency a loop is really programmed to, what
  initialisation does, how the cached core clock follows, and what the dividers report.
\<close>

lemma log2_floor_bounds: "0 < n \<Longrightarrow> 2 ^ log2_floor n \<le> n \<and> n < 2 ^ Suc (log2_floor n)"
proof (induction n rule: log2_floor.induct)
  case (1 n)
  show ?case
  proof (cases "n < 2")
    case True then show ?thesis using 1 by (simp add: log2_floor.simps [of n])
  next
    case False
    then have "2 ^ log2_floor (n div 2) \<le> n div 2" "n div 2 < 2 ^ Suc (log2_floor (n div 2))" using 1 by simp_all
    moreover have "log2_floor n = Suc (log2_floor (n div 2))" using False by (simp add: log2_floor.simps [of n])
    moreover have "2 * (n div 2) \<le> n" "n < 2 * Suc (n div 2)" by simp_all
    moreover have "\<And>p :: nat. p \<le> n div 2 \<Longrightarrow> n div 2 < 2 * p \<Longrightarrow> 2 * p \<le> n \<and> n < 4 * p" by linarith
    ultimately show ?thesis by simp
  qed
qed

lemma log2_floor_less: "0 < n \<Longrightarrow> n < 2 ^ k \<Longrightarrow> log2_floor n < k"
  using log2_floor_bounds [of n] power_less_imp_less_exp [of "2 :: nat" "log2_floor n" k] by linarith

lemma log2_floor_ge: "2 ^ k \<le> n \<Longrightarrow> k \<le> log2_floor n"
proof -
  assume a: "2 ^ k \<le> n"
  moreover have "(0 :: nat) < 2 ^ k" by simp
  ultimately have "0 < n" by linarith
  then have "2 ^ k < (2 :: nat) ^ Suc (log2_floor n)" using log2_floor_bounds [of n] a by linarith
  then have "k < Suc (log2_floor n)" by (rule power_less_imp_less_exp [rotated]) simp
  then show ?thesis by simp
qed

definition fll_shift :: "u32 \<Rightarrow> nat" where
  "fll_shift freq = max 1 ((29 - log2_floor (unat freq)) div 2)"

lemma fll_shift_code:
  assumes "log2_floor (unat freq) \<le> 29"
  shows "unat (drop_bit 1 (word_of_nat FLL_LOG2_MAXM - (word_of_nat (log2_floor (unat freq)) - 15)) :: u32)
    = (29 - log2_floor (unat freq)) div 2"
proof -
  let ?l = "log2_floor (unat freq)"
  have "(word_of_nat FLL_LOG2_MAXM - (word_of_nat ?l - 15) :: u32) = word_of_nat (29 - ?l)"
    using assms by (simp add: FLL_LOG2_MAXM_def FLL_LOG2_MAXDCO_def FLL_LOG2_REFCLK_def of_nat_diff)
  moreover have "unat (word_of_nat (29 - ?l) :: u32) = 29 - ?l" by (rule unat_small_nat) simp
  moreover have "take_bit 32 (29 - ?l) = 29 - ?l" by (rule take_bit_nat_eq_self) simp
  ultimately show ?thesis by (simp only: unsigned_drop_bit_eq) (simp add: drop_bit_eq_div)
qed

lemma FL1_ref: "FL1 FLL_REF_CLK = Some 15"
proof -
  have "log2_floor 32768 = 15"
    using log2_floor_ge [of 15 32768] log2_floor_less [of 32768 16] by simp
  then show ?thesis by (simp add: FL1_def FLL_REF_CLK_def)
qed

lemma fll_mult_div:
  assumes "0 < unat freq" "unat freq < 2 ^ 30"
  defines "D \<equiv> fll_shift freq"
  obtains M fres where "fll_get_mult_div_from_frequency freq = Some (M, word_of_nat (Suc D), fres)"
    and "unat M = unat freq * 2 ^ D div 2 ^ 15" "unat M < 2 ^ 16" "1 \<le> D" "D \<le> 14"
proof -
  let ?l = "log2_floor (unat freq)"
  have l: "?l \<le> 29" "unat freq < 2 ^ Suc ?l" using assms log2_floor_bounds [of "unat freq"] log2_floor_less [of "unat freq" 30] by auto
  let ?d = "drop_bit 1 (word_of_nat FLL_LOG2_MAXM - (word_of_nat ?l - 15)) :: u32"
  have d: "unat ?d = (29 - ?l) div 2" by (rule fll_shift_code [OF l(1)])
  have dw: "(if 1 > ?d then 1 else ?d) = word_of_nat D"
    using d by (auto simp: D_def fll_shift_def word_less_nat_alt max_def word_unat_eq_iff unat_small_nat)
  have D: "1 \<le> D" "D \<le> 14" "Suc ?l + D \<le> 31" "D = 1 \<or> 2 * D \<le> 29 - ?l" using l(1) by (auto simp: D_def fll_shift_def)
  have uD: "unat (word_of_nat D :: u32) = D" using D by (intro unat_small_nat) simp
  have "unat freq * 2 ^ D < 2 ^ Suc ?l * 2 ^ D" using l(2) by simp
  also have "\<dots> = 2 ^ (Suc ?l + D)" by (simp add: power_add)
  also have "\<dots> \<le> 2 ^ 31" using D(3) by (intro power_increasing) simp_all
  finally have b31: "unat freq * 2 ^ D < 2 ^ 31" .
  have ps: "unat (push_bit D freq) = unat freq * 2 ^ D"
  proof -
    have "take_bit 32 (unat freq * 2 ^ D) = unat freq * 2 ^ D" using b31 by (intro take_bit_nat_eq_self) simp
    then show ?thesis unfolding unsigned_push_bit_eq by (simp add: push_bit_eq_mult)
  qed
  let ?M = "push_bit D freq div FLL_REF_CLK"
  have M: "unat ?M = unat freq * 2 ^ D div 2 ^ 15" by (simp add: unat_div FLL_REF_CLK_def ps)
  have M16: "unat ?M < 2 ^ 16" unfolding M using b31 by (simp add: less_mult_imp_div_less)
  have "freq \<noteq> 0" using assms(1) by auto
  then have lf: "FL1 freq = Some (word_of_nat ?l)" by (simp add: FL1_def)
  have D32: "unat (word_of_nat D :: u32) < 32" using uD D by simp
  have "fll_get_mult_div_from_frequency freq = Some (?M, word_of_nat D + 1,
      drop_bit D (FLL_REF_CLK * ?M + push_bit (D - 1) 1))"
    unfolding fll_get_mult_div_from_frequency_def Let_def lf FL1_ref prod.case option.case dw uD using D by simp
  moreover have "word_of_nat D + 1 = (word_of_nat (Suc D) :: u32)" by simp
  ultimately show ?thesis using that M M16 D by metis
qed

definition fll_conf1_set :: "u32 \<Rightarrow> u32 \<Rightarrow> u32 \<Rightarrow> u32" where
  "fll_conf1_set mult d r =
     ((r AND NOT FLL_CTRL_CONF1_MULTI_FACTOR_MASK OR REG_SET 0 FLL_CTRL_CONF1_MULTI_FACTOR_MASK mult)
        AND NOT FLL_CTRL_CONF1_CLK_OUT_DIV_MASK) OR REG_SET 26 FLL_CTRL_CONF1_CLK_OUT_DIV_MASK d"

lemma conf1_masks:
  "FLL_CTRL_CONF1_MULTI_FACTOR_MASK = push_bit 0 (mask 16)"
  "FLL_CTRL_CONF1_CLK_OUT_DIV_MASK = push_bit 26 (mask 4)"
  by (simp_all add: FLL_CTRL_CONF1_MULTI_FACTOR_MASK_def FLL_CTRL_CONF1_CLK_OUT_DIV_MASK_def mask_eq_exp_minus_1)

lemma take_bit_small: "unat (w :: u32) < 2 ^ n \<Longrightarrow> take_bit n w = w"
  by (simp add: word_unat_eq_iff unsigned_take_bit_eq take_bit_nat_eq_self)

lemma bit_small: "unat (w :: u32) < 2 ^ n \<Longrightarrow> bit w i \<Longrightarrow> i < n"
  by (metis take_bit_small bit_take_bit_iff)

lemma conf1_fields:
  assumes "unat mult < 2 ^ 16" "unat d < 2 ^ 4"
  shows "REG_GET 0 FLL_CTRL_CONF1_MULTI_FACTOR_MASK (fll_conf1_set mult d r) = mult"
    and "REG_GET 26 FLL_CTRL_CONF1_CLK_OUT_DIV_MASK (fll_conf1_set mult d r) = d"
    and "fll_conf1_set mult d r AND NOT (FLL_CTRL_CONF1_MULTI_FACTOR_MASK OR FLL_CTRL_CONF1_CLK_OUT_DIV_MASK)
       = r AND NOT (FLL_CTRL_CONF1_MULTI_FACTOR_MASK OR FLL_CTRL_CONF1_CLK_OUT_DIV_MASK)"
proof -
  note sim = REG_GET_def REG_SET_def fll_conf1_set_def conf1_masks bit_simps
  have m: "\<not> bit mult i" if "16 \<le> i" for i using bit_small [OF assms(1)] that by fastforce
  have d: "i < 4" if "bit d i" for i using bit_small [OF assms(2) that] .
  show "REG_GET 0 FLL_CTRL_CONF1_MULTI_FACTOR_MASK (fll_conf1_set mult d r) = mult"
    by (rule bit_word_eqI) (use m in \<open>auto simp: sim not_less simp del: push_bit_mask_eq intro: ccontr\<close>)
  show "REG_GET 26 FLL_CTRL_CONF1_CLK_OUT_DIV_MASK (fll_conf1_set mult d r) = d"
    by (rule bit_word_eqI) (auto simp: sim m simp del: push_bit_mask_eq dest: d)
  show "fll_conf1_set mult d r AND NOT (FLL_CTRL_CONF1_MULTI_FACTOR_MASK OR FLL_CTRL_CONF1_CLK_OUT_DIV_MASK)
       = r AND NOT (FLL_CTRL_CONF1_MULTI_FACTOR_MASK OR FLL_CTRL_CONF1_CLK_OUT_DIV_MASK)"
    by (rule bit_word_eqI) (auto simp: sim m simp del: push_bit_mask_eq)
qed

lemma clocks_frame [simp]:
  "flls_frequency (snd (disable_irq s)) = flls_frequency s" "flls_frequency (restore_irq w s) = flls_frequency s"
  "flls_frequency (writew v a s) = flls_frequency s"
  "core_clock (snd (disable_irq s)) = core_clock s" "core_clock (restore_irq w s) = core_clock s"
  "core_clock (writew v a s) = core_clock s"
  by (simp_all add: disable_irq_def csr_read_clear_def restore_irq_def csr_write_def writew_def)

lemma system_core_clock_update_eq: "system_core_clock_update s = s\<lparr>core_clock := flls_frequency s FLL_SOC\<rparr>"
  by (simp add: system_core_clock_update_def pi_fll_get_frequency_def)

lemma fll_set_code:
  assumes "fll_get_mult_div_from_frequency freq = Some (mult, d, fres)"
  shows "pi_fll_set_frequency f freq s = Some (sint freq,
     (let u = writew (fll_conf1_set mult d (regs s (FLL_CONF1 f))) (FLL_CONF1 f) (snd (disable_irq s));
          v = (if f = FLL_SOC then u\<lparr>core_clock := flls_frequency s FLL_SOC\<rparr> else u) in
      restore_irq (csrs s CSR_MSTATUS) (v\<lparr>flls_frequency := (flls_frequency v)(f := freq)\<rparr>)))"
  by (simp add: pi_fll_set_frequency_def assms Let_def case_prod_beta readw_def system_core_clock_update_eq fll_conf1_set_def)

lemma fll_out_of_range:
  assumes "\<not> (0 < unat freq \<and> unat freq < 2 ^ 30)"
  shows "fll_get_mult_div_from_frequency freq = None"
proof (cases "freq = 0")
  case False
  then have p: "0 < unat freq" by (simp add: word_unat_eq_iff)
  have "log2_floor (unat freq) = 30 \<or> log2_floor (unat freq) = 31"
    using log2_floor_ge [of 30 "unat freq"] log2_floor_less [of "unat freq" 32] p assms by fastforce
  then obtain l where l: "FL1 freq = Some l" "l = 30 \<or> l = 31" using False by (auto simp: FL1_def)
  have "unat (if 1 > drop_bit 1 (word_of_nat FLL_LOG2_MAXM - (l - 15)) then 1
              else drop_bit 1 (word_of_nat FLL_LOG2_MAXM - (l - 15)) :: u32) \<ge> 32"
    using l(2) by (auto simp: FLL_LOG2_MAXM_def FLL_LOG2_MAXDCO_def FLL_LOG2_REFCLK_def mask_eq_exp_minus_1)
  then show ?thesis unfolding fll_get_mult_div_from_frequency_def Let_def l(1) FL1_ref prod.case option.case
    by (simp only: if_not_P not_less)
qed (simp add: fll_get_mult_div_from_frequency_def FL1_def)

text \<open>C32: for every frequency from 1 to 2^30 - 1 Hz pi_fll_set_frequency programs the multiplier
  and the divider of the loop so that the frequency they stand for, the one pi_fll_get_frequency computes from such
  fields, is at most the requested one and less than 2^(15-D) Hz below it; the other fields, the other registers and
  the interrupt state are as before and the requested frequency is what the driver remembers. Outside that range the
  computation is undefined.\<close>
theorem fll_set_frequency:
  "if 0 < unat freq \<and> unat freq < 2 ^ 30
   then \<exists>t. pi_fll_set_frequency f freq s = Some (sint freq, t) \<and>
     (let c = regs t (FLL_CONF1 f);
          m = REG_GET 0 FLL_CTRL_CONF1_MULTI_FACTOR_MASK c;
          d = REG_GET 26 FLL_CTRL_CONF1_CLK_OUT_DIV_MASK c;
          got = unat (fll_get_frequency_from_mult_div m d);
          others = NOT (FLL_CTRL_CONF1_MULTI_FACTOR_MASK OR FLL_CTRL_CONF1_CLK_OUT_DIV_MASK) in
        got \<le> unat freq \<and> unat freq < got + 2 ^ (15 - fll_shift freq)
      \<and> c AND others = regs s (FLL_CONF1 f) AND others
      \<and> regs t = (regs s)(FLL_CONF1 f := c)
      \<and> csrs t = csrs s \<and> flls_frequency t = (flls_frequency s)(f := freq))
   else pi_fll_set_frequency f freq s = None"
proof (cases "0 < unat freq \<and> unat freq < 2 ^ 30")
  case False
  then show ?thesis unfolding if_not_P [OF False] by (simp add: pi_fll_set_frequency_def fll_out_of_range case_prod_beta)
next
  case True
  then have assms: "0 < unat freq" "unat freq < 2 ^ 30" by simp_all
  let ?D = "fll_shift freq"
  obtain M fres where c: "fll_get_mult_div_from_frequency freq = Some (M, word_of_nat (Suc ?D), fres)"
    and M: "unat M = unat freq * 2 ^ ?D div 2 ^ 15" "unat M < 2 ^ 16" and D: "1 \<le> ?D" "?D \<le> 14"
    using fll_mult_div [OF assms(1,2)] by metis
  have d: "unat (word_of_nat (Suc ?D) :: u32) = Suc ?D" using D by (intro unat_small_nat) simp
  have dm: "word_of_nat (Suc ?D) - 1 = (word_of_nat ?D :: u32)" by simp
  have d0: "word_of_nat (Suc ?D) \<noteq> (0 :: u32)" using d by (metis unsigned_0 nat.distinct(1))
  have uD: "unat (word_of_nat ?D :: u32) = ?D" using D by (intro unat_small_nat) simp
  have got: "unat (fll_get_frequency_from_mult_div M (word_of_nat (Suc ?D))) = unat M * 2 ^ (15 - ?D)"
  proof -
    have "unat (FLL_REF_CLK * M) = 32768 * unat M"
      using M(2) unat_mult_lem [of FLL_REF_CLK M] by (simp add: FLL_REF_CLK_def)
    moreover have "(32768 :: nat) = 2 ^ (15 - ?D) * 2 ^ ?D" using D by (simp flip: power_add)
    ultimately have "unat (FLL_REF_CLK * M) = unat M * 2 ^ (15 - ?D) * 2 ^ ?D" by simp
    then have "unat (FLL_REF_CLK * M) div 2 ^ ?D = unat M * 2 ^ (15 - ?D)" by simp
    then show ?thesis
      unfolding fll_get_frequency_from_mult_div_def Let_def if_not_P [OF d0] dm uD unsigned_drop_bit_eq
      by (simp add: drop_bit_eq_div take_bit_nat_eq_self)
  qed
  have bounds: "unat M * 2 ^ (15 - ?D) \<le> unat freq \<and> unat freq < unat M * 2 ^ (15 - ?D) + 2 ^ (15 - ?D)"
  proof -
    have e: "(2 :: nat) ^ 15 = 2 ^ (15 - ?D) * 2 ^ ?D" using D by (simp flip: power_add)
    have "unat M = unat freq div 2 ^ (15 - ?D)" unfolding M(1) e by simp
    then show ?thesis by (metis div_times_less_eq_dividend mod_less_divisor mod_div_decomp nat_add_left_cancel_less zero_less_numeral zero_less_power)
  qed
  have "unat M < 2 ^ 16" "unat (word_of_nat (Suc ?D) :: u32) < 2 ^ 4" using M d D by simp_all
  note fields = conf1_fields [OF this]
  obtain t where t: "pi_fll_set_frequency f freq s = Some (sint freq, t)"
    and r: "regs t = (regs s)(FLL_CONF1 f := fll_conf1_set M (word_of_nat (Suc ?D)) (regs s (FLL_CONF1 f)))"
    and k: "csrs t = csrs s" "flls_frequency t = (flls_frequency s)(f := freq)"
    unfolding fll_set_code [OF c] by (auto simp: Let_def disable_irq_def csr_read_clear_def)
  show ?thesis unfolding if_P [OF True]
    by (rule exI [of _ t]) (use t bounds k in \<open>simp only: Let_def r fun_upd_same fields got HOL.simp_thms\<close>)
qed

definition fll_locked :: "u32 \<Rightarrow> u32" where
  "fll_locked r = ((r AND NOT FLL_CTRL_CONF1_OUTPUT_LOCK_EN_MASK OR REG_SET 30 FLL_CTRL_CONF1_OUTPUT_LOCK_EN_MASK 1)
     AND NOT FLL_CTRL_CONF1_MODE_MASK) OR REG_SET 31 FLL_CTRL_CONF1_MODE_MASK 1"

lemma lock_masks: "FLL_CTRL_CONF1_OUTPUT_LOCK_EN_MASK = BIT 30" "FLL_CTRL_CONF1_MODE_MASK = BIT 31"
  by (simp_all add: BIT_def FLL_CTRL_CONF1_OUTPUT_LOCK_EN_MASK_def FLL_CTRL_CONF1_MODE_MASK_def)

lemma bit_fll_locked: "i < 32 \<Longrightarrow> bit (fll_locked r) i \<longleftrightarrow> i = 30 \<or> i = 31 \<or> bit r i"
  by (auto simp: fll_locked_def lock_masks REG_SET_def bit_simps)

lemma locked_fields:
  "REG_GET 0 FLL_CTRL_CONF1_MULTI_FACTOR_MASK (fll_locked r) = REG_GET 0 FLL_CTRL_CONF1_MULTI_FACTOR_MASK r"
  "REG_GET 26 FLL_CTRL_CONF1_CLK_OUT_DIV_MASK (fll_locked r) = REG_GET 26 FLL_CTRL_CONF1_CLK_OUT_DIV_MASK r"
  by (rule bit_word_eqI; auto simp: REG_GET_def conf1_masks bit_simps bit_fll_locked simp del: push_bit_mask_eq)+

lemma mode_bit: "REG_GET 31 FLL_CTRL_CONF1_MODE_MASK r = 0 \<longleftrightarrow> \<not> bit r 31"
proof -
  have "REG_GET 31 FLL_CTRL_CONF1_MODE_MASK r = of_bool (bit r 31)"
    by (rule bit_word_eqI) (auto simp: REG_GET_def lock_masks bit_simps)
  then show ?thesis by simp
qed

lemma fll_regs_distinct: "FLL_CONF1 f \<noteq> FLL_CONF2 f" "FLL_CONF1 f \<noteq> FLL_INTEGRATOR f" "FLL_CONF2 f \<noteq> FLL_INTEGRATOR f"
  by (simp_all add: FLL_CONF1_def FLL_CONF2_def FLL_INTEGRATOR_def)

lemma fll_init_reset:
  assumes "flls_frequency s f = 0"
  shows "\<exists>t. pi_fll_init f False s = Some t
     \<and> (\<forall>a. regs t a = regs s a \<or> a \<in> {FLL_CONF1 f, FLL_CONF2 f, FLL_INTEGRATOR f})
     \<and> bit (regs t (FLL_CONF1 f)) 31
     \<and> (if bit (regs s (FLL_CONF1 f)) 31 then regs t = regs s else bit (regs t (FLL_CONF1 f)) 30)
     \<and> flls_frequency t f = fll_get_frequency_from_mult_div
                (REG_GET 0 FLL_CTRL_CONF1_MULTI_FACTOR_MASK (regs s (FLL_CONF1 f)))
                (REG_GET 26 FLL_CTRL_CONF1_CLK_OUT_DIV_MASK (regs s (FLL_CONF1 f)))"
proof (cases "bit (regs s (FLL_CONF1 f)) 31")
  case True
  then show ?thesis using assms by (simp add: pi_fll_init_def readw_def mode_bit Let_def)
next
  case False
  then show ?thesis using assms fll_regs_distinct [of f]
    by (simp add: pi_fll_init_def readw_def mode_bit Let_def fll_locked_def [symmetric] locked_fields bit_fll_locked)
qed

lemma fll_init_abort: 
  assumes "flls_frequency s f \<noteq> 0"
  shows "pi_fll_init f False s = None"
proof -
  have no: "(case pi_fll_set_frequency f freq u of None \<Rightarrow> None | Some (r, t) \<Rightarrow> if r \<noteq> 0 then None else Some t) = None"
    if "freq \<noteq> 0" for freq and u :: "'a clocks_scheme"
    using that by (cases "fll_get_mult_div_from_frequency freq")
      (auto simp: fll_set_code, simp add: pi_fll_set_frequency_def case_prod_beta, metis signed_eq_0_iff)
  show ?thesis using assms by (simp add: pi_fll_init_def Let_def no split: prod.split)
qed

text \<open>Pi_fll_init aborts when a frequency was requested before it ran. Otherwise it locks the loop in
  normal mode unless it was already, changes no other register than the three configuration registers of
  the loop, and remembers the frequency that its multiplier and divider stand for, or the measured one when the state is
  retained.\<close>
lemma fll_init:
  "if flls_frequency s f \<noteq> 0 \<and> \<not> ret then pi_fll_init f ret s = None
   else \<exists>t. pi_fll_init f ret s = Some t
     \<and> (\<forall>a. regs t a = regs s a \<or> a \<in> {FLL_CONF1 f, FLL_CONF2 f, FLL_INTEGRATOR f})
     \<and> (if ret then regs t = regs s \<and> flls_frequency t f = fll_get_frequency_from_mult_div (regs s (FLL_STATUS f))
                      (REG_GET 26 FLL_CTRL_CONF1_CLK_OUT_DIV_MASK (regs s (FLL_CONF1 f)))
        else bit (regs t (FLL_CONF1 f)) 31
          \<and> (if bit (regs s (FLL_CONF1 f)) 31 then regs t = regs s else bit (regs t (FLL_CONF1 f)) 30)
          \<and> flls_frequency t f = fll_get_frequency_from_mult_div
                (REG_GET 0 FLL_CTRL_CONF1_MULTI_FACTOR_MASK (regs s (FLL_CONF1 f)))
                (REG_GET 26 FLL_CTRL_CONF1_CLK_OUT_DIV_MASK (regs s (FLL_CONF1 f))))"
proof (cases ret)
  case True
  then show ?thesis by (simp add: pi_fll_init_def pi_fll_get_frequency_def readw_def)
next
  case False
  then show ?thesis using fll_init_abort [of s f] fll_init_reset [of s f] by auto
qed

text \<open>After pi_freq_set of the fabric controller or of the peripherals the cached system_core_clock holds
  the frequency from before the call until the next system_core_clock_get, while pi_freq_get returns the new frequency
  for both domains at once; setting the cluster clock changes neither.\<close>
lemma freq_set_core_clock:
  assumes "pi_freq_set domain freq s = Some (r, t)"
  shows "(if domain = PI_FREQ_DOMAIN_CL
          then core_clock t = core_clock s \<and> fst (pi_freq_get PI_FREQ_DOMAIN_CL t) = freq
             \<and> flls_frequency t FLL_SOC = flls_frequency s FLL_SOC
          else core_clock t = flls_frequency s FLL_SOC
             \<and> fst (pi_freq_get PI_FREQ_DOMAIN_FC t) = freq \<and> fst (pi_freq_get PI_FREQ_DOMAIN_PERIPH t) = freq
             \<and> fst (system_core_clock_get t) = freq
             \<and> flls_frequency t FLL_CLUSTER = flls_frequency s FLL_CLUSTER)
     \<and> r = 0"
proof -
  have in_range: "0 < unat freq \<and> unat freq < 2 ^ 30"
    using assms by (rule_tac ccontr) (auto simp: pi_freq_set_def pi_fll_set_frequency_def fll_out_of_range case_prod_beta split: pi_freq_domain.splits)
  then obtain m d fr where "fll_get_mult_div_from_frequency freq = Some (m, d, fr)" using fll_mult_div [of freq] by metis
  moreover have "0 \<le> sint freq" using in_range by (subst sint_small) simp_all
  ultimately show ?thesis using assms in_range sint_small [of freq]
    by (cases domain) (auto simp: pi_freq_set_def fll_set_code Let_def pi_freq_get_def pi_fll_get_frequency_def
        system_core_clock_get_def system_core_clock_update_eq)
qed

lemma freq_set_core_clock_witness:
  "\<exists>t. pi_freq_set PI_FREQ_DOMAIN_FC 50000000 \<lparr>csrs = \<lambda>_. 0, regs = \<lambda>_. 0, io_log = [], flls_frequency = \<lambda>_. 7, core_clock = 0\<rparr>
        = Some (0, t) \<and> core_clock t = 7 \<and> fst (system_core_clock_get t) = 50000000"
proof -
  let ?s = "\<lparr>csrs = \<lambda>_. 0, regs = \<lambda>_. 0, io_log = [], flls_frequency = \<lambda>_. 7, core_clock = 0\<rparr>"
  obtain M fr where c: "fll_get_mult_div_from_frequency 50000000 = Some (M, word_of_nat (Suc (fll_shift 50000000)), fr)"
    by (rule fll_mult_div [of 50000000]) auto
  then obtain r t where t: "pi_freq_set PI_FREQ_DOMAIN_FC 50000000 ?s = Some (r, t)"
    by (simp add: pi_freq_set_def fll_set_code)
  show ?thesis using t freq_set_core_clock [OF t] by auto
qed

definition clkdiv_reg :: "pi_freq_domain \<Rightarrow> u32" where
  "clkdiv_reg domain = CLKDIV_ADDR + (case domain of PI_FREQ_DOMAIN_FC \<Rightarrow> CLKDIV_FC_OFFSET
     | PI_FREQ_DOMAIN_CL \<Rightarrow> CLKDIV_CL_OFFSET | PI_FREQ_DOMAIN_PERIPH \<Rightarrow> CLKDIV_PERIPH_OFFSET)"

definition clkdiv_base :: "u32 \<Rightarrow> u32 \<Rightarrow> pi_freq_domain \<Rightarrow> u32" where
  "clkdiv_base sys periph domain = (if domain = PI_FREQ_DOMAIN_PERIPH then periph else sys)"

lemma freq_from_div_unat:
  assumes "unat w < 2147483648"
  shows "unat (freq_from_div base w) = (let d = unat w in
     if d \<le> 1 then unat base else if even d then unat base div d else unat base div (2 * (d - 1)))"
proof -
  have w: "w = word_of_nat (unat w)" by simp
  have m: "unat (w mod 2) = unat w mod 2" by (simp add: unat_mod)
  have "unat (2 * (w - 1)) = 2 * (unat w - 1)" if "w \<noteq> 0"
  proof -
    have u: "unat (w - 1) = unat w - 1" using that by (metis unat_minus_one)
    have "unat (2 * (w - 1)) = unat (2 :: u32) * unat (w - 1)"
      using assms u by (subst unat_mult_lem [THEN iffD1]) simp_all
    then show ?thesis using u by simp
  qed
  moreover have "w = 0 \<or> w = 1 \<longleftrightarrow> unat w \<le> 1" by (auto simp: word_unat_eq_iff)
  moreover have "w mod 2 = 0 \<longleftrightarrow> even (unat w)" using m by (simp add: word_unat_eq_iff even_iff_mod_2_eq_zero)
  ultimately show ?thesis
    by (cases "unat w \<le> 1"; cases "even (unat w)") (simp_all add: freq_from_div_def Let_def unat_div)
qed

lemma div_report:
  fixes base f d :: nat
  assumes "0 < f" "d = base div f"
  shows "d = 0 \<Longrightarrow> base < f" "d = 1 \<Longrightarrow> f \<le> base"
    "0 < d \<Longrightarrow> f \<le> base div d" "odd d \<Longrightarrow> 1 < d \<Longrightarrow> base div (2 * (d - 1)) < f"
proof -
  have lo: "d * f \<le> base" and hi: "base < (d + 1) * f"
    using assms dividend_less_div_times [of f base] by (simp_all add: mult.commute)
  show "d = 0 \<Longrightarrow> base < f" "d = 1 \<Longrightarrow> f \<le> base" using lo hi by simp_all
  show "0 < d \<Longrightarrow> f \<le> base div d" using lo by (simp add: less_eq_div_iff_mult_less_eq mult.commute)
  show "base div (2 * (d - 1)) < f" if "odd d" "1 < d"
  proof -
    have "3 \<le> d" using that by presburger
    then have "d + 1 \<le> 2 * (d - 1)" by simp
    then have "(d + 1) * f \<le> 2 * (d - 1) * f" by (rule mult_le_mono1)
    then have "base < f * (2 * (d - 1))" using hi by (simp only: mult.commute)
    then show ?thesis by (rule less_mult_imp_div_less)
  qed
qed

lemma clkdiv_code:
  "clkdiv_freq_get sys periph domain s = freq_from_div (clkdiv_base sys periph domain) (regs s (clkdiv_reg domain))"
  "clkdiv_freq_set sys periph domain f s =
     (if f > sys \<or> f = 0 then (1, s)
      else let d = clkdiv_base sys periph domain div f in
        if d \<ge> 0xff then (-1, s) else (0, writew d (clkdiv_reg domain) s))"
  by (cases domain; simp only: clkdiv_freq_get_def clkdiv_freq_set_def clkdiv_base_def clkdiv_reg_def readw_def
      div_from_freq_def pi_freq_domain.case pi_freq_domain.distinct simp_thms if_True if_False)+

text \<open>Setting a divider frequency writes base/f to the one divider register of the domain when it is below
  255 and otherwise only reports an error. The frequency read back is then at least the requested one when the
  divider is even or at most 1, and strictly below the requested one for the odd dividers from 3 on.\<close>
lemma clkdiv_set_get:
  "let base = clkdiv_base sys periph domain; d = unat base div unat f;
       (r, t) = clkdiv_freq_set sys periph domain f s; got = unat (clkdiv_freq_get sys periph domain t) in
   if f > sys \<or> f = 0 then r = 1 \<and> t = s
   else if d \<ge> 255 then r = -1 \<and> t = s
   else r = 0 \<and> regs t = (regs s)(clkdiv_reg domain := word_of_nat d)
     \<and> (if d = 0 then got = unat base \<and> got < unat f
        else if d = 1 then got = unat base \<and> unat f \<le> got
        else if even d then unat f \<le> got \<and> got * d \<le> unat base
        else got < unat f \<and> got * (2 * (d - 1)) \<le> unat base)"
proof (cases "f > sys \<or> f = 0")
  case True
  then show ?thesis by (auto simp: clkdiv_code Let_def)
next
  case False
  let ?d = "clkdiv_base sys periph domain div f"
  have d: "unat ?d = unat (clkdiv_base sys periph domain) div unat f" by (simp add: unat_div)
  have f0: "0 < unat f" using False by (simp add: unat_gt_0)
  show ?thesis
  proof (cases "unat ?d \<ge> 255")
    case True
    then show ?thesis using False d by (simp add: clkdiv_code Let_def word_le_nat_alt)
  next
    case lt: False
    then have g: "unat (freq_from_div (clkdiv_base sys periph domain) ?d) = (let d = unat ?d; base = unat (clkdiv_base sys periph domain) in
      if d \<le> 1 then base else if even d then base div d else base div (2 * (d - 1)))"
      by (simp add: freq_from_div_unat Let_def)
    have w: "word_of_nat (unat (clkdiv_base sys periph domain) div unat f) = ?d" by (simp flip: d)
    have cs: "(clkdiv_freq_set sys periph domain f s) = (0, writew ?d (clkdiv_reg domain) s)"
      using False lt by (simp add: clkdiv_code Let_def word_le_nat_alt)
    show ?thesis
      using False lt div_report [OF f0 d] unfolding cs clkdiv_code(1) Let_def prod.case regs_writew fun_upd_same g d [symmetric] w
      by (auto simp: div_times_less_eq_dividend)
  qed
qed

end
