(* ===== verification/Tasks.thy ===== *)
theory Tasks
  imports Events
begin

text \<open>
  Notification tasks (drivers/pmsis_task.c, drivers/include/pmsis_types.h) and the thin layer
  over the kernel's semaphores they use (drivers/include/os.h). dev_data is the data field of the
  caller's pi_device structures. Tasks live at addresses of the
  caller and are shared by pointer, so the state holds a store of them. The kernel is not part
  of the repository: what it does is the log of the calls made to it, and the handle that
  xSemaphoreCreateCounting returns is the parameter create, a function of that log (0 when
  creation fails). What interrupts do while a core waits is the parameter env.
\<close>

record pi_sem =
  sem_object :: u32
  sem_take_fn :: bool
  sem_give_fn :: bool

record pi_task =
  t_arg :: "nat \<Rightarrow> u32"
  t_id :: u32
  t_data :: "nat \<Rightarrow> u32"
  t_wait_on :: pi_sem
  t_next :: u32
  t_done :: u8
  t_core_id :: u8
  t_cluster_id :: u8
  t_destroy :: u8

definition PI_TASK_CALLBACK_ID :: u32 where "PI_TASK_CALLBACK_ID = 0"
definition PI_TASK_NONE_ID :: u32 where "PI_TASK_NONE_ID = 1"

datatype os_call = OS_SemCreate u32 | OS_SemDelete u32 | OS_SemTake u32 | OS_SemTakeFromISR u32
  | OS_SemGiveFromISR u32 | OS_YieldFromISR | OS_Delay u32 | OS_L2Free u32 u32 | OS_Free u32
  | OS_SemCreateBinary u32 | OS_Yield

datatype drv_handler = H_uart | H_spim_eot | H_spim_tx | H_spim_rx | H_i2c_eot | H_i2c_tx | H_i2c_rx

record soc = "drv_handler fc_events" +
  task_at :: "u32 \<Rightarrow> pi_task"
  os_log :: "os_call list"
  dev_data :: "u32 \<Rightarrow> u32"

definition MCAUSE_IRQ_Msk :: u32 where "MCAUSE_IRQ_Msk = push_bit 31 1"

definition upd_task :: "u32 \<Rightarrow> (pi_task \<Rightarrow> pi_task) \<Rightarrow> 'a soc_scheme \<Rightarrow> 'a soc_scheme" where
  "upd_task p f s = s\<lparr>task_at := (task_at s)(p := f (task_at s p))\<rparr>"

definition os :: "os_call \<Rightarrow> 'a soc_scheme \<Rightarrow> 'a soc_scheme" where
  "os c s = s\<lparr>os_log := os_log s @ [c]\<rparr>"

subsection \<open>Semaphores\<close>

definition os_native_api_sem_take :: "u32 \<Rightarrow> 'a soc_scheme \<Rightarrow> 'a soc_scheme" where
  "os_native_api_sem_take sem s =
     (let (irq, s) = disable_irq s;
          s = (if csr_read CSR_MCAUSE s AND MCAUSE_IRQ_Msk \<noteq> 0 then os (OS_SemTakeFromISR sem) s
               else os (OS_SemTake sem) s) in
      restore_irq irq s)"

definition os_native_api_sem_give :: "u32 \<Rightarrow> 'a soc_scheme \<Rightarrow> 'a soc_scheme" where
  "os_native_api_sem_give sem s =
     (let (irq, s) = disable_irq s;
          s = (if csr_read CSR_MCAUSE s AND MCAUSE_IRQ_Msk \<noteq> 0
               then os OS_YieldFromISR (os (OS_SemGiveFromISR sem) s)
               else os (OS_SemGiveFromISR sem) s) in
      restore_irq irq s)"

definition pi_sem_init :: "(os_call list \<Rightarrow> u32) \<Rightarrow> u32 \<Rightarrow> 'a soc_scheme \<Rightarrow> int \<times> 'a soc_scheme" where
  "pi_sem_init create p s =
     (let h = create (os_log s);
          s = os (OS_SemCreate h) s;
          s = upd_task p (\<lambda>t. t\<lparr>t_wait_on := (t_wait_on t)\<lparr>sem_object := h\<rparr>\<rparr>) s in
      if h = 0 then (-1, s)
      else (0, upd_task p (\<lambda>t. t\<lparr>t_wait_on := (t_wait_on t)\<lparr>sem_take_fn := True, sem_give_fn := True\<rparr>\<rparr>) s))"

definition pi_sem_deinit :: "u32 \<Rightarrow> 'a soc_scheme \<Rightarrow> int \<times> 'a soc_scheme" where
  "pi_sem_deinit p s =
     (let h = sem_object (t_wait_on (task_at s p)) in
      if h = 0 then (-1, s)
      else (0, upd_task p (\<lambda>t. t\<lparr>t_wait_on := \<lparr>sem_object = 0, sem_take_fn = False, sem_give_fn = False\<rparr>\<rparr>)
                 (os (OS_SemDelete h) s)))"

definition pi_sem_take :: "u32 \<Rightarrow> 'a soc_scheme \<Rightarrow> 'a soc_scheme option" where
  "pi_sem_take p s =
     (if sem_take_fn (t_wait_on (task_at s p))
      then Some (os_native_api_sem_take (sem_object (t_wait_on (task_at s p))) s) else None)"

definition pi_sem_give :: "u32 \<Rightarrow> 'a soc_scheme \<Rightarrow> 'a soc_scheme option" where
  "pi_sem_give p s =
     (if sem_give_fn (t_wait_on (task_at s p))
      then Some (os_native_api_sem_give (sem_object (t_wait_on (task_at s p))) s) else None)"

definition pi_time_wait_us :: "int \<Rightarrow> 'a soc_scheme \<Rightarrow> 'a soc_scheme" where
  "pi_time_wait_us time_us s = (if time_us < 1000 then s else os (OS_Delay (word_of_int time_us div 1000)) s)"

subsection \<open>Tasks\<close>

definition pi_task_block :: "(os_call list \<Rightarrow> u32) \<Rightarrow> u32 \<Rightarrow> 'a soc_scheme \<Rightarrow> 'a soc_scheme" where
  "pi_task_block create p s =
     (let s = upd_task p (\<lambda>t. t\<lparr>t_id := PI_TASK_NONE_ID, t_done := 0\<rparr>) s;
          s = snd (pi_sem_init create p s) in
      upd_task p (\<lambda>t. t\<lparr>t_destroy := 1, t_core_id := -1\<rparr>) s)"

definition pi_task_callback :: "u32 \<Rightarrow> u32 \<Rightarrow> u32 \<Rightarrow> 'a soc_scheme \<Rightarrow> 'a soc_scheme" where
  "pi_task_callback p func a s =
     upd_task p (\<lambda>t. t\<lparr>t_id := PI_TASK_CALLBACK_ID, t_arg := (t_arg t)(0 := func, 1 := a), t_done := 0,
       t_wait_on := (t_wait_on t)\<lparr>sem_object := 0\<rparr>, t_destroy := 0, t_core_id := -1\<rparr>) s"

definition pi_task_destroy :: "u32 \<Rightarrow> 'a soc_scheme \<Rightarrow> 'a soc_scheme" where
  "pi_task_destroy p s =
     (if t_destroy (task_at s p) \<noteq> 0
      then let s = upd_task p (\<lambda>t. t\<lparr>t_destroy := 0\<rparr>) s in
        (if sem_object (t_wait_on (task_at s p)) \<noteq> 0
         then let s = snd (pi_sem_deinit p s) in
              upd_task p (\<lambda>t. t\<lparr>t_wait_on := (t_wait_on t)\<lparr>sem_object := 0\<rparr>\<rparr>) s
         else s)
      else s)"

partial_function (option) wait_while :: "('s \<Rightarrow> bool) \<Rightarrow> ('s \<Rightarrow> 's) \<Rightarrow> 's \<Rightarrow> 's option" where
  "wait_while busy env s = (if busy s then wait_while busy env (env s) else Some s)"

partial_function (option) wait_done :: "('a soc_scheme \<Rightarrow> 'a soc_scheme) \<Rightarrow> u32 \<Rightarrow> 'a soc_scheme \<Rightarrow> 'a soc_scheme option" where
  "wait_done env p s = (if t_done (task_at s p) \<noteq> 0 then Some s else wait_done env p (env s))"

definition pi_task_wait_on :: "('a soc_scheme \<Rightarrow> 'a soc_scheme) \<Rightarrow> u32 \<Rightarrow> 'a soc_scheme \<Rightarrow> 'a soc_scheme option" where
  "pi_task_wait_on env p s = map_option (pi_task_destroy p) (wait_done env p s)"

definition pi_task_wait_on_no_mutex :: "('a soc_scheme \<Rightarrow> 'a soc_scheme) \<Rightarrow> u32 \<Rightarrow> 'a soc_scheme \<Rightarrow> 'a soc_scheme option" where
  "pi_task_wait_on_no_mutex env p s = wait_done env p s"

definition pi_task_callback_no_mutex :: "u32 \<Rightarrow> u32 \<Rightarrow> u32 \<Rightarrow> 'a soc_scheme \<Rightarrow> 'a soc_scheme" where
  "pi_task_callback_no_mutex p func a s = pi_task_callback p func a s"

definition pi_task_block_no_mutex :: "u32 \<Rightarrow> 'a soc_scheme \<Rightarrow> 'a soc_scheme" where
  "pi_task_block_no_mutex p s =
     upd_task p (\<lambda>t. t\<lparr>t_id := PI_TASK_NONE_ID, t_done := 0, t_wait_on := (t_wait_on t)\<lparr>sem_object := 0\<rparr>,
       t_destroy := 0, t_core_id := -1\<rparr>) s"

definition pi_task_release :: "u32 \<Rightarrow> 'a soc_scheme \<Rightarrow> 'a soc_scheme option" where
  "pi_task_release p s =
     map_option (upd_task p (\<lambda>t. t\<lparr>t_done := 1\<rparr>))
       (if sem_object (t_wait_on (task_at s p)) \<noteq> 0 then pi_sem_give p s else Some s)"

definition pi_task_push_delayed_us :: "u32 \<Rightarrow> u32 \<Rightarrow> 'a soc_scheme \<Rightarrow> 'a soc_scheme" where
  "pi_task_push_delayed_us p delay s =
     (let s = pi_time_wait_us (sint delay) s;
          (irq, s) = disable_irq s in
      restore_irq irq s)"

definition pi_task_push :: "u32 \<Rightarrow> 'a soc_scheme \<Rightarrow> 'a soc_scheme" where
  "pi_task_push p s = pi_task_push_delayed_us p 0 s"

subsection \<open>Frame lemmas\<close>

lemma task_upd_task [simp]: "task_at (upd_task p f s) q = (if q = p then f (task_at s p) else task_at s q)"
  by (simp add: upd_task_def)

lemma upd_task_frame [simp]:
  "regs (upd_task p f s) = regs s" "csrs (upd_task p f s) = csrs s" "io_log (upd_task p f s) = io_log s"
  "os_log (upd_task p f s) = os_log s" "dev_data (upd_task p f s) = dev_data s" "fc_event_handlers (upd_task p f s) = fc_event_handlers s"
  by (simp_all add: upd_task_def)

lemma os_frame [simp]:
  "regs (os c s) = regs s" "csrs (os c s) = csrs s" "io_log (os c s) = io_log s"
  "os_log (os c s) = os_log s @ [c]" "fc_event_handlers (os c s) = fc_event_handlers s" "task_at (os c s) = task_at s" "dev_data (os c s) = dev_data s"
  by (simp_all add: os_def)

lemma irq_soc_frame [simp]:
  "task_at (snd (disable_irq s)) = task_at s" "task_at (restore_irq w s) = task_at s"
  "dev_data (snd (disable_irq s)) = dev_data s" "dev_data (restore_irq w s) = dev_data s" "dev_data (writew v a s) = dev_data s"
  "os_log (snd (disable_irq s)) = os_log s" "os_log (restore_irq w s) = os_log s"
  "fc_event_handlers (snd (disable_irq s)) = fc_event_handlers s" "fc_event_handlers (restore_irq w s) = fc_event_handlers s"
  "task_at (writew v a s) = task_at s" "os_log (writew v a s) = os_log s" "fc_event_handlers (writew v a s) = fc_event_handlers s"
  by (simp_all add: disable_irq_def csr_read_clear_def restore_irq_def csr_write_def writew_def)

lemma disable_restore_csrs [simp]:
  "csrs (snd (disable_irq s)) = (csrs s)(CSR_MSTATUS := csrs s CSR_MSTATUS AND NOT (BIT 3))"
  by (simp add: disable_irq_def csr_read_clear_def)

subsection \<open>Waiting\<close>

lemma wait_done_iterates: "wait_done env p s = Some t \<Longrightarrow> \<exists>n. t = (env ^^ n) s \<and> t_done (task_at t p) \<noteq> 0"
proof (erule wait_done.raw_induct [where P = "\<lambda>env p s t. \<exists>n. t = (env ^^ n) s \<and> t_done (task_at t p) \<noteq> 0", rotated])
  fix f :: "('a soc_scheme \<Rightarrow> 'a soc_scheme) \<Rightarrow> u32 \<Rightarrow> 'a soc_scheme \<Rightarrow> 'a soc_scheme option" and env p s t
  assume IH: "\<And>env p s t. f env p s = Some t \<Longrightarrow> \<exists>n. t = (env ^^ n) s \<and> t_done (task_at t p) \<noteq> 0"
   and e: "(if t_done (task_at s p) \<noteq> 0 then Some s else f env p (env s)) = Some t"
  show "\<exists>n. t = (env ^^ n) s \<and> t_done (task_at t p) \<noteq> 0"
  proof (cases "t_done (task_at s p) \<noteq> 0")
    case True
    then show ?thesis using e by (auto intro: exI [of _ 0])
  next
    case False
    then have "f env p (env s) = Some t" using e by simp
    from IH [OF this] obtain n where "t = (env ^^ n) (env s)" "t_done (task_at t p) \<noteq> 0" by blast
    then show ?thesis by (metis funpow_simps_right(2) comp_apply)
  qed
qed

lemma wait_done_returns: "t_done (task_at ((env ^^ n) s) p) \<noteq> 0 \<Longrightarrow> \<exists>t. wait_done env p s = Some t"
proof (induction n arbitrary: s)
  case 0 then show ?case by (simp add: wait_done.simps)
next
  case (Suc n)
  then show ?case by (subst wait_done.simps) (simp add: funpow_swap1)
qed

lemma wait_done_iff: "wait_done env p s \<noteq> None \<longleftrightarrow> (\<exists>n. t_done (task_at ((env ^^ n) s) p) \<noteq> 0)"
  using wait_done_iterates wait_done_returns by (metis not_None_eq)

end
