(* ===== verification/TaskProps.thy ===== *)
theory TaskProps
  imports Tasks
begin

text \<open>
  Properties of notification tasks, and the interface that the drivers' task queues implement:
  intrusive singly linked lists with a head and a tail pointer, threaded through the next
  fields of the tasks.
\<close>

lemma wait_done_first:
  "wait_done env p s = Some t \<longleftrightarrow>
     (\<exists>n. t = (env ^^ n) s \<and> t_done (task_at t p) \<noteq> 0 \<and> (\<forall>m < n. t_done (task_at ((env ^^ m) s) p) = 0))"
  (is "_ = (\<exists>n. ?R n s)")
proof
  assume w: "wait_done env p s = Some t"
  define n where "n = (LEAST n. t_done (task_at ((env ^^ n) s) p) \<noteq> 0)"
  have ex: "\<exists>n. t_done (task_at ((env ^^ n) s) p) \<noteq> 0" using w wait_done_iff by (metis option.distinct(1))
  then have n: "t_done (task_at ((env ^^ n) s) p) \<noteq> 0" "\<forall>m < n. t_done (task_at ((env ^^ m) s) p) = 0"
    unfolding n_def using LeastI_ex [OF ex] by (auto dest: not_less_Least)
  have "k \<le> n \<Longrightarrow> wait_done env p ((env ^^ (n - k)) s) = Some ((env ^^ n) s)" for k
  proof (induction k)
    case 0 then show ?case using n by (subst wait_done.simps) simp
  next
    case (Suc k)
    have e: "(env ^^ (n - k)) s = env ((env ^^ (n - Suc k)) s)" using Suc.prems by (simp add: Suc_diff_Suc flip: funpow.simps(2) [THEN fun_cong, unfolded comp_apply])
    have "t_done (task_at ((env ^^ (n - Suc k)) s) p) = 0" using n(2) Suc.prems by simp
    then show ?case using Suc e by (subst wait_done.simps) simp
  qed
  from this [of n] have "wait_done env p s = Some ((env ^^ n) s)" by simp
  then show "\<exists>n. ?R n s" using w n by auto
next
  assume "\<exists>n. ?R n s"
  then obtain n where "?R n s" ..
  then show "wait_done env p s = Some t"
  proof (induction n arbitrary: s)
    case 0 then show ?case by (subst wait_done.simps) auto
  next
    case (Suc n)
    then have "t_done (task_at s p) = 0" by (metis funpow_0 zero_less_Suc)
    moreover have "wait_done env p (env s) = Some t"
    proof (rule Suc.IH)
      have "t_done (task_at ((env ^^ m) (env s)) p) = 0" if "m < n" for m
        using Suc.prems that by (metis Suc_less_eq comp_apply funpow_simps_right(2))
      moreover have "t = (env ^^ n) (env s)" using Suc.prems by (simp only: funpow_simps_right(2) comp_apply)
      ultimately show "t = (env ^^ n) (env s) \<and> t_done (task_at t p) \<noteq> 0 \<and> (\<forall>m < n. t_done (task_at ((env ^^ m) (env s)) p) = 0)"
        using Suc.prems by blast
    qed
    ultimately show ?case by (subst wait_done.simps) simp
  qed
qed

lemma destroy_done [simp]: "t_done (task_at (pi_task_destroy p s) q) = t_done (task_at s q)"
  by (simp add: pi_task_destroy_def pi_sem_deinit_def Let_def)

text \<open>C27: pi_task_wait_on returns exactly when some interrupt activity sets the done flag, with the state at the first poll
  that sees it, after destroying the task: the destroy flag is 0 and, when it was set, the semaphore is deleted once
  and forgotten. While nobody releases the task the core spins.\<close>
theorem task_wait:
  "(pi_task_wait_on env p s = Some t \<longleftrightarrow>
     (\<exists>n. t = pi_task_destroy p ((env ^^ n) s) \<and> t_done (task_at ((env ^^ n) s) p) \<noteq> 0
        \<and> \<not> (\<exists>m < n. t_done (task_at ((env ^^ m) s) p) \<noteq> 0)))
   \<and> (let d = pi_task_destroy p u; h = sem_object (t_wait_on (task_at u p)) in
      t_destroy (task_at d p) = 0
      \<and> os_log d = os_log u @ (if t_destroy (task_at u p) \<noteq> 0 \<and> h \<noteq> 0 then [OS_SemDelete h] else [])
      \<and> sem_object (t_wait_on (task_at d p)) = (if t_destroy (task_at u p) \<noteq> 0 then 0 else h)
      \<and> pi_task_destroy p d = d)"
proof
  show "pi_task_wait_on env p s = Some t \<longleftrightarrow>
     (\<exists>n. t = pi_task_destroy p ((env ^^ n) s) \<and> t_done (task_at ((env ^^ n) s) p) \<noteq> 0
        \<and> \<not> (\<exists>m < n. t_done (task_at ((env ^^ m) s) p) \<noteq> 0))"
    by (auto simp: pi_task_wait_on_def map_option_eq_Some wait_done_first)
qed (simp add: pi_task_destroy_def pi_sem_deinit_def Let_def)

lemma sem_give_frame [simp]:
  "task_at (os_native_api_sem_give h s) = task_at s" "csrs (os_native_api_sem_give h s) = csrs s"
  "regs (os_native_api_sem_give h s) = regs s"
  "os_log (os_native_api_sem_give h s) = os_log s @ OS_SemGiveFromISR h #
     (if csrs s CSR_MCAUSE AND MCAUSE_IRQ_Msk \<noteq> 0 then [OS_YieldFromISR] else [])"
  by (simp_all add: os_native_api_sem_give_def Let_def case_prod_beta csr_read_def CSR_MCAUSE_def CSR_MSTATUS_def)

definition sem_calls :: "os_call list \<Rightarrow> os_call list" where
  "sem_calls = filter (\<lambda>c. c \<noteq> OS_YieldFromISR)"

text \<open>A blocking task that is prepared, released and waited for returns at once, and the kernel sees the
  semaphore created, given once and deleted once when creation succeeds, and nothing but the failed creation otherwise. Interrupts are
  restored and no other task changes.\<close>
lemma task_lifecycle:
  "\<exists>r. pi_task_release p (pi_task_block create p s) = Some r
     \<and> (\<exists>t. pi_task_wait_on env p r = Some t
          \<and> (let h = create (os_log s) in sem_calls (os_log t) = sem_calls (os_log s) @
               (if h \<noteq> 0 then [OS_SemCreate h, OS_SemGiveFromISR h, OS_SemDelete h] else [OS_SemCreate 0]))
          \<and> t_done (task_at t p) = 1 \<and> sem_object (t_wait_on (task_at t p)) = 0 \<and> t_destroy (task_at t p) = 0
          \<and> csrs t = csrs s \<and> task_at t = (task_at s)(p := task_at t p))"
proof -
  let ?b = "pi_task_block create p s" and ?h = "create (os_log s)"
  have b: "task_at ?b p = (task_at s p)\<lparr>t_id := PI_TASK_NONE_ID, t_done := 0, t_destroy := 1, t_core_id := -1,
      t_wait_on := (if ?h = 0 then (t_wait_on (task_at s p))\<lparr>sem_object := 0\<rparr>
                    else \<lparr>sem_object = ?h, sem_take_fn = True, sem_give_fn = True\<rparr>)\<rparr>"
    "os_log ?b = os_log s @ [OS_SemCreate ?h]" "csrs ?b = csrs s" "\<And>q. q \<noteq> p \<Longrightarrow> task_at ?b q = task_at s q"
    by (simp_all add: pi_task_block_def pi_sem_init_def Let_def)
  obtain r where r: "pi_task_release p ?b = Some r" and rs: "task_at r p = (task_at ?b p)\<lparr>t_done := 1\<rparr>"
      "sem_calls (os_log r) = sem_calls (os_log ?b) @ (if ?h \<noteq> 0 then [OS_SemGiveFromISR ?h] else [])"
      "csrs r = csrs s" "\<And>q. q \<noteq> p \<Longrightarrow> task_at r q = task_at s q"
    using b by (cases "?h = 0") (simp_all add: pi_task_release_def pi_sem_give_def sem_calls_def)
  have w: "pi_task_wait_on env p r = Some (pi_task_destroy p r)"
    using rs(1) by (simp add: pi_task_wait_on_def wait_done.simps)
  have d: "let t = pi_task_destroy p r in
      os_log t = os_log r @ (if ?h \<noteq> 0 then [OS_SemDelete ?h] else []) \<and> t_done (task_at t p) = 1
      \<and> sem_object (t_wait_on (task_at t p)) = 0 \<and> t_destroy (task_at t p) = 0 \<and> csrs t = csrs s
      \<and> task_at t = (task_at s)(p := task_at t p)"
    using rs(1,3,4) b(1) by (auto simp: pi_task_destroy_def pi_sem_deinit_def Let_def intro!: ext)
  show ?thesis using r w d rs(2) b(2) by (auto simp: Let_def sem_calls_def)
qed

end
