(* ===== verification/TaskQueue.thy ===== *)
theory TaskQueue
  imports TaskProps
begin

text \<open>
  Task queues of the drivers: an intrusive singly linked list of tasks, threaded through the
  next fields, with a head and a tail pointer. chain and fifo_rep say when a store holds such a
  list; the locale task_fifo is the contract of a driver's enqueue and pop, and its lemmas show that every
  client of the contract sees a first-in first-out queue.
\<close>

fun chain :: "(u32 \<Rightarrow> u32) \<Rightarrow> u32 \<Rightarrow> u32 list \<Rightarrow> bool" where
  "chain nx h [] \<longleftrightarrow> h = 0"
| "chain nx h (x # xs) \<longleftrightarrow> h = x \<and> x \<noteq> 0 \<and> chain nx (nx x) xs"

definition fifo_rep :: "(u32 \<Rightarrow> u32) \<Rightarrow> u32 \<Rightarrow> u32 \<Rightarrow> u32 list \<Rightarrow> bool" where
  "fifo_rep nx hd_ptr tl_ptr q \<longleftrightarrow> chain nx hd_ptr q \<and> distinct q \<and> (q \<noteq> [] \<longrightarrow> tl_ptr = last q)"

lemma chain_cong: "(\<And>x. x \<in> set q \<Longrightarrow> nx x = nx' x) \<Longrightarrow> chain nx h q = chain nx' h q"
  by (induction q arbitrary: h) auto

lemma chain_nonzero: "chain nx h q \<Longrightarrow> 0 \<notin> set q"
  by (induction q arbitrary: h) auto

lemma chain_empty_iff: "chain nx h q \<Longrightarrow> h = 0 \<longleftrightarrow> q = []"
  by (cases q) auto

lemma chain_snoc:
  "chain nx h q \<Longrightarrow> q \<noteq> [] \<Longrightarrow> distinct q \<Longrightarrow> t \<noteq> 0 \<Longrightarrow> t \<notin> set q \<Longrightarrow> nx t = 0 \<Longrightarrow>
   chain (nx(last q := t)) h (q @ [t])"
proof (induction q arbitrary: h)
  case (Cons x xs)
  show ?case
  proof (cases "xs = []")
    case False
    then have "x \<noteq> last xs" using Cons.prems by auto
    then show ?thesis using Cons False by auto
  qed (use Cons in auto)
qed simp

lemma fifo_rep_append:
  assumes "fifo_rep nx h l q" "t \<noteq> 0" "t \<notin> set q" "nx t = 0"
  shows "q = [] \<Longrightarrow> fifo_rep nx t t [t]" "q \<noteq> [] \<Longrightarrow> fifo_rep (nx(l := t)) h t (q @ [t])"
  using assms chain_snoc [of nx h q t] by (auto simp: fifo_rep_def)

lemma fifo_rep_tl: "fifo_rep nx h l (t # q) \<Longrightarrow> h = t \<and> fifo_rep nx (nx t) l q"
  by (auto simp: fifo_rep_def split: if_splits)

lemma fifo_rep_empty: "fifo_rep nx h l q \<Longrightarrow> h = 0 \<longleftrightarrow> q = []"
  by (auto simp: fifo_rep_def dest: chain_empty_iff)

lemma fifo_rep_cong: "(\<And>x. x \<in> set q \<Longrightarrow> nx x = nx' x) \<Longrightarrow> fifo_rep nx h l q = fifo_rep nx' h l q"
  unfolding fifo_rep_def by (simp add: chain_cong [of q nx nx'])

lemma fifo_rep_nil [simp]: "fifo_rep nx h l [] \<longleftrightarrow> h = 0"
  by (simp add: fifo_rep_def)

datatype fifo_op = Submit u32 | Pop

fun queue_ok :: "u32 list \<Rightarrow> fifo_op list \<Rightarrow> bool" where
  "queue_ok q [] \<longleftrightarrow> True"
| "queue_ok q (Submit t # ops) \<longleftrightarrow> t \<noteq> 0 \<and> t \<notin> set q \<and> queue_ok (q @ [t]) ops"
| "queue_ok q (Pop # ops) \<longleftrightarrow> queue_ok (tl q) ops"

fun queue_run :: "u32 list \<Rightarrow> fifo_op list \<Rightarrow> u32 list \<times> u32 list" where
  "queue_run q [] = ([], q)"
| "queue_run q (Submit t # ops) = queue_run (q @ [t]) ops"
| "queue_run q (Pop # ops) = (let (out, r) = queue_run (tl q) ops in ((if q = [] then 0 else hd q) # out, r))"

fun submitted :: "fifo_op list \<Rightarrow> u32 list" where
  "submitted [] = []" | "submitted (Submit t # ops) = t # submitted ops" | "submitted (Pop # ops) = submitted ops"

lemma queue_run_fifo:
  "queue_ok q ops \<Longrightarrow> 0 \<notin> set q \<Longrightarrow>
   filter (\<lambda>x. x \<noteq> 0) (fst (queue_run q ops)) @ snd (queue_run q ops) = q @ submitted ops"
proof (induction q ops rule: queue_run.induct)
  case (3 q ops)
  then show ?case by (cases q) (auto simp: case_prod_beta Let_def)
qed auto

fun fifo_run :: "(u32 \<Rightarrow> 's \<Rightarrow> 's) \<Rightarrow> ('s \<Rightarrow> u32 \<times> 's) \<Rightarrow> fifo_op list \<Rightarrow> 's \<Rightarrow> u32 list \<times> 's" where
  "fifo_run submit pop [] s = ([], s)"
| "fifo_run submit pop (Submit t # ops) s = fifo_run submit pop ops (submit t s)"
| "fifo_run submit pop (Pop # ops) s =
     (let (x, s) = pop s; (out, s) = fifo_run submit pop ops s in (x # out, s))"

locale task_fifo =
  fixes submit :: "u32 \<Rightarrow> 's \<Rightarrow> 's"
    and pop :: "'s \<Rightarrow> u32 \<times> 's"
    and queue :: "'s \<Rightarrow> u32 list \<Rightarrow> bool"
  assumes submit_law: "queue s q \<Longrightarrow> t \<noteq> 0 \<Longrightarrow> t \<notin> set q \<Longrightarrow> queue (submit t s) (q @ [t])"
    and pop_law: "queue s q \<Longrightarrow> fst (pop s) = (if q = [] then 0 else hd q) \<and> queue (snd (pop s)) (tl q)"
    and queue_nonzero: "queue s q \<Longrightarrow> 0 \<notin> set q"
begin

lemma run_refines:
  "queue s q \<Longrightarrow> queue_ok q ops \<Longrightarrow>
   fst (fifo_run submit pop ops s) = fst (queue_run q ops)
   \<and> queue (snd (fifo_run submit pop ops s)) (snd (queue_run q ops))"
proof (induction q ops arbitrary: s rule: queue_run.induct)
  case (2 q t ops)
  then show ?case using submit_law by simp
next
  case (3 q ops)
  have p: "fst (pop s) = (if q = [] then 0 else hd q)" "queue (snd (pop s)) (tl q)"
    using pop_law 3 by blast+
  have "fst (fifo_run submit pop ops (snd (pop s))) = fst (queue_run (tl q) ops)
      \<and> queue (snd (fifo_run submit pop ops (snd (pop s)))) (snd (queue_run (tl q) ops))"
    using 3 p(2) by simp
  then show ?case using p(1) by (simp add: case_prod_beta Let_def)
qed simp

lemma served_in_order:
  assumes "queue s q" "queue_ok q ops"
  shows "\<exists>rest. filter (\<lambda>x. x \<noteq> 0) (fst (fifo_run submit pop ops s)) @ rest = q @ submitted ops
           \<and> queue (snd (fifo_run submit pop ops s)) rest"
  using run_refines [OF assms] queue_run_fifo [OF assms(2) queue_nonzero [OF assms(1)]] by auto

end

definition next_of :: "'a soc_scheme \<Rightarrow> u32 \<Rightarrow> u32" where
  "next_of s p = t_next (task_at s p)"

lemma next_of_upd: "next_of (upd_task p f s) = (next_of s)(p := t_next (f (task_at s p)))"
  by (rule ext) (simp add: next_of_def)

lemma next_of_same [simp]:
  "next_of (snd (disable_irq s)) = next_of s" "next_of (restore_irq w s) = next_of s"
  "next_of (os c s) = next_of s" "next_of (writew v a s) = next_of s"
  by (rule ext, simp add: next_of_def)+

lemma fifo_rep_set_next: "t \<notin> set q \<Longrightarrow> fifo_rep (nx(t := x)) h l q = fifo_rep nx h l q"
  by (rule fifo_rep_cong) auto

definition can_release :: "'a soc_scheme \<Rightarrow> u32 \<Rightarrow> bool" where
  "can_release s t \<longleftrightarrow> sem_object (t_wait_on (task_at s t)) \<noteq> 0 \<longrightarrow> sem_give_fn (t_wait_on (task_at s t))"

lemma release_eq: "can_release s t \<Longrightarrow> pi_task_release t s = Some (upd_task t (\<lambda>x. x\<lparr>t_done := 1\<rparr>)
   (if sem_object (t_wait_on (task_at s t)) \<noteq> 0 then os_native_api_sem_give (sem_object (t_wait_on (task_at s t))) s else s))"
  by (simp add: pi_task_release_def pi_sem_give_def can_release_def)

lemma task_at_upd_task: "task_at (upd_task p f s) = (task_at s)(p := f (task_at s p))"
  by (simp add: upd_task_def)

end
