(* ===== verification/Udma.thy ===== *)
theory Udma
  imports TaskQueue
begin

text \<open>
  The common part of the uDMA peripherals: the channel registers (drivers/include/udma.h,
  udma_core.h) and the clock gating and event forwarding of the uDMA controller
  (drivers/include/udma_ctrl.h).
\<close>

datatype udma_channel = RX_CHANNEL | TX_CHANNEL | COMMAND_CHANNEL

fun chan_num :: "udma_channel \<Rightarrow> u32" where
  "chan_num RX_CHANNEL = 0" | "chan_num TX_CHANNEL = 1" | "chan_num COMMAND_CHANNEL = 2"

definition chan_of :: "u32 \<Rightarrow> udma_channel" where
  "chan_of v = (if v = 0 then RX_CHANNEL else if v = 1 then TX_CHANNEL else COMMAND_CHANNEL)"

definition UDMA_MAX_SIZE :: u32 where "UDMA_MAX_SIZE = push_bit 17 1"
definition UDMA_CTRL_ADDR :: u32 where [mmio]: "UDMA_CTRL_ADDR = 0x1A102000"
definition UDMA_PERIPH_BASE_ADDR :: u32 where [mmio]: "UDMA_PERIPH_BASE_ADDR = UDMA_CTRL_ADDR + 0x80"
definition UDMA_PERIPH_SIZE_LOG2 :: nat where [mmio]: "UDMA_PERIPH_SIZE_LOG2 = 7"
definition UDMA_CHANNEL_NB_EVENTS_LOG2 :: nat where "UDMA_CHANNEL_NB_EVENTS_LOG2 = 2"

definition UDMA_CHANNEL_RX_OFFSET :: u32 where [mmio]: "UDMA_CHANNEL_RX_OFFSET = 0x00"
definition UDMA_CHANNEL_TX_OFFSET :: u32 where [mmio]: "UDMA_CHANNEL_TX_OFFSET = 0x10"
definition UDMA_CHANNEL_CUSTOM_OFFSET :: u32 where [mmio]: "UDMA_CHANNEL_CUSTOM_OFFSET = 0x20"
definition UDMA_CHANNEL_SADDR_OFFSET :: u32 where [mmio]: "UDMA_CHANNEL_SADDR_OFFSET = 0x0"
definition UDMA_CHANNEL_SIZE_OFFSET :: u32 where [mmio]: "UDMA_CHANNEL_SIZE_OFFSET = 0x4"
definition UDMA_CHANNEL_CFG_OFFSET :: u32 where [mmio]: "UDMA_CHANNEL_CFG_OFFSET = 0x8"

definition UDMA_CORE_RX_CFG_EN_MASK :: u32 where "UDMA_CORE_RX_CFG_EN_MASK = 0x10"
definition UDMA_CORE_RX_CFG_CLR_MASK :: u32 where "UDMA_CORE_RX_CFG_CLR_MASK = 0x40"

definition udma_enqueue_channel :: "u32 \<Rightarrow> u32 \<Rightarrow> u32 \<Rightarrow> u32 \<Rightarrow> 'a machine_scheme \<Rightarrow> 'a machine_scheme" where
  "udma_enqueue_channel chan addr sz config s =
     (let s = writew addr (chan + UDMA_CHANNEL_SADDR_OFFSET) s;
          s = writew sz (chan + UDMA_CHANNEL_SIZE_OFFSET) s in
      writew config (chan + UDMA_CHANNEL_CFG_OFFSET) s)"

definition udma_channel_clear :: "u32 \<Rightarrow> 'a machine_scheme \<Rightarrow> 'a machine_scheme" where
  "udma_channel_clear chan s = writew (REG_SET 6 UDMA_CORE_RX_CFG_CLR_MASK 1) (chan + UDMA_CHANNEL_CFG_OFFSET) s"

definition UDMA_GC_CG :: u32 where [mmio]: "UDMA_GC_CG = UDMA_CTRL_ADDR"
definition UDMA_GC_EVTIN :: u32 where [mmio]: "UDMA_GC_EVTIN = UDMA_CTRL_ADDR + 4"

definition udma_ctrl_get_clock_gating_register :: "'a machine_scheme \<Rightarrow> u32" where
  "udma_ctrl_get_clock_gating_register s = readw UDMA_GC_CG s"

definition udma_ctrl_get_event_register :: "'a machine_scheme \<Rightarrow> u32" where
  "udma_ctrl_get_event_register s = readw UDMA_GC_EVTIN s"

definition udma_ctrl_cg_disable :: "u32 \<Rightarrow> 'a machine_scheme \<Rightarrow> 'a machine_scheme" where
  "udma_ctrl_cg_disable udma_device_id s = hal_or32 UDMA_GC_CG (push_bit (unat udma_device_id) 1) s"

definition udma_ctrl_cg_enable :: "u32 \<Rightarrow> 'a machine_scheme \<Rightarrow> 'a machine_scheme" where
  "udma_ctrl_cg_enable udma_device_id s = hal_and32 UDMA_GC_CG (NOT (push_bit (unat udma_device_id) 1)) s"

definition UDMA_GC_EVTIN_MASK :: "u32 \<Rightarrow> u32" where "UDMA_GC_EVTIN_MASK evt_in = evt_in AND 0xFF"

definition UDMA_GC_EVTIN_SHIFT_ID :: "u8 \<Rightarrow> nat" where "UDMA_GC_EVTIN_SHIFT_ID i = unat i * 8"

definition udma_ctrl_enable_event_forward :: "u8 \<Rightarrow> u32 \<Rightarrow> 'a machine_scheme \<Rightarrow> 'a machine_scheme" where
  "udma_ctrl_enable_event_forward udma_evt_nb event_id s =
     (let s = hal_and32 UDMA_GC_EVTIN (NOT (push_bit (UDMA_GC_EVTIN_SHIFT_ID udma_evt_nb) (UDMA_GC_EVTIN_MASK 0xFF))) s;
          s = hal_or32 UDMA_GC_EVTIN (push_bit (UDMA_GC_EVTIN_SHIFT_ID udma_evt_nb) (UDMA_GC_EVTIN_MASK event_id)) s in
      hal_soc_eu_set_pr_mask (sint event_id) s)"

definition udma_ctrl_disable_event_forward :: "u8 \<Rightarrow> u32 \<Rightarrow> 'a machine_scheme \<Rightarrow> 'a machine_scheme" where
  "udma_ctrl_disable_event_forward udma_evt_nb event_id s =
     (let s = hal_and32 UDMA_GC_EVTIN (NOT (push_bit (UDMA_GC_EVTIN_SHIFT_ID udma_evt_nb) (UDMA_GC_EVTIN_MASK 0xFF))) s in
      hal_soc_eu_clear_pr_mask (sint event_id) s)"

definition udma_init_device :: "u32 \<Rightarrow> 'a machine_scheme \<Rightarrow> 'a machine_scheme" where
  "udma_init_device device_id s = udma_ctrl_cg_disable device_id s"

definition udma_deinit_device :: "u32 \<Rightarrow> 'a machine_scheme \<Rightarrow> 'a machine_scheme" where
  "udma_deinit_device device_id s = udma_ctrl_cg_enable device_id s"

subsection \<open>Lemmas\<close>

lemma unat_shift2: "unat (i :: u32) < 64 \<Longrightarrow> unat (push_bit 2 i) = 4 * unat i"
  unfolding unsigned_push_bit_eq by (simp add: push_bit_eq_mult take_bit_nat_eq_self mult.commute)

lemma event_decode:
  assumes "unat (i :: u32) < 64" "unat k < 4"
  shows "drop_bit 2 (push_bit 2 i + k) = i" "(push_bit 2 i + k) AND 1 = k AND 1"
proof -
  have u: "unat (push_bit 2 i + k) = 4 * unat i + unat k"
    using assms unat_shift2 [OF assms(1)] by (subst unat_plus_u32) simp_all
  show "drop_bit 2 (push_bit 2 i + k) = i"
    using assms u by (simp add: word_unat_eq_iff unsigned_drop_bit_eq drop_bit_eq_div take_bit_nat_eq_self unat_div)
  have "unat ((push_bit 2 i + k) AND 1) = (4 * unat i + unat k) mod 2"
    unfolding and_one_eq unat_mod u by simp
  also have "\<dots> = unat (k AND 1)" unfolding and_one_eq unat_mod by simp presburger
  finally show "(push_bit 2 i + k) AND 1 = k AND 1" by (simp add: word_unat_eq_iff)
qed

lemma enqueue_regs:
  "regs (udma_enqueue_channel chan addr sz cfg s) = (regs s)(chan := addr, chan + 4 := sz, chan + 8 := cfg)"
  by (simp add: udma_enqueue_channel_def Let_def UDMA_CHANNEL_SADDR_OFFSET_def UDMA_CHANNEL_SIZE_OFFSET_def UDMA_CHANNEL_CFG_OFFSET_def)

lemma enqueue_csrs [simp]: "csrs (udma_enqueue_channel chan addr sz cfg s) = csrs s"
  "csrs (udma_channel_clear chan s) = csrs s"
  by (simp_all add: udma_enqueue_channel_def udma_channel_clear_def Let_def)

lemma cfg_en: "0 OR REG_SET 4 UDMA_CORE_RX_CFG_EN_MASK 1 = 0x10"
  by (simp add: REG_SET_def UDMA_CORE_RX_CFG_EN_MASK_def)

lemma chan_of_num [simp]: "chan_of (chan_num c) = c"
  by (cases c) (simp_all add: chan_of_def)

end
