(* ===== verification/Uart.thy ===== *)
theory Uart
  imports Udma
begin

text \<open>
  The UART driver (drivers/uart.c) over its uDMA channels (drivers/include/udma_uart.h). The
  driver's interface structures live at the addresses that pi_l2_malloc returned; the pointer it
  returns is the argument chunk (0 on failure), and the peripheral clock that pi_freq_get
  reports is the argument periph_freq. Null dereferences, indices outside g_uart_itf_data or
  the handler table, a division by zero and a loop that never ends are None.
\<close>

subsection \<open>Registers\<close>

definition UDMA_UART_ID :: "u32 \<Rightarrow> u32" where "UDMA_UART_ID i = 0 + i"

definition UDMA_UART :: "u32 \<Rightarrow> u32" where
  "UDMA_UART i = UDMA_PERIPH_BASE_ADDR + push_bit UDMA_PERIPH_SIZE_LOG2 (UDMA_UART_ID i)"

definition uart_rx :: "u32 \<Rightarrow> u32" where "uart_rx i = UDMA_UART i"
definition uart_tx :: "u32 \<Rightarrow> u32" where "uart_tx i = UDMA_UART i + 0x10"
definition uart_status :: "u32 \<Rightarrow> u32" where "uart_status i = UDMA_UART i + 0x20"
definition uart_setup :: "u32 \<Rightarrow> u32" where "uart_setup i = UDMA_UART i + 0x24"

definition SOC_EVENT_UDMA_UART_RX :: "u32 \<Rightarrow> u32" where
  "SOC_EVENT_UDMA_UART_RX i = push_bit UDMA_CHANNEL_NB_EVENTS_LOG2 (UDMA_UART_ID i) + 0"
definition SOC_EVENT_UDMA_UART_TX :: "u32 \<Rightarrow> u32" where
  "SOC_EVENT_UDMA_UART_TX i = push_bit UDMA_CHANNEL_NB_EVENTS_LOG2 (UDMA_UART_ID i) + 1"

definition UART_STATUS_TX_BUSY_MASK :: u32 where "UART_STATUS_TX_BUSY_MASK = 0x1"
definition UART_STATUS_RX_BUSY_MASK :: u32 where "UART_STATUS_RX_BUSY_MASK = 0x2"
definition UART_STATUS_RX_PE_MASK :: u32 where "UART_STATUS_RX_PE_MASK = 0x4"
definition UART_SETUP_PARITY_ENA_MASK :: u32 where "UART_SETUP_PARITY_ENA_MASK = 0x1"
definition UART_SETUP_BIT_LENGTH_MASK :: u32 where "UART_SETUP_BIT_LENGTH_MASK = 0x6"
definition UART_SETUP_STOP_BITS_MASK :: u32 where "UART_SETUP_STOP_BITS_MASK = 0x8"
definition UART_SETUP_TX_ENA_MASK :: u32 where "UART_SETUP_TX_ENA_MASK = 0x100"
definition UART_SETUP_RX_ENA_MASK :: u32 where "UART_SETUP_RX_ENA_MASK = 0x200"
definition UART_SETUP_CLKDIV_MASK :: u32 where "UART_SETUP_CLKDIV_MASK = 0xffff0000"

definition uart_udma_channel_set :: "u32 \<Rightarrow> u32 \<Rightarrow> u32 \<Rightarrow> u32 \<Rightarrow> udma_channel \<Rightarrow> 'a machine_scheme \<Rightarrow> 'a machine_scheme" where
  "uart_udma_channel_set device l2_buf sz cfg channel s =
     (case channel of
        RX_CHANNEL \<Rightarrow> udma_enqueue_channel (uart_rx device) l2_buf sz cfg s
      | TX_CHANNEL \<Rightarrow> udma_enqueue_channel (uart_tx device) l2_buf sz cfg s
      | COMMAND_CHANNEL \<Rightarrow> s)"

definition uart_status_get :: "u32 \<Rightarrow> 'a machine_scheme \<Rightarrow> u32" where
  "uart_status_get device s = readw (uart_status device) s"

definition uart_setup_set :: "u32 \<Rightarrow> u32 \<Rightarrow> 'a machine_scheme \<Rightarrow> 'a machine_scheme" where
  "uart_setup_set device setup s = writew setup (uart_setup device) s"

definition uart_setup_get :: "u32 \<Rightarrow> 'a machine_scheme \<Rightarrow> u32" where
  "uart_setup_get device s = readw (uart_setup device) s"

definition hal_uart_parity_enable :: "u32 \<Rightarrow> 'a machine_scheme \<Rightarrow> 'a machine_scheme" where
  "hal_uart_parity_enable device s = uart_setup_set device (uart_setup_get device s OR REG_SET 0 UART_SETUP_PARITY_ENA_MASK 1) s"

definition hal_uart_parity_disable :: "u32 \<Rightarrow> 'a machine_scheme \<Rightarrow> 'a machine_scheme" where
  "hal_uart_parity_disable device s = uart_setup_set device (uart_setup_get device s AND NOT (REG_SET 0 UART_SETUP_PARITY_ENA_MASK 1)) s"

definition hal_uart_bit_length_set :: "u32 \<Rightarrow> u8 \<Rightarrow> 'a machine_scheme \<Rightarrow> 'a machine_scheme" where
  "hal_uart_bit_length_set device bit_length s =
     uart_setup_set device ((uart_setup_get device s AND NOT UART_SETUP_BIT_LENGTH_MASK)
        OR REG_SET 1 UART_SETUP_BIT_LENGTH_MASK (ucast bit_length)) s"

definition hal_uart_stop_bits_set :: "u32 \<Rightarrow> u8 \<Rightarrow> 'a machine_scheme \<Rightarrow> 'a machine_scheme" where
  "hal_uart_stop_bits_set device stop_bits s =
     uart_setup_set device ((uart_setup_get device s AND NOT UART_SETUP_STOP_BITS_MASK)
        OR REG_SET 3 UART_SETUP_STOP_BITS_MASK (ucast stop_bits)) s"

definition hal_uart_tx_enable :: "u32 \<Rightarrow> 'a machine_scheme \<Rightarrow> 'a machine_scheme" where
  "hal_uart_tx_enable device s = uart_setup_set device (uart_setup_get device s OR REG_SET 8 UART_SETUP_TX_ENA_MASK 1) s"

definition hal_uart_tx_disable :: "u32 \<Rightarrow> 'a machine_scheme \<Rightarrow> 'a machine_scheme" where
  "hal_uart_tx_disable device s = uart_setup_set device (uart_setup_get device s AND NOT (REG_SET 8 UART_SETUP_TX_ENA_MASK 1)) s"

definition hal_uart_rx_enable :: "u32 \<Rightarrow> 'a machine_scheme \<Rightarrow> 'a machine_scheme" where
  "hal_uart_rx_enable device s = uart_setup_set device (uart_setup_get device s OR REG_SET 9 UART_SETUP_RX_ENA_MASK 1) s"

definition hal_uart_rx_disable :: "u32 \<Rightarrow> 'a machine_scheme \<Rightarrow> 'a machine_scheme" where
  "hal_uart_rx_disable device s = uart_setup_set device (uart_setup_get device s AND NOT (REG_SET 9 UART_SETUP_RX_ENA_MASK 1)) s"

definition hal_uart_clkdiv_set :: "u32 \<Rightarrow> u16 \<Rightarrow> 'a machine_scheme \<Rightarrow> 'a machine_scheme" where
  "hal_uart_clkdiv_set device clk_div s =
     uart_setup_set device ((uart_setup_get device s AND NOT UART_SETUP_CLKDIV_MASK)
        OR REG_SET 16 UART_SETUP_CLKDIV_MASK (ucast clk_div)) s"

definition hal_uart_setup_set :: "u32 \<Rightarrow> u16 \<Rightarrow> u8 \<Rightarrow> u8 \<Rightarrow> u8 \<Rightarrow> u8 \<Rightarrow> u8 \<Rightarrow> 'a machine_scheme \<Rightarrow> 'a machine_scheme" where
  "hal_uart_setup_set device clk_div rx_ena tx_ena stop_bits bit_length parity_ena s =
     (let setup = REG_SET 16 UART_SETUP_CLKDIV_MASK (ucast clk_div)
              OR REG_SET 9 UART_SETUP_RX_ENA_MASK (ucast rx_ena)
              OR REG_SET 8 UART_SETUP_TX_ENA_MASK (ucast tx_ena)
              OR REG_SET 3 UART_SETUP_STOP_BITS_MASK (ucast stop_bits)
              OR REG_SET 1 UART_SETUP_BIT_LENGTH_MASK (ucast bit_length)
              OR REG_SET 0 UART_SETUP_PARITY_ENA_MASK (ucast parity_ena) in
      uart_setup_set device setup s)"

definition hal_uart_tx_status_get :: "u32 \<Rightarrow> 'a machine_scheme \<Rightarrow> u32" where
  "hal_uart_tx_status_get device s = uart_status_get device s AND UART_STATUS_TX_BUSY_MASK"

definition hal_uart_rx_status_get :: "u32 \<Rightarrow> 'a machine_scheme \<Rightarrow> u32" where
  "hal_uart_rx_status_get device s = uart_status_get device s AND UART_STATUS_RX_BUSY_MASK"

definition hal_uart_rx_parity_error_get :: "u32 \<Rightarrow> 'a machine_scheme \<Rightarrow> u32" where
  "hal_uart_rx_parity_error_get device s = uart_status_get device s AND UART_STATUS_RX_PE_MASK"

definition hal_uart_enqueue :: "u32 \<Rightarrow> u32 \<Rightarrow> u32 \<Rightarrow> u32 \<Rightarrow> udma_channel \<Rightarrow> 'a machine_scheme \<Rightarrow> 'a machine_scheme" where
  "hal_uart_enqueue device l2_buf sz cfg channel s =
     uart_udma_channel_set device l2_buf sz (cfg OR REG_SET 4 UDMA_CORE_RX_CFG_EN_MASK 1) channel s"

definition hal_uart_rx_clear :: "u32 \<Rightarrow> 'a machine_scheme \<Rightarrow> 'a machine_scheme" where
  "hal_uart_rx_clear device s = udma_channel_clear (uart_rx device) s"

definition hal_uart_tx_clear :: "u32 \<Rightarrow> 'a machine_scheme \<Rightarrow> 'a machine_scheme" where
  "hal_uart_tx_clear device s = udma_channel_clear (uart_tx device) s"

subsection \<open>Driver state\<close>

record uart_itf_data =
  u_fifo_head :: "udma_channel \<Rightarrow> u32"
  u_fifo_tail :: "udma_channel \<Rightarrow> u32"
  u_nb_open :: u32
  u_device_id :: u32

record uart_drv = soc +
  uart_data_at :: "u32 \<Rightarrow> uart_itf_data"
  g_uart_itf_data :: "u32 list"

record pi_uart_conf =
  baudrate_bps :: u32
  stop_bit_count :: u8
  parity_mode :: u8
  word_size :: u8
  enable_rx :: u8
  enable_tx :: u8
  uart_id :: u8

definition UDMA_NB_UART :: nat where "UDMA_NB_UART = 1"

definition upd_uart :: "u32 \<Rightarrow> (uart_itf_data \<Rightarrow> uart_itf_data) \<Rightarrow> 'a uart_drv_scheme \<Rightarrow> 'a uart_drv_scheme" where
  "upd_uart d f s = s\<lparr>uart_data_at := (uart_data_at s)(d := f (uart_data_at s d))\<rparr>"

definition pi_uart_conf_init :: "pi_uart_conf \<Rightarrow> pi_uart_conf" where
  "pi_uart_conf_init conf = conf\<lparr>baudrate_bps := 115200, parity_mode := 0, stop_bit_count := 0, word_size := 3,
     enable_rx := 0, enable_tx := 0, uart_id := 0\<rparr>"

definition pi_uart_conf_set :: "u32 \<Rightarrow> u32 \<Rightarrow> pi_uart_conf \<Rightarrow> 'a uart_drv_scheme \<Rightarrow> 'a uart_drv_scheme option" where
  "pi_uart_conf_set periph_freq d conf s =
     (let device = u_device_id (uart_data_at s d) in
      if baudrate_bps conf = 0 then None
      else Some (hal_uart_setup_set device (ucast (periph_freq div baudrate_bps conf)) (enable_rx conf) (enable_tx conf)
                   (stop_bit_count conf) (word_size conf) (parity_mode conf) s))"

subsection \<open>Queue of transfers\<close>

definition pi_uart_task_fifo_enqueue :: "u32 \<Rightarrow> u32 \<Rightarrow> udma_channel \<Rightarrow> 'a uart_drv_scheme \<Rightarrow> u32 \<times> 'a uart_drv_scheme" where
  "pi_uart_task_fifo_enqueue d task channel s =
     (let (irq, s) = disable_irq s;
          (head, s) =
            (if u_fifo_head (uart_data_at s d) channel = 0
             then let s = upd_uart d (\<lambda>x. x\<lparr>u_fifo_head := (u_fifo_head x)(channel := task)\<rparr>) s;
                      s = upd_uart d (\<lambda>x. x\<lparr>u_fifo_tail := (u_fifo_tail x)(channel := u_fifo_head x channel)\<rparr>) s in
                  (0, s)
             else let tl_ptr = u_fifo_tail (uart_data_at s d) channel;
                      s = upd_task tl_ptr (\<lambda>t. t\<lparr>t_next := task\<rparr>) s;
                      s = upd_uart d (\<lambda>x. x\<lparr>u_fifo_tail := (u_fifo_tail x)(channel := t_next (task_at s tl_ptr))\<rparr>) s in
                  (1, s));
          s = restore_irq irq s in
      (head, s))"

definition pi_uart_task_fifo_pop :: "u32 \<Rightarrow> udma_channel \<Rightarrow> 'a uart_drv_scheme \<Rightarrow> u32 \<times> 'a uart_drv_scheme" where
  "pi_uart_task_fifo_pop d channel s =
     (let (irq, s) = disable_irq s;
          (task, s) =
            (if u_fifo_head (uart_data_at s d) channel \<noteq> 0
             then let task = u_fifo_head (uart_data_at s d) channel;
                      s = upd_uart d (\<lambda>x. x\<lparr>u_fifo_head := (u_fifo_head x)(channel := t_next (task_at s task))\<rparr>) s;
                      s = (if u_fifo_head (uart_data_at s d) channel = 0
                           then upd_uart d (\<lambda>x. x\<lparr>u_fifo_tail := (u_fifo_tail x)(channel := 0)\<rparr>) s else s) in
                  (task, s)
             else (0, s));
          s = restore_irq irq s in
      (task, s))"

subsection \<open>Transfers\<close>

definition pi_uart_copy_exec :: "u32 \<Rightarrow> u32 \<Rightarrow> 'a uart_drv_scheme \<Rightarrow> 'a uart_drv_scheme" where
  "pi_uart_copy_exec d task s =
     (let device = u_device_id (uart_data_at s d);
          l2_buf = t_data (task_at s task) 0;
          sz = t_data (task_at s task) 1;
          channel = chan_of (t_data (task_at s task) 2);
          max_size = UDMA_MAX_SIZE - 4;
          (sz, s) = (if t_data (task_at s task) 1 > max_size
                     then (max_size, upd_task task (\<lambda>t. t\<lparr>t_data := (t_data t)(3 := t_data t 1 - max_size)\<rparr>) s)
                     else (sz, s)) in
      hal_uart_enqueue device l2_buf sz 0 channel s)"

definition pi_uart_copy :: "u32 \<Rightarrow> u32 \<Rightarrow> u32 \<Rightarrow> udma_channel \<Rightarrow> u32 \<Rightarrow> 'a uart_drv_scheme \<Rightarrow> int \<times> 'a uart_drv_scheme" where
  "pi_uart_copy d l2_buf sz channel task s =
     (let (irq, s) = disable_irq s in
      if l2_buf AND 0xFFF00000 \<noteq> 0x1C000000 then (-11, restore_irq irq s)
      else
        let s = upd_task task (\<lambda>t. t\<lparr>t_data := (t_data t)(0 := l2_buf, 1 := sz, 2 := chan_num channel, 3 := 0), t_next := 0\<rparr>) s;
            (head, s) = pi_uart_task_fifo_enqueue d task channel s;
            s = (if (ucast head :: u8) = 0 then pi_uart_copy_exec d task s else s) in
        (0, restore_irq irq s))"

definition pi_uart_handle_end_of_task :: "u32 \<Rightarrow> 'a uart_drv_scheme \<Rightarrow> 'a uart_drv_scheme option" where
  "pi_uart_handle_end_of_task task s =
     (if t_id (task_at s task) = PI_TASK_NONE_ID then pi_task_release task s
      else if t_id (task_at s task) = PI_TASK_CALLBACK_ID then Some (pi_task_push task s)
      else Some s)"

definition pi_uart_handler :: "u32 \<Rightarrow> 'a uart_drv_scheme \<Rightarrow> 'a uart_drv_scheme option" where
  "pi_uart_handler event s =
     (let channel = chan_of (event AND 0x1);
          periph_id = drop_bit UDMA_CHANNEL_NB_EVENTS_LOG2 event - UDMA_UART_ID 0 in
      if \<not> unat periph_id < length (g_uart_itf_data s) then None
      else let d = g_uart_itf_data s ! unat periph_id in
      if d = 0 then None
      else let task = u_fifo_head (uart_data_at s d) channel in
      if task = 0 then None
      else if t_data (task_at s task) 3 \<noteq> 0
      then let max_size = UDMA_MAX_SIZE - 4;
               s = upd_task task (\<lambda>t. t\<lparr>t_data := (t_data t)(0 := t_data t 0 + max_size, 1 := t_data t 1 - max_size)\<rparr>) s in
           Some (pi_uart_copy_exec d task s)
      else let (task, s) = pi_uart_task_fifo_pop d channel s in
           map_option (\<lambda>s. let task = u_fifo_head (uart_data_at s d) channel in
               if task \<noteq> 0 then pi_uart_copy_exec d task s else s)
             (pi_uart_handle_end_of_task task s))"

definition pi_uart_write_async :: "u32 \<Rightarrow> u32 \<Rightarrow> u32 \<Rightarrow> u32 \<Rightarrow> 'a uart_drv_scheme \<Rightarrow> int \<times> 'a uart_drv_scheme" where
  "pi_uart_write_async device buffer sz callback s = pi_uart_copy (dev_data s device) buffer sz TX_CHANNEL callback s"

definition pi_uart_read_async :: "u32 \<Rightarrow> u32 \<Rightarrow> u32 \<Rightarrow> u32 \<Rightarrow> 'a uart_drv_scheme \<Rightarrow> int \<times> 'a uart_drv_scheme" where
  "pi_uart_read_async device buffer sz callback s = pi_uart_copy (dev_data s device) buffer sz RX_CHANNEL callback s"

definition pi_uart_write_byte_async :: "u32 \<Rightarrow> u32 \<Rightarrow> u32 \<Rightarrow> 'a uart_drv_scheme \<Rightarrow> int \<times> 'a uart_drv_scheme" where
  "pi_uart_write_byte_async device buffer callback s = pi_uart_write_async device buffer 1 callback s"

definition zero_task :: pi_task where
  "zero_task = \<lparr>t_arg = \<lambda>_. 0, t_id = 0, t_data = \<lambda>_. 0, t_wait_on = \<lparr>sem_object = 0, sem_take_fn = False, sem_give_fn = False\<rparr>,
     t_next = 0, t_done = 0, t_core_id = 0, t_cluster_id = 0, t_destroy = 0\<rparr>"

definition pi_uart_write :: "('a uart_drv_scheme \<Rightarrow> 'a uart_drv_scheme) \<Rightarrow> (os_call list \<Rightarrow> u32) \<Rightarrow> u32 \<Rightarrow> u32 \<Rightarrow> u32 \<Rightarrow> u32 \<Rightarrow>
    'a uart_drv_scheme \<Rightarrow> (int \<times> 'a uart_drv_scheme) option" where
  "pi_uart_write env create task_block device buffer sz s =
     (let s = upd_task task_block (\<lambda>_. zero_task) s;
          s = pi_task_block create task_block s;
          (status, s) = pi_uart_write_async device buffer sz task_block s in
      map_option (\<lambda>s. (status, pi_task_destroy task_block s)) (pi_task_wait_on env task_block s))"

definition pi_uart_read :: "('a uart_drv_scheme \<Rightarrow> 'a uart_drv_scheme) \<Rightarrow> (os_call list \<Rightarrow> u32) \<Rightarrow> u32 \<Rightarrow> u32 \<Rightarrow> u32 \<Rightarrow> u32 \<Rightarrow>
    'a uart_drv_scheme \<Rightarrow> (int \<times> 'a uart_drv_scheme) option" where
  "pi_uart_read env create task_block device buffer sz s =
     (let s = upd_task task_block (\<lambda>_. zero_task) s;
          s = pi_task_block create task_block s;
          (status, s) = pi_uart_read_async device buffer sz task_block s in
      map_option (\<lambda>s. (status, pi_task_destroy task_block s)) (pi_task_wait_on env task_block s))"

definition pi_uart_write_byte :: "('a uart_drv_scheme \<Rightarrow> 'a uart_drv_scheme) \<Rightarrow> (os_call list \<Rightarrow> u32) \<Rightarrow> u32 \<Rightarrow> u32 \<Rightarrow> u32 \<Rightarrow>
    'a uart_drv_scheme \<Rightarrow> (int \<times> 'a uart_drv_scheme) option" where
  "pi_uart_write_byte env create task_block device buffer s = pi_uart_write env create task_block device buffer 1 s"

definition pi_uart_read_byte :: "('a uart_drv_scheme \<Rightarrow> 'a uart_drv_scheme) \<Rightarrow> (os_call list \<Rightarrow> u32) \<Rightarrow> u32 \<Rightarrow> u32 \<Rightarrow> u32 \<Rightarrow>
    'a uart_drv_scheme \<Rightarrow> (int \<times> 'a uart_drv_scheme) option" where
  "pi_uart_read_byte env create task_block device buffer s = pi_uart_read env create task_block device buffer 1 s"

subsection \<open>Opening, closing and control\<close>

definition pi_uart_rx_abort :: "u32 \<Rightarrow> 'a uart_drv_scheme \<Rightarrow> 'a uart_drv_scheme" where
  "pi_uart_rx_abort d s =
     (let device = u_device_id (uart_data_at s d);
          s = hal_uart_rx_disable device s;
          s = hal_uart_rx_clear device s in
      upd_uart d (\<lambda>x. x\<lparr>u_fifo_head := (u_fifo_head x)(RX_CHANNEL := 0), u_fifo_tail := (u_fifo_tail x)(RX_CHANNEL := 0)\<rparr>) s)"

definition pi_uart_tx_abort :: "u32 \<Rightarrow> 'a uart_drv_scheme \<Rightarrow> 'a uart_drv_scheme" where
  "pi_uart_tx_abort d s =
     (let device = u_device_id (uart_data_at s d);
          s = hal_uart_tx_disable device s;
          s = hal_uart_tx_clear device s in
      upd_uart d (\<lambda>x. x\<lparr>u_fifo_head := (u_fifo_head x)(TX_CHANNEL := 0), u_fifo_tail := (u_fifo_tail x)(TX_CHANNEL := 0)\<rparr>) s)"

definition pi_uart_channel_enable :: "u32 \<Rightarrow> udma_channel \<Rightarrow> 'a uart_drv_scheme \<Rightarrow> 'a uart_drv_scheme" where
  "pi_uart_channel_enable d channel s =
     (let device = u_device_id (uart_data_at s d) in
      if channel = RX_CHANNEL then hal_uart_rx_enable device s else hal_uart_tx_enable device s)"

definition pi_uart_open :: "u32 \<Rightarrow> u32 \<Rightarrow> u32 \<Rightarrow> pi_uart_conf \<Rightarrow> 'a uart_drv_scheme \<Rightarrow> (int \<times> 'a uart_drv_scheme) option" where
  "pi_uart_open periph_freq chunk device conf s =
     (if \<not> unat (uart_id conf) < length (g_uart_itf_data s) then None
      else let d = g_uart_itf_data s ! unat (uart_id conf) in
      if d = 0
      then if chunk = 0 then Some (-11, s)
        else
          let s = upd_uart chunk (\<lambda>_. \<lparr>u_fifo_head = \<lambda>_. 0, u_fifo_tail = \<lambda>_. 0, u_nb_open = 1,
                                       u_device_id = ucast (uart_id conf)\<rparr>) s;
              i = u_device_id (uart_data_at s chunk) in
          Option.bind (pi_fc_event_handler_set (SOC_EVENT_UDMA_UART_RX i) (Some (FC_handler H_uart)) s) (\<lambda>s.
          Option.bind (pi_fc_event_handler_set (SOC_EVENT_UDMA_UART_TX i) (Some (FC_handler H_uart)) s) (\<lambda>s.
          let s = hal_soc_eu_set_fc_mask (sint (SOC_EVENT_UDMA_UART_RX i)) s;
              s = hal_soc_eu_set_fc_mask (sint (SOC_EVENT_UDMA_UART_TX i)) s;
              s = udma_ctrl_cg_disable (UDMA_UART_ID i) s in
          map_option (\<lambda>s.
              let s = s\<lparr>g_uart_itf_data := (g_uart_itf_data s)[unat i := chunk]\<rparr> in
              (0, s\<lparr>dev_data := (dev_data s)(device := chunk)\<rparr>))
            (pi_uart_conf_set periph_freq chunk conf s)))
      else
        let s = upd_uart d (\<lambda>x. x\<lparr>u_nb_open := u_nb_open x + 1\<rparr>) s;
            i = u_device_id (uart_data_at s d) in
        if unat i < length (g_uart_itf_data s)
        then Some (0, s\<lparr>dev_data := (dev_data s)(device := g_uart_itf_data s ! unat i)\<rparr>) else None)"

definition pi_uart_close :: "('a uart_drv_scheme \<Rightarrow> 'a uart_drv_scheme) \<Rightarrow> u32 \<Rightarrow> 'a uart_drv_scheme \<Rightarrow> 'a uart_drv_scheme option" where
  "pi_uart_close env device s =
     (let d = dev_data s device in
      if d = 0 then Some s
      else
        let s = upd_uart d (\<lambda>x. x\<lparr>u_nb_open := u_nb_open x - 1\<rparr>) s;
            i = u_device_id (uart_data_at s d) in
        map_option (\<lambda>s. s\<lparr>dev_data := (dev_data s)(device := 0)\<rparr>)
          (if u_nb_open (uart_data_at s d) = 0
           then Option.bind (wait_while (\<lambda>s. hal_uart_tx_status_get (u_device_id (uart_data_at s d)) s \<noteq> 0) env s) (\<lambda>s.
             let s = pi_uart_rx_abort d s;
                 s = pi_uart_tx_abort d s in
             Option.bind (pi_fc_event_handler_clear (SOC_EVENT_UDMA_UART_RX (u_device_id (uart_data_at s d))) s) (\<lambda>s.
             Option.bind (pi_fc_event_handler_clear (SOC_EVENT_UDMA_UART_TX (u_device_id (uart_data_at s d))) s) (\<lambda>s.
             let s = hal_soc_eu_clear_fc_mask (sint (SOC_EVENT_UDMA_UART_RX (u_device_id (uart_data_at s d)))) s;
                 s = hal_soc_eu_clear_fc_mask (sint (SOC_EVENT_UDMA_UART_TX (u_device_id (uart_data_at s d)))) s;
                 s = os (OS_L2Free d 24) s;
                 i = u_device_id (uart_data_at s d) in
             if unat i < length (g_uart_itf_data s)
             then Some (s\<lparr>g_uart_itf_data := (g_uart_itf_data s)[unat i := 0]\<rparr>) else None)))
           else Some s))"

definition pi_uart_ioctl :: "u32 \<Rightarrow> u32 \<Rightarrow> u32 \<Rightarrow> pi_uart_conf \<Rightarrow> 'a uart_drv_scheme \<Rightarrow> (int \<times> 'a uart_drv_scheme) option" where
  "pi_uart_ioctl periph_freq device cmd conf s =
     (let d = dev_data s device;
          (irq, s) = disable_irq s in
      if cmd = 0 then map_option (\<lambda>s. (0, restore_irq irq s)) (pi_uart_conf_set periph_freq d conf s)
      else if cmd = 1 then Some (0, restore_irq irq (pi_uart_rx_abort d s))
      else if cmd = 2 then Some (0, restore_irq irq (pi_uart_tx_abort d s))
      else if cmd = 3 then Some (0, restore_irq irq (pi_uart_channel_enable d RX_CHANNEL s))
      else if cmd = 4 then Some (0, restore_irq irq (pi_uart_channel_enable d TX_CHANNEL s))
      else Some (-1, restore_irq irq s))"

end
