(* ===== verification/UartProps.thy ===== *)
theory UartProps
  imports Uart
begin

text \<open>
  Properties of the UART driver: its queues are first-in first-out, what a transfer request and
  a completion interrupt do, and what happens to requests the driver cannot serve.
\<close>

lemma uart_frame [simp]:
  "task_at (upd_uart d f s) = task_at s" "regs (upd_uart d f s) = regs s" "csrs (upd_uart d f s) = csrs s"
  "dev_data (upd_uart d f s) = dev_data s" "os_log (upd_uart d f s) = os_log s"
  "fc_event_handlers (upd_uart d f s) = fc_event_handlers s" "g_uart_itf_data (upd_uart d f s) = g_uart_itf_data s"
  "uart_data_at (upd_uart d f s) = (uart_data_at s)(d := f (uart_data_at s d))"
  by (simp_all add: upd_uart_def)

lemma uart_frame2 [simp]:
  "uart_data_at (upd_task p g s) = uart_data_at s" "g_uart_itf_data (upd_task p g s) = g_uart_itf_data s"
  "uart_data_at (os c s) = uart_data_at s" "g_uart_itf_data (os c s) = g_uart_itf_data s"
  "uart_data_at (writew v a s) = uart_data_at s" "g_uart_itf_data (writew v a s) = g_uart_itf_data s"
  "uart_data_at (snd (disable_irq s)) = uart_data_at s" "g_uart_itf_data (snd (disable_irq s)) = g_uart_itf_data s"
  "uart_data_at (restore_irq w s) = uart_data_at s" "g_uart_itf_data (restore_irq w s) = g_uart_itf_data s"
  by (simp_all add: upd_task_def os_def writew_def disable_irq_def csr_read_clear_def restore_irq_def csr_write_def)

definition uart_queue :: "u32 \<Rightarrow> udma_channel \<Rightarrow> 'a uart_drv_scheme \<Rightarrow> u32 list \<Rightarrow> bool" where
  "uart_queue d c s q \<longleftrightarrow> fifo_rep (next_of s) (u_fifo_head (uart_data_at s d) c) (u_fifo_tail (uart_data_at s d) c) q"

definition uart_submit :: "u32 \<Rightarrow> udma_channel \<Rightarrow> u32 \<Rightarrow> 'a uart_drv_scheme \<Rightarrow> 'a uart_drv_scheme" where
  "uart_submit d c task s = snd (pi_uart_task_fifo_enqueue d task c (upd_task task (\<lambda>t. t\<lparr>t_next := 0\<rparr>) s))"

lemma next_of_uart [simp]: "next_of (upd_uart d f u) = next_of u"
  by (rule ext) (simp add: next_of_def)

lemma enqueue_queue:
  assumes "uart_queue d c s q" "t \<noteq> 0" "t \<notin> set q" "t_next (task_at s t) = 0"
  shows "uart_queue d c (snd (pi_uart_task_fifo_enqueue d t c s)) (q @ [t])"
    and "fst (pi_uart_task_fifo_enqueue d t c s) = (if q = [] then 0 else 1)"
  using assms fifo_rep_append [of "next_of s" _ _ q t] fifo_rep_empty [of "next_of s" _ _ q]
  by (cases "q = []"; auto simp: uart_queue_def pi_uart_task_fifo_enqueue_def Let_def case_prod_beta next_of_upd
      fun_upd_def next_of_def [of s t])+

lemma pop_queue:
  assumes "uart_queue d c s q"
  shows "uart_queue d c (snd (pi_uart_task_fifo_pop d c s)) (tl q)"
    and "fst (pi_uart_task_fifo_pop d c s) = (if q = [] then 0 else hd q)"
proof -
  let ?h = "u_fifo_head (uart_data_at s d) c"
  have "uart_queue d c (snd (pi_uart_task_fifo_pop d c s)) (tl q) \<and> fst (pi_uart_task_fifo_pop d c s) = (if q = [] then 0 else hd q)"
  proof (cases q)
    case Nil
    then have "?h = 0" using assms by (simp add: uart_queue_def)
    then show ?thesis using Nil by (simp add: pi_uart_task_fifo_pop_def Let_def case_prod_beta uart_queue_def)
  next
    case (Cons x xs)
    then have h: "?h = x" "fifo_rep (next_of s) (next_of s x) (u_fifo_tail (uart_data_at s d) c) xs" and x0: "x \<noteq> 0"
      using assms fifo_rep_tl [of "next_of s" ?h _ x xs] by (auto simp: uart_queue_def fifo_rep_def)
    show ?thesis
    proof (cases "next_of s x = 0")
      case True
      then have "xs = []" using h(2) fifo_rep_empty by blast
      then show ?thesis using True h(1) x0 Cons
        by (simp add: pi_uart_task_fifo_pop_def Let_def case_prod_beta uart_queue_def next_of_def [of s x])
    next
      case False
      then show ?thesis using h x0 Cons
        by (simp add: pi_uart_task_fifo_pop_def Let_def case_prod_beta uart_queue_def next_of_def [of s x])
    qed
  qed
  then show "uart_queue d c (snd (pi_uart_task_fifo_pop d c s)) (tl q)"
    "fst (pi_uart_task_fifo_pop d c s) = (if q = [] then 0 else hd q)" by simp_all
qed

interpretation uart: task_fifo "uart_submit d c" "pi_uart_task_fifo_pop d c" "uart_queue d c" for d c
proof
  show "uart_queue d c (uart_submit d c t s) (q @ [t])" if "uart_queue d c s q" "t \<noteq> 0" "t \<notin> set q" for s :: "'a uart_drv_scheme" and q t
  proof -
    have "fifo_rep ((next_of s)(t := 0)) h l q = fifo_rep (next_of s) h l q" for h l
      using that(3) by (intro fifo_rep_cong) auto
    then have "uart_queue d c (upd_task t (\<lambda>t. t\<lparr>t_next := 0\<rparr>) s) q"
      using that(1) by (simp add: uart_queue_def next_of_upd)
    then show ?thesis using that(2,3) unfolding uart_submit_def by (intro enqueue_queue(1)) simp_all
  qed
  show "fst (pi_uart_task_fifo_pop d c s) = (if q = [] then 0 else hd q) \<and> uart_queue d c (snd (pi_uart_task_fifo_pop d c s)) (tl q)"
    if "uart_queue d c s q" for s :: "'a uart_drv_scheme" and q using pop_queue [OF that] by blast
  show "0 \<notin> set q" if "uart_queue d c s q" for s :: "'a uart_drv_scheme" and q
    using that chain_nonzero by (auto simp: uart_queue_def fifo_rep_def)
qed

definition uart_chan :: "u32 \<Rightarrow> udma_channel \<Rightarrow> u32" where
  "uart_chan i c = (if c = RX_CHANNEL then uart_rx i else uart_tx i)"

definition program :: "u32 \<Rightarrow> u32 \<Rightarrow> u32 \<Rightarrow> (u32 \<Rightarrow> u32) \<Rightarrow> u32 \<Rightarrow> u32" where
  "program ch buf sz r = r(ch := buf, ch + 4 := sz, ch + 8 := 0x10)"

lemma uart_enqueue_frame [simp]:
  "csrs (hal_uart_enqueue i b z 0 c s) = csrs s" "task_at (hal_uart_enqueue i b z 0 c s') = task_at s'"
  "uart_data_at (hal_uart_enqueue i b z 0 c u) = uart_data_at u" "g_uart_itf_data (hal_uart_enqueue i b z 0 c u) = g_uart_itf_data u"
  "next_of (hal_uart_enqueue i b z 0 c s') = next_of s'" "os_log (hal_uart_enqueue i b z 0 c s') = os_log s'"
  "dev_data (hal_uart_enqueue i b z 0 c s') = dev_data s'"
  by (auto simp: hal_uart_enqueue_def uart_udma_channel_set_def udma_enqueue_channel_def Let_def intro!: ext split: udma_channel.split)

lemma uart_enqueue_regs: "c \<noteq> COMMAND_CHANNEL \<Longrightarrow> regs (hal_uart_enqueue i b z 0 c s) = program (uart_chan i c) b z (regs s)"
  unfolding hal_uart_enqueue_def cfg_en
  by (cases c) (simp_all add: uart_udma_channel_set_def enqueue_regs program_def uart_chan_def)

abbreviation uart_max :: u32 where "uart_max \<equiv> UDMA_MAX_SIZE - 4"

lemma copy_exec_regs:
  assumes "t_data (task_at s t) 2 = chan_num c" "c \<noteq> COMMAND_CHANNEL"
  shows "regs (pi_uart_copy_exec d t s) =
    program (uart_chan (u_device_id (uart_data_at s d)) c) (t_data (task_at s t) 0) (min (t_data (task_at s t) 1) uart_max) (regs s)"
  using assms by (auto simp: pi_uart_copy_exec_def Let_def uart_enqueue_regs min_def)

lemma copy_exec_frame [simp]:
  "csrs (pi_uart_copy_exec d t s) = csrs s" "uart_data_at (pi_uart_copy_exec d t s) = uart_data_at s"
  "g_uart_itf_data (pi_uart_copy_exec d t s) = g_uart_itf_data s" "next_of (pi_uart_copy_exec d t s) = next_of s"
  "os_log (pi_uart_copy_exec d t s) = os_log s" "dev_data (pi_uart_copy_exec d t s) = dev_data s"
  by (auto simp: pi_uart_copy_exec_def Let_def next_of_upd next_of_def intro!: ext)

lemma copy_exec_task:
  "task_at (pi_uart_copy_exec d t s) p =
     (if p = t \<and> t_data (task_at s t) 1 > uart_max
      then (task_at s t)\<lparr>t_data := (t_data (task_at s t))(3 := t_data (task_at s t) 1 - uart_max)\<rparr> else task_at s p)"
  by (simp add: pi_uart_copy_exec_def Let_def)

lemma queue_copy_exec [simp]: "uart_queue d c (pi_uart_copy_exec d' t s) q = uart_queue d c s q"
  by (simp add: uart_queue_def)

lemma enqueue_frame [simp]:
  "csrs (snd (pi_uart_task_fifo_enqueue d t c s)) = csrs s" "regs (snd (pi_uart_task_fifo_enqueue d t c s)) = regs s"
  "t_data (task_at (snd (pi_uart_task_fifo_enqueue d t c s)) p) = t_data (task_at s p)"
  "t_done (task_at (snd (pi_uart_task_fifo_enqueue d t c s)) p) = t_done (task_at s p)"
  "u_device_id (uart_data_at (snd (pi_uart_task_fifo_enqueue d t c s)) d) = u_device_id (uart_data_at s d)"
  "g_uart_itf_data (snd (pi_uart_task_fifo_enqueue d t c s)) = g_uart_itf_data s"
  by (simp_all add: pi_uart_task_fifo_enqueue_def Let_def case_prod_beta)

lemma queue_prepared:
  assumes "uart_queue d c s q" "t \<notin> set q"
  shows "uart_queue d c (upd_task t f s) q"
proof -
  have "fifo_rep ((next_of s)(t := x)) h l q = fifo_rep (next_of s) h l q" for h l x
    using assms(2) by (intro fifo_rep_cong) auto
  then show ?thesis using assms(1) by (simp add: uart_queue_def next_of_upd)
qed

text \<open>A read or write request whose buffer is outside the 1 MB of L2 at 0x1C000000 is refused with -11 and
  changes nothing; any other request joins the end of its channel's queue, and programs the channel
  exactly when the queue was empty, with at most UDMA_MAX_SIZE - 4 bytes. Interrupts are restored.\<close>
lemma uart_copy_request:
  assumes "uart_queue d c s q" "t \<noteq> 0" "t \<notin> set q" "c \<noteq> COMMAND_CHANNEL"
  shows "let (r, u) = pi_uart_copy d buf sz c t s in csrs u = csrs s \<and>
    (if buf AND 0xFFF00000 \<noteq> 0x1C000000
     then r = -11 \<and> regs u = regs s \<and> task_at u = task_at s \<and> uart_queue d c u q
     else r = 0 \<and> uart_queue d c u (q @ [t])
       \<and> regs u = (if q = [] then program (uart_chan (u_device_id (uart_data_at s d)) c) buf (min sz uart_max) (regs s) else regs s))"
proof -
  let ?s1 = "snd (disable_irq s)"
  let ?s2 = "upd_task t (\<lambda>x. x\<lparr>t_data := (t_data x)(0 := buf, 1 := sz, 2 := chan_num c, 3 := 0), t_next := 0\<rparr>) ?s1"
  have "uart_queue d c ?s1 q" using assms(1) by (simp add: uart_queue_def)
  then have 2: "uart_queue d c ?s2 q" using assms(3) by (rule queue_prepared)
  have n: "t_next (task_at ?s2 t) = 0" by simp
  note e = enqueue_queue [OF 2 assms(2,3) n]
  have qr: "uart_queue d c (restore_irq w v) q' = uart_queue d c v q'" for w q' and v :: "'a uart_drv_scheme"
    by (simp add: uart_queue_def)
  have "regs (pi_uart_copy_exec d t (snd (pi_uart_task_fifo_enqueue d t c ?s2)))
     = program (uart_chan (u_device_id (uart_data_at s d)) c) buf (min sz uart_max) (regs s)"
    using copy_exec_regs [of "snd (pi_uart_task_fifo_enqueue d t c ?s2)" t c d] assms(4) by simp
  then show ?thesis using e \<open>uart_queue d c ?s1 q\<close>
    by (cases "q = []") (simp_all add: pi_uart_copy_def Let_def case_prod_beta qr)
qed

definition uart_is_open :: "u32 \<Rightarrow> u32 \<Rightarrow> 'a uart_drv_scheme \<Rightarrow> bool" where
  "uart_is_open i d s \<longleftrightarrow> unat i < 64 \<and> unat i < length (g_uart_itf_data s) \<and> g_uart_itf_data s ! unat i = d \<and> d \<noteq> 0
     \<and> u_device_id (uart_data_at s d) = i"

definition uart_event :: "u32 \<Rightarrow> udma_channel \<Rightarrow> u32" where
  "uart_event i c = (if c = RX_CHANNEL then SOC_EVENT_UDMA_UART_RX i else SOC_EVENT_UDMA_UART_TX i)"

lemma handler_event:
  assumes "uart_is_open i d s" "c \<noteq> COMMAND_CHANNEL"
  shows "pi_uart_handler (uart_event i c) s =
     (let task = u_fifo_head (uart_data_at s d) c in
      if task = 0 then None
      else if t_data (task_at s task) 3 \<noteq> 0
      then Some (pi_uart_copy_exec d task (upd_task task (\<lambda>t. t\<lparr>t_data := (t_data t)(0 := t_data t 0 + uart_max, 1 := t_data t 1 - uart_max)\<rparr>) s))
      else let (task, s) = pi_uart_task_fifo_pop d c s in
           map_option (\<lambda>s. let task = u_fifo_head (uart_data_at s d) c in
               if task \<noteq> 0 then pi_uart_copy_exec d task s else s)
             (pi_uart_handle_end_of_task task s))"
proof -
  have ev: "uart_event i c = push_bit 2 i + chan_num c" using assms(2)
    by (cases c) (simp_all add: uart_event_def SOC_EVENT_UDMA_UART_RX_def SOC_EVENT_UDMA_UART_TX_def UDMA_UART_ID_def UDMA_CHANNEL_NB_EVENTS_LOG2_def)
  have c1: "chan_of (chan_num c AND 1) = c" using assms(2) by (cases c) (simp_all add: chan_of_def)
  have i: "unat i < 64" using assms(1) by (simp add: uart_is_open_def)
  have k: "unat (chan_num c) < 4" by (cases c) simp_all
  note dec = event_decode [OF i k]
  have "drop_bit UDMA_CHANNEL_NB_EVENTS_LOG2 (uart_event i c) - UDMA_UART_ID 0 = i"
    using dec by (simp add: ev UDMA_CHANNEL_NB_EVENTS_LOG2_def UDMA_UART_ID_def)
  moreover have "chan_of (uart_event i c AND 0x1) = c" using dec c1 by (simp add: ev)
  ultimately show ?thesis using assms(1) by (simp add: pi_uart_handler_def Let_def uart_is_open_def)
qed

lemma pop_frame [simp]:
  "task_at (snd (pi_uart_task_fifo_pop d c s)) = task_at s" "regs (snd (pi_uart_task_fifo_pop d c s)) = regs s"
  "u_device_id (uart_data_at (snd (pi_uart_task_fifo_pop d c s)) d) = u_device_id (uart_data_at s d)"
  "csrs (snd (pi_uart_task_fifo_pop d c s)) = csrs s" "os_log (snd (pi_uart_task_fifo_pop d c s)) = os_log s"
  by (simp_all add: pi_uart_task_fifo_pop_def Let_def case_prod_beta)

lemma task_end_spec:
  assumes "can_release s t"
  shows "\<exists>u. pi_uart_handle_end_of_task t s = Some u \<and> regs u = regs s \<and> csrs u = csrs s \<and> uart_data_at u = uart_data_at s
     \<and> dev_data u = dev_data s \<and> g_uart_itf_data u = g_uart_itf_data s \<and> task_at u = (task_at s)(t := (task_at s t)\<lparr>t_done := (if t_id (task_at s t) = PI_TASK_NONE_ID then 1 else t_done (task_at s t))\<rparr>)"
proof -
  have g: "uart_data_at (os_native_api_sem_give h s) = uart_data_at s" "g_uart_itf_data (os_native_api_sem_give h s) = g_uart_itf_data s"
    "dev_data (os_native_api_sem_give h s) = dev_data s" for h
    by (simp_all add: os_native_api_sem_give_def Let_def case_prod_beta)
  have p: "uart_data_at (pi_task_push t s) = uart_data_at s" "task_at (pi_task_push t s) = task_at s" "regs (pi_task_push t s) = regs s"
     "csrs (pi_task_push t s) = csrs s" "g_uart_itf_data (pi_task_push t s) = g_uart_itf_data s" "dev_data (pi_task_push t s) = dev_data s"
    by (simp_all add: pi_task_push_def pi_task_push_delayed_us_def pi_time_wait_us_def Let_def case_prod_beta)
  show ?thesis using assms
    by (auto simp: pi_uart_handle_end_of_task_def pi_task_release_def pi_sem_give_def can_release_def g p)
qed

lemma uart_end_effect:
  fixes s :: "'a uart_drv_scheme"
  assumes "uart_is_open i d s" "c \<noteq> COMMAND_CHANNEL" "uart_queue d c s (t # q)" "t_data (task_at s t) 3 = 0" "can_release s t"
  shows "\<exists>v. pi_uart_handler (uart_event i c) s = Some (if q = [] then v else pi_uart_copy_exec d (hd q) v)
     \<and> regs v = regs s \<and> csrs v = csrs s \<and> dev_data v = dev_data s \<and> g_uart_itf_data v = g_uart_itf_data s
     \<and> uart_data_at v = uart_data_at (snd (pi_uart_task_fifo_pop d c s)) \<and> uart_queue d c v q
     \<and> task_at v = (task_at s)(t := (task_at s t)\<lparr>t_done := (if t_id (task_at s t) = PI_TASK_NONE_ID then 1 else t_done (task_at s t))\<rparr>)"
proof -
  let ?p = "snd (pi_uart_task_fifo_pop d c s)"
  have h: "u_fifo_head (uart_data_at s d) c = t" "t \<noteq> 0" using assms(3) by (auto simp: uart_queue_def fifo_rep_def)
  note p = pop_queue [OF assms(3), simplified]
  have "can_release ?p t" using assms(5) by (simp add: can_release_def)
  then obtain v where v: "pi_uart_handle_end_of_task t ?p = Some v" "regs v = regs s" "csrs v = csrs s" "uart_data_at v = uart_data_at ?p"
      "dev_data v = dev_data ?p" "g_uart_itf_data v = g_uart_itf_data ?p"
      "task_at v = (task_at s)(t := (task_at s t)\<lparr>t_done := (if t_id (task_at s t) = PI_TASK_NONE_ID then 1 else t_done (task_at s t))\<rparr>)"
    using task_end_spec [of ?p t] by auto
  let ?n = "u_fifo_head (uart_data_at v d) c"
  have code: "pi_uart_handler (uart_event i c) s = Some (if ?n \<noteq> 0 then pi_uart_copy_exec d ?n v else v)"
    using h assms(4) p(2) v(1) by (simp add: handler_event [OF assms(1,2)] Let_def case_prod_beta)
  have nx: "next_of v = next_of s" by (rule ext) (simp add: next_of_def v(7))
  have np: "next_of ?p = next_of s" by (rule ext) (simp add: next_of_def)
  have qv: "uart_queue d c v q" using p(1) by (simp add: uart_queue_def nx np v(4))
  have n: "?n = 0 \<longleftrightarrow> q = []" using qv fifo_rep_empty by (auto simp: uart_queue_def)
  have hq: "?n = hd q" if "q \<noteq> []" using qv that by (cases q) (auto simp: uart_queue_def fifo_rep_def)
  have pf: "dev_data ?p = dev_data s" "g_uart_itf_data ?p = g_uart_itf_data s"
    by (simp_all add: pi_uart_task_fifo_pop_def Let_def case_prod_beta)
  show ?thesis using code n hq v(2-7) pf qv by (intro exI [of _ v]) auto
qed

text \<open>The completion interrupt of a transfer with no pending rest takes exactly the first task off the
  channel's queue, marks it done when it is a blocking task (a callback task is not run), and programs the channel with
  the next request of the queue if there is one; nothing else is programmed.\<close>
lemma uart_completion:
  assumes "uart_is_open i d s" "c \<noteq> COMMAND_CHANNEL" "uart_queue d c s (t # q)" "t_data (task_at s t) 3 = 0" "can_release s t"
    and "q \<noteq> [] \<longrightarrow> t_data (task_at s (hd q)) 2 = chan_num c"
  shows "\<exists>u. pi_uart_handler (uart_event i c) s = Some u \<and> uart_queue d c u q \<and> csrs u = csrs s
     \<and> t_done (task_at u t) = (if t_id (task_at s t) = PI_TASK_NONE_ID then 1 else t_done (task_at s t))
     \<and> (\<forall>p. p = t \<or> t_done (task_at u p) = t_done (task_at s p))
     \<and> regs u = (if q = [] then regs s
                 else program (uart_chan i c) (t_data (task_at s (hd q)) 0) (min (t_data (task_at s (hd q)) 1) uart_max) (regs s))"
proof -
  obtain v where v: "pi_uart_handler (uart_event i c) s = Some (if q = [] then v else pi_uart_copy_exec d (hd q) v)"
      "regs v = regs s" "csrs v = csrs s" "uart_data_at v = uart_data_at (snd (pi_uart_task_fifo_pop d c s))" "uart_queue d c v q"
      "task_at v = (task_at s)(t := (task_at s t)\<lparr>t_done := (if t_id (task_at s t) = PI_TASK_NONE_ID then 1 else t_done (task_at s t))\<rparr>)"
    using uart_end_effect [OF assms(1-5)] by blast
  let ?u = "if q = [] then v else pi_uart_copy_exec d (hd q) v"
  have dev: "u_device_id (uart_data_at v d) = i" using v(4) assms(1) by (simp add: uart_is_open_def)
  have td: "t_data (task_at v p) = t_data (task_at s p)" for p by (simp add: v(6))
  have rg: "regs ?u = (if q = [] then regs s
      else program (uart_chan i c) (t_data (task_at s (hd q)) 0) (min (t_data (task_at s (hd q)) 1) uart_max) (regs s))"
    using copy_exec_regs [OF _ assms(2), of v "hd q" d] assms(6) v(2) unfolding dev td by simp
  have done_same: "t_done (task_at ?u p) = t_done (task_at v p)" for p by (simp add: copy_exec_task)
  show ?thesis unfolding v(1) using v(3,5,6) rg done_same by (intro exI [of _ ?u]) auto
qed

text \<open>Uploads longer than one uDMA transfer.\<close>

fun uart_interrupts :: "u32 \<Rightarrow> nat \<Rightarrow> 'a uart_drv_scheme \<Rightarrow> 'a uart_drv_scheme option" where
  "uart_interrupts ev 0 s = Some s"
| "uart_interrupts ev (Suc n) s = Option.bind (uart_interrupts ev n s) (pi_uart_handler ev)"

definition big_transfer :: "u32 \<Rightarrow> u32 \<Rightarrow> udma_channel \<Rightarrow> u32 \<Rightarrow> u32 \<Rightarrow> u32 \<Rightarrow> u8 \<Rightarrow> 'a uart_drv_scheme \<Rightarrow> bool" where
  "big_transfer i d c t buf sz dn s \<longleftrightarrow> uart_is_open i d s \<and> uart_queue d c s [t] \<and> t_data (task_at s t) 2 = chan_num c
     \<and> t_data (task_at s t) 0 = buf \<and> t_data (task_at s t) 1 = sz \<and> t_data (task_at s t) 3 \<noteq> 0 \<and> t_done (task_at s t) = dn
     \<and> regs s (uart_chan i c) = buf \<and> regs s (uart_chan i c + 4) = min sz uart_max"

lemma big_transfer_step:
  assumes "big_transfer i d c t buf sz dn s" "c \<noteq> COMMAND_CHANNEL"
  shows "\<exists>u. pi_uart_handler (uart_event i c) s = Some u \<and> big_transfer i d c t (buf + uart_max) (sz - uart_max) dn u"
proof -
  let ?v = "upd_task t (\<lambda>t. t\<lparr>t_data := (t_data t)(0 := t_data t 0 + uart_max, 1 := t_data t 1 - uart_max)\<rparr>) s"
  have o: "uart_is_open i d s" and h: "u_fifo_head (uart_data_at s d) c = t" "t \<noteq> 0"
    using assms(1) by (auto simp: big_transfer_def uart_queue_def fifo_rep_def)
  have code: "pi_uart_handler (uart_event i c) s = Some (pi_uart_copy_exec d t ?v)"
    using h assms(1) by (simp add: handler_event [OF o assms(2)] Let_def big_transfer_def)
  have nz: "sz - uart_max > uart_max \<Longrightarrow> sz - uart_max - uart_max \<noteq> 0" by (metis eq_iff_diff_eq_0 order_less_irrefl)
  have r: "regs (pi_uart_copy_exec d t ?v) = program (uart_chan i c) (buf + uart_max) (min (sz - uart_max) uart_max) (regs s)"
    using copy_exec_regs [OF _ assms(2), of ?v t d] assms(1) o by (simp add: big_transfer_def uart_is_open_def)
  have "next_of ?v = next_of s" by (rule ext) (simp add: next_of_def)
  then have qv: "uart_queue d c ?v [t]" using assms(1) by (simp add: uart_queue_def big_transfer_def)
  let ?u = "pi_uart_copy_exec d t ?v"
  have td: "t_data (task_at ?v t) = (t_data (task_at s t))(0 := buf + uart_max, 1 := sz - uart_max)"
    using assms(1) by (simp add: big_transfer_def)
  have tk: "t_data (task_at ?u t) 2 = chan_num c" "t_data (task_at ?u t) 0 = buf + uart_max" "t_data (task_at ?u t) 1 = sz - uart_max"
    "t_data (task_at ?u t) 3 \<noteq> 0" "t_done (task_at ?u t) = dn"
    unfolding copy_exec_task td using assms(1) nz by (simp_all add: big_transfer_def)
  have n4: "uart_chan i c + 4 \<noteq> uart_chan i c" "uart_chan i c + 8 \<noteq> uart_chan i c" "uart_chan i c + 8 \<noteq> uart_chan i c + 4" by simp_all
  have ru: "regs ?u (uart_chan i c) = buf + uart_max" "regs ?u (uart_chan i c + 4) = min (sz - uart_max) uart_max"
    unfolding r program_def using n4 by simp_all
  have qo: "uart_is_open i d ?u" "uart_queue d c ?u [t]" using o qv by (simp_all add: uart_is_open_def)
  have "big_transfer i d c t (buf + uart_max) (sz - uart_max) dn ?u"
    unfolding big_transfer_def using tk ru qo by blast
  then show ?thesis using code by blast
qed

lemma big_transfer_start:
  assumes "uart_is_open i d s" "uart_queue d c s []" "t \<noteq> 0" "c \<noteq> COMMAND_CHANNEL"
    and "buf AND 0xFFF00000 = 0x1C000000" "sz > uart_max"
  shows "big_transfer i d c t buf sz (t_done (task_at s t)) (snd (pi_uart_copy d buf sz c t s))"
proof -
  let ?s2 = "upd_task t (\<lambda>x. x\<lparr>t_data := (t_data x)(0 := buf, 1 := sz, 2 := chan_num c, 3 := 0), t_next := 0\<rparr>) (snd (disable_irq s))"
  let ?s3 = "snd (pi_uart_task_fifo_enqueue d t c ?s2)"
  have q2: "uart_queue d c ?s2 []" using assms(2) by (simp add: uart_queue_def)
  have h: "fst (pi_uart_task_fifo_enqueue d t c ?s2) = 0" "uart_queue d c ?s3 [t]"
    using enqueue_queue [OF q2 assms(3)] by simp_all
  have u: "snd (pi_uart_copy d buf sz c t s) = restore_irq (csrs s CSR_MSTATUS) (pi_uart_copy_exec d t ?s3)"
    using assms(5) h(1) by (simp add: pi_uart_copy_def Let_def case_prod_beta)
  have td: "t_data (task_at ?s3 t) = (t_data (task_at s t))(0 := buf, 1 := sz, 2 := chan_num c, 3 := 0)" by simp
  have dev: "u_device_id (uart_data_at ?s3 d) = i" using assms(1) by (simp add: uart_is_open_def)
  have r: "regs (pi_uart_copy_exec d t ?s3) = program (uart_chan i c) buf (min sz uart_max) (regs s)"
    using copy_exec_regs [OF _ assms(4), of ?s3 t d] td dev by simp
  have nz: "sz - uart_max \<noteq> 0" using assms(6) by (metis eq_iff_diff_eq_0 order_less_irrefl)
  have qr: "uart_queue d c (restore_irq w v) q = uart_queue d c v q" for w q and v :: "'a uart_drv_scheme"
    by (simp add: uart_queue_def)
  have tk: "t_data (task_at (pi_uart_copy_exec d t ?s3) t) = (t_data (task_at s t))(0 := buf, 1 := sz, 2 := chan_num c, 3 := sz - uart_max)"
    "t_done (task_at (pi_uart_copy_exec d t ?s3) t) = t_done (task_at s t)"
    using assms(6) by (simp_all add: copy_exec_task)
  have n4: "uart_chan i c + 4 \<noteq> uart_chan i c" "uart_chan i c + 8 \<noteq> uart_chan i c" "uart_chan i c + 8 \<noteq> uart_chan i c + 4" by simp_all
  show ?thesis unfolding u big_transfer_def qr irq_soc_frame irq_frame tk r
    using assms(1) dev h(2) nz n4 by (simp add: uart_is_open_def program_def)
qed

text \<open>C36: a request of more than UDMA_MAX_SIZE - 4 bytes never ends: after every further interrupt the driver
  programs the next block, also once the requested bytes are exhausted and past the end of the buffer, and the task
  stays at the head of its queue, never done.\<close>
theorem uart_oversize:
  assumes "uart_is_open i d s" "uart_queue d c s []" "t \<noteq> 0" "c \<noteq> COMMAND_CHANNEL"
    and "buf AND 0xFFF00000 = 0x1C000000" "sz > uart_max"
  shows "\<exists>u. uart_interrupts (uart_event i c) n (snd (pi_uart_copy d buf sz c t s)) = Some u
     \<and> uart_queue d c u [t] \<and> t_done (task_at u t) = t_done (task_at s t)
     \<and> regs u (uart_chan i c) = buf + word_of_nat n * uart_max
     \<and> regs u (uart_chan i c + 4) = min (sz - word_of_nat n * uart_max) uart_max"
proof -
  let ?s0 = "snd (pi_uart_copy d buf sz c t s)"
  have "big_transfer i d c t buf sz (t_done (task_at s t)) ?s0" by (rule big_transfer_start [OF assms])
  then have "\<exists>u. uart_interrupts (uart_event i c) n ?s0 = Some u
      \<and> big_transfer i d c t (buf + word_of_nat n * uart_max) (sz - word_of_nat n * uart_max) (t_done (task_at s t)) u"
  proof (induction n)
    case (Suc n)
    then show ?case using big_transfer_step [OF _ assms(4)] by (fastforce simp: algebra_simps)
  qed simp
  then show ?thesis by (auto simp: big_transfer_def)
qed

text \<open>A blocking write or read whose buffer is outside L2 never returns when nothing else touches its task: the request is refused but
  the caller still waits for the task, which nobody releases.\<close>
lemma uart_rejected_write_hangs:
  assumes "buf AND 0xFFF00000 \<noteq> 0x1C000000"
    and "\<And>u. t_done (task_at (env u) tb) = t_done (task_at u tb)"
  shows "pi_uart_write env create tb device buf sz s = None \<and> pi_uart_read env create tb device buf sz s = None"
proof -
  let ?s = "pi_task_block create tb (upd_task tb (\<lambda>_. zero_task) s)"
  have z: "t_done (task_at ?s tb) = 0" by (simp add: pi_task_block_def pi_sem_init_def Let_def)
  have c: "t_done (task_at (snd (pi_uart_copy d buf sz ch tb ?s)) tb) = 0" for d ch
    using assms(1) z by (simp add: pi_uart_copy_def Let_def case_prod_beta)
  have "t_done (task_at u tb) = 0 \<Longrightarrow> wait_done env tb u = None" for u
  proof -
    assume u: "t_done (task_at u tb) = 0"
    have "t_done (task_at ((env ^^ n) u) tb) = 0" for n by (induction n) (simp_all add: u assms(2))
    then show "wait_done env tb u = None" using wait_done_iff by metis
  qed
  then show ?thesis using c
    by (simp add: pi_uart_write_def pi_uart_read_def pi_uart_write_async_def pi_uart_read_async_def pi_task_wait_on_def
        Let_def case_prod_beta)
qed

definition demo_uart :: uart_drv where
  "demo_uart = \<lparr>csrs = \<lambda>_. 0, regs = \<lambda>_. 0, io_log = [], fc_event_handlers = replicate 168 (Some (FC_handler H_uart)), task_at = \<lambda>_. zero_task\<lparr>t_id := PI_TASK_NONE_ID\<rparr>,
     os_log = [], dev_data = \<lambda>_. 0x1C001000,
     uart_data_at = \<lambda>_. \<lparr>u_fifo_head = \<lambda>_. 0, u_fifo_tail = \<lambda>_. 0, u_nb_open = 1, u_device_id = 0\<rparr>,
     g_uart_itf_data = [0x1C001000]\<rparr>"

lemma demo_facts: "uart_is_open 0 0x1C001000 demo_uart" "uart_queue d c demo_uart []"
  by (simp_all add: demo_uart_def uart_is_open_def uart_queue_def)

text \<open>The queue of a UART channel is first-in first-out: from a state whose linked list holds q, any sequence of submissions
  and pops serves the tasks in the order of submission, after those of q, and leaves the unserved rest in the list.\<close>
lemma uart_fifo_order:
  assumes "uart_queue d c s q" "queue_ok q ops"
  shows "\<exists>rest. filter (\<lambda>x. x \<noteq> 0) (fst (fifo_run (uart_submit d c) (pi_uart_task_fifo_pop d c) ops s)) @ rest = q @ submitted ops
     \<and> uart_queue d c (snd (fifo_run (uart_submit d c) (pi_uart_task_fifo_pop d c) ops s)) rest"
  using assms by (rule uart.served_in_order)

lemma uart_fifo_order_witness:
  "\<exists>rest. filter (\<lambda>x. x \<noteq> 0) (fst (fifo_run (uart_submit 0x1C001000 TX_CHANNEL) (pi_uart_task_fifo_pop 0x1C001000 TX_CHANNEL)
       [Submit 0x1C002000, Submit 0x1C003000, Pop] demo_uart)) @ rest = [0x1C002000, 0x1C003000]"
  using uart_fifo_order [OF demo_facts(2), of "[Submit 0x1C002000, Submit 0x1C003000, Pop]" "0x1C001000" TX_CHANNEL] by auto

lemma uart_copy_request_witness:
  "\<exists>u. pi_uart_copy 0x1C001000 0x1C008000 16 TX_CHANNEL 0x1C002000 demo_uart = (0, u) \<and> uart_queue 0x1C001000 TX_CHANNEL u [0x1C002000]"
  using uart_copy_request [OF demo_facts(2), of "0x1C002000" TX_CHANNEL "0x1C001000" "0x1C008000" 16]
  by (cases "pi_uart_copy 0x1C001000 0x1C008000 16 TX_CHANNEL 0x1C002000 demo_uart") simp

definition demo_busy :: uart_drv where
  "demo_busy = demo_uart\<lparr>uart_data_at := (\<lambda>_. \<lparr>u_fifo_head = \<lambda>_. 0x1C002000, u_fifo_tail = \<lambda>_. 0x1C002000, u_nb_open = 1, u_device_id = 0\<rparr>)\<rparr>"

lemma uart_completion_witness:
  "\<exists>u. pi_uart_handler (uart_event 0 TX_CHANNEL) demo_busy = Some u \<and> uart_queue 0x1C001000 TX_CHANNEL u [] \<and> t_done (task_at u 0x1C002000) = 1"
proof -
  have d: "uart_is_open 0 0x1C001000 demo_busy" "uart_queue 0x1C001000 TX_CHANNEL demo_busy [0x1C002000]"
    "t_data (task_at demo_busy 0x1C002000) 3 = 0" "can_release demo_busy 0x1C002000" "t_id (task_at demo_busy 0x1C002000) = PI_TASK_NONE_ID"
    by (simp_all add: demo_busy_def demo_uart_def uart_is_open_def uart_queue_def fifo_rep_def next_of_def zero_task_def can_release_def)
  obtain u where "pi_uart_handler (uart_event 0 TX_CHANNEL) demo_busy = Some u" "uart_queue 0x1C001000 TX_CHANNEL u []"
    "t_done (task_at u 0x1C002000) = (if t_id (task_at demo_busy 0x1C002000) = PI_TASK_NONE_ID then 1 else t_done (task_at demo_busy 0x1C002000))"
    using uart_completion [OF d(1) _ d(2,3,4)] by (auto simp del: split_paired_All)
  then show ?thesis using d(5) by auto
qed

lemma uart_oversize_witness:
  "\<exists>u. uart_interrupts (uart_event 0 TX_CHANNEL) 5 (snd (pi_uart_copy 0x1C001000 0x1C008000 200000 TX_CHANNEL 0x1C002000 demo_uart)) = Some u
     \<and> uart_queue 0x1C001000 TX_CHANNEL u [0x1C002000] \<and> t_done (task_at u 0x1C002000) = 0"
proof -
  have z: "t_done (task_at demo_uart 0x1C002000) = 0" by (simp add: demo_uart_def zero_task_def)
  obtain u where "uart_interrupts (uart_event 0 TX_CHANNEL) 5 (snd (pi_uart_copy 0x1C001000 0x1C008000 200000 TX_CHANNEL 0x1C002000 demo_uart)) = Some u"
     "uart_queue 0x1C001000 TX_CHANNEL u [0x1C002000]" "t_done (task_at u 0x1C002000) = t_done (task_at demo_uart 0x1C002000)"
    using uart_oversize [OF demo_facts(1) demo_facts(2), of "0x1C002000" TX_CHANNEL "0x1C008000" 200000 5] by (auto simp: UDMA_MAX_SIZE_def)
  then show ?thesis using z by auto
qed

lemma uart_rejected_write_hangs_witness:
  "pi_uart_write (\<lambda>u. u) (\<lambda>_. 0x1C004000) 0x1B000000 0 0x1B000100 4 demo_uart = None"
  by (rule conjunct1 [OF uart_rejected_write_hangs]) simp_all

end
