(* ===== verification/Service.thy ===== *)
theory Service
  imports TaskQueue
begin

text \<open>
  A driver as a machine of requests and interrupts, and the contract between one and its users. spec is what the
  driver promises to do with its abstract queue on an event: the tasks it finishes, and the queue afterwards. The
  locale service says that the code follows spec event by event; fifo_service that spec neither loses nor
  reorders tasks; draining_service that one kind of interrupt, repeated, serves every task that waits.
\<close>

fun steps :: "('e \<Rightarrow> 's \<Rightarrow> 's option) \<Rightarrow> 'e list \<Rightarrow> 's \<Rightarrow> 's option" where
  "steps step [] s = Some s"
| "steps step (e # es) s = Option.bind (step e s) (steps step es)"

fun spec_steps :: "('e \<Rightarrow> 'q \<Rightarrow> 'r list \<times> 'q) \<Rightarrow> 'e list \<Rightarrow> 'q \<Rightarrow> 'r list \<times> 'q" where
  "spec_steps spec [] q = ([], q)"
| "spec_steps spec (e # es) q =
     (let (now, q) = spec e q; (later, q) = spec_steps spec es q in (now @ later, q))"

fun all_allowed :: "('e \<Rightarrow> 'q \<Rightarrow> bool) \<Rightarrow> ('e \<Rightarrow> 'q \<Rightarrow> 'r list \<times> 'q) \<Rightarrow> 'e list \<Rightarrow> 'q \<Rightarrow> bool" where
  "all_allowed al spec [] q \<longleftrightarrow> True"
| "all_allowed al spec (e # es) q \<longleftrightarrow> al e q \<and> all_allowed al spec es (snd (spec e q))"

definition irq_env :: "('s \<Rightarrow> 's option) \<Rightarrow> 's \<Rightarrow> 's" where
  "irq_env handler s = (case handler s of Some u \<Rightarrow> u | None \<Rightarrow> s)"

locale service =
  fixes step :: "'e \<Rightarrow> 's \<Rightarrow> 's option"
    and spec :: "'e \<Rightarrow> 'q \<Rightarrow> 'r list \<times> 'q"
    and allowed :: "'s \<Rightarrow> 'e \<Rightarrow> 'q \<Rightarrow> bool"
    and ok :: "'s \<Rightarrow> 'q \<Rightarrow> bool"
    and same :: "'s \<Rightarrow> 's \<Rightarrow> bool"
    and finished :: "'s \<Rightarrow> 'r \<Rightarrow> bool"
  assumes step_law: "ok s q \<Longrightarrow> allowed s e q \<Longrightarrow>
      \<exists>u. step e s = Some u \<and> ok u (snd (spec e q)) \<and> same s u \<and> (\<forall>t \<in> set (fst (spec e q)). finished u t)"
    and same_refl: "same s s"
    and same_trans: "same s u \<Longrightarrow> same u v \<Longrightarrow> same s v"
    and allowed_same: "same s u \<Longrightarrow> allowed u e q = allowed s e q"
    and finished_same: "same s u \<Longrightarrow> finished s t \<Longrightarrow> finished u t"
begin

lemma all_allowed_same: "same s u \<Longrightarrow> all_allowed (allowed u) spec es q = all_allowed (allowed s) spec es q"
  by (induction es arbitrary: q) (simp_all add: allowed_same)

lemma follows_spec:
  "ok s q \<Longrightarrow> all_allowed (allowed s) spec es q \<Longrightarrow>
   \<exists>u. steps step es s = Some u \<and> ok u (snd (spec_steps spec es q)) \<and> same s u
     \<and> (\<forall>t \<in> set (fst (spec_steps spec es q)). finished u t)"
proof (induction es arbitrary: s q)
  case Nil
  then show ?case by (simp add: same_refl)
next
  case (Cons e es)
  obtain u where u: "step e s = Some u" "ok u (snd (spec e q))" "same s u" "\<forall>t \<in> set (fst (spec e q)). finished u t"
    using step_law Cons.prems by fastforce
  have "all_allowed (allowed u) spec es (snd (spec e q))"
    using Cons.prems(2) all_allowed_same [OF u(3)] by simp
  then obtain w where w: "steps step es u = Some w" "ok w (snd (spec_steps spec es (snd (spec e q))))" "same u w"
      "\<forall>t \<in> set (fst (spec_steps spec es (snd (spec e q)))). finished w t"
    using Cons.IH [OF u(2)] by blast
  have "\<forall>t \<in> set (fst (spec e q)). finished w t" using u(4) finished_same [OF w(3)] by blast
  then show ?case using u(1) w same_trans [OF u(3) w(3)] by (auto simp: case_prod_beta Let_def)
qed

end

text \<open>
  The tasks of one queue of the driver are those that are mine; its waiting tasks and what an event asks of it make the
  law of conservation.
\<close>

locale fifo_service = service +
  fixes mine :: "'b \<Rightarrow> bool"
    and tasks :: "'c \<Rightarrow> 'b list"
    and asked :: "'a \<Rightarrow> 'b list"
  assumes conserve: "filter mine (fst (spec e q)) @ tasks (snd (spec e q)) = tasks q @ asked e"
begin

lemma in_order: "filter mine (fst (spec_steps spec es q)) @ tasks (snd (spec_steps spec es q)) = tasks q @ concat (map asked es)"
proof (induction es arbitrary: q)
  case (Cons e es)
  have "filter mine (fst (spec e q)) @ filter mine (fst (spec_steps spec es (snd (spec e q)))) @ tasks (snd (spec_steps spec es (snd (spec e q))))
      = (filter mine (fst (spec e q)) @ tasks (snd (spec e q))) @ concat (map asked es)" using Cons [of "snd (spec e q)"] by simp
  then show ?case by (simp add: case_prod_beta Let_def conserve)
qed simp

end

locale draining_service = fifo_service +
  fixes irq :: 'a
    and todo :: "'c \<Rightarrow> nat"
  assumes irq_allowed: "ok s q \<Longrightarrow> tasks q \<noteq> [] \<Longrightarrow> allowed s irq q"
    and irq_asks_nothing: "asked irq = []"
    and irq_progress: "tasks q \<noteq> [] \<Longrightarrow> todo (snd (spec irq q)) < todo q"
begin

text \<open>What the hardware does at each poll is irq_env: the interrupt, whose handler runs to its end.\<close>

lemma serves:
  assumes "ok s q" "t \<in> set (tasks q)"
  defines "env \<equiv> irq_env (step irq)"
  shows "\<exists>n \<le> todo q. finished ((env ^^ n) s) t \<and> (\<forall>k \<le> n. same s ((env ^^ k) s))"
  using assms(1,2)
proof (induction "todo q" arbitrary: s q rule: less_induct)
  case less
  have ne: "tasks q \<noteq> []" using less.prems(2) by auto
  obtain u where u: "step irq s = Some u" "ok u (snd (spec irq q))" "same s u" "\<forall>t \<in> set (fst (spec irq q)). finished u t"
    using step_law [OF less.prems(1) irq_allowed [OF less.prems(1) ne]] by blast
  have e: "env s = u" using u(1) by (simp add: env_def irq_env_def)
  have lt: "todo (snd (spec irq q)) < todo q" using ne by (rule irq_progress)
  show ?case
  proof (cases "t \<in> set (fst (spec irq q))")
    case True
    then show ?thesis using u e lt same_refl by (intro exI [of _ 1]) (auto simp: le_Suc_eq)
  next
    case False
    then have "t \<in> set (tasks (snd (spec irq q)))"
      using arg_cong [OF conserve [of irq q], of set] less.prems(2) irq_asks_nothing by auto
    from less.hyps [OF lt u(2) this] obtain n where n: "n \<le> todo (snd (spec irq q))"
      "finished ((env ^^ n) u) t" "\<forall>k \<le> n. same u ((env ^^ k) u)" by blast
    have sh: "(env ^^ Suc k) s = (env ^^ k) u" for k by (simp only: funpow_simps_right(2) comp_apply e)
    have "same s ((env ^^ k) s)" if "k \<le> Suc n" for k
      using that same_refl n(3) same_trans [OF u(3)] sh by (cases k) auto
    then show ?thesis using n lt sh by (intro exI [of _ "Suc n"]) (simp del: funpow.simps)
  qed
qed

text \<open>The interrupt repeated until nothing waits: at each moment the state is that of the queue served so far.\<close>

lemma drains:
  assumes "ok s q"
  defines "env \<equiv> irq_env (step irq)" and "next_q \<equiv> \<lambda>q. snd (spec irq q)"
  shows "\<exists>n \<le> todo q. tasks ((next_q ^^ n) q) = [] \<and> (\<forall>k < n. tasks ((next_q ^^ k) q) \<noteq> [])
    \<and> (\<forall>k \<le> n. ok ((env ^^ k) s) ((next_q ^^ k) q) \<and> same s ((env ^^ k) s)) \<and> (\<forall>t \<in> set (tasks q). mine t \<longrightarrow> finished ((env ^^ n) s) t)"
  using assms(1)
proof (induction "todo q" arbitrary: s q rule: less_induct)
  case less
  show ?case
  proof (cases "tasks q = []")
    case True
    then show ?thesis using less.prems same_refl by (intro exI [of _ 0]) simp
  next
    case ne: False
    obtain u where u: "step irq s = Some u" "ok u (next_q q)" "same s u" "\<forall>t \<in> set (fst (spec irq q)). finished u t"
      using step_law [OF less.prems irq_allowed [OF less.prems ne]] unfolding next_q_def by blast
    have e: "env s = u" using u(1) by (simp add: env_def irq_env_def)
    have lt: "todo (next_q q) < todo q" unfolding next_q_def using ne by (rule irq_progress)
    from less.hyps [OF lt u(2)] obtain n where n: "n \<le> todo (next_q q)" "tasks ((next_q ^^ n) (next_q q)) = []"
      "\<forall>k < n. tasks ((next_q ^^ k) (next_q q)) \<noteq> []"
      "\<forall>k \<le> n. ok ((env ^^ k) u) ((next_q ^^ k) (next_q q)) \<and> same u ((env ^^ k) u)"
      "\<forall>t \<in> set (tasks (next_q q)). mine t \<longrightarrow> finished ((env ^^ n) u) t" by blast
    have sh: "(env ^^ Suc k) s = (env ^^ k) u" "(next_q ^^ Suc k) q = (next_q ^^ k) (next_q q)" for k
      by (simp_all only: funpow_simps_right(2) comp_apply e)
    have "finished ((env ^^ n) u) t" if "t \<in> set (tasks q)" "mine t" for t
    proof -
      have "t \<in> set (fst (spec irq q)) \<union> set (tasks (next_q q))"
        using arg_cong [OF conserve [of irq q], of set] that(1) irq_asks_nothing by (auto simp: next_q_def)
      then show ?thesis using that(2) n(4,5) u(4) finished_same by blast
    qed
    moreover have "ok ((env ^^ k) s) ((next_q ^^ k) q) \<and> same s ((env ^^ k) s)" if "k \<le> Suc n" for k
      using that less.prems same_refl n(4) same_trans [OF u(3)] sh by (cases k) auto
    moreover have "tasks ((next_q ^^ k) q) \<noteq> []" if "k < Suc n" for k
      using that ne n(3) sh(2) by (cases k) auto
    ultimately show ?thesis using n(1,2) lt sh by (intro exI [of _ "Suc n"]) (simp del: funpow.simps)
  qed
qed

end

definition released :: "'a soc_scheme \<Rightarrow> u32 \<Rightarrow> bool" where
  "released s t \<longleftrightarrow> t_id (task_at s t) = PI_TASK_NONE_ID \<longrightarrow> t_done (task_at s t) = 1"

subsection \<open>Interrupts\<close>

text \<open>
  An event of a peripheral as the core sees it: its number is at the head of the FIFO of the interrupt controller, and
  the dispatcher of fc_event.c reads it and calls the handler that is installed for it. run gives the handlers.
\<close>

definition soc_fifo :: "bool \<Rightarrow> u32" where
  "soc_fifo clic = (if clic then PULP_EVENT_TO_INT_ADDR else PULP_FC_IRQ_ADDR + IRQ_REG_FIFO_OFFSET)"

definition soc_event :: "bool \<Rightarrow> u32 \<Rightarrow> 'a soc_scheme \<Rightarrow> 'a soc_scheme" where
  "soc_event clic ev s = s\<lparr>regs := (regs s)(soc_fifo clic := ev)\<rparr>"

definition soc_irq :: "bool \<Rightarrow> (drv_handler \<Rightarrow> u32 \<Rightarrow> 'a soc_scheme \<Rightarrow> 'a soc_scheme option) \<Rightarrow> u32 \<Rightarrow> 'a soc_scheme \<Rightarrow> 'a soc_scheme option" where
  "soc_irq clic run ev s =
     (let s = soc_event clic ev s in
      Option.bind (fc_soc_event_handler clic s) (\<lambda>c. case c of
        Called (FC_handler h) e \<Rightarrow> run h e s
      | Called FC_null_event e \<Rightarrow> Some s
      | Not_called \<Rightarrow> Some s))"

definition installed :: "drv_handler \<Rightarrow> u32 \<Rightarrow> 'a soc_scheme \<Rightarrow> bool" where
  "installed h ev s \<longleftrightarrow> unat ev < 256 \<and> unat ev < length (fc_event_handlers s) \<and> fc_event_handlers s ! unat ev = Some (FC_handler h)"

lemma soc_irq_runs:
  assumes "installed h ev s"
  shows "soc_irq clic run ev s = run h ev (soc_event clic ev s)"
proof -
  have "take_bit 8 ev = ev"
    using assms by (simp add: installed_def word_unat_eq_iff unsigned_take_bit_eq take_bit_nat_eq_self)
  then have "ev AND 0xff = ev" by (simp add: take_bit_eq_mask mask_eq_exp_minus_1)
  then have "fc_soc_event_handler clic (soc_event clic ev s) = Some (Called (FC_handler h) ev)"
    using assms by (simp add: fc_soc_event_handler_def soc_event_def soc_fifo_def readw_def installed_def)
  then show ?thesis by (simp add: soc_irq_def Let_def)
qed

lemma soc_event_frame [simp]:
  "task_at (soc_event clic ev s) = task_at s" "csrs (soc_event clic ev s) = csrs s" "dev_data (soc_event clic ev s) = dev_data s"
  "fc_event_handlers (soc_event clic ev s) = fc_event_handlers s" "os_log (soc_event clic ev s) = os_log s"
  "next_of (soc_event clic ev s) = next_of s" "regs (soc_event clic ev s) = (regs s)(soc_fifo clic := ev)"
  by (simp_all add: soc_event_def next_of_def [abs_def])

lemma installed_same: "fc_event_handlers u = fc_event_handlers s \<Longrightarrow> installed h ev u = installed h ev s"
  by (simp add: installed_def)

lemma soc_event_same [simp]: "installed h e (soc_event clic ev s) = installed h e s" "can_release (soc_event clic ev s) t = can_release s t"
  by (simp_all add: installed_def can_release_def)

subsection \<open>Blocking calls\<close>

lemma block_task:
  "task_at (pi_task_block create p s) = (task_at s)(p := task_at (pi_task_block create p s) p)"
  "t_id (task_at (pi_task_block create p s) p) = PI_TASK_NONE_ID" "t_done (task_at (pi_task_block create p s) p) = 0"
  "can_release (pi_task_block create p s) p" "csrs (pi_task_block create p s) = csrs s" "regs (pi_task_block create p s) = regs s"
  "dev_data (pi_task_block create p s) = dev_data s" "fc_event_handlers (pi_task_block create p s) = fc_event_handlers s"
  by (auto simp: pi_task_block_def pi_sem_init_def Let_def can_release_def intro!: ext)

lemma block_task_other: "q \<noteq> p \<Longrightarrow> task_at (pi_task_block create p s) q = task_at s q"
  by (subst block_task(1)) simp

lemma wait_on_released:
  fixes s :: "'a soc_scheme"
  assumes "n \<le> N" "released ((env ^^ n) s) p" "t_id (task_at ((env ^^ n) s) p) = PI_TASK_NONE_ID"
  shows "\<exists>k \<le> N. k \<le> n \<and> pi_task_wait_on env p s = Some (pi_task_destroy p ((env ^^ k) s)) \<and> t_done (task_at ((env ^^ k) s) p) \<noteq> 0"
proof -
  have dn: "t_done (task_at ((env ^^ n) s) p) \<noteq> 0" using assms by (simp add: released_def)
  obtain t where t: "wait_done env p s = Some t" using wait_done_returns [OF dn] by blast
  then obtain k where k: "t = (env ^^ k) s" "t_done (task_at t p) \<noteq> 0" "\<forall>m < k. t_done (task_at ((env ^^ m) s) p) = 0"
    using wait_done_first by blast
  then have "k \<le> n" using dn by (metis not_le)
  then show ?thesis using t k assms(1) by (intro exI [of _ k]) (simp add: pi_task_wait_on_def)
qed

end
