(* ===== verification/UartService.thy ===== *)
theory UartService
  imports UartProps Service
begin

text \<open>
  A UART interface at work: requests on its two channels and their completion interrupts as the events of a machine, whose
  specification is one first-in first-out queue of requests for each channel; and the calls that wait for their
  request.
\<close>

type_synonym uart_request = "u32 \<times> u32 \<times> u32"

abbreviation rq_task :: "uart_request \<Rightarrow> u32" where "rq_task \<equiv> fst"

datatype uart_do = Uart_submit udma_channel u32 u32 u32 u32 | Uart_irq udma_channel

definition uart_handlers :: "drv_handler \<Rightarrow> u32 \<Rightarrow> 'a uart_drv_scheme \<Rightarrow> 'a uart_drv_scheme option" where
  "uart_handlers h ev s = (if h = H_uart then pi_uart_handler ev s else None)"

fun uart_step :: "bool \<Rightarrow> u32 \<Rightarrow> uart_do \<Rightarrow> 'a uart_drv_scheme \<Rightarrow> 'a uart_drv_scheme option" where
  "uart_step clic i (Uart_submit c device buf sz t) s =
     Some (snd (if c = RX_CHANNEL then pi_uart_read_async device buf sz t s else pi_uart_write_async device buf sz t s))"
| "uart_step clic i (Uart_irq c) s = soc_irq clic uart_handlers (uart_event i c) s"

text \<open>
  The specification: a request joins the queue of its channel, an interrupt of a channel takes the first request off
  its queue. uart_may says which events the users and the hardware may give.
\<close>

fun uart_does :: "uart_do \<Rightarrow> (udma_channel \<Rightarrow> uart_request list) \<Rightarrow>
    (udma_channel \<times> uart_request) list \<times> (udma_channel \<Rightarrow> uart_request list)" where
  "uart_does (Uart_submit c _ buf sz t) q = ([], q(c := q c @ [(t, buf, sz)]))"
| "uart_does (Uart_irq c) q = (map (Pair c) (take 1 (q c)), q(c := tl (q c)))"

fun uart_wants :: "udma_channel \<Rightarrow> uart_do \<Rightarrow> (udma_channel \<times> uart_request) list" where
  "uart_wants c (Uart_submit c' _ buf sz t) = (if c' = c then [(c, t, buf, sz)] else [])"
| "uart_wants c (Uart_irq _) = []"

definition uart_waiting :: "(udma_channel \<Rightarrow> uart_request list) \<Rightarrow> u32 set" where
  "uart_waiting q = rq_task ` (set (q RX_CHANNEL) \<union> set (q TX_CHANNEL))"

fun uart_may :: "u32 \<Rightarrow> 'a uart_drv_scheme \<Rightarrow> uart_do \<Rightarrow> (udma_channel \<Rightarrow> uart_request list) \<Rightarrow> bool" where
  "uart_may d s (Uart_submit c device buf sz t) q \<longleftrightarrow> c \<noteq> COMMAND_CHANNEL \<and> dev_data s device = d
     \<and> buf AND 0xFFF00000 = 0x1C000000 \<and> sz \<le> uart_max \<and> t \<noteq> 0 \<and> t \<notin> uart_waiting q \<and> can_release s t"
| "uart_may d s (Uart_irq c) q \<longleftrightarrow> c \<noteq> COMMAND_CHANNEL \<and> q c \<noteq> []"

text \<open>The state: each channel's list holds its queue, the tasks hold their requests, and the registers of a channel hold the first.\<close>

definition uart_holds :: "udma_channel \<Rightarrow> 'a soc_scheme \<Rightarrow> uart_request \<Rightarrow> bool" where
  "uart_holds c s = (\<lambda>(t, buf, sz). t_data (task_at s t) 0 = buf \<and> t_data (task_at s t) 1 = sz
     \<and> t_data (task_at s t) 2 = chan_num c \<and> t_data (task_at s t) 3 = 0 \<and> sz \<le> uart_max \<and> can_release s t)"

definition uart_runs :: "u32 \<Rightarrow> udma_channel \<Rightarrow> (u32 \<Rightarrow> u32) \<Rightarrow> uart_request \<Rightarrow> bool" where
  "uart_runs i c r = (\<lambda>(t, buf, sz). r (uart_chan i c) = buf \<and> r (uart_chan i c + 4) = sz \<and> r (uart_chan i c + 8) = 0x10)"

definition uart_serving :: "u32 \<Rightarrow> u32 \<Rightarrow> 'a uart_drv_scheme \<Rightarrow> (udma_channel \<Rightarrow> uart_request list) \<Rightarrow> bool" where
  "uart_serving i d s q \<longleftrightarrow> uart_is_open i d s
     \<and> installed H_uart (uart_event i RX_CHANNEL) s \<and> installed H_uart (uart_event i TX_CHANNEL) s
     \<and> set (map rq_task (q RX_CHANNEL)) \<inter> set (map rq_task (q TX_CHANNEL)) = {}
     \<and> (\<forall>c \<in> {RX_CHANNEL, TX_CHANNEL}. uart_queue d c s (map rq_task (q c)) \<and> (\<forall>r \<in> set (q c). uart_holds c s r)
          \<and> (q c \<noteq> [] \<longrightarrow> uart_runs i c (regs s) (hd (q c))))"

definition uart_same :: "'a uart_drv_scheme \<Rightarrow> 'a uart_drv_scheme \<Rightarrow> bool" where
  "uart_same s u \<longleftrightarrow> csrs u = csrs s \<and> dev_data u = dev_data s
     \<and> (\<forall>p. t_id (task_at u p) = t_id (task_at s p) \<and> t_wait_on (task_at u p) = t_wait_on (task_at s p)
          \<and> (t_done (task_at s p) = 1 \<longrightarrow> t_done (task_at u p) = 1))"

lemma uart_same_release: "uart_same s u \<Longrightarrow> can_release u t = can_release s t"
  by (simp add: uart_same_def can_release_def)

lemma uart_holds_cong:
  "t_data (task_at u (rq_task r)) = t_data (task_at s (rq_task r)) \<Longrightarrow> can_release u (rq_task r) = can_release s (rq_task r) \<Longrightarrow>
   uart_holds c u r = uart_holds c s r"
  by (cases r) (simp add: uart_holds_def)

lemma uart_runs_program: "uart_runs i c (program (uart_chan i c) buf sz r) (t, buf, sz)"
  by (simp add: uart_runs_def program_def)

lemma uart_chan_apart:
  assumes "unat i < 64" "{c, c'} = {RX_CHANNEL, TX_CHANNEL}"
  shows "uart_runs i c' (program (uart_chan i c) buf sz r) x = uart_runs i c' r x"
  using assms by (auto simp: uart_runs_def program_def uart_chan_def uart_rx_def uart_tx_def doubleton_eq_iff split: prod.split)

text \<open>The table of handlers is not touched, and the FIFO of the interrupt controller is no register of a channel.\<close>

lemma uart_enqueue_handlers [simp]: "fc_event_handlers (hal_uart_enqueue i b z cfg c s) = fc_event_handlers (s :: 'a soc_scheme)"
  by (simp add: hal_uart_enqueue_def uart_udma_channel_set_def udma_enqueue_channel_def Let_def split: udma_channel.split)

lemma uart_copy_handlers: "fc_event_handlers (snd (pi_uart_copy d buf sz c t s)) = fc_event_handlers s"
  by (simp add: pi_uart_copy_def pi_uart_copy_exec_def pi_uart_task_fifo_enqueue_def Let_def case_prod_beta)

lemma uart_handler_handlers:
  assumes "pi_uart_handler ev s = Some u"
  shows "fc_event_handlers u = fc_event_handlers s"
proof -
  have x: "fc_event_handlers (pi_uart_copy_exec d t s) = fc_event_handlers s" for d t s
    by (simp add: pi_uart_copy_exec_def Let_def case_prod_beta)
  have p: "fc_event_handlers (snd (pi_uart_task_fifo_pop d c s)) = fc_event_handlers s" for d c s
    by (simp add: pi_uart_task_fifo_pop_def Let_def case_prod_beta)
  have e: "fc_event_handlers u = fc_event_handlers s" if "pi_uart_handle_end_of_task t s = Some u" for t s u
    using that by (auto simp: pi_uart_handle_end_of_task_def pi_task_release_def pi_sem_give_def os_native_api_sem_give_def pi_task_push_def
        pi_task_push_delayed_us_def pi_time_wait_us_def Let_def case_prod_beta split: if_splits)
  show ?thesis using assms
    by (auto simp: pi_uart_handler_def Let_def case_prod_beta x p dest!: e split: if_splits)
qed

lemma uart_runs_event:
  assumes "unat i < 64" "c \<noteq> COMMAND_CHANNEL"
  shows "uart_runs i c (r(soc_fifo clic := ev)) x = uart_runs i c r x"
proof -
  have m: "uart_chan i c + k \<noteq> soc_fifo clic" if "k \<in> {0, 4, 8}" for k
  proof -
    define n where "n = unat i"
    have n: "n < 64" using assms(1) by (simp add: n_def)
    define m where "m = 0x1A102080 + 128 * n + (if c = RX_CHANNEL then 0 else 16) + unat k"
    have "m < 0x1A105000" using n that by (auto simp: m_def)
    moreover have "uart_chan i c + k = word_of_nat m"
      using that by (auto simp: uart_chan_def uart_rx_def uart_tx_def UDMA_UART_def UDMA_UART_ID_def UDMA_PERIPH_BASE_ADDR_def UDMA_CTRL_ADDR_def
          UDMA_PERIPH_SIZE_LOG2_def push_bit_eq_mult n_def m_def)
    ultimately have "unat (uart_chan i c + k) < 0x1A105000" by (simp add: unat_small_nat)
    then show ?thesis by (auto simp: soc_fifo_def mmio)
  qed
  show ?thesis using m [of 0] m [of 4] m [of 8] by (cases x) (auto simp: uart_runs_def)
qed

lemma uart_serving_event: "uart_serving i d (soc_event clic ev s) q = uart_serving i d s q"
proof -
  have a: "uart_is_open i d (soc_event clic ev s) = uart_is_open i d s" "uart_queue d c (soc_event clic ev s) ts = uart_queue d c s ts"
    "uart_holds c (soc_event clic ev s) r = uart_holds c s r" for c ts r
    by (simp_all add: uart_is_open_def uart_queue_def uart_holds_def) (simp_all add: soc_event_def)
  show ?thesis
  proof (cases "uart_is_open i d s")
    case True
    then have i: "unat i < 64" by (simp add: uart_is_open_def)
    show ?thesis by (simp add: uart_serving_def a uart_runs_event [OF i])
  qed (simp add: uart_serving_def a)
qed

lemma uart_copy_effect:
  fixes s :: "'a uart_drv_scheme"
  assumes "uart_queue d c s ts" "t \<noteq> 0" "t \<notin> set ts" "c \<noteq> COMMAND_CHANNEL" "buf AND 0xFFF00000 = 0x1C000000" "sz \<le> uart_max"
  defines "u \<equiv> snd (pi_uart_copy d buf sz c t s)"
  shows "uart_queue d c u (ts @ [t])" "csrs u = csrs s" "dev_data u = dev_data s" "g_uart_itf_data u = g_uart_itf_data s"
    and "regs u = (if ts = [] then program (uart_chan (u_device_id (uart_data_at s d)) c) buf sz (regs s) else regs s)"
    and "u_device_id (uart_data_at u d) = u_device_id (uart_data_at s d)"
    and "t_data (task_at u p) = (if p = t then (t_data (task_at s t))(0 := buf, 1 := sz, 2 := chan_num c, 3 := 0) else t_data (task_at s p))"
    and "t_id (task_at u p) = t_id (task_at s p)" "t_wait_on (task_at u p) = t_wait_on (task_at s p)" "t_done (task_at u p) = t_done (task_at s p)"
    and "c' \<noteq> c \<Longrightarrow> uart_queue d c' s ts' \<Longrightarrow> t \<notin> set ts' \<Longrightarrow> set ts \<inter> set ts' = {} \<Longrightarrow> uart_queue d c' u ts'"
proof -
  let ?s2 = "upd_task t (\<lambda>x. x\<lparr>t_data := (t_data x)(0 := buf, 1 := sz, 2 := chan_num c, 3 := 0), t_next := 0\<rparr>) (snd (disable_irq s))"
  let ?s3 = "snd (pi_uart_task_fifo_enqueue d t c ?s2)"
  have "uart_queue d c (snd (disable_irq s)) ts" using assms(1) by (simp add: uart_queue_def)
  then have 2: "uart_queue d c ?s2 ts" using assms(3) by (rule queue_prepared)
  note e = enqueue_queue [OF 2 assms(2,3)]
  have f: "dev_data (snd (pi_uart_task_fifo_enqueue d t c w)) = dev_data w" for w :: "'a uart_drv_scheme"
    by (simp add: pi_uart_task_fifo_enqueue_def Let_def case_prod_beta)
  have g: "t_id (task_at ?s3 p) = t_id (task_at s p)" "t_wait_on (task_at ?s3 p) = t_wait_on (task_at s p)" for p
    by (simp_all add: pi_uart_task_fifo_enqueue_def Let_def case_prod_beta)
  have u: "u = restore_irq (csrs s CSR_MSTATUS) (if ts = [] then pi_uart_copy_exec d t ?s3 else ?s3)"
    using assms(5) e(2) by (simp add: u_def pi_uart_copy_def Let_def case_prod_beta)
  have td: "t_data (task_at ?s3 p) = (if p = t then (t_data (task_at s t))(0 := buf, 1 := sz, 2 := chan_num c, 3 := 0) else t_data (task_at s p))" for p
    by simp
  have ex: "task_at (pi_uart_copy_exec d t ?s3) = task_at ?s3" using assms(6) by (intro ext) (auto simp: copy_exec_task td)
  have tu: "task_at u = task_at ?s3" unfolding u irq_soc_frame using ex by (cases "ts = []") (simp_all only: if_True if_False simp_thms)
  have qr: "uart_queue d k (restore_irq w v) q = uart_queue d k v q" for k w q and v :: "'a uart_drv_scheme"
    by (simp add: uart_queue_def)
  show "uart_queue d c u (ts @ [t])" using e(1) by (cases "ts = []") (simp_all add: u qr)
  show "csrs u = csrs s" by (simp add: u)
  show "dev_data u = dev_data s" by (simp add: u f)
  show "g_uart_itf_data u = g_uart_itf_data s" by (simp add: u)
  have "regs (pi_uart_copy_exec d t ?s3) = program (uart_chan (u_device_id (uart_data_at s d)) c) buf sz (regs s)"
    using copy_exec_regs [of ?s3 t c d] assms(4,6) by (simp add: td min_def)
  then show "regs u = (if ts = [] then program (uart_chan (u_device_id (uart_data_at s d)) c) buf sz (regs s) else regs s)" by (simp add: u)
  show "u_device_id (uart_data_at u d) = u_device_id (uart_data_at s d)" by (simp add: u)
  show "t_data (task_at u p) = (if p = t then (t_data (task_at s t))(0 := buf, 1 := sz, 2 := chan_num c, 3 := 0) else t_data (task_at s p))"
    unfolding tu by (rule td)
  show "t_id (task_at u p) = t_id (task_at s p)" "t_wait_on (task_at u p) = t_wait_on (task_at s p)" "t_done (task_at u p) = t_done (task_at s p)"
    unfolding tu by (rule g)+ simp
  assume c': "c' \<noteq> c" "uart_queue d c' s ts'" "t \<notin> set ts'" "set ts \<inter> set ts' = {}"
  have hd_tl: "u_fifo_head (uart_data_at ?s3 d) c' = u_fifo_head (uart_data_at s d) c'" "u_fifo_tail (uart_data_at ?s3 d) c' = u_fifo_tail (uart_data_at s d) c'"
    using c'(1) by (simp_all add: pi_uart_task_fifo_enqueue_def Let_def case_prod_beta)
  have l: "u_fifo_tail (uart_data_at s d) c = last ts \<and> u_fifo_head (uart_data_at s d) c \<noteq> 0" if "ts \<noteq> []"
    using assms(1) that fifo_rep_empty by (auto simp: uart_queue_def fifo_rep_def dest: chain_empty_iff)
  have h0: "u_fifo_head (uart_data_at s d) c = 0" if "ts = []" using assms(1) that by (simp add: uart_queue_def)
  have nx: "next_of ?s3 p = next_of s p" if "p \<in> set ts'" for p
  proof -
    have "p \<noteq> t" "ts \<noteq> [] \<Longrightarrow> p \<noteq> last ts" using that c'(3,4) last_in_set [of ts] by blast+
    then show ?thesis using l h0 by (cases "ts = []") (simp_all add: next_of_def pi_uart_task_fifo_enqueue_def Let_def case_prod_beta)
  qed
  have rep: "fifo_rep (next_of ?s3) h x ts' = fifo_rep (next_of s) h x ts'" for h x by (intro fifo_rep_cong) (rule nx)
  have "uart_queue d c' ?s3 ts'" unfolding uart_queue_def hd_tl rep using c'(2) by (simp only: uart_queue_def)
  then show "uart_queue d c' u ts'" by (cases "ts = []") (simp_all only: u qr queue_copy_exec if_True if_False simp_thms)
qed

text \<open>A step that touches one channel keeps what the other one serves.\<close>

lemma uart_serving_chan:
  assumes ok: "uart_serving i d s q" and c: "c \<in> {RX_CHANNEL, TX_CHANNEL}" and op: "uart_is_open i d u"
    and hs: "fc_event_handlers u = fc_event_handlers s"
    and rg: "regs u = regs s \<or> (\<exists>buf sz. regs u = program (uart_chan i c) buf sz (regs s))"
    and other: "\<And>k. k \<noteq> c \<Longrightarrow> k \<in> {RX_CHANNEL, TX_CHANNEL} \<Longrightarrow> uart_queue d k u (map rq_task (q k)) \<and> rq_task ` set q' \<inter> rq_task ` set (q k) = {}"
    and hold: "\<And>k r. k \<noteq> c \<Longrightarrow> k \<in> {RX_CHANNEL, TX_CHANNEL} \<Longrightarrow> r \<in> set (q k) \<Longrightarrow> uart_holds k u r = uart_holds k s r"
    and new: "uart_queue d c u (map rq_task q')" "\<And>r. r \<in> set q' \<Longrightarrow> uart_holds c u r" "q' \<noteq> [] \<Longrightarrow> uart_runs i c (regs u) (hd q')"
  shows "uart_serving i d u (q(c := q'))"
proof -
  have i: "unat i < 64" using op by (simp add: uart_is_open_def)
  have run: "uart_runs i k (regs u) r = uart_runs i k (regs s) r" if "k \<noteq> c" "k \<in> {RX_CHANNEL, TX_CHANNEL}" for k r
  proof -
    have "{c, k} = {RX_CHANNEL, TX_CHANNEL}" using c that by auto
    from uart_chan_apart [OF i this, of _ _ "regs s" r] show ?thesis using rg by (elim disjE exE) simp_all
  qed
  have "uart_queue d k u (map rq_task ((q(c := q')) k)) \<and> (\<forall>r \<in> set ((q(c := q')) k). uart_holds k u r)
      \<and> ((q(c := q')) k \<noteq> [] \<longrightarrow> uart_runs i k (regs u) (hd ((q(c := q')) k)))" if k: "k \<in> {RX_CHANNEL, TX_CHANNEL}" for k
  proof (cases "k = c")
    case False
    have "\<forall>r \<in> set (q k). uart_holds k s r" "q k \<noteq> [] \<longrightarrow> uart_runs i k (regs s) (hd (q k))"
      using ok k unfolding uart_serving_def by blast+
    then show ?thesis using other [OF False k] hold [OF False k] run [OF False k] False by simp
  qed (use new in simp)
  moreover have "set (map rq_task ((q(c := q')) RX_CHANNEL)) \<inter> set (map rq_task ((q(c := q')) TX_CHANNEL)) = {}"
    using c other [of RX_CHANNEL] other [of TX_CHANNEL] by (elim insertE) auto
  ultimately show ?thesis using op ok installed_same [OF hs] by (simp add: uart_serving_def)
qed

lemma uart_submit_step:
  assumes ok: "uart_serving i d s q" and may: "uart_may d s (Uart_submit c device buf sz t) q"
  shows "\<exists>u. uart_step clic i (Uart_submit c device buf sz t) s = Some u \<and> uart_serving i d u (q(c := q c @ [(t, buf, sz)])) \<and> uart_same s u"
proof -
  let ?u = "snd (pi_uart_copy d buf sz c t s)" and ?q = "q(c := q c @ [(t, buf, sz)])"
  have m: "c \<noteq> COMMAND_CHANNEL" "dev_data s device = d" "buf AND 0xFFF00000 = 0x1C000000" "sz \<le> uart_max" "t \<noteq> 0" "can_release s t"
    and nt: "t \<notin> rq_task ` set (q RX_CHANNEL)" "t \<notin> rq_task ` set (q TX_CHANNEL)"
    using may by (auto simp: uart_waiting_def)
  have st: "uart_step clic i (Uart_submit c device buf sz t) s = Some ?u"
    using m(1,2) by (cases c) (simp_all add: pi_uart_read_async_def pi_uart_write_async_def)
  have cs: "c \<in> {RX_CHANNEL, TX_CHANNEL}" using m(1) by (cases c) simp_all
  then have qc: "uart_queue d c s (map rq_task (q c))" and ntc: "t \<notin> set (map rq_task (q c))"
    using ok nt by (auto simp: uart_serving_def)
  note e = uart_copy_effect [OF qc m(5) ntc m(1,3,4)]
  have open_u: "uart_is_open i d ?u" and dev: "u_device_id (uart_data_at s d) = i" "unat i < 64"
    using ok e(4,6) by (simp_all add: uart_serving_def uart_is_open_def)
  have rel: "can_release ?u p = can_release s p" for p using e(9) by (simp add: can_release_def)
  have hold: "uart_holds k ?u r = uart_holds k s r" if "rq_task r \<noteq> t" for k r
    using that by (intro uart_holds_cong rel) (simp add: e(7))
  have new: "uart_holds c ?u (t, buf, sz)" using m rel by (simp add: uart_holds_def e(7))
  have "uart_serving i d ?u ?q"
  proof (rule uart_serving_chan [OF ok cs open_u uart_copy_handlers])
    show "regs ?u = regs s \<or> (\<exists>buf sz. regs ?u = program (uart_chan i c) buf sz (regs s))" using e(5) dev by auto
    show "uart_queue d c ?u (map rq_task (q c @ [(t, buf, sz)]))" using e(1) by simp
    show "uart_holds c ?u r" if "r \<in> set (q c @ [(t, buf, sz)])" for r
    proof (cases "r = (t, buf, sz)")
      case False
      then have r: "r \<in> set (q c)" using that by simp
      then have "rq_task r \<noteq> t" "uart_holds c s r" using ntc ok cs unfolding uart_serving_def by auto
      then show ?thesis using hold by simp
    qed (use new in simp)
    show "uart_runs i c (regs ?u) (hd (q c @ [(t, buf, sz)]))"
      using ok cs e(5) dev uart_runs_program by (cases "q c") (auto simp: uart_serving_def)
    fix k assume k: "k \<noteq> c" "k \<in> {RX_CHANNEL, TX_CHANNEL}"
    have dj: "set (map rq_task (q c)) \<inter> set (map rq_task (q k)) = {}" "uart_queue d k s (map rq_task (q k))" "t \<notin> set (map rq_task (q k))"
      using ok cs k nt by (auto simp: uart_serving_def)
    show "uart_queue d k ?u (map rq_task (q k)) \<and> rq_task ` set (q c @ [(t, buf, sz)]) \<inter> rq_task ` set (q k) = {}"
      using e(11) [OF k(1) dj(2,3,1)] dj by auto
    show "uart_holds k ?u r = uart_holds k s r" if "r \<in> set (q k)" for r using that dj(3) by (intro hold) auto
  qed
  then show ?thesis using st e(2,3,8-10) by (simp add: uart_same_def)
qed

lemma uart_handler_step:
  assumes ok: "uart_serving i d s q" and may: "uart_may d s (Uart_irq c) q"
  shows "\<exists>u. pi_uart_handler (uart_event i c) s = Some u \<and> uart_serving i d u (q(c := tl (q c))) \<and> uart_same s u
    \<and> released u (rq_task (hd (q c)))"
proof -
  obtain t buf sz rest where qc: "q c = (t, buf, sz) # rest" using may by (cases "q c") auto
  have m: "c \<noteq> COMMAND_CHANNEL" and cs: "c \<in> {RX_CHANNEL, TX_CHANNEL}" using may by (cases c; simp)+
  let ?ts = "map rq_task rest" and ?q = "q(c := tl (q c))"
  have o: "uart_is_open i d s" "uart_queue d c s (t # ?ts)" "uart_holds c s (t, buf, sz)" "\<forall>r \<in> set rest. uart_holds c s r"
    using ok cs qc by (auto simp: uart_serving_def)
  have h: "t_data (task_at s t) 3 = 0" "can_release s t" using o(3) by (simp_all add: uart_holds_def)
  obtain v where v: "pi_uart_handler (uart_event i c) s = Some (if ?ts = [] then v else pi_uart_copy_exec d (hd ?ts) v)"
      "regs v = regs s" "csrs v = csrs s" "dev_data v = dev_data s" "g_uart_itf_data v = g_uart_itf_data s"
      "uart_data_at v = uart_data_at (snd (pi_uart_task_fifo_pop d c s))" "uart_queue d c v ?ts"
      "task_at v = (task_at s)(t := (task_at s t)\<lparr>t_done := (if t_id (task_at s t) = PI_TASK_NONE_ID then 1 else t_done (task_at s t))\<rparr>)"
    using uart_end_effect [OF o(1) m o(2) h] by blast
  let ?u = "if ?ts = [] then v else pi_uart_copy_exec d (hd ?ts) v"
  have td: "t_data (task_at v p) = t_data (task_at s p)" for p by (simp add: v(8))
  have rel: "can_release v p = can_release s p" for p by (simp add: v(8) can_release_def)
  have nh: "uart_holds c s (hd rest)" if "rest \<noteq> []" using o(4) that by simp
  have small: "\<not> uart_max < t_data (task_at s (hd ?ts)) 1" if "rest \<noteq> []"
    using nh [OF that] that by (cases "hd rest") (auto simp: uart_holds_def hd_map not_less)
  have tu: "task_at ?u = task_at v" using small by (intro ext) (auto simp: copy_exec_task td)
  have dev: "u_device_id (uart_data_at v d) = i" "unat i < 64" using v(6) o(1) by (simp_all add: uart_is_open_def)
  have ru: "regs ?u = (if rest = [] then regs s
      else program (uart_chan i c) (fst (snd (hd rest))) (snd (snd (hd rest))) (regs s))"
  proof (cases "rest = []")
    case False
    note n = nh [OF False]
    have "t_data (task_at v (hd ?ts)) 2 = chan_num c" using n False by (cases "hd rest") (simp add: td hd_map uart_holds_def)
    from copy_exec_regs [OF this m, of d] show ?thesis
      using n False small [OF False] v(2) dev by (cases "hd rest") (simp add: td hd_map uart_holds_def min_def)
  qed (simp add: v(2))
  have hold: "uart_holds k ?u r = uart_holds k s r" for k r
    using tu rel by (intro uart_holds_cong) (simp_all add: td can_release_def)
  have nx: "next_of v = next_of s" by (rule ext) (simp add: next_of_def v(8))
  have open_u: "uart_is_open i d ?u" using o(1) v(5) dev by (simp add: uart_is_open_def)
  have "uart_serving i d ?u ?q"
  proof (rule uart_serving_chan [OF ok cs open_u uart_handler_handlers [OF v(1)]])
    show "regs ?u = regs s \<or> (\<exists>buf sz. regs ?u = program (uart_chan i c) buf sz (regs s))" using ru by auto
    show "uart_queue d c ?u (map rq_task (tl (q c)))" using v(7) qc by (cases "rest = []") simp_all
    show "uart_holds c ?u r" if "r \<in> set (tl (q c))" for r using that o(4) hold qc by simp
    show "uart_runs i c (regs ?u) (hd (tl (q c)))" if "tl (q c) \<noteq> []"
      using that qc ru uart_runs_program by (metis list.sel(3) prod.collapse)
    fix k assume k: "k \<noteq> c" "k \<in> {RX_CHANNEL, TX_CHANNEL}"
    have "u_fifo_head (uart_data_at v d) k = u_fifo_head (uart_data_at s d) k" "u_fifo_tail (uart_data_at v d) k = u_fifo_tail (uart_data_at s d) k"
      using k(1) unfolding v(6) by (simp_all add: pi_uart_task_fifo_pop_def Let_def case_prod_beta)
    moreover have "uart_queue d k s (map rq_task (q k))" "rq_task ` set (q c) \<inter> rq_task ` set (q k) = {}"
      using ok k cs by (auto simp: uart_serving_def)
    ultimately show "uart_queue d k ?u (map rq_task (q k)) \<and> rq_task ` set (tl (q c)) \<inter> rq_task ` set (q k) = {}"
      using qc by (auto simp: uart_queue_def nx)
  qed (rule hold)
  moreover have "uart_same s ?u" unfolding uart_same_def tu using v(3,4) by (auto simp: v(8))
  moreover have "released ?u t" unfolding released_def tu by (simp add: v(8))
  ultimately show ?thesis using v(1) qc by (intro exI [of _ ?u]) simp
qed

lemma uart_irq_step:
  assumes ok: "uart_serving i d s q" and may: "uart_may d s (Uart_irq c) q"
  shows "\<exists>u. uart_step clic i (Uart_irq c) s = Some u \<and> uart_serving i d u (q(c := tl (q c))) \<and> uart_same s u
    \<and> released u (rq_task (hd (q c)))"
proof -
  let ?s = "soc_event clic (uart_event i c) s"
  have "installed H_uart (uart_event i c) s" using assms by (cases c) (simp_all add: uart_serving_def)
  then have "uart_step clic i (Uart_irq c) s = pi_uart_handler (uart_event i c) ?s"
    using soc_irq_runs [of H_uart "uart_event i c" s clic uart_handlers] by (simp add: uart_handlers_def)
  moreover have "uart_serving i d ?s q" "uart_may d ?s (Uart_irq c) q" using assms by (simp_all add: uart_serving_event)
  ultimately show ?thesis using uart_handler_step [of i d ?s q c] by (auto simp: uart_same_def)
qed

lemma uart_step_law:
  assumes "uart_serving i d s q" "uart_may d s e q"
  shows "\<exists>u. uart_step clic i e s = Some u \<and> uart_serving i d u (snd (uart_does e q)) \<and> uart_same s u
    \<and> (\<forall>x \<in> set (fst (uart_does e q)). released u (rq_task (snd x)))"
proof (cases e)
  case (Uart_submit c device buf sz t)
  then show ?thesis using uart_submit_step [OF assms(1), of c device buf sz t] assms(2) by (simp del: uart_step.simps)
next
  case (Uart_irq c)
  then show ?thesis using uart_irq_step [OF assms(1), of c] assms(2) by (cases "q c") (auto simp del: uart_step.simps)
qed

definition data_channel :: "bool \<Rightarrow> udma_channel" where
  "data_channel rx = (if rx then RX_CHANNEL else TX_CHANNEL)"

interpretation uart_chan: draining_service "uart_step clic i" uart_does "uart_may d" "uart_serving i d" uart_same "\<lambda>u x. released u (rq_task (snd x))"
    "\<lambda>x. fst x = data_channel rx" "\<lambda>q. map (Pair (data_channel rx)) (q (data_channel rx))" "uart_wants (data_channel rx)"
    "Uart_irq (data_channel rx)" "\<lambda>q. length (q (data_channel rx))" for clic i d rx
proof
  show "\<exists>u. uart_step clic i e s = Some u \<and> uart_serving i d u (snd (uart_does e q)) \<and> uart_same s u
      \<and> (\<forall>x \<in> set (fst (uart_does e q)). released u (rq_task (snd x)))"
    if "uart_serving i d s q" "uart_may d s e q" for s :: "'a uart_drv_scheme" and e q using that by (rule uart_step_law)
  show "uart_may d u e q = uart_may d s e q" if "uart_same s u" for s u :: "'a uart_drv_scheme" and e q
    using that uart_same_release [OF that] by (cases e) (auto simp: uart_same_def)
  show "filter (\<lambda>x. fst x = data_channel rx) (fst (uart_does e q)) @ map (Pair (data_channel rx)) (snd (uart_does e q) (data_channel rx))
      = map (Pair (data_channel rx)) (q (data_channel rx)) @ uart_wants (data_channel rx) e" for e q
  proof (cases e)
    case (Uart_irq c)
    then show ?thesis by (cases "q c") auto
  qed auto
  show "uart_may d s (Uart_irq (data_channel rx)) q" if "map (Pair (data_channel rx)) (q (data_channel rx)) \<noteq> []"
    for s :: "'a uart_drv_scheme" and q using that by (auto simp: data_channel_def)
  show "length (snd (uart_does (Uart_irq (data_channel rx)) q) (data_channel rx)) < length (q (data_channel rx))"
    if "map (Pair (data_channel rx)) (q (data_channel rx)) \<noteq> []" for q using that by simp
qed (auto simp: uart_same_def released_def)

text \<open>C20: from any state of an open UART whose channels serve the requests of q, any sequence of valid read and write requests of at
  most UDMA_MAX_SIZE - 4 bytes and of completion interrupts of its two channels succeeds and is one first-in first-out queue
  per channel: on each channel what is finished followed by what is still waiting is what waited before followed by the
  requests in their order. Afterwards the registers of each busy channel hold the buffer and the size of its first request, every
  finished blocking task is done, and the interrupt enable is as before.\<close>
theorem uart_service:
  assumes "uart_serving i d s q" "all_allowed (uart_may d s) uart_does es q"
  shows "\<exists>u fin rest. steps (uart_step clic i) es s = Some u \<and> spec_steps uart_does es q = (fin, rest) \<and> uart_serving i d u rest
     \<and> (\<forall>rx. let c = data_channel rx in
          filter (\<lambda>x. fst x = c) fin @ map (Pair c) (rest c) = map (Pair c) (q c) @ concat (map (uart_wants c) es))
     \<and> (\<forall>x \<in> set fin. t_id (task_at s (rq_task (snd x))) = PI_TASK_NONE_ID \<longrightarrow> t_done (task_at u (rq_task (snd x))) = 1)
     \<and> csrs u = csrs s"
  using uart_chan.follows_spec [where clic = clic, OF assms] uart_chan.in_order [of _ es q]
  by (auto simp: uart_same_def released_def Let_def prod_eq_iff)

lemma demo_uart_serving: "uart_serving 0 0x1C001000 demo_uart (\<lambda>_. [])" "can_release demo_uart t"
  using demo_facts by (simp_all add: uart_serving_def can_release_def installed_def uart_event_def SOC_EVENT_UDMA_UART_RX_def
      SOC_EVENT_UDMA_UART_TX_def UDMA_UART_ID_def UDMA_CHANNEL_NB_EVENTS_LOG2_def) (simp_all add: demo_uart_def zero_task_def)

lemma uart_service_witness:
  "\<exists>u. steps (uart_step False 0) [Uart_submit TX_CHANNEL 5 0x1C008000 16 0x1C002000, Uart_submit RX_CHANNEL 5 0x1C009000 8 0x1C003000,
        Uart_submit TX_CHANNEL 5 0x1C00A000 100 0x1C004000, Uart_irq TX_CHANNEL] demo_uart = Some u
     \<and> uart_serving 0 0x1C001000 u ((\<lambda>_. [])(TX_CHANNEL := [(0x1C004000, 0x1C00A000, 100)], RX_CHANNEL := [(0x1C003000, 0x1C009000, 8)]))
     \<and> t_done (task_at u 0x1C002000) = 1"
proof -
  let ?es = "[Uart_submit TX_CHANNEL 5 0x1C008000 16 0x1C002000, Uart_submit RX_CHANNEL 5 0x1C009000 8 0x1C003000,
        Uart_submit TX_CHANNEL 5 0x1C00A000 100 0x1C004000, Uart_irq TX_CHANNEL]"
  have d: "dev_data demo_uart 5 = 0x1C001000" "t_id (task_at demo_uart 0x1C002000) = PI_TASK_NONE_ID" by (simp_all add: demo_uart_def zero_task_def)
  have v: "all_allowed (uart_may 0x1C001000 demo_uart) uart_does ?es (\<lambda>_. [])"
    by (simp add: d demo_uart_serving uart_waiting_def UDMA_MAX_SIZE_def)
  have sp: "spec_steps uart_does ?es (\<lambda>_. []) = ([(TX_CHANNEL, 0x1C002000, 0x1C008000, 16)],
      (\<lambda>_. [])(TX_CHANNEL := [(0x1C004000, 0x1C00A000, 100)], RX_CHANNEL := [(0x1C003000, 0x1C009000, 8)]))"
    by (auto simp: Let_def)
  show ?thesis using uart_service [OF demo_uart_serving(1) v] sp d by auto
qed

lemma uart_serving_block:
  assumes "uart_serving i d s q" "tb \<notin> uart_waiting q"
  shows "uart_serving i d (pi_task_block create tb (upd_task tb f s)) q"
proof -
  let ?u = "pi_task_block create tb (upd_task tb f s)"
  have f: "uart_data_at ?u = uart_data_at s" "g_uart_itf_data ?u = g_uart_itf_data s" "regs ?u = regs s"
    by (simp_all add: pi_task_block_def pi_sem_init_def Let_def)
  have o: "task_at ?u (rq_task r) = task_at s (rq_task r)" if "r \<in> set (q c)" "c \<in> {RX_CHANNEL, TX_CHANNEL}" for r c
    using block_task_other [of "rq_task r" tb create "upd_task tb f s"] assms(2) that by (auto simp: uart_waiting_def)
  have "uart_queue d c ?u (map rq_task (q c)) \<and> (\<forall>r \<in> set (q c). uart_holds c ?u r) \<and> (q c \<noteq> [] \<longrightarrow> uart_runs i c (regs ?u) (hd (q c)))"
    if c: "c \<in> {RX_CHANNEL, TX_CHANNEL}" for c
  proof -
    have s: "uart_queue d c s (map rq_task (q c))" "\<forall>r \<in> set (q c). uart_holds c s r" "q c \<noteq> [] \<longrightarrow> uart_runs i c (regs s) (hd (q c))"
      using assms(1) c unfolding uart_serving_def by blast+
    have "uart_queue d c ?u (map rq_task (q c)) = uart_queue d c s (map rq_task (q c))"
      unfolding uart_queue_def f by (rule fifo_rep_cong) (use o [OF _ c] in \<open>auto simp: next_of_def\<close>)
    moreover have "uart_holds c ?u r = uart_holds c s r" if "r \<in> set (q c)" for r
      using o [OF that c] by (intro uart_holds_cong) (simp_all add: can_release_def)
    ultimately show ?thesis using s f(3) by simp
  qed
  moreover have "uart_is_open i d ?u" using assms(1) by (simp add: uart_serving_def uart_is_open_def f)
  moreover have "installed H_uart ev ?u = installed H_uart ev s" for ev by (rule installed_same) (simp add: block_task(8))
  ultimately show ?thesis using assms(1) by (simp add: uart_serving_def)
qed

text \<open>C23: a blocking read or write of at most UDMA_MAX_SIZE - 4 bytes of L2 on an open UART returns 0 after at most
  one completion interrupt for each request that waits on its channel and one for its own, with the interrupt enable as
  before.\<close>
theorem uart_blocking:
  fixes s :: "'a uart_drv_scheme" and rx clic :: bool
  assumes "uart_serving i d s q" "tb \<noteq> 0" "tb \<notin> uart_waiting q" "sz \<le> uart_max" "buf AND 0xFFF00000 = 0x1C000000" "dev_data s device = d"
  defines "c \<equiv> data_channel rx"
  defines "env \<equiv> irq_env (uart_step clic i (Uart_irq c))"
  shows "\<exists>u v n. uart_step clic i (Uart_submit c device buf sz tb) (pi_task_block create tb (upd_task tb (\<lambda>_. zero_task) s)) = Some v
     \<and> n \<le> length (q c) + 1
     \<and> u = pi_task_destroy tb (pi_task_destroy tb ((env ^^ n) v)) \<and> csrs u = csrs s \<and> t_done (task_at u tb) \<noteq> 0
     \<and> (if rx then pi_uart_read env create tb device buf sz s else pi_uart_write env create tb device buf sz s) = Some (0, u)"
proof -
  let ?s = "pi_task_block create tb (upd_task tb (\<lambda>_. zero_task) s)" and ?e = "Uart_submit c device buf sz tb"
  have sv: "uart_serving i d ?s q" using assms(1,3) by (rule uart_serving_block)
  have c: "c \<noteq> COMMAND_CHANNEL" by (simp add: c_def data_channel_def)
  have may: "uart_may d ?s ?e q" using assms(2-6) c block_task(4,7) [of create tb "upd_task tb (\<lambda>_. zero_task) s"] by simp
  obtain v where v: "uart_step clic i ?e ?s = Some v" "uart_serving i d v (q(c := q c @ [(tb, buf, sz)]))" "uart_same ?s v"
    using uart_submit_step [OF sv may] by blast
  obtain n where n: "n \<le> length (q c) + 1" "released ((env ^^ n) v) tb" "\<forall>k \<le> n. uart_same v ((env ^^ k) v)"
    using uart_chan.serves [OF v(2), of "(c, tb, buf, sz)" rx] unfolding env_def c_def by auto
  have "t_id (task_at ((env ^^ n) v) tb) = PI_TASK_NONE_ID"
    using n(3) v(3) block_task(2) [of create tb "upd_task tb (\<lambda>_. zero_task) s"] by (simp add: uart_same_def)
  from wait_on_released [OF n(1,2) this] obtain k where k: "k \<le> length (q c) + 1" "k \<le> n"
    "pi_task_wait_on env tb v = Some (pi_task_destroy tb ((env ^^ k) v))" "t_done (task_at ((env ^^ k) v) tb) \<noteq> 0" by blast
  have cs: "csrs ((env ^^ k) v) = csrs s"
    using n(3) k(2) v(3) block_task(5) [of create tb "upd_task tb (\<lambda>_. zero_task) s"] by (simp add: uart_same_def)
  have d: "csrs (pi_task_destroy tb w) = csrs w" "t_done (task_at (pi_task_destroy tb w) tb) = t_done (task_at w tb)" for w :: "'a uart_drv_scheme"
    by (simp_all add: pi_task_destroy_def pi_sem_deinit_def Let_def)
  have st: "fst (pi_uart_copy d buf sz ch tb ?s) = 0" for ch
    using assms(5) by (simp add: pi_uart_copy_def Let_def case_prod_beta)
  have dd: "dev_data ?s device = d" using assms(6) block_task(7) [of create tb "upd_task tb (\<lambda>_. zero_task) s"] by simp
  have vv: "snd (pi_uart_copy d buf sz c tb ?s) = v"
    using v(1) dd by (cases rx) (simp_all add: c_def data_channel_def pi_uart_read_async_def pi_uart_write_async_def)
  have "(if rx then pi_uart_read env create tb device buf sz s else pi_uart_write env create tb device buf sz s)
      = Some (0, pi_task_destroy tb (pi_task_destroy tb ((env ^^ k) v)))"
    using k(3) st vv dd
    by (cases rx) (simp_all add: pi_uart_read_def pi_uart_write_def pi_uart_read_async_def pi_uart_write_async_def Let_def case_prod_beta c_def data_channel_def)
  then show ?thesis using v(1) k(1,4) cs d
    by (intro exI [of _ "pi_task_destroy tb (pi_task_destroy tb ((env ^^ k) v))"] exI [of _ v] exI [of _ k]) simp
qed

lemma uart_blocking_witness:
  "\<exists>u. pi_uart_write (irq_env (uart_step False 0 (Uart_irq TX_CHANNEL))) (\<lambda>_. 0x1C004000) 0x1C002000 5 0x1C008000 16 demo_uart = Some (0, u)"
proof -
  have d: "dev_data demo_uart 5 = 0x1C001000" by (simp add: demo_uart_def)
  show ?thesis
    using uart_blocking [OF demo_uart_serving(1), of "0x1C002000" 16 "0x1C008000" 5 False False "\<lambda>_. 0x1C004000"] d
    by (auto simp: uart_waiting_def UDMA_MAX_SIZE_def data_channel_def)
qed

end
