(* ===== verification/UartOpen.thy ===== *)
theory UartOpen
  imports UartService
begin

text \<open>
  Opening and closing the UART, and the setup register it programs.
\<close>

lemma bit_field_set: "bit (REG_SET k (push_bit k (mask n)) w) i \<longleftrightarrow> k \<le> i \<and> i < 32 \<and> i - k < n \<and> bit w (i - k)"
  by (auto simp: REG_SET_def bit_simps simp del: push_bit_mask_eq)

lemma bit_field_get: "bit (REG_GET k (push_bit k (mask n)) w) i \<longleftrightarrow> i < n \<and> k + i < 32 \<and> bit w (k + i)"
  by (auto simp: REG_GET_def bit_simps simp del: push_bit_mask_eq dest: bit_imp_le_length)

lemma setup_fields:
  fixes dv :: u16 and rx tx stop wl par :: u8
  defines "v \<equiv> REG_SET 16 UART_SETUP_CLKDIV_MASK (ucast dv) OR REG_SET 9 UART_SETUP_RX_ENA_MASK (ucast rx)
     OR REG_SET 8 UART_SETUP_TX_ENA_MASK (ucast tx) OR REG_SET 3 UART_SETUP_STOP_BITS_MASK (ucast stop)
     OR REG_SET 1 UART_SETUP_BIT_LENGTH_MASK (ucast wl) OR REG_SET 0 UART_SETUP_PARITY_ENA_MASK (ucast par)"
  shows "REG_GET 16 UART_SETUP_CLKDIV_MASK v = ucast dv" "REG_GET 9 UART_SETUP_RX_ENA_MASK v = ucast rx AND 1"
    "REG_GET 8 UART_SETUP_TX_ENA_MASK v = ucast tx AND 1" "REG_GET 3 UART_SETUP_STOP_BITS_MASK v = ucast stop AND 1"
    "REG_GET 1 UART_SETUP_BIT_LENGTH_MASK v = ucast wl AND 3" "REG_GET 0 UART_SETUP_PARITY_ENA_MASK v = ucast par AND 1"
proof -
  have m: "UART_SETUP_CLKDIV_MASK = push_bit 16 (mask 16)" "UART_SETUP_RX_ENA_MASK = push_bit 9 (mask 1)"
    "UART_SETUP_TX_ENA_MASK = push_bit 8 (mask 1)" "UART_SETUP_STOP_BITS_MASK = push_bit 3 (mask 1)"
    "UART_SETUP_BIT_LENGTH_MASK = push_bit 1 (mask 2)" "UART_SETUP_PARITY_ENA_MASK = push_bit 0 (mask 1)"
    "(1 :: u32) = mask 1" "(3 :: u32) = mask 2"
    by (simp_all add: UART_SETUP_CLKDIV_MASK_def UART_SETUP_RX_ENA_MASK_def UART_SETUP_TX_ENA_MASK_def
        UART_SETUP_STOP_BITS_MASK_def UART_SETUP_BIT_LENGTH_MASK_def UART_SETUP_PARITY_ENA_MASK_def mask_eq_exp_minus_1)
  show "REG_GET 16 UART_SETUP_CLKDIV_MASK v = ucast dv" "REG_GET 9 UART_SETUP_RX_ENA_MASK v = ucast rx AND 1"
    "REG_GET 8 UART_SETUP_TX_ENA_MASK v = ucast tx AND 1" "REG_GET 3 UART_SETUP_STOP_BITS_MASK v = ucast stop AND 1"
    "REG_GET 1 UART_SETUP_BIT_LENGTH_MASK v = ucast wl AND 3" "REG_GET 0 UART_SETUP_PARITY_ENA_MASK v = ucast par AND 1"
    unfolding m v_def
    by (rule bit_word_eqI; simp only: bit_field_get bit_or_iff bit_field_set bit_and_iff bit_mask_iff bit_ucast_iff; auto dest: bit_imp_le_length)+
qed

lemmas uart_regs = uart_rx_def uart_tx_def uart_status_def uart_setup_def UDMA_UART_def UDMA_UART_ID_def UDMA_PERIPH_BASE_ADDR_def
  UDMA_CTRL_ADDR_def UDMA_PERIPH_SIZE_LOG2_def UDMA_GC_CG_def SOC_EU_ADDR_def SOC_FC_MASK0_OFFSET_def
  SOC_EVENT_UDMA_UART_RX_def SOC_EVENT_UDMA_UART_TX_def UDMA_CHANNEL_NB_EVENTS_LOG2_def

lemmas uart_setup_ops = hal_uart_setup_set_def uart_setup_set_def uart_setup_get_def hal_uart_rx_disable_def hal_uart_tx_disable_def
  hal_uart_rx_clear_def hal_uart_tx_clear_def udma_channel_clear_def udma_ctrl_cg_disable_def hal_or32_def
  hal_soc_eu_set_fc_mask_def hal_soc_eu_clear_fc_mask_def soc_eu_fc_write_def soc_eu_fc_read_def UDMA_CHANNEL_CFG_OFFSET_def

definition uart_setup_value :: "u32 \<Rightarrow> pi_uart_conf \<Rightarrow> u32" where
  "uart_setup_value pf conf =
     REG_SET 16 UART_SETUP_CLKDIV_MASK (ucast (ucast (pf div baudrate_bps conf) :: u16))
     OR REG_SET 9 UART_SETUP_RX_ENA_MASK (ucast (enable_rx conf)) OR REG_SET 8 UART_SETUP_TX_ENA_MASK (ucast (enable_tx conf))
     OR REG_SET 3 UART_SETUP_STOP_BITS_MASK (ucast (stop_bit_count conf)) OR REG_SET 1 UART_SETUP_BIT_LENGTH_MASK (ucast (word_size conf))
     OR REG_SET 0 UART_SETUP_PARITY_ENA_MASK (ucast (parity_mode conf))"

lemma open_first:
  assumes "uart_id conf = 0" "g_uart_itf_data s = [0]" "chunk \<noteq> 0" "baudrate_bps conf \<noteq> 0" "length (fc_event_handlers s) = NB_SOC_EVENTS"
  shows "\<exists>t. pi_uart_open pf chunk device conf s = Some (0, t) \<and> g_uart_itf_data t = [chunk] \<and> dev_data t = (dev_data s)(device := chunk)
     \<and> uart_data_at t chunk = \<lparr>u_fifo_head = \<lambda>_. 0, u_fifo_tail = \<lambda>_. 0, u_nb_open = 1, u_device_id = 0\<rparr>
     \<and> fc_event_handlers t = (fc_event_handlers s)[0 := Some (FC_handler H_uart), 1 := Some (FC_handler H_uart)]
     \<and> regs t = (regs s)(0x1A106004 := regs s 0x1A106004 AND NOT 3, 0x1A102000 := regs s 0x1A102000 OR 1, 0x1A1020A4 := uart_setup_value pf conf)
     \<and> os_log t = os_log s"
  using assms
  by (simp add: pi_uart_open_def Let_def pi_fc_event_handler_set_def NB_SOC_EVENTS_def pi_uart_conf_set_def uart_setup_ops uart_regs uart_setup_value_def readw_def and.assoc)


lemma close_last:
  assumes "dev_data t device = d" "d \<noteq> 0" "g_uart_itf_data t = [d]" "u_nb_open (uart_data_at t d) = 1" "u_device_id (uart_data_at t d) = 0"
    "length (fc_event_handlers t) = NB_SOC_EVENTS" "regs t 0x1A1020A0 AND 1 = 0"
  shows "\<exists>u. pi_uart_close env device t = Some u \<and> g_uart_itf_data u = [0] \<and> dev_data u = (dev_data t)(device := 0)
     \<and> fc_event_handlers u = (fc_event_handlers t)[0 := Some FC_null_event, 1 := Some FC_null_event]
     \<and> regs u = (regs t)(0x1A1020A4 := regs t 0x1A1020A4 AND NOT 0x300, 0x1A102088 := 0x40, 0x1A102098 := 0x40,
          0x1A106004 := regs t 0x1A106004 OR 3)
     \<and> os_log u = os_log t @ [OS_L2Free d 24]"
proof -
  have w: "wait_while (\<lambda>s. hal_uart_tx_status_get (u_device_id (uart_data_at s d)) s \<noteq> 0) env (upd_uart d (\<lambda>x. x\<lparr>u_nb_open := u_nb_open x - 1\<rparr>) t)
      = Some (upd_uart d (\<lambda>x. x\<lparr>u_nb_open := u_nb_open x - 1\<rparr>) t)"
    using assms by (subst wait_while.simps) (simp add: hal_uart_tx_status_get_def uart_status_get_def uart_regs UART_STATUS_TX_BUSY_MASK_def readw_def)
  have c: "REG_SET 6 UDMA_CORE_RX_CFG_CLR_MASK 1 = 0x40" "REG_SET 9 UART_SETUP_RX_ENA_MASK 1 = 0x200" "REG_SET 8 UART_SETUP_TX_ENA_MASK 1 = 0x100"
    by (simp_all add: REG_SET_def UDMA_CORE_RX_CFG_CLR_MASK_def UART_SETUP_RX_ENA_MASK_def UART_SETUP_TX_ENA_MASK_def)
  show ?thesis unfolding pi_uart_close_def Let_def assms(1) w
    using assms(2-6)
    by (simp add: w Let_def pi_fc_event_handler_clear_def NB_SOC_EVENTS_def uart_setup_ops uart_regs readw_def
        pi_uart_rx_abort_def pi_uart_tx_abort_def c and.assoc or.assoc fun_upd_twist [of "0x1A102088 :: u32" "0x1A1020A4 :: u32"])
qed


text \<open>C39: on pulp's single UART the first open allocates the interface, installs the driver's handler for both events, unmasks
  them, clocks the device and programs divider, receive and transmit enable, stop bits, word size and parity from the configuration, each into its own field of the setup
  register, with no other register written, which leaves the driver serving two empty queues; a second open shares the interface and only counts; a close
  of one of two users only counts down, and the close of the last user, when the transmitter is idle, masks the events, removes the handlers, disables receiver and transmitter,
  clears both channels, keeps the other fields of the setup and every other register, and gives the memory back. A failed allocation returns -11 and changes nothing.\<close>
theorem uart_open_close:
  assumes "uart_id conf = 0" "g_uart_itf_data s = [0]" "baudrate_bps conf \<noteq> 0" "length (fc_event_handlers s) = NB_SOC_EVENTS"
  shows "if chunk = 0 then pi_uart_open pf chunk device conf s = Some (-11, s)
     else \<exists>t. pi_uart_open pf chunk device conf s = Some (0, t) \<and> uart_serving 0 chunk t (\<lambda>_. []) \<and> dev_data t device = chunk
       \<and> fc_event_handlers t ! 0 = Some (FC_handler H_uart) \<and> fc_event_handlers t ! 1 = Some (FC_handler H_uart)
       \<and> \<not> bit (regs t 0x1A106004) 0 \<and> \<not> bit (regs t 0x1A106004) 1 \<and> bit (regs t UDMA_GC_CG) 0
       \<and> REG_GET 16 UART_SETUP_CLKDIV_MASK (regs t (uart_setup 0)) = ucast (ucast (pf div baudrate_bps conf) :: u16)
       \<and> REG_GET 9 UART_SETUP_RX_ENA_MASK (regs t (uart_setup 0)) = ucast (enable_rx conf) AND 1
       \<and> REG_GET 8 UART_SETUP_TX_ENA_MASK (regs t (uart_setup 0)) = ucast (enable_tx conf) AND 1
       \<and> REG_GET 3 UART_SETUP_STOP_BITS_MASK (regs t (uart_setup 0)) = ucast (stop_bit_count conf) AND 1
       \<and> REG_GET 1 UART_SETUP_BIT_LENGTH_MASK (regs t (uart_setup 0)) = ucast (word_size conf) AND 3
       \<and> REG_GET 0 UART_SETUP_PARITY_ENA_MASK (regs t (uart_setup 0)) = ucast (parity_mode conf) AND 1
       \<and> regs t 0x1A106004 = regs s 0x1A106004 AND NOT 3 \<and> regs t UDMA_GC_CG = regs s UDMA_GC_CG OR 1
       \<and> (\<forall>a. a \<in> {0x1A106004, UDMA_GC_CG, uart_setup 0} \<or> regs t a = regs s a)
       \<and> (\<exists>t2. pi_uart_open pf chunk2 device2 conf t = Some (0, t2) \<and> u_nb_open (uart_data_at t2 chunk) = 2
            \<and> dev_data t2 = (dev_data t)(device2 := chunk) \<and> regs t2 = regs t \<and> g_uart_itf_data t2 = [chunk]
            \<and> (\<exists>t3. pi_uart_close env device2 t2 = Some t3 \<and> u_nb_open (uart_data_at t3 chunk) = 1 \<and> regs t3 = regs t
                 \<and> fc_event_handlers t3 = fc_event_handlers t \<and> dev_data t3 device2 = 0))
       \<and> (if regs s (uart_status 0) AND UART_STATUS_TX_BUSY_MASK \<noteq> 0 then True else
          \<exists>u. pi_uart_close env device t = Some u \<and> g_uart_itf_data u = [0] \<and> dev_data u device = 0
            \<and> fc_event_handlers u ! 0 = Some FC_null_event \<and> fc_event_handlers u ! 1 = Some FC_null_event
            \<and> bit (regs u 0x1A106004) 0 \<and> bit (regs u 0x1A106004) 1 \<and> regs u 0x1A106004 = regs t 0x1A106004 OR 3
            \<and> regs u (uart_setup 0) = regs t (uart_setup 0) AND NOT (UART_SETUP_RX_ENA_MASK OR UART_SETUP_TX_ENA_MASK)
            \<and> regs u (uart_rx 0 + UDMA_CHANNEL_CFG_OFFSET) = UDMA_CORE_RX_CFG_CLR_MASK
            \<and> regs u (uart_tx 0 + UDMA_CHANNEL_CFG_OFFSET) = UDMA_CORE_RX_CFG_CLR_MASK
            \<and> (\<forall>a. a \<in> {0x1A106004, uart_setup 0, uart_rx 0 + UDMA_CHANNEL_CFG_OFFSET, uart_tx 0 + UDMA_CHANNEL_CFG_OFFSET} \<or> regs u a = regs t a)
            \<and> os_log u = os_log s @ [OS_L2Free chunk 24])"
proof (cases "chunk = 0")
  case True
  then show ?thesis using assms by (simp add: pi_uart_open_def)
next
  case False
  obtain t where t: "pi_uart_open pf chunk device conf s = Some (0, t)" "g_uart_itf_data t = [chunk]" "dev_data t = (dev_data s)(device := chunk)"
     "uart_data_at t chunk = \<lparr>u_fifo_head = \<lambda>_. 0, u_fifo_tail = \<lambda>_. 0, u_nb_open = 1, u_device_id = 0\<rparr>"
     "fc_event_handlers t = (fc_event_handlers s)[0 := Some (FC_handler H_uart), 1 := Some (FC_handler H_uart)]"
     "regs t = (regs s)(0x1A106004 := regs s 0x1A106004 AND NOT 3, 0x1A102000 := regs s 0x1A102000 OR 1, 0x1A1020A4 := uart_setup_value pf conf)"
     "os_log t = os_log s"
    using open_first [OF assms(1,2) False assms(3,4)] by blast
  have o: "uart_is_open 0 chunk t" "uart_queue chunk RX_CHANNEL t []" "uart_queue chunk TX_CHANNEL t []"
    using t(2,4) False by (simp_all add: uart_is_open_def uart_queue_def)
  have h: "fc_event_handlers t ! 0 = Some (FC_handler H_uart)" "fc_event_handlers t ! 1 = Some (FC_handler H_uart)"
    using assms(4) by (simp_all add: t(5) NB_SOC_EVENTS_def)
  have sv: "uart_serving 0 chunk t (\<lambda>_. [])" using o h assms(4)
    by (simp add: uart_serving_def installed_def uart_event_def uart_regs t(5) NB_SOC_EVENTS_def)
  have three: "(3 :: u32) = mask 2" by (simp add: mask_eq_exp_minus_1)
  have b: "\<not> bit (regs t 0x1A106004) 0" "\<not> bit (regs t 0x1A106004) 1" "bit (regs t UDMA_GC_CG) 0"
    unfolding t(6) three by (simp_all add: bit_simps UDMA_GC_CG_def UDMA_CTRL_ADDR_def)
  have su: "uart_setup 0 = 0x1A1020A4" by (simp add: uart_regs)
  have f: "REG_GET 16 UART_SETUP_CLKDIV_MASK (regs t (uart_setup 0)) = ucast (ucast (pf div baudrate_bps conf) :: u16)"
    "REG_GET 9 UART_SETUP_RX_ENA_MASK (regs t (uart_setup 0)) = ucast (enable_rx conf) AND 1"
    "REG_GET 8 UART_SETUP_TX_ENA_MASK (regs t (uart_setup 0)) = ucast (enable_tx conf) AND 1"
    "REG_GET 3 UART_SETUP_STOP_BITS_MASK (regs t (uart_setup 0)) = ucast (stop_bit_count conf) AND 1"
    "REG_GET 1 UART_SETUP_BIT_LENGTH_MASK (regs t (uart_setup 0)) = ucast (word_size conf) AND 3"
    "REG_GET 0 UART_SETUP_PARITY_ENA_MASK (regs t (uart_setup 0)) = ucast (parity_mode conf) AND 1"
    unfolding su t(6) fun_upd_same uart_setup_value_def by (rule setup_fields)+
  have masks: "regs t 0x1A106004 = regs s 0x1A106004 AND NOT 3" "regs t UDMA_GC_CG = regs s UDMA_GC_CG OR 1"
    unfolding t(6) by (simp_all add: UDMA_GC_CG_def UDMA_CTRL_ADDR_def)
  have others: "\<forall>a. a \<in> {0x1A106004, UDMA_GC_CG, uart_setup 0} \<or> regs t a = regs s a"
    unfolding su t(6) by (simp add: UDMA_GC_CG_def UDMA_CTRL_ADDR_def)
  have ra: "uart_rx 0 + UDMA_CHANNEL_CFG_OFFSET = 0x1A102088" "uart_tx 0 + UDMA_CHANNEL_CFG_OFFSET = 0x1A102098" "uart_status 0 = 0x1A1020A0"
    by (simp_all add: uart_regs UDMA_CHANNEL_CFG_OFFSET_def)
  have ma: "NOT (UART_SETUP_RX_ENA_MASK OR UART_SETUP_TX_ENA_MASK) = NOT 0x300" "UDMA_CORE_RX_CFG_CLR_MASK = 0x40"
    "UART_STATUS_TX_BUSY_MASK = 1"
    by (simp_all add: UART_SETUP_RX_ENA_MASK_def UART_SETUP_TX_ENA_MASK_def UDMA_CORE_RX_CFG_CLR_MASK_def UART_STATUS_TX_BUSY_MASK_def)
  let ?t2 = "(upd_uart chunk (\<lambda>x. x\<lparr>u_nb_open := u_nb_open x + 1\<rparr>) t)\<lparr>dev_data := (dev_data t)(device2 := chunk)\<rparr>"
  have second: "pi_uart_open pf chunk2 device2 conf t = Some (0, ?t2)"
    using assms(1) t(2,4) False by (simp add: pi_uart_open_def Let_def)
  have third: "\<exists>t3. pi_uart_close env device2 ?t2 = Some t3 \<and> u_nb_open (uart_data_at t3 chunk) = 1 \<and> regs t3 = regs t
      \<and> fc_event_handlers t3 = fc_event_handlers t \<and> dev_data t3 device2 = 0"
    using False t(4) by (simp add: pi_uart_close_def Let_def)
  have last: "\<exists>u. pi_uart_close env device t = Some u \<and> g_uart_itf_data u = [0] \<and> dev_data u device = 0
            \<and> fc_event_handlers u ! 0 = Some FC_null_event \<and> fc_event_handlers u ! 1 = Some FC_null_event
            \<and> bit (regs u 0x1A106004) 0 \<and> bit (regs u 0x1A106004) 1 \<and> regs u 0x1A106004 = regs t 0x1A106004 OR 3
            \<and> regs u (uart_setup 0) = regs t (uart_setup 0) AND NOT (UART_SETUP_RX_ENA_MASK OR UART_SETUP_TX_ENA_MASK)
            \<and> regs u (uart_rx 0 + UDMA_CHANNEL_CFG_OFFSET) = UDMA_CORE_RX_CFG_CLR_MASK
            \<and> regs u (uart_tx 0 + UDMA_CHANNEL_CFG_OFFSET) = UDMA_CORE_RX_CFG_CLR_MASK
            \<and> (\<forall>a. a \<in> {0x1A106004, uart_setup 0, uart_rx 0 + UDMA_CHANNEL_CFG_OFFSET, uart_tx 0 + UDMA_CHANNEL_CFG_OFFSET} \<or> regs u a = regs t a)
            \<and> os_log u = os_log s @ [OS_L2Free chunk 24]"
    if "regs s 0x1A1020A0 AND 1 = 0"
  proof -
    have "length (fc_event_handlers t) = NB_SOC_EVENTS" "dev_data t device = chunk" "u_nb_open (uart_data_at t chunk) = 1"
      "u_device_id (uart_data_at t chunk) = 0" "regs t 0x1A1020A0 AND 1 = 0"
      using t assms(4) that by simp_all
    from close_last [OF this(2) False t(2) this(3,4,1,5), of env] obtain u where u: "pi_uart_close env device t = Some u" "g_uart_itf_data u = [0]"
       "dev_data u = (dev_data t)(device := 0)" "fc_event_handlers u = (fc_event_handlers t)[0 := Some FC_null_event, 1 := Some FC_null_event]"
       "regs u = (regs t)(0x1A1020A4 := regs t 0x1A1020A4 AND NOT 0x300, 0x1A102088 := 0x40, 0x1A102098 := 0x40, 0x1A106004 := regs t 0x1A106004 OR 3)"
       "os_log u = os_log t @ [OS_L2Free chunk 24]" by blast
    have "bit (regs u 0x1A106004) 0" "bit (regs u 0x1A106004) 1" unfolding u(5) three by (simp_all add: bit_simps)
    moreover have "regs u 0x1A1020A4 = regs t 0x1A1020A4 AND NOT 0x300" "regs u 0x1A102088 = 0x40" "regs u 0x1A102098 = 0x40"
       "regs u 0x1A106004 = regs t 0x1A106004 OR 3"
       "\<forall>a. a \<in> {0x1A106004, 0x1A1020A4, 0x1A102088, 0x1A102098} \<or> regs u a = regs t a"
      unfolding u(5) by simp_all
    moreover have "fc_event_handlers u ! 0 = Some FC_null_event" "fc_event_handlers u ! 1 = Some FC_null_event" "dev_data u device = 0"
      "os_log u = os_log s @ [OS_L2Free chunk 24]"
      using u(3,4,6) t(5,7) assms(4) by (simp_all add: NB_SOC_EVENTS_def)
    ultimately show ?thesis unfolding su ra ma using u(1,2) by blast
  qed
  show ?thesis unfolding if_not_P [OF False]
    by (rule exI [of _ t]) (use t(1,2,3) sv h b f masks others second third last [folded ra(3) ma(3)] False t(4) in \<open>simp\<close>)
qed


lemma uart_open_close_witness:
  "\<exists>t. pi_uart_open 100000000 0x1C001000 0 (pi_uart_conf_init \<lparr>baudrate_bps = 0, stop_bit_count = 0, parity_mode = 0, word_size = 0,
      enable_rx = 0, enable_tx = 0, uart_id = 9\<rparr>) (demo_uart\<lparr>g_uart_itf_data := [0], fc_event_handlers := replicate 168 None\<rparr>) = Some (0, t)
    \<and> REG_GET 1 UART_SETUP_BIT_LENGTH_MASK (regs t (uart_setup 0)) = 3"
proof -
  let ?c = "pi_uart_conf_init \<lparr>baudrate_bps = 0, stop_bit_count = 0, parity_mode = 0, word_size = 0, enable_rx = 0, enable_tx = 0, uart_id = 9\<rparr>"
  let ?s = "demo_uart\<lparr>g_uart_itf_data := [0], fc_event_handlers := replicate 168 None\<rparr>"
  have c: "uart_id ?c = 0" "baudrate_bps ?c \<noteq> 0" "word_size ?c = 3" by (simp_all add: pi_uart_conf_init_def)
  have "\<exists>t. pi_uart_open 100000000 0x1C001000 0 ?c ?s = Some (0, t)
      \<and> REG_GET 1 UART_SETUP_BIT_LENGTH_MASK (regs t (uart_setup 0)) = ucast (word_size ?c) AND 3"
  proof -
    have g: "g_uart_itf_data ?s = [0]" "length (fc_event_handlers ?s) = NB_SOC_EVENTS" by (simp_all add: NB_SOC_EVENTS_def)
    have n: "\<not> (0x1C001000 :: u32) = 0" by simp
    show ?thesis using uart_open_close [of ?c ?s "0x1C001000" 100000000 0 0 0 id, OF c(1) g(1) c(2) g(2)] unfolding if_not_P [OF n] by blast
  qed
  then show ?thesis unfolding c(3) by simp
qed

end
