(* ===== verification/Spi.thy ===== *)
theory Spi
  imports Udma
begin

text \<open>
  The SPI master driver (drivers/spi.c, drivers/include/udma_spim.h, spi_periph.h). The interface,
  queue and chip-select structures live at the addresses that malloc returned, which are the
  arguments chunk_drv, chunk_fifo and chunk_cs (0 on failure); the peripheral clock is the argument
  periph_freq. abort, null dereferences, indices outside the interface or handler tables, a
  division by zero and a search that never ends are None.
\<close>

subsection \<open>Registers and commands\<close>

definition UDMA_SPIM_ID :: "u32 \<Rightarrow> u32" where "UDMA_SPIM_ID i = 1 + i"

definition UDMA_SPIM :: "u32 \<Rightarrow> u32" where
  "UDMA_SPIM i = UDMA_PERIPH_BASE_ADDR + push_bit UDMA_PERIPH_SIZE_LOG2 (UDMA_SPIM_ID i)"

definition SOC_EVENT_UDMA_SPIM_RX :: "u32 \<Rightarrow> u32" where
  "SOC_EVENT_UDMA_SPIM_RX i = push_bit UDMA_CHANNEL_NB_EVENTS_LOG2 (UDMA_SPIM_ID i) + 0"
definition SOC_EVENT_UDMA_SPIM_TX :: "u32 \<Rightarrow> u32" where
  "SOC_EVENT_UDMA_SPIM_TX i = push_bit UDMA_CHANNEL_NB_EVENTS_LOG2 (UDMA_SPIM_ID i) + 1"
definition SOC_EVENT_UDMA_SPIM_EOT :: "u32 \<Rightarrow> u32" where
  "SOC_EVENT_UDMA_SPIM_EOT i = push_bit UDMA_CHANNEL_NB_EVENTS_LOG2 (UDMA_SPIM_ID i) + 3"

definition spim_enqueue_channel :: "u32 \<Rightarrow> u32 \<Rightarrow> u32 \<Rightarrow> u32 \<Rightarrow> udma_channel \<Rightarrow> 'a machine_scheme \<Rightarrow> 'a machine_scheme" where
  "spim_enqueue_channel spim addr sz config channel s =
     (case channel of
        RX_CHANNEL \<Rightarrow> udma_enqueue_channel spim addr sz config s
      | TX_CHANNEL \<Rightarrow> udma_enqueue_channel (spim + 0x10) addr sz config s
      | COMMAND_CHANNEL \<Rightarrow> udma_enqueue_channel (spim + 0x20) addr sz config s)"

definition SPI_CMD_ID_OFFSET :: nat where "SPI_CMD_ID_OFFSET = 28"
definition SPI_CMD_CFG_ID :: u32 where "SPI_CMD_CFG_ID = 0x0"
definition SPI_CMD_SOT_ID :: u32 where "SPI_CMD_SOT_ID = 0x1"
definition SPI_CMD_TX_DATA_ID :: u32 where "SPI_CMD_TX_DATA_ID = 0x6"
definition SPI_CMD_RX_DATA_ID :: u32 where "SPI_CMD_RX_DATA_ID = 0x7"
definition SPI_CMD_EOT_ID :: u32 where "SPI_CMD_EOT_ID = 0x9"
definition SPI_CMD_MSB_FIRST :: u32 where "SPI_CMD_MSB_FIRST = 0"
definition SPI_CMD_1_WORD_PER_TRANSF :: u32 where "SPI_CMD_1_WORD_PER_TRANSF = 0"

definition SPI_CMD_CFG :: "u32 \<Rightarrow> u32 \<Rightarrow> u32 \<Rightarrow> u32" where
  "SPI_CMD_CFG clockDiv cpol cpha =
     push_bit SPI_CMD_ID_OFFSET SPI_CMD_CFG_ID OR push_bit 9 cpol OR push_bit 8 cpha OR push_bit 0 clockDiv"

definition SPI_CMD_SOT :: "u32 \<Rightarrow> u32" where
  "SPI_CMD_SOT cs = push_bit SPI_CMD_ID_OFFSET SPI_CMD_SOT_ID OR push_bit 0 cs"

definition SPI_CMD_TX_DATA :: "u32 \<Rightarrow> u32 \<Rightarrow> u32 \<Rightarrow> u32 \<Rightarrow> u32 \<Rightarrow> u32" where
  "SPI_CMD_TX_DATA wrds wordstrans bitsword qpi lsbfirst =
     push_bit SPI_CMD_ID_OFFSET SPI_CMD_TX_DATA_ID OR push_bit 27 qpi OR push_bit 21 wordstrans
     OR push_bit 16 (bitsword - 1) OR push_bit 0 (wrds - 1) OR push_bit 26 lsbfirst"

definition SPI_CMD_RX_DATA :: "u32 \<Rightarrow> u32 \<Rightarrow> u32 \<Rightarrow> u32 \<Rightarrow> u32 \<Rightarrow> u32" where
  "SPI_CMD_RX_DATA wrds wordstrans bitsword qpi lsbfirst =
     push_bit SPI_CMD_ID_OFFSET SPI_CMD_RX_DATA_ID OR push_bit 27 qpi OR push_bit 21 wordstrans
     OR push_bit 16 (bitsword - 1) OR push_bit 0 (wrds - 1) OR push_bit 26 lsbfirst"

definition SPI_CMD_EOT :: "u32 \<Rightarrow> u32 \<Rightarrow> u32" where
  "SPI_CMD_EOT evt cs_keep =
     push_bit SPI_CMD_ID_OFFSET SPI_CMD_EOT_ID OR push_bit 0 evt OR push_bit 1 cs_keep"

definition UDMA_CORE_TX_CFG_EN :: "u32 \<Rightarrow> u32" where "UDMA_CORE_TX_CFG_EN v = push_bit 4 v AND 0x10"
definition UDMA_CORE_TX_CFG_DATASIZE :: "u32 \<Rightarrow> u32" where "UDMA_CORE_TX_CFG_DATASIZE v = push_bit 1 v AND 0x6"
definition UDMA_CORE_CFG_DATASIZE_32 :: u32 where "UDMA_CORE_CFG_DATASIZE_32 = 2"

definition PI_SPI_LINES_QUAD :: u32 where "PI_SPI_LINES_QUAD = push_bit 2 1"
definition PI_SPI_CS_KEEP :: u32 where "PI_SPI_CS_KEEP = 1"

subsection \<open>Driver state\<close>

record spim_cs_data =
  cs_next :: u32
  cs_drv_data :: u32
  cs_cfg :: u32
  cs_udma_cmd :: "nat \<Rightarrow> u32"
  cs_max_baudrate :: u32
  cs_polarity :: u32
  cs_phase :: u32
  cs_num :: u8
  cs_wordsize :: u8
  cs_big_endian :: u8

record spim_driver_data =
  sp_drv_fifo :: u32
  sp_cs_list :: u32
  sp_repeat_transfer :: u32
  sp_end_of_transfer :: u32
  sp_nb_open :: u32
  sp_device_id :: u8

record spim_drv_fifo =
  sf_head :: u32
  sf_tail :: u32

record spi_drv = soc +
  spim_cs_at :: "u32 \<Rightarrow> spim_cs_data"
  spim_data_at :: "u32 \<Rightarrow> spim_driver_data"
  spim_fifo_at :: "u32 \<Rightarrow> spim_drv_fifo"
  g_spim_drv_data :: "u32 list"

record pi_spi_conf =
  sc_max_baudrate :: u32
  sc_wordsize :: u8
  sc_big_endian :: u8
  sc_polarity :: u32
  sc_phase :: u32
  sc_cs :: int
  sc_itf :: int

record spim_transfer =
  tr_flags :: u32
  tr_data :: u32
  tr_len :: u32
  tr_cfg_cmd :: u32
  tr_byte_align :: u32
  tr_is_send :: u32

definition UDMA_NB_SPIM :: nat where "UDMA_NB_SPIM = 2"

definition upd_cs :: "u32 \<Rightarrow> (spim_cs_data \<Rightarrow> spim_cs_data) \<Rightarrow> 'a spi_drv_scheme \<Rightarrow> 'a spi_drv_scheme" where
  "upd_cs p f s = s\<lparr>spim_cs_at := (spim_cs_at s)(p := f (spim_cs_at s p))\<rparr>"

definition upd_spim :: "u32 \<Rightarrow> (spim_driver_data \<Rightarrow> spim_driver_data) \<Rightarrow> 'a spi_drv_scheme \<Rightarrow> 'a spi_drv_scheme" where
  "upd_spim p f s = s\<lparr>spim_data_at := (spim_data_at s)(p := f (spim_data_at s p))\<rparr>"

definition upd_spim_fifo :: "u32 \<Rightarrow> (spim_drv_fifo \<Rightarrow> spim_drv_fifo) \<Rightarrow> 'a spi_drv_scheme \<Rightarrow> 'a spi_drv_scheme" where
  "upd_spim_fifo p f s = s\<lparr>spim_fifo_at := (spim_fifo_at s)(p := f (spim_fifo_at s p))\<rparr>"

subsection \<open>Queue of transfers\<close>

definition pi_spim_drv_fifo_enqueue :: "u32 \<Rightarrow> spim_transfer \<Rightarrow> u32 \<Rightarrow> 'a spi_drv_scheme \<Rightarrow> int \<times> 'a spi_drv_scheme" where
  "pi_spim_drv_fifo_enqueue cs transfer end_task s =
     (let (irq, s) = disable_irq s;
          d = cs_drv_data (spim_cs_at s cs);
          s = upd_task end_task (\<lambda>t. t\<lparr>t_data := (t_data t)(0 := cs, 1 := tr_data transfer, 2 := tr_len transfer,
                3 := tr_flags transfer, 4 := end_task, 5 := tr_is_send transfer), t_next := 0\<rparr>) s;
          f = sp_drv_fifo (spim_data_at s d);
          s = (if sf_head (spim_fifo_at s f) = 0
               then let s = upd_spim_fifo f (\<lambda>x. x\<lparr>sf_head := end_task\<rparr>) s in
                    upd_spim_fifo f (\<lambda>x. x\<lparr>sf_tail := sf_head x\<rparr>) s
               else let tl_ptr = sf_tail (spim_fifo_at s f);
                        s = upd_task tl_ptr (\<lambda>t. t\<lparr>t_next := end_task\<rparr>) s in
                    upd_spim_fifo f (\<lambda>x. x\<lparr>sf_tail := t_next (task_at s tl_ptr)\<rparr>) s) in
      (0, restore_irq irq s))"

definition pi_spim_drv_fifo_pop :: "u32 \<Rightarrow> 'a spi_drv_scheme \<Rightarrow> u32 \<times> 'a spi_drv_scheme" where
  "pi_spim_drv_fifo_pop d s =
     (let (irq, s) = disable_irq s;
          f = sp_drv_fifo (spim_data_at s d);
          (task_return, s) =
            (if sf_head (spim_fifo_at s f) \<noteq> 0
             then let task = sf_head (spim_fifo_at s f);
                      s = upd_spim_fifo f (\<lambda>x. x\<lparr>sf_head := t_next (task_at s task)\<rparr>) s;
                      s = (if sf_head (spim_fifo_at s f) = 0 then upd_spim_fifo f (\<lambda>x. x\<lparr>sf_tail := 0\<rparr>) s else s) in
                  (task, s)
             else (0, s)) in
      (task_return, restore_irq irq s))"

subsection \<open>Chip selects\<close>

partial_function (option) spim_find_cs :: "(u32 \<Rightarrow> spim_cs_data) \<Rightarrow> u32 \<Rightarrow> u32 \<Rightarrow> int \<Rightarrow> (u32 \<times> u32) option" where
  "spim_find_cs at prev cur cs =
     (if cur = 0 \<or> uint (cs_num (at cur)) = cs then Some (prev, cur) else spim_find_cs at cur (cs_next (at cur)) cs)"

definition pi_spim_get_cs_data :: "u32 \<Rightarrow> int \<Rightarrow> 'a spi_drv_scheme \<Rightarrow> u32 option" where
  "pi_spim_get_cs_data d cs s =
     (let cur = sp_cs_list (spim_data_at s d) in map_option snd (spim_find_cs (spim_cs_at s) cur cur cs))"

definition pi_spim_cs_data_del :: "u32 \<Rightarrow> int \<Rightarrow> 'a spi_drv_scheme \<Rightarrow> 'a spi_drv_scheme option" where
  "pi_spim_cs_data_del d cs s =
     (let cur = sp_cs_list (spim_data_at s d) in
      map_option (\<lambda>(prev, cur).
          if cur \<noteq> 0
          then let s = upd_cs prev (\<lambda>x. x\<lparr>cs_next := cs_next (spim_cs_at s cur)\<rparr>) s in
               upd_cs cur (\<lambda>x. x\<lparr>cs_next := 0\<rparr>) s
          else s)
        (spim_find_cs (spim_cs_at s) cur cur cs))"

definition pi_spim_cs_data_add :: "u32 \<Rightarrow> u32 \<Rightarrow> 'a spi_drv_scheme \<Rightarrow> 'a spi_drv_scheme" where
  "pi_spim_cs_data_add d cs s =
     (let s = upd_cs cs (\<lambda>x. x\<lparr>cs_drv_data := d\<rparr>) s;
          s = upd_cs cs (\<lambda>x. x\<lparr>cs_next := sp_cs_list (spim_data_at s d)\<rparr>) s in
      upd_spim d (\<lambda>x. x\<lparr>sp_cs_list := cs_next (spim_cs_at s cs)\<rparr>) s)"

definition pi_spi_clk_div_get :: "u32 \<Rightarrow> u32 \<Rightarrow> u32 option" where
  "pi_spi_clk_div_get periph_freq spi_freq =
     (if spi_freq < periph_freq
      then if spi_freq = 0 then None
        else let clk_div = (periph_freq + spi_freq - 1) div spi_freq;
                 clk_div = (if clk_div AND 1 \<noteq> 0 then clk_div + 1 else clk_div) in
             Some (drop_bit 1 clk_div)
      else Some 0)"

definition pi_spi_conf_init :: "pi_spi_conf \<Rightarrow> pi_spi_conf" where
  "pi_spi_conf_init conf = conf\<lparr>sc_wordsize := 0, sc_big_endian := 0, sc_max_baudrate := 10000000, sc_cs := -1,
     sc_itf := 0, sc_polarity := 0, sc_phase := 0\<rparr>"

definition pi_spi_get_config :: "u32 \<Rightarrow> 'a spi_drv_scheme \<Rightarrow> u32" where
  "pi_spi_get_config device s = cs_cfg (spim_cs_at s (dev_data s device))"

subsection \<open>Transfers\<close>

definition spim_stream_conf :: u32 where
  "spim_stream_conf = UDMA_CORE_TX_CFG_EN 1 OR UDMA_CORE_TX_CFG_DATASIZE UDMA_CORE_CFG_DATASIZE_32"

definition udma_cmd_addr :: "u32 \<Rightarrow> u32" where "udma_cmd_addr cs = cs + 12"

definition pi_spi_receive_async :: "u32 \<Rightarrow> u32 \<Rightarrow> u32 \<Rightarrow> u32 \<Rightarrow> u32 \<Rightarrow> 'a spi_drv_scheme \<Rightarrow> 'a spi_drv_scheme option" where
  "pi_spi_receive_async cs data len flags task s =
     (let d = cs_drv_data (spim_cs_at s cs);
          qspi = (if flags AND push_bit 2 0x3 = PI_SPI_LINES_QUAD then 1 else 0);
          cs_mode = flags AND 0x3;
          device = ucast (sp_device_id (spim_data_at s d));
          cfg = cs_cfg (spim_cs_at s cs);
          byte_align = (if cs_wordsize (spim_cs_at s cs) = 2 \<and> cs_big_endian (spim_cs_at s cs) \<noteq> 0 then 1 else 0);
          buffer_size = drop_bit 3 (len + 7) in
      if cs = 0 \<or> d = 0 \<or> len > 8192 * 8 then None
      else
        let (irq, s) = disable_irq s;
            s = (if sp_end_of_transfer (spim_data_at s d) = 0
                 then
                   let s = upd_cs cs (\<lambda>x. x\<lparr>cs_udma_cmd := (cs_udma_cmd x)(
                         0 := cfg,
                         1 := SPI_CMD_SOT (ucast (cs_num x)),
                         2 := SPI_CMD_RX_DATA (len div 32) SPI_CMD_1_WORD_PER_TRANSF 32 qspi SPI_CMD_MSB_FIRST,
                         3 := SPI_CMD_EOT 1 (if cs_mode = PI_SPI_CS_KEEP then 1 else 0))\<rparr>) s;
                       s = upd_spim d (\<lambda>x. x\<lparr>sp_end_of_transfer := task, sp_repeat_transfer := 0\<rparr>) s;
                       s = spim_enqueue_channel (UDMA_SPIM device) data buffer_size spim_stream_conf RX_CHANNEL s in
                   spim_enqueue_channel (UDMA_SPIM device) (udma_cmd_addr cs) 16 spim_stream_conf COMMAND_CHANNEL s
                 else
                   snd (pi_spim_drv_fifo_enqueue cs \<lparr>tr_flags = flags, tr_data = data, tr_len = len, tr_cfg_cmd = cfg,
                          tr_byte_align = byte_align, tr_is_send = 0\<rparr> task s)) in
        Some (restore_irq irq s))"

definition pi_spi_send_async :: "u32 \<Rightarrow> u32 \<Rightarrow> u32 \<Rightarrow> u32 \<Rightarrow> u32 \<Rightarrow> 'a spi_drv_scheme \<Rightarrow> 'a spi_drv_scheme option" where
  "pi_spi_send_async cs data len flags task s =
     (let d = cs_drv_data (spim_cs_at s cs);
          qspi = (if flags AND push_bit 2 0x3 = PI_SPI_LINES_QUAD then 1 else 0);
          cs_mode = flags AND 0x3;
          device = ucast (sp_device_id (spim_data_at s d));
          cfg = cs_cfg (spim_cs_at s cs);
          byte_align = (if cs_wordsize (spim_cs_at s cs) = 2 \<and> cs_big_endian (spim_cs_at s cs) \<noteq> 0 then 1 else 0);
          buffer_size = drop_bit 3 (len + 7) in
      if cs = 0 \<or> d = 0 \<or> len > 8192 * 8 then None
      else
        let (irq, s) = disable_irq s;
            s = (if sp_end_of_transfer (spim_data_at s d) = 0
                 then
                   let s = upd_cs cs (\<lambda>x. x\<lparr>cs_udma_cmd := (cs_udma_cmd x)(
                         0 := cfg,
                         1 := SPI_CMD_SOT (ucast (cs_num x)),
                         2 := SPI_CMD_TX_DATA (len div 32) SPI_CMD_1_WORD_PER_TRANSF 32 qspi SPI_CMD_MSB_FIRST,
                         3 := SPI_CMD_EOT 1 (if cs_mode = PI_SPI_CS_KEEP then 1 else 0))\<rparr>) s;
                       s = upd_spim d (\<lambda>x. x\<lparr>sp_end_of_transfer := task, sp_repeat_transfer := 0\<rparr>) s;
                       s = spim_enqueue_channel (UDMA_SPIM device) (udma_cmd_addr cs) 16 spim_stream_conf COMMAND_CHANNEL s in
                   spim_enqueue_channel (UDMA_SPIM device) data buffer_size spim_stream_conf TX_CHANNEL s
                 else
                   snd (pi_spim_drv_fifo_enqueue cs \<lparr>tr_flags = flags, tr_data = data, tr_len = len, tr_cfg_cmd = cfg,
                          tr_byte_align = byte_align, tr_is_send = 1\<rparr> task s)) in
        Some (restore_irq irq s))"

definition pi_spi_xfer_async :: "u32 \<Rightarrow> u32 \<Rightarrow> u32 \<Rightarrow> u32 \<Rightarrow> u32 \<Rightarrow> u32 \<Rightarrow> 'a spi_drv_scheme \<Rightarrow> 'a spi_drv_scheme option" where
  "pi_spi_xfer_async cs tx_data rx_data len flags task s = None"

definition pi_spi_receive_async_with_ucode :: "u32 \<Rightarrow> u32 \<Rightarrow> u32 \<Rightarrow> u32 \<Rightarrow> u32 \<Rightarrow> 'a spi_drv_scheme \<Rightarrow> 'a spi_drv_scheme option" where
  "pi_spi_receive_async_with_ucode cs data len flags task s = None"

definition pi_spi_send_async_with_ucode :: "u32 \<Rightarrow> u32 \<Rightarrow> u32 \<Rightarrow> u32 \<Rightarrow> u32 \<Rightarrow> 'a spi_drv_scheme \<Rightarrow> 'a spi_drv_scheme option" where
  "pi_spi_send_async_with_ucode cs data len flags task s = None"

definition pi_spim_exec_next_transfer :: "u32 \<Rightarrow> 'a spi_drv_scheme \<Rightarrow> 'a spi_drv_scheme option" where
  "pi_spim_exec_next_transfer task s =
     (let a = t_data (task_at s task) in
      if a 5 = 1 then pi_spi_send_async (a 0) (a 1) (a 2) (a 3) (a 4) s
      else if a 5 = 0 then pi_spi_receive_async (a 0) (a 1) (a 2) (a 3) (a 4) s
      else pi_spi_xfer_async (a 0) (a 5) (a 1) (a 2) (a 3) (a 4) s)"

subsection \<open>Interrupt handlers\<close>

definition spim_eot_handler :: "u32 \<Rightarrow> 'a spi_drv_scheme \<Rightarrow> 'a spi_drv_scheme option" where
  "spim_eot_handler event s =
     (let periph_id = event - SOC_EVENT_UDMA_SPIM_EOT 0 in
      if \<not> unat periph_id < length (g_spim_drv_data s) then None
      else let d = g_spim_drv_data s ! unat periph_id in
      if d = 0 then None
      else if sp_repeat_transfer (spim_data_at s d) \<noteq> 0 then Some s
      else let task = sp_end_of_transfer (spim_data_at s d) in
        Option.bind
          (if task \<noteq> 0
           then map_option (upd_spim d (\<lambda>x. x\<lparr>sp_end_of_transfer := 0\<rparr>))
                  (if t_id (task_at s task) = PI_TASK_NONE_ID then pi_task_release task s else Some s)
           else Some s)
          (\<lambda>s. let (task, s) = pi_spim_drv_fifo_pop d s in
               if task \<noteq> 0 then pi_spim_exec_next_transfer task s else Some s))"

definition spim_tx_handler :: "u32 \<Rightarrow> 'a spi_drv_scheme \<Rightarrow> 'a spi_drv_scheme option" where
  "spim_tx_handler event s =
     (let periph_id = drop_bit UDMA_CHANNEL_NB_EVENTS_LOG2 event - UDMA_SPIM_ID 0;
          s = hal_soc_eu_clear_fc_mask (sint (SOC_EVENT_UDMA_SPIM_TX periph_id)) s in
      spim_eot_handler (SOC_EVENT_UDMA_SPIM_EOT 0 + periph_id) s)"

definition spim_rx_handler :: "u32 \<Rightarrow> 'a spi_drv_scheme \<Rightarrow> 'a spi_drv_scheme option" where
  "spim_rx_handler event s =
     (let periph_id = drop_bit UDMA_CHANNEL_NB_EVENTS_LOG2 event - UDMA_SPIM_ID 0;
          s = hal_soc_eu_clear_fc_mask (sint (SOC_EVENT_UDMA_SPIM_RX periph_id)) s in
      spim_eot_handler (SOC_EVENT_UDMA_SPIM_EOT 0 + periph_id) s)"

subsection \<open>Opening and closing\<close>

definition pi_spi_open :: "u32 \<Rightarrow> u32 \<Rightarrow> u32 \<Rightarrow> u32 \<Rightarrow> u32 \<Rightarrow> pi_spi_conf \<Rightarrow> 'a spi_drv_scheme \<Rightarrow> (int \<times> 'a spi_drv_scheme) option" where
  "pi_spi_open periph_freq chunk_drv chunk_fifo chunk_cs device conf s =
     (let (irq, s) = disable_irq s;
          i = word_of_int (sc_itf conf) :: u32;
          s = udma_ctrl_cg_disable (UDMA_SPIM_ID i) s;
          s = hal_soc_eu_set_fc_mask (sint (SOC_EVENT_UDMA_SPIM_EOT i)) s in
      Option.bind (pi_fc_event_handler_set (SOC_EVENT_UDMA_SPIM_EOT i) (Some (FC_handler H_spim_eot)) s) (\<lambda>s.
      Option.bind (pi_fc_event_handler_set (SOC_EVENT_UDMA_SPIM_TX i) (Some (FC_handler H_spim_tx)) s) (\<lambda>s.
      Option.bind (pi_fc_event_handler_set (SOC_EVENT_UDMA_SPIM_RX i) (Some (FC_handler H_spim_rx)) s) (\<lambda>s.
      if \<not> (0 \<le> sc_itf conf \<and> nat (sc_itf conf) < length (g_spim_drv_data s)) then None
      else
      Option.bind
        (if g_spim_drv_data s ! nat (sc_itf conf) \<noteq> 0 then Some (g_spim_drv_data s ! nat (sc_itf conf), s)
         else if chunk_drv = 0 \<or> chunk_fifo = 0 then None
         else let s = s\<lparr>g_spim_drv_data := (g_spim_drv_data s)[nat (sc_itf conf) := chunk_drv]\<rparr>;
                  s = upd_spim chunk_drv (\<lambda>_. \<lparr>sp_drv_fifo = chunk_fifo, sp_cs_list = 0, sp_repeat_transfer = 0,
                        sp_end_of_transfer = 0, sp_nb_open = 0, sp_device_id = word_of_int (sc_itf conf)\<rparr>) s;
                  s = upd_spim_fifo chunk_fifo (\<lambda>_. \<lparr>sf_head = 0, sf_tail = 0\<rparr>) s in
              Some (chunk_drv, s))
        (\<lambda>(d, s).
      let s = upd_spim d (\<lambda>x. x\<lparr>sp_nb_open := sp_nb_open x + 1\<rparr>) s in
      Option.bind (pi_spim_get_cs_data d (sc_cs conf) s) (\<lambda>cs.
      let s = s\<lparr>dev_data := (dev_data s)(device := cs)\<rparr> in
      if cs \<noteq> 0 then Some (0, restore_irq irq s)
      else
      Option.bind (pi_spi_clk_div_get periph_freq (sc_max_baudrate conf)) (\<lambda>clk_div.
      if chunk_cs = 0 then Some (-2, restore_irq irq s)
      else if clk_div > 0xFF then Some (-3, restore_irq irq s)
      else
        let s = upd_cs chunk_cs (\<lambda>_. \<lparr>cs_next = 0, cs_drv_data = 0,
                  cs_cfg = SPI_CMD_CFG clk_div (sc_phase conf) (sc_polarity conf), cs_udma_cmd = \<lambda>_. 0,
                  cs_max_baudrate = sc_max_baudrate conf, cs_polarity = sc_polarity conf, cs_phase = sc_phase conf,
                  cs_num = word_of_int (sc_cs conf), cs_wordsize = sc_wordsize conf, cs_big_endian = sc_big_endian conf\<rparr>) s;
            s = s\<lparr>dev_data := (dev_data s)(device := chunk_cs)\<rparr>;
            s = pi_spim_cs_data_add d chunk_cs s in
        Some (0, restore_irq irq s))))))))"

definition pi_spi_close :: "u32 \<Rightarrow> 'a spi_drv_scheme \<Rightarrow> 'a spi_drv_scheme option" where
  "pi_spi_close device s =
     (let (irq, s) = disable_irq s;
          cs = dev_data s device in
      if cs = 0 then None
      else let d = cs_drv_data (spim_cs_at s cs) in
      if d = 0 then None
      else Option.bind (pi_spim_cs_data_del d (uint (cs_num (spim_cs_at s cs))) s) (\<lambda>s.
        let s = upd_spim d (\<lambda>x. x\<lparr>sp_nb_open := sp_nb_open x - 1\<rparr>) s;
            i = ucast (sp_device_id (spim_data_at s d)) in
        if sp_nb_open (spim_data_at s d) = 0
        then let s = udma_ctrl_cg_enable (UDMA_SPIM_ID i) s;
                 s = hal_soc_eu_clear_fc_mask (sint (SOC_EVENT_UDMA_SPIM_EOT i)) s in
             Option.bind (pi_fc_event_handler_clear (SOC_EVENT_UDMA_SPIM_EOT i) s) (\<lambda>s.
             if \<not> unat (sp_device_id (spim_data_at s d)) < length (g_spim_drv_data s) then None
             else let s = s\<lparr>g_spim_drv_data := (g_spim_drv_data s)[unat (sp_device_id (spim_data_at s d)) := 0]\<rparr>;
                      s = os (OS_Free (sp_drv_fifo (spim_data_at s d))) s;
                      s = os (OS_Free d) s in
                  Some (restore_irq irq s))
        else Some (restore_irq irq (os (OS_Free cs) s))))"

subsection \<open>Blocking calls\<close>

definition pi_spi_send :: "('a spi_drv_scheme \<Rightarrow> 'a spi_drv_scheme) \<Rightarrow> (os_call list \<Rightarrow> u32) \<Rightarrow> u32 \<Rightarrow> u32 \<Rightarrow> u32 \<Rightarrow> u32 \<Rightarrow> u32 \<Rightarrow>
    'a spi_drv_scheme \<Rightarrow> 'a spi_drv_scheme option" where
  "pi_spi_send env create task_block device data len flag s =
     (let s = pi_task_block create task_block s in
      Option.bind (pi_spi_send_async (dev_data s device) data len flag task_block s) (\<lambda>s.
      map_option (pi_task_destroy task_block) (pi_task_wait_on env task_block s)))"

definition pi_spi_receive :: "('a spi_drv_scheme \<Rightarrow> 'a spi_drv_scheme) \<Rightarrow> (os_call list \<Rightarrow> u32) \<Rightarrow> u32 \<Rightarrow> u32 \<Rightarrow> u32 \<Rightarrow> u32 \<Rightarrow> u32 \<Rightarrow>
    'a spi_drv_scheme \<Rightarrow> 'a spi_drv_scheme option" where
  "pi_spi_receive env create task_block device data len flag s =
     (let s = pi_task_block create task_block s in
      Option.bind (pi_spi_receive_async (dev_data s device) data len flag task_block s) (\<lambda>s.
      map_option (pi_task_destroy task_block) (pi_task_wait_on env task_block s)))"

definition pi_spi_transfer :: "('a spi_drv_scheme \<Rightarrow> 'a spi_drv_scheme) \<Rightarrow> (os_call list \<Rightarrow> u32) \<Rightarrow> u32 \<Rightarrow> u32 \<Rightarrow> u32 \<Rightarrow> u32 \<Rightarrow> u32 \<Rightarrow> u32 \<Rightarrow>
    'a spi_drv_scheme \<Rightarrow> 'a spi_drv_scheme option" where
  "pi_spi_transfer env create task_block device tx_data rx_data len flag s =
     (let s = pi_task_block create task_block s in
      Option.bind (pi_spi_xfer_async (dev_data s device) tx_data rx_data len flag task_block s) (\<lambda>s.
      map_option (pi_task_destroy task_block) (pi_task_wait_on env task_block s)))"

subsection \<open>Calls on a device that start a transfer or do nothing\<close>

definition spi_dev_send_async :: "u32 \<Rightarrow> u32 \<Rightarrow> u32 \<Rightarrow> u32 \<Rightarrow> u32 \<Rightarrow> 'a spi_drv_scheme \<Rightarrow> 'a spi_drv_scheme option" where
  "spi_dev_send_async device data len flag task s = pi_spi_send_async (dev_data s device) data len flag task s"

definition spi_dev_receive_async :: "u32 \<Rightarrow> u32 \<Rightarrow> u32 \<Rightarrow> u32 \<Rightarrow> u32 \<Rightarrow> 'a spi_drv_scheme \<Rightarrow> 'a spi_drv_scheme option" where
  "spi_dev_receive_async device data len flag task s = pi_spi_receive_async (dev_data s device) data len flag task s"

definition spi_dev_transfer_async :: "u32 \<Rightarrow> u32 \<Rightarrow> u32 \<Rightarrow> u32 \<Rightarrow> u32 \<Rightarrow> u32 \<Rightarrow> 'a spi_drv_scheme \<Rightarrow> 'a spi_drv_scheme option" where
  "spi_dev_transfer_async device tx_data rx_data len flag task s = pi_spi_xfer_async (dev_data s device) tx_data rx_data len flag task s"

definition pi_spi_receive_with_ucode :: "('a spi_drv_scheme \<Rightarrow> 'a spi_drv_scheme) \<Rightarrow> (os_call list \<Rightarrow> u32) \<Rightarrow> u32 \<Rightarrow> u32 \<Rightarrow> u32 \<Rightarrow> u32 \<Rightarrow> u32 \<Rightarrow>
    'a spi_drv_scheme \<Rightarrow> 'a spi_drv_scheme option" where
  "pi_spi_receive_with_ucode env create task_block device data len flags s =
     (let s = pi_task_block create task_block s in
      Option.bind (pi_spi_receive_async_with_ucode (dev_data s device) data len flags task_block s) (\<lambda>s.
      map_option (pi_task_destroy task_block) (pi_task_wait_on env task_block s)))"

definition pi_spi_send_with_ucode :: "('a spi_drv_scheme \<Rightarrow> 'a spi_drv_scheme) \<Rightarrow> (os_call list \<Rightarrow> u32) \<Rightarrow> u32 \<Rightarrow> u32 \<Rightarrow> u32 \<Rightarrow> u32 \<Rightarrow> u32 \<Rightarrow>
    'a spi_drv_scheme \<Rightarrow> 'a spi_drv_scheme option" where
  "pi_spi_send_with_ucode env create task_block device data len flags s =
     (let s = pi_task_block create task_block s in
      Option.bind (pi_spi_send_async_with_ucode (dev_data s device) data len flags task_block s) (\<lambda>s.
      map_option (pi_task_destroy task_block) (pi_task_wait_on env task_block s)))"

definition spi_cs_get_config :: "u32 \<Rightarrow> 'a spi_drv_scheme \<Rightarrow> u32" where
  "spi_cs_get_config cs_data s = cs_cfg (spim_cs_at s cs_data)"

definition pi_spi_ioctl :: "u32 \<Rightarrow> u32 \<Rightarrow> u32 \<Rightarrow> 'a spi_drv_scheme \<Rightarrow> 'a spi_drv_scheme" where
  "pi_spi_ioctl device cmd arg s = s"

end
