(* ===== verification/SpiProps.thy ===== *)
theory SpiProps
  imports Spi Service
begin

text \<open>
  Properties of the SPI master driver: its queue, what a transfer request and the end of a
  transfer do, the command words, and the clock divider.
\<close>

lemma spi_frame [simp]:
  "task_at (upd_cs p f s) = task_at s" "task_at (upd_spim p g s) = task_at s" "task_at (upd_spim_fifo p h s) = task_at s"
  "regs (upd_cs p f s) = regs s" "regs (upd_spim p g s) = regs s" "regs (upd_spim_fifo p h s) = regs s"
  "csrs (upd_cs p f s) = csrs s" "csrs (upd_spim p g s) = csrs s" "csrs (upd_spim_fifo p h s) = csrs s"
  "spim_cs_at (upd_cs p f s) = (spim_cs_at s)(p := f (spim_cs_at s p))" "spim_cs_at (upd_spim p g s) = spim_cs_at s"
  "spim_cs_at (upd_spim_fifo p h s) = spim_cs_at s"
  "spim_data_at (upd_cs p f s) = spim_data_at s" "spim_data_at (upd_spim p g s) = (spim_data_at s)(p := g (spim_data_at s p))"
  "spim_data_at (upd_spim_fifo p h s) = spim_data_at s"
  "spim_fifo_at (upd_cs p f s) = spim_fifo_at s" "spim_fifo_at (upd_spim p g s) = spim_fifo_at s"
  "spim_fifo_at (upd_spim_fifo p h s) = (spim_fifo_at s)(p := h (spim_fifo_at s p))"
  "g_spim_drv_data (upd_cs p f s) = g_spim_drv_data s" "g_spim_drv_data (upd_spim p g s) = g_spim_drv_data s"
  "g_spim_drv_data (upd_spim_fifo p h s) = g_spim_drv_data s"
  "os_log (upd_cs p f s) = os_log s" "os_log (upd_spim p g s) = os_log s" "os_log (upd_spim_fifo p h s) = os_log s"
  by (simp_all add: upd_cs_def upd_spim_def upd_spim_fifo_def)

lemma spi_frame2 [simp]:
  "spim_cs_at (upd_task p f s) = spim_cs_at s" "spim_data_at (upd_task p f s) = spim_data_at s"
  "spim_fifo_at (upd_task p f s) = spim_fifo_at s" "g_spim_drv_data (upd_task p f s) = g_spim_drv_data s"
  "spim_cs_at (writew v a s) = spim_cs_at s" "spim_data_at (writew v a s) = spim_data_at s"
  "spim_fifo_at (writew v a s) = spim_fifo_at s" "g_spim_drv_data (writew v a s) = g_spim_drv_data s"
  "spim_cs_at (snd (disable_irq s)) = spim_cs_at s" "spim_data_at (snd (disable_irq s)) = spim_data_at s"
  "spim_fifo_at (snd (disable_irq s)) = spim_fifo_at s" "g_spim_drv_data (snd (disable_irq s)) = g_spim_drv_data s"
  "spim_cs_at (restore_irq w s) = spim_cs_at s" "spim_data_at (restore_irq w s) = spim_data_at s"
  "spim_fifo_at (restore_irq w s) = spim_fifo_at s" "g_spim_drv_data (restore_irq w s) = g_spim_drv_data s"
  "spim_cs_at (os c s) = spim_cs_at s" "spim_data_at (os c s) = spim_data_at s"
  "spim_fifo_at (os c s) = spim_fifo_at s" "g_spim_drv_data (os c s) = g_spim_drv_data s"
  by (simp_all add: upd_task_def os_def writew_def disable_irq_def csr_read_clear_def restore_irq_def csr_write_def)

lemma next_of_spi [simp]:
  "next_of (upd_cs p f u) = next_of u" "next_of (upd_spim p g u) = next_of u" "next_of (upd_spim_fifo p h u) = next_of u"
  by (rule ext, simp add: next_of_def)+

definition spi_queue :: "u32 \<Rightarrow> 'a spi_drv_scheme \<Rightarrow> u32 list \<Rightarrow> bool" where
  "spi_queue d s q \<longleftrightarrow> (let f = spim_fifo_at s (sp_drv_fifo (spim_data_at s d)) in fifo_rep (next_of s) (sf_head f) (sf_tail f) q)"

lemma spi_enqueue_queue:
  assumes "spi_queue d s q" "cs_drv_data (spim_cs_at s cs) = d" "t \<noteq> 0" "t \<notin> set q"
  shows "spi_queue d (snd (pi_spim_drv_fifo_enqueue cs tr t s)) (q @ [t])"
proof -
  let ?f = "spim_fifo_at s (sp_drv_fifo (spim_data_at s d))"
  have 0: "fifo_rep ((next_of s)(t := 0)) (sf_head ?f) (sf_tail ?f) q"
    using assms(1) by (simp add: spi_queue_def Let_def fifo_rep_set_next [OF assms(4)])
  show ?thesis
  proof (cases "q = []")
    case True
    then have "sf_head ?f = 0" using 0 by simp
    then show ?thesis using True assms(2,3) fifo_rep_append(1) [OF 0 assms(3,4)]
      by (simp add: spi_queue_def pi_spim_drv_fifo_enqueue_def Let_def case_prod_beta next_of_upd)
  next
    case False
    then have "sf_head ?f \<noteq> 0" using 0 fifo_rep_empty by blast
    then show ?thesis using False assms(2,3) fifo_rep_append(2) [OF 0 assms(3,4)]
      by (simp add: spi_queue_def pi_spim_drv_fifo_enqueue_def Let_def case_prod_beta next_of_upd)
  qed
qed

lemma spi_pop_queue:
  assumes "spi_queue d s q"
  shows "spi_queue d (snd (pi_spim_drv_fifo_pop d s)) (tl q) \<and> fst (pi_spim_drv_fifo_pop d s) = (if q = [] then 0 else hd q)"
proof (cases q)
  case Nil
  then show ?thesis using assms by (simp add: pi_spim_drv_fifo_pop_def Let_def case_prod_beta spi_queue_def)
next
  case (Cons x xs)
  let ?f = "spim_fifo_at s (sp_drv_fifo (spim_data_at s d))"
  have h: "sf_head ?f = x" "fifo_rep (next_of s) (next_of s x) (sf_tail ?f) xs" and x0: "x \<noteq> 0"
    using assms Cons fifo_rep_tl [of "next_of s" "sf_head ?f" "sf_tail ?f" x xs] by (auto simp: spi_queue_def Let_def fifo_rep_def)
  show ?thesis
  proof (cases "next_of s x = 0")
    case True
    then have "xs = []" using h(2) fifo_rep_empty by blast
    then show ?thesis using True h(1) x0 Cons
      by (simp add: pi_spim_drv_fifo_pop_def Let_def case_prod_beta spi_queue_def next_of_def [of s x])
  next
    case False
    then show ?thesis using h x0 Cons
      by (simp add: pi_spim_drv_fifo_pop_def Let_def case_prod_beta spi_queue_def next_of_def [of s x])
  qed
qed

definition spi_inv :: "u32 \<Rightarrow> u32 \<Rightarrow> 'a spi_drv_scheme \<Rightarrow> u32 list \<Rightarrow> bool" where
  "spi_inv cs d s q \<longleftrightarrow> cs_drv_data (spim_cs_at s cs) = d \<and> spi_queue d s q"

interpretation spi: task_fifo "\<lambda>t s. snd (pi_spim_drv_fifo_enqueue cs tr t s)" "pi_spim_drv_fifo_pop d" "spi_inv cs d" for cs d tr
proof
  show "spi_inv cs d (snd (pi_spim_drv_fifo_enqueue cs tr t s)) (q @ [t])" if "spi_inv cs d s q" "t \<noteq> 0" "t \<notin> set q"
    for s :: "'a spi_drv_scheme" and q t
  proof -
    have "spim_cs_at (snd (pi_spim_drv_fifo_enqueue cs tr t s)) = spim_cs_at s"
      by (simp add: pi_spim_drv_fifo_enqueue_def Let_def case_prod_beta)
    then show ?thesis using that spi_enqueue_queue [of d s q cs t tr] by (simp add: spi_inv_def)
  qed
  show "fst (pi_spim_drv_fifo_pop d s) = (if q = [] then 0 else hd q) \<and> spi_inv cs d (snd (pi_spim_drv_fifo_pop d s)) (tl q)"
    if "spi_inv cs d s q" for s :: "'a spi_drv_scheme" and q
  proof -
    have "spim_cs_at (snd (pi_spim_drv_fifo_pop d s)) = spim_cs_at s"
      by (simp add: pi_spim_drv_fifo_pop_def Let_def case_prod_beta)
    then show ?thesis using that spi_pop_queue [of d s q] by (simp add: spi_inv_def)
  qed
  show "0 \<notin> set q" if "spi_inv cs d s q" for s :: "'a spi_drv_scheme" and q
    using that chain_nonzero by (auto simp: spi_inv_def spi_queue_def Let_def fifo_rep_def)
qed

subsection \<open>Requests and end of transfer\<close>

lemma spim_enqueue_frame [simp]:
  "task_at (spim_enqueue_channel m a z c ch s) = task_at s" "csrs (spim_enqueue_channel m a z c ch s) = csrs s"
  "os_log (spim_enqueue_channel m a z c ch s) = os_log s" "next_of (spim_enqueue_channel m a z c ch s) = next_of s"
  "spim_cs_at (spim_enqueue_channel m a z c ch u) = spim_cs_at u" "spim_data_at (spim_enqueue_channel m a z c ch u) = spim_data_at u"
  "spim_fifo_at (spim_enqueue_channel m a z c ch u) = spim_fifo_at u" "g_spim_drv_data (spim_enqueue_channel m a z c ch u) = g_spim_drv_data u"
  by (auto simp: spim_enqueue_channel_def udma_enqueue_channel_def Let_def split: udma_channel.split)

definition spim_chan :: "u32 \<Rightarrow> udma_channel \<Rightarrow> u32" where
  "spim_chan m ch = m + (case ch of RX_CHANNEL \<Rightarrow> 0 | TX_CHANNEL \<Rightarrow> 0x10 | COMMAND_CHANNEL \<Rightarrow> 0x20)"

definition spim_program :: "u32 \<Rightarrow> u32 \<Rightarrow> u32 \<Rightarrow> (u32 \<Rightarrow> u32) \<Rightarrow> u32 \<Rightarrow> u32" where
  "spim_program ch buf sz r = r(ch := buf, ch + 4 := sz, ch + 8 := 0x14)"

lemma stream_conf: "spim_stream_conf = 0x14"
  by (simp add: spim_stream_conf_def UDMA_CORE_TX_CFG_EN_def UDMA_CORE_TX_CFG_DATASIZE_def UDMA_CORE_CFG_DATASIZE_32_def)

lemma spim_enqueue_regs: "regs (spim_enqueue_channel m a z spim_stream_conf ch s) = spim_program (spim_chan m ch) a z (regs s)"
  by (cases ch) (simp_all add: spim_enqueue_channel_def enqueue_regs spim_program_def spim_chan_def stream_conf)

definition spi_cmds :: "bool \<Rightarrow> u32 \<Rightarrow> u32 \<Rightarrow> u32 \<Rightarrow> spim_cs_data \<Rightarrow> spim_cs_data" where
  "spi_cmds is_send cfg len flags x = x\<lparr>cs_udma_cmd := (cs_udma_cmd x)(0 := cfg, 1 := SPI_CMD_SOT (ucast (cs_num x)),
     2 := (if is_send then SPI_CMD_TX_DATA else SPI_CMD_RX_DATA) (len div 32) SPI_CMD_1_WORD_PER_TRANSF 32
            (if flags AND push_bit 2 0x3 = PI_SPI_LINES_QUAD then 1 else 0) SPI_CMD_MSB_FIRST,
     3 := SPI_CMD_EOT 1 (if flags AND 0x3 = PI_SPI_CS_KEEP then 1 else 0))\<rparr>"

lemma spi_cmds_drv [simp]: "cs_drv_data (spi_cmds b cfg len flags x) = cs_drv_data x"
  by (simp add: spi_cmds_def)

definition spi_async :: "bool \<Rightarrow> u32 \<Rightarrow> u32 \<Rightarrow> u32 \<Rightarrow> u32 \<Rightarrow> u32 \<Rightarrow> 'a spi_drv_scheme \<Rightarrow> 'a spi_drv_scheme option" where
  "spi_async is_send = (if is_send then pi_spi_send_async else pi_spi_receive_async)"

definition spi_start :: "bool \<Rightarrow> u32 \<Rightarrow> u32 \<Rightarrow> u32 \<Rightarrow> u32 \<Rightarrow> u32 \<Rightarrow> 'a spi_drv_scheme \<Rightarrow> 'a spi_drv_scheme" where
  "spi_start is_send cs data len flags task s =
     (let d = cs_drv_data (spim_cs_at s cs);
          m = UDMA_SPIM (ucast (sp_device_id (spim_data_at s d)));
          s = upd_cs cs (spi_cmds is_send (cs_cfg (spim_cs_at s cs)) len flags) s;
          s = upd_spim d (\<lambda>x. x\<lparr>sp_end_of_transfer := task, sp_repeat_transfer := 0\<rparr>) s in
      if is_send
      then spim_enqueue_channel m data (drop_bit 3 (len + 7)) spim_stream_conf TX_CHANNEL
             (spim_enqueue_channel m (udma_cmd_addr cs) 16 spim_stream_conf COMMAND_CHANNEL s)
      else spim_enqueue_channel m (udma_cmd_addr cs) 16 spim_stream_conf COMMAND_CHANNEL
             (spim_enqueue_channel m data (drop_bit 3 (len + 7)) spim_stream_conf RX_CHANNEL s))"

lemma spi_async_code:
  "\<exists>tr. tr_is_send tr = (if is_send then 1 else 0) \<and> tr_data tr = data \<and> tr_len tr = len \<and> tr_flags tr = flags \<and>
   spi_async is_send cs data len flags task s =
     (let d = cs_drv_data (spim_cs_at s cs) in
      if cs = 0 \<or> d = 0 \<or> len > 8192 * 8 then None
      else Some (restore_irq (csrs s CSR_MSTATUS)
        (if sp_end_of_transfer (spim_data_at s d) = 0 then spi_start is_send cs data len flags task (snd (disable_irq s))
         else snd (pi_spim_drv_fifo_enqueue cs tr task (snd (disable_irq s))))))"
proof -
  let ?tr = "\<lparr>tr_flags = flags, tr_data = data, tr_len = len, tr_cfg_cmd = cs_cfg (spim_cs_at s cs),
     tr_byte_align = (if cs_wordsize (spim_cs_at s cs) = 2 \<and> cs_big_endian (spim_cs_at s cs) \<noteq> 0 then 1 else 0),
     tr_is_send = (if is_send then 1 else 0)\<rparr>"
  show ?thesis
    by (rule exI [of _ ?tr])
      (cases is_send; simp add: spi_async_def pi_spi_send_async_def pi_spi_receive_async_def Let_def case_prod_beta spi_start_def
        spi_cmds_def [abs_def])
qed

definition spi_entry :: "u32 \<Rightarrow> 'a spi_drv_scheme \<Rightarrow> u32 \<Rightarrow> bool" where
  "spi_entry d s t \<longleftrightarrow> (let a = t_data (task_at s t) in a 0 \<noteq> 0 \<and> cs_drv_data (spim_cs_at s (a 0)) = d
     \<and> a 2 \<le> 65536 \<and> a 4 = t \<and> (a 5 = 0 \<or> a 5 = 1))"

definition spi_ok :: "u32 \<Rightarrow> 'a spi_drv_scheme \<Rightarrow> u32 list \<Rightarrow> bool" where
  "spi_ok d s ts \<longleftrightarrow> d \<noteq> 0 \<and> g_spim_drv_data s ! 0 = d \<and> g_spim_drv_data s \<noteq> [] \<and> distinct ts \<and> 0 \<notin> set ts
     \<and> sp_repeat_transfer (spim_data_at s d) = 0 \<and> sp_end_of_transfer (spim_data_at s d) = (if ts = [] then 0 else hd ts)
     \<and> spi_queue d s (tl ts) \<and> (\<forall>t \<in> set (tl ts). spi_entry d s t)"

lemma spi_start_frame [simp]:
  "task_at (spi_start b cs data len flags t s) = task_at s" "csrs (spi_start b cs data len flags t s) = csrs s"
  "spim_fifo_at (spi_start b cs data len flags t s) = spim_fifo_at s" "g_spim_drv_data (spi_start b cs data len flags t s) = g_spim_drv_data s"
  "next_of (spi_start b cs data len flags t s) = next_of s" "os_log (spi_start b cs data len flags t s) = os_log s"
  "spim_data_at (spi_start b cs data len flags t s) = (spim_data_at s)(cs_drv_data (spim_cs_at s cs) :=
     (spim_data_at s (cs_drv_data (spim_cs_at s cs)))\<lparr>sp_end_of_transfer := t, sp_repeat_transfer := 0\<rparr>)"
  "cs_drv_data (spim_cs_at (spi_start b cs data len flags t s) p) = cs_drv_data (spim_cs_at s p)"
  by (simp_all add: spi_start_def Let_def)

lemma spi_enqueue_frame:
  assumes "u = snd (pi_spim_drv_fifo_enqueue cs tr t s)"
  shows "spim_cs_at u = spim_cs_at s" "spim_data_at u = spim_data_at s" "g_spim_drv_data u = g_spim_drv_data s" "csrs u = csrs s"
    "regs u = regs s" "os_log u = os_log s" "t_done (task_at u p) = t_done (task_at s p)" "t_id (task_at u p) = t_id (task_at s p)"
    "t_wait_on (task_at u p) = t_wait_on (task_at s p)" "p \<noteq> t \<Longrightarrow> t_data (task_at u p) = t_data (task_at s p)"
    "t_data (task_at u t) = (t_data (task_at s t))(0 := cs, 1 := tr_data tr, 2 := tr_len tr, 3 := tr_flags tr, 4 := t, 5 := tr_is_send tr)"
  by (simp_all add: assms pi_spim_drv_fifo_enqueue_def Let_def case_prod_beta)

lemma spi_ok_irq [simp]: "spi_ok d (snd (disable_irq s)) ts = spi_ok d s ts" "spi_ok d (restore_irq w s) ts = spi_ok d s ts"
  by (simp_all add: spi_ok_def spi_queue_def spi_entry_def)

lemma spi_submit:
  assumes "spi_ok d s ts" "cs \<noteq> 0" "cs_drv_data (spim_cs_at s cs) = d" "len \<le> 65536" "t \<noteq> 0" "t \<notin> set ts"
  shows "\<exists>u. spi_async b cs data len flags t s = Some u \<and> spi_ok d u (ts @ [t]) \<and> csrs u = csrs s
     \<and> (\<forall>p. t_done (task_at u p) = t_done (task_at s p) \<and> t_id (task_at u p) = t_id (task_at s p) \<and> t_wait_on (task_at u p) = t_wait_on (task_at s p))
     \<and> (\<forall>p. cs_drv_data (spim_cs_at u p) = cs_drv_data (spim_cs_at s p))
     \<and> regs u = (if ts = [] then regs (spi_start b cs data len flags t s) else regs s)"
proof -
  let ?s = "snd (disable_irq s)"
  obtain tr where tr: "tr_is_send tr = (if b then 1 else 0)" "tr_data tr = data" "tr_len tr = len"
    and code: "spi_async b cs data len flags t s = Some (restore_irq (csrs s CSR_MSTATUS)
        (if sp_end_of_transfer (spim_data_at s d) = 0 then spi_start b cs data len flags t ?s else snd (pi_spim_drv_fifo_enqueue cs tr t ?s)))"
    using spi_async_code [of b data len flags cs t s] assms(1-4) by (auto simp: spi_ok_def not_less)
  have e: "sp_end_of_transfer (spim_data_at s d) = 0 \<longleftrightarrow> ts = []" using assms(1) by (cases ts) (auto simp: spi_ok_def)
  show ?thesis
  proof (cases "ts = []")
    case True
    have r: "regs (spi_start b cs data len flags t ?s) = regs (spi_start b cs data len flags t s)"
      by (simp add: spi_start_def Let_def spim_enqueue_regs)
    show ?thesis using True e assms code r
      by (auto simp: spi_ok_def spi_queue_def Let_def)
  next
    case False
    let ?u = "snd (pi_spim_drv_fifo_enqueue cs tr t ?s)"
    note f = spi_enqueue_frame [of ?u cs tr t ?s, OF refl]
    have q: "spi_queue d ?s (tl ts)" using assms(1) by (simp add: spi_ok_def spi_queue_def)
    have nt: "t \<notin> set (tl ts)" using assms(6) by (metis list.set_sel(2) list.sel(2))
    have q': "spi_queue d ?u (tl ts @ [t])" by (rule spi_enqueue_queue [OF q _ assms(5) nt]) (use assms(3) in simp)
    have ent: "spi_entry d ?u p" if "p \<in> set (tl ts)" for p
    proof -
      have "spi_entry d s p" "p \<noteq> t" using that assms(1) nt by (auto simp: spi_ok_def)
      then show ?thesis using f by (simp add: spi_entry_def)
    qed
    have entt: "spi_entry d ?u t" unfolding spi_entry_def f(1,11) using assms tr by (simp add: Let_def)
    have "spi_ok d ?u (ts @ [t])"
      using assms(1,5,6) False q' ent entt f(2,3) by (auto simp: spi_ok_def)
    then show ?thesis using False e code f(1,4-9) by simp
  qed
qed

lemma spi_pop_frame:
  assumes "u = snd (pi_spim_drv_fifo_pop d s)"
  shows "task_at u = task_at s" "spim_cs_at u = spim_cs_at s" "spim_data_at u = spim_data_at s" "g_spim_drv_data u = g_spim_drv_data s"
    "csrs u = csrs s" "regs u = regs s"
  by (simp_all add: assms pi_spim_drv_fifo_pop_def Let_def case_prod_beta)

lemma sem_give_spi [simp]:
  "spim_cs_at (os_native_api_sem_give h s) = spim_cs_at s" "spim_data_at (os_native_api_sem_give h s) = spim_data_at s"
  "spim_fifo_at (os_native_api_sem_give h s) = spim_fifo_at s" "g_spim_drv_data (os_native_api_sem_give h s) = g_spim_drv_data s"
  by (simp_all add: os_native_api_sem_give_def Let_def case_prod_beta)

definition spi_finished :: "'a soc_scheme \<Rightarrow> u32 \<Rightarrow> pi_task" where
  "spi_finished s t = (task_at s t)\<lparr>t_done := (if t_id (task_at s t) = PI_TASK_NONE_ID then 1 else t_done (task_at s t))\<rparr>"

lemma spi_finish:
  assumes "can_release s t"
  shows "\<exists>v. (if t_id (task_at s t) = PI_TASK_NONE_ID then pi_task_release t s else Some s) = Some v
    \<and> task_at v = (task_at s)(t := spi_finished s t)
    \<and> spim_cs_at v = spim_cs_at s \<and> spim_data_at v = spim_data_at s \<and> spim_fifo_at v = spim_fifo_at s
    \<and> g_spim_drv_data v = g_spim_drv_data s \<and> csrs v = csrs s \<and> regs v = regs s"
  unfolding release_eq [OF assms]
  by (cases "t_id (task_at s t) = PI_TASK_NONE_ID"; cases "sem_object (t_wait_on (task_at s t)) = 0")
    (simp_all add: spi_finished_def task_at_upd_task)

lemma exec_next:
  assumes "spi_entry d s t" "d \<noteq> 0" "sp_end_of_transfer (spim_data_at s d) = 0"
  shows "pi_spim_exec_next_transfer t s = Some (restore_irq (csrs s CSR_MSTATUS)
     (let a = t_data (task_at s t) in spi_start (a 5 = 1) (a 0) (a 1) (a 2) (a 3) t (snd (disable_irq s))))"
proof -
  let ?a = "t_data (task_at s t)"
  have e: "?a 0 \<noteq> 0" "cs_drv_data (spim_cs_at s (?a 0)) = d" "\<not> ?a 2 > 8192 * 8" "?a 4 = t" "?a 5 = 0 \<or> ?a 5 = 1"
    using assms(1) by (auto simp: spi_entry_def Let_def)
  have "pi_spim_exec_next_transfer t s = spi_async (?a 5 = 1) (?a 0) (?a 1) (?a 2) (?a 3) t s"
    using e(4,5) by (auto simp: pi_spim_exec_next_transfer_def spi_async_def Let_def)
  then show ?thesis using spi_async_code [of "?a 5 = 1" "?a 1" "?a 2" "?a 3" "?a 0" t s] e assms(2,3) by (auto simp: Let_def)
qed

lemma spi_end:
  assumes "spi_ok d s (t # ts)" "can_release s t"
  shows "\<exists>u. spim_eot_handler (SOC_EVENT_UDMA_SPIM_EOT 0) s = Some u \<and> spi_ok d u ts \<and> csrs u = csrs s
     \<and> (\<forall>p. task_at u p = (if p = t then spi_finished s t else task_at s p))
     \<and> (\<forall>p. cs_drv_data (spim_cs_at u p) = cs_drv_data (spim_cs_at s p))
     \<and> regs u = (if ts = [] then regs s
          else let a = t_data (task_at s (hd ts)) in regs (spi_start (a 5 = 1) (a 0) (a 1) (a 2) (a 3) (hd ts) s))"
proof -
  have ok: "d \<noteq> 0" "g_spim_drv_data s ! 0 = d" "g_spim_drv_data s \<noteq> []" "t \<noteq> 0" "t \<notin> set ts" "distinct ts" "0 \<notin> set ts"
      "sp_repeat_transfer (spim_data_at s d) = 0" "sp_end_of_transfer (spim_data_at s d) = t" "spi_queue d s ts"
      "\<And>x. x \<in> set ts \<Longrightarrow> spi_entry d s x"
    using assms(1) by (auto simp: spi_ok_def)
  obtain v where v: "(if t_id (task_at s t) = PI_TASK_NONE_ID then pi_task_release t s else Some s) = Some v"
    "task_at v = (task_at s)(t := spi_finished s t)"
    "spim_cs_at v = spim_cs_at s" "spim_data_at v = spim_data_at s" "spim_fifo_at v = spim_fifo_at s"
    "g_spim_drv_data v = g_spim_drv_data s" "csrs v = csrs s" "regs v = regs s"
    using spi_finish [OF assms(2)] by blast
  let ?w = "upd_spim d (\<lambda>x. x\<lparr>sp_end_of_transfer := 0\<rparr>) v"
  have nx: "next_of v = next_of s" by (rule ext) (simp add: next_of_def v(2) spi_finished_def)
  have qw: "spi_queue d ?w ts" using ok(10) by (simp add: spi_queue_def nx v)
  let ?p = "snd (pi_spim_drv_fifo_pop d ?w)"
  have pop: "fst (pi_spim_drv_fifo_pop d ?w) = (if ts = [] then 0 else hd ts)" "spi_queue d ?p (tl ts)"
    using spi_pop_queue [OF qw] by simp_all
  note pf = spi_pop_frame [of ?p d ?w, OF refl]
  have code: "spim_eot_handler (SOC_EVENT_UDMA_SPIM_EOT 0) s = (if ts = [] then Some ?p else pi_spim_exec_next_transfer (hd ts) ?p)"
    using ok(1-4,7,8,9) pop(1) v(1) by (cases ts) (simp_all add: spim_eot_handler_def Let_def case_prod_beta map_option_case)
  have ent: "spi_entry d ?p x" if "x \<in> set ts" for x
    using ok(11) [OF that] ok(5) that by (auto simp: spi_entry_def pf v(2,3) Let_def)
  show ?thesis
  proof (cases ts)
    case Nil
    then show ?thesis using code pop(2) ok by (auto simp: spi_ok_def pf v)
  next
    case (Cons n ns)
    let ?a = "t_data (task_at s n)"
    let ?u = "spi_start (?a 5 = 1) (?a 0) (?a 1) (?a 2) (?a 3) n (snd (disable_irq ?p))"
    have nt: "n \<noteq> t" using ok(5) Cons by auto
    have en: "spi_entry d ?p n" using ent Cons by simp
    have dn: "cs_drv_data (spim_cs_at s (?a 0)) = d" using en nt by (simp add: spi_entry_def pf v Let_def)
    have ex: "pi_spim_exec_next_transfer n ?p = Some (restore_irq (csrs s CSR_MSTATUS) ?u)"
      using exec_next [OF en ok(1)] nt by (simp add: pf v Let_def)
    have r: "regs ?u = regs (spi_start (?a 5 = 1) (?a 0) (?a 1) (?a 2) (?a 3) n s)"
      using dn by (simp add: spi_start_def Let_def spim_enqueue_regs pf v)
    have "spi_queue d ?u ns" using pop(2) Cons dn by (simp add: spi_queue_def pf v Let_def)
    moreover have "spi_entry d ?u x" if "x \<in> set ns" for x using ent [of x] that Cons by (simp add: spi_entry_def)
    ultimately have "spi_ok d ?u ts" using ok(1-9) Cons dn by (auto simp: spi_ok_def pf v)
    moreover have "spim_eot_handler (SOC_EVENT_UDMA_SPIM_EOT 0) s = Some (restore_irq (csrs s CSR_MSTATUS) ?u)"
      using code ex Cons by simp
    moreover have "csrs (restore_irq (csrs s CSR_MSTATUS) ?u) = csrs s" by (simp add: pf v)
    moreover have "\<forall>p. task_at ?u p = (if p = t then spi_finished s t else task_at s p)" by (simp add: pf v)
    moreover have "\<forall>p. cs_drv_data (spim_cs_at ?u p) = cs_drv_data (spim_cs_at s p)" by (simp add: pf v)
    ultimately show ?thesis using r Cons by (intro exI [of _ "restore_irq (csrs s CSR_MSTATUS) ?u"]) (simp add: Let_def)
  qed
qed

subsection \<open>The driver as a machine\<close>

datatype spi_event = Spi_submit bool u32 u32 u32 u32 u32 | Spi_end

definition spi_handlers :: "drv_handler \<Rightarrow> u32 \<Rightarrow> 'a spi_drv_scheme \<Rightarrow> 'a spi_drv_scheme option" where
  "spi_handlers h ev s = (if h = H_spim_eot then spim_eot_handler ev s else if h = H_spim_tx then spim_tx_handler ev s
     else if h = H_spim_rx then spim_rx_handler ev s else None)"

fun spi_step :: "bool \<Rightarrow> spi_event \<Rightarrow> 'a spi_drv_scheme \<Rightarrow> 'a spi_drv_scheme option" where
  "spi_step clic (Spi_submit is_send cs data len flags t) s =
     (if is_send then pi_spi_send_async cs data len flags t s else pi_spi_receive_async cs data len flags t s)"
| "spi_step clic Spi_end s = soc_irq clic spi_handlers (SOC_EVENT_UDMA_SPIM_EOT 0) s"

text \<open>
  The specification of one event: a first-in first-out queue of tasks. A request joins it; the end of a transfer
  takes its first task. spi_may says which events the users and the hardware may give.
\<close>

fun spi_does :: "spi_event \<Rightarrow> u32 list \<Rightarrow> u32 list \<times> u32 list" where
  "spi_does (Spi_submit _ _ _ _ _ t) ts = ([], ts @ [t])"
| "spi_does Spi_end ts = (take 1 ts, tl ts)"

fun spi_wants :: "spi_event \<Rightarrow> u32 list" where
  "spi_wants (Spi_submit _ _ _ _ _ t) = [t]" | "spi_wants Spi_end = []"

fun spi_may :: "u32 \<Rightarrow> 'a spi_drv_scheme \<Rightarrow> spi_event \<Rightarrow> u32 list \<Rightarrow> bool" where
  "spi_may d s (Spi_submit _ cs _ len _ t) ts \<longleftrightarrow> cs \<noteq> 0 \<and> cs_drv_data (spim_cs_at s cs) = d \<and> len \<le> 65536
     \<and> t \<noteq> 0 \<and> t \<notin> set ts \<and> can_release s t"
| "spi_may d s Spi_end ts \<longleftrightarrow> True"

abbreviation spi_run :: "bool \<Rightarrow> spi_event list \<Rightarrow> 'a spi_drv_scheme \<Rightarrow> 'a spi_drv_scheme option" where
  "spi_run clic \<equiv> steps (spi_step clic)"
abbreviation spi_spec :: "spi_event list \<Rightarrow> u32 list \<Rightarrow> u32 list \<times> u32 list" where
  "spi_spec \<equiv> spec_steps spi_does"
abbreviation spi_valid :: "u32 \<Rightarrow> 'a spi_drv_scheme \<Rightarrow> spi_event list \<Rightarrow> u32 list \<Rightarrow> bool" where
  "spi_valid d s \<equiv> all_allowed (spi_may d s) spi_does"
abbreviation spi_asked :: "spi_event list \<Rightarrow> u32 list" where
  "spi_asked es \<equiv> concat (map spi_wants es)"

definition spi_same :: "'a spi_drv_scheme \<Rightarrow> 'a spi_drv_scheme \<Rightarrow> bool" where
  "spi_same s u \<longleftrightarrow> csrs u = csrs s \<and> (\<forall>p. cs_drv_data (spim_cs_at u p) = cs_drv_data (spim_cs_at s p))
     \<and> (\<forall>p. t_id (task_at u p) = t_id (task_at s p) \<and> t_wait_on (task_at u p) = t_wait_on (task_at s p)
          \<and> (t_done (task_at s p) = 1 \<longrightarrow> t_done (task_at u p) = 1))"

definition spi_serving :: "u32 \<Rightarrow> 'a spi_drv_scheme \<Rightarrow> u32 list \<Rightarrow> bool" where
  "spi_serving d s ts \<longleftrightarrow> spi_ok d s ts \<and> (\<forall>t \<in> set ts. can_release s t) \<and> installed H_spim_eot (SOC_EVENT_UDMA_SPIM_EOT 0) s"

lemma spi_same_release: "spi_same s u \<Longrightarrow> can_release u t = can_release s t"
  by (simp add: spi_same_def can_release_def)

lemma spi_upd_handlers [simp]:
  "fc_event_handlers (upd_cs p f s) = fc_event_handlers s" "fc_event_handlers (upd_spim p g s) = fc_event_handlers s"
  "fc_event_handlers (upd_spim_fifo p h s) = fc_event_handlers s"
  by (simp_all add: upd_cs_def upd_spim_def upd_spim_fifo_def)

lemma spim_enqueue_handlers: "fc_event_handlers (spim_enqueue_channel m d z cfg c s) = fc_event_handlers (s :: 'a soc_scheme)"
  by (simp add: spim_enqueue_channel_def udma_enqueue_channel_def Let_def split: udma_channel.split)

lemma spi_start_handlers: "fc_event_handlers (spi_start b cs data len flags t s) = fc_event_handlers s"
  by (simp add: spi_start_def Let_def spim_enqueue_handlers)

lemma fifo_enqueue_handlers: "fc_event_handlers (snd (pi_spim_drv_fifo_enqueue cs tr t s)) = fc_event_handlers s"
  by (simp add: pi_spim_drv_fifo_enqueue_def Let_def case_prod_beta)

lemma spi_async_handlers: "spi_async b cs data len flags t s = Some u \<Longrightarrow> fc_event_handlers u = fc_event_handlers s"
  using spi_async_code [of b data len flags cs t s] by (auto simp: Let_def spi_start_handlers fifo_enqueue_handlers split: if_splits)

lemma spim_eot_handlers: "spim_eot_handler ev s = Some u \<Longrightarrow> fc_event_handlers u = fc_event_handlers s"
proof -
  have a: "pi_spi_send_async cs data len flags t s = Some u \<Longrightarrow> fc_event_handlers u = fc_event_handlers s"
    "pi_spi_receive_async cs data len flags t s = Some u \<Longrightarrow> fc_event_handlers u = fc_event_handlers s" for cs data len flags t s u
    using spi_async_handlers [of True cs data len flags t s u] spi_async_handlers [of False cs data len flags t s u] by (simp_all add: spi_async_def)
  have x: "pi_spim_exec_next_transfer t s = Some u \<Longrightarrow> fc_event_handlers u = fc_event_handlers s" for t s u
    using a by (auto simp: pi_spim_exec_next_transfer_def pi_spi_xfer_async_def Let_def split: if_splits)
  have p: "fc_event_handlers (snd (pi_spim_drv_fifo_pop d s)) = fc_event_handlers s" for d s
    by (simp add: pi_spim_drv_fifo_pop_def Let_def case_prod_beta)
  have r: "pi_task_release t s = Some u \<Longrightarrow> fc_event_handlers u = fc_event_handlers s" for t and s u :: "'a spi_drv_scheme"
    by (auto simp: pi_task_release_def pi_sem_give_def os_native_api_sem_give_def Let_def case_prod_beta split: if_splits)
  show "spim_eot_handler ev s = Some u \<Longrightarrow> fc_event_handlers u = fc_event_handlers s"
    by (auto simp: spim_eot_handler_def Let_def case_prod_beta bind_eq_Some_conv p dest!: x r split: if_splits)
qed

lemma spi_ok_event [simp]: "spi_ok d (soc_event clic ev s) ts = spi_ok d s ts"
  by (simp add: spi_ok_def spi_queue_def spi_entry_def soc_event_def next_of_def [abs_def])

lemma spi_same_event [simp]: "spi_same (soc_event clic ev s) u = spi_same s u"
  by (simp add: spi_same_def) (simp add: soc_event_def)

lemma spi_end_idle:
  assumes "spi_ok d s []"
  shows "\<exists>u. spim_eot_handler (SOC_EVENT_UDMA_SPIM_EOT 0) s = Some u \<and> spi_ok d u [] \<and> spi_same s u"
proof -
  let ?p = "snd (pi_spim_drv_fifo_pop d s)"
  have "spi_queue d s []" using assms by (simp add: spi_ok_def)
  from spi_pop_queue [OF this] have p: "fst (pi_spim_drv_fifo_pop d s) = 0" "spi_queue d ?p []" by simp_all
  note f = spi_pop_frame [of ?p d s, OF refl]
  have "spim_eot_handler (SOC_EVENT_UDMA_SPIM_EOT 0) s = Some ?p"
    using assms p(1) by (simp add: spim_eot_handler_def spi_ok_def Let_def case_prod_beta)
  then show ?thesis using assms p(2) f by (simp add: spi_ok_def spi_same_def)
qed

lemma spi_step_law:
  assumes "spi_serving d s ts" "spi_may d s e ts"
  shows "\<exists>u. spi_step clic e s = Some u \<and> spi_serving d u (snd (spi_does e ts)) \<and> spi_same s u
    \<and> (\<forall>t \<in> set (fst (spi_does e ts)). released u t)"
proof (cases e)
  case (Spi_submit b cs data len flags t)
  then obtain u where u: "spi_async b cs data len flags t s = Some u" "spi_ok d u (ts @ [t])" "spi_same s u"
    using spi_submit [of d s ts cs len t b data flags] assms by (auto simp: spi_same_def spi_serving_def)
  then show ?thesis using Spi_submit assms spi_same_release [OF u(3)] installed_same [OF spi_async_handlers [OF u(1)]]
    by (intro exI [of _ u]) (auto simp: spi_async_def spi_serving_def)
next
  case Spi_end
  let ?ev = "SOC_EVENT_UDMA_SPIM_EOT 0"
  let ?s = "soc_event clic ?ev s"
  have irq: "spi_step clic e s = spim_eot_handler ?ev ?s"
    using assms(1) Spi_end soc_irq_runs [of H_spim_eot ?ev s clic spi_handlers] by (simp add: spi_serving_def spi_handlers_def)
  have ok: "spi_ok d ?s ts" "\<forall>t \<in> set ts. can_release ?s t" using assms(1) by (simp_all add: spi_serving_def can_release_def)
  show ?thesis
  proof (cases ts)
    case Nil
    then show ?thesis using spi_end_idle [of d ?s] ok irq assms Spi_end spim_eot_handlers installed_same
      by (fastforce simp: spi_serving_def)
  next
    case (Cons t q)
    obtain u where u: "spim_eot_handler ?ev ?s = Some u" "spi_ok d u q" "csrs u = csrs ?s"
      "\<forall>p. task_at u p = (if p = t then spi_finished ?s t else task_at ?s p)" "\<forall>p. cs_drv_data (spim_cs_at u p) = cs_drv_data (spim_cs_at ?s p)"
      using spi_end [of d ?s t q] ok Cons by auto
    have "spi_same ?s u" unfolding spi_same_def using u(3-5) by (auto simp: spi_finished_def)
    then have same: "spi_same s u" by simp
    show ?thesis using u irq same spi_same_release [OF same] installed_same [OF spim_eot_handlers [OF u(1)]] assms(1) Spi_end Cons
      by (intro exI [of _ u]) (auto simp: spi_serving_def spi_finished_def released_def)
  qed
qed

interpretation spi: draining_service "spi_step clic" spi_does "spi_may d" "spi_serving d" spi_same released "\<lambda>_. True" "\<lambda>ts. ts" spi_wants Spi_end length for clic d
proof
  show "\<exists>u. spi_step clic e s = Some u \<and> spi_serving d u (snd (spi_does e q)) \<and> spi_same s u \<and> (\<forall>t \<in> set (fst (spi_does e q)). released u t)"
    if "spi_serving d s q" "spi_may d s e q" for s :: "'a spi_drv_scheme" and e q using that by (rule spi_step_law)
  show "spi_may d u e q = spi_may d s e q" if "spi_same s u" for s u :: "'a spi_drv_scheme" and e q
    using that spi_same_release [OF that] by (cases e) (auto simp: spi_same_def)
  show "filter (\<lambda>_. True) (fst (spi_does e q)) @ snd (spi_does e q) = q @ spi_wants e" for e q
    by (cases e; cases q) auto
qed (auto simp: spi_same_def released_def)

end
