(* ===== verification/SpiClaims.thy ===== *)
theory SpiClaims
  imports SpiProps
begin

text \<open>
  What the SPI driver promises: transfers are served in order and blocking calls return, what a request programs, the
  command words, the clock it divides to, and the interface whose end event is lost.
\<close>

text \<open>C21: from any state whose transfers in service are ts, any sequence of valid send and receive requests and
  end-of-transfer interrupts, each dispatched from the event FIFO of either interrupt controller, succeeds, serves exactly the first-in first-out queue of the specification, and has marked every finished
  blocking task done; what is finished followed by what is still in service is ts followed by the requests in their order.\<close>
theorem spi_service:
  assumes "spi_serving d s ts" "spi_valid d s es ts"
  shows "\<exists>u fin rest. spi_run clic es s = Some u \<and> spi_spec es ts = (fin, rest) \<and> fin @ rest = ts @ spi_asked es
     \<and> spi_serving d u rest \<and> csrs u = csrs s
     \<and> (\<forall>t \<in> set fin. t_id (task_at s t) = PI_TASK_NONE_ID \<longrightarrow> t_done (task_at u t) = 1)"
  using spi.follows_spec [where clic = clic, OF assms] spi.in_order [of es ts] by (auto simp: spi_same_def released_def prod_eq_iff)

definition demo_spi :: spi_drv where
  "demo_spi = \<lparr>csrs = \<lambda>_. 0, regs = \<lambda>_. 0, io_log = [], fc_event_handlers = replicate 168 (Some (FC_handler H_spim_eot)),
     task_at = \<lambda>_. \<lparr>t_arg = \<lambda>_. 0, t_id = PI_TASK_NONE_ID, t_data = \<lambda>_. 0, t_wait_on = \<lparr>sem_object = 0, sem_take_fn = False, sem_give_fn = False\<rparr>,
        t_next = 0, t_done = 0, t_core_id = 0, t_cluster_id = 0, t_destroy = 0\<rparr>,
     os_log = [], dev_data = \<lambda>_. 0x1C000400,
     spim_cs_at = \<lambda>_. \<lparr>cs_next = 0, cs_drv_data = 0x1C000100, cs_cfg = 5, cs_udma_cmd = \<lambda>_. 0, cs_max_baudrate = 0, cs_polarity = 0, cs_phase = 0,
        cs_num = 0, cs_wordsize = 0, cs_big_endian = 0\<rparr>,
     spim_data_at = \<lambda>_. \<lparr>sp_drv_fifo = 0x1C000200, sp_cs_list = 0, sp_repeat_transfer = 0, sp_end_of_transfer = 0, sp_nb_open = 1, sp_device_id = 0\<rparr>,
     spim_fifo_at = \<lambda>_. \<lparr>sf_head = 0, sf_tail = 0\<rparr>, g_spim_drv_data = [0x1C000100, 0]\<rparr>"

lemma demo_spi_ok: "spi_ok 0x1C000100 demo_spi []" "cs_drv_data (spim_cs_at demo_spi cs) = 0x1C000100" "can_release demo_spi t"
  by (simp_all add: spi_ok_def spi_queue_def demo_spi_def can_release_def)

lemma demo_spi_serving: "spi_serving 0x1C000100 demo_spi []"
  using demo_spi_ok by (simp add: spi_serving_def installed_def demo_spi_def SOC_EVENT_UDMA_SPIM_EOT_def UDMA_SPIM_ID_def UDMA_CHANNEL_NB_EVENTS_LOG2_def)

lemma spi_service_witness:
  "\<exists>u. spi_run False [Spi_submit True 0x1C000400 0x1C010000 64 0 0x1C020000, Spi_submit False 0x1C000400 0x1C011000 128 0 0x1C021000, Spi_end] demo_spi = Some u
     \<and> spi_ok 0x1C000100 u [0x1C021000] \<and> t_done (task_at u 0x1C020000) = 1"
proof -
  let ?es = "[Spi_submit True 0x1C000400 0x1C010000 64 0 0x1C020000, Spi_submit False 0x1C000400 0x1C011000 128 0 0x1C021000, Spi_end]"
  have v: "spi_valid 0x1C000100 demo_spi ?es []" by (simp add: demo_spi_ok)
  have i: "t_id (task_at demo_spi 0x1C020000) = PI_TASK_NONE_ID" by (simp add: demo_spi_def)
  show ?thesis using spi_service [OF demo_spi_serving v, of False] i by (auto simp: spi_serving_def)
qed

lemma spi_serving_block:
  assumes "spi_serving d s ts" "tb \<notin> set ts"
  shows "spi_serving d (pi_task_block create tb s) ts" "spim_cs_at (pi_task_block create tb s) = spim_cs_at s"
proof -
  let ?u = "pi_task_block create tb s"
  have f: "spim_cs_at ?u = spim_cs_at s" "spim_data_at ?u = spim_data_at s" "spim_fifo_at ?u = spim_fifo_at s" "g_spim_drv_data ?u = g_spim_drv_data s"
    by (simp_all add: pi_task_block_def pi_sem_init_def Let_def)
  have o: "task_at ?u q = task_at s q" if "q \<in> set ts" for q using block_task_other assms(2) that by metis
  have ot: "task_at ?u q = task_at s q" if "q \<in> set (tl ts)" for q using o that by (cases ts) auto
  have "spi_entry d ?u q = spi_entry d s q" if "q \<in> set (tl ts)" for q
    using ot [OF that] by (simp add: spi_entry_def f)
  moreover have "spi_queue d ?u (tl ts) = spi_queue d s (tl ts)"
    unfolding spi_queue_def f Let_def by (intro fifo_rep_cong) (simp add: next_of_def ot)
  ultimately show "spi_serving d ?u ts" using assms o f by (simp add: spi_serving_def spi_ok_def can_release_def installed_def block_task(8))
  show "spim_cs_at ?u = spim_cs_at s" by (rule f)
qed

text \<open>C24: a blocking send or receive of at most 65536 bits by a chip select of the interface, with transfers ts
  already in service, returns after at most length ts + 1 dispatched end-of-transfer interrupts, with the interrupt enable as before.\<close>
theorem spi_blocking:
  fixes s :: "'a spi_drv_scheme" and clic :: bool
  assumes "spi_serving d s ts" "tb \<noteq> 0" "tb \<notin> set ts" "len \<le> 65536"
    and "dev_data s device \<noteq> 0" "cs_drv_data (spim_cs_at s (dev_data s device)) = d"
  defines "env \<equiv> irq_env (spi_step clic Spi_end)"
  shows "\<exists>u v n. spi_step clic (Spi_submit b (dev_data s device) data len flags tb) (pi_task_block create tb s) = Some v
     \<and> n \<le> length ts + 1
     \<and> u = pi_task_destroy tb (pi_task_destroy tb ((env ^^ n) v)) \<and> csrs u = csrs s \<and> t_done (task_at u tb) \<noteq> 0
     \<and> (if b then pi_spi_send env create tb device data len flags s else pi_spi_receive env create tb device data len flags s) = Some u"
proof -
  let ?s = "pi_task_block create tb s" and ?e = "Spi_submit b (dev_data s device) data len flags tb"
  note sv = spi_serving_block [OF assms(1,3), of create]
  have may: "spi_may d ?s ?e ts" using assms block_task(4) by (simp add: sv(2))
  obtain v where v: "spi_step clic ?e ?s = Some v" "spi_serving d v (ts @ [tb])" "spi_same ?s v"
    using spi.step_law [OF sv(1) may] by auto
  obtain n where n: "n \<le> length ts + 1" "released ((env ^^ n) v) tb" "\<forall>k \<le> n. spi_same v ((env ^^ k) v)"
    using spi.serves [OF v(2), of tb] unfolding env_def by auto
  have "t_id (task_at ((env ^^ n) v) tb) = PI_TASK_NONE_ID"
    using n(3) v(3) block_task(2) [of create tb s] by (simp add: spi_same_def)
  from wait_on_released [OF n(1,2) this] obtain k where k: "k \<le> length ts + 1" "k \<le> n"
    "pi_task_wait_on env tb v = Some (pi_task_destroy tb ((env ^^ k) v))" "t_done (task_at ((env ^^ k) v) tb) \<noteq> 0" by blast
  have c: "csrs ((env ^^ k) v) = csrs s"
    using n(3) k(2) v(3) block_task(5) [of create tb s] by (simp add: spi_same_def)
  have d: "csrs (pi_task_destroy tb w) = csrs w" "t_done (task_at (pi_task_destroy tb w) tb) = t_done (task_at w tb)" for w :: "'a spi_drv_scheme"
    by (simp_all add: pi_task_destroy_def pi_sem_deinit_def Let_def)
  show ?thesis using v(1) k c d block_task(7) [of create tb s]
    by (intro exI [of _ "pi_task_destroy tb (pi_task_destroy tb ((env ^^ k) v))"] exI [of _ v] exI [of _ k])
      (auto simp: pi_spi_send_def pi_spi_receive_def Let_def)
qed

lemma spi_blocking_witness:
  "\<exists>u. pi_spi_send (irq_env (spi_step False Spi_end)) (\<lambda>_. 0x1C004000) 0x1C020000 5 0x1C010000 64 0 demo_spi = Some u \<and> t_done (task_at u 0x1C020000) \<noteq> 0"
proof -
  have d: "dev_data demo_spi 5 = 0x1C000400" by (simp add: demo_spi_def)
  from spi_blocking [OF demo_spi_serving, of "0x1C020000" 64 5 False True "0x1C010000" 0 "\<lambda>_. 0x1C004000"] show ?thesis
    by (auto simp: d demo_spi_ok)
qed

text \<open>C34: a send or receive request for at most 65536 bits on an idle interface becomes its running transfer: the data channel gets the
  buffer and its size in bytes, rounded up, the command channel the four command words of the chip select; on a busy interface nothing is programmed and the request
  waits its turn. Longer requests abort. Interrupts are restored.\<close>
theorem spi_request:
  assumes "spi_ok d s ts" "cs \<noteq> 0" "cs_drv_data (spim_cs_at s cs) = d" "t \<noteq> 0" "t \<notin> set ts"
  shows "if len > 65536 then spi_step clic (Spi_submit snd_it cs data len flags t) s = None
    else \<exists>u. spi_step clic (Spi_submit snd_it cs data len flags t) s = Some u \<and> spi_ok d u (ts @ [t]) \<and> csrs u = csrs s
      \<and> (let m = UDMA_SPIM (ucast (sp_device_id (spim_data_at s d)));
             cmd = spim_program (spim_chan m COMMAND_CHANNEL) (udma_cmd_addr cs) 16;
             dat = spim_program (spim_chan m (if snd_it then TX_CHANNEL else RX_CHANNEL)) data (drop_bit 3 (len + 7)) in
         regs u = (if ts \<noteq> [] then regs s else if snd_it then dat (cmd (regs s)) else cmd (dat (regs s))))"
proof (cases "len > 65536")
  case True
  then show ?thesis by (simp add: pi_spi_send_async_def pi_spi_receive_async_def Let_def)
next
  case False
  have "spi_step clic (Spi_submit snd_it cs data len flags t) s = spi_async snd_it cs data len flags t s" by (simp add: spi_async_def)
  then show ?thesis using False spi_submit [OF assms(1-3) _ assms(4,5), of len snd_it data flags] assms(3)
    by (auto simp: not_less spi_start_def Let_def spim_enqueue_regs)
qed

lemma spi_request_witness:
  "\<exists>u. spi_step False (Spi_submit True 0x1C000400 0x1C010000 64 0 0x1C020000) demo_spi = Some u \<and> spi_ok 0x1C000100 u [0x1C020000]"
proof -
  have n: "\<not> (64 :: u32) > 65536" by simp
  show ?thesis using spi_request [OF demo_spi_ok(1) _ demo_spi_ok(2), of "0x1C000400" "0x1C020000" 64 False True "0x1C010000" 0]
    unfolding if_not_P [OF n] by auto
qed

lemma ceil_div:
  fixes p f :: nat
  assumes "0 < f"
  shows "p \<le> f * ((p + f - 1) div f)" "0 < p \<Longrightarrow> f * ((p + f - 1) div f - 1) < p"
proof -
  have q: "p + f - 1 = f * ((p + f - 1) div f) + (p + f - 1) mod f" by simp
  have m: "(p + f - 1) mod f < f" using assms by simp
  show "p \<le> f * ((p + f - 1) div f)" using q m assms by linarith
  show "f * ((p + f - 1) div f - 1) < p" if "0 < p"
  proof -
    have "0 < (p + f - 1) div f" using that assms by (simp add: div_greater_zero_iff)
    then have "f * ((p + f - 1) div f - 1) = f * ((p + f - 1) div f) - f" by (simp add: right_diff_distrib')
    then show ?thesis using q that assms by linarith
  qed
qed

text \<open>C35: the divider for a frequency below the peripheral clock never gives more than the requested frequency, since the clock runs at
  half the undivided clock over the divider, and the next smaller divider would exceed it; a frequency at or above the peripheral clock is not divided.\<close>
theorem spi_clk_div:
  assumes "unat p + unat f < 2 ^ 32" "0 < unat f"
  shows "\<exists>v. pi_spi_clk_div_get p f = Some v \<and>
    (if unat p \<le> unat f then v = 0
     else unat p \<le> unat f * (2 * unat v) \<and> unat f * (2 * (unat v - 1)) < unat p)"
proof (cases "unat p \<le> unat f")
  case True
  then show ?thesis by (simp add: pi_spi_clk_div_get_def word_less_nat_alt)
next
  case False
  let ?c = "(p + f - 1) div f"
  have s: "unat (p + f - 1) = unat p + unat f - 1"
  proof -
    have "unat (p + f) = unat p + unat f" using assms(1) by (intro unat_plus_u32) simp
    moreover have "p + f \<noteq> 0" using calculation assms(2) by (metis add_eq_0_iff_both_eq_0 neq0_conv unsigned_0)
    ultimately show ?thesis by (metis unat_minus_one)
  qed
  then have c: "unat ?c = (unat p + unat f - 1) div unat f" by (simp add: unat_div)
  note cb = ceil_div [OF assms(2), of "unat p"]
  have "(unat p + unat f - 1) div unat f \<le> unat p + unat f - 1" by simp
  moreover have "unat p + unat f < 4294967296" using assms(1) by simp
  ultimately have c1: "unat ?c < 4294967295" using assms(2) c by linarith
  let ?e = "if ?c AND 1 \<noteq> 0 then ?c + 1 else ?c"
  have odd_c: "?c AND 1 \<noteq> 0 \<longleftrightarrow> odd (unat ?c)"
    unfolding and_one_eq word_unat_eq_iff unat_mod by (simp add: odd_iff_mod_2_eq_one)
  have e: "unat ?e = (if odd (unat ?c) then unat ?c + 1 else unat ?c)"
    unfolding odd_c using c1 by (auto simp: unat_plus_u32)
  have "unat (drop_bit 1 w) = unat w div 2" for w :: u32 by (simp add: unat_div drop_bit_eq_div)
  then have v: "unat (drop_bit 1 ?e) = unat ?e div 2" .
  have p0: "0 < unat p" using False by simp
  let ?n = "unat ?c"
  have b: "unat p \<le> unat f * ?n" "unat f * (?n - 1) < unat p" using cb p0 c by simp_all
  have two: "?n \<le> 2 * (unat ?e div 2)" "2 * (unat ?e div 2 - 1) \<le> ?n - 1" unfolding e by presburger+
  have "unat p \<le> unat f * (2 * (unat ?e div 2))" using b(1) mult_le_mono2 [OF two(1), of "unat f"] by linarith
  moreover have "unat f * (2 * (unat ?e div 2 - 1)) < unat p" using b(2) mult_le_mono2 [OF two(2), of "unat f"] by linarith
  moreover have "pi_spi_clk_div_get p f = Some (drop_bit 1 ?e)"
    using False assms(2) by (auto simp: pi_spi_clk_div_get_def word_less_nat_alt Let_def)
  ultimately show ?thesis using False v by auto
qed

lemma spi_clk_div_witness: "\<exists>v. pi_spi_clk_div_get 50000000 10000000 = Some v \<and> 50000000 \<le> 10000000 * (2 * unat v)"
  using spi_clk_div [of 50000000 10000000] by auto

text \<open>For 32 to 65536 bits the send and receive commands carry their identifier, the quad flag and the number of 32-bit words
  minus one; for fewer than 32 bits the word count wraps and the whole command is all ones, whatever the direction. The configuration word puts the phase argument into
  the polarity bit and the polarity into the phase bit.\<close>
lemma spi_command_words:
  assumes "unat len \<le> 65536" "qspi = 0 \<or> qspi = 1"
  shows "(if unat len < 32 then SPI_CMD_TX_DATA (len div 32) 0 32 qspi 0 = -1 \<and> SPI_CMD_RX_DATA (len div 32) 0 32 qspi 0 = -1
     else let w = SPI_CMD_TX_DATA (len div 32) 0 32 qspi 0; r = SPI_CMD_RX_DATA (len div 32) 0 32 qspi 0 in
       drop_bit 28 w = SPI_CMD_TX_DATA_ID \<and> drop_bit 28 r = SPI_CMD_RX_DATA_ID
       \<and> unat (w AND 0xFFFF) = unat len div 32 - 1 \<and> unat (r AND 0xFFFF) = unat len div 32 - 1
       \<and> bit w 27 = (qspi = 1) \<and> bit r 27 = (qspi = 1))"
proof (cases "unat len < 32")
  case True
  then have "len div 32 = 0" by (simp add: word_unat_eq_iff unat_div)
  then show ?thesis using True by (simp add: SPI_CMD_TX_DATA_def SPI_CMD_RX_DATA_def)
next
  case False
  define x where "x = len div 32 - 1"
  have d: "unat (len div 32) = unat len div 32" by (simp add: unat_div)
  then have nz: "len div 32 \<noteq> 0" using False by (auto simp: word_unat_eq_iff)
  have ux: "unat x = unat len div 32 - 1" unfolding x_def using unat_minus_one [OF nz] d by simp
  then have "unat x < 2 ^ 16" using assms(1) by simp
  then have hi: "\<not> bit x i" if "16 \<le> i" for i
    using that by (metis bit_take_bit_iff linorder_not_less take_bit_nat_eq_self unsigned_take_bit_eq word_unat_eq_iff)
  have m: "(0xFFFF :: u32) = mask 16" by (simp add: mask_eq_exp_minus_1)
  have lo: "x AND 0xFFFF = x" unfolding m
    by (rule bit_word_eqI) (use hi in \<open>auto simp: bit_simps not_le [symmetric]\<close>)
  have h28: "drop_bit 28 x = 0" by (rule bit_word_eqI) (simp add: bit_drop_bit_eq hi)
  have h27: "\<not> bit x 27" by (rule hi) simp
  have tx: "SPI_CMD_TX_DATA (len div 32) 0 32 qspi 0 = (0x601F0000 OR push_bit 27 qspi) OR x"
    and rx: "SPI_CMD_RX_DATA (len div 32) 0 32 qspi 0 = (0x701F0000 OR push_bit 27 qspi) OR x"
    unfolding SPI_CMD_TX_DATA_def SPI_CMD_RX_DATA_def x_def SPI_CMD_ID_OFFSET_def SPI_CMD_TX_DATA_ID_def SPI_CMD_RX_DATA_ID_def
    using assms(2) by (elim disjE; simp flip: or.assoc)+
  show ?thesis unfolding if_not_P [OF False] Let_def tx rx
    using assms(2) lo h28 h27 ux by (auto simp: bit.conj_disj_distrib2 bit_or_iff drop_bit_or SPI_CMD_TX_DATA_ID_def SPI_CMD_RX_DATA_ID_def)
qed

lemma spi_command_words_witness:
  "drop_bit 28 (SPI_CMD_TX_DATA (64 div 32) 0 32 1 0) = SPI_CMD_TX_DATA_ID \<and> SPI_CMD_RX_DATA (8 div 32) 0 32 0 0 = -1"
  using spi_command_words [of 64 1] spi_command_words [of 8 0] by (simp add: Let_def)

text \<open>The end event of the second interface is number 11; the handler subtracts 7 and indexes the table of two interfaces with 4.\<close>

lemma spi_second_interface:
  assumes "length (g_spim_drv_data s) = UDMA_NB_SPIM"
  shows "spim_eot_handler (SOC_EVENT_UDMA_SPIM_EOT 1) s = None"
  using assms by (simp add: spim_eot_handler_def SOC_EVENT_UDMA_SPIM_EOT_def UDMA_SPIM_ID_def UDMA_CHANNEL_NB_EVENTS_LOG2_def UDMA_NB_SPIM_def)

text \<open>The chip-select list is never extended, so every open of a chip select allocates again and close never finds it.\<close>

lemma spi_cs_never_listed:
  "sp_cs_list (spim_data_at (pi_spim_cs_data_add d cs s) p) = sp_cs_list (spim_data_at s p)"
  by (simp add: pi_spim_cs_data_add_def Let_def)

end
