(* ===== verification/SpiOpen.thy ===== *)
theory SpiOpen
  imports SpiClaims
begin

text \<open>
  Opening and closing an SPI interface: what open installs, that the driver then serves an empty queue, and what the last
  close undoes.
\<close>

lemmas spi_events = SOC_EVENT_UDMA_SPIM_EOT_def SOC_EVENT_UDMA_SPIM_TX_def SOC_EVENT_UDMA_SPIM_RX_def UDMA_SPIM_ID_def UDMA_CHANNEL_NB_EVENTS_LOG2_def
lemmas spi_open_ops = udma_ctrl_cg_disable_def udma_ctrl_cg_enable_def hal_or32_def hal_and32_def hal_soc_eu_set_fc_mask_def hal_soc_eu_clear_fc_mask_def
  soc_eu_fc_write_def soc_eu_fc_read_def SOC_EU_ADDR_def SOC_FC_MASK0_OFFSET_def UDMA_GC_CG_def UDMA_CTRL_ADDR_def readw_def

definition spi_cs_of :: "pi_spi_conf \<Rightarrow> u32 \<Rightarrow> u32 \<Rightarrow> spim_cs_data" where
  "spi_cs_of conf clk_div d = \<lparr>cs_next = 0, cs_drv_data = d, cs_cfg = SPI_CMD_CFG clk_div (sc_phase conf) (sc_polarity conf), cs_udma_cmd = \<lambda>_. 0,
     cs_max_baudrate = sc_max_baudrate conf, cs_polarity = sc_polarity conf, cs_phase = sc_phase conf,
     cs_num = word_of_int (sc_cs conf), cs_wordsize = sc_wordsize conf, cs_big_endian = sc_big_endian conf\<rparr>"

lemma spim_find_none [simp]: "spim_find_cs at p 0 cs = Some (p, 0)"
  by (simp add: spim_find_cs.simps)

lemma spi_upd_dev [simp]:
  "dev_data (upd_cs p f s) = dev_data s" "dev_data (upd_spim p g s) = dev_data s" "dev_data (upd_spim_fifo p h s) = dev_data s"
  by (simp_all add: upd_cs_def upd_spim_def upd_spim_fifo_def)

lemma spi_open_first:
  assumes "sc_itf conf = 0" "g_spim_drv_data s = [0, x]" "drv \<noteq> 0" "fifo \<noteq> 0" "cs \<noteq> 0" "length (fc_event_handlers s) = NB_SOC_EVENTS"
    and "pi_spi_clk_div_get pf (sc_max_baudrate conf) = Some dv" "dv \<le> 0xFF"
  shows "\<exists>t. pi_spi_open pf drv fifo cs device conf s = Some (0, t) \<and> g_spim_drv_data t = [drv, x]
     \<and> spim_data_at t drv = \<lparr>sp_drv_fifo = fifo, sp_cs_list = 0, sp_repeat_transfer = 0, sp_end_of_transfer = 0, sp_nb_open = 1, sp_device_id = 0\<rparr>
     \<and> spim_fifo_at t fifo = \<lparr>sf_head = 0, sf_tail = 0\<rparr> \<and> spim_cs_at t cs = spi_cs_of conf dv drv
     \<and> fc_event_handlers t = (fc_event_handlers s)[7 := Some (FC_handler H_spim_eot), 5 := Some (FC_handler H_spim_tx), 4 := Some (FC_handler H_spim_rx)]
     \<and> dev_data t = (dev_data s)(device := cs) \<and> csrs t = csrs s \<and> os_log t = os_log s
     \<and> regs t = (regs s)(0x1A102000 := regs s 0x1A102000 OR 2, 0x1A106004 := regs s 0x1A106004 AND NOT 0x80)"
  using assms
  by (simp add: pi_spi_open_def Let_def case_prod_beta pi_fc_event_handler_set_def NB_SOC_EVENTS_def spi_events spi_open_ops
      pi_spim_get_cs_data_def pi_spim_cs_data_add_def spi_cs_of_def not_less)

lemma spi_open_again:
  assumes "sc_itf conf = 0" "g_spim_drv_data t = [drv, x]" "drv \<noteq> 0" "cs \<noteq> 0" "length (fc_event_handlers t) = NB_SOC_EVENTS"
    and "pi_spi_clk_div_get pf (sc_max_baudrate conf) = Some dv" "dv \<le> 0xFF" "sp_cs_list (spim_data_at t drv) = 0"
  shows "\<exists>u. pi_spi_open pf drv2 fifo2 cs device conf t = Some (0, u) \<and> g_spim_drv_data u = [drv, x]
     \<and> spim_data_at u = (spim_data_at t)(drv := (spim_data_at t drv)\<lparr>sp_nb_open := sp_nb_open (spim_data_at t drv) + 1\<rparr>)
     \<and> spim_fifo_at u = spim_fifo_at t \<and> spim_cs_at u = (spim_cs_at t)(cs := spi_cs_of conf dv drv)
     \<and> fc_event_handlers u = (fc_event_handlers t)[7 := Some (FC_handler H_spim_eot), 5 := Some (FC_handler H_spim_tx), 4 := Some (FC_handler H_spim_rx)]
     \<and> dev_data u = (dev_data t)(device := cs) \<and> os_log u = os_log t"
  using assms
  by (cases "spim_data_at t drv") (simp add: pi_spi_open_def Let_def case_prod_beta pi_fc_event_handler_set_def NB_SOC_EVENTS_def spi_events spi_open_ops
      pi_spim_get_cs_data_def pi_spim_cs_data_add_def spi_cs_of_def not_less)

lemma spi_close_drv:
  assumes "dev_data t device = cs" "cs \<noteq> 0" "cs_drv_data (spim_cs_at t cs) = drv" "drv \<noteq> 0" "g_spim_drv_data t = [drv, x]"
    and "spim_data_at t drv = \<lparr>sp_drv_fifo = fifo, sp_cs_list = 0, sp_repeat_transfer = 0, sp_end_of_transfer = 0, sp_nb_open = n, sp_device_id = 0\<rparr>"
    and "length (fc_event_handlers t) = NB_SOC_EVENTS"
  shows "\<exists>u. pi_spi_close device t = Some u \<and> csrs u = csrs t
     \<and> (if n = 1
        then g_spim_drv_data u = [0, x] \<and> fc_event_handlers u = (fc_event_handlers t)[7 := Some FC_null_event]
           \<and> regs u = (regs t)(0x1A102000 := regs t 0x1A102000 AND NOT 2, 0x1A106004 := regs t 0x1A106004 OR 0x80)
           \<and> os_log u = os_log t @ [OS_Free fifo, OS_Free drv]
        else sp_nb_open (spim_data_at u drv) = n - 1 \<and> regs u = regs t \<and> fc_event_handlers u = fc_event_handlers t
           \<and> os_log u = os_log t @ [OS_Free cs])"
  using assms
  by (simp add: pi_spi_close_def Let_def case_prod_beta pi_fc_event_handler_clear_def NB_SOC_EVENTS_def spi_events spi_open_ops
      pi_spim_cs_data_del_def)

text \<open>C40: the first open of the interface allocates its data, installs the handlers, unmasks the end event, clocks the
  device and leaves the driver serving an empty queue, with the chip select as the device's data. Opening the same chip select
  again allocates another one. The close of one of two users frees its chip select; the close of the last one masks the event,
  removes the handler, stops the clock and frees the data of the interface, but not the chip select.\<close>
theorem spi_open_close:
  assumes "sc_itf conf = 0" "g_spim_drv_data s = [0, x]" "drv \<noteq> 0" "fifo \<noteq> 0" "cs \<noteq> 0" "cs2 \<noteq> 0" "length (fc_event_handlers s) = NB_SOC_EVENTS"
    and "pi_spi_clk_div_get pf (sc_max_baudrate conf) = Some dv" "dv \<le> 0xFF"
  shows "\<exists>t. pi_spi_open pf drv fifo cs device conf s = Some (0, t) \<and> spi_serving drv t [] \<and> dev_data t device = cs
     \<and> cs_drv_data (spim_cs_at t cs) = drv \<and> csrs t = csrs s \<and> bit (regs t UDMA_GC_CG) 1 \<and> \<not> bit (regs t 0x1A106004) 7
     \<and> (\<exists>t2 t3. pi_spi_open pf drv2 fifo2 cs2 device2 conf t = Some (0, t2) \<and> spi_serving drv t2 [] \<and> dev_data t2 device2 = cs2
          \<and> sp_nb_open (spim_data_at t2 drv) = 2
          \<and> pi_spi_close device2 t2 = Some t3 \<and> sp_nb_open (spim_data_at t3 drv) = 1 \<and> os_log t3 = os_log s @ [OS_Free cs2])
     \<and> (\<exists>u. pi_spi_close device t = Some u \<and> g_spim_drv_data u = [0, x] \<and> fc_event_handlers u ! 7 = Some FC_null_event
          \<and> \<not> bit (regs u UDMA_GC_CG) 1 \<and> bit (regs u 0x1A106004) 7 \<and> csrs u = csrs s
          \<and> os_log u = os_log s @ [OS_Free fifo, OS_Free drv])"
proof -
  let ?d = "\<lparr>sp_drv_fifo = fifo, sp_cs_list = 0, sp_repeat_transfer = 0, sp_end_of_transfer = 0, sp_nb_open = 1, sp_device_id = 0\<rparr>"
  obtain t where t: "pi_spi_open pf drv fifo cs device conf s = Some (0, t)" "g_spim_drv_data t = [drv, x]" "spim_data_at t drv = ?d"
     "spim_fifo_at t fifo = \<lparr>sf_head = 0, sf_tail = 0\<rparr>" "spim_cs_at t cs = spi_cs_of conf dv drv"
     "fc_event_handlers t = (fc_event_handlers s)[7 := Some (FC_handler H_spim_eot), 5 := Some (FC_handler H_spim_tx), 4 := Some (FC_handler H_spim_rx)]"
     "dev_data t = (dev_data s)(device := cs)" "csrs t = csrs s" "os_log t = os_log s"
     "regs t = (regs s)(0x1A102000 := regs s 0x1A102000 OR 2, 0x1A106004 := regs s 0x1A106004 AND NOT 0x80)"
    using spi_open_first [OF assms(1-5,7,8,9)] by blast
  have len: "length (fc_event_handlers t) = NB_SOC_EVENTS" using assms(7) by (simp add: t(6))
  have serve: "spi_serving drv v []" if "g_spim_drv_data v = [drv, x]" "spim_fifo_at v = spim_fifo_at t" "sp_drv_fifo (spim_data_at v drv) = fifo"
      "sp_repeat_transfer (spim_data_at v drv) = 0" "sp_end_of_transfer (spim_data_at v drv) = 0" "fc_event_handlers v ! 7 = Some (FC_handler H_spim_eot)"
      "length (fc_event_handlers v) = NB_SOC_EVENTS" for v :: "'a spi_drv_scheme"
    using that assms(3) t(4) by (simp add: spi_serving_def spi_ok_def spi_queue_def installed_def spi_events NB_SOC_EVENTS_def)
  have bits: "(2 :: u32) = push_bit 1 1" "(0x80 :: u32) = push_bit 7 1" by simp_all
  obtain t2 where t2: "pi_spi_open pf drv2 fifo2 cs2 device2 conf t = Some (0, t2)" "g_spim_drv_data t2 = [drv, x]"
     "spim_data_at t2 = (spim_data_at t)(drv := (spim_data_at t drv)\<lparr>sp_nb_open := sp_nb_open (spim_data_at t drv) + 1\<rparr>)"
     "spim_fifo_at t2 = spim_fifo_at t" "spim_cs_at t2 = (spim_cs_at t)(cs2 := spi_cs_of conf dv drv)"
     "fc_event_handlers t2 = (fc_event_handlers t)[7 := Some (FC_handler H_spim_eot), 5 := Some (FC_handler H_spim_tx), 4 := Some (FC_handler H_spim_rx)]"
     "dev_data t2 = (dev_data t)(device2 := cs2)" "os_log t2 = os_log t"
    using spi_open_again [OF assms(1) t(2) assms(3,6) len assms(8,9), of drv2 fifo2 device2] t(3) by auto
  have c: "cs_drv_data (spi_cs_of conf dv drv) = drv" by (simp add: spi_cs_of_def)
  obtain t3 where t3: "pi_spi_close device2 t2 = Some t3" "sp_nb_open (spim_data_at t3 drv) = 1" "os_log t3 = os_log t2 @ [OS_Free cs2]"
    using spi_close_drv [of t2 device2 cs2 drv x fifo 2] t2 t(3) c assms(3,6) len by auto
  obtain u where u: "pi_spi_close device t = Some u" "csrs u = csrs t" "g_spim_drv_data u = [0, x]"
     "fc_event_handlers u = (fc_event_handlers t)[7 := Some FC_null_event]"
     "regs u = (regs t)(0x1A102000 := regs t 0x1A102000 AND NOT 2, 0x1A106004 := regs t 0x1A106004 OR 0x80)"
     "os_log u = os_log t @ [OS_Free fifo, OS_Free drv]"
    using spi_close_drv [of t device cs drv x fifo 1] t c assms(3,5) len by auto
  have "bit (regs t UDMA_GC_CG) 1" "\<not> bit (regs t 0x1A106004) 7" "\<not> bit (regs u UDMA_GC_CG) 1" "bit (regs u 0x1A106004) 7"
    unfolding u(5) t(10) bits by (simp_all add: bit_simps UDMA_GC_CG_def UDMA_CTRL_ADDR_def)
  moreover have "spi_serving drv t []" using t len assms(7) by (intro serve) (simp_all add: NB_SOC_EVENTS_def)
  moreover have "spi_serving drv t2 []" using t2 t(3) len by (intro serve) (simp_all add: NB_SOC_EVENTS_def)
  moreover have "sp_nb_open (spim_data_at t2 drv) = 2" using t2(3) t(3) by simp
  moreover have "fc_event_handlers u ! 7 = Some FC_null_event" using u(4) len by (simp add: NB_SOC_EVENTS_def)
  ultimately show ?thesis using t(1,5,7,8,9) t2(1,7,8) t3 u(1-3,6) c by (intro exI [of _ t] conjI exI [of _ t2] exI [of _ t3] exI [of _ u]) simp_all
qed

lemma spi_open_close_witness:
  "\<exists>t. pi_spi_open 50000000 0x1C000100 0x1C000200 0x1C000400 5 (pi_spi_conf_init \<lparr>sc_max_baudrate = 0, sc_wordsize = 0, sc_big_endian = 0, sc_polarity = 0, sc_phase = 0,
        sc_cs = 0, sc_itf = 3\<rparr>) (demo_spi\<lparr>g_spim_drv_data := [0, 0]\<rparr>) = Some (0, t) \<and> spi_serving 0x1C000100 t []"
proof -
  let ?c = "pi_spi_conf_init \<lparr>sc_max_baudrate = 0, sc_wordsize = 0, sc_big_endian = 0, sc_polarity = 0, sc_phase = 0, sc_cs = 0, sc_itf = 3\<rparr>"
  let ?s = "demo_spi\<lparr>g_spim_drv_data := [0, 0]\<rparr>"
  have c: "sc_itf ?c = 0" "sc_max_baudrate ?c = 10000000" by (simp_all add: pi_spi_conf_init_def)
  have d: "pi_spi_clk_div_get 50000000 (sc_max_baudrate ?c) = Some 3" unfolding c(2) by (simp add: pi_spi_clk_div_get_def Let_def)
  have g: "g_spim_drv_data ?s = [0, 0]" "length (fc_event_handlers ?s) = NB_SOC_EVENTS" by (simp_all add: demo_spi_def NB_SOC_EVENTS_def)
  have n: "(0x1C000100 :: u32) \<noteq> 0" "(0x1C000200 :: u32) \<noteq> 0" "(0x1C000400 :: u32) \<noteq> 0" "(3 :: u32) \<le> 0xFF" by simp_all
  from spi_open_close [OF c(1) g(1) n(1-3) n(1) g(2) d n(4), of 5 0 0 0] show ?thesis by (auto simp del: pi_spi_conf_init_def)
qed

end
