(* ===== verification/MallocOs.thy ===== *)
theory MallocOs
  imports MallocHeap Machine
begin

text \<open>
  The heaps of the system (libc/malloc/l2_malloc.c, fc_l1_malloc.c, cl_l1_malloc.c, pi_malloc.c)
  over the internal allocator, with the spinlocks and interrupt masking around the calls
  (drivers/include/os.h). The three heaps live in one address space, ram. What printf is
  called with is the list console. None is an operation that does not return.
\<close>

datatype heap_msg = Malloc_failed | Dump_title string | Dump_body "dump_line list"

record heaps = machine +
  l2_malloc :: malloc_t
  fc_l1_malloc :: malloc_t
  cl_l1_malloc :: malloc_t
  l2_lock :: u32
  fc_l1_lock :: u32
  ram :: mem
  console :: "heap_msg list"

subsection \<open>Spinlocks\<close>

definition pmsis_spinlock_init :: "((u32 \<Rightarrow> u32) \<Rightarrow> 's \<Rightarrow> 's) \<Rightarrow> 's \<Rightarrow> 's" where
  "pmsis_spinlock_init lock s = lock (\<lambda>_. 0) s"

definition pmsis_spinlock_take ::
  "((u32 \<Rightarrow> u32) \<Rightarrow> 'a machine_scheme \<Rightarrow> 'a machine_scheme) \<Rightarrow> 'a machine_scheme \<Rightarrow> 'a machine_scheme" where
  "pmsis_spinlock_take lock s =
     (let (irq_enabled, s) = disable_irq s; s = lock (\<lambda>_. 1) s in restore_irq irq_enabled s)"

definition pmsis_spinlock_release ::
  "((u32 \<Rightarrow> u32) \<Rightarrow> 'a machine_scheme \<Rightarrow> 'a machine_scheme) \<Rightarrow> 'a machine_scheme \<Rightarrow> 'a machine_scheme" where
  "pmsis_spinlock_release lock s =
     (let (irq_enabled, s) = disable_irq s; s = lock (\<lambda>_. 0) s in restore_irq irq_enabled s)"

subsection \<open>The L2 heap\<close>

definition pi_l2_malloc :: "u32 \<Rightarrow> heaps \<Rightarrow> (u32 \<times> heaps) option" where
  "pi_l2_malloc sz s =
     (let s = pmsis_spinlock_take l2_lock_update s in
      case malloc (l2_malloc s) (ram s) sz of
        None \<Rightarrow> None
      | Some (ret_ptr, a, m) \<Rightarrow>
          (let s = pmsis_spinlock_release l2_lock_update (s\<lparr>l2_malloc := a, ram := m\<rparr>) in
           Some (ret_ptr, if ret_ptr = 0 then s\<lparr>console := console s @ [Malloc_failed]\<rparr> else s)))"

definition pi_l2_free :: "u32 \<Rightarrow> u32 \<Rightarrow> heaps \<Rightarrow> heaps option" where
  "pi_l2_free chunk sz s =
     (let s = pmsis_spinlock_take l2_lock_update s in
      case malloc_free (l2_malloc s) (ram s) chunk sz of
        None \<Rightarrow> None
      | Some (a, m) \<Rightarrow> Some (pmsis_spinlock_release l2_lock_update (s\<lparr>l2_malloc := a, ram := m\<rparr>)))"

definition pi_l2_malloc_align :: "u32 \<Rightarrow> u32 \<Rightarrow> heaps \<Rightarrow> (u32 \<times> heaps) option" where
  "pi_l2_malloc_align sz align s =
     (let s = pmsis_spinlock_take l2_lock_update s in
      case malloc_align (l2_malloc s) (ram s) sz align of
        None \<Rightarrow> None
      | Some (ret_ptr, a, m) \<Rightarrow>
          Some (ret_ptr, pmsis_spinlock_release l2_lock_update (s\<lparr>l2_malloc := a, ram := m\<rparr>)))"

definition pi_l2_malloc_init :: "u32 \<Rightarrow> u32 \<Rightarrow> heaps \<Rightarrow> heaps" where
  "pi_l2_malloc_init heapstart heap_size s =
     (let (a, m) = malloc_init (l2_malloc s) (ram s) heapstart heap_size in
      pmsis_spinlock_init l2_lock_update (s\<lparr>l2_malloc := a, ram := m\<rparr>))"

definition pi_l2_malloc_struct_set :: "malloc_t \<Rightarrow> heaps \<Rightarrow> heaps" where
  "pi_l2_malloc_struct_set malloc_struct s =
     (let s = pmsis_spinlock_take l2_lock_update s in
      pmsis_spinlock_release l2_lock_update (s\<lparr>l2_malloc := malloc_struct\<rparr>))"

definition pi_l2_malloc_struct_get :: "heaps \<Rightarrow> malloc_t \<times> heaps" where
  "pi_l2_malloc_struct_get s =
     (let s = pmsis_spinlock_take l2_lock_update s; malloc_struct = l2_malloc s in
      (malloc_struct, pmsis_spinlock_release l2_lock_update s))"

definition pi_l2_malloc_dump :: "heaps \<Rightarrow> heaps option" where
  "pi_l2_malloc_dump s =
     (let s = s\<lparr>console := console s @ [Dump_title ''L2 malloc dump:'']\<rparr> in
      case malloc_dump (l2_malloc s) (ram s) of
        None \<Rightarrow> None | Some ls \<Rightarrow> Some (s\<lparr>console := console s @ [Dump_body ls]\<rparr>))"

subsection \<open>The fabric controller's L1 heap\<close>

definition pi_fc_l1_malloc :: "u32 \<Rightarrow> heaps \<Rightarrow> (u32 \<times> heaps) option" where
  "pi_fc_l1_malloc sz s =
     (let (irq, s) = disable_irq s in
      case malloc (fc_l1_malloc s) (ram s) sz of
        None \<Rightarrow> None
      | Some (ret_ptr, a, m) \<Rightarrow> Some (ret_ptr, restore_irq irq (s\<lparr>fc_l1_malloc := a, ram := m\<rparr>)))"

definition pi_fc_l1_free :: "u32 \<Rightarrow> u32 \<Rightarrow> heaps \<Rightarrow> heaps option" where
  "pi_fc_l1_free chunk sz s =
     (let (irq, s) = disable_irq s in
      case malloc_free (fc_l1_malloc s) (ram s) chunk sz of
        None \<Rightarrow> None
      | Some (a, m) \<Rightarrow> Some (restore_irq irq (s\<lparr>fc_l1_malloc := a, ram := m\<rparr>)))"

definition pi_fc_l1_malloc_align :: "u32 \<Rightarrow> u32 \<Rightarrow> heaps \<Rightarrow> (u32 \<times> heaps) option" where
  "pi_fc_l1_malloc_align sz align s =
     (let s = pmsis_spinlock_take fc_l1_lock_update s in
      case malloc_align (fc_l1_malloc s) (ram s) sz align of
        None \<Rightarrow> None
      | Some (ret_ptr, a, m) \<Rightarrow>
          Some (ret_ptr, pmsis_spinlock_release fc_l1_lock_update (s\<lparr>fc_l1_malloc := a, ram := m\<rparr>)))"

definition pi_fc_l1_malloc_init :: "u32 \<Rightarrow> u32 \<Rightarrow> heaps \<Rightarrow> heaps" where
  "pi_fc_l1_malloc_init heapstart heap_size s =
     (let (a, m) = malloc_init (fc_l1_malloc s) (ram s) heapstart heap_size in
      pmsis_spinlock_init fc_l1_lock_update (s\<lparr>fc_l1_malloc := a, ram := m\<rparr>))"

definition pi_fc_l1_malloc_struct_set :: "malloc_t \<Rightarrow> heaps \<Rightarrow> heaps" where
  "pi_fc_l1_malloc_struct_set malloc_struct s =
     (let s = pmsis_spinlock_take fc_l1_lock_update s in
      pmsis_spinlock_release fc_l1_lock_update (s\<lparr>fc_l1_malloc := malloc_struct\<rparr>))"

definition pi_fc_l1_malloc_struct_get :: "heaps \<Rightarrow> malloc_t \<times> heaps" where
  "pi_fc_l1_malloc_struct_get s =
     (let s = pmsis_spinlock_take fc_l1_lock_update s; malloc_struct = fc_l1_malloc s in
      (malloc_struct, pmsis_spinlock_release fc_l1_lock_update s))"

definition pi_fc_l1_malloc_dump :: "heaps \<Rightarrow> heaps option" where
  "pi_fc_l1_malloc_dump s =
     (let s = s\<lparr>console := console s @ [Dump_title ''FC L1 malloc dump:'']\<rparr> in
      case malloc_dump (fc_l1_malloc s) (ram s) of
        None \<Rightarrow> None | Some ls \<Rightarrow> Some (s\<lparr>console := console s @ [Dump_body ls]\<rparr>))"

subsection \<open>The cluster's L1 heap\<close>

definition pi_cl_l1_malloc :: "u32 \<Rightarrow> heaps \<Rightarrow> (u32 \<times> heaps) option" where
  "pi_cl_l1_malloc sz s =
     (let (irq, s) = disable_irq s in
      case malloc (cl_l1_malloc s) (ram s) sz of
        None \<Rightarrow> None
      | Some (ret_ptr, a, m) \<Rightarrow> Some (ret_ptr, restore_irq irq (s\<lparr>cl_l1_malloc := a, ram := m\<rparr>)))"

definition pi_cl_l1_free :: "u32 \<Rightarrow> u32 \<Rightarrow> heaps \<Rightarrow> heaps option" where
  "pi_cl_l1_free chunk sz s =
     (let (irq, s) = disable_irq s in
      case malloc_free (cl_l1_malloc s) (ram s) chunk sz of
        None \<Rightarrow> None
      | Some (a, m) \<Rightarrow> Some (restore_irq irq (s\<lparr>cl_l1_malloc := a, ram := m\<rparr>)))"

definition pi_cl_l1_malloc_align :: "u32 \<Rightarrow> u32 \<Rightarrow> heaps \<Rightarrow> (u32 \<times> heaps) option" where
  "pi_cl_l1_malloc_align sz align s =
     (case malloc_align (cl_l1_malloc s) (ram s) sz align of
        None \<Rightarrow> None
      | Some (ret_ptr, a, m) \<Rightarrow> Some (ret_ptr, s\<lparr>cl_l1_malloc := a, ram := m\<rparr>))"

definition pi_cl_l1_malloc_init :: "u32 \<Rightarrow> u32 \<Rightarrow> heaps \<Rightarrow> heaps" where
  "pi_cl_l1_malloc_init heapstart heap_size s =
     (let (a, m) = malloc_init (cl_l1_malloc s) (ram s) heapstart heap_size in
      s\<lparr>cl_l1_malloc := a, ram := m\<rparr>)"

definition pi_cl_l1_malloc_struct_set :: "malloc_t \<Rightarrow> heaps \<Rightarrow> heaps" where
  "pi_cl_l1_malloc_struct_set malloc_struct s = s\<lparr>cl_l1_malloc := malloc_struct\<rparr>"

definition pi_cl_l1_malloc_struct_get :: "heaps \<Rightarrow> malloc_t" where
  "pi_cl_l1_malloc_struct_get s = cl_l1_malloc s"

definition pi_cl_l1_malloc_dump :: "heaps \<Rightarrow> heaps option" where
  "pi_cl_l1_malloc_dump s =
     (let s = s\<lparr>console := console s @ [Dump_title ''CL L1 malloc dump:'']\<rparr> in
      case malloc_dump (cl_l1_malloc s) (ram s) of
        None \<Rightarrow> None | Some ls \<Rightarrow> Some (s\<lparr>console := console s @ [Dump_body ls]\<rparr>))"

subsection \<open>The sized heap of pi_malloc.c\<close>

definition pi_malloc_init :: "u32 \<Rightarrow> u32 \<Rightarrow> u32 \<Rightarrow> u32 \<Rightarrow> heaps \<Rightarrow> heaps" where
  "pi_malloc_init fc_heap_start fc_heap_size l2_heap_start l2_heap_size s =
     pi_l2_malloc_init l2_heap_start l2_heap_size (pi_fc_l1_malloc_init fc_heap_start fc_heap_size s)"

definition pi_malloc :: "u32 \<Rightarrow> heaps \<Rightarrow> (u32 \<times> heaps) option" where
  "pi_malloc sz s =
     (let allocate_size = sz + 4 in
      case pi_fc_l1_malloc allocate_size s of
        None \<Rightarrow> None
      | Some (ptr, s) \<Rightarrow>
          (case (if ptr = 0 then pi_l2_malloc allocate_size s else Some (ptr, s)) of
             None \<Rightarrow> None
           | Some (ptr, s) \<Rightarrow> Some (ptr + 4, s\<lparr>ram := wr32 (ram s) ptr allocate_size\<rparr>)))"

definition pi_malloc_align :: "u32 \<Rightarrow> u32 \<Rightarrow> u32" where
  "pi_malloc_align sz align = 0"

datatype heap_build = Build_GAP8 | Build_GAP9_VEGA (L2_SHARED_ADDR: u32) | Build_other

definition pi_free :: "heap_build \<Rightarrow> u32 \<Rightarrow> heaps \<Rightarrow> heaps option" where
  "pi_free build chunk s =
     (let real_chunk = chunk - 4; sz = rd32 (ram s) real_chunk in
      case build of
        Build_GAP8 \<Rightarrow>
          (let area = drop_bit 24 real_chunk in
           if area = 0x00 \<or> area = 0x1B then pi_fc_l1_free real_chunk sz s
           else if area = 0x1C then pi_l2_free real_chunk sz s
           else Some s)
      | Build_GAP9_VEGA l2 \<Rightarrow>
          if real_chunk < l2 then pi_fc_l1_free real_chunk sz s else pi_l2_free real_chunk sz s
      | Build_other \<Rightarrow> Some s)"

definition pi_malloc_dump :: "heaps \<Rightarrow> heaps option" where
  "pi_malloc_dump s = (case pi_fc_l1_malloc_dump s of None \<Rightarrow> None | Some s \<Rightarrow> pi_l2_malloc_dump s)"

subsection \<open>The heaps as allocators\<close>

definition l2_heap :: "heaps \<Rightarrow> heap" where
  "l2_heap s = (l2_malloc s, ram s)"

definition fc_heap :: "heaps \<Rightarrow> heap" where
  "fc_heap s = (fc_l1_malloc s, ram s)"

lemma irq_heaps [simp]:
  "l2_malloc (snd (disable_irq s)) = l2_malloc s" "l2_malloc (restore_irq w s) = l2_malloc s"
  "fc_l1_malloc (snd (disable_irq s)) = fc_l1_malloc s" "fc_l1_malloc (restore_irq w s) = fc_l1_malloc s"
  "ram (snd (disable_irq s)) = ram s" "ram (restore_irq w s) = ram s"
  "console (snd (disable_irq s)) = console s" "console (restore_irq w s) = console s"
  by (simp_all add: disable_irq_def csr_read_clear_def restore_irq_def csr_write_def)

lemma spinlock_heaps [simp]:
  "l2_malloc (pmsis_spinlock_take l2_lock_update s) = l2_malloc s" "ram (pmsis_spinlock_take l2_lock_update s) = ram s"
  "l2_malloc (pmsis_spinlock_release l2_lock_update s) = l2_malloc s" "ram (pmsis_spinlock_release l2_lock_update s) = ram s"
  "fc_l1_malloc (pmsis_spinlock_take l2_lock_update s) = fc_l1_malloc s"
  "fc_l1_malloc (pmsis_spinlock_release l2_lock_update s) = fc_l1_malloc s"
  by (simp_all add: pmsis_spinlock_take_def pmsis_spinlock_release_def split_beta Let_def)

lemma pi_l2_malloc_heap:
  "map_option (\<lambda>(r, t). (r, l2_heap t)) (pi_l2_malloc n s) = heap_get (l2_heap s) n"
  by (simp add: pi_l2_malloc_def heap_get_def l2_heap_def Let_def split: option.splits)

lemma pi_l2_free_heap: "map_option l2_heap (pi_l2_free p n s) = heap_put (l2_heap s) p n"
  by (simp add: pi_l2_free_def heap_put_def l2_heap_def Let_def split: option.splits)

lemma pi_fc_l1_malloc_heap:
  "map_option (\<lambda>(r, t). (r, fc_heap t)) (pi_fc_l1_malloc n s) = heap_get (fc_heap s) n"
  by (simp add: pi_fc_l1_malloc_def heap_get_def fc_heap_def Let_def split_beta split: option.splits)

end
