(* ===== verification/MallocExtern.thy ===== *)
theory MallocExtern
  imports MallocOs
begin

text \<open>
  The allocator of libc/malloc/malloc_external.c for a memory the core cannot address: its free
  list is made of descriptors allocated from the L2 heap, each with the size, the next pointer and
  the address of a free chunk of the external memory.
\<close>

definition chunk_addr :: "mem \<Rightarrow> u32 \<Rightarrow> u32" where
  "chunk_addr m p = rd32 m (p + 8)"

definition set_chunk_addr :: "u32 \<Rightarrow> u32 \<Rightarrow> mem \<Rightarrow> mem" where
  "set_chunk_addr p v m = wr32 m (p + 8) v"

definition malloc_extern_init :: "malloc_t \<Rightarrow> u32 \<Rightarrow> u32 \<Rightarrow> heaps \<Rightarrow> (u32 \<times> malloc_t \<times> heaps) option" where
  "malloc_extern_init a chunk0 size0 s =
     (if size0 \<noteq> 0 then
        (let start_addr = ALIGN_UP chunk0 MIN_CHUNK_SIZE in
         case pi_l2_malloc sizeof_chunk s of
           None \<Rightarrow> None
         | Some (chunk, s) \<Rightarrow>
             if chunk = 0 then Some (1, a, s)
             else (let sz = size0 - (start_addr - chunk0) in
                   if 0 < sint sz
                   then (let m = set_chunk_size chunk (ALIGN_DOWN sz MIN_CHUNK_SIZE) (ram s);
                             m = set_chunk_next chunk 0 m;
                             m = set_chunk_addr chunk start_addr m in
                         Some (0, a\<lparr>first_free := chunk\<rparr>, s\<lparr>ram := m\<rparr>))
                   else Some (0, a, s)))
      else Some (1, a\<lparr>first_free := 0\<rparr>, s))"

definition malloc_extern_deinit :: "malloc_t \<Rightarrow> heaps \<Rightarrow> heaps option" where
  "malloc_extern_deinit a s = pi_l2_free (first_free a) sizeof_chunk s"

definition malloc_extern :: "malloc_t \<Rightarrow> u32 \<Rightarrow> heaps \<Rightarrow> (u32 \<times> malloc_t \<times> heaps) option" where
  "malloc_extern a size0 s =
     (let sz = ALIGN_UP size0 MIN_CHUNK_SIZE in
      case malloc_scan (ram s) sz 0 (first_free a) of
        None \<Rightarrow> None
      | Some (prev, pt) \<Rightarrow>
          if pt \<noteq> 0 then
            if chunk_size (ram s) pt = sz then
              (let (a, s) = (if prev \<noteq> 0
                             then (a, s\<lparr>ram := set_chunk_next prev (chunk_next (ram s) pt) (ram s)\<rparr>)
                             else (a\<lparr>first_free := chunk_next (ram s) pt\<rparr>, s));
                   addr = chunk_addr (ram s) pt in
               case pi_l2_free pt sizeof_chunk s of None \<Rightarrow> None | Some s \<Rightarrow> Some (addr, a, s))
            else
              (let result = chunk_addr (ram s) pt + chunk_size (ram s) pt - sz in
               Some (result, a, s\<lparr>ram := set_chunk_size pt (chunk_size (ram s) pt - sz) (ram s)\<rparr>))
          else Some (0, a, s))"

partial_function (option) malloc_extern_free_scan :: "mem \<Rightarrow> u32 \<Rightarrow> u32 \<Rightarrow> u32 \<Rightarrow> (u32 \<times> u32) option" where
  "malloc_extern_free_scan m chunk prev nxt =
     (if nxt \<noteq> 0 \<and> chunk_addr m nxt < chunk
      then malloc_extern_free_scan m chunk nxt (chunk_next m nxt)
      else Some (prev, nxt))"

definition extern_node :: "u32 \<Rightarrow> u32 \<Rightarrow> u32 \<Rightarrow> heaps \<Rightarrow> (u32 \<times> heaps) option" where
  "extern_node chunk0 sz nxt s =
     (if nxt \<noteq> 0 \<and> chunk0 + sz = chunk_addr (ram s) nxt
      then (let m = set_chunk_size nxt (sz + chunk_size (ram s) nxt) (ram s);
                m = set_chunk_addr nxt chunk0 m in
            Some (nxt, s\<lparr>ram := m\<rparr>))
      else (case pi_l2_malloc sizeof_chunk s of
              None \<Rightarrow> None
            | Some (chunk, s) \<Rightarrow>
                if chunk = 0 then Some (0, s)
                else (let m = set_chunk_size chunk sz (ram s);
                          m = set_chunk_next chunk nxt m;
                          m = set_chunk_addr chunk chunk0 m in
                      Some (chunk, s\<lparr>ram := m\<rparr>))))"

definition extern_link :: "malloc_t \<Rightarrow> u32 \<Rightarrow> u32 \<Rightarrow> u32 \<Rightarrow> heaps \<Rightarrow> (malloc_t \<times> heaps) option" where
  "extern_link a prev chunk chunk0 s =
     (if prev \<noteq> 0 then
        if chunk_addr (ram s) prev + chunk_size (ram s) prev = chunk0
        then (let m = set_chunk_size prev (chunk_size (ram s) prev + chunk_size (ram s) chunk) (ram s);
                  m = set_chunk_next prev (chunk_next m chunk) m in
              case pi_l2_free chunk sizeof_chunk (s\<lparr>ram := m\<rparr>) of None \<Rightarrow> None | Some s \<Rightarrow> Some (a, s))
        else Some (a, s\<lparr>ram := set_chunk_next prev chunk (ram s)\<rparr>)
      else Some (a\<lparr>first_free := chunk\<rparr>, s))"

definition malloc_extern_free :: "malloc_t \<Rightarrow> u32 \<Rightarrow> u32 \<Rightarrow> heaps \<Rightarrow> (u32 \<times> malloc_t \<times> heaps) option" where
  "malloc_extern_free a chunk0 size0 s =
     (let sz = ALIGN_UP size0 MIN_CHUNK_SIZE in
      case malloc_extern_free_scan (ram s) chunk0 0 (first_free a) of
        None \<Rightarrow> None
      | Some (prev, nxt) \<Rightarrow>
          (case extern_node chunk0 sz nxt s of
             None \<Rightarrow> None
           | Some (chunk, s) \<Rightarrow>
               if chunk = 0 then Some (1, a, s)
               else (case extern_link a prev chunk chunk0 s of
                       None \<Rightarrow> None | Some (a, s) \<Rightarrow> Some (0, a, s))))"

subsection \<open>The descriptor list\<close>

type_synonym node = "u32 \<times> chunk"

fun xseg :: "mem \<Rightarrow> u32 \<Rightarrow> node list \<Rightarrow> u32 \<Rightarrow> bool" where
  "xseg m p [] q = (p = q)"
| "xseg m p ((c, a, n) # ts) q =
     (p = c \<and> c \<noteq> 0 \<and> unat (chunk_addr m c) = a \<and> unat (chunk_size m c) = n
      \<and> xseg m (chunk_next m c) ts q)"

definition meta :: "node \<Rightarrow> blk" where
  "meta t = (fst t, sizeof_chunk)"

definition ext_rep :: "nat set \<Rightarrow> malloc_t \<Rightarrow> heaps \<Rightarrow> node list \<Rightarrow> blk list \<Rightarrow> bool" where
  "ext_rep F a s ts L \<longleftrightarrow> ih.client_inv F (l2_heap s, map meta ts @ L)
     \<and> xseg (ram s) (first_free a) ts 0 \<and> fl_ok 0 (map snd ts)"

definition same_data :: "blk list \<Rightarrow> heaps \<Rightarrow> heaps \<Rightarrow> bool" where
  "same_data L s t \<longleftrightarrow> (\<forall>b \<in> set L. \<forall>x. unat x \<in> span b \<longrightarrow> ram t x = ram s x)"

lemma xseg_append: "xseg m p (us @ vs) q \<longleftrightarrow> (\<exists>r. xseg m p us r \<and> xseg m r vs q)"
  by (induction m p us q rule: xseg.induct) auto

lemma xseg_null: "xseg m 0 ts q \<Longrightarrow> ts = []"
  by (cases ts) auto

lemma span_meta: "span (meta (c, an)) = {unat c ..< unat c + 16}"
  by (simp add: span_def meta_def block_def round8_def sizeof_chunk_def)

lemma blk_ok_meta: "blk_ok (meta t) \<longleftrightarrow> fst t \<noteq> 0 \<and> 8 dvd unat (fst t) \<and> unat (fst t) + 16 \<le> heap_top"
  by (simp add: blk_ok_def meta_def round8_def sizeof_chunk_def)

lemma live_disjoint_append:
  "live_disjoint (A @ B) \<longleftrightarrow> live_disjoint A \<and> live_disjoint B \<and> (\<forall>a \<in> set A. \<forall>b \<in> set B. span a \<inter> span b = {})"
  by (induction A) auto

lemma client_inv_mid: "ih.client_inv F (h, A @ b # B) \<longleftrightarrow> ih.client_inv F (h, b # A @ B)"
proof -
  have "live_disjoint (A @ b # B) \<longleftrightarrow> live_disjoint (b # A @ B)"
    unfolding live_disjoint_append live_disjoint.simps by (simp add: ball_Un) blast
  moreover have "live_bytes (A @ b # B) = live_bytes (b # A @ B)" by (auto simp: live_bytes_def)
  ultimately show ?thesis by (auto simp: ih.client_inv_def ball_Un)
qed

lemma meta_off:
  assumes "blk_ok (meta (c, an))"
  shows "unat (c + 4) = unat c + 4" "unat (c + 8) = unat c + 8" "unat c + 16 \<le> 2147483648"
  using assms unat_plus_u32 [of c 4] unat_plus_u32 [of c 8] by (auto simp: blk_ok_meta heap_top_def)

lemma chunk_fields_cong:
  assumes "blk_ok (meta (c, an))" "\<And>x. unat x \<in> span (meta (c, an)) \<Longrightarrow> m' x = m x"
  shows "chunk_size m' c = chunk_size m c" "chunk_next m' c = chunk_next m c" "chunk_addr m' c = chunk_addr m c"
  using meta_off [OF assms(1)] assms(2)
  by (auto simp: chunk_size_def chunk_next_def chunk_addr_def span_meta intro!: rd32_cong)

lemma xseg_frame:
  assumes "xseg m p ts q" "\<forall>t \<in> set ts. blk_ok (meta t) \<and> (\<forall>x. unat x \<in> span (meta t) \<longrightarrow> m' x = m x)"
  shows "xseg m' p ts q"
  using assms
proof (induction m p ts q rule: xseg.induct)
  case (2 m p c a n ts q)
  have "blk_ok (meta (c, a, n))" "\<And>x. unat x \<in> span (meta (c, a, n)) \<Longrightarrow> m' x = m x"
    using "2.prems" by auto
  from chunk_fields_cong [OF this] show ?case using 2 by auto
qed simp

lemma chunk_fields_set:
  assumes "blk_ok (meta (c, an))"
  shows "chunk_size (set_chunk_size c v m) c = v" "chunk_next (set_chunk_size c v m) c = chunk_next m c"
    "chunk_addr (set_chunk_size c v m) c = chunk_addr m c"
    "chunk_size (set_chunk_next c v m) c = chunk_size m c" "chunk_next (set_chunk_next c v m) c = v"
    "chunk_addr (set_chunk_next c v m) c = chunk_addr m c"
    "chunk_size (set_chunk_addr c v m) c = chunk_size m c" "chunk_next (set_chunk_addr c v m) c = chunk_next m c"
    "chunk_addr (set_chunk_addr c v m) c = v"
  using meta_off [OF assms]
  by (simp_all add: chunk_size_def chunk_next_def chunk_addr_def set_chunk_size_def set_chunk_next_def
        set_chunk_addr_def rd32_wr32_other)

lemma set_chunk_other:
  assumes "blk_ok (meta (c, an))" "unat x \<notin> span (meta (c, an))"
  shows "set_chunk_size c v m x = m x" "set_chunk_next c v m x = m x" "set_chunk_addr c v m x = m x"
  using meta_off [OF assms(1)] assms(2)
  by (auto simp: set_chunk_size_def set_chunk_next_def set_chunk_addr_def span_meta intro!: wr32_other)

subsection \<open>Writes into a descriptor\<close>

definition writes :: "node \<Rightarrow> mem \<Rightarrow> mem \<Rightarrow> bool" where
  "writes t m m' \<longleftrightarrow> (\<forall>x. unat x \<notin> span (meta t) \<longrightarrow> m' x = m x)"

lemma writesI [intro]:
  assumes "blk_ok (meta (c, an))"
  shows "writes (c, an) m (set_chunk_size c v m)" "writes (c, an) m (set_chunk_next c v m)"
    "writes (c, an) m (set_chunk_addr c v m)"
  using set_chunk_other [OF assms] by (simp_all add: writes_def)

lemma writes_trans: "writes t m m' \<Longrightarrow> writes t m' m'' \<Longrightarrow> writes t m m''"
  by (simp add: writes_def)

lemma heap_poke_finite:
  assumes "ih.client_inv F ((a, m), L)" "b \<in> set L" "finite X" "\<forall>x \<in> X. unat x \<in> span b"
  shows "ih.client_inv F ((a, \<lambda>x. if x \<in> X then m' x else m x), L)"
  using assms(3,4)
proof (induction X rule: finite_induct)
  case (insert y X)
  have "(\<lambda>x. if x \<in> insert y X then m' x else m x) = (\<lambda>x. if x \<in> X then m' x else m x)(y := m' y)"
    by auto
  then show ?case
    using ih.client_inv_store(1) [OF _ assms(2), of F "(a, \<lambda>x. if x \<in> X then m' x else m x)" y "m' y"] insert
    by (simp add: heap_poke_def)
qed (use assms in simp)

lemma client_inv_writes:
  assumes "ih.client_inv F ((a, m), L)" "meta t \<in> set L" "writes t m m'"
  shows "ih.client_inv F ((a, m'), L)"
proof -
  define X where "X = {x :: u32. unat x \<in> span (meta t)}"
  have X: "\<forall>x \<in> X. unat x \<in> span (meta t)" by (simp add: X_def)
  have "(\<lambda>x. if x \<in> X then m' x else m x) = m'"
    using assms(3) by (intro ext) (simp add: writes_def X_def)
  with heap_poke_finite [OF assms(1,2) finite X, of m'] show ?thesis by (simp only:)
qed

lemma writes_same:
  "writes t m m' \<Longrightarrow> span b \<inter> span (meta t) = {} \<Longrightarrow> unat x \<in> span b \<Longrightarrow> m' x = m x"
  by (auto simp: writes_def)

end
