(* ===== verification/MallocExternRefine.thy ===== *)
theory MallocExternRefine
  imports MallocExtern
begin

text \<open>
  The external allocator implements the abstract free list, as a client of the L2 heap: its
  descriptors are live L2 blocks, and the guarantees of the allocator interface keep them and the
  blocks of the other clients apart.
\<close>

subsection \<open>Calls of the L2 heap\<close>

lemma same_data_refl [simp]: "same_data L s s"
  by (simp add: same_data_def)

lemma same_data_trans: "same_data L s t \<Longrightarrow> same_data L t u \<Longrightarrow> same_data L s u"
  by (simp add: same_data_def)

lemma same_data_nil [simp]: "same_data [] s t"
  by (simp add: same_data_def)

lemma same_data_app [simp]: "same_data (A @ B) s t \<longleftrightarrow> same_data A s t \<and> same_data B s t"
  by (auto simp: same_data_def)

lemma same_data_cons [simp]: "same_data (b # B) s t \<longleftrightarrow> (\<forall>x. unat x \<in> span b \<longrightarrow> ram t x = ram s x) \<and> same_data B s t"
  by (auto simp: same_data_def)

lemma client_live: "ih.client_inv F (h, A) \<Longrightarrow> b \<in> set A \<Longrightarrow> unat x \<in> span b \<Longrightarrow> unat x \<notin> heap_free h"
  by (auto simp: ih.client_inv_def live_bytes_def)

lemma put_node:
  assumes "ih.client_inv F (l2_heap s, A @ (c, sizeof_chunk) # B)"
  shows "\<exists>t. pi_l2_free c sizeof_chunk s = Some t \<and> ih.client_inv F (l2_heap t, A @ B) \<and> same_data (A @ B) s t"
proof -
  have c: "ih.client_inv F (l2_heap s, (c, sizeof_chunk) # A @ B)" using assms client_inv_mid by blast
  obtain h where h: "heap_put (l2_heap s) c sizeof_chunk = Some h" "ih.client_inv F (h, A @ B)"
      "\<forall>x. unat x \<notin> heap_free h \<longrightarrow> heap_peek h x = heap_peek (l2_heap s) x"
    using ih.client_inv_put [OF c, of "(c, sizeof_chunk)"] by auto
  obtain t where t: "pi_l2_free c sizeof_chunk s = Some t" "l2_heap t = h"
    using h(1) pi_l2_free_heap [of c sizeof_chunk s] by (auto simp: map_option_case split: option.splits)
  have "same_data (A @ B) s t"
    using client_live [OF h(2)] h(3) t(2) by (fastforce simp: same_data_def heap_peek_def l2_heap_def)
  then show ?thesis using t h(2) by auto
qed

lemma get_node:
  assumes "ih.client_inv F (l2_heap s, A)"
  shows "\<exists>r t. pi_l2_malloc sizeof_chunk s = Some (r, t) \<and> same_data A s t
           \<and> ih.client_inv F (l2_heap t, if r = 0 then A else (r, sizeof_chunk) # A)"
proof -
  have "size_ok sizeof_chunk" by (simp add: size_ok_def sizeof_chunk_def heap_top_def)
  from ih.client_inv_get [OF assms this]
  obtain r h where h: "heap_get (l2_heap s) sizeof_chunk = Some (r, h)"
      "ih.client_inv F (h, if r = 0 then A else (r, sizeof_chunk) # A)"
      "\<forall>x. unat x \<notin> heap_free (l2_heap s) \<longrightarrow> heap_peek h x = heap_peek (l2_heap s) x"
    by blast
  obtain t where t: "pi_l2_malloc sizeof_chunk s = Some (r, t)" "l2_heap t = h"
    using h(1) pi_l2_malloc_heap [of sizeof_chunk s] by (auto simp: map_option_case split: option.splits)
  have "same_data A s t"
    using client_live [OF assms] h(3) t(2) by (fastforce simp: same_data_def heap_peek_def l2_heap_def)
  then show ?thesis using t h(2) by auto
qed

text \<open>The L2 heap has a chunk large enough for a descriptor.\<close>

definition l2_room :: "heaps \<Rightarrow> bool" where
  "l2_room s \<longleftrightarrow> (\<exists>xs. malloc_rep (l2_malloc s) (ram s) xs \<and> fl_alloc (round8 (unat sizeof_chunk)) xs \<noteq> None)"

lemma l2_room_rep: "malloc_rep (l2_malloc s) (ram s) xs \<Longrightarrow> l2_room s \<longleftrightarrow> fl_alloc (round8 (unat sizeof_chunk)) xs \<noteq> None"
  unfolding l2_room_def using malloc_rep_unique by blast

lemma get_node_room:
  assumes "ih.client_inv F (l2_heap s, A)" "pi_l2_malloc sizeof_chunk s = Some (r, t)"
  shows "r \<noteq> 0 \<longleftrightarrow> l2_room s"
proof -
  obtain xs where xs: "malloc_rep (l2_malloc s) (ram s) xs" using assms(1) by (auto simp: ih.client_inv_def heap_inv_def l2_heap_def)
  have sz: "0 < unat sizeof_chunk" "unat sizeof_chunk \<le> heap_top - 8" by (simp_all add: sizeof_chunk_def heap_top_def)
  have g: "malloc (l2_malloc s) (ram s) sizeof_chunk = Some (r, l2_malloc t, ram t)"
    using assms(2) pi_l2_malloc_heap [of sizeof_chunk s] by (simp add: heap_get_def l2_heap_def)
  show ?thesis unfolding l2_room_rep [OF xs]
  proof (cases "fl_alloc (round8 (unat sizeof_chunk)) xs")
    case None
    then show "r \<noteq> 0 \<longleftrightarrow> fl_alloc (round8 (unat sizeof_chunk)) xs \<noteq> None" using malloc_refines [OF xs sz] g by simp
  next
    case (Some py)
    obtain p ys where "py = (p, ys)" by (cases py)
    then have "unat r = p" "0 < p"
      using malloc_refines [OF xs sz] g Some fl_alloc_ok [of "round8 (unat sizeof_chunk)" xs p ys 0] malloc_rep_ok [OF xs]
      by (auto simp: sizeof_chunk_def round8_def)
    then show "r \<noteq> 0 \<longleftrightarrow> fl_alloc (round8 (unat sizeof_chunk)) xs \<noteq> None" using Some by auto
  qed
qed

lemma write_node:
  assumes "ih.client_inv F (l2_heap s, A @ meta t # B)" "writes t (ram s) m"
  shows "ih.client_inv F (l2_heap (s\<lparr>ram := m\<rparr>), A @ meta t # B)" "same_data (A @ B) s (s\<lparr>ram := m\<rparr>)"
proof -
  show "ih.client_inv F (l2_heap (s\<lparr>ram := m\<rparr>), A @ meta t # B)"
    using client_inv_writes [of F "l2_malloc s" "ram s" "A @ meta t # B" t m] assms by (simp add: l2_heap_def)
  have "\<forall>b \<in> set (A @ B). span b \<inter> span (meta t) = {}"
    using assms(1) by (auto simp: ih.client_inv_def live_disjoint_append)
  then show "same_data (A @ B) s (s\<lparr>ram := m\<rparr>)"
    using writes_same [OF assms(2)] unfolding same_data_def by (metis heaps.select_convs(6) heaps.surjective heaps.update_convs(6))
qed

lemma node_ok: "ih.client_inv F (h, A) \<Longrightarrow> b \<in> set A \<Longrightarrow> blk_ok b"
  by (auto simp: ih.client_inv_def)

lemma xseg_same:
  "xseg (ram s) p ts q \<Longrightarrow> same_data (map meta ts) s t \<Longrightarrow> \<forall>t \<in> set ts. blk_ok (meta t) \<Longrightarrow> xseg (ram t) p ts q"
  by (rule xseg_frame [of "ram s"]) (auto simp: same_data_def)

subsection \<open>Walking and relinking\<close>

definition xprev :: "u32 \<Rightarrow> node list \<Rightarrow> u32" where
  "xprev prev us = (if us = [] then prev else fst (last us))"

lemma xscan_spec:
  assumes "xseg m p ts 0" "fl_ok lo (map snd ts)" "unat sz < heap_top"
  shows "\<exists>us vs q. malloc_scan m sz prev p = Some (xprev prev us, q) \<and> ts = us @ vs
           \<and> xseg m p us q \<and> xseg m q vs 0 \<and> (\<forall>(a, n) \<in> set (map snd us). n < unat sz)
           \<and> (vs = [] \<or> unat sz \<le> snd (snd (hd vs)))"
  using assms
proof (induction m p ts "0 :: u32" arbitrary: lo prev rule: xseg.induct)
  case 1
  then show ?case by (simp add: malloc_scan.simps xprev_def)
next
  case (2 m p c a n ts)
  have n: "unat (chunk_size m p) < heap_top" "p \<noteq> 0" "p = c" "unat (chunk_size m p) = n"
    using 2 by auto
  then have cmp: "sint (chunk_size m p) < sint sz \<longleftrightarrow> n < unat sz"
    using "2.prems"(3) by (simp add: sint_small heap_top_def del: of_nat_unat)
  show ?case
  proof (cases "n < unat sz")
    case True
    obtain us vs q where h: "malloc_scan m sz p (chunk_next m p) = Some (xprev p us, q)"
      "ts = us @ vs" "xseg m (chunk_next m p) us q" "xseg m q vs 0"
      "\<forall>(a, n) \<in> set (map snd us). n < unat sz" "vs = [] \<or> unat sz \<le> snd (snd (hd vs))"
      using "2.hyps" [of "a + n" p] "2.prems" n by auto
    have "xprev prev ((c, a, n) # us) = xprev p us" using n by (auto simp: xprev_def)
    then show ?thesis using h n cmp True "2.prems"(1)
      by (intro exI [of _ "(c, a, n) # us"] exI [of _ vs] exI [of _ q])
        (simp add: malloc_scan.simps [of m sz prev c])
  next
    case False
    then show ?thesis using "2.prems" n cmp
      by (intro exI [of _ "[]"] exI [of _ "(c, a, n) # ts"] exI [of _ p])
        (simp add: malloc_scan.simps [of m sz prev c] xprev_def)
  qed
qed

lemma xfree_scan_spec:
  assumes "xseg m p ts 0"
  shows "\<exists>us vs q. malloc_extern_free_scan m ch prev p = Some (xprev prev us, q) \<and> ts = us @ vs
           \<and> xseg m p us q \<and> xseg m q vs 0 \<and> (\<forall>(a, n) \<in> set (map snd us). a < unat ch)
           \<and> (vs = [] \<or> unat ch \<le> fst (snd (hd vs)))"
  using assms
proof (induction m p ts "0 :: u32" arbitrary: prev rule: xseg.induct)
  case 1
  then show ?case by (simp add: malloc_extern_free_scan.simps xprev_def)
next
  case (2 m p c a n ts)
  have n: "p \<noteq> 0" "p = c" "unat (chunk_addr m p) = a" using 2 by auto
  then have cmp: "chunk_addr m p < ch \<longleftrightarrow> a < unat ch" by (simp add: word_less_nat_alt)
  show ?case
  proof (cases "a < unat ch")
    case True
    obtain us vs q where h: "malloc_extern_free_scan m ch p (chunk_next m p) = Some (xprev p us, q)"
      "ts = us @ vs" "xseg m (chunk_next m p) us q" "xseg m q vs 0"
      "\<forall>(a, n) \<in> set (map snd us). a < unat ch" "vs = [] \<or> unat ch \<le> fst (snd (hd vs))"
      using "2.hyps" [of p] "2.prems" n by auto
    have "xprev prev ((c, a, n) # us) = xprev p us" using n by (auto simp: xprev_def)
    then show ?thesis using h n cmp True "2.prems"
      by (intro exI [of _ "(c, a, n) # us"] exI [of _ vs] exI [of _ q])
        (simp add: malloc_extern_free_scan.simps [of m ch prev c])
  next
    case False
    then show ?thesis using "2.prems" n cmp
      by (intro exI [of _ "[]"] exI [of _ "(c, a, n) # ts"] exI [of _ p])
        (simp add: malloc_extern_free_scan.simps [of m ch prev c] xprev_def)
  qed
qed

lemma xseg_relink:
  assumes "xseg m p (ws @ [t]) q" "live_disjoint (map meta (ws @ [t]))" "\<forall>t \<in> set (ws @ [t]). blk_ok (meta t)"
  shows "xseg (set_chunk_next (fst t) r m) p (ws @ [t]) r"
proof -
  obtain d b k where t: "t = (d, b, k)" by (cases t)
  have ok: "blk_ok (meta (d, b, k))" using assms(3) t by simp
  obtain u where u: "xseg m p ws u" "xseg m u [t] q" using assms(1) by (auto simp: xseg_append)
  have "\<forall>w \<in> set ws. span (meta w) \<inter> span (meta t) = {}"
    using assms(2) by (auto simp: live_disjoint_append)
  then have "xseg (set_chunk_next (fst t) r m) p ws u"
    using u(1) assms(3) writes_same [OF writesI(2) [OF ok]] t
    by (intro xseg_frame [OF u(1)]) (simp, metis)
  then show ?thesis using u(2) chunk_fields_set [OF ok] t by (auto simp: xseg_append)
qed

subsection \<open>The refinement\<close>

definition xlink :: "node list \<Rightarrow> u32 \<Rightarrow> mem \<Rightarrow> mem" where
  "xlink us r m = (if us = [] then m else set_chunk_next (fst (last us)) r m)"

lemma xlinks:
  assumes "ih.client_inv F (l2_heap s, map meta us @ A)" "xseg (ram s) p us q"
  and m: "m = xlink us r (ram s)"
  shows "ih.client_inv F (l2_heap (s\<lparr>ram := m\<rparr>), map meta us @ A)" "same_data A s (s\<lparr>ram := m\<rparr>)"
    "xseg m (if us = [] then r else p) us r"
proof (atomize (full), cases us rule: rev_cases)
  case Nil
  then have "m = ram s" by (simp add: m xlink_def)
  then show "ih.client_inv F (l2_heap (s\<lparr>ram := m\<rparr>), map meta us @ A) \<and> same_data A s (s\<lparr>ram := m\<rparr>)
    \<and> xseg m (if us = [] then r else p) us r" using assms(1) Nil by (simp add: l2_heap_def)
next
  case (snoc ws t)
  obtain d bk where t: "t = (d, bk)" by (cases t)
  have inv: "ih.client_inv F (l2_heap s, map meta ws @ meta t # A)" using assms(1) snoc by simp
  have ok: "\<forall>t \<in> set (ws @ [t]). blk_ok (meta t)" using node_ok [OF inv] by auto
  have md: "m = set_chunk_next d r (ram s)" using snoc t m by (simp add: xlink_def)
  have w: "writes t (ram s) m" using ok writesI(2) [of d bk] t md by simp
  have "live_disjoint (map meta (ws @ [t]))"
    using inv by (auto simp: ih.client_inv_def live_disjoint_append)
  then have "xseg m p us r"
    using xseg_relink [of "ram s" p ws t q r] assms(2) ok snoc t md by simp
  then show "ih.client_inv F (l2_heap (s\<lparr>ram := m\<rparr>), map meta us @ A) \<and> same_data A s (s\<lparr>ram := m\<rparr>)
    \<and> xseg m (if us = [] then r else p) us r" using write_node [OF inv w] snoc by simp
qed

lemma xseg_head: "xseg m q (t # vs) 0 \<Longrightarrow> q = fst t \<and> q \<noteq> 0 \<and> unat (chunk_addr m q) = fst (snd t)
    \<and> unat (chunk_size m q) = snd (snd t) \<and> xseg m (chunk_next m q) vs 0"
  by (cases t) auto

lemma xprev_eq: "\<forall>t \<in> set us. fst t \<noteq> 0 \<Longrightarrow> xprev 0 us \<noteq> 0 \<longleftrightarrow> us \<noteq> []"
  by (auto simp: xprev_def)

lemma xseg_nodes: "xseg m p us q \<Longrightarrow> t \<in> set us \<Longrightarrow> fst t \<noteq> 0"
  by (induction m p us q rule: xseg.induct) auto

lemma xseg_ends:
  assumes "xseg m p us q" "xseg m q vs 0"
  shows "xprev 0 us \<noteq> 0 \<longleftrightarrow> us \<noteq> []" "vs \<noteq> [] \<longleftrightarrow> q \<noteq> 0"
proof -
  show "xprev 0 us \<noteq> 0 \<longleftrightarrow> us \<noteq> []" using xseg_nodes [OF assms(1)] by (intro xprev_eq) blast
  show "vs \<noteq> [] \<longleftrightarrow> q \<noteq> 0" using assms(2) by (cases vs) auto
qed

lemma same_nodes:
  assumes "same_data (map meta ts) s (s\<lparr>ram := m\<rparr>)" "ih.client_inv F (h, A)" "meta ` set ts \<subseteq> set A"
    "xseg (ram s) p ts q"
  shows "xseg m p ts q"
proof -
  have "\<forall>t \<in> set ts. blk_ok (meta t)" using assms(3) by (intro ballI node_ok [OF assms(2)]) auto
  then show ?thesis using xseg_same [OF assms(4,1)] by simp
qed

lemma malloc_extern_refines:
  assumes rep: "ext_rep F a s ts L" and n: "size_ok n"
  shows "case fl_alloc (round8 (unat n)) (map snd ts) of
           None \<Rightarrow> malloc_extern a n s = Some (0, a, s)
         | Some (r, ys) \<Rightarrow> \<exists>r' a' s' ts'. malloc_extern a n s = Some (r', a', s') \<and> unat r' = r
             \<and> ext_rep F a' s' ts' L \<and> map snd ts' = ys \<and> same_data L s s'" (is "?goal")
proof -
  define sz where "sz = ALIGN_UP n MIN_CHUNK_SIZE"
  have s: "unat sz = round8 (unat n)" "0 < unat sz" "8 dvd unat sz" "unat sz < heap_top"
    using n unat_MIN_ALIGN [of n] round8_le [of "unat n" "heap_top - 8"]
    by (auto simp: sz_def heap_top_def size_ok_def)
  have seg: "xseg (ram s) (first_free a) ts 0" and ok: "fl_ok 0 (map snd ts)"
      and inv: "ih.client_inv F (l2_heap s, map meta ts @ L)"
    using rep by (auto simp: ext_rep_def)
  obtain us vs q where scan: "malloc_scan (ram s) sz 0 (first_free a) = Some (xprev 0 us, q)" "ts = us @ vs"
      "xseg (ram s) (first_free a) us q" "xseg (ram s) q vs 0" "\<forall>(a, n) \<in> set (map snd us). n < unat sz"
      "vs = [] \<or> unat sz \<le> snd (snd (hd vs))"
    using xscan_spec [OF seg ok s(4), of 0] by blast
  note code = malloc_extern_def [of a n s, folded sz_def, unfolded Let_def scan(1) option.case prod.case]
  note fl = fl_alloc_append [OF scan(5), of "map snd vs"]
  note q = xseg_ends [OF scan(3,4)]
  show ?goal
  proof (cases vs)
    case Nil
    then show ?thesis using fl scan(2) s(1) code q(2) by simp
  next
    case (Cons t vs')
    obtain b k where t: "t = (q, b, k)" using scan(4) Cons by (cases t) auto
    have qs: "q \<noteq> 0" "unat (chunk_addr (ram s) q) = b" "unat (chunk_size (ram s) q) = k" "unat sz \<le> k"
        "xseg (ram s) (chunk_next (ram s) q) vs' 0"
      using scan(4,6) Cons t by auto
    have okt: "blk_ok (meta t)" using node_ok [OF inv] scan(2) Cons by simp
    have mem: "fl_ok 0 (map snd us @ (b, k) # map snd vs')" using ok scan(2) Cons t by simp
    have bk: "8 dvd k" "b + k \<le> heap_top" "0 < b" using fl_ok_member [OF mem, of b k] by auto
    show ?thesis
    proof (cases "k = unat sz")
      case True
      then have eq: "chunk_size (ram s) q = sz" using qs by (simp add: word_unat_eq_iff)
      have inv': "ih.client_inv F (l2_heap s, map meta us @ (meta t # map meta vs' @ L))"
        using inv scan(2) Cons by simp
      define m where "m = xlink us (chunk_next (ram s) q) (ram s)"
      note X = xlinks [OF inv' scan(3) m_def]
      define a' where "a' = (if us = [] then a\<lparr>first_free := chunk_next (ram s) q\<rparr> else a)"
      have code2: "malloc_extern a n s = (case pi_l2_free q sizeof_chunk (s\<lparr>ram := m\<rparr>) of
            None \<Rightarrow> None | Some s' \<Rightarrow> Some (chunk_addr m q, a', s'))"
        using code qs eq q(1) by (auto simp: m_def xlink_def a'_def xprev_def cong: option.case_cong)
      obtain s' where s': "pi_l2_free q sizeof_chunk (s\<lparr>ram := m\<rparr>) = Some s'"
          "ih.client_inv F (l2_heap s', map meta us @ map meta vs' @ L)"
          "same_data (map meta us @ map meta vs' @ L) (s\<lparr>ram := m\<rparr>) s'"
        using put_node [of F "s\<lparr>ram := m\<rparr>" "map meta us" q "map meta vs' @ L"] X(1) t by (auto simp: meta_def)
      have addr: "chunk_addr m q = chunk_addr (ram s) q"
        using X(2) chunk_fields_cong(3) [of q "(b, k)" m "ram s"] okt t by (simp add: same_data_def)
      have "xseg m (chunk_next (ram s) q) vs' 0"
        using X(2) by (intro same_nodes [OF _ inv' _ qs(5)]) auto
      then have "xseg m (if us = [] then chunk_next (ram s) q else first_free a) (us @ vs') 0"
        using X(3) by (auto simp: xseg_append)
      then have "xseg (ram (s\<lparr>ram := m\<rparr>)) (first_free a') (us @ vs') 0" by (simp add: a'_def split: if_splits)
      moreover have "\<forall>t \<in> set (us @ vs'). blk_ok (meta t)" by (intro ballI node_ok [OF s'(2)]) auto
      ultimately have "xseg (ram s') (first_free a') (us @ vs') 0"
        using xseg_same [of "s\<lparr>ram := m\<rparr>" _ "us @ vs'" 0 s'] s'(3) by simp
      moreover have "fl_ok 0 (map snd us @ map snd vs')" using ok_drop_node [OF mem] .
      ultimately have "ext_rep F a' s' (us @ vs') L" using s'(2) by (simp add: ext_rep_def)
      moreover have "same_data L s s'" using X(2) s'(3) by (auto intro: same_data_trans)
      moreover have "fl_alloc (round8 (unat n)) (map snd ts) = Some (b, map snd (us @ vs'))"
        using fl scan(2) Cons t True s(1) by simp
      moreover have "malloc_extern a n s = Some (chunk_addr m q, a', s')" "unat (chunk_addr m q) = b"
        using code2 s'(1) addr qs(2) by simp_all
      ultimately show ?thesis by force
    next
      case False
      then have lt: "unat sz < k" "chunk_size (ram s) q \<noteq> sz" using qs by auto
      define m where "m = set_chunk_size q (chunk_size (ram s) q - sz) (ram s)"
      have inv': "ih.client_inv F (l2_heap s, map meta us @ meta t # map meta vs' @ L)"
        using inv scan(2) Cons by simp
      have w: "writes t (ram s) m" using okt t unfolding m_def by auto
      note X = write_node [OF inv' w]
      have sub: "unat (chunk_size (ram s) q - sz) = k - unat sz"
        using lt qs by (simp add: unat_sub word_le_nat_alt)
      have res: "unat (chunk_addr (ram s) q + chunk_size (ram s) q - sz) = b + k - unat sz"
        using lt qs bk unat_plus_u32 [of "chunk_addr (ram s) q" "chunk_size (ram s) q"]
        by (simp add: unat_sub word_le_nat_alt heap_top_def)
      have "xseg m q ((q, b, k - unat sz) # vs') 0"
        using chunk_fields_set(1-3) [OF okt [unfolded t], of "chunk_size (ram s) q - sz" "ram s"] qs sub
          same_nodes [OF _ inv' _ qs(5)] X(2) by (auto simp: m_def)
      moreover have "xseg m (first_free a) us q"
        using X(2) by (intro same_nodes [OF _ inv' _ scan(3)]) auto
      ultimately have "xseg m (first_free a) (us @ (q, b, k - unat sz) # vs') 0" by (auto simp: xseg_append)
      moreover have "fl_ok 0 (map snd us @ (b, k - unat sz) # map snd vs')"
        using mem lt s fl_ok_mono [of "b + k" "map snd vs'" "b + (k - unat sz)"]
        by (auto simp: fl_ok_append intro: dvd_diff_nat)
      ultimately have "ext_rep F a (s\<lparr>ram := m\<rparr>) (us @ (q, b, k - unat sz) # vs') L"
        using X(1) t by (simp add: ext_rep_def meta_def)
      moreover have "malloc_extern a n s = Some (chunk_addr (ram s) q + chunk_size (ram s) q - sz, a, s\<lparr>ram := m\<rparr>)"
        using code qs lt by (simp add: m_def)
      moreover have "fl_alloc (round8 (unat n)) (map snd ts)
          = Some (b + k - unat sz, map snd (us @ (q, b, k - unat sz) # vs'))"
        using fl scan(2) Cons t lt s(1) by simp
      moreover have "same_data L s (s\<lparr>ram := m\<rparr>)" using X(2) by simp
      ultimately show ?thesis using res by force
    qed
  qed
qed

lemma extern_node_rep:
  assumes inv: "ih.client_inv F (l2_heap s, A @ map meta vs @ B)" and seg: "xseg (ram s) q vs 0"
    and ok: "fl_ok lo (map snd vs)" and top: "unat ch + unat sz \<le> heap_top"
    and hd: "vs = [] \<or> unat ch + unat sz \<le> fst (snd (hd vs))"
  shows "\<exists>c t. extern_node ch sz q s = Some (c, t) \<and> same_data (A @ B) s t
    \<and> (c \<noteq> 0 \<longleftrightarrow> unat ch + unat sz \<in> fst ` set (map snd vs) \<or> l2_room s)
    \<and> (if c = 0 then ih.client_inv F (l2_heap t, A @ map meta vs @ B) \<and> same_data (map meta vs) s t
       else \<exists>v vs'. fl_join (unat ch, unat sz) (map snd vs) = map snd ((c, unat ch, v) # vs')
              \<and> xseg (ram t) c ((c, unat ch, v) # vs') 0
              \<and> ih.client_inv F (l2_heap t, A @ map meta ((c, unat ch, v) # vs') @ B))"
proof (cases "vs \<noteq> [] \<and> unat ch + unat sz = fst (snd (hd vs))")
  case True
  then obtain b k ws where vs: "vs = (q, b, k) # ws" "unat ch + unat sz = b"
    using seg by (cases vs) auto
  have q: "q \<noteq> 0" "unat (chunk_addr (ram s) q) = b" "unat (chunk_size (ram s) q) = k"
      "xseg (ram s) (chunk_next (ram s) q) ws 0"
    using seg vs by auto
  have bk: "b + k \<le> heap_top" using ok vs by auto
  have okq: "blk_ok (meta (q, b, k))" using node_ok [OF inv] vs by simp
  have eq: "ch + sz = chunk_addr (ram s) q"
    using vs(2) q(2) top by (simp add: word_unat_eq_iff unat_plus_u32 heap_top_def)
  have sum: "unat (sz + chunk_size (ram s) q) = unat sz + k"
    using vs(2) q(3) bk by (simp add: unat_plus_u32 heap_top_def)
  define m where "m = set_chunk_addr q ch (set_chunk_size q (sz + chunk_size (ram s) q) (ram s))"
  have w: "writes (q, b, k) (ram s) m"
    unfolding m_def using writes_trans [OF writesI(1) [OF okq] writesI(3) [OF okq]] .
  have inv': "ih.client_inv F (l2_heap s, A @ meta (q, b, k) # map meta ws @ B)" using inv vs by simp
  note X = write_node [OF inv' w]
  have "xseg m (chunk_next (ram s) q) ws 0"
    using X(2) by (intro same_nodes [OF _ inv' _ q(4)]) auto
  then have p1: "xseg m q ((q, unat ch, unat sz + k) # ws) 0"
    using q(1) chunk_fields_set [OF okq] sum by (simp add: m_def)
  have p2: "extern_node ch sz q s = Some (q, s\<lparr>ram := m\<rparr>)"
    using q(1) eq by (simp add: extern_node_def m_def Let_def)
  have p3: "ih.client_inv F (l2_heap (s\<lparr>ram := m\<rparr>), A @ map meta ((q, unat ch, unat sz + k) # ws) @ B)"
    using X(1) by (simp add: meta_def)
  show ?thesis
    by (rule exI [of _ q], rule exI [of _ "s\<lparr>ram := m\<rparr>"], subst if_not_P [OF q(1)],
        intro conjI exI [of _ "unat sz + k"] exI [of _ ws])
      (use p1 p2 p3 vs X(2) q(1) in simp_all)
next
  case False
  have neq: "\<not> (q \<noteq> 0 \<and> ch + sz = chunk_addr (ram s) q)"
  proof
    assume a: "q \<noteq> 0 \<and> ch + sz = chunk_addr (ram s) q"
    then obtain t ws where vs: "vs = t # ws" using seg by (cases vs) auto
    then have "unat (chunk_addr (ram s) q) = fst (snd t)" using xseg_head seg by blast
    moreover have "unat (ch + sz) = unat ch + unat sz" using top by (simp add: unat_plus_u32 heap_top_def)
    ultimately show False using a False vs by simp
  qed
  have far: "unat ch + unat sz \<notin> fst ` set (map snd vs)"
  proof (cases vs)
    case (Cons t ws)
    obtain d b k where t: "t = (d, b, k)" by (cases t)
    have lt: "unat ch + unat sz < b" using hd False Cons t by auto
    have "fl_ok (b + k) (map snd ws)" using ok Cons t by simp
    then have "b + k < x" if "(x, y) \<in> set (map snd ws)" for x y using fl_ok_member [OF _ that] by blast
    then show ?thesis using lt Cons t by force
  qed simp
  obtain c t where g: "pi_l2_malloc sizeof_chunk s = Some (c, t)" "same_data (A @ map meta vs @ B) s t"
      "ih.client_inv F (l2_heap t, if c = 0 then A @ map meta vs @ B else (c, sizeof_chunk) # A @ map meta vs @ B)"
    using get_node [OF inv] by blast
  have room: "c \<noteq> 0 \<longleftrightarrow> l2_room s" using get_node_room [OF inv g(1)] .
  show ?thesis
  proof (cases "c = 0")
    case True
    then show ?thesis using g neq room far by (auto simp: extern_node_def)
  next
    case c: False
    let ?n = "(c, unat ch, unat sz)"
    define m where "m = set_chunk_addr c ch (set_chunk_next c q (set_chunk_size c sz (ram t)))"
    have inv': "ih.client_inv F (l2_heap t, A @ meta ?n # map meta vs @ B)"
      using g(3) c by (simp add: client_inv_mid [of F _ A] meta_def)
    have okc: "blk_ok (meta ?n)" using node_ok [OF inv'] by simp
    have w: "writes ?n (ram t) m"
      unfolding m_def
      using writes_trans [OF writes_trans [OF writesI(1) [OF okc] writesI(2) [OF okc]] writesI(3) [OF okc]] .
    note X = write_node [OF inv' w]
    have "\<forall>t \<in> set vs. blk_ok (meta t)" by (intro ballI node_ok [OF inv]) auto
    then have seg': "xseg (ram t) q vs 0" using xseg_same [OF seg, of t] g(2) by simp
    have "xseg m q vs 0"
      using X(2) by (intro same_nodes [OF _ inv' _ seg']) auto
    then have p1: "xseg m c (?n # vs) 0"
      using c chunk_fields_set [OF okc] by (simp add: m_def)
    have p2: "extern_node ch sz q s = Some (c, t\<lparr>ram := m\<rparr>)"
      using c neq g(1) by (auto simp: extern_node_def m_def Let_def)
    have p3: "fl_join (unat ch, unat sz) (map snd vs) = map snd (?n # vs)"
      using hd False by (subst fl_join_gap_hd) (cases vs; auto)+
    have p4: "same_data (A @ B) s (t\<lparr>ram := m\<rparr>)" using X(2) g(2) by (auto intro: same_data_trans)
    show ?thesis
      by (rule exI [of _ c], rule exI [of _ "t\<lparr>ram := m\<rparr>"], subst if_not_P [OF c],
          intro conjI exI [of _ "unat sz"] exI [of _ vs])
        (use p1 p2 p3 p4 X(1) room c in simp_all)
  qed
qed

lemma extern_link_rep:
  assumes inv: "ih.client_inv F (l2_heap s, map meta us @ meta (c, unat ch, v) # map meta vs @ L)"
    and seg: "xseg (ram s) (first_free a) us q" "xseg (ram s) c ((c, unat ch, v) # vs) 0"
    and ok: "fl_ok 0 (map snd us)" "\<forall>(b, k) \<in> set (map snd us). b + k \<le> unat ch" "unat ch + v \<le> heap_top"
  shows "\<exists>a' t ts. extern_link a (xprev 0 us) c ch s = Some (a', t)
    \<and> ih.client_inv F (l2_heap t, map meta ts @ L) \<and> xseg (ram t) (first_free a') ts 0 \<and> same_data L s t
    \<and> map snd ts = (if us = [] then [] else map snd (butlast us))
         @ (if us = [] then (unat ch, v) # map snd vs else fl_join (snd (last us)) ((unat ch, v) # map snd vs))"
proof (cases us rule: rev_cases)
  case Nil
  then show ?thesis using inv seg(2)
    by (intro exI [of _ "a\<lparr>first_free := c\<rparr>"] exI [of _ s] exI [of _ "(c, unat ch, v) # vs"])
      (simp add: extern_link_def xprev_def)
next
  case (snoc ws t)
  obtain d b k where t: "t = (d, b, k)" by (cases t)
  have d: "d \<noteq> 0" "unat (chunk_addr (ram s) d) = b" "unat (chunk_size (ram s) d) = k"
      "xseg (ram s) (first_free a) ws d"
    using seg(1) snoc t by (auto simp: xseg_append)
  have c: "c \<noteq> 0" "unat (chunk_size (ram s) c) = v" "xseg (ram s) (chunk_next (ram s) c) vs 0"
    using seg(2) by auto
  have prev: "xprev 0 us = d" using snoc t by (simp add: xprev_def)
  have bk: "b + k \<le> unat ch" using ok(2) snoc t by simp
  have sum: "chunk_addr (ram s) d + chunk_size (ram s) d = ch \<longleftrightarrow> b + k = unat ch"
    using d bk ok(3) by (simp add: word_unat_eq_iff unat_plus_u32 heap_top_def)
  have inv1: "ih.client_inv F (l2_heap s, map meta ws @ meta t # meta (c, unat ch, v) # map meta vs @ L)"
    using inv snoc by simp
  have okd: "blk_ok (meta (d, b, k))" using node_ok [OF inv1] t by simp
  show ?thesis
  proof (cases "b + k = unat ch")
    case False
    have m: "set_chunk_next d c (ram s) = xlink us c (ram s)" using snoc t by (simp add: xlink_def)
    note X = xlinks [OF inv seg(1) m]
    have "xseg (set_chunk_next d c (ram s)) c ((c, unat ch, v) # vs) 0"
      using X(2) by (intro same_nodes [OF _ inv _ seg(2)]) auto
    then have "xseg (set_chunk_next d c (ram s)) (first_free a) (us @ (c, unat ch, v) # vs) 0"
      using X(3) snoc unfolding xseg_append [of _ _ us] by (intro exI [of _ c]) simp
    moreover have "extern_link a (xprev 0 us) c ch s = Some (a, s\<lparr>ram := set_chunk_next d c (ram s)\<rparr>)"
      using sum False d(1) by (simp add: prev extern_link_def)
    ultimately show ?thesis using X(1,2) snoc t False
      by (intro exI [of _ a] exI [of _ "s\<lparr>ram := set_chunk_next d c (ram s)\<rparr>"] exI [of _ "us @ (c, unat ch, v) # vs"])
        simp
  next
    case True
    let ?n = "(d, b, k + v)"
    define z where "z = chunk_size (ram s) d + chunk_size (ram s) c"
    define m1 where "m1 = set_chunk_size d z (ram s)"
    have w1: "writes t (ram s) m1" using okd t unfolding m1_def by auto
    have s1: "same_data (map meta ws @ meta (c, unat ch, v) # map meta vs @ L) s (s\<lparr>ram := m1\<rparr>)"
      using write_node(2) [OF inv1 w1] .
    have okc: "blk_ok (meta (c, unat ch, v))" using node_ok [OF inv1] by simp
    have nx: "chunk_next m1 c = chunk_next (ram s) c"
      using chunk_fields_cong(2) [OF okc, of m1 "ram s"] s1 by simp
    define m where "m = set_chunk_next d (chunk_next (ram s) c) m1"
    have w: "writes t (ram s) m" using okd t w1 writes_trans unfolding m_def by blast
    note X = write_node [OF inv1 w]
    have "unat z = k + v" using d c True ok(3) by (simp add: z_def unat_plus_u32 heap_top_def)
    moreover have "xseg m (chunk_next (ram s) c) vs 0"
      using X(2) by (intro same_nodes [OF _ inv1 _ c(3)]) auto
    ultimately have "xseg m d (?n # vs) 0"
      using d chunk_fields_set [OF okd] by (simp add: m_def m1_def)
    moreover have "xseg m (first_free a) ws d"
      using X(2) by (intro same_nodes [OF _ inv1 _ d(4)]) auto
    ultimately have seg': "xseg m (first_free a) (ws @ ?n # vs) 0" by (auto simp: xseg_append)
    have "ih.client_inv F (l2_heap (s\<lparr>ram := m\<rparr>), (map meta ws @ [meta t]) @ (c, sizeof_chunk) # map meta vs @ L)"
      using X(1) by (simp add: meta_def)
    from put_node [OF this]
    obtain u where u: "pi_l2_free c sizeof_chunk (s\<lparr>ram := m\<rparr>) = Some u"
        "ih.client_inv F (l2_heap u, map meta ws @ meta t # map meta vs @ L)"
        "same_data (map meta ws @ meta t # map meta vs @ L) (s\<lparr>ram := m\<rparr>) u"
      by auto
    have nodes: "map meta (ws @ ?n # vs) @ L = map meta ws @ meta t # map meta vs @ L"
      using t by (simp add: meta_def)
    have "\<forall>t \<in> set (ws @ ?n # vs). blk_ok (meta t)"
      using nodes by (intro ballI node_ok [OF u(2) [folded nodes]]) auto
    moreover have "same_data (map meta (ws @ ?n # vs)) (s\<lparr>ram := m\<rparr>) u"
      using u(3) [folded nodes] by (simp del: map_append)
    ultimately have p1: "xseg (ram u) (first_free a) (ws @ ?n # vs) 0"
      using xseg_same [of "s\<lparr>ram := m\<rparr>"] seg' by simp
    have p2: "extern_link a (xprev 0 us) c ch s = Some (a, u)"
      using sum True d(1) u(1) nx by (simp add: prev extern_link_def Let_def m_def m1_def z_def)
    have p3: "same_data L s u" using X(2) u(3) by (auto intro: same_data_trans)
    show ?thesis
      by (intro exI [of _ a] exI [of _ u] exI [of _ "ws @ ?n # vs"])
        (use p1 p2 p3 u(2) [folded nodes] True snoc t in simp)
  qed
qed

lemma malloc_extern_free_refines:
  assumes rep: "ext_rep F a s ts L" and b: "blk_ok (p, n)" "span (p, n) \<inter> fl_bytes (map snd ts) = {}"
  shows "\<exists>r a' s'. malloc_extern_free a p n s = Some (r, a', s') \<and> same_data L s s'
    \<and> (r = 0 \<longleftrightarrow> unat p + round8 (unat n) \<in> fst ` set (map snd ts) \<or> l2_room s)
    \<and> (if r = 0 then \<exists>ts'. ext_rep F a' s' ts' L \<and> map snd ts' = fl_free (unat p) (round8 (unat n)) (map snd ts)
       else r = 1 \<and> a' = a \<and> ext_rep F a s' ts L)"
proof -
  define sz where "sz = ALIGN_UP n MIN_CHUNK_SIZE"
  have p8: "p \<noteq> 0" "8 dvd unat p" "0 < unat n" "unat p + round8 (unat n) \<le> heap_top" "8 \<le> unat p"
    using b(1) by (auto simp: blk_ok_def unat_gt_0 dest: dvd_imp_le)
  then have s: "unat sz = round8 (unat n)" "8 dvd unat sz" "0 < unat sz"
    using unat_MIN_ALIGN [of n] round8_ge [of "unat n"] by (auto simp: sz_def heap_top_def)
  have seg: "xseg (ram s) (first_free a) ts 0" and ok: "fl_ok 0 (map snd ts)"
      and inv: "ih.client_inv F (l2_heap s, map meta ts @ L)"
    using rep by (auto simp: ext_rep_def)
  have dj: "block (unat p) (unat sz) \<inter> fl_bytes (map snd ts) = {}" using b(2) s(1) by (simp add: span_def)
  obtain us vs q where scan: "malloc_extern_free_scan (ram s) p 0 (first_free a) = Some (xprev 0 us, q)"
      "ts = us @ vs" "xseg (ram s) (first_free a) us q" "xseg (ram s) q vs 0"
      "\<forall>(a, n) \<in> set (map snd us). a < unat p" "vs = [] \<or> unat p \<le> fst (snd (hd vs))"
    using xfree_scan_spec [OF seg, of p 0] by blast
  have okus: "fl_ok 0 (map snd us)" and okvs: "fl_ok (fl_end 0 (map snd us)) (map snd vs)"
    using ok scan(2) by (auto simp: fl_ok_append)
  have below: "\<forall>(b, k) \<in> set (map snd us). b + k \<le> unat p"
    using below_chunk [OF ok _ _ dj s(3)] scan(2,5) by fastforce
  have above: "vs = [] \<or> unat p + unat sz \<le> fst (snd (hd vs))"
    using above_chunk [OF ok _ _ dj s(3), of "fst (snd (hd vs))" "snd (snd (hd vs))"] scan(2,6)
    by (cases vs) auto
  have inv': "ih.client_inv F (l2_heap s, map meta us @ map meta vs @ L)" using inv scan(2) by simp
  have top: "unat p + unat sz \<le> heap_top" using p8(4) s(1) by simp
  obtain c t where node: "extern_node p sz q s = Some (c, t)" "same_data (map meta us @ L) s t"
     "c \<noteq> 0 \<longleftrightarrow> unat p + unat sz \<in> fst ` set (map snd vs) \<or> l2_room s"
     "if c = 0 then ih.client_inv F (l2_heap t, map meta us @ map meta vs @ L) \<and> same_data (map meta vs) s t
       else \<exists>v vs'. fl_join (unat p, unat sz) (map snd vs) = map snd ((c, unat p, v) # vs')
              \<and> xseg (ram t) c ((c, unat p, v) # vs') 0
              \<and> ih.client_inv F (l2_heap t, map meta us @ map meta ((c, unat p, v) # vs') @ L)"
    using extern_node_rep [OF inv' scan(4) okvs top above] by blast
  have "unat p + unat sz \<notin> fst ` set (map snd us)" using scan(5) by force
  then have room: "c \<noteq> 0 \<longleftrightarrow> unat p + unat sz \<in> fst ` set (map snd ts) \<or> l2_room s" using node(3) scan(2) by auto
  note code = malloc_extern_free_def [of a p n s, folded sz_def, unfolded Let_def scan(1) option.case prod.case node(1)]
  show ?thesis
  proof (cases "c = 0")
    case True
    have "\<forall>t \<in> set ts. blk_ok (meta t)" by (intro ballI node_ok [OF inv]) auto
    then have "xseg (ram t) (first_free a) ts 0" using xseg_same [OF seg, of t] node True scan(2) by simp
    then have "ext_rep F a t ts L" using node True scan(2) ok by (simp add: ext_rep_def)
    then show ?thesis using code True node room s(1) by simp
  next
    case False
    then obtain v vs' where v: "fl_join (unat p, unat sz) (map snd vs) = (unat p, v) # map snd vs'"
        "xseg (ram t) c ((c, unat p, v) # vs') 0"
        "ih.client_inv F (l2_heap t, map meta us @ meta (c, unat p, v) # map meta vs' @ L)"
      using node(4) by auto
    have fok: "fl_ok 0 (fl_free (unat p) (unat sz) (map snd ts))"
      using fl_free_ok [OF ok _ p8(2) s(2,3) top dj] p8 by simp
    have fl: "fl_free (unat p) (unat sz) (map snd ts) = (if us = [] then [] else map snd (butlast us))
         @ (if us = [] then (unat p, v) # map snd vs' else fl_join (snd (last us)) ((unat p, v) # map snd vs'))"
    proof (cases us rule: rev_cases)
      case Nil
      then show ?thesis using fl_free_front [of "map snd vs" "unat p" "unat sz"] scan(2,6) v(1)
        by (cases vs) auto
    next
      case (snoc ws w)
      obtain d b' k where w: "w = (d, b', k)" by (cases w)
      then show ?thesis
        using fl_free_append [of 0 "map snd ws" b' k "unat p" "map snd vs" "unat sz"] okus scan(2,5,6) v(1) snoc
        by (cases vs) auto
    qed
    have vtop: "unat p + v \<le> heap_top"
    proof -
      have "fl_ok (unat p) (map snd vs)" using okvs above s(3) by (cases vs) auto
      moreover have "block (unat p) (unat sz) \<inter> fl_bytes (map snd vs) = {}" using dj scan(2) by auto
      ultimately have "fl_ok (unat p - 1) (fl_join (unat p, unat sz) (map snd vs))"
        using p8 by (intro fl_join_ok s(2,3) top p8(2)) simp_all
      then show ?thesis using v(1) by simp
    qed
    have "\<forall>t \<in> set us. blk_ok (meta t)" by (intro ballI node_ok [OF inv']) auto
    then have segus: "xseg (ram t) (first_free a) us q" using xseg_same [OF scan(3), of t] node(2) by simp
    obtain a' t' ts' where link: "extern_link a (xprev 0 us) c p t = Some (a', t')"
        "ih.client_inv F (l2_heap t', map meta ts' @ L)" "xseg (ram t') (first_free a') ts' 0" "same_data L t t'"
        "map snd ts' = fl_free (unat p) (unat sz) (map snd ts)"
      using extern_link_rep [OF v(3) segus v(2) okus below vtop] fl by auto
    then have "ext_rep F a' t' ts' L" using fok by (simp add: ext_rep_def)
    moreover have "same_data L s t'" using node(2) link(4) by (auto intro: same_data_trans)
    moreover have "malloc_extern_free a p n s = Some (0, a', t')" using code False link(1) by simp
    ultimately show ?thesis using link(5) s(1) room False
      by (intro exI [of _ 0] exI [of _ a'] exI [of _ t']) auto
  qed
qed

end
