(* ===== verification/MallocExternProps.thy ===== *)
theory MallocExternProps
  imports MallocExternRefine MallocReport
begin

text \<open>
  The properties of the external allocator and of the sized heap, with instances on an L2 heap of
  4 KiB and an external memory of 1 KiB.
\<close>

lemma malloc_extern_init_rep:
  assumes inv: "ih.client_inv F (l2_heap s, L)" and c: "8 dvd unat ch" "ch \<noteq> 0" "8 \<le> unat n" "unat ch + unat n \<le> heap_top"
  shows "\<exists>r a' s'. malloc_extern_init a ch n s = Some (r, a', s')
    \<and> (if r = 0 then \<exists>c. ext_rep F a' s' [(c, unat ch, unat n div 8 * 8)] L else r = 1 \<and> a' = a)"
proof -
  have r8: "round8 (unat ch) = unat ch" "0 < unat ch" using c by (simp_all add: unat_gt_0)
  note I = malloc_init_chunk [of ch n, unfolded r8(1), OF r8(2) c(4)]
  have al: "ALIGN_UP ch MIN_CHUNK_SIZE = ch" using I(1) c(3) by (simp add: word_unat_eq_iff)
  have pos: "0 < sint n" using I(3) c(3) al by (simp del: of_nat_unat)
  obtain x t where g: "pi_l2_malloc sizeof_chunk s = Some (x, t)"
      "ih.client_inv F (l2_heap t, if x = 0 then L else (x, sizeof_chunk) # L)"
    using get_node [OF inv] by blast
  show ?thesis
  proof (cases "x = 0")
    case True
    then show ?thesis using g(1) c by (auto simp: malloc_extern_init_def al)
  next
    case False
    let ?n = "(x, unat ch, unat n div 8 * 8)"
    define m where "m = set_chunk_addr x ch (set_chunk_next x 0 (set_chunk_size x (ALIGN_DOWN n MIN_CHUNK_SIZE) (ram t)))"
    have inv': "ih.client_inv F (l2_heap t, [] @ meta ?n # L)" using g(2) False by (simp add: meta_def)
    have okx: "blk_ok (meta ?n)" using node_ok [OF inv'] by simp
    have w: "writes ?n (ram t) m"
      unfolding m_def
      using writes_trans [OF writes_trans [OF writesI(1) [OF okx] writesI(2) [OF okx]] writesI(3) [OF okx]] .
    have "n \<noteq> 0" using c(3) by auto
    then have code: "malloc_extern_init a ch n s = Some (0, a\<lparr>first_free := x\<rparr>, t\<lparr>ram := m\<rparr>)"
      using g(1) False pos by (simp add: malloc_extern_init_def al Let_def m_def)
    have "unat (ALIGN_DOWN n MIN_CHUNK_SIZE) = unat n div 8 * 8"
      by (simp add: MIN_CHUNK_SIZE_def unat_ALIGN_DOWN8)
    moreover have "unat n div 8 * 8 \<le> unat n" by simp
    then have "unat ch + unat n div 8 * 8 \<le> heap_top" using c(4) by linarith
    ultimately have "ext_rep F (a\<lparr>first_free := x\<rparr>) (t\<lparr>ram := m\<rparr>) [?n] L"
      using write_node(1) [OF inv' w] False chunk_fields_set [OF okx] c r8
      by (simp add: ext_rep_def m_def)
    with code show ?thesis by auto
  qed
qed

definition demo_heaps :: heaps where
  "demo_heaps = \<lparr>csrs = \<lambda>_. 0, regs = \<lambda>_. 0, io_log = [], l2_malloc = fst demo_heap, fc_l1_malloc = fst demo_heap,
     cl_l1_malloc = fst demo_heap, l2_lock = 0, fc_l1_lock = 0, ram = snd demo_heap, console = []\<rparr>"

definition demo_extern :: "u32 \<times> malloc_t \<times> heaps" where
  "demo_extern = the (malloc_extern_init \<lparr>first_free = 0, mem_type = EXTERNAL_MALLOC\<rparr> 0x10000000 1024 demo_heaps)"

lemma demo_heaps_rep: "malloc_rep (l2_malloc demo_heaps) (ram demo_heaps) [(0x1C000008, 4088)]"
  using demo_heap_rep by (simp add: demo_heaps_def)

lemma demo_heaps_inv: "ih.client_inv (heap_free (l2_heap demo_heaps)) (l2_heap demo_heaps, [])"
  using demo_heaps_rep by (auto simp: ih.client_inv_def heap_inv_def l2_heap_def)

lemma demo_l2_get: "\<exists>r t. pi_l2_malloc sizeof_chunk demo_heaps = Some (r, t) \<and> r \<noteq> 0"
proof -
  have "\<exists>r h. heap_get (l2_heap demo_heaps) sizeof_chunk = Some (r, h) \<and> unat r = 0x1C000FF0"
    using malloc_refines [OF demo_heaps_rep, of sizeof_chunk]
    by (auto simp: heap_get_def l2_heap_def sizeof_chunk_def heap_top_def round8_def)
  then show ?thesis using pi_l2_malloc_heap [of sizeof_chunk demo_heaps]
    by (auto simp: map_option_case split: option.splits)
qed

lemma demo_extern_rep:
  obtains c where "ext_rep (heap_free (l2_heap demo_heaps)) (fst (snd demo_extern)) (snd (snd demo_extern))
    [(c, 0x10000000, 1024)] []"
proof -
  obtain r t where g: "pi_l2_malloc sizeof_chunk demo_heaps = Some (r, t)" "r \<noteq> 0" using demo_l2_get by blast
  then have "\<exists>a' s'. malloc_extern_init \<lparr>first_free = 0, mem_type = EXTERNAL_MALLOC\<rparr> 0x10000000 1024 demo_heaps
      = Some (0, a', s')"
    by (auto simp: malloc_extern_init_def Let_def)
  then have "fst demo_extern = 0" unfolding demo_extern_def by auto
  moreover have "\<exists>r a' s'. malloc_extern_init \<lparr>first_free = 0, mem_type = EXTERNAL_MALLOC\<rparr> 0x10000000 1024 demo_heaps
      = Some (r, a', s') \<and> (if r = 0 then \<exists>c. ext_rep (heap_free (l2_heap demo_heaps)) a' s' [(c, 0x10000000, 1024)] []
         else r = 1 \<and> a' = \<lparr>first_free = 0, mem_type = EXTERNAL_MALLOC\<rparr>)"
    using malloc_extern_init_rep [OF demo_heaps_inv, of "0x10000000" 1024 "\<lparr>first_free = 0, mem_type = EXTERNAL_MALLOC\<rparr>"]
    by (simp add: heap_top_def cong: if_cong)
  ultimately show thesis using that unfolding demo_extern_def by auto
qed

text \<open>C7: malloc_extern returns for every well-formed descriptor list and is the
  first fit of the abstract list of external chunks: NULL with nothing changed exactly when no chunk
  is large enough, otherwise the end of the first one that is. Descriptors of used-up chunks go back
  to the L2 heap, every other L2 block keeps its data, and no byte of the L2 heap is lost.\<close>
theorem extern_first_fit:
  assumes "ext_rep F a s ts L" "size_ok n"
  shows "case fl_alloc (round8 (unat n)) (map snd ts) of
           None \<Rightarrow> malloc_extern a n s = Some (0, a, s)
         | Some (r, ys) \<Rightarrow> \<exists>r' a' s' ts'. malloc_extern a n s = Some (r', a', s') \<and> unat r' = r
             \<and> ext_rep F a' s' ts' L \<and> map snd ts' = ys \<and> same_data L s s'"
  by (rule malloc_extern_refines [OF assms])

lemma extern_first_fit_witness:
  "\<exists>a' s'. malloc_extern (fst (snd demo_extern)) 1024 (snd (snd demo_extern)) = Some (0x10000000, a', s')
     \<and> ext_rep (heap_free (l2_heap demo_heaps)) a' s' [] []"
proof -
  obtain c where c: "ext_rep (heap_free (l2_heap demo_heaps)) (fst (snd demo_extern)) (snd (snd demo_extern))
    [(c, 0x10000000, 1024)] []" by (rule demo_extern_rep)
  have "unat r' = 0x10000000 \<Longrightarrow> r' = 0x10000000" for r' :: u32 by (simp add: word_unat_eq_iff)
  then show ?thesis
    using extern_first_fit [OF c, of 1024] by (auto simp: size_ok_def heap_top_def round8_def)
qed

text \<open>C8: malloc_extern_free returns for every block outside the free list. It
  answers 0 exactly when a free chunk begins where the block ends, whose descriptor it takes over, or the free list xs of the L2 heap has
  a chunk large enough for a new descriptor; it then implements the ordered insertion that merges the block with both
  neighbours. Otherwise it answers 1, the free list
  is unchanged and the block stays lost. The data of every other L2 block is kept.\<close>
theorem extern_free_coalesces:
  assumes "ext_rep F a s ts L" "blk_ok (p, n)" "span (p, n) \<inter> fl_bytes (map snd ts) = {}" "malloc_rep (l2_malloc s) (ram s) xs"
  shows "\<exists>r a' s'. malloc_extern_free a p n s = Some (r, a', s') \<and> same_data L s s'
    \<and> (if unat p + round8 (unat n) \<in> fst ` set (map snd ts) \<or> fl_alloc (round8 (unat sizeof_chunk)) xs \<noteq> None
       then r = 0 \<and> (\<exists>ts'. ext_rep F a' s' ts' L \<and> map snd ts' = fl_free (unat p) (round8 (unat n)) (map snd ts))
       else r = 1 \<and> a' = a \<and> ext_rep F a s' ts L)"
proof -
  obtain r a' s' where r: "malloc_extern_free a p n s = Some (r, a', s')" "same_data L s s'"
      "r = 0 \<longleftrightarrow> unat p + round8 (unat n) \<in> fst ` set (map snd ts) \<or> fl_alloc (round8 (unat sizeof_chunk)) xs \<noteq> None"
      "if r = 0 then \<exists>ts'. ext_rep F a' s' ts' L \<and> map snd ts' = fl_free (unat p) (round8 (unat n)) (map snd ts)
       else r = 1 \<and> a' = a \<and> ext_rep F a s' ts L"
    using malloc_extern_free_refines [OF assms(1-3)] unfolding l2_room_rep [OF assms(4)] by blast
  show ?thesis by (intro exI conjI, rule r(1), rule r(2)) (use r(3,4) in \<open>simp split: if_splits\<close>)
qed

lemma extern_free_coalesces_witness:
  "\<exists>a' s' ts'. malloc_extern_free (fst (snd demo_extern)) 0x0FFFFFC0 64 (snd (snd demo_extern)) = Some (0, a', s')
     \<and> ext_rep (heap_free (l2_heap demo_heaps)) a' s' ts' [] \<and> map snd ts' = [(0x0FFFFFC0, 1088)]"
proof -
  obtain c where c: "ext_rep (heap_free (l2_heap demo_heaps)) (fst (snd demo_extern)) (snd (snd demo_extern))
    [(c, 0x10000000, 1024)] []" by (rule demo_extern_rep)
  then obtain xs where xs: "malloc_rep (l2_malloc (snd (snd demo_extern))) (ram (snd (snd demo_extern))) xs"
    by (auto simp: ext_rep_def ih.client_inv_def heap_inv_def l2_heap_def)
  show ?thesis
    using extern_free_coalesces [OF c _ _ xs, of "0x0FFFFFC0" 64]
    by (auto simp: blk_ok_def span_def block_def heap_top_def round8_def)
qed

text \<open>C9: the external allocator is equivalent to the internal one: with the
  same free chunks both answer a request with the same address, or both with NULL, and are left
  with the same free chunks, though one keeps its list in the free memory itself and the other in
  descriptors.\<close>
theorem extern_internal_agree:
  assumes "ext_rep F a s ts L" "malloc_rep b m (map snd ts)" "size_ok n"
  shows "\<exists>r a' s' ts' b' m'. malloc_extern a n s = Some (r, a', s') \<and> malloc b m n = Some (r, b', m')
           \<and> ext_rep F a' s' ts' L \<and> malloc_rep b' m' (map snd ts')"
proof -
  have n: "0 < unat n" "unat n \<le> heap_top - 8" using assms(3) by (auto simp: size_ok_def)
  note E = malloc_extern_refines [OF assms(1,3)] and I = malloc_refines [OF assms(2) n]
  show ?thesis
  proof (cases "fl_alloc (round8 (unat n)) (map snd ts)")
    case None
    then show ?thesis using E I assms(1,2) by auto
  next
    case (Some py)
    obtain p ys where "py = (p, ys)" by (cases py)
    then obtain r1 a' s' ts' r2 b' m' where
      "malloc_extern a n s = Some (r1, a', s')" "unat r1 = p" "ext_rep F a' s' ts' L" "map snd ts' = ys"
      "malloc b m n = Some (r2, b', m')" "unat r2 = p" "malloc_rep b' m' ys"
      using E I Some by auto
    moreover from this have "r1 = r2" by (simp add: word_unat_eq_iff)
    ultimately show ?thesis by auto
  qed
qed

lemma extern_internal_agree_witness:
  "\<exists>b m r a' s' b' m'. malloc_rep b m [(0x10000000, 1024)]
     \<and> malloc_extern (fst (snd demo_extern)) 100 (snd (snd demo_extern)) = Some (r, a', s') \<and> malloc b m 100 = Some (r, b', m')"
proof -
  obtain c where c: "ext_rep (heap_free (l2_heap demo_heaps)) (fst (snd demo_extern)) (snd (snd demo_extern))
    [(c, 0x10000000, 1024)] []" by (rule demo_extern_rep)
  obtain b m where "malloc_init \<lparr>first_free = 0, mem_type = INTERNAL_MALLOC\<rparr> (\<lambda>_. 0) 0x10000000 1024 = (b, m)"
    by fastforce
  from malloc_init_rep(1) [OF _ _ _ this] have b: "malloc_rep b m [(0x10000000, 1024)]"
    by (simp add: heap_top_def round8_def)
  show ?thesis
    using extern_internal_agree [OF c, of b m 100] b by (simp add: size_ok_def heap_top_def) blast
qed

lemma malloc_get_cases:
  assumes "malloc_rep b m xs" "size_ok n"
  shows "(malloc b m n = Some (0, b, m) \<and> fl_alloc (round8 (unat n)) xs = None)
    \<or> (\<exists>r b' m'. malloc b m n = Some (r, b', m') \<and> r \<noteq> 0 \<and> fl_alloc (round8 (unat n)) xs \<noteq> None
         \<and> span (r, n) \<subseteq> fl_bytes xs)"
proof -
  have n: "0 < unat n" "unat n \<le> heap_top - 8" using assms(2) by (auto simp: size_ok_def)
  note I = malloc_refines [OF assms(1) n]
  show ?thesis
  proof (cases "fl_alloc (round8 (unat n)) xs")
    case None
    then show ?thesis using I by simp
  next
    case (Some py)
    obtain p ys where py: "py = (p, ys)" by (cases py)
    from fl_alloc_ok [OF Some [unfolded py] malloc_rep_ok [OF assms(1)]] n
    have "0 < p" "block p (round8 (unat n)) \<subseteq> fl_bytes xs" by auto
    moreover obtain r b' m' where "malloc b m n = Some (r, b', m')" "unat r = p" using I Some py by auto
    ultimately show ?thesis using Some by (auto simp: span_def unat_gt_0)
  qed
qed

text \<open>The sized heap: pi_malloc puts the size including its header in the word below the address it
  returns, and takes the block from the fabric controller's L1 heap or, when that is exhausted, from
  the L2 heap. When both are, it does not fail: it overwrites the word at address 0 and returns 4.
  On a build that is neither for GAP8 nor for GAP9 or Vega pi_free gives nothing back.\<close>
lemma pi_malloc_sized:
  assumes "malloc_rep (fc_l1_malloc s) (ram s) xs" "malloc_rep (l2_malloc s) (ram s) ys" "size_ok (n + 4)"
  shows "\<exists>p t. pi_malloc n s = Some (p, t) \<and> rd32 (ram t) (p - 4) = n + 4 \<and> pi_free Build_other p t = Some t
    \<and> (if fl_alloc (round8 (unat (n + 4))) xs \<noteq> None then p \<noteq> 4 \<and> span (p - 4, n + 4) \<subseteq> fl_bytes xs
       else if fl_alloc (round8 (unat (n + 4))) ys \<noteq> None then p \<noteq> 4 \<and> span (p - 4, n + 4) \<subseteq> fl_bytes ys
       else p = 4 \<and> ram t = wr32 (ram s) 0 (n + 4) \<and> last (console t) = Malloc_failed)"
proof -
  from malloc_get_cases [OF assms(1,3)] show ?thesis
  proof (elim disjE exE conjE)
    assume fc: "malloc (fc_l1_malloc s) (ram s) (n + 4) = Some (0, fc_l1_malloc s, ram s)"
       "fl_alloc (round8 (unat (n + 4))) xs = None"
    obtain u where u: "pi_fc_l1_malloc (n + 4) s = Some (0, u)" "l2_malloc u = l2_malloc s" "ram u = ram s"
      using fc(1) by (simp add: pi_fc_l1_malloc_def split_beta Let_def)
    have "malloc_rep (l2_malloc u) (ram u) ys" using assms(2) u by simp
    from malloc_get_cases [OF this assms(3)] show ?thesis
      using fc(2) u by (auto simp: pi_malloc_def pi_l2_malloc_def pi_free_def Let_def)
  next
    fix r b' m'
    assume fc: "malloc (fc_l1_malloc s) (ram s) (n + 4) = Some (r, b', m')" "r \<noteq> 0"
       "fl_alloc (round8 (unat (n + 4))) xs \<noteq> None" "span (r, n + 4) \<subseteq> fl_bytes xs"
    then show ?thesis by (auto simp: pi_malloc_def pi_fc_l1_malloc_def pi_free_def split_beta Let_def)
  qed
qed

lemma pi_malloc_sized_witness:
  "\<exists>p t. pi_malloc 5000 demo_heaps = Some (p, t) \<and> p = 4 \<and> rd32 (ram t) 0 = 5004"
proof -
  have fc: "malloc_rep (fc_l1_malloc demo_heaps) (ram demo_heaps) [(0x1C000008, 4088)]"
    using demo_heap_rep by (simp add: demo_heaps_def)
  show ?thesis
    using pi_malloc_sized [OF fc demo_heaps_rep, of 5000] by (auto simp: size_ok_def heap_top_def round8_def)
qed

end
