(* ===== verification/I2c.thy ===== *)
theory I2c
  imports Udma
begin

text \<open>
  The I2C driver (drivers/i2c.c, drivers/include/udma_i2c.h, i2c_periph.h), for a build i2c_build
  that says where the peripheral sits and whether CONFIG_UDMA_I2C_EOT and CONFIG_UDMA_I2C_ACK are
  set. Interface and chip structures live at the addresses that pi_l2_malloc returned, the
  arguments chunk_drv and chunk_cs (0 on failure); the peripheral clock is periph_freq. The next
  field of the chips and the pending-transfer structure are words of i2c_word, because the
  driver reaches both through NULL: null_mapped says whether the words at these low addresses can be
  read and written. A null interface, an index outside the tables, a division by zero, a search or a
  wait that never ends, and an access through NULL where it is not mapped are None.
\<close>

subsection \<open>Builds, registers, commands\<close>

record i2c_build =
  i2c_id0 :: u32
  nb_i2c :: nat
  cfg_eot :: bool
  cfg_ack :: bool

definition pulp_i2c :: i2c_build where
  "pulp_i2c = \<lparr>i2c_id0 = 2, nb_i2c = 2, cfg_eot = False, cfg_ack = False\<rparr>"
definition control_pulp_i2c :: i2c_build where
  "control_pulp_i2c = \<lparr>i2c_id0 = 9, nb_i2c = 12, cfg_eot = True, cfg_ack = True\<rparr>"

definition UDMA_I2C_ID :: "i2c_build \<Rightarrow> u32 \<Rightarrow> u32" where "UDMA_I2C_ID b i = i2c_id0 b + i"

definition UDMA_I2C :: "i2c_build \<Rightarrow> u32 \<Rightarrow> u32" where
  "UDMA_I2C b i = UDMA_PERIPH_BASE_ADDR + push_bit UDMA_PERIPH_SIZE_LOG2 (UDMA_I2C_ID b i)"

definition SOC_EVENT_UDMA_I2C_RX :: "i2c_build \<Rightarrow> u32 \<Rightarrow> u32" where
  "SOC_EVENT_UDMA_I2C_RX b i = push_bit UDMA_CHANNEL_NB_EVENTS_LOG2 (UDMA_I2C_ID b i) + 0"
definition SOC_EVENT_UDMA_I2C_TX :: "i2c_build \<Rightarrow> u32 \<Rightarrow> u32" where
  "SOC_EVENT_UDMA_I2C_TX b i = push_bit UDMA_CHANNEL_NB_EVENTS_LOG2 (UDMA_I2C_ID b i) + 1"
definition SOC_EVENT_UDMA_I2C_EOT :: "i2c_build \<Rightarrow> u32 \<Rightarrow> u32" where
  "SOC_EVENT_UDMA_I2C_EOT b i = push_bit UDMA_CHANNEL_NB_EVENTS_LOG2 (UDMA_I2C_ID b i) + 3"

definition i2c_status :: "i2c_build \<Rightarrow> u32 \<Rightarrow> u32" where "i2c_status b i = UDMA_I2C b i + 0x20"
definition i2c_setup :: "i2c_build \<Rightarrow> u32 \<Rightarrow> u32" where "i2c_setup b i = UDMA_I2C b i + 0x24"
definition i2c_ack :: "i2c_build \<Rightarrow> u32 \<Rightarrow> u32" where "i2c_ack b i = UDMA_I2C b i + 0x28"

definition I2C_STATUS_BUSY_MASK :: u32 where "I2C_STATUS_BUSY_MASK = 0x1"
definition I2C_STATUS_ARB_LOST_MASK :: u32 where "I2C_STATUS_ARB_LOST_MASK = 0x2"
definition I2C_SETUP_DO_RST_MASK :: u32 where "I2C_SETUP_DO_RST_MASK = 0x1"
definition I2C_ACK_NACK_MASK :: u32 where "I2C_ACK_NACK_MASK = 0x1"

definition I2C_CMD_START :: u8 where "I2C_CMD_START = 0x00"
definition I2C_CMD_STOP :: u8 where "I2C_CMD_STOP = 0x20"
definition I2C_CMD_RD_ACK :: u8 where "I2C_CMD_RD_ACK = 0x40"
definition I2C_CMD_RD_NACK :: u8 where "I2C_CMD_RD_NACK = 0x60"
definition I2C_CMD_WR :: u8 where "I2C_CMD_WR = 0x80"
definition I2C_CMD_EOT :: u8 where "I2C_CMD_EOT = 0x90"
definition I2C_CMD_WAIT :: u8 where "I2C_CMD_WAIT = 0xA0"
definition I2C_CMD_RPT :: u8 where "I2C_CMD_RPT = 0xC0"
definition I2C_CMD_CFG :: u8 where "I2C_CMD_CFG = 0xE0"

definition i2c_udma_channel_set :: "i2c_build \<Rightarrow> u32 \<Rightarrow> udma_channel \<Rightarrow> u32 \<Rightarrow> u32 \<Rightarrow> u32 \<Rightarrow> 'a machine_scheme \<Rightarrow> 'a machine_scheme" where
  "i2c_udma_channel_set b device_id channel l2buf sz cfg s =
     (case channel of
        RX_CHANNEL \<Rightarrow> udma_enqueue_channel (UDMA_I2C b device_id) l2buf sz cfg s
      | TX_CHANNEL \<Rightarrow> udma_enqueue_channel (UDMA_I2C b device_id + 0x10) l2buf sz cfg s
      | COMMAND_CHANNEL \<Rightarrow> s)"

definition i2c_status_set :: "i2c_build \<Rightarrow> u32 \<Rightarrow> u32 \<Rightarrow> 'a machine_scheme \<Rightarrow> 'a machine_scheme" where
  "i2c_status_set b device_id status s = writew status (i2c_status b device_id) s"

definition i2c_status_get :: "i2c_build \<Rightarrow> u32 \<Rightarrow> 'a machine_scheme \<Rightarrow> u32" where
  "i2c_status_get b device_id s = readw (i2c_status b device_id) s"

definition i2c_setup_set :: "i2c_build \<Rightarrow> u32 \<Rightarrow> u32 \<Rightarrow> 'a machine_scheme \<Rightarrow> 'a machine_scheme" where
  "i2c_setup_set b device_id setup s = writew setup (i2c_setup b device_id) s"

definition i2c_setup_get :: "i2c_build \<Rightarrow> u32 \<Rightarrow> 'a machine_scheme \<Rightarrow> u32" where
  "i2c_setup_get b device_id s = readw (i2c_setup b device_id) s"

definition i2c_ack_set :: "i2c_build \<Rightarrow> u32 \<Rightarrow> u32 \<Rightarrow> 'a machine_scheme \<Rightarrow> 'a machine_scheme" where
  "i2c_ack_set b device_id v s = writew v (i2c_ack b device_id) s"

definition i2c_ack_get :: "i2c_build \<Rightarrow> u32 \<Rightarrow> 'a machine_scheme \<Rightarrow> u32" where
  "i2c_ack_get b device_id s = readw (i2c_ack b device_id) s"

definition hal_i2c_busy_get :: "i2c_build \<Rightarrow> u32 \<Rightarrow> 'a machine_scheme \<Rightarrow> u32" where
  "hal_i2c_busy_get b device_id s = i2c_status_get b device_id s AND I2C_STATUS_BUSY_MASK"

definition hal_i2c_arbitration_set :: "i2c_build \<Rightarrow> u32 \<Rightarrow> u8 \<Rightarrow> 'a machine_scheme \<Rightarrow> 'a machine_scheme" where
  "hal_i2c_arbitration_set b device_id v s =
     i2c_status_set b device_id ((i2c_status_get b device_id s AND NOT I2C_STATUS_ARB_LOST_MASK)
       OR (push_bit 1 (ucast v) AND I2C_STATUS_ARB_LOST_MASK)) s"

definition hal_i2c_arbitration_get :: "i2c_build \<Rightarrow> u32 \<Rightarrow> 'a machine_scheme \<Rightarrow> u32" where
  "hal_i2c_arbitration_get b device_id s = drop_bit 1 (i2c_status_get b device_id s AND I2C_STATUS_ARB_LOST_MASK)"

definition hal_i2c_reset_set :: "i2c_build \<Rightarrow> u32 \<Rightarrow> u8 \<Rightarrow> 'a machine_scheme \<Rightarrow> 'a machine_scheme" where
  "hal_i2c_reset_set b device_id v s = i2c_setup_set b device_id (ucast v AND I2C_SETUP_DO_RST_MASK) s"

definition hal_i2c_do_reset_get :: "i2c_build \<Rightarrow> u32 \<Rightarrow> 'a machine_scheme \<Rightarrow> u32" where
  "hal_i2c_do_reset_get b device_id s = i2c_setup_get b device_id s AND NOT I2C_SETUP_DO_RST_MASK"

definition hal_i2c_enqueue :: "i2c_build \<Rightarrow> u32 \<Rightarrow> udma_channel \<Rightarrow> u32 \<Rightarrow> u32 \<Rightarrow> u32 \<Rightarrow> 'a machine_scheme \<Rightarrow> 'a machine_scheme" where
  "hal_i2c_enqueue b device_id channel l2buf sz cfg s = i2c_udma_channel_set b device_id channel l2buf sz cfg s"

definition I2C_CFG_EN :: u32 where "I2C_CFG_EN = push_bit 4 1 AND 0x10"

subsection \<open>Driver state\<close>

record i2c_cs_data =
  ic_device_id :: u8
  ic_cs :: u8
  ic_clk_div :: u16
  ic_max_baudrate :: u32

record i2c_itf_data =
  i_buf :: u32
  i_fifo_head :: u32
  i_fifo_tail :: u32
  i_pending :: u32
  i_nb_open :: u32
  i_cmd_index :: u32
  i_cs_list :: u32
  i_cmd_seq :: "u8 list"
  i_stop_send :: u8
  i_stop_seq :: "u8 list"
  i_eot_send :: u8
  i_only_eot_seq :: u32
  i_device_id :: u8
  i_nb_events :: u8

record i2c_drv = soc +
  i2c_cs_at :: "u32 \<Rightarrow> i2c_cs_data"
  i2c_data_at :: "u32 \<Rightarrow> i2c_itf_data"
  i2c_word :: "u32 \<Rightarrow> u32"
  null_mapped :: bool
  g_i2c_itf_data :: "u32 list"

record pi_i2c_conf =
  ii_device :: u32
  ii_itf :: u8
  ii_cs :: u16
  ii_is_10_bits :: u8
  ii_wait_cycles :: u16
  ii_max_baudrate :: u32
  ii_ts_ch :: u8
  ii_ts_evt_id :: u8

definition PI_DEVICE_I2C_TYPE :: u32 where "PI_DEVICE_I2C_TYPE = 5"
definition PI_I2C_XFER_NO_STOP :: u32 where "PI_I2C_XFER_NO_STOP = 1"
definition PI_I2C_XFER_NO_START :: u32 where "PI_I2C_XFER_NO_START = push_bit 1 1"
definition PI_I2C_CTRL_SET_MAX_BAUDRATE :: u32 where "PI_I2C_CTRL_SET_MAX_BAUDRATE = 1"
definition PI_ERR_I2C_NACK :: int where "PI_ERR_I2C_NACK = 0x100"
definition MAX_SIZE :: u32 where "MAX_SIZE = 0xFF"
definition ADDRESS_WRITE :: u8 where "ADDRESS_WRITE = 0"
definition ADDRESS_READ :: u8 where "ADDRESS_READ = 1"
definition PI_I2C_CMD_BUFF_SIZE :: nat where "PI_I2C_CMD_BUFF_SIZE = 16"
definition PI_I2C_STOP_CMD_SIZE :: u32 where "PI_I2C_STOP_CMD_SIZE = 4"
definition PI_I2C_ONLY_EOT_CMD_SIZE :: u32 where "PI_I2C_ONLY_EOT_CMD_SIZE = 3"

definition sizeof_i2c_itf_data :: u32 where "sizeof_i2c_itf_data = 64"
definition sizeof_i2c_cs_data :: u32 where "sizeof_i2c_cs_data = 12"
definition sizeof_i2c_pending :: u32 where "sizeof_i2c_pending = 28"
definition i2c_cmd_seq_addr :: "u32 \<Rightarrow> u32" where "i2c_cmd_seq_addr d = d + 32"
definition i2c_stop_seq_addr :: "u32 \<Rightarrow> u32" where "i2c_stop_seq_addr d = d + 49"
definition ic_next_addr :: "u32 \<Rightarrow> u32" where "ic_next_addr cs = cs + 8"

definition pending_buffer :: "u32 \<Rightarrow> u32" where "pending_buffer p = p"
definition pending_size :: "u32 \<Rightarrow> u32" where "pending_size p = p + 4"
definition pending_repeat :: "u32 \<Rightarrow> u32" where "pending_repeat p = p + 8"
definition pending_repeat_size :: "u32 \<Rightarrow> u32" where "pending_repeat_size p = p + 12"
definition pending_flags :: "u32 \<Rightarrow> u32" where "pending_flags p = p + 16"
definition pending_channel :: "u32 \<Rightarrow> u32" where "pending_channel p = p + 24"

definition upd_i2c :: "u32 \<Rightarrow> (i2c_itf_data \<Rightarrow> i2c_itf_data) \<Rightarrow> 'a i2c_drv_scheme \<Rightarrow> 'a i2c_drv_scheme" where
  "upd_i2c p f s = s\<lparr>i2c_data_at := (i2c_data_at s)(p := f (i2c_data_at s p))\<rparr>"

definition upd_ics :: "u32 \<Rightarrow> (i2c_cs_data \<Rightarrow> i2c_cs_data) \<Rightarrow> 'a i2c_drv_scheme \<Rightarrow> 'a i2c_drv_scheme" where
  "upd_ics p f s = s\<lparr>i2c_cs_at := (i2c_cs_at s)(p := f (i2c_cs_at s p))\<rparr>"

definition i2c_store :: "u32 \<Rightarrow> u32 \<Rightarrow> 'a i2c_drv_scheme \<Rightarrow> 'a i2c_drv_scheme" where
  "i2c_store a v s = s\<lparr>i2c_word := (i2c_word s)(a := v)\<rparr>"

definition usable :: "u32 \<Rightarrow> 'a i2c_drv_scheme \<Rightarrow> bool" where
  "usable p s \<longleftrightarrow> p \<noteq> 0 \<or> null_mapped s"

definition fill :: "u8 list \<Rightarrow> u8 list \<Rightarrow> u8 list" where
  "fill new old = new @ drop (length new) old"

definition pi_i2c_conf_init :: "pi_i2c_conf \<Rightarrow> pi_i2c_conf" where
  "pi_i2c_conf_init conf = conf\<lparr>ii_device := PI_DEVICE_I2C_TYPE, ii_cs := 0, ii_max_baudrate := 200000, ii_itf := 0,
     ii_wait_cycles := 1, ii_ts_ch := 0, ii_ts_evt_id := 0\<rparr>"

definition pi_i2c_conf_set_slave_addr :: "u16 \<Rightarrow> u8 \<Rightarrow> pi_i2c_conf \<Rightarrow> pi_i2c_conf" where
  "pi_i2c_conf_set_slave_addr slave_addr is_10_bits conf = conf\<lparr>ii_cs := slave_addr, ii_is_10_bits := is_10_bits\<rparr>"

subsection \<open>Commands sent behind a transfer\<close>

definition pi_i2c_handle_pending_transfer :: "u32 \<Rightarrow> 'a i2c_drv_scheme \<Rightarrow> 'a i2c_drv_scheme option" where
  "pi_i2c_handle_pending_transfer d s =
     (let p = i_pending (i2c_data_at s d) in
      if \<not> usable p s then None
      else
        let s = i2c_store (pending_buffer p) (i2c_word s (pending_buffer p) + i2c_word s (pending_repeat p)) s;
            s = i2c_store (pending_repeat_size p) (i2c_word s (pending_repeat_size p) - i2c_word s (pending_repeat p)) s;
            s = i2c_store (pending_size p) (i2c_word s (pending_repeat p)) s;
            s = (if i2c_word s (pending_repeat_size p) \<le> i2c_word s (pending_repeat p)
                 then let s = i2c_store (pending_repeat p) 0 s;
                          s = i2c_store (pending_size p) (i2c_word s (pending_repeat_size p)) s in
                      upd_i2c d (\<lambda>x. x\<lparr>i_stop_send :=
                        (if i2c_word s (pending_flags p) AND PI_I2C_XFER_NO_STOP \<noteq> 0 then 0 else 1)\<rparr>) s
                 else s) in
        Some (upd_i2c d (\<lambda>x. x\<lparr>i_cmd_seq :=
          fill [I2C_CMD_RPT, ucast (i2c_word s (pending_size p)), I2C_CMD_WR] (i_cmd_seq x)\<rparr>) s))"

definition pi_i2c_send_stop_cmd :: "i2c_build \<Rightarrow> u32 \<Rightarrow> 'a i2c_drv_scheme \<Rightarrow> 'a i2c_drv_scheme" where
  "pi_i2c_send_stop_cmd b d s =
     (let s = upd_i2c d (\<lambda>x. x\<lparr>i_stop_send := 0, i_eot_send := 0\<rparr>) s in
      hal_i2c_enqueue b (ucast (i_device_id (i2c_data_at s d))) TX_CHANNEL (i2c_stop_seq_addr d) PI_I2C_STOP_CMD_SIZE I2C_CFG_EN s)"

definition pi_i2c_send_only_eot_cmd :: "i2c_build \<Rightarrow> u32 \<Rightarrow> 'a i2c_drv_scheme \<Rightarrow> 'a i2c_drv_scheme" where
  "pi_i2c_send_only_eot_cmd b d s =
     (let s = upd_i2c d (\<lambda>x. x\<lparr>i_eot_send := 0\<rparr>) s in
      hal_i2c_enqueue b (ucast (i_device_id (i2c_data_at s d))) TX_CHANNEL (i_only_eot_seq (i2c_data_at s d))
        PI_I2C_ONLY_EOT_CMD_SIZE I2C_CFG_EN s)"

definition pi_irq_handle_end_of_task :: "u32 \<Rightarrow> 'a i2c_drv_scheme \<Rightarrow> 'a i2c_drv_scheme option" where
  "pi_irq_handle_end_of_task task s =
     (if t_id (task_at s task) = PI_TASK_NONE_ID then pi_task_release task s
      else if t_id (task_at s task) = PI_TASK_CALLBACK_ID then Some (pi_task_push task s)
      else Some s)"

subsection \<open>Slot and queue\<close>

definition pi_i2c_cb_buf_empty :: "u32 \<Rightarrow> 'a i2c_drv_scheme \<Rightarrow> bool" where
  "pi_i2c_cb_buf_empty d s \<longleftrightarrow> i_buf (i2c_data_at s d) = 0"

definition pi_i2c_cb_buf_enqueue :: "u32 \<Rightarrow> u32 \<Rightarrow> 'a i2c_drv_scheme \<Rightarrow> 'a i2c_drv_scheme" where
  "pi_i2c_cb_buf_enqueue d task s =
     (let (irq, s) = disable_irq s; s = upd_i2c d (\<lambda>x. x\<lparr>i_buf := task\<rparr>) s in restore_irq irq s)"

definition pi_i2c_cb_buf_pop :: "u32 \<Rightarrow> 'a i2c_drv_scheme \<Rightarrow> u32 \<times> 'a i2c_drv_scheme" where
  "pi_i2c_cb_buf_pop d s =
     (let (irq, s) = disable_irq s;
          task_to_return = i_buf (i2c_data_at s d);
          s = upd_i2c d (\<lambda>x. x\<lparr>i_buf := 0\<rparr>) s in
      (task_to_return, restore_irq irq s))"

definition pi_i2c_task_fifo_enqueue :: "u32 \<Rightarrow> u32 \<Rightarrow> 'a i2c_drv_scheme \<Rightarrow> 'a i2c_drv_scheme" where
  "pi_i2c_task_fifo_enqueue d task s =
     (let (irq, s) = disable_irq s;
          s = (if i_fifo_head (i2c_data_at s d) = 0 then upd_i2c d (\<lambda>x. x\<lparr>i_fifo_head := task\<rparr>) s
               else upd_task (i_fifo_tail (i2c_data_at s d)) (\<lambda>t. t\<lparr>t_next := task\<rparr>) s);
          s = upd_i2c d (\<lambda>x. x\<lparr>i_fifo_tail := task\<rparr>) s in
      restore_irq irq s)"

definition pi_i2c_task_fifo_pop :: "u32 \<Rightarrow> 'a i2c_drv_scheme \<Rightarrow> u32 \<times> 'a i2c_drv_scheme" where
  "pi_i2c_task_fifo_pop d s =
     (let (irq, s) = disable_irq s;
          (task_to_return, s) =
            (if i_fifo_head (i2c_data_at s d) \<noteq> 0
             then let task = i_fifo_head (i2c_data_at s d) in
                  (task, upd_i2c d (\<lambda>x. x\<lparr>i_fifo_head := t_next (task_at s task)\<rparr>) s)
             else (0, s)) in
      (task_to_return, restore_irq irq s))"

definition pi_i2c_clk_div_get :: "u32 \<Rightarrow> u32 \<Rightarrow> u32 option" where
  "pi_i2c_clk_div_get periph_freq i2c_freq =
     (let freq = push_bit 2 i2c_freq in
      if freq = 0 then None
      else let dv = (periph_freq + freq - 1) div freq;
               dv = (if dv \<le> 1 then 0 else dv - 1) in
           Some (if dv > 0xFFFF then 0xFFFFFFFF else dv))"

subsection \<open>Transfers\<close>

definition i2c_header :: "u16 \<Rightarrow> u8 list" where
  "i2c_header clk_div = [I2C_CMD_CFG, ucast (drop_bit 8 clk_div), ucast clk_div]"

definition i2c_set_pending :: "u32 \<Rightarrow> u32 \<Rightarrow> u32 \<Rightarrow> u32 \<Rightarrow> u32 \<Rightarrow> 'a i2c_drv_scheme \<Rightarrow> 'a i2c_drv_scheme" where
  "i2c_set_pending d buffer sz flags channel s =
     (let p = i_pending (i2c_data_at s d) in
      if sz > MAX_SIZE
      then let s = i2c_store (pending_buffer p) buffer s;
               s = i2c_store (pending_repeat p) MAX_SIZE s;
               s = i2c_store (pending_repeat_size p) sz s;
               s = i2c_store (pending_flags p) flags s in
           i2c_store (pending_channel p) channel s
      else let s = i2c_store (pending_repeat p) 0 s in
           upd_i2c d (\<lambda>x. x\<lparr>i_stop_send := (if flags AND PI_I2C_XFER_NO_STOP \<noteq> 0 then 0 else 1), i_eot_send := 1\<rparr>) s)"

definition i2c_read_seq :: "u16 \<Rightarrow> u8 \<Rightarrow> u32 \<Rightarrow> u8 list" where
  "i2c_read_seq clk_div cs sz =
     i2c_header clk_div @ [I2C_CMD_START, I2C_CMD_WR, cs OR ADDRESS_READ]
     @ (if sz > 1 then [I2C_CMD_RPT, ucast (sz - 1), I2C_CMD_RD_ACK] else []) @ [I2C_CMD_RD_NACK]"

definition i2c_write_seq :: "u16 \<Rightarrow> u8 \<Rightarrow> u32 \<Rightarrow> u32 \<Rightarrow> u8 list" where
  "i2c_write_seq clk_div cs flags sz =
     i2c_header clk_div
     @ (if flags AND PI_I2C_XFER_NO_START = 0 then [I2C_CMD_START, I2C_CMD_WR, cs OR ADDRESS_WRITE] else [])
     @ (if sz > 0 then [I2C_CMD_RPT, ucast sz, I2C_CMD_WR] else [])"

definition pi_i2c_copy_exec_read :: "i2c_build \<Rightarrow> u32 \<Rightarrow> u32 \<Rightarrow> 'a i2c_drv_scheme \<Rightarrow> 'a i2c_drv_scheme option" where
  "pi_i2c_copy_exec_read b d task s =
     (let a = t_data (task_at s task); buffer = a 0; sz = a 1; flags = a 2; channel = a 3; cs = a 4 in
      if sz = 0 then Some s
      else if cs = 0 \<or> \<not> usable (i_pending (i2c_data_at s d)) s then None
      else
        let s = i2c_set_pending d buffer sz flags channel s;
            sz = (if sz > MAX_SIZE then MAX_SIZE else sz);
            sq = i2c_read_seq (ic_clk_div (i2c_cs_at s cs)) (ic_cs (i2c_cs_at s cs)) sz;
            s = upd_i2c d (\<lambda>x. x\<lparr>i_cmd_seq := fill sq (i_cmd_seq x)\<rparr>) s;
            s = pi_i2c_cb_buf_enqueue d task s;
            dev = ucast (i_device_id (i2c_data_at s d));
            s = hal_i2c_enqueue b dev RX_CHANNEL buffer sz I2C_CFG_EN s in
        Some (hal_i2c_enqueue b dev TX_CHANNEL (i2c_cmd_seq_addr d) (word_of_nat (length sq)) I2C_CFG_EN s))"

definition pi_i2c_copy_exec_write :: "i2c_build \<Rightarrow> u32 \<Rightarrow> u32 \<Rightarrow> 'a i2c_drv_scheme \<Rightarrow> 'a i2c_drv_scheme option" where
  "pi_i2c_copy_exec_write b d task s =
     (let a = t_data (task_at s task); buffer = a 0; sz = a 1; flags = a 2; channel = a 3; cs = a 4 in
      if cs = 0 \<or> \<not> usable (i_pending (i2c_data_at s d)) s then None
      else
        let s = i2c_set_pending d buffer sz flags channel s;
            sz = (if sz > MAX_SIZE then MAX_SIZE else sz);
            sq = i2c_write_seq (ic_clk_div (i2c_cs_at s cs)) (ic_cs (i2c_cs_at s cs)) flags sz;
            s = upd_i2c d (\<lambda>x. x\<lparr>i_cmd_seq := fill sq (i_cmd_seq x)\<rparr>) s;
            s = pi_i2c_cb_buf_enqueue d task s;
            dev = ucast (i_device_id (i2c_data_at s d));
            s = hal_i2c_enqueue b dev TX_CHANNEL (i2c_cmd_seq_addr d) (word_of_nat (length sq)) I2C_CFG_EN s in
        Some (if sz > 0 then hal_i2c_enqueue b dev TX_CHANNEL buffer sz I2C_CFG_EN s else s))"

definition i2c_exec :: "i2c_build \<Rightarrow> u32 \<Rightarrow> u32 \<Rightarrow> 'a i2c_drv_scheme \<Rightarrow> 'a i2c_drv_scheme option" where
  "i2c_exec b d task s =
     (if t_data (task_at s task) 3 = chan_num RX_CHANNEL then pi_i2c_copy_exec_read b d task s
      else pi_i2c_copy_exec_write b d task s)"

definition i2c_itf :: "u32 \<Rightarrow> 'a i2c_drv_scheme \<Rightarrow> u32 option" where
  "i2c_itf i s =
     (if unat i < length (g_i2c_itf_data s) \<and> g_i2c_itf_data s ! unat i \<noteq> 0
      then Some (g_i2c_itf_data s ! unat i) else None)"

definition pi_i2c_copy :: "i2c_build \<Rightarrow> u32 \<Rightarrow> u32 \<Rightarrow> u32 \<Rightarrow> u32 \<Rightarrow> udma_channel \<Rightarrow> u32 \<Rightarrow> 'a i2c_drv_scheme \<Rightarrow> 'a i2c_drv_scheme option" where
  "pi_i2c_copy b cs l2_buff len flags channel task s =
     (let (irq, s) = disable_irq s;
          s = upd_task task (\<lambda>t. t\<lparr>t_data := (t_data t)(0 := l2_buff, 1 := len, 2 := flags, 3 := chan_num channel, 4 := cs),
                                     t_next := 0\<rparr>) s in
      if cs = 0 then None
      else
        Option.bind (i2c_itf (ucast (ic_device_id (i2c_cs_at s cs))) s) (\<lambda>d.
        map_option (restore_irq irq)
          (if \<not> pi_i2c_cb_buf_empty d s then Some (pi_i2c_task_fifo_enqueue d task s) else i2c_exec b d task s)))"

subsection \<open>Interrupt handlers\<close>

definition i2c_end_of_transfer :: "i2c_build \<Rightarrow> u32 \<Rightarrow> 'a i2c_drv_scheme \<Rightarrow> 'a i2c_drv_scheme option" where
  "i2c_end_of_transfer b d s =
     (let (task, s) = pi_i2c_cb_buf_pop d s in
      Option.bind (if task \<noteq> 0 then pi_irq_handle_end_of_task task s else Some s) (\<lambda>s.
        let (task, s) = pi_i2c_task_fifo_pop d s in
        if task \<noteq> 0 then i2c_exec b d task s else Some s))"

definition pi_i2c_rx_handler :: "u32 \<Rightarrow> 'a i2c_drv_scheme \<Rightarrow> 'a i2c_drv_scheme option" where
  "pi_i2c_rx_handler event s = Some s"

definition pi_i2c_tx_handler :: "i2c_build \<Rightarrow> u32 \<Rightarrow> 'a i2c_drv_scheme \<Rightarrow> 'a i2c_drv_scheme option" where
  "pi_i2c_tx_handler b event s =
     Option.bind (i2c_itf (drop_bit UDMA_CHANNEL_NB_EVENTS_LOG2 event - UDMA_I2C_ID b 0) s) (\<lambda>d.
       if \<not> usable (i_pending (i2c_data_at s d)) s then None
       else if i2c_word s (pending_repeat (i_pending (i2c_data_at s d))) \<noteq> 0 then pi_i2c_handle_pending_transfer d s
       else if i_stop_send (i2c_data_at s d) \<noteq> 0 then Some (pi_i2c_send_stop_cmd b d s)
       else if cfg_eot b
       then Some (if i_eot_send (i2c_data_at s d) \<noteq> 0 then pi_i2c_send_only_eot_cmd b d s else s)
       else i2c_end_of_transfer b d s)"

definition pi_i2c_eot_handler :: "i2c_build \<Rightarrow> u32 \<Rightarrow> 'a i2c_drv_scheme \<Rightarrow> 'a i2c_drv_scheme option" where
  "pi_i2c_eot_handler b event s =
     Option.bind (i2c_itf (drop_bit UDMA_CHANNEL_NB_EVENTS_LOG2 event - UDMA_I2C_ID b 0) s) (\<lambda>d. i2c_end_of_transfer b d s)"

subsection \<open>Chips of an interface\<close>

partial_function (option) i2c_list_end :: "(u32 \<Rightarrow> u32) \<Rightarrow> u32 \<Rightarrow> u32 option" where
  "i2c_list_end wd head = (if head \<noteq> 0 then i2c_list_end wd (wd (ic_next_addr head)) else Some head)"

definition pi_i2c_cs_data_add :: "u32 \<Rightarrow> u32 \<Rightarrow> 'a i2c_drv_scheme \<Rightarrow> 'a i2c_drv_scheme option" where
  "pi_i2c_cs_data_add d cs s =
     Option.bind (i2c_list_end (i2c_word s) (i_cs_list (i2c_data_at s d))) (\<lambda>head.
       if usable head s then Some (i2c_store (ic_next_addr head) cs s) else None)"

partial_function (option) i2c_find_cs :: "(u32 \<Rightarrow> u32) \<Rightarrow> u32 \<Rightarrow> u32 \<Rightarrow> u32 \<Rightarrow> (u32 \<times> u32) option" where
  "i2c_find_cs wd cs prev head =
     (if head \<noteq> 0 \<and> head \<noteq> cs then i2c_find_cs wd cs head (wd (ic_next_addr head)) else Some (prev, head))"

definition pi_i2c_cs_data_remove :: "u32 \<Rightarrow> u32 \<Rightarrow> 'a i2c_drv_scheme \<Rightarrow> 'a i2c_drv_scheme option" where
  "pi_i2c_cs_data_remove d cs s =
     (let head = i_cs_list (i2c_data_at s d) in
      map_option (\<lambda>(prev, head).
          if head \<noteq> 0 then i2c_store (ic_next_addr prev) (i2c_word s (ic_next_addr head)) s else s)
        (i2c_find_cs (i2c_word s) cs head head))"

partial_function (option) i2c_update_clk_divs :: "u32 \<Rightarrow> u32 \<Rightarrow> i2c_drv \<Rightarrow> i2c_drv option" where
  "i2c_update_clk_divs periph_freq cs s =
     (if cs \<noteq> 0
      then Option.bind (pi_i2c_clk_div_get periph_freq (ic_max_baudrate (i2c_cs_at s cs))) (\<lambda>dv.
             i2c_update_clk_divs periph_freq (i2c_word s (ic_next_addr cs)) (upd_ics cs (\<lambda>x. x\<lparr>ic_clk_div := ucast dv\<rparr>) s))
      else Some s)"

definition pi_i2c_freq_cb :: "(i2c_drv \<Rightarrow> i2c_drv) \<Rightarrow> i2c_build \<Rightarrow> u32 \<Rightarrow> u32 \<Rightarrow> i2c_drv \<Rightarrow> i2c_drv option" where
  "pi_i2c_freq_cb env b periph_freq d s =
     (let (irq, s) = disable_irq s;
          device_id = ucast (i_device_id (i2c_data_at s d));
          cs_data = i_cs_list (i2c_data_at s d) in
      Option.bind (wait_while (\<lambda>s. hal_i2c_busy_get b device_id s \<noteq> 0) env s) (\<lambda>s.
      map_option (restore_irq irq) (i2c_update_clk_divs periph_freq cs_data s)))"

definition pi_i2c_baudrate_set :: "u32 \<Rightarrow> u32 \<Rightarrow> u32 \<Rightarrow> 'a i2c_drv_scheme \<Rightarrow> (int \<times> 'a i2c_drv_scheme) option" where
  "pi_i2c_baudrate_set periph_freq cs new_baudrate s =
     (let s = upd_ics cs (\<lambda>x. x\<lparr>ic_max_baudrate := new_baudrate\<rparr>) s in
      map_option (\<lambda>clk_div. if clk_div = 0xFFFFFFFF then (-14, s)
                            else (0, upd_ics cs (\<lambda>x. x\<lparr>ic_clk_div := ucast clk_div\<rparr>) s))
        (pi_i2c_clk_div_get periph_freq (ic_max_baudrate (i2c_cs_at s cs))))"

subsection \<open>Opening and closing\<close>

definition i2c_attach :: "i2c_build \<Rightarrow> u8 \<Rightarrow> 'a i2c_drv_scheme \<Rightarrow> 'a i2c_drv_scheme option" where
  "i2c_attach b i s =
     (let i = ucast i in
      Option.bind (if cfg_eot b
                   then map_option (hal_soc_eu_set_fc_mask (sint (SOC_EVENT_UDMA_I2C_EOT b i)))
                          (pi_fc_event_handler_set (SOC_EVENT_UDMA_I2C_EOT b i) (Some (FC_handler H_i2c_eot)) s)
                   else Some s) (\<lambda>s.
      Option.bind (pi_fc_event_handler_set (SOC_EVENT_UDMA_I2C_RX b i) (Some (FC_handler H_i2c_rx)) s) (\<lambda>s.
      Option.bind (pi_fc_event_handler_set (SOC_EVENT_UDMA_I2C_TX b i) (Some (FC_handler H_i2c_tx)) s) (\<lambda>s.
      let s = hal_soc_eu_set_fc_mask (sint (SOC_EVENT_UDMA_I2C_RX b i)) s;
          s = hal_soc_eu_set_fc_mask (sint (SOC_EVENT_UDMA_I2C_TX b i)) s in
      Some (udma_init_device (UDMA_I2C_ID b i) s)))))"

definition i2c_new_itf :: "i2c_build \<Rightarrow> u32 \<Rightarrow> pi_i2c_conf \<Rightarrow> i2c_itf_data \<Rightarrow> i2c_itf_data" where
  "i2c_new_itf b d conf x = x\<lparr>i_buf := 0, i_fifo_head := 0, i_fifo_tail := 0, i_pending := 0, i_nb_open := 0, i_cmd_index := 0,
     i_cs_list := 0, i_cmd_seq := replicate PI_I2C_CMD_BUFF_SIZE 0, i_stop_send := 0, i_eot_send := 0,
     i_stop_seq := fill ([I2C_CMD_STOP, I2C_CMD_WAIT, if ii_wait_cycles conf > 0xff then 0xff else ucast (ii_wait_cycles conf)]
                         @ (if cfg_eot b then [I2C_CMD_EOT] else [])) (i_stop_seq x),
     i_only_eot_seq := (if cfg_eot b then i2c_stop_seq_addr d + 1 else i_only_eot_seq x),
     i_nb_events := 0, i_device_id := ii_itf conf\<rparr>"

definition pi_i2c_open :: "i2c_build \<Rightarrow> u32 \<Rightarrow> u32 \<Rightarrow> u32 \<Rightarrow> u32 \<Rightarrow> pi_i2c_conf \<Rightarrow> 'a i2c_drv_scheme \<Rightarrow> (int \<times> 'a i2c_drv_scheme) option" where
  "pi_i2c_open b periph_freq chunk_drv chunk_cs device conf s =
     (if nb_i2c b < unat (ii_itf conf) then Some (-11, s)
      else if \<not> unat (ii_itf conf) < length (g_i2c_itf_data s) then None
      else
      let d0 = g_i2c_itf_data s ! unat (ii_itf conf) in
      if d0 = 0 \<and> chunk_drv = 0 then Some (-12, s)
      else
      Option.bind
        (if d0 = 0
         then let s = upd_i2c chunk_drv (i2c_new_itf b chunk_drv conf) s;
                  s = s\<lparr>g_i2c_itf_data := (g_i2c_itf_data s)[unat (ii_itf conf) := chunk_drv]\<rparr> in
              map_option (\<lambda>s. (chunk_drv, s)) (i2c_attach b (ii_itf conf) s)
         else Some (d0, s)) (\<lambda>(d, s).
      if chunk_cs = 0 then Some (-13, s)
      else
        let s = upd_ics chunk_cs (\<lambda>x. x\<lparr>ic_device_id := ii_itf conf, ic_cs := ucast (ii_cs conf),
                                       ic_max_baudrate := ii_max_baudrate conf\<rparr>) s in
        Option.bind (pi_i2c_clk_div_get periph_freq (ic_max_baudrate (i2c_cs_at s chunk_cs))) (\<lambda>clk_div.
        if clk_div = 0xFFFFFFFF then Some (-14, os (OS_L2Free chunk_cs sizeof_i2c_cs_data) s)
        else
          let s = upd_ics chunk_cs (\<lambda>x. x\<lparr>ic_clk_div := ucast clk_div\<rparr>) s;
              s = i2c_store (ic_next_addr chunk_cs) 0 s in
          map_option (\<lambda>s. let s = upd_i2c d (\<lambda>x. x\<lparr>i_nb_open := i_nb_open x + 1\<rparr>) s in
                          (0, s\<lparr>dev_data := (dev_data s)(device := chunk_cs)\<rparr>))
            (pi_i2c_cs_data_add d chunk_cs s))))"

definition i2c_detach :: "i2c_build \<Rightarrow> u8 \<Rightarrow> 'a i2c_drv_scheme \<Rightarrow> 'a i2c_drv_scheme option" where
  "i2c_detach b i s =
     (let i = ucast i in
      Option.bind (if cfg_eot b
                   then map_option (hal_soc_eu_clear_fc_mask (sint (SOC_EVENT_UDMA_I2C_EOT b i)))
                          (pi_fc_event_handler_clear (SOC_EVENT_UDMA_I2C_EOT b i) s)
                   else Some s) (\<lambda>s.
      Option.bind (pi_fc_event_handler_clear (SOC_EVENT_UDMA_I2C_RX b i) s) (\<lambda>s.
      Option.bind (pi_fc_event_handler_clear (SOC_EVENT_UDMA_I2C_TX b i) s) (\<lambda>s.
      let s = hal_soc_eu_clear_fc_mask (sint (SOC_EVENT_UDMA_I2C_RX b i)) s;
          s = hal_soc_eu_clear_fc_mask (sint (SOC_EVENT_UDMA_I2C_TX b i)) s in
      Some (udma_deinit_device (UDMA_I2C_ID b i) s)))))"

definition pi_i2c_close_data :: "i2c_build \<Rightarrow> u32 \<Rightarrow> 'a i2c_drv_scheme \<Rightarrow> 'a i2c_drv_scheme option" where
  "pi_i2c_close_data b cs s =
     (let i = ic_device_id (i2c_cs_at s cs) in
      Option.bind (i2c_itf (ucast i) s) (\<lambda>d.
      Option.bind (pi_i2c_cs_data_remove d cs s) (\<lambda>s.
      let s = upd_i2c d (\<lambda>x. x\<lparr>i_nb_open := i_nb_open x - 1\<rparr>) s in
      map_option (os (OS_L2Free cs sizeof_i2c_cs_data))
        (if i_nb_open (i2c_data_at s d) = 0
         then
           let s = os (OS_L2Free (i_pending (i2c_data_at s d)) sizeof_i2c_pending) s;
               s = os (OS_L2Free d sizeof_i2c_itf_data) s in
           map_option (\<lambda>s.
               let s = os (OS_L2Free d sizeof_i2c_itf_data) s in
               s\<lparr>g_i2c_itf_data := (g_i2c_itf_data s)[unat i := 0]\<rparr>)
             (i2c_detach b (i_device_id (i2c_data_at s d)) s)
         else Some s))))"

definition pi_i2c_close :: "i2c_build \<Rightarrow> u32 \<Rightarrow> 'a i2c_drv_scheme \<Rightarrow> 'a i2c_drv_scheme option" where
  "pi_i2c_close b device s =
     (if dev_data s device \<noteq> 0
      then map_option (\<lambda>s. s\<lparr>dev_data := (dev_data s)(device := 0)\<rparr>) (pi_i2c_close_data b (dev_data s device) s)
      else Some s)"

definition pi_i2c_ioctl :: "u32 \<Rightarrow> u32 \<Rightarrow> u32 \<Rightarrow> u32 \<Rightarrow> 'a i2c_drv_scheme \<Rightarrow> 'a i2c_drv_scheme option" where
  "pi_i2c_ioctl periph_freq device cmd a s =
     (if dev_data s device \<noteq> 0 \<and> cmd = PI_I2C_CTRL_SET_MAX_BAUDRATE
      then map_option snd (pi_i2c_baudrate_set periph_freq (dev_data s device) a s)
      else Some s)"

subsection \<open>Requests\<close>

definition pi_i2c_read_async :: "i2c_build \<Rightarrow> u32 \<Rightarrow> u32 \<Rightarrow> u32 \<Rightarrow> u32 \<Rightarrow> u32 \<Rightarrow> 'a i2c_drv_scheme \<Rightarrow> 'a i2c_drv_scheme option" where
  "pi_i2c_read_async b device rx_buff len flags task s = pi_i2c_copy b (dev_data s device) rx_buff len flags RX_CHANNEL task s"

definition pi_i2c_write_async :: "i2c_build \<Rightarrow> u32 \<Rightarrow> u32 \<Rightarrow> u32 \<Rightarrow> u32 \<Rightarrow> u32 \<Rightarrow> 'a i2c_drv_scheme \<Rightarrow> 'a i2c_drv_scheme option" where
  "pi_i2c_write_async b device tx_data len flags task s = pi_i2c_copy b (dev_data s device) tx_data len flags TX_CHANNEL task s"

definition i2c_request_status :: "i2c_build \<Rightarrow> u32 \<Rightarrow> 'a i2c_drv_scheme \<Rightarrow> int" where
  "i2c_request_status b device s =
     (if cfg_ack b \<and> REG_GET 0 I2C_ACK_NACK_MASK (i2c_ack_get b (ucast (ic_device_id (i2c_cs_at s (dev_data s device)))) s) \<noteq> 0
      then PI_ERR_I2C_NACK else 0)"

definition pi_i2c_read :: "('a i2c_drv_scheme \<Rightarrow> 'a i2c_drv_scheme) \<Rightarrow> (os_call list \<Rightarrow> u32) \<Rightarrow> u32 \<Rightarrow> i2c_build \<Rightarrow> u32 \<Rightarrow> u32 \<Rightarrow> u32 \<Rightarrow> u32 \<Rightarrow>
    'a i2c_drv_scheme \<Rightarrow> (int \<times> 'a i2c_drv_scheme) option" where
  "pi_i2c_read env create task_block b device rx_buff len flags s =
     (let s = pi_task_block create task_block s in
      Option.bind (pi_i2c_read_async b device rx_buff len flags task_block s) (\<lambda>s.
      map_option (\<lambda>s. let s = pi_task_destroy task_block s in (i2c_request_status b device s, s))
        (pi_task_wait_on env task_block s)))"

definition pi_i2c_write :: "('a i2c_drv_scheme \<Rightarrow> 'a i2c_drv_scheme) \<Rightarrow> (os_call list \<Rightarrow> u32) \<Rightarrow> u32 \<Rightarrow> i2c_build \<Rightarrow> u32 \<Rightarrow> u32 \<Rightarrow> u32 \<Rightarrow> u32 \<Rightarrow>
    'a i2c_drv_scheme \<Rightarrow> (int \<times> 'a i2c_drv_scheme) option" where
  "pi_i2c_write env create task_block b device tx_data len flags s =
     (let s = pi_task_block create task_block s in
      Option.bind (pi_i2c_write_async b device tx_data len flags task_block s) (\<lambda>s.
      map_option (\<lambda>s. let s = pi_task_destroy task_block s in (i2c_request_status b device s, s))
        (pi_task_wait_on env task_block s)))"

definition pi_i2c_get_request_status :: "u32 \<Rightarrow> int" where
  "pi_i2c_get_request_status task = 0"

definition pi_i2c_detect_data :: "i2c_build \<Rightarrow> u32 \<Rightarrow> u32 \<Rightarrow> pi_i2c_conf \<Rightarrow> u32 \<Rightarrow> u32 \<Rightarrow> 'a i2c_drv_scheme \<Rightarrow> (int \<times> 'a i2c_drv_scheme) option" where
  "pi_i2c_detect_data b periph_freq cs conf rx_data task s =
     (let (irq, s) = disable_irq s in
      if cs = 0 then None
      else if ic_device_id (i2c_cs_at s cs) \<noteq> ii_itf conf then Some (-11, restore_irq irq s)
      else
        Option.bind (pi_i2c_clk_div_get periph_freq (ii_max_baudrate conf)) (\<lambda>clk_div.
        if clk_div = 0xFFFFFFFF then Some (-12, restore_irq irq s)
        else
          let s = upd_task task (\<lambda>t. t\<lparr>t_next := 0\<rparr>) s in
          Option.bind (i2c_itf (ucast (ic_device_id (i2c_cs_at s cs))) s) (\<lambda>d.
          if \<not> usable (i_pending (i2c_data_at s d)) s then None
          else
            let s = i2c_store (pending_repeat (i_pending (i2c_data_at s d))) 0 s;
                sq = i2c_read_seq (ucast clk_div) (ucast (ii_cs conf)) 1;
                s = upd_i2c d (\<lambda>x. x\<lparr>i_stop_send := 1, i_eot_send := 1, i_cmd_seq := fill sq (i_cmd_seq x)\<rparr>) s;
                s = pi_i2c_cb_buf_enqueue d task s;
                dev = ucast (i_device_id (i2c_data_at s d));
                s = hal_i2c_enqueue b dev RX_CHANNEL rx_data 1 I2C_CFG_EN s;
                s = hal_i2c_enqueue b dev TX_CHANNEL (i2c_cmd_seq_addr d) (word_of_nat (length sq)) I2C_CFG_EN s in
            Some (0, restore_irq irq s))))"

definition pi_i2c_detect :: "('a i2c_drv_scheme \<Rightarrow> 'a i2c_drv_scheme) \<Rightarrow> (os_call list \<Rightarrow> u32) \<Rightarrow> u32 \<Rightarrow> i2c_build \<Rightarrow> u32 \<Rightarrow> u32 \<Rightarrow> pi_i2c_conf \<Rightarrow> u32 \<Rightarrow>
    'a i2c_drv_scheme \<Rightarrow> (int \<times> 'a i2c_drv_scheme) option" where
  "pi_i2c_detect env create task_block b periph_freq device conf rx_data s =
     (let cs = dev_data s device;
          s = pi_task_block create task_block s in
      Option.bind (pi_i2c_detect_data b periph_freq cs conf rx_data task_block s) (\<lambda>(r, s).
      map_option (\<lambda>s. let s = pi_task_destroy task_block s in
                      (if (ucast (i2c_word s rx_data) :: u8) = 0 then 0 else -1, s))
        (pi_task_wait_on env task_block s)))"

end
