(* ===== verification/I2cProps.thy ===== *)
theory I2cProps
  imports I2c Service
begin

text \<open>
  The I2C driver at work: its queue of waiting transfers, the start and the end of a transfer, and
  the driver as a machine of requests and interrupts.
\<close>

lemma i2c_frame [simp]:
  "task_at (upd_i2c p f s) = task_at s" "regs (upd_i2c p f s) = regs s" "csrs (upd_i2c p f s) = csrs s"
  "i2c_data_at (upd_i2c p f s) = (i2c_data_at s)(p := f (i2c_data_at s p))" "i2c_cs_at (upd_i2c p f s) = i2c_cs_at s"
  "i2c_word (upd_i2c p f s) = i2c_word s" "null_mapped (upd_i2c p f s) = null_mapped s" "g_i2c_itf_data (upd_i2c p f s) = g_i2c_itf_data s"
  "os_log (upd_i2c p f s) = os_log s" "dev_data (upd_i2c p f s) = dev_data s"
  by (simp_all add: upd_i2c_def)

lemma i2c_store_frame [simp]:
  "task_at (i2c_store a v s) = task_at s" "regs (i2c_store a v s) = regs s" "csrs (i2c_store a v s) = csrs s"
  "i2c_data_at (i2c_store a v s) = i2c_data_at s" "i2c_cs_at (i2c_store a v s) = i2c_cs_at s"
  "i2c_word (i2c_store a v s) = (i2c_word s)(a := v)" "null_mapped (i2c_store a v s) = null_mapped s"
  "g_i2c_itf_data (i2c_store a v s) = g_i2c_itf_data s" "os_log (i2c_store a v s) = os_log s" "dev_data (i2c_store a v s) = dev_data s"
  by (simp_all add: i2c_store_def)

lemma i2c_frame2 [simp]:
  "i2c_data_at (upd_task p f s) = i2c_data_at s" "i2c_cs_at (upd_task p f s) = i2c_cs_at s" "i2c_word (upd_task p f s) = i2c_word s"
  "null_mapped (upd_task p f s) = null_mapped s" "g_i2c_itf_data (upd_task p f s) = g_i2c_itf_data s"
  "i2c_data_at (writew v a s) = i2c_data_at s" "i2c_cs_at (writew v a s) = i2c_cs_at s" "i2c_word (writew v a s) = i2c_word s"
  "null_mapped (writew v a s) = null_mapped s" "g_i2c_itf_data (writew v a s) = g_i2c_itf_data s"
  "i2c_data_at (snd (disable_irq s)) = i2c_data_at s" "i2c_cs_at (snd (disable_irq s)) = i2c_cs_at s"
  "i2c_word (snd (disable_irq s)) = i2c_word s" "null_mapped (snd (disable_irq s)) = null_mapped s"
  "g_i2c_itf_data (snd (disable_irq s)) = g_i2c_itf_data s"
  "i2c_data_at (restore_irq w s) = i2c_data_at s" "i2c_cs_at (restore_irq w s) = i2c_cs_at s" "i2c_word (restore_irq w s) = i2c_word s"
  "null_mapped (restore_irq w s) = null_mapped s" "g_i2c_itf_data (restore_irq w s) = g_i2c_itf_data s"
  "i2c_data_at (os c s) = i2c_data_at s" "i2c_cs_at (os c s) = i2c_cs_at s" "i2c_word (os c s) = i2c_word s"
  "null_mapped (os c s) = null_mapped s" "g_i2c_itf_data (os c s) = g_i2c_itf_data s"
  by (simp_all add: upd_task_def os_def writew_def disable_irq_def csr_read_clear_def restore_irq_def csr_write_def)

lemma hal_i2c_frame [simp]:
  "task_at (hal_i2c_enqueue b dv ch a z c s) = task_at s" "csrs (hal_i2c_enqueue b dv ch a z c s) = csrs s"
  "i2c_data_at (hal_i2c_enqueue b dv ch a z c u) = i2c_data_at u" "i2c_cs_at (hal_i2c_enqueue b dv ch a z c u) = i2c_cs_at u"
  "i2c_word (hal_i2c_enqueue b dv ch a z c u) = i2c_word u" "null_mapped (hal_i2c_enqueue b dv ch a z c u) = null_mapped u"
  "g_i2c_itf_data (hal_i2c_enqueue b dv ch a z c u) = g_i2c_itf_data u" "dev_data (hal_i2c_enqueue b dv ch a z c u) = dev_data u"
  by (auto simp: hal_i2c_enqueue_def i2c_udma_channel_set_def udma_enqueue_channel_def Let_def split: udma_channel.split)

lemma i2c_log_frame [simp]:
  "io_log (upd_i2c p f s) = io_log s" "io_log (i2c_store a v s) = io_log s"
  by (simp_all add: upd_i2c_def i2c_store_def)

text \<open>The three writes that start a transfer on a uDMA channel.\<close>

definition i2c_chan_writes :: "u32 \<Rightarrow> u32 \<Rightarrow> u32 \<Rightarrow> (u32 \<times> u32) list" where
  "i2c_chan_writes chan addr sz =
     [(chan + UDMA_CHANNEL_SADDR_OFFSET, addr), (chan + UDMA_CHANNEL_SIZE_OFFSET, sz), (chan + UDMA_CHANNEL_CFG_OFFSET, I2C_CFG_EN)]"

lemma hal_i2c_log [simp]:
  "io_log (hal_i2c_enqueue b dv RX_CHANNEL a z I2C_CFG_EN s) = io_log s @ i2c_chan_writes (UDMA_I2C b dv + UDMA_CHANNEL_RX_OFFSET) a z"
  "io_log (hal_i2c_enqueue b dv TX_CHANNEL a z I2C_CFG_EN s) = io_log s @ i2c_chan_writes (UDMA_I2C b dv + UDMA_CHANNEL_TX_OFFSET) a z"
  by (simp_all add: hal_i2c_enqueue_def i2c_udma_channel_set_def udma_enqueue_channel_def i2c_chan_writes_def Let_def
      UDMA_CHANNEL_RX_OFFSET_def UDMA_CHANNEL_TX_OFFSET_def)

lemma next_of_i2c [simp]:
  "next_of (upd_i2c p f s) = next_of s" "next_of (i2c_store a v s) = next_of s" "next_of (hal_i2c_enqueue b dv ch a z c s) = next_of s"
  by (rule ext, simp add: next_of_def)+

lemma unat_byte: "unat (ucast (i :: u8) :: u32) = unat i"
proof -
  have "unat i < 256" using unsigned_less [of i] by simp
  then show ?thesis by (simp add: unsigned_ucast_eq take_bit_nat_eq_self)
qed

subsection \<open>The queue\<close>

definition i2c_queue :: "u32 \<Rightarrow> 'a i2c_drv_scheme \<Rightarrow> u32 list \<Rightarrow> bool" where
  "i2c_queue d s q \<longleftrightarrow> fifo_rep (next_of s) (i_fifo_head (i2c_data_at s d)) (i_fifo_tail (i2c_data_at s d)) q"

lemma i2c_enqueue_queue:
  assumes "i2c_queue d s q" "t \<noteq> 0" "t \<notin> set q" "next_of s t = 0"
  shows "i2c_queue d (pi_i2c_task_fifo_enqueue d t s) (q @ [t])"
proof -
  let ?h = "i_fifo_head (i2c_data_at s d)" and ?l = "i_fifo_tail (i2c_data_at s d)"
  have 0: "fifo_rep (next_of s) ?h ?l q" using assms(1) by (simp add: i2c_queue_def)
  show ?thesis
  proof (cases "q = []")
    case True
    then have "?h = 0" using 0 by simp
    then show ?thesis using True fifo_rep_append(1) [OF 0 assms(2-4)]
      by (simp add: i2c_queue_def pi_i2c_task_fifo_enqueue_def Let_def case_prod_beta)
  next
    case False
    then have "?h \<noteq> 0" using 0 fifo_rep_empty by blast
    then show ?thesis using False fifo_rep_append(2) [OF 0 assms(2-4)]
      by (simp add: i2c_queue_def pi_i2c_task_fifo_enqueue_def Let_def case_prod_beta next_of_upd)
  qed
qed

lemma i2c_pop_queue:
  assumes "i2c_queue d s q"
  shows "fst (pi_i2c_task_fifo_pop d s) = (if q = [] then 0 else hd q) \<and> i2c_queue d (snd (pi_i2c_task_fifo_pop d s)) (tl q)"
proof (cases q)
  case Nil
  then show ?thesis using assms by (simp add: pi_i2c_task_fifo_pop_def Let_def case_prod_beta i2c_queue_def)
next
  case (Cons x xs)
  let ?h = "i_fifo_head (i2c_data_at s d)" and ?l = "i_fifo_tail (i2c_data_at s d)"
  have "?h = x" "fifo_rep (next_of s) (next_of s x) ?l xs" "x \<noteq> 0"
    using assms Cons fifo_rep_tl [of "next_of s" ?h ?l x xs] by (auto simp: i2c_queue_def fifo_rep_def)
  then show ?thesis using Cons
    by (simp add: pi_i2c_task_fifo_pop_def Let_def case_prod_beta i2c_queue_def next_of_def [of s x])
qed

definition i2c_submit :: "u32 \<Rightarrow> u32 \<Rightarrow> 'a i2c_drv_scheme \<Rightarrow> 'a i2c_drv_scheme" where
  "i2c_submit d t s = pi_i2c_task_fifo_enqueue d t (upd_task t (\<lambda>x. x\<lparr>t_next := 0\<rparr>) s)"

interpretation i2c: task_fifo "i2c_submit d" "pi_i2c_task_fifo_pop d" "i2c_queue d" for d
proof
  show "i2c_queue d (i2c_submit d t s) (q @ [t])" if "i2c_queue d s q" "t \<noteq> 0" "t \<notin> set q"
    for s :: "'a i2c_drv_scheme" and q t
  proof -
    have "i2c_queue d (upd_task t (\<lambda>x. x\<lparr>t_next := 0\<rparr>) s) q"
      using that(1,3) by (simp add: i2c_queue_def next_of_upd fifo_rep_set_next)
    then show ?thesis using that(2,3) unfolding i2c_submit_def by (intro i2c_enqueue_queue) (simp_all add: next_of_def)
  qed
  show "fst (pi_i2c_task_fifo_pop d s) = (if q = [] then 0 else hd q) \<and> i2c_queue d (snd (pi_i2c_task_fifo_pop d s)) (tl q)"
    if "i2c_queue d s q" for s :: "'a i2c_drv_scheme" and q
    using i2c_pop_queue that .
  show "0 \<notin> set q" if "i2c_queue d s q" for s :: "'a i2c_drv_scheme" and q
    using that chain_nonzero by (auto simp: i2c_queue_def fifo_rep_def)
qed

subsection \<open>Starting a transfer\<close>

text \<open>What a request is to do on the bus: whether it ends with a stop condition, the command bytes that the peripheral is given and the writes to the
  uDMA channels. A read asks for its bytes one by one and refuses the last; the channel that receives is started before the commands.\<close>

type_synonym i2c_plan = "bool \<times> u8 list \<times> (u32 \<times> u32) list"

definition i2c_bytes :: "i2c_cs_data \<Rightarrow> bool \<Rightarrow> u32 \<Rightarrow> u32 \<Rightarrow> u8 list" where
  "i2c_bytes c rd n flags =
     [I2C_CMD_CFG, ucast (drop_bit 8 (ic_clk_div c)), ucast (ic_clk_div c)]
     @ (if rd then [I2C_CMD_START, I2C_CMD_WR, ic_cs c OR 1] @ (if n > 1 then [I2C_CMD_RPT, ucast (n - 1), I2C_CMD_RD_ACK] else []) @ [I2C_CMD_RD_NACK]
        else (if flags AND PI_I2C_XFER_NO_START = 0 then [I2C_CMD_START, I2C_CMD_WR, ic_cs c] else [])
          @ (if n > 0 then [I2C_CMD_RPT, ucast n, I2C_CMD_WR] else []))"

definition i2c_plan :: "i2c_build \<Rightarrow> u8 \<Rightarrow> u32 \<Rightarrow> i2c_cs_data \<Rightarrow> bool \<Rightarrow> u32 \<Rightarrow> u32 \<Rightarrow> u32 \<Rightarrow> i2c_plan" where
  "i2c_plan b i d c rd buf n flags =
     (let by = i2c_bytes c rd n flags;
          rx = UDMA_I2C b (ucast i) + UDMA_CHANNEL_RX_OFFSET; tx = UDMA_I2C b (ucast i) + UDMA_CHANNEL_TX_OFFSET;
          cmds = i2c_chan_writes tx (i2c_cmd_seq_addr d) (word_of_nat (length by)) in
      (flags AND PI_I2C_XFER_NO_STOP = 0, by,
       if rd then i2c_chan_writes rx buf n @ cmds else cmds @ (if n > 0 then i2c_chan_writes tx buf n else [])))"

abbreviation plan_stop :: "u32 \<times> i2c_plan \<Rightarrow> bool" where "plan_stop e \<equiv> fst (snd e)"
abbreviation plan_bytes :: "u32 \<times> i2c_plan \<Rightarrow> u8 list" where "plan_bytes e \<equiv> fst (snd (snd e))"
abbreviation plan_writes :: "u32 \<times> i2c_plan \<Rightarrow> (u32 \<times> u32) list" where "plan_writes e \<equiv> snd (snd (snd e))"

text \<open>A waiting task holds its request; chips and addresses are those of the state.\<close>

definition i2c_entry :: "i2c_build \<Rightarrow> u8 \<Rightarrow> u32 \<Rightarrow> 'a i2c_drv_scheme \<Rightarrow> u32 \<times> i2c_plan \<Rightarrow> bool" where
  "i2c_entry b i d s e \<longleftrightarrow> (let a = t_data (task_at s (fst e)) in a 4 \<noteq> 0 \<and> a 1 \<le> MAX_SIZE \<and> (a 3 = 0 \<longrightarrow> a 1 \<noteq> 0)
     \<and> snd e = i2c_plan b i d (i2c_cs_at s (a 4)) (a 3 = 0) (a 0) (a 1) (a 2))"

lemma i2c_entry_cong: "t_data (task_at u (fst e)) = t_data (task_at s (fst e)) \<Longrightarrow> i2c_cs_at u = i2c_cs_at s \<Longrightarrow> i2c_entry b i d u e = i2c_entry b i d s e"
  by (simp add: i2c_entry_def)

definition i2c_started :: "u32 \<times> i2c_plan \<Rightarrow> i2c_itf_data \<Rightarrow> i2c_itf_data \<Rightarrow> bool" where
  "i2c_started e x y \<longleftrightarrow> i_buf y = fst e \<and> i_fifo_head y = i_fifo_head x \<and> i_fifo_tail y = i_fifo_tail x
     \<and> i_pending y = i_pending x \<and> i_nb_open y = i_nb_open x \<and> i_device_id y = i_device_id x
     \<and> i_stop_seq y = i_stop_seq x \<and> i_only_eot_seq y = i_only_eot_seq x
     \<and> (i_stop_send y \<noteq> 0 \<longleftrightarrow> plan_stop e) \<and> i_eot_send y = 1 \<and> take (length (plan_bytes e)) (i_cmd_seq y) = plan_bytes e"

lemma take_fill: "take (length new) (fill new old) = new"
  by (simp add: fill_def)

lemma i2c_bytes_code:
  "i2c_bytes c True n flags = i2c_read_seq (ic_clk_div c) (ic_cs c) n" "i2c_bytes c False n flags = i2c_write_seq (ic_clk_div c) (ic_cs c) flags n"
  by (simp_all add: i2c_bytes_def i2c_read_seq_def i2c_write_seq_def i2c_header_def ADDRESS_READ_def ADDRESS_WRITE_def)

lemma i2c_exec_ok:
  assumes "i2c_entry b i d s e" "usable (i_pending (i2c_data_at s d)) s" "i_device_id (i2c_data_at s d) = i"
  shows "\<exists>u y. i2c_exec b d (fst e) s = Some u \<and> task_at u = task_at s \<and> csrs u = csrs s \<and> i2c_cs_at u = i2c_cs_at s
    \<and> null_mapped u = null_mapped s \<and> g_i2c_itf_data u = g_i2c_itf_data s
    \<and> i2c_word u = (i2c_word s)(pending_repeat (i_pending (i2c_data_at s d)) := 0)
    \<and> i2c_data_at u = (i2c_data_at s)(d := y) \<and> i2c_started e (i2c_data_at s d) y \<and> io_log u = io_log s @ plan_writes e"
proof -
  let ?a = "t_data (task_at s (fst e))"
  have e: "?a 4 \<noteq> 0" "\<not> ?a 1 > MAX_SIZE" "?a 3 = 0 \<longrightarrow> ?a 1 \<noteq> 0"
     "snd e = i2c_plan b i d (i2c_cs_at s (?a 4)) (?a 3 = 0) (?a 0) (?a 1) (?a 2)"
    using assms(1) by (auto simp: i2c_entry_def Let_def not_less)
  show ?thesis
  proof (cases "?a 3 = 0")
    case True
    let ?c = "i2c_cs_at s (?a 4)" let ?sq = "i2c_read_seq (ic_clk_div ?c) (ic_cs ?c) (?a 1)"
    have p: "plan_stop e \<longleftrightarrow> ?a 2 AND PI_I2C_XFER_NO_STOP = 0" "plan_bytes e = ?sq"
      "plan_writes e = i2c_chan_writes (UDMA_I2C b (ucast i) + UDMA_CHANNEL_RX_OFFSET) (?a 0) (?a 1)
          @ i2c_chan_writes (UDMA_I2C b (ucast i) + UDMA_CHANNEL_TX_OFFSET) (i2c_cmd_seq_addr d) (word_of_nat (length ?sq))"
      unfolding e(4) using True by (simp_all add: i2c_plan_def Let_def i2c_bytes_code)
    show ?thesis unfolding p i2c_started_def using True e(1-3) assms(2,3)
      by (auto simp: i2c_exec_def pi_i2c_copy_exec_read_def i2c_set_pending_def pi_i2c_cb_buf_enqueue_def Let_def case_prod_beta usable_def take_fill)
  next
    case False
    let ?c = "i2c_cs_at s (?a 4)" let ?sq = "i2c_write_seq (ic_clk_div ?c) (ic_cs ?c) (?a 2) (?a 1)"
    have p: "plan_stop e \<longleftrightarrow> ?a 2 AND PI_I2C_XFER_NO_STOP = 0" "plan_bytes e = ?sq"
      "plan_writes e = i2c_chan_writes (UDMA_I2C b (ucast i) + UDMA_CHANNEL_TX_OFFSET) (i2c_cmd_seq_addr d) (word_of_nat (length ?sq))
          @ (if ?a 1 > 0 then i2c_chan_writes (UDMA_I2C b (ucast i) + UDMA_CHANNEL_TX_OFFSET) (?a 0) (?a 1) else [])"
      unfolding e(4) using False by (simp_all add: i2c_plan_def Let_def i2c_bytes_code)
    show ?thesis unfolding p i2c_started_def using False e(1-3) assms(2,3)
      by (auto simp: i2c_exec_def pi_i2c_copy_exec_write_def i2c_set_pending_def pi_i2c_cb_buf_enqueue_def Let_def case_prod_beta usable_def take_fill)
  qed
qed

text \<open>The queue q is the list of tasks in service with their requests, and the phase of the transfer that runs: whether its stop command is still to be
  sent, whether no command has been sent behind it yet, and all writes so far to the registers of peripherals.\<close>

type_synonym i2c_phase = "bool \<times> bool \<times> (u32 \<times> u32) list"
type_synonym i2c_q = "(u32 \<times> i2c_plan) list \<times> i2c_phase"

abbreviation ph_stop :: "i2c_phase \<Rightarrow> bool" where "ph_stop ph \<equiv> fst ph"
abbreviation ph_fresh :: "i2c_phase \<Rightarrow> bool" where "ph_fresh ph \<equiv> fst (snd ph)"
abbreviation ph_log :: "i2c_phase \<Rightarrow> (u32 \<times> u32) list" where "ph_log ph \<equiv> snd (snd ph)"

definition i2c_next :: "i2c_phase \<Rightarrow> (u32 \<times> i2c_plan) list \<Rightarrow> i2c_phase" where
  "i2c_next ph ts = (if ts = [] then ph else (plan_stop (hd ts), True, ph_log ph @ plan_writes (hd ts)))"

text \<open>The commands behind a transfer as the open of the interface leaves them.\<close>

definition i2c_stop_ok :: "i2c_build \<Rightarrow> u32 \<Rightarrow> i2c_itf_data \<Rightarrow> bool" where
  "i2c_stop_ok b d x \<longleftrightarrow> take 2 (i_stop_seq x) = [I2C_CMD_STOP, I2C_CMD_WAIT]
     \<and> (cfg_eot b \<longrightarrow> i_stop_seq x ! 3 = I2C_CMD_EOT \<and> i_only_eot_seq x = i2c_stop_seq_addr d + 1)"

definition i2c_ok :: "i2c_build \<Rightarrow> u8 \<Rightarrow> u32 \<Rightarrow> 'a i2c_drv_scheme \<Rightarrow> (u32 \<times> i2c_plan) list \<Rightarrow> i2c_phase \<Rightarrow> bool" where
  "i2c_ok b i d s ts ph \<longleftrightarrow> d \<noteq> 0 \<and> unat i < length (g_i2c_itf_data s) \<and> g_i2c_itf_data s ! unat i = d
     \<and> unat (UDMA_I2C_ID b (ucast i)) < 64 \<and> usable (i_pending (i2c_data_at s d)) s \<and> i_device_id (i2c_data_at s d) = i
     \<and> i2c_stop_ok b d (i2c_data_at s d) \<and> distinct (map fst ts) \<and> 0 \<notin> set (map fst ts)
     \<and> i_buf (i2c_data_at s d) = (if ts = [] then 0 else fst (hd ts)) \<and> i2c_queue d s (map fst (tl ts))
     \<and> (\<forall>e \<in> set (tl ts). i2c_entry b i d s e) \<and> (i_stop_send (i2c_data_at s d) \<noteq> 0 \<longleftrightarrow> ph_stop ph)
     \<and> (i_eot_send (i2c_data_at s d) \<noteq> 0 \<longleftrightarrow> ph_fresh ph) \<and> io_log s = ph_log ph
     \<and> (ts \<noteq> [] \<longrightarrow> i2c_word s (pending_repeat (i_pending (i2c_data_at s d))) = 0
          \<and> take (length (plan_bytes (hd ts))) (i_cmd_seq (i2c_data_at s d)) = plan_bytes (hd ts))"

lemma i2c_okD:
  assumes "i2c_ok b i d s ts ph"
  shows "d \<noteq> 0" "unat i < length (g_i2c_itf_data s)" "g_i2c_itf_data s ! unat i = d" "unat (UDMA_I2C_ID b (ucast i)) < 64"
    "usable (i_pending (i2c_data_at s d)) s" "i_device_id (i2c_data_at s d) = i" "i2c_stop_ok b d (i2c_data_at s d)"
    "distinct (map fst ts)" "0 \<notin> set (map fst ts)" "i_buf (i2c_data_at s d) = (if ts = [] then 0 else fst (hd ts))"
    "i2c_queue d s (map fst (tl ts))" "e \<in> set (tl ts) \<Longrightarrow> i2c_entry b i d s e" "i_stop_send (i2c_data_at s d) \<noteq> 0 \<longleftrightarrow> ph_stop ph"
    "i_eot_send (i2c_data_at s d) \<noteq> 0 \<longleftrightarrow> ph_fresh ph" "io_log s = ph_log ph"
    "ts \<noteq> [] \<Longrightarrow> i2c_word s (pending_repeat (i_pending (i2c_data_at s d))) = 0"
    "ts \<noteq> [] \<Longrightarrow> take (length (plan_bytes (hd ts))) (i_cmd_seq (i2c_data_at s d)) = plan_bytes (hd ts)"
  using assms by (simp_all add: i2c_ok_def)

definition i2c_same :: "'a i2c_drv_scheme \<Rightarrow> 'a i2c_drv_scheme \<Rightarrow> bool" where
  "i2c_same s u \<longleftrightarrow> csrs u = csrs s \<and> i2c_cs_at u = i2c_cs_at s
     \<and> (\<forall>p. t_id (task_at u p) = t_id (task_at s p) \<and> t_wait_on (task_at u p) = t_wait_on (task_at s p)
          \<and> (t_done (task_at s p) = 1 \<longrightarrow> t_done (task_at u p) = 1))"

lemma i2c_itf_ok: "i2c_ok b i d s ts ph \<Longrightarrow> i2c_itf (ucast i) s = Some d"
  by (simp add: i2c_itf_def i2c_ok_def unat_byte)

lemma i2c_submit_ok:
  fixes buf flags :: u32
  assumes ok: "i2c_ok b i d s ts ph" and cs: "cs \<noteq> 0" "ic_device_id (i2c_cs_at s cs) = i"
    and t: "t \<noteq> 0" "t \<notin> set (map fst ts)" and n: "n \<le> MAX_SIZE" "ch = RX_CHANNEL \<longrightarrow> n \<noteq> 0"
  defines "e \<equiv> (t, i2c_plan b i d (i2c_cs_at s cs) (ch = RX_CHANNEL) buf n flags)"
  shows "\<exists>u. pi_i2c_copy b cs buf n flags ch t s = Some u \<and> i2c_ok b i d u (ts @ [e]) (if ts = [] then i2c_next ph [e] else ph) \<and> i2c_same s u
    \<and> (\<forall>p. t_done (task_at u p) = t_done (task_at s p))"
proof -
  let ?s = "upd_task t (\<lambda>x. x\<lparr>t_data := (t_data x)(0 := buf, 1 := n, 2 := flags, 3 := chan_num ch, 4 := cs), t_next := 0\<rparr>)
              (snd (disable_irq s))"
  note o = i2c_okD [OF ok]
  have fe: "fst e = t" by (simp add: e_def)
  have it: "i2c_itf (ucast i) ?s = Some d" using o(1-3) by (simp add: i2c_itf_def unat_byte)
  have rd: "chan_num ch = 0 \<longleftrightarrow> ch = RX_CHANNEL" by (cases ch) simp_all
  have ent: "i2c_entry b i d ?s e"
    using cs(1) n rd by (simp add: i2c_entry_def e_def Let_def)
  have old: "i2c_entry b i d ?s x" if "x \<in> set (tl ts)" for x
  proof -
    have "fst x \<noteq> t" using that t(2) by (cases ts) auto
    then show ?thesis using o(12) [OF that] by (simp add: i2c_entry_def Let_def)
  qed
  have nt: "t \<notin> set (map fst (tl ts))" using t(2) by (cases ts) auto
  have q: "i2c_queue d ?s (map fst (tl ts))"
    using o(11) nt by (simp add: i2c_queue_def next_of_upd fifo_rep_set_next)
  have cond: "pi_i2c_cb_buf_empty d ?s \<longleftrightarrow> ts = []"
    using o(9,10) by (cases ts) (auto simp: pi_i2c_cb_buf_empty_def)
  have code: "pi_i2c_copy b cs buf n flags ch t s = map_option (restore_irq (csrs s CSR_MSTATUS))
      (if ts = [] then i2c_exec b d t ?s else Some (pi_i2c_task_fifo_enqueue d t ?s))"
    using cs it cond by (simp add: pi_i2c_copy_def Let_def case_prod_beta)
  show ?thesis
  proof (cases "ts = []")
    case True
    have us: "usable (i_pending (i2c_data_at ?s d)) ?s" "i_device_id (i2c_data_at ?s d) = i" using o(5,6) by (simp_all add: usable_def)
    obtain u y where u: "i2c_exec b d (fst e) ?s = Some u" "task_at u = task_at ?s" "csrs u = csrs ?s" "i2c_cs_at u = i2c_cs_at ?s"
      "null_mapped u = null_mapped ?s" "g_i2c_itf_data u = g_i2c_itf_data ?s"
      "i2c_word u = (i2c_word ?s)(pending_repeat (i_pending (i2c_data_at ?s d)) := 0)"
      "i2c_data_at u = (i2c_data_at ?s)(d := y)" "i2c_started e (i2c_data_at ?s d) y" "io_log u = io_log ?s @ plan_writes e"
      using i2c_exec_ok [OF ent us] by blast
    have q': "i2c_queue d u []" using q u(8,9) True by (simp add: i2c_queue_def i2c_started_def)
    let ?u = "restore_irq (csrs s CSR_MSTATUS) u"
    have "i2c_ok b i d ?u [e] (i2c_next ph [e])"
      unfolding i2c_ok_def using o(1-7,15) u q' t(1) fe
      by (auto simp: i2c_started_def i2c_queue_def usable_def i2c_stop_ok_def i2c_next_def)
    moreover have "i2c_same s ?u" "\<forall>p. t_done (task_at ?u p) = t_done (task_at s p)" using u(2-4) by (simp_all add: i2c_same_def)
    ultimately show ?thesis using True code u(1) fe by simp
  next
    case False
    let ?u = "restore_irq (csrs s CSR_MSTATUS) (pi_i2c_task_fifo_enqueue d t ?s)"
    have q': "i2c_queue d (pi_i2c_task_fifo_enqueue d t ?s) (map fst (tl ts) @ [t])"
      by (rule i2c_enqueue_queue [OF q t(1) nt]) (simp add: next_of_def)
    have f: "i2c_cs_at ?u = i2c_cs_at s" "csrs ?u = csrs s" "null_mapped ?u = null_mapped s" "i2c_word ?u = i2c_word s"
      "g_i2c_itf_data ?u = g_i2c_itf_data s" "t_data (task_at ?u p) = t_data (task_at ?s p)"
      "t_id (task_at ?u p) = t_id (task_at s p)" "t_wait_on (task_at ?u p) = t_wait_on (task_at s p)"
      "t_done (task_at ?u p) = t_done (task_at s p)"
      "i_buf (i2c_data_at ?u d) = i_buf (i2c_data_at s d)" "i_pending (i2c_data_at ?u d) = i_pending (i2c_data_at s d)"
      "i_stop_send (i2c_data_at ?u d) = i_stop_send (i2c_data_at s d)" "i_eot_send (i2c_data_at ?u d) = i_eot_send (i2c_data_at s d)"
      "i_device_id (i2c_data_at ?u d) = i_device_id (i2c_data_at s d)" "i_cmd_seq (i2c_data_at ?u d) = i_cmd_seq (i2c_data_at s d)"
      "i_stop_seq (i2c_data_at ?u d) = i_stop_seq (i2c_data_at s d)" "i_only_eot_seq (i2c_data_at ?u d) = i_only_eot_seq (i2c_data_at s d)"
      "io_log ?u = io_log s" for p
      by (simp_all add: pi_i2c_task_fifo_enqueue_def Let_def case_prod_beta)
    have e': "i2c_entry b i d ?u x" if "x \<in> set (tl ts) \<or> x = e" for x
    proof -
      have "i2c_entry b i d ?s x" using that old ent by blast
      moreover have "i2c_entry b i d ?u x = i2c_entry b i d ?s x" by (rule i2c_entry_cong) (use f(1,6) in simp_all)
    ultimately show ?thesis by simp
    qed
    have "i2c_ok b i d ?u (ts @ [e]) ph"
    proof -
      obtain h r where ts: "ts = h # r" using False by (cases ts) auto
      have "distinct (map fst (ts @ [e]))" "0 \<notin> set (map fst (ts @ [e]))" using o(8,9) t fe by auto
      moreover have "i2c_queue d ?u (map fst (tl (ts @ [e])))" using q' fe ts by (simp add: i2c_queue_def)
      moreover have "\<forall>x \<in> set (tl (ts @ [e])). i2c_entry b i d ?u x" using e' ts by auto
      ultimately show ?thesis unfolding i2c_ok_def f i2c_stop_ok_def using o(1-7,10,13-17) ts f(3)
        by (simp add: usable_def i2c_stop_ok_def)
    qed
    moreover have "i2c_same s ?u" "\<forall>p. t_done (task_at ?u p) = t_done (task_at s p)" using f by (simp_all add: i2c_same_def)
    ultimately show ?thesis using False code by simp
  qed
qed

subsection \<open>The end of a transfer\<close>

definition i2c_finished :: "'a soc_scheme \<Rightarrow> u32 \<Rightarrow> pi_task" where
  "i2c_finished s t = (task_at s t)\<lparr>t_done := (if t_id (task_at s t) = PI_TASK_NONE_ID then 1 else t_done (task_at s t))\<rparr>"

lemma sem_give_i2c [simp]:
  "i2c_cs_at (os_native_api_sem_give h s) = i2c_cs_at s" "i2c_data_at (os_native_api_sem_give h s) = i2c_data_at s"
  "i2c_word (os_native_api_sem_give h s) = i2c_word s" "null_mapped (os_native_api_sem_give h s) = null_mapped s"
  "g_i2c_itf_data (os_native_api_sem_give h s) = g_i2c_itf_data s" "io_log (os_native_api_sem_give h t) = io_log t"
  by (simp_all add: os_native_api_sem_give_def Let_def case_prod_beta)

lemma i2c_finish:
  assumes "can_release s t"
  shows "\<exists>v. pi_irq_handle_end_of_task t s = Some v
    \<and> task_at v = (task_at s)(t := i2c_finished s t) \<and> i2c_cs_at v = i2c_cs_at s \<and> i2c_data_at v = i2c_data_at s
    \<and> i2c_word v = i2c_word s \<and> null_mapped v = null_mapped s \<and> g_i2c_itf_data v = g_i2c_itf_data s \<and> csrs v = csrs s \<and> io_log v = io_log s"
  unfolding pi_irq_handle_end_of_task_def release_eq [OF assms]
  by (cases "t_id (task_at s t) = PI_TASK_NONE_ID"; cases "sem_object (t_wait_on (task_at s t)) = 0")
    (simp_all add: i2c_finished_def task_at_upd_task pi_task_push_def pi_task_push_delayed_us_def pi_time_wait_us_def Let_def
      case_prod_beta)

lemma i2c_end_ok:
  assumes ok: "i2c_ok b i d s (h # ts) ph" and rel: "can_release s (fst h)"
  shows "\<exists>u. i2c_end_of_transfer b d s = Some u \<and> i2c_ok b i d u ts (i2c_next ph ts) \<and> i2c_same s u
    \<and> (t_id (task_at s (fst h)) = PI_TASK_NONE_ID \<longrightarrow> t_done (task_at u (fst h)) = 1)
    \<and> (\<forall>p. p \<noteq> fst h \<longrightarrow> t_done (task_at u p) = t_done (task_at s p))"
proof -
  note o = i2c_okD [OF ok, unfolded list.sel list.map]
  let ?t = "fst h" let ?s = "snd (pi_i2c_cb_buf_pop d s)"
  have p: "fst (pi_i2c_cb_buf_pop d s) = ?t" "?t \<noteq> 0" using o(9,10) by (auto simp: pi_i2c_cb_buf_pop_def Let_def case_prod_beta)
  have f: "task_at ?s = task_at s" "csrs ?s = csrs s" "i2c_cs_at ?s = i2c_cs_at s" "i2c_word ?s = i2c_word s"
    "null_mapped ?s = null_mapped s" "g_i2c_itf_data ?s = g_i2c_itf_data s"
    "i2c_data_at ?s = (i2c_data_at s)(d := (i2c_data_at s d)\<lparr>i_buf := 0\<rparr>)" "io_log ?s = io_log s"
    by (simp_all add: pi_i2c_cb_buf_pop_def Let_def case_prod_beta)
  have "can_release ?s ?t" using rel by (simp add: can_release_def f(1))
  then obtain v where v: "pi_irq_handle_end_of_task ?t ?s = Some v" "task_at v = (task_at s)(?t := i2c_finished s ?t)"
    "i2c_cs_at v = i2c_cs_at s" "i2c_data_at v = (i2c_data_at s)(d := (i2c_data_at s d)\<lparr>i_buf := 0\<rparr>)"
    "i2c_word v = i2c_word s" "null_mapped v = null_mapped s" "g_i2c_itf_data v = g_i2c_itf_data s" "csrs v = csrs s" "io_log v = io_log s"
    using i2c_finish [of ?s ?t] f by (auto simp: i2c_finished_def)
  have nx: "next_of v = next_of s" by (rule ext) (simp add: next_of_def v(2) i2c_finished_def)
  have qv: "i2c_queue d v (map fst ts)" using o(11) by (simp add: i2c_queue_def nx v(4))
  let ?p = "snd (pi_i2c_task_fifo_pop d v)"
  have pop: "fst (pi_i2c_task_fifo_pop d v) = (if ts = [] then 0 else fst (hd ts))" "i2c_queue d ?p (map fst (tl ts))"
    using i2c_pop_queue [OF qv] by (auto simp: hd_map map_tl)
  have pf: "task_at ?p = task_at v" "csrs ?p = csrs v" "i2c_cs_at ?p = i2c_cs_at v" "i2c_word ?p = i2c_word v"
    "null_mapped ?p = null_mapped v" "g_i2c_itf_data ?p = g_i2c_itf_data v"
    "i_buf (i2c_data_at ?p d) = 0" "i_pending (i2c_data_at ?p d) = i_pending (i2c_data_at s d)"
    "i_stop_send (i2c_data_at ?p d) = i_stop_send (i2c_data_at s d)" "i_eot_send (i2c_data_at ?p d) = i_eot_send (i2c_data_at s d)"
    "i_device_id (i2c_data_at ?p d) = i_device_id (i2c_data_at s d)" "i_stop_seq (i2c_data_at ?p d) = i_stop_seq (i2c_data_at s d)"
    "i_only_eot_seq (i2c_data_at ?p d) = i_only_eot_seq (i2c_data_at s d)" "io_log ?p = io_log v"
    by (simp_all add: pi_i2c_task_fifo_pop_def Let_def case_prod_beta v(4))
  have code: "i2c_end_of_transfer b d s = (if ts = [] then Some ?p else i2c_exec b d (fst (hd ts)) ?p)"
    using p v(1) pop(1) o(9) by (cases ts) (auto simp: i2c_end_of_transfer_def Let_def case_prod_beta)
  have ent: "i2c_entry b i d ?p x" if "x \<in> set ts" for x
  proof -
    have "t_data (task_at ?p (fst x)) = t_data (task_at s (fst x))" "i2c_cs_at ?p = i2c_cs_at s" by (simp_all add: pf(1,3) v(2,3) i2c_finished_def)
    from i2c_entry_cong [OF this, of b i d] show ?thesis using o(12) [OF that] by simp
  qed
  have same: "i2c_same s ?p" "\<forall>p. p \<noteq> ?t \<longrightarrow> t_done (task_at ?p p) = t_done (task_at s p)"
    using v pf by (simp_all add: i2c_same_def i2c_finished_def)
  have tdone: "t_id (task_at s ?t) = PI_TASK_NONE_ID \<longrightarrow> t_done (task_at ?p ?t) = 1" by (simp add: pf(1) v(2) i2c_finished_def)
  have us: "usable (i_pending (i2c_data_at ?p d)) ?p" "i_device_id (i2c_data_at ?p d) = i" "i2c_stop_ok b d (i2c_data_at ?p d)"
    using o(5-7) pf v(6) by (simp_all add: usable_def i2c_stop_ok_def)
  show ?thesis
  proof (cases ts)
    case Nil
    then have "i2c_ok b i d ?p [] ph" unfolding i2c_ok_def using o(1-4,13-15) us pop(2) pf v(7,9) by simp
    then show ?thesis using Nil code same tdone by (simp add: i2c_next_def)
  next
    case (Cons x es)
    have en: "i2c_entry b i d ?p x" using ent Cons by simp
    obtain u y where u: "i2c_exec b d (fst x) ?p = Some u" "task_at u = task_at ?p" "csrs u = csrs ?p" "i2c_cs_at u = i2c_cs_at ?p"
      "null_mapped u = null_mapped ?p" "g_i2c_itf_data u = g_i2c_itf_data ?p"
      "i2c_word u = (i2c_word ?p)(pending_repeat (i_pending (i2c_data_at ?p d)) := 0)"
      "i2c_data_at u = (i2c_data_at ?p)(d := y)" "i2c_started x (i2c_data_at ?p d) y" "io_log u = io_log ?p @ plan_writes x"
      using i2c_exec_ok [OF en us(1,2)] by blast
    have "next_of u = next_of ?p" by (rule ext) (simp add: next_of_def u(2))
    then have q': "i2c_queue d u (map fst es)" using pop(2) Cons u(8,9) by (simp add: i2c_queue_def i2c_started_def)
    have ent': "i2c_entry b i d u z" if "z \<in> set es" for z
      using ent [of z] that Cons i2c_entry_cong [of u z ?p b i d] u(2,4) by simp
    have y: "i2c_data_at u d = y" using u(8) by simp
    have st: "i_buf y = fst x" "i_pending y = i_pending (i2c_data_at ?p d)" "i_device_id y = i" "i2c_stop_ok b d y" "i_stop_send y \<noteq> 0 \<longleftrightarrow> plan_stop x"
        "i_eot_send y = 1" "take (length (plan_bytes x)) (i_cmd_seq y) = plan_bytes x"
      using u(9) us(2,3) by (auto simp: i2c_started_def i2c_stop_ok_def)
    have "distinct (map fst ts)" "0 \<notin> set (map fst ts)" "usable (i_pending y) u"
       "i2c_word u (pending_repeat (i_pending y)) = 0" "io_log u = ph_log ph @ plan_writes x"
      using o(8,9,15) us(1) st(2) u(5,7,10) pf(14) v(9) by (auto simp: usable_def)
    then have "i2c_ok b i d u ts (i2c_next ph ts)"
      unfolding i2c_ok_def y using o(1-4) Cons st q' ent' u(6) pf(6) v(7) by (simp add: i2c_next_def)
    moreover have "i2c_same s u" "\<forall>p. p \<noteq> ?t \<longrightarrow> t_done (task_at u p) = t_done (task_at s p)"
      using same u(2-4) by (simp_all add: i2c_same_def)
    ultimately show ?thesis using code u(1,2) Cons tdone by simp
  qed
qed

subsection \<open>The driver as a machine\<close>

text \<open>Requests of the users and interrupts of the peripheral: I2c_tx when the commands on the transmit channel are through, I2c_eot when the
  peripheral has executed an end-of-transfer command, and I2c_due for the one of the two that comes next where no further command is behind.\<close>

datatype i2c_event = I2c_submit u32 udma_channel u32 u32 u32 u32 | I2c_tx | I2c_eot | I2c_due

definition i2c_handlers :: "i2c_build \<Rightarrow> drv_handler \<Rightarrow> u32 \<Rightarrow> 'a i2c_drv_scheme \<Rightarrow> 'a i2c_drv_scheme option" where
  "i2c_handlers b h ev s = (if h = H_i2c_tx then pi_i2c_tx_handler b ev s else if h = H_i2c_eot then pi_i2c_eot_handler b ev s
     else if h = H_i2c_rx then pi_i2c_rx_handler ev s else None)"

definition i2c_tx_irq :: "bool \<Rightarrow> i2c_build \<Rightarrow> u8 \<Rightarrow> 'a i2c_drv_scheme \<Rightarrow> 'a i2c_drv_scheme option" where
  "i2c_tx_irq clic b i s = soc_irq clic (i2c_handlers b) (SOC_EVENT_UDMA_I2C_TX b (ucast i)) s"

definition i2c_eot_irq :: "bool \<Rightarrow> i2c_build \<Rightarrow> u8 \<Rightarrow> 'a i2c_drv_scheme \<Rightarrow> 'a i2c_drv_scheme option" where
  "i2c_eot_irq clic b i s = soc_irq clic (i2c_handlers b) (SOC_EVENT_UDMA_I2C_EOT b (ucast i)) s"

fun i2c_step :: "bool \<Rightarrow> i2c_build \<Rightarrow> u8 \<Rightarrow> i2c_event \<Rightarrow> 'a i2c_drv_scheme \<Rightarrow> 'a i2c_drv_scheme option" where
  "i2c_step clic b i (I2c_submit cs ch buf n flags t) s = pi_i2c_copy b cs buf n flags ch t s"
| "i2c_step clic b i I2c_tx s = i2c_tx_irq clic b i s"
| "i2c_step clic b i I2c_eot s = i2c_eot_irq clic b i s"
| "i2c_step clic b i I2c_due s =
     (if cfg_eot b \<and> i_eot_send (i2c_data_at s (g_i2c_itf_data s ! unat i)) = 0 then i2c_eot_irq clic b i s else i2c_tx_irq clic b i s)"

text \<open>
  The specification of one event: a first-in first-out queue of tasks with their requests. A transfer that starts writes what its request
  says; behind a transfer that ends with a stop condition the interrupt of the transmit channel sends the stop command, behind another one, in builds where the
  peripheral signals the end of transfers, the command for that signal. Where the
  peripheral signals the end of transfers, that interrupt ends one; where it does not, the first interrupt
  of the transmit channel that has no stop command to send does. i2c_may says which
  events the users and the hardware may give. The chips are those of the state.
\<close>

definition i2c_stop_writes :: "i2c_build \<Rightarrow> u8 \<Rightarrow> u32 \<Rightarrow> (u32 \<times> u32) list" where
  "i2c_stop_writes b i d = i2c_chan_writes (UDMA_I2C b (ucast i) + UDMA_CHANNEL_TX_OFFSET) (i2c_stop_seq_addr d) 4"

definition i2c_eot_writes :: "i2c_build \<Rightarrow> u8 \<Rightarrow> u32 \<Rightarrow> (u32 \<times> u32) list" where
  "i2c_eot_writes b i d = i2c_chan_writes (UDMA_I2C b (ucast i) + UDMA_CHANNEL_TX_OFFSET) (i2c_stop_seq_addr d + 1) 3"

definition i2c_ends :: "i2c_q \<Rightarrow> u32 list \<times> i2c_q" where
  "i2c_ends q = (take 1 (map fst (fst q)), tl (fst q), i2c_next (snd q) (tl (fst q)))"

definition i2c_tx_does :: "i2c_build \<Rightarrow> u8 \<Rightarrow> u32 \<Rightarrow> i2c_q \<Rightarrow> u32 list \<times> i2c_q" where
  "i2c_tx_does b i d q =
     (let ph = snd q in
      if ph_stop ph then ([], fst q, False, False, ph_log ph @ i2c_stop_writes b i d)
      else if cfg_eot b then ([], fst q, False, False, if ph_fresh ph then ph_log ph @ i2c_eot_writes b i d else ph_log ph)
      else i2c_ends q)"

fun i2c_does :: "i2c_build \<Rightarrow> u8 \<Rightarrow> u32 \<Rightarrow> (u32 \<Rightarrow> i2c_cs_data) \<Rightarrow> i2c_event \<Rightarrow> i2c_q \<Rightarrow> u32 list \<times> i2c_q" where
  "i2c_does b i d chip (I2c_submit cs ch buf n flags t) q =
     (let e = (t, i2c_plan b i d (chip cs) (ch = RX_CHANNEL) buf n flags) in
      ([], fst q @ [e], if fst q = [] then i2c_next (snd q) [e] else snd q))"
| "i2c_does b i d chip I2c_tx q = i2c_tx_does b i d q"
| "i2c_does b i d chip I2c_eot q = i2c_ends q"
| "i2c_does b i d chip I2c_due q = (if cfg_eot b \<and> \<not> ph_fresh (snd q) then i2c_ends q else i2c_tx_does b i d q)"

fun i2c_wants :: "i2c_event \<Rightarrow> u32 list" where
  "i2c_wants (I2c_submit cs ch buf n flags t) = [t]" | "i2c_wants I2c_tx = []" | "i2c_wants I2c_eot = []" | "i2c_wants I2c_due = []"

fun i2c_may :: "i2c_build \<Rightarrow> u8 \<Rightarrow> 'a i2c_drv_scheme \<Rightarrow> i2c_event \<Rightarrow> i2c_q \<Rightarrow> bool" where
  "i2c_may b i s (I2c_submit cs ch buf n flags t) q \<longleftrightarrow>
      cs \<noteq> 0 \<and> ic_device_id (i2c_cs_at s cs) = i \<and> t \<noteq> 0 \<and> t \<notin> set (map fst (fst q)) \<and> n \<le> MAX_SIZE \<and> (ch = RX_CHANNEL \<longrightarrow> n \<noteq> 0)
      \<and> can_release s t"
| "i2c_may b i s I2c_tx q \<longleftrightarrow> fst q \<noteq> []"
| "i2c_may b i s I2c_eot q \<longleftrightarrow> fst q \<noteq> [] \<and> cfg_eot b"
| "i2c_may b i s I2c_due q \<longleftrightarrow> fst q \<noteq> []"

abbreviation i2c_run :: "bool \<Rightarrow> i2c_build \<Rightarrow> u8 \<Rightarrow> i2c_event list \<Rightarrow> 'a i2c_drv_scheme \<Rightarrow> 'a i2c_drv_scheme option" where
  "i2c_run clic b i \<equiv> steps (i2c_step clic b i)"
abbreviation i2c_spec :: "i2c_build \<Rightarrow> u8 \<Rightarrow> u32 \<Rightarrow> (u32 \<Rightarrow> i2c_cs_data) \<Rightarrow> i2c_event list \<Rightarrow> i2c_q \<Rightarrow> u32 list \<times> i2c_q" where
  "i2c_spec b i d chip es q \<equiv> spec_steps (i2c_does b i d chip) es q"
abbreviation i2c_valid :: "i2c_build \<Rightarrow> u8 \<Rightarrow> u32 \<Rightarrow> 'a i2c_drv_scheme \<Rightarrow> i2c_event list \<Rightarrow> i2c_q \<Rightarrow> bool" where
  "i2c_valid b i d s es q \<equiv> all_allowed (i2c_may b i s) (i2c_does b i d (i2c_cs_at s)) es q"
abbreviation i2c_asked :: "i2c_event list \<Rightarrow> u32 list" where
  "i2c_asked es \<equiv> concat (map i2c_wants es)"

definition i2c_serving :: "i2c_build \<Rightarrow> u8 \<Rightarrow> u32 \<Rightarrow> 'a i2c_drv_scheme \<Rightarrow> i2c_q \<Rightarrow> bool" where
  "i2c_serving b i d s q \<longleftrightarrow> i2c_ok b i d s (fst q) (snd q) \<and> (\<forall>t \<in> set (map fst (fst q)). can_release s t)
     \<and> installed H_i2c_tx (SOC_EVENT_UDMA_I2C_TX b (ucast i)) s
     \<and> (if cfg_eot b then installed H_i2c_eot (SOC_EVENT_UDMA_I2C_EOT b (ucast i)) s else True)"

definition i2c_todo :: "i2c_build \<Rightarrow> i2c_q \<Rightarrow> nat" where
  "i2c_todo b q = 2 * length (fst q) - (if (if cfg_eot b then ph_fresh (snd q) else ph_stop (snd q)) then 0 else 1)"

lemma i2c_same_release: "i2c_same s u \<Longrightarrow> can_release u t = can_release s t"
  by (simp add: i2c_same_def can_release_def)

lemma i2c_same_trans: "i2c_same s u \<Longrightarrow> i2c_same u v \<Longrightarrow> i2c_same s v"
  by (simp add: i2c_same_def)

lemma i2c_decode:
  assumes "unat (UDMA_I2C_ID b i) < 64"
  shows "drop_bit UDMA_CHANNEL_NB_EVENTS_LOG2 (SOC_EVENT_UDMA_I2C_TX b i) - UDMA_I2C_ID b 0 = i"
    "drop_bit UDMA_CHANNEL_NB_EVENTS_LOG2 (SOC_EVENT_UDMA_I2C_EOT b i) - UDMA_I2C_ID b 0 = i"
  using event_decode(1) [OF assms, of 1] event_decode(1) [OF assms, of 3]
  by (simp_all add: SOC_EVENT_UDMA_I2C_TX_def SOC_EVENT_UDMA_I2C_EOT_def UDMA_CHANNEL_NB_EVENTS_LOG2_def)
    (simp_all add: UDMA_I2C_ID_def)

text \<open>An interrupt does, in q, what the specification says, and touches no task but the one it ends.\<close>

definition i2c_follows :: "i2c_build \<Rightarrow> u8 \<Rightarrow> u32 \<Rightarrow> 'a i2c_drv_scheme \<Rightarrow> 'a i2c_drv_scheme option \<Rightarrow> u32 list \<times> i2c_q \<Rightarrow> bool" where
  "i2c_follows b i d s r dq \<longleftrightarrow> (\<exists>u. r = Some u \<and> i2c_ok b i d u (fst (snd dq)) (snd (snd dq)) \<and> i2c_same s u
     \<and> (\<forall>t \<in> set (fst dq). released u t) \<and> (\<forall>p. p \<notin> set (fst dq) \<longrightarrow> t_done (task_at u p) = t_done (task_at s p)))"

lemma i2c_ends_follows:
  assumes ok: "i2c_ok b i d s (fst q) (snd q)" "fst q \<noteq> []" and rel: "can_release s (fst (hd (fst q)))"
  shows "i2c_follows b i d s (i2c_end_of_transfer b d s) (i2c_ends q)"
proof -
  obtain h ts where q: "fst q = h # ts" using ok(2) by (cases "fst q") auto
  obtain u where u: "i2c_end_of_transfer b d s = Some u" "i2c_ok b i d u ts (i2c_next (snd q) ts)" "i2c_same s u"
    "t_id (task_at s (fst h)) = PI_TASK_NONE_ID \<longrightarrow> t_done (task_at u (fst h)) = 1"
    "\<forall>p. p \<noteq> fst h \<longrightarrow> t_done (task_at u p) = t_done (task_at s p)"
    using i2c_end_ok [of b i d s h ts "snd q"] ok(1) rel q by auto
  have "released u (fst h)" using u(3,4) by (simp add: i2c_same_def released_def)
  then show ?thesis using u q by (simp add: i2c_follows_def i2c_ends_def)
qed

lemma i2c_tx_follows:
  assumes ok: "i2c_ok b i d s (fst q) (snd q)" "fst q \<noteq> []" and rel: "can_release s (fst (hd (fst q)))"
  shows "i2c_follows b i d s (pi_i2c_tx_handler b (SOC_EVENT_UDMA_I2C_TX b (ucast i)) s) (i2c_tx_does b i d q)"
proof -
  note o = i2c_okD [OF ok(1)]
  have it: "i2c_itf (drop_bit UDMA_CHANNEL_NB_EVENTS_LOG2 (SOC_EVENT_UDMA_I2C_TX b (ucast i)) - UDMA_I2C_ID b 0) s = Some d"
    using i2c_decode(1) [OF o(4)] i2c_itf_ok [OF ok(1)] by simp
  show ?thesis
  proof (cases "ph_stop (snd q) \<or> cfg_eot b")
    case False
    then have "pi_i2c_tx_handler b (SOC_EVENT_UDMA_I2C_TX b (ucast i)) s = i2c_end_of_transfer b d s"
      using it o(5,13,16) ok(2) by (simp add: pi_i2c_tx_handler_def)
    then show ?thesis using False i2c_ends_follows [OF assms] by (simp add: i2c_tx_does_def Let_def)
  next
    case True
    define u where "u = (if ph_stop (snd q) then pi_i2c_send_stop_cmd b d s
      else if ph_fresh (snd q) then pi_i2c_send_only_eot_cmd b d s else s)"
    have "pi_i2c_tx_handler b (SOC_EVENT_UDMA_I2C_TX b (ucast i)) s = Some u"
      using it o(5,13,14,16) True ok(2) by (auto simp: pi_i2c_tx_handler_def u_def)
    moreover have f: "task_at u = task_at s" "csrs u = csrs s" "i2c_cs_at u = i2c_cs_at s" "i2c_word u = i2c_word s"
      "null_mapped u = null_mapped s" "g_i2c_itf_data u = g_i2c_itf_data s"
      "i_buf (i2c_data_at u d) = i_buf (i2c_data_at s d)" "i_pending (i2c_data_at u d) = i_pending (i2c_data_at s d)"
      "i_fifo_head (i2c_data_at u d) = i_fifo_head (i2c_data_at s d)" "i_fifo_tail (i2c_data_at u d) = i_fifo_tail (i2c_data_at s d)"
      "i_device_id (i2c_data_at u d) = i_device_id (i2c_data_at s d)" "i_cmd_seq (i2c_data_at u d) = i_cmd_seq (i2c_data_at s d)"
      "i_stop_seq (i2c_data_at u d) = i_stop_seq (i2c_data_at s d)" "i_only_eot_seq (i2c_data_at u d) = i_only_eot_seq (i2c_data_at s d)"
      "i_stop_send (i2c_data_at u d) = 0" "i_eot_send (i2c_data_at u d) = 0"
      using o(13,14) by (auto simp: u_def pi_i2c_send_stop_cmd_def pi_i2c_send_only_eot_cmd_def Let_def)
    have log: "io_log u = (if ph_stop (snd q) then ph_log (snd q) @ i2c_stop_writes b i d
        else if ph_fresh (snd q) then ph_log (snd q) @ i2c_eot_writes b i d else ph_log (snd q))"
      using o(6,7,15) True by (auto simp: u_def pi_i2c_send_stop_cmd_def pi_i2c_send_only_eot_cmd_def Let_def i2c_stop_writes_def i2c_eot_writes_def
          i2c_stop_ok_def PI_I2C_STOP_CMD_SIZE_def PI_I2C_ONLY_EOT_CMD_SIZE_def)
    have nx: "next_of u = next_of s" by (rule ext) (simp add: next_of_def f(1))
    have ent: "i2c_entry b i d u e = i2c_entry b i d s e" for e by (rule i2c_entry_cong) (simp_all add: f(1,3))
    have "i2c_tx_does b i d q = ([], fst q, False, False, io_log u)"
      using True log by (auto simp: i2c_tx_does_def Let_def)
    moreover have "i2c_ok b i d u (fst q) (False, False, io_log u)"
      unfolding i2c_ok_def using o(1-12,16,17) f nx ent by (simp add: usable_def i2c_queue_def i2c_stop_ok_def)
    ultimately show ?thesis using f(1-3) by (simp add: i2c_follows_def i2c_same_def)
  qed
qed

lemma i2c_upd_handlers [simp]:
  "fc_event_handlers (upd_i2c d f s) = fc_event_handlers s" "fc_event_handlers (i2c_store a v s) = fc_event_handlers s"
  by (simp_all add: upd_i2c_def i2c_store_def)

lemma hal_i2c_handlers [simp]: "fc_event_handlers (hal_i2c_enqueue b i c a n cfg s) = fc_event_handlers (s :: 'a soc_scheme)"
  by (simp add: hal_i2c_enqueue_def i2c_udma_channel_set_def udma_enqueue_channel_def Let_def split: udma_channel.split)

lemma i2c_exec_handlers: "i2c_exec b d t s = Some u \<Longrightarrow> fc_event_handlers u = fc_event_handlers s"
  by (auto simp: i2c_exec_def pi_i2c_copy_exec_read_def pi_i2c_copy_exec_write_def i2c_set_pending_def pi_i2c_cb_buf_enqueue_def
      Let_def case_prod_beta split: if_splits)

lemma i2c_copy_handlers: "pi_i2c_copy b cs buf n flags ch t s = Some u \<Longrightarrow> fc_event_handlers u = fc_event_handlers s"
  by (auto simp: pi_i2c_copy_def pi_i2c_task_fifo_enqueue_def Let_def case_prod_beta bind_eq_Some_conv dest!: i2c_exec_handlers split: if_splits)

lemma i2c_end_handlers: "i2c_end_of_transfer b d s = Some u \<Longrightarrow> fc_event_handlers u = fc_event_handlers s"
proof -
  have e: "pi_irq_handle_end_of_task t s = Some u \<Longrightarrow> fc_event_handlers u = fc_event_handlers s" for t s u
    by (auto simp: pi_irq_handle_end_of_task_def pi_task_release_def pi_sem_give_def os_native_api_sem_give_def pi_task_push_def
        pi_task_push_delayed_us_def pi_time_wait_us_def Let_def case_prod_beta split: if_splits)
  have p: "fc_event_handlers (snd (pi_i2c_cb_buf_pop d s)) = fc_event_handlers s" "fc_event_handlers (snd (pi_i2c_task_fifo_pop d s)) = fc_event_handlers s" for s
    by (simp_all add: pi_i2c_cb_buf_pop_def pi_i2c_task_fifo_pop_def Let_def case_prod_beta)
  show "i2c_end_of_transfer b d s = Some u \<Longrightarrow> fc_event_handlers u = fc_event_handlers s"
    by (auto simp: i2c_end_of_transfer_def Let_def case_prod_beta bind_eq_Some_conv p dest!: e i2c_exec_handlers split: if_splits)
qed

lemma i2c_eot_handlers: "pi_i2c_eot_handler b ev s = Some u \<Longrightarrow> fc_event_handlers u = fc_event_handlers s"
  by (auto simp: pi_i2c_eot_handler_def bind_eq_Some_conv dest!: i2c_end_handlers)

lemma i2c_tx_handlers:
  assumes "pi_i2c_tx_handler b ev s = Some u"
  shows "fc_event_handlers u = fc_event_handlers s"
proof -
  have "pi_i2c_handle_pending_transfer d s = Some u \<Longrightarrow> fc_event_handlers u = fc_event_handlers s" for d
    by (auto simp: pi_i2c_handle_pending_transfer_def Let_def split: if_splits)
  then show ?thesis using assms
    by (auto simp: pi_i2c_tx_handler_def bind_eq_Some_conv pi_i2c_send_stop_cmd_def pi_i2c_send_only_eot_cmd_def Let_def
        dest!: i2c_end_handlers split: if_splits)
qed

lemma i2c_event_frame [simp]:
  "i2c_ok b i d (soc_event clic ev s) ts ph = i2c_ok b i d s ts ph" "i2c_same (soc_event clic ev s) u = i2c_same s u"
  "i2c_follows b i d (soc_event clic ev s) r dq = i2c_follows b i d s r dq"
  by (simp add: i2c_ok_def i2c_queue_def i2c_entry_def usable_def soc_event_def next_of_def [abs_def])
    (simp add: i2c_same_def, simp add: soc_event_def, simp add: i2c_follows_def i2c_same_def, simp add: soc_event_def)

lemma i2c_irq_follows:
  assumes sv: "i2c_serving b i d s q" and ne: "fst q \<noteq> []"
  shows "i2c_follows b i d s (i2c_tx_irq clic b i s) (i2c_tx_does b i d q)"
    "cfg_eot b \<Longrightarrow> i2c_follows b i d s (i2c_eot_irq clic b i s) (i2c_ends q)"
    "i2c_tx_irq clic b i s = Some u \<or> cfg_eot b \<and> i2c_eot_irq clic b i s = Some u \<Longrightarrow> fc_event_handlers u = fc_event_handlers s"
proof -
  let ?tx = "SOC_EVENT_UDMA_I2C_TX b (ucast i)" and ?eot = "SOC_EVENT_UDMA_I2C_EOT b (ucast i)"
  have irq: "i2c_tx_irq clic b i s = pi_i2c_tx_handler b ?tx (soc_event clic ?tx s)"
     "cfg_eot b \<Longrightarrow> i2c_eot_irq clic b i s = pi_i2c_eot_handler b ?eot (soc_event clic ?eot s)"
    using sv soc_irq_runs [of H_i2c_tx ?tx s clic "i2c_handlers b"] soc_irq_runs [of H_i2c_eot ?eot s clic "i2c_handlers b"]
    by (simp_all add: i2c_serving_def i2c_handlers_def i2c_tx_irq_def i2c_eot_irq_def)
  have ok: "i2c_ok b i d s (fst q) (snd q)" and rel: "can_release s (fst (hd (fst q)))"
    using sv ne by (auto simp: i2c_serving_def)
  show "i2c_follows b i d s (i2c_tx_irq clic b i s) (i2c_tx_does b i d q)"
    using i2c_tx_follows [of b i d "soc_event clic ?tx s" q] ok ne rel irq(1) by simp
  show "i2c_follows b i d s (i2c_eot_irq clic b i s) (i2c_ends q)" if c: "cfg_eot b"
  proof -
    let ?s = "soc_event clic ?eot s"
    have ok': "i2c_ok b i d ?s (fst q) (snd q)" using ok by simp
    have "pi_i2c_eot_handler b ?eot ?s = i2c_end_of_transfer b d ?s"
      using i2c_decode(2) [OF i2c_okD(4) [OF ok]] i2c_itf_ok [OF ok'] by (simp add: pi_i2c_eot_handler_def)
    then show ?thesis using i2c_ends_follows [OF ok' ne] rel irq(2) [OF c] by simp
  qed
  show "fc_event_handlers u = fc_event_handlers s"
    if "i2c_tx_irq clic b i s = Some u \<or> cfg_eot b \<and> i2c_eot_irq clic b i s = Some u"
    using that irq i2c_tx_handlers [of b ?tx "soc_event clic ?tx s" u] i2c_eot_handlers [of b ?eot "soc_event clic ?eot s" u]
    by (elim disjE conjE) simp_all
qed

lemma i2c_step_law:
  assumes "i2c_serving b i d s q" "i2c_may b i s e q"
  shows "\<exists>u. i2c_step clic b i e s = Some u \<and> i2c_serving b i d u (snd (i2c_does b i d (i2c_cs_at s) e q)) \<and> i2c_same s u
    \<and> (\<forall>t \<in> set (fst (i2c_does b i d (i2c_cs_at s) e q)). released u t)
    \<and> (\<forall>p. p \<notin> set (fst (i2c_does b i d (i2c_cs_at s) e q)) \<longrightarrow> t_done (task_at u p) = t_done (task_at s p))"
proof -
  let ?dq = "i2c_does b i d (i2c_cs_at s) e q"
  have ok: "i2c_ok b i d s (fst q) (snd q)" and rel: "\<And>t. t \<in> set (map fst (fst q)) \<Longrightarrow> can_release s t"
    using assms(1) by (auto simp: i2c_serving_def)
  have keep: "i2c_serving b i d u q'" if "i2c_ok b i d u (fst q') (snd q')" "i2c_same s u" "fc_event_handlers u = fc_event_handlers s"
      "\<And>t. t \<in> set (map fst (fst q')) \<Longrightarrow> can_release s t" for u q'
    using that assms(1) i2c_same_release [OF that(2)] installed_same [OF that(3)] by (simp add: i2c_serving_def)
  show ?thesis
  proof (cases e)
    case (I2c_submit cs ch buf n flags t)
    obtain u where u: "pi_i2c_copy b cs buf n flags ch t s = Some u" "i2c_ok b i d u (fst (snd ?dq)) (snd (snd ?dq))" "i2c_same s u"
        "\<forall>p. t_done (task_at u p) = t_done (task_at s p)"
      using i2c_submit_ok [OF ok, of cs t n ch buf flags] assms(2) I2c_submit by (auto simp: Let_def)
    have "i2c_serving b i d u (snd ?dq)"
      using rel assms(2) I2c_submit by (intro keep u i2c_copy_handlers [OF u(1)]) (auto simp: Let_def)
    then show ?thesis using I2c_submit u by (intro exI [of _ u]) (simp add: Let_def)
  next
    case irq: I2c_tx
    then have ne: "fst q \<noteq> []" using assms(2) by simp
    have sub: "set (map fst (fst (snd (i2c_tx_does b i d q)))) \<subseteq> set (map fst (fst q))"
      by (cases "fst q") (auto simp: i2c_tx_does_def i2c_ends_def Let_def)
    obtain u where u: "i2c_tx_irq clic b i s = Some u" "i2c_ok b i d u (fst (snd ?dq)) (snd (snd ?dq))" "i2c_same s u"
        "\<forall>t \<in> set (fst ?dq). released u t" "\<forall>p. p \<notin> set (fst ?dq) \<longrightarrow> t_done (task_at u p) = t_done (task_at s p)"
      using i2c_irq_follows(1) [OF assms(1) ne, of clic] irq unfolding i2c_follows_def by auto
    have "i2c_serving b i d u (snd ?dq)"
      using sub rel irq i2c_irq_follows(3) [OF assms(1) ne, of clic u] u(1) by (intro keep u) auto
    then show ?thesis using irq u by (intro exI [of _ u]) simp
  next
    case irq: I2c_eot
    then have ne: "fst q \<noteq> []" "cfg_eot b" using assms(2) by simp_all
    have sub: "set (map fst (fst (snd (i2c_ends q)))) \<subseteq> set (map fst (fst q))"
      by (cases "fst q") (auto simp: i2c_ends_def)
    obtain u where u: "i2c_eot_irq clic b i s = Some u" "i2c_ok b i d u (fst (snd ?dq)) (snd (snd ?dq))" "i2c_same s u"
        "\<forall>t \<in> set (fst ?dq). released u t" "\<forall>p. p \<notin> set (fst ?dq) \<longrightarrow> t_done (task_at u p) = t_done (task_at s p)"
      using i2c_irq_follows(2) [OF assms(1) ne, of clic] irq unfolding i2c_follows_def by auto
    have "i2c_serving b i d u (snd ?dq)"
      using sub rel irq i2c_irq_follows(3) [OF assms(1) ne(1), of clic u] u(1) ne(2) by (intro keep u) auto
    then show ?thesis using irq u by (intro exI [of _ u]) simp
  next
    case irq: I2c_due
    then have ne: "fst q \<noteq> []" using assms(2) by simp
    have fresh: "i_eot_send (i2c_data_at s (g_i2c_itf_data s ! unat i)) = 0 \<longleftrightarrow> \<not> ph_fresh (snd q)"
      using i2c_okD(3,14) [OF ok] by blast
    define r where "r = i2c_step clic b i e s"
    have r: "r = (if cfg_eot b \<and> \<not> ph_fresh (snd q) then i2c_eot_irq clic b i s else i2c_tx_irq clic b i s)"
      unfolding r_def irq using fresh by simp
    have sub: "set (map fst (fst (snd ?dq))) \<subseteq> set (map fst (fst q))"
      unfolding irq by (cases "fst q") (auto simp: i2c_tx_does_def i2c_ends_def Let_def)
    have "i2c_follows b i d s r ?dq"
      unfolding r irq using i2c_irq_follows(1,2) [OF assms(1) ne, of clic] by simp
    then obtain u where u: "r = Some u" "i2c_ok b i d u (fst (snd ?dq)) (snd (snd ?dq))" "i2c_same s u"
        "\<forall>t \<in> set (fst ?dq). released u t" "\<forall>p. p \<notin> set (fst ?dq) \<longrightarrow> t_done (task_at u p) = t_done (task_at s p)"
      unfolding i2c_follows_def by auto
    have "fc_event_handlers u = fc_event_handlers s"
      using i2c_irq_follows(3) [OF assms(1) ne, of clic u] u(1) r by (auto split: if_splits)
    then have "i2c_serving b i d u (snd ?dq)" using sub rel by (intro keep u) auto
    then show ?thesis using u unfolding r_def by blast
  qed
qed

interpretation i2c: draining_service "i2c_step clic b i" "i2c_does b i d chip" "i2c_may b i"
    "\<lambda>s q. i2c_cs_at s = chip \<and> i2c_serving b i d s q" i2c_same released
    "\<lambda>_. True" "\<lambda>q. map fst (fst q)" i2c_wants I2c_due "i2c_todo b" for clic b i d chip
proof
  show "\<exists>u. i2c_step clic b i e s = Some u \<and> (i2c_cs_at u = chip \<and> i2c_serving b i d u (snd (i2c_does b i d chip e q))) \<and> i2c_same s u
      \<and> (\<forall>t \<in> set (fst (i2c_does b i d chip e q)). released u t)"
    if "i2c_cs_at s = chip \<and> i2c_serving b i d s q" "i2c_may b i s e q" for s :: "'a i2c_drv_scheme" and e q
    using i2c_step_law [of b i d s q e clic] that by (auto simp: i2c_same_def)
  show "i2c_may b i u e q = i2c_may b i s e q" if "i2c_same s u" for s u :: "'a i2c_drv_scheme" and e q
    using that i2c_same_release [OF that] by (cases e) (auto simp: i2c_same_def)
  show "filter (\<lambda>_. True) (fst (i2c_does b i d chip e q)) @ map fst (fst (snd (i2c_does b i d chip e q))) = map fst (fst q) @ i2c_wants e" for e q
    by (cases e; cases "fst q") (auto simp: Let_def i2c_tx_does_def i2c_ends_def)
  show "i2c_may b i s I2c_due q" if "map fst (fst q) \<noteq> []" for s :: "'a i2c_drv_scheme" and q
    using that by simp
  show "i2c_todo b (snd (i2c_does b i d chip I2c_due q)) < i2c_todo b q" if "map fst (fst q) \<noteq> []" for q
    using that by (cases "fst q") (auto simp: i2c_todo_def i2c_tx_does_def i2c_ends_def i2c_next_def Let_def)
qed (auto simp: i2c_same_def released_def)

end
