(* ===== verification/I2cClaims.thy ===== *)
theory I2cClaims
  imports I2cProps
begin

text \<open>
  What the I2C driver promises, and what it does through the pointers that are never set.
\<close>

text \<open>C22: from any state in which the driver serves the queue q, any sequence of requests of at most 255 bytes, reads not of 0, and of interrupts of
  the peripheral, dispatched from the event FIFO, succeeds and is the first-in first-out queue of the specification. The writes to the registers of peripherals are exactly
  those of the specification: each transfer starts the channels as its request says, with the command bytes for it in the buffer the channel reads while
  it runs (i2c_serving), and behind it a transmit interrupt sends the stop command or, where the peripheral signals ends, the command for that signal; its end then starts the next one. What is
  finished followed by what is still in service is what was in service followed by the requests in their order,
  and every finished blocking task is done. The driver reaches its structure for long transfers through a pointer it never sets: i2c_serving asks that the word it
  finds there is readable and writable, so in practice that low addresses are mapped.\<close>
theorem i2c_service:
  assumes "i2c_serving b i d s q" "i2c_valid b i d s es q"
  shows "\<exists>u fin rest ph. i2c_run clic b i es s = Some u \<and> i2c_spec b i d (i2c_cs_at s) es q = (fin, rest, ph)
     \<and> fin @ map fst rest = map fst (fst q) @ i2c_asked es \<and> i2c_serving b i d u (rest, ph) \<and> io_log u = ph_log ph
     \<and> (rest \<noteq> [] \<longrightarrow> take (length (plan_bytes (hd rest))) (i_cmd_seq (i2c_data_at u d)) = plan_bytes (hd rest)) \<and> csrs u = csrs s
     \<and> (\<forall>t \<in> set fin. t_id (task_at s t) = PI_TASK_NONE_ID \<longrightarrow> t_done (task_at u t) = 1)"
proof -
  obtain fin rest ph where sp: "i2c_spec b i d (i2c_cs_at s) es q = (fin, rest, ph)"
    by (cases "i2c_spec b i d (i2c_cs_at s) es q") auto
  have f: "\<exists>u. i2c_run clic b i es s = Some u \<and> (i2c_cs_at u = i2c_cs_at s \<and> i2c_serving b i d u (rest, ph)) \<and> i2c_same s u \<and> (\<forall>t \<in> set fin. released u t)"
    using i2c.follows_spec [where clic = clic and chip = "i2c_cs_at s" and s = s and q = q and es = es and b = b and i = i and d = d] assms sp by simp
  then obtain u where u: "i2c_run clic b i es s = Some u" "i2c_serving b i d u (rest, ph)" "i2c_same s u" "\<forall>t \<in> set fin. released u t" by blast
  have ok: "i2c_ok b i d u rest ph" using u(2) by (simp add: i2c_serving_def)
  have "fin @ map fst rest = map fst (fst q) @ i2c_asked es"
    using i2c.in_order [of b i d "i2c_cs_at s" es q] sp by simp
  then show ?thesis using u sp i2c_okD(15,17) [OF ok]
    by (intro exI [of _ u] exI [of _ fin] exI [of _ rest] exI [of _ ph]) (auto simp: i2c_same_def released_def)
qed

definition demo_i2c :: i2c_drv where
  "demo_i2c = \<lparr>csrs = \<lambda>_. 0, regs = \<lambda>_. 0, io_log = [], fc_event_handlers = (replicate 168 (Some FC_null_event))[9 := Some (FC_handler H_i2c_tx)],
     task_at = \<lambda>_. \<lparr>t_arg = \<lambda>_. 0, t_id = PI_TASK_NONE_ID, t_data = \<lambda>_. 0, t_wait_on = \<lparr>sem_object = 0, sem_take_fn = False, sem_give_fn = False\<rparr>,
        t_next = 0, t_done = 0, t_core_id = 0, t_cluster_id = 0, t_destroy = 0\<rparr>,
     os_log = [], dev_data = \<lambda>_. 0x1C000400,
     i2c_cs_at = \<lambda>_. \<lparr>ic_device_id = 0, ic_cs = 0x90, ic_clk_div = 62, ic_max_baudrate = 200000\<rparr>,
     i2c_data_at = \<lambda>_. \<lparr>i_buf = 0, i_fifo_head = 0, i_fifo_tail = 0, i_pending = 0, i_nb_open = 1, i_cmd_index = 0, i_cs_list = 0,
        i_cmd_seq = replicate 16 0, i_stop_send = 0, i_stop_seq = [0x20, 0xA0, 1, 0], i_eot_send = 0, i_only_eot_seq = 0, i_device_id = 0, i_nb_events = 0\<rparr>,
     i2c_word = \<lambda>_. 0, null_mapped = True, g_i2c_itf_data = [0x1C000100, 0]\<rparr>"

lemma demo_i2c_ok: "i2c_ok pulp_i2c 0 0x1C000100 demo_i2c [] (False, False, [])" "can_release demo_i2c t"
  by (simp_all add: i2c_ok_def i2c_queue_def demo_i2c_def can_release_def usable_def UDMA_I2C_ID_def pulp_i2c_def i2c_stop_ok_def
      I2C_CMD_STOP_def I2C_CMD_WAIT_def)

lemma demo_i2c_serving: "i2c_serving pulp_i2c 0 0x1C000100 demo_i2c ([], False, False, [])"
proof -
  have "SOC_EVENT_UDMA_I2C_TX pulp_i2c 0 = 9"
    by (simp add: SOC_EVENT_UDMA_I2C_TX_def UDMA_I2C_ID_def UDMA_CHANNEL_NB_EVENTS_LOG2_def pulp_i2c_def)
  then have "installed H_i2c_tx (SOC_EVENT_UDMA_I2C_TX pulp_i2c 0) demo_i2c" by (simp add: installed_def demo_i2c_def)
  then show ?thesis using demo_i2c_ok by (simp add: i2c_serving_def pulp_i2c_def)
qed

lemma i2c_service_witness:
  "\<exists>u. i2c_run False pulp_i2c 0 [I2c_submit 0x1C000400 TX_CHANNEL 0x1C010000 2 0 0x1C020000, I2c_submit 0x1C000400 RX_CHANNEL 0x1C011000 4 0 0x1C021000,
        I2c_tx, I2c_tx] demo_i2c = Some u \<and> t_done (task_at u 0x1C020000) = 1
     \<and> take 10 (i_cmd_seq (i2c_data_at u 0x1C000100)) = [0xE0, 0, 62, 0, 0x80, 0x91, 0xC0, 3, 0x40, 0x60]
     \<and> io_log u = [(0x1A102190, 0x1C000120), (0x1A102194, 9), (0x1A102198, 0x10), (0x1A102190, 0x1C010000), (0x1A102194, 2), (0x1A102198, 0x10),
          (0x1A102190, 0x1C000131), (0x1A102194, 4), (0x1A102198, 0x10),
          (0x1A102180, 0x1C011000), (0x1A102184, 4), (0x1A102188, 0x10), (0x1A102190, 0x1C000120), (0x1A102194, 10), (0x1A102198, 0x10)]"
proof -
  let ?es = "[I2c_submit 0x1C000400 TX_CHANNEL 0x1C010000 2 0 0x1C020000, I2c_submit 0x1C000400 RX_CHANNEL 0x1C011000 4 0 0x1C021000, I2c_tx, I2c_tx]"
  let ?q = "([], False, False, []) :: i2c_q"
  have d: "ic_device_id (i2c_cs_at demo_i2c cs) = 0" "t_id (task_at demo_i2c p) = PI_TASK_NONE_ID" "ic_clk_div (i2c_cs_at demo_i2c cs) = 62"
     "ic_cs (i2c_cs_at demo_i2c cs) = 0x90" for cs p by (simp_all add: demo_i2c_def)
  note ev = i2c_plan_def i2c_bytes_def i2c_ends_def i2c_tx_does_def i2c_next_def i2c_chan_writes_def i2c_stop_writes_def i2c_cmd_seq_addr_def
    i2c_stop_seq_addr_def I2C_CFG_EN_def PI_I2C_XFER_NO_STOP_def PI_I2C_XFER_NO_START_def UDMA_I2C_def UDMA_I2C_ID_def
    UDMA_PERIPH_BASE_ADDR_def UDMA_PERIPH_SIZE_LOG2_def mmio I2C_CMD_CFG_def I2C_CMD_START_def I2C_CMD_WR_def I2C_CMD_RPT_def
    I2C_CMD_RD_ACK_def I2C_CMD_RD_NACK_def
  have v: "i2c_valid pulp_i2c 0 0x1C000100 demo_i2c ?es ?q"
    by (simp add: d demo_i2c_ok MAX_SIZE_def Let_def ev pulp_i2c_def)
  have sp: "\<exists>e. i2c_spec pulp_i2c 0 0x1C000100 (i2c_cs_at demo_i2c) ?es ?q = ([0x1C020000], [e], True, True,
       [(0x1A102190, 0x1C000120), (0x1A102194, 9), (0x1A102198, 0x10), (0x1A102190, 0x1C010000), (0x1A102194, 2), (0x1A102198, 0x10),
          (0x1A102190, 0x1C000131), (0x1A102194, 4), (0x1A102198, 0x10),
          (0x1A102180, 0x1C011000), (0x1A102184, 4), (0x1A102188, 0x10), (0x1A102190, 0x1C000120), (0x1A102194, 10), (0x1A102198, 0x10)])
     \<and> plan_bytes e = [0xE0, 0, 62, 0, 0x80, 0x91, 0xC0, 3, 0x40, 0x60]"
    by (simp add: d Let_def ev pulp_i2c_def)
  then obtain e where e: "i2c_spec pulp_i2c 0 0x1C000100 (i2c_cs_at demo_i2c) ?es ?q = ([0x1C020000], [e], True, True,
       [(0x1A102190, 0x1C000120), (0x1A102194, 9), (0x1A102198, 0x10), (0x1A102190, 0x1C010000), (0x1A102194, 2), (0x1A102198, 0x10),
          (0x1A102190, 0x1C000131), (0x1A102194, 4), (0x1A102198, 0x10),
          (0x1A102180, 0x1C011000), (0x1A102184, 4), (0x1A102188, 0x10), (0x1A102190, 0x1C000120), (0x1A102194, 10), (0x1A102198, 0x10)])"
     "plan_bytes e = [0xE0, 0, 62, 0, 0x80, 0x91, 0xC0, 3, 0x40, 0x60]" by blast
  have ten: "length (plan_bytes e) = 10" by (simp add: e(2))
  from i2c_service [where clic = False, OF demo_i2c_serving v] obtain u where
    r: "i2c_run False pulp_i2c 0 ?es demo_i2c = Some u" "io_log u = ph_log (snd (snd (i2c_spec pulp_i2c 0 0x1C000100 (i2c_cs_at demo_i2c) ?es ?q)))"
    "take (length (plan_bytes e)) (i_cmd_seq (i2c_data_at u 0x1C000100)) = plan_bytes e" "t_done (task_at u 0x1C020000) = 1"
    using d(2) unfolding e(1) by auto
  have "take 10 (i_cmd_seq (i2c_data_at u 0x1C000100)) = [0xE0, 0, 62, 0, 0x80, 0x91, 0xC0, 3, 0x40, 0x60]"
    using r(3) unfolding ten by (simp only: e(2))
  then show ?thesis using r(1,2,4) unfolding e(1) by (intro exI [of _ u]) simp
qed

lemma i2c_serving_block:
  assumes "i2c_serving b i d s q" "tb \<notin> set (map fst (fst q))"
  shows "i2c_serving b i d (pi_task_block create tb s) q" "i2c_cs_at (pi_task_block create tb s) = i2c_cs_at s"
    "io_log (pi_task_block create tb s) = io_log s"
proof -
  let ?u = "pi_task_block create tb s"
  obtain ts ph where q: "q = (ts, ph)" by (cases q)
  have f: "i2c_cs_at ?u = i2c_cs_at s" "i2c_data_at ?u = i2c_data_at s" "i2c_word ?u = i2c_word s" "null_mapped ?u = null_mapped s"
    "g_i2c_itf_data ?u = g_i2c_itf_data s" "io_log ?u = io_log s"
    by (simp_all add: pi_task_block_def pi_sem_init_def Let_def)
  have o: "task_at ?u (fst e) = task_at s (fst e)" if "e \<in> set ts" for e
    using block_task_other [of "fst e" tb create s] assms(2) that q by force
  have ot: "task_at ?u (fst e) = task_at s (fst e)" if "e \<in> set (tl ts)" for e using o that by (cases ts) auto
  have "i2c_entry b i d ?u e = i2c_entry b i d s e" if "e \<in> set (tl ts)" for e
    by (rule i2c_entry_cong) (simp_all add: ot [OF that] f(1))
  moreover have "i2c_queue d ?u (map fst (tl ts)) = i2c_queue d s (map fst (tl ts))"
    unfolding i2c_queue_def f by (rule fifo_rep_cong) (use ot in \<open>force simp: next_of_def\<close>)
  ultimately show "i2c_serving b i d ?u q"
    using assms o f q by (auto simp: i2c_serving_def i2c_ok_def can_release_def usable_def installed_same [OF block_task(8)])
  show "i2c_cs_at ?u = i2c_cs_at s" "io_log ?u = io_log s" by (rule f)+
qed

subsection \<open>Blocking calls\<close>

text \<open>The commands behind a transfer, and all writes that are still to come until the queue is served.\<close>

definition i2c_behind :: "i2c_build \<Rightarrow> u8 \<Rightarrow> u32 \<Rightarrow> u32 \<times> i2c_plan \<Rightarrow> (u32 \<times> u32) list" where
  "i2c_behind b i d e = (if plan_stop e then i2c_stop_writes b i d else if cfg_eot b then i2c_eot_writes b i d else [])"

definition i2c_left :: "i2c_build \<Rightarrow> u8 \<Rightarrow> u32 \<Rightarrow> i2c_q \<Rightarrow> (u32 \<times> u32) list" where
  "i2c_left b i d q =
     (if fst q = [] then []
      else (if cfg_eot b \<and> \<not> ph_fresh (snd q) then [] else if ph_stop (snd q) then i2c_stop_writes b i d
            else if cfg_eot b then i2c_eot_writes b i d else [])
        @ concat (map (\<lambda>e. plan_writes e @ i2c_behind b i d e) (tl (fst q))))"

lemma i2c_due_left:
  fixes b :: i2c_build and i :: u8 and d :: u32 and chip :: "u32 \<Rightarrow> i2c_cs_data"
  assumes "fst q \<noteq> []"
  defines "q' \<equiv> snd (i2c_does b i d chip I2c_due q)"
  shows "ph_log (snd q') @ i2c_left b i d q' = ph_log (snd q) @ i2c_left b i d q"
proof -
  obtain h ts where q: "fst q = h # ts" using assms(1) by (cases "fst q") auto
  show ?thesis
    by (cases ts) (auto simp: q'_def i2c_left_def i2c_behind_def i2c_tx_does_def i2c_ends_def i2c_next_def Let_def q)
qed

lemma i2c_submit_left:
  fixes b :: i2c_build and i :: u8 and d t cs buf n flags :: u32 and chip :: "u32 \<Rightarrow> i2c_cs_data" and ch :: udma_channel and q :: i2c_q
  defines "e \<equiv> (t, i2c_plan b i d (chip cs) (ch = RX_CHANNEL) buf n flags)"
    and "q' \<equiv> snd (i2c_does b i d chip (I2c_submit cs ch buf n flags t) q)"
  shows "ph_log (snd q') @ i2c_left b i d q' = ph_log (snd q) @ i2c_left b i d q @ plan_writes e @ i2c_behind b i d e"
  by (cases "fst q") (auto simp: q'_def e_def i2c_left_def i2c_behind_def i2c_next_def Let_def)

text \<open>While interrupts are served one after the other, the last task of the queue stays in it, not done, until nothing is left.\<close>

lemma i2c_last_waits:
  fixes v :: "'a i2c_drv_scheme" and b :: i2c_build and i :: u8 and d :: u32 and clic :: bool
  defines "nq \<equiv> \<lambda>q. snd (i2c_does b i d (i2c_cs_at v) I2c_due q)" and "env \<equiv> irq_env (i2c_step clic b i I2c_due)"
  assumes ok: "\<forall>k \<le> n. i2c_serving b i d ((env ^^ k) v) ((nq ^^ k) q) \<and> i2c_cs_at ((env ^^ k) v) = i2c_cs_at v"
    and ne: "\<forall>k < n. fst ((nq ^^ k) q) \<noteq> []"
  shows "k \<le> n \<Longrightarrow> (k < n \<longrightarrow> last (map fst (fst ((nq ^^ k) q))) = last (map fst (fst q))
      \<and> t_done (task_at ((env ^^ k) v) (last (map fst (fst q)))) = t_done (task_at v (last (map fst (fst q)))))
    \<and> ph_log (snd ((nq ^^ k) q)) @ i2c_left b i d ((nq ^^ k) q) = ph_log (snd q) @ i2c_left b i d q"
proof (induction k)
  case (Suc k)
  let ?q = "(nq ^^ k) q" and ?s = "(env ^^ k) v" and ?l = "last (map fst (fst q))"
  have k: "k < n" "k \<le> n" using Suc.prems by simp_all
  note IH = Suc.IH [OF k(2)]
  have sv: "i2c_serving b i d ?s ?q" and cs: "i2c_cs_at ?s = i2c_cs_at v" and nk: "fst ?q \<noteq> []" using ok ne k by auto
  have may: "i2c_may b i ?s I2c_due ?q" using nk by simp
  obtain u where u: "i2c_step clic b i I2c_due ?s = Some u"
      "\<forall>p. p \<notin> set (fst (i2c_does b i d (i2c_cs_at v) I2c_due ?q)) \<longrightarrow> t_done (task_at u p) = t_done (task_at ?s p)"
    using i2c_step_law [OF sv may, of clic] unfolding cs by blast
  have e: "(env ^^ Suc k) v = u" using u(1) by (simp add: env_def irq_env_def)
  have q': "(nq ^^ Suc k) q = nq ?q" by simp
  have left: "ph_log (snd ((nq ^^ Suc k) q)) @ i2c_left b i d ((nq ^^ Suc k) q) = ph_log (snd q) @ i2c_left b i d q"
    using i2c_due_left [OF nk, of b i d "i2c_cs_at v"] IH unfolding q' nq_def by simp
  moreover have "last (map fst (fst (nq ?q))) = ?l \<and> t_done (task_at u ?l) = t_done (task_at v ?l)" if "Suc k < n"
  proof -
    have ne': "map fst (fst (nq ?q)) \<noteq> []" using ne that q' by force
    have c: "fst (i2c_does b i d (i2c_cs_at v) I2c_due ?q) @ map fst (fst (nq ?q)) = map fst (fst ?q)"
      using i2c.conserve [of b i d "i2c_cs_at v" I2c_due ?q] by (simp add: nq_def)
    then have "last (map fst (fst (nq ?q))) = last (map fst (fst ?q))" using ne' by (metis last_appendR)
    then have l: "last (map fst (fst (nq ?q))) = ?l" using IH k(1) by simp
    have "i2c_ok b i d ?s (fst ?q) (snd ?q)" using sv by (simp add: i2c_serving_def)
    then have "distinct (map fst (fst ?q))" by (rule i2c_okD(8))
    then have "set (fst (i2c_does b i d (i2c_cs_at v) I2c_due ?q)) \<inter> set (map fst (fst (nq ?q))) = {}" using c by (metis distinct_append)
    then have "?l \<notin> set (fst (i2c_does b i d (i2c_cs_at v) I2c_due ?q))" using last_in_set [OF ne'] unfolding l by (meson disjoint_iff)
    then show ?thesis using l u(2) IH k(1) by simp
  qed
  ultimately show ?case using e q' by simp
qed simp

text \<open>C25: a blocking read or write of at most 255 bytes, a read not of 0 (which would never return), with the queue q already in service, returns after at most
  two interrupts for each transfer of q and for its own, each the one the peripheral gives next; with the interrupt
  enable as before and the status of the request: 0 where the peripheral reports no acknowledge. By then the driver has written to the registers exactly what was left to do for q, then the
  start of this transfer, then the stop command behind it, or the end-of-transfer command where there is no stop but the peripheral signals ends. As for
  i2c_service, the word reached through the driver's unset pointer must be readable and writable, and the chip belong to this interface.\<close>
theorem i2c_blocking:
  fixes s :: "'a i2c_drv_scheme" and clic :: bool and buf flags :: u32
  assumes "i2c_serving b i d s q" "tb \<noteq> 0" "tb \<notin> set (map fst (fst q))" "n \<le> MAX_SIZE" "rd \<longrightarrow> n \<noteq> 0"
    and "dev_data s device \<noteq> 0" "ic_device_id (i2c_cs_at s (dev_data s device)) = i"
  defines "env \<equiv> irq_env (i2c_step clic b i I2c_due)" and "e \<equiv> (tb, i2c_plan b i d (i2c_cs_at s (dev_data s device)) rd buf n flags)"
  shows "\<exists>u v k. i2c_step clic b i (I2c_submit (dev_data s device) (if rd then RX_CHANNEL else TX_CHANNEL) buf n flags tb) (pi_task_block create tb s) = Some v
     \<and> k \<le> 2 * length (fst q) + 2
     \<and> u = pi_task_destroy tb (pi_task_destroy tb ((env ^^ k) v)) \<and> csrs u = csrs s \<and> t_done (task_at u tb) \<noteq> 0
     \<and> io_log u = io_log s @ i2c_left b i d q @ plan_writes e @ i2c_behind b i d e
     \<and> (if rd then pi_i2c_read env create tb b device buf n flags s else pi_i2c_write env create tb b device buf n flags s)
         = Some (i2c_request_status b device u, u)
     \<and> (if cfg_ack b then True else i2c_request_status b device u = 0)"
proof -
  let ?s = "pi_task_block create tb s"
  let ?e = "I2c_submit (dev_data s device) (if rd then RX_CHANNEL else TX_CHANNEL) buf n flags tb"
  let ?q = "snd (i2c_does b i d (i2c_cs_at s) ?e q)"
  note sv = i2c_serving_block [OF assms(1,3), of create]
  have may: "i2c_may b i ?s ?e q" using assms block_task(4) by (simp add: sv(2))
  obtain v where v: "i2c_step clic b i ?e ?s = Some v" "i2c_serving b i d v ?q" "i2c_same ?s v"
      "\<forall>p. p \<notin> set (fst (i2c_does b i d (i2c_cs_at s) ?e q)) \<longrightarrow> t_done (task_at v p) = t_done (task_at ?s p)"
    using i2c_step_law [OF sv(1) may, of clic] unfolding sv(2) by blast
  have chip: "i2c_cs_at v = i2c_cs_at s" using v(3) sv(2) by (simp add: i2c_same_def)
  have tq: "map fst (fst ?q) = map fst (fst q) @ [tb]" by (simp add: Let_def)
  have lst: "last (map fst (fst ?q)) = tb" "tb \<in> set (map fst (fst ?q))" unfolding tq by simp_all
  have undone: "t_done (task_at v tb) = 0" using v(4) block_task(3) [of create tb s] by (simp add: Let_def)
  define nq where "nq = (\<lambda>q. snd (i2c_does b i d (i2c_cs_at v) I2c_due q))"
  have "i2c_cs_at v = i2c_cs_at v \<and> i2c_serving b i d v ?q" using v(2) by simp
  from i2c.drains [where clic = clic and b = b and i = i and d = d and chip = "i2c_cs_at v", OF this] obtain m where
      m: "m \<le> i2c_todo b ?q" "map fst (fst ((nq ^^ m) ?q)) = []" "\<forall>k < m. map fst (fst ((nq ^^ k) ?q)) \<noteq> []"
        "\<forall>k \<le> m. (i2c_cs_at ((env ^^ k) v) = i2c_cs_at v \<and> i2c_serving b i d ((env ^^ k) v) ((nq ^^ k) ?q)) \<and> i2c_same v ((env ^^ k) v)"
        "\<forall>t \<in> set (map fst (fst ?q)). released ((env ^^ m) v) t"
    unfolding env_def nq_def by auto
  have W: "(k < m \<longrightarrow> last (map fst (fst ((nq ^^ k) ?q))) = last (map fst (fst ?q))
      \<and> t_done (task_at ((env ^^ k) v) (last (map fst (fst ?q)))) = t_done (task_at v (last (map fst (fst ?q)))))
    \<and> ph_log (snd ((nq ^^ k) ?q)) @ i2c_left b i d ((nq ^^ k) ?q) = ph_log (snd ?q) @ i2c_left b i d ?q" if "k \<le> m" for k
    unfolding env_def nq_def
    by (rule i2c_last_waits [where n = m]) (use m(3,4) that in \<open>auto simp: env_def nq_def\<close>)
  have idle: "t_done (task_at ((env ^^ k) v) tb) = 0" if "k < m" for k using W [of k] that undone unfolding lst(1) by simp
  have bound: "m \<le> 2 * length (fst q) + 2" using m(1) arg_cong [OF tq, of length] by (simp add: i2c_todo_def split: if_splits)
  have rel: "released ((env ^^ m) v) tb" using m(5) lst(2) by blast
  have "t_id (task_at ((env ^^ m) v) tb) = PI_TASK_NONE_ID"
    using m(4) v(3) block_task(2) [of create tb s] by (simp add: i2c_same_def)
  from wait_on_released [OF bound rel this] obtain k where k: "k \<le> m"
    "pi_task_wait_on env tb v = Some (pi_task_destroy tb ((env ^^ k) v))" "t_done (task_at ((env ^^ k) v) tb) \<noteq> 0" by blast
  have km: "k = m" using k(1,3) idle by (metis le_neq_implies_less)
  have c: "csrs ((env ^^ m) v) = csrs s"
    using m(4) v(3) block_task(5) [of create tb s] by (simp add: i2c_same_def)
  have "i2c_ok b i d s (fst q) (snd q)" "i2c_ok b i d ((env ^^ m) v) (fst ((nq ^^ m) ?q)) (snd ((nq ^^ m) ?q))"
    using assms(1) m(4) by (auto simp: i2c_serving_def)
  then have l: "io_log s = ph_log (snd q)" "io_log ((env ^^ m) v) = ph_log (snd ((nq ^^ m) ?q))" by (simp_all add: i2c_okD(15))
  have "i2c_left b i d ((nq ^^ m) ?q) = []" using m(2) by (simp add: i2c_left_def)
  then have "ph_log (snd ((nq ^^ m) ?q)) = ph_log (snd ?q) @ i2c_left b i d ?q" using W [of m] by simp
  also have "\<dots> = ph_log (snd q) @ i2c_left b i d q @ plan_writes e @ i2c_behind b i d e"
    using i2c_submit_left [of b i d "i2c_cs_at s" "dev_data s device" "if rd then RX_CHANNEL else TX_CHANNEL" buf n flags tb q]
    by (simp add: e_def split: if_splits)
  finally have log: "io_log ((env ^^ m) v) = io_log s @ i2c_left b i d q @ plan_writes e @ i2c_behind b i d e" using l by simp
  have d: "csrs (pi_task_destroy tb w) = csrs w" "t_done (task_at (pi_task_destroy tb w) tb) = t_done (task_at w tb)"
    "io_log (pi_task_destroy tb w) = io_log w" for w :: "'a i2c_drv_scheme"
    by (simp_all add: pi_task_destroy_def pi_sem_deinit_def Let_def)
  show ?thesis using v(1) k(2,3) km bound c d log block_task(7) [of create tb s]
    by (intro exI [of _ "pi_task_destroy tb (pi_task_destroy tb ((env ^^ m) v))"] exI [of _ v] exI [of _ m])
      (auto simp: pi_i2c_read_def pi_i2c_write_def pi_i2c_read_async_def pi_i2c_write_async_def Let_def i2c_request_status_def)
qed

lemma i2c_blocking_witness:
  "\<exists>u. pi_i2c_write (irq_env (i2c_step False pulp_i2c 0 I2c_due)) (\<lambda>_. 0x1C004000) 0x1C020000 pulp_i2c 5 0x1C010000 2 0 demo_i2c = Some (0, u)
     \<and> io_log u = [(0x1A102190, 0x1C000120), (0x1A102194, 9), (0x1A102198, 0x10), (0x1A102190, 0x1C010000), (0x1A102194, 2), (0x1A102198, 0x10),
          (0x1A102190, 0x1C000131), (0x1A102194, 4), (0x1A102198, 0x10)]"
proof -
  have d: "dev_data demo_i2c 5 = 0x1C000400" "ic_device_id (i2c_cs_at demo_i2c cs) = 0" "io_log demo_i2c = []" for cs by (simp_all add: demo_i2c_def)
  note ev = i2c_plan_def i2c_bytes_def i2c_chan_writes_def i2c_stop_writes_def i2c_cmd_seq_addr_def i2c_behind_def i2c_left_def
    i2c_stop_seq_addr_def I2C_CFG_EN_def PI_I2C_XFER_NO_STOP_def PI_I2C_XFER_NO_START_def UDMA_I2C_def UDMA_I2C_ID_def
    UDMA_PERIPH_BASE_ADDR_def UDMA_PERIPH_SIZE_LOG2_def mmio
  from i2c_blocking [OF demo_i2c_serving, of "0x1C020000" 2 False 5 False "0x1C010000" 0 "\<lambda>_. 0x1C004000"] show ?thesis
    by (auto simp: d MAX_SIZE_def pulp_i2c_def ev Let_def)
qed

lemma i2c_list_end_null: "i2c_list_end wd h = Some r \<Longrightarrow> r = 0"
proof (erule i2c_list_end.raw_induct [where P = "\<lambda>wd h r. r = 0", rotated])
  fix f :: "(u32 \<Rightarrow> u32) \<Rightarrow> u32 \<Rightarrow> u32 option" and wd h r
  assume "\<And>wd h r. f wd h = Some r \<Longrightarrow> r = 0" "(if h \<noteq> 0 then f wd (wd (ic_next_addr h)) else Some h) = Some r"
  then show "r = 0" by (cases "h = 0") auto
qed

definition i2c_untouched :: "'a i2c_drv_scheme \<Rightarrow> 'a i2c_drv_scheme \<Rightarrow> bool" where
  "i2c_untouched s u \<longleftrightarrow> i2c_word u = i2c_word s \<and> null_mapped u = null_mapped s \<and> i2c_data_at u = i2c_data_at s
     \<and> g_i2c_itf_data u = g_i2c_itf_data s"

lemma i2c_untouched_writew [simp]: "i2c_untouched s (writew v a u) = i2c_untouched s u"
  by (simp add: i2c_untouched_def)

lemma i2c_untouched_eu [simp]: "i2c_untouched s (hal_soc_eu_set_fc_mask e u) = i2c_untouched s u"
  by (simp add: hal_soc_eu_set_fc_mask_def soc_eu_fc_write_def Let_def)

lemma i2c_untouched_init [simp]: "i2c_untouched s (udma_init_device i u) = i2c_untouched s u"
  by (simp add: udma_init_device_def udma_ctrl_cg_disable_def hal_or32_def Let_def)

lemma i2c_untouched_set: "pi_fc_event_handler_set e h s = Some u \<Longrightarrow> i2c_untouched t u = i2c_untouched t s"
  by (auto simp: pi_fc_event_handler_set_def i2c_untouched_def split: if_splits)

lemma i2c_attach_untouched: "i2c_attach b i s = Some u \<Longrightarrow> i2c_untouched s u"
  by (auto simp: i2c_attach_def Let_def bind_eq_Some_conv i2c_untouched_set split: if_splits)
    (simp_all add: i2c_untouched_def)

text \<open>A chip can only be opened where the low addresses are mapped, because the new entry is hung on
  the next field of the NULL that ends the list of chips: what an open that succeeds writes is the word at address 8, and the
  list of the interface stays what it was. That word is also pending_repeat of the pending transfer at NULL, so the next
  interrupt of the interface's transmit channel goes into the unfinished path for long transfers.\<close>
lemma i2c_open_through_null:
  assumes "pi_i2c_open b f chunk_drv chunk_cs device conf s = Some (0, u)" "unat (UDMA_I2C_ID b (ucast (ii_itf conf))) < 64"
  shows "null_mapped s \<and> i2c_word u 8 = chunk_cs \<and> dev_data u device = chunk_cs
    \<and> (let d = g_i2c_itf_data u ! unat (ii_itf conf) in
       i_cs_list (i2c_data_at u d) = (if g_i2c_itf_data s ! unat (ii_itf conf) = 0 then 0 else i_cs_list (i2c_data_at s d))
       \<and> (if d \<noteq> 0 \<and> i_pending (i2c_data_at u d) = 0
          then pi_i2c_tx_handler b (SOC_EVENT_UDMA_I2C_TX b (ucast (ii_itf conf))) u = pi_i2c_handle_pending_transfer d u else True))"
proof -
  let ?i = "unat (ii_itf conf)" and ?d0 = "g_i2c_itf_data s ! unat (ii_itf conf)"
  have r: "\<not> nb_i2c b < ?i" "?i < length (g_i2c_itf_data s)" "\<not> (?d0 = 0 \<and> chunk_drv = 0)"
    using assms(1) by (auto simp: pi_i2c_open_def Let_def split: if_splits)
  let ?pre = "if ?d0 = 0
         then map_option (\<lambda>s. (chunk_drv, s)) (i2c_attach b (ii_itf conf)
                ((upd_i2c chunk_drv (i2c_new_itf b chunk_drv conf) s)
                   \<lparr>g_i2c_itf_data := (g_i2c_itf_data (upd_i2c chunk_drv (i2c_new_itf b chunk_drv conf) s))[?i := chunk_drv]\<rparr>))
         else Some (?d0, s)"
  obtain d v where pre: "?pre = Some (d, v)"
    using assms(1) r by (auto simp: pi_i2c_open_def Let_def bind_eq_Some_conv split: if_splits)
  have v: "null_mapped v = null_mapped s" "i2c_word v = i2c_word s" "g_i2c_itf_data v ! ?i = d" "?i < length (g_i2c_itf_data v)" "d \<noteq> 0"
     "i_cs_list (i2c_data_at v d) = (if ?d0 = 0 then 0 else i_cs_list (i2c_data_at s d))"
    using pre r by (auto simp: i2c_untouched_def i2c_new_itf_def dest!: i2c_attach_untouched split: if_splits)
  obtain clk_div where clk: "pi_i2c_clk_div_get f (ii_max_baudrate conf) = Some clk_div" "clk_div \<noteq> 0xFFFFFFFF" and cs: "chunk_cs \<noteq> 0"
    using assms(1) r pre by (auto simp: pi_i2c_open_def Let_def bind_eq_Some_conv upd_ics_def split: if_splits)
  let ?w = "i2c_store (ic_next_addr chunk_cs) 0 (upd_ics chunk_cs (\<lambda>x. x\<lparr>ic_clk_div := ucast clk_div\<rparr>)
     (upd_ics chunk_cs (\<lambda>x. x\<lparr>ic_device_id := ii_itf conf, ic_cs := ucast (ii_cs conf), ic_max_baudrate := ii_max_baudrate conf\<rparr>) v))"
  obtain z where add: "pi_i2c_cs_data_add d chunk_cs ?w = Some z"
     and u: "u = (let s = upd_i2c d (\<lambda>x. x\<lparr>i_nb_open := i_nb_open x + 1\<rparr>) z in s\<lparr>dev_data := (dev_data s)(device := chunk_cs)\<rparr>)"
    using assms(1) r pre clk cs by (auto simp: pi_i2c_open_def Let_def bind_eq_Some_conv upd_ics_def split: if_splits)
  have z: "null_mapped s" "z = i2c_store 8 chunk_cs ?w"
    using add v(1) by (auto simp: pi_i2c_cs_data_add_def bind_eq_Some_conv usable_def upd_ics_def ic_next_addr_def
        dest!: i2c_list_end_null split: if_splits)
  have f: "i2c_word u 8 = chunk_cs" "dev_data u device = chunk_cs" "null_mapped u" "g_i2c_itf_data u = g_i2c_itf_data v"
     "i_cs_list (i2c_data_at u d) = i_cs_list (i2c_data_at v d)" "i_pending (i2c_data_at u d) = i_pending (i2c_data_at v d)"
    using z v(1) by (simp_all add: u Let_def upd_ics_def)
  have it: "i2c_itf (ucast (ii_itf conf)) u = Some d" using v f(4) by (simp add: i2c_itf_def unat_byte)
  have "pi_i2c_tx_handler b (SOC_EVENT_UDMA_I2C_TX b (ucast (ii_itf conf))) u = pi_i2c_handle_pending_transfer d u" if "i_pending (i2c_data_at u d) = 0"
    using that f(1,3) cs it i2c_decode(1) [OF assms(2)]
    by (simp add: pi_i2c_tx_handler_def usable_def pending_repeat_def)
  then show ?thesis using z(1) f(1,2,4,5) v(3,6) by (simp add: Let_def)
qed

lemma i2c_open_through_null_witness:
  "\<exists>u. pi_i2c_open pulp_i2c 50000000 0 0x1C000500 0x1C000600
        \<lparr>ii_device = 5, ii_itf = 0, ii_cs = 0x92, ii_is_10_bits = 0, ii_wait_cycles = 1, ii_max_baudrate = 200000, ii_ts_ch = 0, ii_ts_evt_id = 0\<rparr>
        demo_i2c = Some (0, u) \<and> i2c_word u 8 = 0x1C000500"
proof -
  let ?c = "\<lparr>ii_device = 5, ii_itf = 0, ii_cs = 0x92, ii_is_10_bits = 0, ii_wait_cycles = 1, ii_max_baudrate = 200000, ii_ts_ch = 0, ii_ts_evt_id = 0\<rparr>"
  have l: "i2c_list_end wd 0 = Some 0" for wd by (simp add: i2c_list_end.simps)
  have c: "pi_i2c_clk_div_get 50000000 200000 = Some 62" by (simp add: pi_i2c_clk_div_get_def Let_def word_le_nat_alt)
  obtain u where u: "pi_i2c_open pulp_i2c 50000000 0 0x1C000500 0x1C000600 ?c demo_i2c = Some (0, u)"
    by (simp add: pi_i2c_open_def demo_i2c_def pulp_i2c_def Let_def pi_i2c_cs_data_add_def usable_def upd_ics_def l c)
  then show ?thesis using i2c_open_through_null [OF u] by (simp add: UDMA_I2C_ID_def pulp_i2c_def)
qed

end
