(* ===== verification/ClusterHal.thy ===== *)
theory ClusterHal
  imports Events
begin

text \<open>
  The registers of the cluster: control unit, instruction cache and event unit
  (drivers/include/cluster/cluster_ctrl_unit.h, cluster_icache_ctrl.h, cluster_event_unit.h,
  event_unit.h), at the addresses of target/pulp. A read that puts the core to sleep until the event
  unit answers is a step of the parameter env, what everything else does meanwhile, followed
  by the read.
\<close>

subsection \<open>Addresses (target/pulp/include/memory_map.h, properties.h)\<close>

definition ARCHI_CLUSTER_ADDR :: u32 where "ARCHI_CLUSTER_ADDR = 0x00000000"
definition ARCHI_CLUSTER_SIZE :: u32 where "ARCHI_CLUSTER_SIZE = 0x00400000"
definition ARCHI_CLUSTER_PERIPHERALS_OFFSET :: u32 where "ARCHI_CLUSTER_PERIPHERALS_OFFSET = 0x00200000"
definition ARCHI_CLUSTER_CTRL_OFFSET :: u32 where "ARCHI_CLUSTER_CTRL_OFFSET = 0x00000000"
definition ARCHI_EU_OFFSET :: u32 where "ARCHI_EU_OFFSET = 0x00000800"
definition ARCHI_ICACHE_CTRL_OFFSET :: u32 where "ARCHI_ICACHE_CTRL_OFFSET = 0x00001400"
definition ARCHI_DEMUX_PERIPHERALS_OFFSET :: u32 where "ARCHI_DEMUX_PERIPHERALS_OFFSET = 0x204000"
definition ARCHI_CLUSTER_GLOBAL_ADDR :: "u32 \<Rightarrow> u32" where "ARCHI_CLUSTER_GLOBAL_ADDR cid = 0x10000000 + cid * ARCHI_CLUSTER_SIZE"
definition ARCHI_CLUSTER_PERIPHERALS_GLOBAL_ADDR :: "u32 \<Rightarrow> u32" where
  "ARCHI_CLUSTER_PERIPHERALS_GLOBAL_ADDR cid = ARCHI_CLUSTER_GLOBAL_ADDR cid + ARCHI_CLUSTER_PERIPHERALS_OFFSET"
definition ARCHI_CLUSTER_PERIPHERALS_ADDR :: u32 where "ARCHI_CLUSTER_PERIPHERALS_ADDR = ARCHI_CLUSTER_ADDR + ARCHI_CLUSTER_PERIPHERALS_OFFSET"
definition CL_CTRL_GLOB_ADDR :: u32 where "CL_CTRL_GLOB_ADDR = ARCHI_CLUSTER_PERIPHERALS_GLOBAL_ADDR 0 + ARCHI_CLUSTER_CTRL_OFFSET"
definition CL_GLOB_ICACHE_ADDR :: u32 where "CL_GLOB_ICACHE_ADDR = ARCHI_CLUSTER_PERIPHERALS_GLOBAL_ADDR 0 + ARCHI_ICACHE_CTRL_OFFSET"
definition CL_EU_BASE :: u32 where "CL_EU_BASE = ARCHI_CLUSTER_PERIPHERALS_GLOBAL_ADDR 0 + ARCHI_EU_OFFSET"
definition CL_EU_DEMUX_BASE :: u32 where "CL_EU_DEMUX_BASE = ARCHI_CLUSTER_ADDR + ARCHI_DEMUX_PERIPHERALS_OFFSET"
definition ARCHI_CLUSTER_NB_PE :: nat where "ARCHI_CLUSTER_NB_PE = 8"
definition ARCHI_CLUSTER_PE_MASK :: u32 where "ARCHI_CLUSTER_PE_MASK = push_bit ARCHI_CLUSTER_NB_PE 1 - 1"
definition ARCHI_CLUSTER_MASTER_CORE :: nat where "ARCHI_CLUSTER_MASTER_CORE = 0"
definition ARCHI_CLUSTER_SYNC_BARR_ID :: u32 where "ARCHI_CLUSTER_SYNC_BARR_ID = 1"
definition ARCHI_CLUSTER_LEGCY_BARR_ID :: u32 where "ARCHI_CLUSTER_LEGCY_BARR_ID = 0"

subsection \<open>Control unit and instruction cache\<close>

definition CL_CTRL_UNIT_FETCH_EN :: u32 where "CL_CTRL_UNIT_FETCH_EN = 0x08"
definition CL_CTRL_UNIT_CLOCK_GATE :: u32 where "CL_CTRL_UNIT_CLOCK_GATE = 0x20"
definition CL_CTRL_UNIT_BOOT_ADDR_0 :: u32 where "CL_CTRL_UNIT_BOOT_ADDR_0 = 0x40"
definition CL_ICACHE_CTRL_ENABLE :: u32 where "CL_ICACHE_CTRL_ENABLE = 0x00"

definition hal_cl_ctrl_fetch_enable :: "u32 \<Rightarrow> u32 \<Rightarrow> 'a machine_scheme \<Rightarrow> 'a machine_scheme" where
  "hal_cl_ctrl_fetch_enable device_id nb_core s = writew ((push_bit (unat nb_core) 1 - 1) AND ARCHI_CLUSTER_PE_MASK) (CL_CTRL_GLOB_ADDR + CL_CTRL_UNIT_FETCH_EN) s"

definition hal_cl_ctrl_fetch_mask_enable :: "u32 \<Rightarrow> u32 \<Rightarrow> 'a machine_scheme \<Rightarrow> 'a machine_scheme" where
  "hal_cl_ctrl_fetch_mask_enable device_id core_mask s = writew core_mask (CL_CTRL_GLOB_ADDR + CL_CTRL_UNIT_FETCH_EN) s"

definition hal_cl_ctrl_clock_gate_enable :: "u32 \<Rightarrow> 'a machine_scheme \<Rightarrow> 'a machine_scheme" where
  "hal_cl_ctrl_clock_gate_enable device_id s = writew 1 (CL_CTRL_GLOB_ADDR + CL_CTRL_UNIT_CLOCK_GATE) s"

definition hal_cl_ctrl_clock_gate_disable :: "u32 \<Rightarrow> 'a machine_scheme \<Rightarrow> 'a machine_scheme" where
  "hal_cl_ctrl_clock_gate_disable device_id s = writew 0 (CL_CTRL_GLOB_ADDR + CL_CTRL_UNIT_CLOCK_GATE) s"

definition hal_cl_ctrl_boot_addr_set :: "u32 \<Rightarrow> u8 \<Rightarrow> u32 \<Rightarrow> 'a machine_scheme \<Rightarrow> 'a machine_scheme" where
  "hal_cl_ctrl_boot_addr_set device_id core_id boot_addr s = writew boot_addr (CL_CTRL_GLOB_ADDR + (CL_CTRL_UNIT_BOOT_ADDR_0 + push_bit 2 (ucast core_id))) s"

definition hal_cl_icache_enable :: "u32 \<Rightarrow> 'a machine_scheme \<Rightarrow> 'a machine_scheme" where
  "hal_cl_icache_enable device_id s = writew 0xFFFFFFFF (CL_GLOB_ICACHE_ADDR + CL_ICACHE_CTRL_ENABLE) s"

definition hal_cl_icache_disable :: "u32 \<Rightarrow> 'a machine_scheme \<Rightarrow> 'a machine_scheme" where
  "hal_cl_icache_disable device_id s = writew 0 (CL_GLOB_ICACHE_ADDR + CL_ICACHE_CTRL_ENABLE) s"

subsection \<open>Event unit, as the cluster cores reach it (cluster_event_unit.h)\<close>

definition CLUSTER_DEMUX_EU_CORE_OFFSET :: u32 where "CLUSTER_DEMUX_EU_CORE_OFFSET = 0x00"
definition CLUSTER_DEMUX_EU_DISPATCH_OFFSET :: u32 where "CLUSTER_DEMUX_EU_DISPATCH_OFFSET = 0x80"
definition CLUSTER_DEMUX_EU_MUTEX_OFFSET :: u32 where "CLUSTER_DEMUX_EU_MUTEX_OFFSET = 0xC0"
definition CLUSTER_DEMUX_EU_BARRIER_OFFSET :: u32 where "CLUSTER_DEMUX_EU_BARRIER_OFFSET = 0x200"
definition CL_GLOB_EU_SW_EVENT_OFFSET :: u32 where "CL_GLOB_EU_SW_EVENT_OFFSET = 0xE00"
definition CL_DEMUX_EU_CORE_EVENT_MASK_AND :: u32 where "CL_DEMUX_EU_CORE_EVENT_MASK_AND = 0x04"
definition CL_DEMUX_EU_CORE_EVENT_MASK_OR :: u32 where "CL_DEMUX_EU_CORE_EVENT_MASK_OR = 0x08"
definition CL_DEMUX_EU_CORE_IRQ_MASK_AND :: u32 where "CL_DEMUX_EU_CORE_IRQ_MASK_AND = 0x10"
definition CL_DEMUX_EU_CORE_IRQ_MASK_OR :: u32 where "CL_DEMUX_EU_CORE_IRQ_MASK_OR = 0x14"
definition CL_DEMUX_EU_CORE_BUFFER :: u32 where "CL_DEMUX_EU_CORE_BUFFER = 0x1C"
definition CL_DEMUX_EU_CORE_BUFFER_MASKED :: u32 where "CL_DEMUX_EU_CORE_BUFFER_MASKED = 0x20"
definition CL_DEMUX_EU_CORE_BUFFER_IRQ_MASKED :: u32 where "CL_DEMUX_EU_CORE_BUFFER_IRQ_MASKED = 0x24"
definition CL_DEMUX_EU_CORE_BUFFER_CLEAR :: u32 where "CL_DEMUX_EU_CORE_BUFFER_CLEAR = 0x28"
definition CL_DEMUX_EU_CORE_EVENT_WAIT :: u32 where "CL_DEMUX_EU_CORE_EVENT_WAIT = 0x38"
definition CL_DEMUX_EU_CORE_EVENT_WAIT_CLEAR :: u32 where "CL_DEMUX_EU_CORE_EVENT_WAIT_CLEAR = 0x3C"
definition CL_DEMUX_EU_DISPATCH_FIFO_ACCESS :: u32 where "CL_DEMUX_EU_DISPATCH_FIFO_ACCESS = 0x00"
definition CL_DEMUX_EU_DISPATCH_TEAM_CONFIG :: u32 where "CL_DEMUX_EU_DISPATCH_TEAM_CONFIG = 0x04"
definition CL_DEMUX_EU_MUTEX_MUTEX :: u32 where "CL_DEMUX_EU_MUTEX_MUTEX = 0x00"
definition CL_DEMUX_EU_SW_EVT_TRIGGER :: u32 where "CL_DEMUX_EU_SW_EVT_TRIGGER = 0x00"
definition CL_DEMUX_EU_HW_BARRIER_TRIGGER_MASK :: u32 where "CL_DEMUX_EU_HW_BARRIER_TRIGGER_MASK = 0x00"
definition CL_DEMUX_EU_HW_BARRIER_STATUS :: u32 where "CL_DEMUX_EU_HW_BARRIER_STATUS = 0x04"
definition CL_DEMUX_EU_HW_BARRIER_TARGET_MASK :: u32 where "CL_DEMUX_EU_HW_BARRIER_TARGET_MASK = 0x0C"
definition CL_DEMUX_EU_HW_BARRIER_TRIGGER :: u32 where "CL_DEMUX_EU_HW_BARRIER_TRIGGER = 0x10"
definition CL_DEMUX_EU_HW_BARRIER_TRIGGER_SELF :: u32 where "CL_DEMUX_EU_HW_BARRIER_TRIGGER_SELF = 0x14"
definition CL_DEMUX_EU_HW_BARRIER_TRIGGER_WAIT :: u32 where "CL_DEMUX_EU_HW_BARRIER_TRIGGER_WAIT = 0x18"
definition CL_DEMUX_EU_HW_BARRIER_TRIGGER_WAIT_CLEAR :: u32 where "CL_DEMUX_EU_HW_BARRIER_TRIGGER_WAIT_CLEAR = 0x1C"
definition CL_DEMUX_EU_HW_BARRIER_SIZE :: u32 where "CL_DEMUX_EU_HW_BARRIER_SIZE = 0x20"
definition cl_demux_eu_core :: u32 where "cl_demux_eu_core = CL_EU_DEMUX_BASE"
definition cl_demux_eu_dispatch :: u32 where "cl_demux_eu_dispatch = CL_EU_DEMUX_BASE + CLUSTER_DEMUX_EU_DISPATCH_OFFSET"
definition cl_demux_eu_mutex :: "u32 \<Rightarrow> u32" where "cl_demux_eu_mutex mutex_id = CL_EU_DEMUX_BASE + CLUSTER_DEMUX_EU_MUTEX_OFFSET"
definition cl_demux_eu_barrier :: "u32 \<Rightarrow> u32" where
  "cl_demux_eu_barrier n = CL_EU_DEMUX_BASE + CLUSTER_DEMUX_EU_BARRIER_OFFSET + n * CL_DEMUX_EU_HW_BARRIER_SIZE"
definition CL_GLOB_EU_SW_EVENT_ADDR :: "u32 \<Rightarrow> u32" where
  "CL_GLOB_EU_SW_EVENT_ADDR cid = ARCHI_CLUSTER_PERIPHERALS_GLOBAL_ADDR cid + CL_GLOB_EU_SW_EVENT_OFFSET"

definition hal_eu_read32 :: "('a machine_scheme \<Rightarrow> 'a machine_scheme) \<Rightarrow> u32 \<Rightarrow> u32 \<Rightarrow> 'a machine_scheme \<Rightarrow> u32 \<times> 'a machine_scheme" where
  "hal_eu_read32 env base offset s = (let s = env s in (readw (base + offset) s, s))"

definition hal_cl_eu_evt_mask_set :: "u32 \<Rightarrow> 'a machine_scheme \<Rightarrow> 'a machine_scheme" where
  "hal_cl_eu_evt_mask_set msk s = writew msk (cl_demux_eu_core + CL_DEMUX_EU_CORE_EVENT_MASK_OR) s"

definition hal_cl_eu_evt_mask_clear :: "u32 \<Rightarrow> 'a machine_scheme \<Rightarrow> 'a machine_scheme" where
  "hal_cl_eu_evt_mask_clear msk s = writew msk (cl_demux_eu_core + CL_DEMUX_EU_CORE_EVENT_MASK_AND) s"

definition hal_cl_eu_irq_mask_set :: "u32 \<Rightarrow> 'a machine_scheme \<Rightarrow> 'a machine_scheme" where
  "hal_cl_eu_irq_mask_set msk s = writew msk (cl_demux_eu_core + CL_DEMUX_EU_CORE_IRQ_MASK_OR) s"

definition hal_cl_eu_irq_mask_clear :: "u32 \<Rightarrow> 'a machine_scheme \<Rightarrow> 'a machine_scheme" where
  "hal_cl_eu_irq_mask_clear msk s = writew msk (cl_demux_eu_core + CL_DEMUX_EU_CORE_IRQ_MASK_AND) s"

definition hal_cl_eu_evt_irq_status :: "('a machine_scheme \<Rightarrow> 'a machine_scheme) \<Rightarrow> 'a machine_scheme \<Rightarrow> u32 \<times> 'a machine_scheme" where
  "hal_cl_eu_evt_irq_status env s = hal_eu_read32 env cl_demux_eu_core CL_DEMUX_EU_CORE_BUFFER s"

definition hal_cl_eu_evt_status :: "('a machine_scheme \<Rightarrow> 'a machine_scheme) \<Rightarrow> 'a machine_scheme \<Rightarrow> u32 \<times> 'a machine_scheme" where
  "hal_cl_eu_evt_status env s = hal_eu_read32 env cl_demux_eu_core CL_DEMUX_EU_CORE_BUFFER_MASKED s"

definition hal_cl_eu_irq_status :: "('a machine_scheme \<Rightarrow> 'a machine_scheme) \<Rightarrow> 'a machine_scheme \<Rightarrow> u32 \<times> 'a machine_scheme" where
  "hal_cl_eu_irq_status env s = hal_eu_read32 env cl_demux_eu_core CL_DEMUX_EU_CORE_BUFFER_IRQ_MASKED s"

definition hal_cl_eu_evt_clear :: "u32 \<Rightarrow> 'a machine_scheme \<Rightarrow> 'a machine_scheme" where
  "hal_cl_eu_evt_clear msk s = writew msk (cl_demux_eu_core + CL_DEMUX_EU_CORE_BUFFER_CLEAR) s"

definition hal_cl_eu_evt_wait :: "('a machine_scheme \<Rightarrow> 'a machine_scheme) \<Rightarrow> 'a machine_scheme \<Rightarrow> u32 \<times> 'a machine_scheme" where
  "hal_cl_eu_evt_wait env s = hal_eu_read32 env cl_demux_eu_core CL_DEMUX_EU_CORE_EVENT_WAIT s"

definition hal_cl_eu_evt_wait_and_clear :: "('a machine_scheme \<Rightarrow> 'a machine_scheme) \<Rightarrow> 'a machine_scheme \<Rightarrow> u32 \<times> 'a machine_scheme" where
  "hal_cl_eu_evt_wait_and_clear env s = hal_eu_read32 env cl_demux_eu_core CL_DEMUX_EU_CORE_EVENT_WAIT_CLEAR s"

partial_function (option) cl_eu_wait_for ::
  "('a machine_scheme \<Rightarrow> 'a machine_scheme) \<Rightarrow> u32 \<Rightarrow> 'a machine_scheme \<Rightarrow> 'a machine_scheme option" where
  "cl_eu_wait_for env event_mask s =
     (let (result, s) = hal_cl_eu_evt_wait env s in
      if result AND event_mask = 0 then cl_eu_wait_for env event_mask s else Some s)"

definition hal_cl_eu_evt_mask_wait :: "('a machine_scheme \<Rightarrow> 'a machine_scheme) \<Rightarrow> u32 \<Rightarrow> 'a machine_scheme \<Rightarrow> 'a machine_scheme option" where
  "hal_cl_eu_evt_mask_wait env event_mask s = map_option (hal_cl_eu_evt_mask_clear event_mask) (cl_eu_wait_for env event_mask (hal_cl_eu_evt_mask_set event_mask s))"

definition hal_cl_eu_evt_mask_wait_clear :: "('a machine_scheme \<Rightarrow> 'a machine_scheme) \<Rightarrow> u32 \<Rightarrow> 'a machine_scheme \<Rightarrow> 'a machine_scheme option" where
  "hal_cl_eu_evt_mask_wait_clear env event_mask s = map_option (\<lambda>s. hal_cl_eu_evt_mask_clear event_mask (hal_cl_eu_evt_clear event_mask s))
       (cl_eu_wait_for env event_mask (hal_cl_eu_evt_mask_set event_mask s))"

definition hal_cl_eu_dispatch_fifo_push :: "u32 \<Rightarrow> 'a machine_scheme \<Rightarrow> 'a machine_scheme" where
  "hal_cl_eu_dispatch_fifo_push msg s = writew msg (cl_demux_eu_dispatch + CL_DEMUX_EU_DISPATCH_FIFO_ACCESS) s"

definition hal_cl_eu_dispatch_fifo_pop :: "'a machine_scheme \<Rightarrow> u32" where
  "hal_cl_eu_dispatch_fifo_pop s = readw (cl_demux_eu_dispatch + CL_DEMUX_EU_DISPATCH_FIFO_ACCESS) s"

definition hal_cl_eu_dispatch_team_config :: "u32 \<Rightarrow> 'a machine_scheme \<Rightarrow> 'a machine_scheme" where
  "hal_cl_eu_dispatch_team_config team_mask s = writew team_mask (cl_demux_eu_dispatch + CL_DEMUX_EU_DISPATCH_TEAM_CONFIG) s"

definition hal_cl_eu_mutex_init :: "u32 \<Rightarrow> 'a machine_scheme \<Rightarrow> 'a machine_scheme" where
  "hal_cl_eu_mutex_init mutex_id s = writew 0 (cl_demux_eu_mutex mutex_id + CL_DEMUX_EU_MUTEX_MUTEX) s"

definition hal_cl_eu_mutex_lock :: "('a machine_scheme \<Rightarrow> 'a machine_scheme) \<Rightarrow> u32 \<Rightarrow> 'a machine_scheme \<Rightarrow> 'a machine_scheme" where
  "hal_cl_eu_mutex_lock env mutex_id s = snd (hal_eu_read32 env (cl_demux_eu_mutex mutex_id) CL_DEMUX_EU_MUTEX_MUTEX s)"

definition hal_cl_eu_mutex_unlock :: "u32 \<Rightarrow> 'a machine_scheme \<Rightarrow> 'a machine_scheme" where
  "hal_cl_eu_mutex_unlock mutex_id s = writew 0 (cl_demux_eu_mutex mutex_id + CL_DEMUX_EU_MUTEX_MUTEX) s"

definition hal_cl_eu_glob_sw_trig :: "u32 \<Rightarrow> u32 \<Rightarrow> u32 \<Rightarrow> 'a machine_scheme \<Rightarrow> 'a machine_scheme" where
  "hal_cl_eu_glob_sw_trig cluster_id sw_event core_mask s = writew core_mask (CL_GLOB_EU_SW_EVENT_ADDR cluster_id + (CL_DEMUX_EU_SW_EVT_TRIGGER + push_bit 2 sw_event)) s"

definition hal_cl_eu_barrier_setup :: "u32 \<Rightarrow> u32 \<Rightarrow> 'a machine_scheme \<Rightarrow> 'a machine_scheme" where
  "hal_cl_eu_barrier_setup barrier_id core_mask s = (let base = cl_demux_eu_barrier barrier_id;
          s = writew core_mask (base + CL_DEMUX_EU_HW_BARRIER_TRIGGER_MASK) s in
      writew core_mask (base + CL_DEMUX_EU_HW_BARRIER_TARGET_MASK) s)"

definition hal_cl_eu_barrier_team_get :: "u32 \<Rightarrow> 'a machine_scheme \<Rightarrow> u32" where
  "hal_cl_eu_barrier_team_get barrier_id s = readw (cl_demux_eu_barrier barrier_id + CL_DEMUX_EU_HW_BARRIER_TRIGGER_MASK) s"

definition hal_cl_eu_barrier_status :: "('a machine_scheme \<Rightarrow> 'a machine_scheme) \<Rightarrow> u32 \<Rightarrow> 'a machine_scheme \<Rightarrow> u32 \<times> 'a machine_scheme" where
  "hal_cl_eu_barrier_status env barrier_id s = hal_eu_read32 env (cl_demux_eu_barrier barrier_id) CL_DEMUX_EU_HW_BARRIER_STATUS s"

definition hal_cl_eu_barrier_trigger :: "u32 \<Rightarrow> u32 \<Rightarrow> 'a machine_scheme \<Rightarrow> 'a machine_scheme" where
  "hal_cl_eu_barrier_trigger barrier_id core_mask s = writew core_mask (cl_demux_eu_barrier barrier_id + CL_DEMUX_EU_HW_BARRIER_TRIGGER) s"

definition hal_cl_eu_barrier_trigger_self :: "('a machine_scheme \<Rightarrow> 'a machine_scheme) \<Rightarrow> u32 \<Rightarrow> 'a machine_scheme \<Rightarrow> u32 \<times> 'a machine_scheme" where
  "hal_cl_eu_barrier_trigger_self env barrier_id s = hal_eu_read32 env (cl_demux_eu_barrier barrier_id) CL_DEMUX_EU_HW_BARRIER_TRIGGER_SELF s"

definition hal_cl_eu_barrier_trigger_wait :: "('a machine_scheme \<Rightarrow> 'a machine_scheme) \<Rightarrow> u32 \<Rightarrow> 'a machine_scheme \<Rightarrow> u32 \<times> 'a machine_scheme" where
  "hal_cl_eu_barrier_trigger_wait env barrier_id s = hal_eu_read32 env (cl_demux_eu_barrier barrier_id) CL_DEMUX_EU_HW_BARRIER_TRIGGER_WAIT s"

definition hal_cl_eu_barrier_trigger_wait_clear :: "('a machine_scheme \<Rightarrow> 'a machine_scheme) \<Rightarrow> u32 \<Rightarrow> 'a machine_scheme \<Rightarrow> u32 \<times> 'a machine_scheme" where
  "hal_cl_eu_barrier_trigger_wait_clear env barrier_id s = hal_eu_read32 env (cl_demux_eu_barrier barrier_id) CL_DEMUX_EU_HW_BARRIER_TRIGGER_WAIT_CLEAR s"

subsection \<open>Event unit, the older interface (event_unit.h)\<close>

definition CL_EU_SW_EVENTS_BASE :: u32 where "CL_EU_SW_EVENTS_BASE = CL_EU_BASE + 0x0600"
definition CL_EU_SOC_EVENTS_BASE :: u32 where "CL_EU_SOC_EVENTS_BASE = CL_EU_BASE + 0x0700"
definition CL_EU_LOOP_DEMUX_BASE :: u32 where "CL_EU_LOOP_DEMUX_BASE = CL_EU_DEMUX_BASE + 0x0060"
definition CL_EU_DISPATCH_DEMUX_BASE :: u32 where "CL_EU_DISPATCH_DEMUX_BASE = CL_EU_DEMUX_BASE + 0x0080"
definition CL_EU_MUTEX_DEMUX_BASE :: u32 where "CL_EU_MUTEX_DEMUX_BASE = CL_EU_DEMUX_BASE + 0x00C0"
definition CL_EU_BARRIER_DEMUX_BASE :: u32 where "CL_EU_BARRIER_DEMUX_BASE = CL_EU_DEMUX_BASE + 0x0200"
definition EU_MASK :: u32 where "EU_MASK = 0x00"
definition EU_MASK_AND :: u32 where "EU_MASK_AND = 0x04"
definition EU_MASK_OR :: u32 where "EU_MASK_OR = 0x08"
definition EU_MASK_IRQ :: u32 where "EU_MASK_IRQ = 0x0C"
definition EU_MASK_IRQ_AND :: u32 where "EU_MASK_IRQ_AND = 0x10"
definition EU_MASK_IRQ_OR :: u32 where "EU_MASK_IRQ_OR = 0x14"
definition EU_BUFFER :: u32 where "EU_BUFFER = 0x1C"
definition EU_BUFFER_MASKED :: u32 where "EU_BUFFER_MASKED = 0x20"
definition EU_BUFFER_IRQ_MASKED :: u32 where "EU_BUFFER_IRQ_MASKED = 0x24"
definition EU_BUFFER_CLEAR :: u32 where "EU_BUFFER_CLEAR = 0x28"
definition EU_EVENT_WAIT :: u32 where "EU_EVENT_WAIT = 0x38"
definition EU_EVENT_WAIT_CLEAR :: u32 where "EU_EVENT_WAIT_CLEAR = 0x3C"
definition EU_MASK_SEC_IRQ :: u32 where "EU_MASK_SEC_IRQ = 0x40"
definition LOOP_STATE :: u32 where "LOOP_STATE = 0x00"
definition LOOP_START :: u32 where "LOOP_START = 0x04"
definition LOOP_END :: u32 where "LOOP_END = 0x08"
definition LOOP_INCR :: u32 where "LOOP_INCR = 0x0C"
definition LOOP_CHUNK :: u32 where "LOOP_CHUNK = 0x10"
definition LOOP_EPOCH :: u32 where "LOOP_EPOCH = 0x14"
definition LOOP_SINGLE :: u32 where "LOOP_SINGLE = 0x18"
definition BARRIER_TRIGGER_MASK :: u32 where "BARRIER_TRIGGER_MASK = 0x00"
definition BARRIER_TARGET_MASK :: u32 where "BARRIER_TARGET_MASK = 0x0C"
definition BARRIER_TRIGGER :: u32 where "BARRIER_TRIGGER = 0x10"
definition BARRIER_TRIGGER_WAIT_CLEAR :: u32 where "BARRIER_TRIGGER_WAIT_CLEAR = 0x1C"
definition DISPATCH_FIFO_ACCESS :: u32 where "DISPATCH_FIFO_ACCESS = 0x00"
definition DISPATCH_TEAM_CONFIG :: u32 where "DISPATCH_TEAM_CONFIG = 0x04"
definition SOC_CURRENT_EVENT :: u32 where "SOC_CURRENT_EVENT = 0x00"
definition EU_CURRENT_VALID_BIT_MASK :: u32 where "EU_CURRENT_VALID_BIT_MASK = 0x80000000"
definition EU_CURRENT_SOC_EVENT_MASK :: u32 where "EU_CURRENT_SOC_EVENT_MASK = 0xFF"

definition hal_evt_read32 :: "('a machine_scheme \<Rightarrow> 'a machine_scheme) \<Rightarrow> u32 \<Rightarrow> u32 \<Rightarrow> 'a machine_scheme \<Rightarrow> u32 \<times> 'a machine_scheme" where
  "hal_evt_read32 env base offset s = (let s = env s in (readw base s, s))"

definition hal_eu_evt_status :: "'a machine_scheme \<Rightarrow> u32" where
  "hal_eu_evt_status s = readw (CL_EU_DEMUX_BASE + EU_BUFFER) s"

definition hal_eu_evt_status_masked :: "'a machine_scheme \<Rightarrow> u32" where
  "hal_eu_evt_status_masked s = readw (CL_EU_DEMUX_BASE + EU_BUFFER_MASKED) s"

definition hal_eu_evt_clr :: "u32 \<Rightarrow> 'a machine_scheme \<Rightarrow> 'a machine_scheme" where
  "hal_eu_evt_clr evt_mask s = writew evt_mask (CL_EU_DEMUX_BASE + EU_BUFFER_CLEAR) s"

definition hal_eu_evt_mask :: "u32 \<Rightarrow> 'a machine_scheme \<Rightarrow> 'a machine_scheme" where
  "hal_eu_evt_mask evt_mask s = writew evt_mask (CL_EU_DEMUX_BASE + EU_MASK) s"

definition hal_eu_evt_mask_set :: "u32 \<Rightarrow> 'a machine_scheme \<Rightarrow> 'a machine_scheme" where
  "hal_eu_evt_mask_set evt_mask s = writew evt_mask (CL_EU_DEMUX_BASE + EU_MASK_OR) s"

definition hal_eu_evt_mask_clr :: "u32 \<Rightarrow> 'a machine_scheme \<Rightarrow> 'a machine_scheme" where
  "hal_eu_evt_mask_clr evt_mask s = writew evt_mask (CL_EU_DEMUX_BASE + EU_MASK_AND) s"

definition hal_eu_evt_wait :: "('a machine_scheme \<Rightarrow> 'a machine_scheme) \<Rightarrow> 'a machine_scheme \<Rightarrow> u32 \<times> 'a machine_scheme" where
  "hal_eu_evt_wait env s = hal_evt_read32 env (CL_EU_DEMUX_BASE + EU_EVENT_WAIT) 0 s"

definition hal_eu_evt_wait_and_clr :: "('a machine_scheme \<Rightarrow> 'a machine_scheme) \<Rightarrow> 'a machine_scheme \<Rightarrow> u32 \<times> 'a machine_scheme" where
  "hal_eu_evt_wait_and_clr env s = hal_evt_read32 env (CL_EU_DEMUX_BASE + EU_EVENT_WAIT_CLEAR) 0 s"

definition hal_eu_evt_mask_wait_and_clr :: "('a machine_scheme \<Rightarrow> 'a machine_scheme) \<Rightarrow> u32 \<Rightarrow> 'a machine_scheme \<Rightarrow> u32 \<times> 'a machine_scheme" where
  "hal_eu_evt_mask_wait_and_clr env evt_mask s = (let s = hal_eu_evt_mask_set evt_mask s; (result, s) = hal_eu_evt_wait_and_clr env s in
      (result, hal_eu_evt_mask_clr evt_mask s))"

definition hal_eu_evt_mask_wait :: "('a machine_scheme \<Rightarrow> 'a machine_scheme) \<Rightarrow> u32 \<Rightarrow> 'a machine_scheme \<Rightarrow> u32 \<times> 'a machine_scheme" where
  "hal_eu_evt_mask_wait env evt_mask s = (let s = hal_eu_evt_mask_set evt_mask s; (result, s) = hal_eu_evt_wait env s in
      (result, hal_eu_evt_mask_clr evt_mask s))"

partial_function (option) eu_wait_nonzero ::
  "('a machine_scheme \<Rightarrow> 'a machine_scheme) \<Rightarrow> 'a machine_scheme \<Rightarrow> (u32 \<times> 'a machine_scheme) option" where
  "eu_wait_nonzero env s =
     (let (result, s) = hal_eu_evt_wait_and_clr env s in
      if result = 0 then eu_wait_nonzero env s else Some (result, s))"

definition hal_eu_fc_evt_mask_wait_and_clr :: "('a machine_scheme \<Rightarrow> 'a machine_scheme) \<Rightarrow> u32 \<Rightarrow> 'a machine_scheme \<Rightarrow> (u32 \<times> 'a machine_scheme) option" where
  "hal_eu_fc_evt_mask_wait_and_clr env evt_mask s = map_option (\<lambda>(result, s). (result, hal_eu_evt_mask_clr evt_mask s)) (eu_wait_nonzero env (hal_eu_evt_mask_set evt_mask s))"

definition hal_eu_evt_status_irq_masked :: "'a machine_scheme \<Rightarrow> u32" where
  "hal_eu_evt_status_irq_masked s = readw (CL_EU_DEMUX_BASE + EU_BUFFER_IRQ_MASKED) s"

definition hal_eu_irq_mask :: "u32 \<Rightarrow> 'a machine_scheme \<Rightarrow> 'a machine_scheme" where
  "hal_eu_irq_mask msk s = writew msk (CL_EU_DEMUX_BASE + EU_MASK_IRQ) s"

definition hal_eu_irq_sec_mask :: "u32 \<Rightarrow> 'a machine_scheme \<Rightarrow> 'a machine_scheme" where
  "hal_eu_irq_sec_mask msk s = writew msk (CL_EU_DEMUX_BASE + EU_MASK_SEC_IRQ) s"

definition hal_eu_irq_mask_set :: "u32 \<Rightarrow> 'a machine_scheme \<Rightarrow> 'a machine_scheme" where
  "hal_eu_irq_mask_set msk s = writew msk (CL_EU_DEMUX_BASE + EU_MASK_IRQ_OR) s"

definition hal_eu_irq_mask_clr :: "u32 \<Rightarrow> 'a machine_scheme \<Rightarrow> 'a machine_scheme" where
  "hal_eu_irq_mask_clr msk s = writew msk (CL_EU_DEMUX_BASE + EU_MASK_IRQ_AND) s"

definition hal_eu_irq_status :: "'a machine_scheme \<Rightarrow> u32" where
  "hal_eu_irq_status s = readw (CL_EU_DEMUX_BASE + EU_BUFFER_IRQ_MASKED) s"

definition hal_eu_cluster_evt_trig_set :: "u32 \<Rightarrow> u32 \<Rightarrow> 'a machine_scheme \<Rightarrow> 'a machine_scheme" where
  "hal_eu_cluster_evt_trig_set event_num v s = writew v (CL_EU_SW_EVENTS_BASE + push_bit 2 event_num) s"

definition hal_eu_fc_evt_trig_set :: "int \<Rightarrow> u32 \<Rightarrow> 'a machine_scheme \<Rightarrow> 'a machine_scheme option" where
  "hal_eu_fc_evt_trig_set event_num v s = irq_pend event_num s"

definition hal_eu_barrier_trigger_wait_clear :: "('a machine_scheme \<Rightarrow> 'a machine_scheme) \<Rightarrow> 'a machine_scheme \<Rightarrow> u32 \<times> 'a machine_scheme" where
  "hal_eu_barrier_trigger_wait_clear env s = hal_evt_read32 env (CL_EU_BARRIER_DEMUX_BASE + BARRIER_TRIGGER_WAIT_CLEAR) 0 s"

definition hal_eu_barrier_setup :: "u32 \<Rightarrow> 'a machine_scheme \<Rightarrow> 'a machine_scheme" where
  "hal_eu_barrier_setup core_mask s = writew core_mask (CL_EU_BARRIER_DEMUX_BASE + BARRIER_TARGET_MASK)
       (writew core_mask (CL_EU_BARRIER_DEMUX_BASE + BARRIER_TRIGGER_MASK) s)"

definition hal_eu_barrier_trigger :: "u32 \<Rightarrow> 'a machine_scheme \<Rightarrow> 'a machine_scheme" where
  "hal_eu_barrier_trigger msk s = writew msk (CL_EU_BARRIER_DEMUX_BASE + BARRIER_TRIGGER) s"

definition hal_eu_barrier_team_get :: "'a machine_scheme \<Rightarrow> u32" where
  "hal_eu_barrier_team_get s = readw (CL_EU_BARRIER_DEMUX_BASE + BARRIER_TRIGGER_MASK) s"

definition hal_eu_soc_events_pop :: "'a machine_scheme \<Rightarrow> u32" where
  "hal_eu_soc_events_pop s = readw (CL_EU_SOC_EVENTS_BASE + SOC_CURRENT_EVENT) s"

definition hal_fc_eu_soc_events_pop :: "'a machine_scheme \<Rightarrow> u32" where
  "hal_fc_eu_soc_events_pop s = readw (CL_EU_SOC_EVENTS_BASE + SOC_CURRENT_EVENT) s"

definition hal_eu_soc_events_is_valid :: "u32 \<Rightarrow> u32" where
  "hal_eu_soc_events_is_valid word = drop_bit 31 (word AND EU_CURRENT_VALID_BIT_MASK)"

definition hal_eu_soc_events_get_event :: "u32 \<Rightarrow> u32" where
  "hal_eu_soc_events_get_event word = word AND EU_CURRENT_SOC_EVENT_MASK"

definition hal_eu_mutex_lock :: "('a machine_scheme \<Rightarrow> 'a machine_scheme) \<Rightarrow> u32 \<Rightarrow> 'a machine_scheme \<Rightarrow> 'a machine_scheme" where
  "hal_eu_mutex_lock env mutex_id s = snd (hal_evt_read32 env (CL_EU_MUTEX_DEMUX_BASE + push_bit 2 mutex_id) 0 s)"

definition hal_eu_mutex_unlock :: "u32 \<Rightarrow> 'a machine_scheme \<Rightarrow> 'a machine_scheme" where
  "hal_eu_mutex_unlock mutex_id s = writew 0 (CL_EU_MUTEX_DEMUX_BASE + push_bit 2 mutex_id) s"

definition hal_eu_mutex_init :: "u32 \<Rightarrow> 'a machine_scheme \<Rightarrow> 'a machine_scheme" where
  "hal_eu_mutex_init mutex_id s = writew 0 (CL_EU_MUTEX_DEMUX_BASE + push_bit 2 mutex_id) s"

definition hal_eu_dispatch_pop :: "('a machine_scheme \<Rightarrow> 'a machine_scheme) \<Rightarrow> 'a machine_scheme \<Rightarrow> u32 \<times> 'a machine_scheme" where
  "hal_eu_dispatch_pop env s = hal_evt_read32 env (CL_EU_DISPATCH_DEMUX_BASE + DISPATCH_FIFO_ACCESS) 0 s"

definition hal_eu_dispatch_push :: "u32 \<Rightarrow> 'a machine_scheme \<Rightarrow> 'a machine_scheme" where
  "hal_eu_dispatch_push v s = writew v (CL_EU_DISPATCH_DEMUX_BASE + DISPATCH_FIFO_ACCESS) s"

definition hal_eu_dispatch_team_config :: "u32 \<Rightarrow> 'a machine_scheme \<Rightarrow> 'a machine_scheme" where
  "hal_eu_dispatch_team_config v s = writew v (CL_EU_DISPATCH_DEMUX_BASE + DISPATCH_TEAM_CONFIG) s"

definition hal_eu_loop_addr :: "u32 \<Rightarrow> u32" where
  "hal_eu_loop_addr loop_id = CL_EU_LOOP_DEMUX_BASE"

definition hal_eu_loop_get_chunk :: "'a machine_scheme \<Rightarrow> u32" where
  "hal_eu_loop_get_chunk s = readw (CL_EU_LOOP_DEMUX_BASE + LOOP_CHUNK) s"

definition hal_eu_loop_get_start :: "'a machine_scheme \<Rightarrow> u32" where
  "hal_eu_loop_get_start s = readw (CL_EU_LOOP_DEMUX_BASE + LOOP_START) s"

definition hal_eu_loop_get_state :: "'a machine_scheme \<Rightarrow> u32" where
  "hal_eu_loop_get_state s = readw (CL_EU_LOOP_DEMUX_BASE + LOOP_STATE) s"

definition hal_eu_loop_set_start :: "u32 \<Rightarrow> 'a machine_scheme \<Rightarrow> 'a machine_scheme" where
  "hal_eu_loop_set_start v s = writew v (CL_EU_LOOP_DEMUX_BASE + LOOP_START) s"

definition hal_eu_loop_set_end :: "u32 \<Rightarrow> 'a machine_scheme \<Rightarrow> 'a machine_scheme" where
  "hal_eu_loop_set_end v s = writew v (CL_EU_LOOP_DEMUX_BASE + LOOP_END) s"

definition hal_eu_loop_set_incr :: "u32 \<Rightarrow> 'a machine_scheme \<Rightarrow> 'a machine_scheme" where
  "hal_eu_loop_set_incr v s = writew v (CL_EU_LOOP_DEMUX_BASE + LOOP_INCR) s"

definition hal_eu_loop_set_chunk :: "u32 \<Rightarrow> 'a machine_scheme \<Rightarrow> 'a machine_scheme" where
  "hal_eu_loop_set_chunk v s = writew v (CL_EU_LOOP_DEMUX_BASE + LOOP_CHUNK) s"

definition hal_eu_loop_init_epoch :: "u32 \<Rightarrow> 'a machine_scheme \<Rightarrow> 'a machine_scheme" where
  "hal_eu_loop_init_epoch core_set s = writew core_set (CL_EU_LOOP_DEMUX_BASE + LOOP_EPOCH) s"

definition hal_eu_loop_get_single :: "'a machine_scheme \<Rightarrow> u32" where
  "hal_eu_loop_get_single s = readw (CL_EU_LOOP_DEMUX_BASE + LOOP_SINGLE) s"

definition hal_eu_evt_get_cluster_base :: "u32 \<Rightarrow> u32" where
  "hal_eu_evt_get_cluster_base core_id = ARCHI_CLUSTER_PERIPHERALS_ADDR + ARCHI_EU_OFFSET + push_bit 6 core_id"

subsection \<open>Waiting\<close>

lemma cl_eu_wait_for_returns:
  "regs ((env ^^ Suc n) s) (cl_demux_eu_core + CL_DEMUX_EU_CORE_EVENT_WAIT) AND m \<noteq> 0 \<Longrightarrow> \<exists>t. cl_eu_wait_for env m s = Some t"
proof (induction n arbitrary: s)
  case 0
  then show ?case by (subst cl_eu_wait_for.simps) (simp add: hal_cl_eu_evt_wait_def hal_eu_read32_def readw_def Let_def)
next
  case (Suc n)
  then have "\<exists>t. cl_eu_wait_for env m (env s) = Some t" by (simp add: funpow_swap1)
  then show ?case
    by (subst cl_eu_wait_for.simps) (simp add: hal_cl_eu_evt_wait_def hal_eu_read32_def Let_def)
qed

end
