(* ===== verification/Cluster.thy ===== *)
theory Cluster
  imports ClusterHal Tasks MallocOs
begin

text \<open>
  The cluster driver (drivers/cluster/fc_to_cl_delegate.c, cl_to_fc_delegate.c) with its spinlocks
  (drivers/include/cluster/cl_synchronisation.h) and mutexes (drivers/include/os.h), as target/pulp
  compiles it. The structures the driver reaches by pointer are stores of the state; the two spinlock
  words and the stacks of the tasks live in the L1 heap, which is the model of cl_l1_malloc.c.
  pi_malloc and pi_free are newlib's malloc and free here: the results of the one are arguments and the
  calls of the other are logged. Reading a structure through NULL has no result. The printf
  buffers, which no build file enables, and the traces are left out. env is a step of the rest of
  the system while this core spins or sleeps.
\<close>

definition NB_CLUSTER :: nat where "NB_CLUSTER = 1"
definition CL_MASTER_CORE_STACK_SIZE :: u32 where "CL_MASTER_CORE_STACK_SIZE = 0x800"
definition CL_SLAVE_CORE_STACK_SIZE :: u32 where "CL_SLAVE_CORE_STACK_SIZE = 0x400"
definition PI_DEVICE_CLUSTER_TYPE :: u32 where "PI_DEVICE_CLUSTER_TYPE = 1"
definition CL_NB_HW_BARRIER :: nat where "CL_NB_HW_BARRIER = 8"
definition CL_EU_HW_BARRIER_RESERVED :: nat where "CL_EU_HW_BARRIER_RESERVED = 2"
definition CL_EU_HW_BARRIER_RESERVED_MASK :: u32 where "CL_EU_HW_BARRIER_RESERVED_MASK = push_bit CL_EU_HW_BARRIER_RESERVED 1 - 1"
definition CL_ALLOC_INIT_BARRIER :: u32 where
  "CL_ALLOC_INIT_BARRIER = (push_bit CL_NB_HW_BARRIER 1 - 1) AND NOT CL_EU_HW_BARRIER_RESERVED_MASK"
definition NB_SW_EVENTS :: u32 where "NB_SW_EVENTS = 8"
definition CL_IRQ_SW_EVT :: "u32 \<Rightarrow> u32" where "CL_IRQ_SW_EVT n = n AND (NB_SW_EVENTS - 1)"
definition FC_IRQ_SW_EVT :: "u32 \<Rightarrow> u32" where "FC_IRQ_SW_EVT n = n AND (NB_SW_EVENTS - 1)"
definition FC_TO_CLUSTER_NOTIFY_EVENT :: u32 where "FC_TO_CLUSTER_NOTIFY_EVENT = CL_IRQ_SW_EVT 1"
definition FC_NOTIFY_CLUSTER_EVENT :: u32 where "FC_NOTIFY_CLUSTER_EVENT = FC_TO_CLUSTER_NOTIFY_EVENT"
definition CLUSTER_TO_FC_NOTIFY_IRQN :: u32 where "CLUSTER_TO_FC_NOTIFY_IRQN = FC_IRQ_SW_EVT 2"
definition L1_TAS_BASE :: u32 where "L1_TAS_BASE = push_bit 20 1"
definition SEND_TASK_ID :: u32 where "SEND_TASK_ID = 0"
definition WAIT_FREE_ID :: u32 where "WAIT_FREE_ID = 1"
definition OPEN_ID :: u32 where "OPEN_ID = 2"
definition CLOSE_ID :: u32 where "CLOSE_ID = 3"
definition SEND_TASK_ASYNC_ID :: u32 where "SEND_TASK_ASYNC_ID = 4"
definition WAIT_FREE_ASYNC_ID :: u32 where "WAIT_FREE_ASYNC_ID = 5"
definition OPEN_ASYNC_ID :: u32 where "OPEN_ASYNC_ID = 6"
definition CLOSE_ASYNC_ID :: u32 where "CLOSE_ASYNC_ID = 7"

subsection \<open>Data\<close>

record spinlock =
  lock_ptr :: u32
  release_ptr :: u32

record pmsis_mutex =
  mutex_object :: u32
  mutex_take_fn :: bool
  mutex_release_fn :: bool

record pi_cluster_task =
  ct_entry :: u32
  ct_arg :: u32
  ct_stacks :: u32
  ct_stack_size :: u32
  ct_slave_stack_size :: u32
  ct_nb_cores :: u32
  ct_completion_callback :: u32
  ct_stack_allocated :: u32
  ct_next :: u32
  ct_cluster_team_mask :: u32

record cluster_driver_data =
  task_first :: u32
  task_last :: u32
  cluster_is_on :: u32
  task_mutex :: pmsis_mutex
  powerstate_mutex :: pmsis_mutex
  fifo_access :: spinlock
  cd_heap_start :: u32
  cd_heap_size :: u32
  task_to_fc :: u32
  hw_barrier_alloc :: u8

record pi_cluster_conf =
  cc_device_type :: u32
  cc_id :: u32
  cc_heap_start :: u32
  cc_heap_size :: u32
  cc_event_kernel :: u32
  cc_flags :: u32

datatype cluster_fn = Cl_open | Cl_close | Cl_open_async | Cl_close_async | Cl_ioctl | Cl_ioctl_async
  | Cl_send_task | Cl_send_task_async | Cl_wait_free | Cl_wait_free_async

record cluster_driver_api =
  sp_send_task :: "cluster_fn option"
  sp_send_task_async :: "cluster_fn option"
  sp_wait_free :: "cluster_fn option"
  sp_wait_free_async :: "cluster_fn option"

record pi_device_api =
  ap_open :: "cluster_fn option"
  ap_close :: "cluster_fn option"
  ap_open_async :: "cluster_fn option"
  ap_close_async :: "cluster_fn option"
  ap_ioctl :: "cluster_fn option"
  ap_ioctl_async :: "cluster_fn option"
  ap_specific_api :: u32

definition spec_cluster_api :: cluster_driver_api where
  "spec_cluster_api = \<lparr>sp_send_task = Some Cl_send_task, sp_send_task_async = Some Cl_send_task_async,
     sp_wait_free = Some Cl_wait_free, sp_wait_free_async = Some Cl_wait_free_async\<rparr>"

definition cluster_api :: pi_device_api where
  "cluster_api = \<lparr>ap_open = Some Cl_open, ap_close = Some Cl_close, ap_open_async = Some Cl_open_async,
     ap_close_async = Some Cl_close_async, ap_ioctl = Some Cl_ioctl, ap_ioctl_async = Some Cl_ioctl_async, ap_specific_api = 0\<rparr>"

definition cluster_default_conf :: pi_cluster_conf where
  "cluster_default_conf = \<lparr>cc_device_type = PI_DEVICE_CLUSTER_TYPE, cc_id = 0, cc_heap_start = 0x10000004, cc_heap_size = 0x400,
     cc_event_kernel = 0, cc_flags = 0\<rparr>"

record cluster_link =
  l1_preload_start :: u32
  l1_preload_start_inL2 :: u32
  l1_preload_size :: u32
  l1FcShared_start :: u32
  l1FcShared_size :: u32
  heapsram_start :: u32
  heapsram_size :: u32
  boot_start :: u32

record cluster = soc +
  ctask_at :: "u32 \<Rightarrow> pi_cluster_task"
  cdata_at :: "u32 \<Rightarrow> cluster_driver_data"
  cconf_at :: "u32 \<Rightarrow> pi_cluster_conf"
  capi_at :: "u32 \<Rightarrow> pi_device_api"
  spec_api_at :: "u32 \<Rightarrow> cluster_driver_api"
  dev_api :: "u32 \<Rightarrow> u32"
  dev_config :: "u32 \<Rightarrow> u32"
  per_cluster_data :: "u32 list"
  cluster_printf_spinlock :: spinlock
  cheaps :: heaps

definition upd_ctask :: "u32 \<Rightarrow> (pi_cluster_task \<Rightarrow> pi_cluster_task) \<Rightarrow> cluster \<Rightarrow> cluster" where
  "upd_ctask p f s = s\<lparr>ctask_at := (ctask_at s)(p := f (ctask_at s p))\<rparr>"

definition upd_cdata :: "u32 \<Rightarrow> (cluster_driver_data \<Rightarrow> cluster_driver_data) \<Rightarrow> cluster \<Rightarrow> cluster" where
  "upd_cdata p f s = s\<lparr>cdata_at := (cdata_at s)(p := f (cdata_at s p))\<rparr>"

definition upd_cram :: "(mem \<Rightarrow> mem) \<Rightarrow> cluster \<Rightarrow> cluster" where
  "upd_cram f s = s\<lparr>cheaps := (cheaps s)\<lparr>ram := f (ram (cheaps s))\<rparr>\<rparr>"

text \<open>The allocator's operations run on the same core: they see its control registers.\<close>

definition heaps_of :: "cluster \<Rightarrow> heaps" where
  "heaps_of s = (cheaps s)\<lparr>csrs := csrs s, regs := regs s, io_log := io_log s\<rparr>"

definition put_heaps :: "heaps \<Rightarrow> cluster \<Rightarrow> cluster" where
  "put_heaps h s = s\<lparr>csrs := csrs h, regs := regs h, io_log := io_log h, cheaps := h\<rparr>"

definition cl_alloc :: "u32 \<Rightarrow> cluster \<Rightarrow> (u32 \<times> cluster) option" where
  "cl_alloc sz s = map_option (\<lambda>(p, h). (p, put_heaps h s)) (pi_cl_l1_malloc sz (heaps_of s))"

definition cl_release :: "u32 \<Rightarrow> u32 \<Rightarrow> cluster \<Rightarrow> cluster option" where
  "cl_release chunk sz s = map_option (\<lambda>h. put_heaps h s) (pi_cl_l1_free chunk sz (heaps_of s))"

subsection \<open>Spinlocks\<close>

definition cl_sync_init_spinlock :: "u32 \<Rightarrow> mem \<Rightarrow> spinlock \<times> mem" where
  "cl_sync_init_spinlock lock_addr m = (\<lparr>lock_ptr = lock_addr OR L1_TAS_BASE, release_ptr = lock_addr\<rparr>, wr32 m lock_addr 0)"

text \<open>The word behind an address of the test-and-set area is read and set to -1 at once.\<close>

definition cl_sync_test_and_set_lock :: "spinlock \<Rightarrow> cluster \<Rightarrow> u32 \<times> cluster" where
  "cl_sync_test_and_set_lock l s =
     (let a = lock_ptr l AND NOT L1_TAS_BASE in (rd32 (ram (cheaps s)) a, upd_cram (\<lambda>m. wr32 m a (-1)) s))"

partial_function (option) cl_sync_spinlock_take :: "(cluster \<Rightarrow> cluster) \<Rightarrow> spinlock \<Rightarrow> cluster \<Rightarrow> cluster option" where
  "cl_sync_spinlock_take env l s =
     (let (v, s) = cl_sync_test_and_set_lock l s in
      if v = -1 then cl_sync_spinlock_take env l (env s) else Some s)"

definition cl_sync_spinlock_release :: "spinlock \<Rightarrow> cluster \<Rightarrow> cluster" where
  "cl_sync_spinlock_release l s = upd_cram (\<lambda>m. wr32 m (release_ptr l) 0) s"

subsection \<open>Mutexes\<close>

definition os_native_api_mutex_lock :: "u32 \<Rightarrow> 'a soc_scheme \<Rightarrow> 'a soc_scheme" where
  "os_native_api_mutex_lock h s = os (OS_SemTake h) s"

definition os_native_api_mutex_release :: "u32 \<Rightarrow> 'a soc_scheme \<Rightarrow> 'a soc_scheme" where
  "os_native_api_mutex_release h s =
     (let (irq, s) = disable_irq s; s = os (OS_SemGiveFromISR h) s in restore_irq irq s)"

definition pmsis_mutex_take :: "pmsis_mutex \<Rightarrow> 'a soc_scheme \<Rightarrow> 'a soc_scheme option" where
  "pmsis_mutex_take mx s = (if mutex_take_fn mx then Some (os_native_api_mutex_lock (mutex_object mx) s) else None)"

definition pmsis_mutex_release :: "pmsis_mutex \<Rightarrow> 'a soc_scheme \<Rightarrow> 'a soc_scheme option" where
  "pmsis_mutex_release mx s = (if mutex_release_fn mx then Some (os_native_api_mutex_release (mutex_object mx) s) else None)"

definition pmsis_mutex_init ::
  "(os_call list \<Rightarrow> u32) \<Rightarrow> pmsis_mutex \<Rightarrow> 'a soc_scheme \<Rightarrow> int \<times> pmsis_mutex \<times> 'a soc_scheme" where
  "pmsis_mutex_init create mx s =
     (let h = create (os_log s); s = os (OS_SemCreateBinary h) s; mx = mx\<lparr>mutex_object := h\<rparr> in
      if h = 0 then (-1, mx, s)
      else (0, mx\<lparr>mutex_take_fn := True, mutex_release_fn := True\<rparr>, os_native_api_mutex_release h s))"

definition pmsis_mutex_deinit :: "pmsis_mutex \<Rightarrow> 'a soc_scheme \<Rightarrow> int \<times> pmsis_mutex \<times> 'a soc_scheme" where
  "pmsis_mutex_deinit mx s =
     (if mutex_object mx = 0 then (-1, mx, s)
      else (0, \<lparr>mutex_object = 0, mutex_take_fn = False, mutex_release_fn = False\<rparr>, os (OS_SemDelete (mutex_object mx)) s))"

subsection \<open>The queue of tasks\<close>

definition has_task_section :: "u32 \<Rightarrow> cluster \<Rightarrow> bool" where
  "has_task_section d s = (task_first (cdata_at s d) \<noteq> 0)"

definition cluster_has_task :: "(cluster \<Rightarrow> cluster) \<Rightarrow> u32 \<Rightarrow> cluster \<Rightarrow> (bool \<times> cluster) option" where
  "cluster_has_task env d s =
     (if d = 0 then None
      else Option.bind (cl_sync_spinlock_take env (fifo_access (cdata_at s d)) s) (\<lambda>s.
        Some (has_task_section d s, cl_sync_spinlock_release (fifo_access (cdata_at s d)) s)))"

definition push_section :: "u32 \<Rightarrow> u32 \<Rightarrow> cluster \<Rightarrow> cluster" where
  "push_section d task s =
     (let s = upd_ctask task (\<lambda>t. t\<lparr>ct_next := 0\<rparr>) s in
      if task_last (cdata_at s d) = 0
      then upd_cdata d (\<lambda>x. x\<lparr>task_first := task, task_last := task\<rparr>) s
      else upd_ctask (task_last (cdata_at s d)) (\<lambda>t. t\<lparr>ct_next := task\<rparr>) s)"

definition pi_push_cluster_task :: "(cluster \<Rightarrow> cluster) \<Rightarrow> u32 \<Rightarrow> u32 \<Rightarrow> cluster \<Rightarrow> cluster option" where
  "pi_push_cluster_task env d task s =
     Option.bind (cl_sync_spinlock_take env (fifo_access (cdata_at s d)) s) (\<lambda>s.
       let s = push_section d task s in
       Some (cl_sync_spinlock_release (fifo_access (cdata_at s d)) s))"

definition pop_section :: "u32 \<Rightarrow> cluster \<Rightarrow> (u32 \<times> cluster) option" where
  "pop_section d s =
     (let task = task_first (cdata_at s d) in
      if task = 0 then None
      else let s = upd_cdata d (\<lambda>x. x\<lparr>task_first := ct_next (ctask_at s task)\<rparr>) s in
        Some (task, if task_first (cdata_at s d) = 0 then upd_cdata d (\<lambda>x. x\<lparr>task_last := 0\<rparr>) s else s))"

definition cl_free_stacks :: "u32 \<Rightarrow> cluster \<Rightarrow> cluster option" where
  "cl_free_stacks task s =
     (let t = ctask_at s task in
      if ct_stack_allocated t \<noteq> 0
      then let stack_size = ct_slave_stack_size t * (of_nat ARCHI_CLUSTER_NB_PE - 1); stack_size = stack_size + ct_stack_size t in
        map_option (upd_ctask task (\<lambda>t. t\<lparr>ct_stacks := 0, ct_stack_size := 0, ct_stack_allocated := 0\<rparr>))
          (cl_release (ct_stacks t) stack_size s)
      else Some s)"

definition cl_pop_cluster_task :: "(cluster \<Rightarrow> cluster) \<Rightarrow> u32 \<Rightarrow> cluster \<Rightarrow> cluster option" where
  "cl_pop_cluster_task env d s =
     Option.bind (cl_sync_spinlock_take env (fifo_access (cdata_at s d)) s) (\<lambda>s.
     Option.bind (pop_section d s) (\<lambda>(task, s).
       let s = cl_sync_spinlock_release (fifo_access (cdata_at s d)) s in
       cl_free_stacks task s))"

end
