(* ===== verification/ClusterOps.thy ===== *)
theory ClusterOps
  imports Cluster
begin

text \<open>
  What the fabric controller does with the cluster (drivers/cluster/fc_to_cl_delegate.c), what the
  cluster sends back (drivers/cluster/cl_to_fc_delegate.c) and the teams of cluster cores
  (drivers/include/cluster/cl_team_internal.h). A call through a function pointer of a task is
  the parameter call.
\<close>

subsection \<open>From the cluster to the fabric controller\<close>

definition cl_data :: "cluster \<Rightarrow> u32 option" where
  "cl_data s = (if per_cluster_data s ! 0 = 0 then None else Some (per_cluster_data s ! 0))"

definition fc_handle_task :: "(u32 \<Rightarrow> u32 \<Rightarrow> cluster \<Rightarrow> cluster) \<Rightarrow> u32 \<Rightarrow> cluster \<Rightarrow> cluster option" where
  "fc_handle_task call task s =
     (if task AND 1 \<noteq> 0
      then let task = task AND NOT 1 in
        pi_task_release task (call (t_arg (task_at s task) 0) (t_arg (task_at s task) 1) s)
      else pi_task_release task (pi_task_push task s))"

definition cl_notify_fc_event_handler :: "(u32 \<Rightarrow> u32 \<Rightarrow> cluster \<Rightarrow> cluster) \<Rightarrow> cluster \<Rightarrow> cluster option" where
  "cl_notify_fc_event_handler call s =
     Option.bind (cl_data s) (\<lambda>d.
       map_option (\<lambda>s. hal_eu_cluster_evt_trig_set FC_NOTIFY_CLUSTER_EVENT 0 (upd_cdata d (\<lambda>x. x\<lparr>task_to_fc := 0\<rparr>) s))
         (fc_handle_task call (task_to_fc (cdata_at s d)) s))"

partial_function (option) cl_wait_fc_free :: "(cluster \<Rightarrow> cluster) \<Rightarrow> u32 \<Rightarrow> cluster \<Rightarrow> cluster option" where
  "cl_wait_fc_free env d s =
     (if task_to_fc (cdata_at s d) \<noteq> 0
      then cl_wait_fc_free env d (snd (hal_eu_evt_mask_wait_and_clr env (push_bit (unat FC_NOTIFY_CLUSTER_EVENT) 1) s))
      else Some s)"

definition pi_cl_send_task_to_fc :: "(cluster \<Rightarrow> cluster) \<Rightarrow> u32 \<Rightarrow> cluster \<Rightarrow> cluster option" where
  "pi_cl_send_task_to_fc env task s =
     (let s = hal_eu_mutex_lock env 0 s in
      Option.bind (cl_data s) (\<lambda>d.
      Option.bind (cl_wait_fc_free env d s) (\<lambda>s.
      let s = upd_cdata d (\<lambda>x. x\<lparr>task_to_fc := task\<rparr>) s in
      map_option (hal_eu_mutex_unlock 0) (hal_eu_fc_evt_trig_set (uint CLUSTER_TO_FC_NOTIFY_IRQN) 0 s))))"

definition pi_cl_send_callback_to_fc :: "(cluster \<Rightarrow> cluster) \<Rightarrow> u32 \<Rightarrow> cluster \<Rightarrow> cluster option" where
  "pi_cl_send_callback_to_fc env callback s = pi_cl_send_task_to_fc env (callback OR 1) s"

definition mc_fc_delegate_init :: "cluster \<Rightarrow> cluster option" where
  "mc_fc_delegate_init s =
     map_option (\<lambda>s. snd (irq_clint_enable (unat CLUSTER_TO_FC_NOTIFY_IRQN) s)) (irq_enable (uint CLUSTER_TO_FC_NOTIFY_IRQN) s)"

definition native_cluster_id :: "'a machine_scheme \<Rightarrow> u32" where
  "native_cluster_id s = (drop_bit 5 (csr_read CSR_MHARTID s)) AND 0x3f"

definition cl_task_finish :: "(cluster \<Rightarrow> cluster) \<Rightarrow> cluster \<Rightarrow> cluster option" where
  "cl_task_finish env s =
     (let i = unat (native_cluster_id s) in
      if i \<ge> NB_CLUSTER \<or> per_cluster_data s ! i = 0 then None
      else let d = per_cluster_data s ! i; task = task_first (cdata_at s d) in
        Option.bind (cl_pop_cluster_task env d s) (\<lambda>s.
          if ct_completion_callback (ctask_at s task) \<noteq> 0
          then pi_cl_send_task_to_fc env (ct_completion_callback (ctask_at s task)) s
          else Some s))"

subsection \<open>Power\<close>

definition CLUSTER_BASE :: u32 where "CLUSTER_BASE = 0x10000000"

definition GAP_CLUSTER_TINY_DATA :: "u32 \<Rightarrow> u32 \<Rightarrow> u32" where
  "GAP_CLUSTER_TINY_DATA n addr = CLUSTER_BASE + 0x400000 * n + (addr AND 0xFFF)"

definition copy_bytes :: "u32 \<Rightarrow> u32 \<Rightarrow> u32 \<Rightarrow> mem \<Rightarrow> mem" where
  "copy_bytes dst src n m = (\<lambda>x. if x - dst < n then m (src + (x - dst)) else m x)"

fun cl_boot_addrs :: "u32 \<Rightarrow> nat list \<Rightarrow> 'a machine_scheme \<Rightarrow> 'a machine_scheme" where
  "cl_boot_addrs start [] s = s"
| "cl_boot_addrs start (core_id # cs) s = cl_boot_addrs start cs (hal_cl_ctrl_boot_addr_set 0 (of_nat core_id) start s)"

definition cl_power_on :: "cluster_link \<Rightarrow> u32 \<Rightarrow> u32 \<Rightarrow> cluster \<Rightarrow> cluster option" where
  "cl_power_on ld d conf s =
     (let s = cl_boot_addrs (boot_start ld) [0..<ARCHI_CLUSTER_NB_PE] s;
          s = hal_cl_ctrl_fetch_enable 0 (of_nat ARCHI_CLUSTER_NB_PE) s;
          s = hal_cl_icache_enable 0 s;
          s = upd_cram (copy_bytes (GAP_CLUSTER_TINY_DATA 0 (l1_preload_start ld)) (l1_preload_start_inL2 ld) (l1_preload_size ld)) s;
          s = upd_cram (copy_bytes (GAP_CLUSTER_TINY_DATA 0 (l1FcShared_start ld)) (l1FcShared_start ld) (l1FcShared_size ld)) s;
          s = put_heaps (pi_cl_l1_malloc_init (cc_heap_start (cconf_at s conf)) (cc_heap_size (cconf_at s conf)) (heaps_of s)) s in
      Option.bind (cl_alloc 4 s) (\<lambda>(lock_addr, s).
      let (l, m) = cl_sync_init_spinlock lock_addr (ram (cheaps s)); s = upd_cram (\<lambda>_. m) s; s = upd_cdata d (\<lambda>x. x\<lparr>fifo_access := l\<rparr>) s in
      map_option (\<lambda>(lock_addr, s). let (l, m) = cl_sync_init_spinlock lock_addr (ram (cheaps s)) in
          (upd_cram (\<lambda>_. m) s)\<lparr>cluster_printf_spinlock := l\<rparr>)
        (cl_alloc 4 s)))"

definition cluster_start :: "cluster_link \<Rightarrow> u32 \<Rightarrow> cluster \<Rightarrow> cluster option" where
  "cluster_start ld device s =
     (let d = dev_data s device; conf = dev_config s device in
      if d = 0 then None
      else Option.bind (pmsis_mutex_take (powerstate_mutex (cdata_at s d)) s) (\<lambda>s.
        Option.bind (if cluster_is_on (cdata_at s d) = 0 then if conf = 0 then None else cl_power_on ld d conf s else Some s) (\<lambda>s.
        let s = upd_cdata d (\<lambda>x. x\<lparr>cluster_is_on := cluster_is_on x + 1\<rparr>) s in
        pmsis_mutex_release (powerstate_mutex (cdata_at s d)) s)))"

definition cluster_stop :: "u32 \<Rightarrow> cluster \<Rightarrow> (int \<times> cluster) option" where
  "cluster_stop device s =
     (let d = dev_data s device in
      if d = 0 then None
      else Option.bind (pmsis_mutex_take (powerstate_mutex (cdata_at s d)) s) (\<lambda>s.
        let s = upd_cdata d (\<lambda>x. x\<lparr>cluster_is_on := cluster_is_on x - 1\<rparr>) s in
        map_option (\<lambda>s. (sint (cluster_is_on (cdata_at s d)), s)) (pmsis_mutex_release (powerstate_mutex (cdata_at s d)) s)))"

definition pi_cluster_is_on :: "cluster \<Rightarrow> u8" where
  "pi_cluster_is_on s =
     (if \<exists>i \<in> set [0..<NB_CLUSTER]. per_cluster_data s ! i \<noteq> 0 \<and> cluster_is_on (cdata_at s (per_cluster_data s ! i)) \<noteq> 0 then 1 else 0)"

definition pi_cluster_conf_init :: "u32 \<Rightarrow> cluster \<Rightarrow> cluster" where
  "pi_cluster_conf_init conf s =
     s\<lparr>cconf_at := (cconf_at s)(conf := (cconf_at s conf)\<lparr>cc_device_type := PI_DEVICE_CLUSTER_TYPE, cc_id := 0\<rparr>)\<rparr>"

definition cl_new_data :: cluster_driver_data where
  "cl_new_data = (let mx = \<lparr>mutex_object = 0, mutex_take_fn = False, mutex_release_fn = False\<rparr> in
     \<lparr>task_first = 0, task_last = 0, cluster_is_on = 0, task_mutex = mx, powerstate_mutex = mx,
      fifo_access = \<lparr>lock_ptr = 0, release_ptr = 0\<rparr>, cd_heap_start = 0, cd_heap_size = 0, task_to_fc = 0, hw_barrier_alloc = 0\<rparr>)"

definition cl_init_data :: "(os_call list \<Rightarrow> u32) \<Rightarrow> u32 \<Rightarrow> cluster \<Rightarrow> cluster" where
  "cl_init_data create d s =
     (let (_, mx, s) = pmsis_mutex_init create (task_mutex (cdata_at s d)) s;
          s = upd_cdata d (\<lambda>x. x\<lparr>task_mutex := mx\<rparr>) s;
          (_, mx, s) = pmsis_mutex_init create (powerstate_mutex (cdata_at s d)) s;
          s = upd_cdata d (\<lambda>x. x\<lparr>powerstate_mutex := mx\<rparr>) s in
      upd_cdata d (\<lambda>x. x\<lparr>task_to_fc := 0, hw_barrier_alloc := ucast CL_ALLOC_INIT_BARRIER\<rparr>) s)"

definition pi_cluster_open ::
  "cluster_link \<Rightarrow> (os_call list \<Rightarrow> u32) \<Rightarrow> u32 \<Rightarrow> u32 \<Rightarrow> u32 \<Rightarrow> u32 \<Rightarrow> cluster \<Rightarrow> (int \<times> cluster) option" where
  "pi_cluster_open ld create chunk_api chunk_conf chunk_data device s =
     (if chunk_api = 0 then None
      else let s = s\<lparr>dev_api := (dev_api s)(device := chunk_api), capi_at := (capi_at s)(chunk_api := cluster_api)\<rparr> in
      if dev_config s device = 0 \<and> chunk_conf = 0 then None
      else let s = (if dev_config s device = 0
               then s\<lparr>dev_config := (dev_config s)(device := chunk_conf), cconf_at := (cconf_at s)(chunk_conf := cluster_default_conf)\<rparr>
               else s);
          conf = dev_config s device; i = unat (cc_id (cconf_at s conf)) in
      if i \<ge> NB_CLUSTER then None
      else let d = per_cluster_data s ! i; s = s\<lparr>dev_data := (dev_data s)(device := d)\<rparr> in
      if d = 0 \<and> chunk_data = 0 then Some (-11, s)
      else let s = (if d = 0
               then cl_init_data create chunk_data
                 (s\<lparr>cdata_at := (cdata_at s)(chunk_data := cl_new_data), per_cluster_data := (per_cluster_data s)[i := chunk_data],
                    dev_data := (dev_data s)(device := chunk_data)\<rparr>)
               else s);
          s = s\<lparr>cconf_at := (cconf_at s)(conf := (cconf_at s conf)\<lparr>cc_heap_start := heapsram_start ld, cc_heap_size := heapsram_size ld\<rparr>)\<rparr> in
      Option.bind (cluster_start ld device s) (\<lambda>s. map_option (\<lambda>s. (0, s)) (mc_fc_delegate_init s)))"

definition pi_cluster_open_async ::
  "u32 \<Rightarrow> u32 \<Rightarrow> u32 \<Rightarrow> u32 \<Rightarrow> u32 \<Rightarrow> cluster \<Rightarrow> (int \<times> cluster) option" where
  "pi_cluster_open_async chunk_api chunk_conf chunk_data device async_task s =
     (if dev_data s device \<noteq> 0 then Some (0, s)
      else if chunk_api = 0 \<or> (dev_config s device = 0 \<and> chunk_conf = 0) then None
      else let s = s\<lparr>dev_api := (dev_api s)(device := chunk_api), capi_at := (capi_at s)(chunk_api := cluster_api)\<rparr>;
          s = (if dev_config s device = 0
               then s\<lparr>dev_config := (dev_config s)(device := chunk_conf), cconf_at := (cconf_at s)(chunk_conf := cluster_default_conf)\<rparr>
               else s);
          s = s\<lparr>dev_data := (dev_data s)(device := chunk_data)\<rparr> in
        Some (0, s\<lparr>cconf_at := (cconf_at s)(dev_config s device := cluster_default_conf)\<rparr>))"

definition pi_cluster_close :: "u32 \<Rightarrow> cluster \<Rightarrow> (int \<times> cluster) option" where
  "pi_cluster_close device s =
     Option.bind (cluster_stop device s) (\<lambda>(ret, s).
       if ret \<noteq> 0 then Some (ret, s)
       else let d = dev_data s device; i = unat (cc_id (cconf_at s (dev_config s device)));
          (_, mx, s) = pmsis_mutex_deinit (task_mutex (cdata_at s d)) s; s = upd_cdata d (\<lambda>x. x\<lparr>task_mutex := mx\<rparr>) s;
          (_, mx, s) = pmsis_mutex_deinit (powerstate_mutex (cdata_at s d)) s; s = upd_cdata d (\<lambda>x. x\<lparr>powerstate_mutex := mx\<rparr>) s;
          s = os (OS_Free (dev_data s device)) (os (OS_Free (dev_api s device)) s) in
        if i \<ge> NB_CLUSTER then None
        else Some (ret, s\<lparr>per_cluster_data := (per_cluster_data s)[i := 0]\<rparr>))"

definition pi_cluster_close_async :: "u32 \<Rightarrow> u32 \<Rightarrow> cluster \<Rightarrow> int \<times> cluster" where
  "pi_cluster_close_async device async_task s = (0, s)"

subsection \<open>Sending tasks\<close>

definition cl_task_stacks :: "u32 \<Rightarrow> cluster \<Rightarrow> (bool \<times> cluster) option" where
  "cl_task_stacks task s =
     (if ct_stacks (ctask_at s task) = 0
      then let s = upd_ctask task (\<lambda>t. t\<lparr>ct_stack_size := (if ct_stack_size t = 0 then CL_MASTER_CORE_STACK_SIZE else ct_stack_size t),
                 ct_slave_stack_size := (if ct_slave_stack_size t = 0 then CL_SLAVE_CORE_STACK_SIZE else ct_slave_stack_size t)\<rparr>) s;
               t = ctask_at s task;
               stack_size = ct_slave_stack_size t * (of_nat ARCHI_CLUSTER_NB_PE - 1); stack_size = stack_size + ct_stack_size t in
        map_option (\<lambda>(p, s). let s = upd_ctask task (\<lambda>t. t\<lparr>ct_stacks := p\<rparr>) s in
            if p = 0 then (False, s) else (True, upd_ctask task (\<lambda>t. t\<lparr>ct_stack_allocated := 1\<rparr>) s))
          (cl_alloc stack_size s)
      else Some (True, upd_ctask task (\<lambda>t. t\<lparr>ct_stack_allocated := 0\<rparr>) s))"

definition pi_send_task_to_cl :: "(cluster \<Rightarrow> cluster) \<Rightarrow> u32 \<Rightarrow> u32 \<Rightarrow> cluster \<Rightarrow> (int \<times> cluster) option" where
  "pi_send_task_to_cl env device task s =
     (let d = dev_data s device; unlock = (\<lambda>r s. map_option (\<lambda>s. (r, s)) (pmsis_mutex_release (task_mutex (cdata_at s d)) s)) in
      if d = 0 then None
      else Option.bind (pmsis_mutex_take (task_mutex (cdata_at s d)) s) (\<lambda>s.
        if cluster_is_on (cdata_at s d) = 0 then unlock (-1) s
        else let s = upd_ctask task (\<lambda>t. t\<lparr>ct_nb_cores := (if ct_nb_cores t = 0 then of_nat ARCHI_CLUSTER_NB_PE else ct_nb_cores t)\<rparr>) s;
                 s = upd_ctask task (\<lambda>t. t\<lparr>ct_cluster_team_mask := push_bit (unat (ct_nb_cores t)) 1 - 1\<rparr>) s in
        Option.bind (cl_task_stacks task s) (\<lambda>(ok, s).
          if \<not> ok then unlock (-1) s
          else Option.bind (pi_push_cluster_task env d task s) (\<lambda>s.
            unlock 0 (hal_eu_cluster_evt_trig_set FC_NOTIFY_CLUSTER_EVENT 0 s)))))"

definition pi_cluster_send_task_to_cl ::
  "(cluster \<Rightarrow> cluster) \<Rightarrow> (os_call list \<Rightarrow> u32) \<Rightarrow> u32 \<Rightarrow> u32 \<Rightarrow> u32 \<Rightarrow> cluster \<Rightarrow> (int \<times> cluster) option" where
  "pi_cluster_send_task_to_cl env create task_block device task s =
     (let s = pi_task_block create task_block s;
          s = upd_ctask task (\<lambda>t. t\<lparr>ct_completion_callback := task_block\<rparr>) s in
      Option.bind (pi_send_task_to_cl env device task s) (\<lambda>(ret_send_task, s).
        if ret_send_task \<noteq> 0 then Some (ret_send_task, s)
        else map_option (\<lambda>s. (ret_send_task, pi_task_destroy task_block s)) (pi_task_wait_on env task_block s)))"

partial_function (option) cl_send_until :: "(cluster \<Rightarrow> cluster) \<Rightarrow> u32 \<Rightarrow> u32 \<Rightarrow> cluster \<Rightarrow> cluster option" where
  "cl_send_until env device task s =
     Option.bind (pi_send_task_to_cl env device task s) (\<lambda>(ret, s).
       if ret \<noteq> 0 then cl_send_until env device task (env (os OS_Yield s)) else Some s)"

definition pi_cluster_send_task_to_cl_async ::
  "(cluster \<Rightarrow> cluster) \<Rightarrow> u32 \<Rightarrow> u32 \<Rightarrow> u32 \<Rightarrow> cluster \<Rightarrow> (int \<times> cluster) option" where
  "pi_cluster_send_task_to_cl_async env device task fc_task s =
     map_option (\<lambda>s. (0, s)) (cl_send_until env device task (upd_ctask task (\<lambda>t. t\<lparr>ct_completion_callback := fc_task\<rparr>) s))"

partial_function (option) pi_cluster_wait_free :: "(cluster \<Rightarrow> cluster) \<Rightarrow> u32 \<Rightarrow> cluster \<Rightarrow> cluster option" where
  "pi_cluster_wait_free env device s =
     Option.bind (cluster_has_task env (dev_data s device) s) (\<lambda>(b, s). if b then pi_cluster_wait_free env device (env s) else Some s)"

subsection \<open>Control\<close>

definition pi_cluster_ioctl ::
  "(cluster \<Rightarrow> cluster) \<Rightarrow> cluster_link \<Rightarrow> (os_call list \<Rightarrow> u32) \<Rightarrow> u32 \<Rightarrow> u32 \<Rightarrow> u32 \<Rightarrow> u32 \<Rightarrow> u32 \<Rightarrow> u32 \<Rightarrow> u32 \<Rightarrow> cluster \<Rightarrow> (int \<times> cluster) option" where
  "pi_cluster_ioctl env ld create task_block chunk_api chunk_conf chunk_data device func_id a s =
     (if dev_api s device = 0 then None
      else let api = capi_at s (dev_api s device); sp = ap_specific_api api; ok = (\<lambda>x. map_option (\<lambda>(_, s). (0, s)) x) in
      if func_id = SEND_TASK_ID then
        (if sp = 0 \<or> sp_send_task (spec_api_at s sp) \<noteq> Some Cl_send_task then None
         else ok (pi_cluster_send_task_to_cl env create task_block device a s))
      else if func_id = WAIT_FREE_ID then
        (if sp = 0 \<or> sp_wait_free (spec_api_at s sp) \<noteq> Some Cl_wait_free then None
         else map_option (\<lambda>s. (0, s)) (pi_cluster_wait_free env device s))
      else if func_id = OPEN_ID then
        (if ap_open api \<noteq> Some Cl_open then None else ok (pi_cluster_open ld create chunk_api chunk_conf chunk_data device s))
      else if func_id = CLOSE_ID then
        (if ap_close api \<noteq> Some Cl_close then None else ok (pi_cluster_close device s))
      else Some (0, s))"

definition pi_cluster_ioctl_async ::
  "(cluster \<Rightarrow> cluster) \<Rightarrow> u32 \<Rightarrow> u32 \<Rightarrow> u32 \<Rightarrow> u32 \<Rightarrow> u32 \<Rightarrow> u32 \<Rightarrow> u32 \<Rightarrow> cluster \<Rightarrow> (int \<times> cluster) option" where
  "pi_cluster_ioctl_async env chunk_api chunk_conf chunk_data device func_id a async_task s =
     (if dev_api s device = 0 then None
      else let api = capi_at s (dev_api s device); sp = ap_specific_api api; ok = (\<lambda>x. map_option (\<lambda>(_, s). (0, s)) x) in
      if func_id = SEND_TASK_ASYNC_ID then
        (if sp = 0 \<or> sp_send_task_async (spec_api_at s sp) \<noteq> Some Cl_send_task_async then None
         else ok (pi_cluster_send_task_to_cl_async env device a async_task s))
      else if func_id = WAIT_FREE_ASYNC_ID then
        (if sp = 0 \<or> sp_wait_free_async (spec_api_at s sp) \<noteq> Some Cl_wait_free_async then None else Some (0, s))
      else if func_id = OPEN_ASYNC_ID then
        (if ap_open_async api \<noteq> Some Cl_open_async then None
         else ok (pi_cluster_open_async chunk_api chunk_conf chunk_data device async_task s))
      else if func_id = CLOSE_ASYNC_ID then
        (if ap_close_async api \<noteq> Some Cl_close_async then None else ok (Some (pi_cluster_close_async device async_task s)))
      else Some (0, s))"

subsection \<open>Teams\<close>

definition FF1 :: "u32 \<Rightarrow> u32" where
  "FF1 w = of_nat (length (takeWhile (\<lambda>i. \<not> bit w i) [0..<32]))"

definition p_cnt :: "u32 \<Rightarrow> u32" where
  "p_cnt w = of_nat (length (filter (bit w) [0..<32]))"

definition pi_cl_team_barrier_available :: "cluster \<Rightarrow> u32 option" where
  "pi_cl_team_barrier_available s = map_option (\<lambda>d. p_cnt (ucast (hw_barrier_alloc (cdata_at s d)))) (cl_data s)"

definition pi_cl_team_barrier_alloc :: "cluster \<Rightarrow> (u32 \<times> cluster) option" where
  "pi_cl_team_barrier_alloc s =
     map_option (\<lambda>d. let nb_avail = FF1 (ucast (hw_barrier_alloc (cdata_at s d))) in
       if nb_avail \<noteq> 32
       then (nb_avail, upd_cdata d (\<lambda>x. x\<lparr>hw_barrier_alloc := ucast (ucast (hw_barrier_alloc x) AND NOT (push_bit (unat nb_avail) (1 :: u32)))\<rparr>) s)
       else (-1, s)) (cl_data s)"

definition pi_cl_team_barrier_free :: "u32 \<Rightarrow> cluster \<Rightarrow> cluster option" where
  "pi_cl_team_barrier_free barrier_id s =
     map_option (\<lambda>d. upd_cdata d (\<lambda>x. x\<lparr>hw_barrier_alloc := ucast (ucast (hw_barrier_alloc x) OR push_bit (unat barrier_id) (1 :: u32))\<rparr>) s) (cl_data s)"

definition pi_cl_team_barrier_set :: "u32 \<Rightarrow> u32 \<Rightarrow> 'a machine_scheme \<Rightarrow> 'a machine_scheme" where
  "pi_cl_team_barrier_set barrier_id team_mask s = hal_cl_eu_barrier_setup barrier_id team_mask s"

definition pi_cl_team_barrier_wait ::
  "('a machine_scheme \<Rightarrow> 'a machine_scheme) \<Rightarrow> u32 \<Rightarrow> 'a machine_scheme \<Rightarrow> 'a machine_scheme" where
  "pi_cl_team_barrier_wait env barrier_id s = snd (hal_cl_eu_barrier_trigger_wait_clear env barrier_id s)"

definition pi_cl_team_barrier :: "('a machine_scheme \<Rightarrow> 'a machine_scheme) \<Rightarrow> 'a machine_scheme \<Rightarrow> 'a machine_scheme" where
  "pi_cl_team_barrier env s = snd (hal_cl_eu_barrier_trigger_wait_clear env ARCHI_CLUSTER_LEGCY_BARR_ID s)"

definition pi_cl_team_barrier_sync_set :: "u32 \<Rightarrow> 'a machine_scheme \<Rightarrow> 'a machine_scheme" where
  "pi_cl_team_barrier_sync_set team_mask s = hal_cl_eu_barrier_setup ARCHI_CLUSTER_SYNC_BARR_ID team_mask s"

definition pi_cl_team_barrier_sync_wait_clear :: "('a machine_scheme \<Rightarrow> 'a machine_scheme) \<Rightarrow> 'a machine_scheme \<Rightarrow> 'a machine_scheme" where
  "pi_cl_team_barrier_sync_wait_clear env s = snd (hal_cl_eu_barrier_trigger_wait_clear env ARCHI_CLUSTER_SYNC_BARR_ID s)"

definition pi_cl_team_barrier_cc :: "('a machine_scheme \<Rightarrow> 'a machine_scheme) \<Rightarrow> 'a machine_scheme \<Rightarrow> 'a machine_scheme" where
  "pi_cl_team_barrier_cc env s = pi_cl_team_barrier_sync_wait_clear env s"

definition pi_cl_team_nb_cores :: "'a machine_scheme \<Rightarrow> u32" where
  "pi_cl_team_nb_cores s = p_cnt (hal_cl_eu_barrier_team_get ARCHI_CLUSTER_SYNC_BARR_ID s)"

definition pi_cl_team_config_set :: "u32 \<Rightarrow> 'a machine_scheme \<Rightarrow> 'a machine_scheme" where
  "pi_cl_team_config_set team_mask s =
     (let master_core_mask = push_bit ARCHI_CLUSTER_MASTER_CORE 1;
          s = hal_cl_eu_barrier_setup ARCHI_CLUSTER_LEGCY_BARR_ID (team_mask OR master_core_mask) s;
          s = pi_cl_team_barrier_sync_set (team_mask OR master_core_mask) s in
      hal_cl_eu_dispatch_team_config (team_mask XOR master_core_mask) s)"

definition pi_cl_team_dispatch :: "u32 \<Rightarrow> u32 \<Rightarrow> 'a machine_scheme \<Rightarrow> 'a machine_scheme" where
  "pi_cl_team_dispatch entry a s = hal_cl_eu_dispatch_fifo_push a (hal_cl_eu_dispatch_fifo_push entry s)"

definition pi_cl_team_fork ::
  "('a machine_scheme \<Rightarrow> 'a machine_scheme) \<Rightarrow> (u32 \<Rightarrow> u32 \<Rightarrow> 'a machine_scheme \<Rightarrow> 'a machine_scheme) \<Rightarrow> u32 \<Rightarrow> u32 \<Rightarrow> u32 \<Rightarrow> 'a machine_scheme \<Rightarrow> 'a machine_scheme" where
  "pi_cl_team_fork env call nb_cores entry a s =
     (let master_core_mask = push_bit ARCHI_CLUSTER_MASTER_CORE 1;
          team_core_mask = (if nb_cores \<noteq> 0 then push_bit (unat nb_cores) 1 - 1 else hal_cl_eu_barrier_team_get ARCHI_CLUSTER_SYNC_BARR_ID s);
          s = (if nb_cores \<noteq> 0 then pi_cl_team_config_set team_core_mask s else s);
          s = pi_cl_team_dispatch entry a s;
          s = (if team_core_mask AND master_core_mask \<noteq> 0 then call entry a s else s) in
      pi_cl_team_barrier_sync_wait_clear env s)"

definition pi_cl_team_fork_cc ::
  "('a machine_scheme \<Rightarrow> 'a machine_scheme) \<Rightarrow> (u32 \<Rightarrow> u32 \<Rightarrow> 'a machine_scheme \<Rightarrow> 'a machine_scheme) \<Rightarrow> u32 \<Rightarrow> u32 \<Rightarrow> u32 \<Rightarrow> 'a machine_scheme \<Rightarrow> 'a machine_scheme" where
  "pi_cl_team_fork_cc env call nb_cores entry a s =
     (let s = (if nb_cores \<noteq> 0 then pi_cl_team_config_set (push_bit (unat nb_cores) 1 - 1) s else s);
          s = pi_cl_team_dispatch entry a s in
      pi_cl_team_barrier_sync_wait_clear env (call entry a s))"

definition pi_cl_team_preset_fork ::
  "('a machine_scheme \<Rightarrow> 'a machine_scheme) \<Rightarrow> (u32 \<Rightarrow> u32 \<Rightarrow> 'a machine_scheme \<Rightarrow> 'a machine_scheme) \<Rightarrow> u32 \<Rightarrow> u32 \<Rightarrow> 'a machine_scheme \<Rightarrow> 'a machine_scheme" where
  "pi_cl_team_preset_fork env call entry a s =
     (let master_core_mask = push_bit ARCHI_CLUSTER_MASTER_CORE 1;
          s = pi_cl_team_dispatch entry a s;
          s = (if hal_cl_eu_barrier_team_get ARCHI_CLUSTER_LEGCY_BARR_ID s AND master_core_mask \<noteq> 0 then call entry a s else s) in
      pi_cl_team_barrier_sync_wait_clear env s)"

definition pi_cl_team_critical_enter :: "('a machine_scheme \<Rightarrow> 'a machine_scheme) \<Rightarrow> 'a machine_scheme \<Rightarrow> 'a machine_scheme" where
  "pi_cl_team_critical_enter env s = hal_cl_eu_mutex_lock env 0 s"

definition pi_cl_team_critical_exit :: "'a machine_scheme \<Rightarrow> 'a machine_scheme" where
  "pi_cl_team_critical_exit s = hal_cl_eu_mutex_unlock 0 s"

end
