(* ===== verification/IDma.thy ===== *)
theory IDma
  imports ClusterOps
begin

text \<open>
  Memory copies of the cluster: the iDMA of control-pulp (drivers/include/cluster/cl_idma_hal.h) and the
  MCHAN engine (cl_dma_hal.h, cl_dma_internal.h) with its queue of long commands. A read that the engine answers, and a sleep, are a
  step of the parameter env followed by the read of the register.
\<close>

subsection \<open>iDMA registers (cl_idma_archi.h)\<close>

definition IDMA_SRC_ADDR :: u32 where "IDMA_SRC_ADDR = 0x0"
definition IDMA_DST_ADDR :: u32 where "IDMA_DST_ADDR = 0x4"
definition IDMA_NUM_BYTES :: u32 where "IDMA_NUM_BYTES = 0x8"
definition IDMA_CONF :: u32 where "IDMA_CONF = 0xc"
definition IDMA_CONF_DECOUPLE_BIT :: nat where "IDMA_CONF_DECOUPLE_BIT = 0"
definition IDMA_CONF_DEBURST_BIT :: nat where "IDMA_CONF_DEBURST_BIT = 1"
definition IDMA_CONF_SERIALIZE_BIT :: nat where "IDMA_CONF_SERIALIZE_BIT = 2"
definition IDMA_CONF_TWOD_BIT :: nat where "IDMA_CONF_TWOD_BIT = 3"
definition IDMA_STRIDE_SRC :: u32 where "IDMA_STRIDE_SRC = 0x10"
definition IDMA_STRIDE_DST :: u32 where "IDMA_STRIDE_DST = 0x14"
definition IDMA_NUM_REPETITIONS :: u32 where "IDMA_NUM_REPETITIONS = 0x18"
definition IDMA_STATUS :: u32 where "IDMA_STATUS = 0x1c"
definition IDMA_NEXT_ID :: u32 where "IDMA_NEXT_ID = 0x20"
definition IDMA_DONE :: u32 where "IDMA_DONE = 0x24"
definition ARCHI_IDMA_DEMUX_ADDR :: u32 where "ARCHI_IDMA_DEMUX_ADDR = 0x204000 + 0x400"
definition DMA_ADDR :: u32 where "DMA_ADDR = ARCHI_IDMA_DEMUX_ADDR"

definition IDMA_EVENT :: nat where "IDMA_EVENT = 8"
definition IDMA_ID_COUNTER_WIDTH :: nat where "IDMA_ID_COUNTER_WIDTH = 28"
definition IDMA_ID_MASK :: u32 where "IDMA_ID_MASK = 0x0fffffff"
definition IDMA_DEFAULT_CONFIG :: u32 where "IDMA_DEFAULT_CONFIG = 0x0"
definition IDMA_DEFAULT_CONFIG_2D :: u32 where "IDMA_DEFAULT_CONFIG_2D = 0x8"

definition DMA_WRITE :: "u32 \<Rightarrow> u32 \<Rightarrow> 'a machine_scheme \<Rightarrow> 'a machine_scheme" where
  "DMA_WRITE v offset s = writew v (DMA_ADDR + offset) s"

definition DMA_READ :: "u32 \<Rightarrow> 'a machine_scheme \<Rightarrow> u32" where
  "DMA_READ offset s = readw (DMA_ADDR + offset) s"

subsection \<open>iDMA transfers\<close>

definition pulp_idma_get_conf :: "u32 \<Rightarrow> u32 \<Rightarrow> u32 \<Rightarrow> u32 \<Rightarrow> u32" where
  "pulp_idma_get_conf decouple deburst serialize twod =
     push_bit IDMA_CONF_DECOUPLE_BIT (decouple AND 1) OR push_bit IDMA_CONF_DEBURST_BIT (deburst AND 1)
     OR push_bit IDMA_CONF_SERIALIZE_BIT (serialize AND 1) OR push_bit IDMA_CONF_TWOD_BIT (twod AND 1)"

definition pulp_idma_tx_cplt :: "u32 \<Rightarrow> 'a machine_scheme \<Rightarrow> u32" where
  "pulp_idma_tx_cplt dma_tx_id s =
     (let done_id = DMA_READ IDMA_DONE s; my_id = dma_tx_id AND IDMA_ID_MASK in
      if drop_bit (IDMA_ID_COUNTER_WIDTH - 1) done_id = drop_bit (IDMA_ID_COUNTER_WIDTH - 1) my_id
      then of_bool (my_id \<le> done_id)
      else done_id AND of_bool (IDMA_ID_MASK - push_bit (IDMA_ID_COUNTER_WIDTH - 1) 1 < push_bit (IDMA_ID_COUNTER_WIDTH - 2) 1))"

definition idma_launch :: "('a machine_scheme \<Rightarrow> 'a machine_scheme) \<Rightarrow> 'a machine_scheme \<Rightarrow> u32 \<times> 'a machine_scheme" where
  "idma_launch env s = (let s = env s in (DMA_READ IDMA_NEXT_ID s, s))"

definition pulp_idma_memcpy ::
  "('a machine_scheme \<Rightarrow> 'a machine_scheme) \<Rightarrow> u32 \<Rightarrow> u32 \<Rightarrow> u32 \<Rightarrow> 'a machine_scheme \<Rightarrow> u32 \<times> 'a machine_scheme" where
  "pulp_idma_memcpy env dst_addr src_addr num_bytes s =
     (let s = DMA_WRITE src_addr IDMA_SRC_ADDR s;
          s = DMA_WRITE dst_addr IDMA_DST_ADDR s;
          s = DMA_WRITE num_bytes IDMA_NUM_BYTES s;
          s = DMA_WRITE IDMA_DEFAULT_CONFIG IDMA_CONF s in
      idma_launch env s)"

definition pulp_idma_memcpy_2d ::
  "('a machine_scheme \<Rightarrow> 'a machine_scheme) \<Rightarrow> u32 \<Rightarrow> u32 \<Rightarrow> u32 \<Rightarrow> u32 \<Rightarrow> u32 \<Rightarrow> u32 \<Rightarrow> 'a machine_scheme \<Rightarrow> u32 \<times> 'a machine_scheme" where
  "pulp_idma_memcpy_2d env dst_addr src_addr num_bytes dst_stride src_stride num_reps s =
     (let s = DMA_WRITE src_addr IDMA_SRC_ADDR s;
          s = DMA_WRITE dst_addr IDMA_DST_ADDR s;
          s = DMA_WRITE num_bytes IDMA_NUM_BYTES s;
          s = DMA_WRITE IDMA_DEFAULT_CONFIG_2D IDMA_CONF s;
          s = DMA_WRITE src_stride IDMA_STRIDE_SRC s;
          s = DMA_WRITE dst_stride IDMA_STRIDE_DST s;
          s = DMA_WRITE num_reps IDMA_NUM_REPETITIONS s in
      idma_launch env s)"

definition pulp_idma_memcpy_advanced ::
  "('a machine_scheme \<Rightarrow> 'a machine_scheme) \<Rightarrow> u32 \<Rightarrow> u32 \<Rightarrow> u32 \<Rightarrow> u32 \<Rightarrow> u32 \<Rightarrow> u32 \<Rightarrow> u32 \<Rightarrow> u32 \<Rightarrow> u32 \<Rightarrow> u32 \<Rightarrow> 'a machine_scheme \<Rightarrow> u32 \<times> 'a machine_scheme" where
  "pulp_idma_memcpy_advanced env dst_addr src_addr num_bytes decouple deburst serialize twod dst_stride src_stride num_reps s =
     (let s = DMA_WRITE src_addr IDMA_SRC_ADDR s;
          s = DMA_WRITE dst_addr IDMA_DST_ADDR s;
          s = DMA_WRITE num_bytes IDMA_NUM_BYTES s;
          conf = pulp_idma_get_conf decouple deburst serialize twod;
          s = DMA_WRITE conf IDMA_CONF s;
          s = (if twod \<noteq> 0
               then DMA_WRITE num_reps IDMA_NUM_REPETITIONS (DMA_WRITE dst_stride IDMA_STRIDE_DST (DMA_WRITE src_stride IDMA_STRIDE_SRC s))
               else s) in
      idma_launch env s)"

definition plp_dma_status :: "'a machine_scheme \<Rightarrow> u32" where
  "plp_dma_status s = DMA_READ IDMA_STATUS s"

partial_function (option) plp_dma_wait ::
  "('a machine_scheme \<Rightarrow> 'a machine_scheme) \<Rightarrow> u32 \<Rightarrow> 'a machine_scheme \<Rightarrow> 'a machine_scheme option" where
  "plp_dma_wait env dma_tx_id s =
     (if pulp_idma_tx_cplt dma_tx_id s = 0
      then plp_dma_wait env dma_tx_id (snd (hal_eu_evt_mask_wait_and_clr env (push_bit IDMA_EVENT 1) s))
      else Some s)"

partial_function (option) plp_dma_barrier ::
  "('a machine_scheme \<Rightarrow> 'a machine_scheme) \<Rightarrow> 'a machine_scheme \<Rightarrow> 'a machine_scheme option" where
  "plp_dma_barrier env s =
     (if plp_dma_status s \<noteq> 0
      then plp_dma_barrier env (snd (hal_eu_evt_mask_wait_and_clr env (push_bit IDMA_EVENT 1) s))
      else Some s)"

definition plp_dma_memcpy ::
  "('a machine_scheme \<Rightarrow> 'a machine_scheme) \<Rightarrow> u32 \<Rightarrow> u32 \<Rightarrow> u32 \<Rightarrow> bool \<Rightarrow> 'a machine_scheme \<Rightarrow> u32 \<times> 'a machine_scheme" where
  "plp_dma_memcpy env ext loc sz ext2loc s =
     (if ext2loc then pulp_idma_memcpy env loc ext sz s else pulp_idma_memcpy env ext loc sz s)"

definition plp_dma_l1ToExt ::
  "('a machine_scheme \<Rightarrow> 'a machine_scheme) \<Rightarrow> u32 \<Rightarrow> u32 \<Rightarrow> u16 \<Rightarrow> 'a machine_scheme \<Rightarrow> u32 \<times> 'a machine_scheme" where
  "plp_dma_l1ToExt env ext loc sz s = pulp_idma_memcpy env ext loc (ucast sz) s"

definition plp_dma_extToL1 ::
  "('a machine_scheme \<Rightarrow> 'a machine_scheme) \<Rightarrow> u32 \<Rightarrow> u32 \<Rightarrow> u16 \<Rightarrow> 'a machine_scheme \<Rightarrow> u32 \<times> 'a machine_scheme" where
  "plp_dma_extToL1 env loc ext sz s = pulp_idma_memcpy env loc ext (ucast sz) s"

text \<open>A division by a length of 0 is undefined: None.\<close>

definition plp_dma_memcpy_2d ::
  "('a machine_scheme \<Rightarrow> 'a machine_scheme) \<Rightarrow> u32 \<Rightarrow> u32 \<Rightarrow> u32 \<Rightarrow> u32 \<Rightarrow> u32 \<Rightarrow> bool \<Rightarrow> 'a machine_scheme \<Rightarrow> (u32 \<times> 'a machine_scheme) option" where
  "plp_dma_memcpy_2d env ext loc sz stride len ext2loc s =
     (if len = 0 then None
      else Some (if ext2loc then pulp_idma_memcpy_2d env loc ext len len stride (sz div len) s
                 else pulp_idma_memcpy_2d env ext loc len stride len (sz div len) s))"

definition plp_dma_l1ToExt_2d ::
  "('a machine_scheme \<Rightarrow> 'a machine_scheme) \<Rightarrow> u32 \<Rightarrow> u32 \<Rightarrow> u16 \<Rightarrow> u16 \<Rightarrow> u16 \<Rightarrow> 'a machine_scheme \<Rightarrow> (u32 \<times> 'a machine_scheme) option" where
  "plp_dma_l1ToExt_2d env ext loc sz stride len s =
     (if len = 0 then None
      else Some (pulp_idma_memcpy_2d env ext loc (ucast len) (ucast stride) (ucast len) (ucast (sz div len)) s))"

definition plp_dma_extToL1_2d ::
  "('a machine_scheme \<Rightarrow> 'a machine_scheme) \<Rightarrow> u32 \<Rightarrow> u32 \<Rightarrow> u16 \<Rightarrow> u16 \<Rightarrow> u16 \<Rightarrow> 'a machine_scheme \<Rightarrow> (u32 \<times> 'a machine_scheme) option" where
  "plp_dma_extToL1_2d env loc ext sz stride len s =
     (if len = 0 then None
      else Some (pulp_idma_memcpy_2d env loc ext (ucast len) (ucast len) (ucast stride) (ucast (sz div len)) s))"

subsection \<open>MCHAN registers and commands (cl_dma_hal.h)\<close>

definition ARCHI_MCHAN_EXT_OFFSET :: u32 where "ARCHI_MCHAN_EXT_OFFSET = 0x00001800"
definition CL_MCHAN_ADDR :: u32 where "CL_MCHAN_ADDR = ARCHI_CLUSTER_PERIPHERALS_GLOBAL_ADDR 0 + ARCHI_MCHAN_EXT_OFFSET"
definition MCHAN_CMD :: u32 where "MCHAN_CMD = CL_MCHAN_ADDR + 0x00"
definition MCHAN_STATUS :: u32 where "MCHAN_STATUS = CL_MCHAN_ADDR + 0x04"
definition CL_IRQ_DMA0 :: nat where "CL_IRQ_DMA0 = 8"
definition DMA_SW_IRQN :: u32 where "DMA_SW_IRQN = CL_IRQ_SW_EVT 2"
definition DMA_INC :: u8 where "DMA_INC = 1"
definition DMA_IS_1D :: u8 where "DMA_IS_1D = 0"
definition DMA_IS_2D :: u8 where "DMA_IS_2D = 1"
definition DMA_ELE_DIS :: u8 where "DMA_ELE_DIS = 0"
definition DMA_ELE_ENA :: u8 where "DMA_ELE_ENA = 1"
definition DMA_ILE_DIS :: u8 where "DMA_ILE_DIS = 0"
definition DMA_ILE_ENA :: u8 where "DMA_ILE_ENA = 1"
definition DMA_BLE_ENA :: u8 where "DMA_BLE_ENA = 1"

text \<open>__BITINSERT is declared nowhere in the repository: what it does is the parameter bi.\<close>

definition hal_cl_dma_cmd_make ::
  "(u32 \<Rightarrow> u32 \<Rightarrow> nat \<Rightarrow> nat \<Rightarrow> u32) \<Rightarrow> u16 \<Rightarrow> u8 \<Rightarrow> u8 \<Rightarrow> u8 \<Rightarrow> u8 \<Rightarrow> u8 \<Rightarrow> u8 \<Rightarrow> u32" where
  "hal_cl_dma_cmd_make bi len dir inc is2d ele ile ble =
     (let cmd = 0;
          cmd = bi cmd (ucast len) 16 0;
          cmd = bi cmd (ucast dir) 1 16;
          cmd = bi cmd (ucast inc) 1 17;
          cmd = bi cmd (ucast is2d) 1 18;
          cmd = bi cmd (ucast ele) 1 19;
          cmd = bi cmd (ucast ile) 1 20 in
      bi cmd (ucast ble) 1 21)"

definition cl_dma_cmd_set :: "u32 \<Rightarrow> 'a machine_scheme \<Rightarrow> 'a machine_scheme" where
  "cl_dma_cmd_set cmd s = writew cmd MCHAN_CMD s"

definition cl_dma_cmd_get :: "('a machine_scheme \<Rightarrow> 'a machine_scheme) \<Rightarrow> 'a machine_scheme \<Rightarrow> u32 \<times> 'a machine_scheme" where
  "cl_dma_cmd_get env s = (let s = env s in (readw MCHAN_CMD s, s))"

definition cl_dma_status_set :: "u32 \<Rightarrow> 'a machine_scheme \<Rightarrow> 'a machine_scheme" where
  "cl_dma_status_set status s = writew status MCHAN_STATUS s"

definition cl_dma_status_get :: "'a machine_scheme \<Rightarrow> u32" where
  "cl_dma_status_get s = readw MCHAN_STATUS s"

definition hal_cl_dma_tid_get :: "('a machine_scheme \<Rightarrow> 'a machine_scheme) \<Rightarrow> 'a machine_scheme \<Rightarrow> u16 \<times> 'a machine_scheme" where
  "hal_cl_dma_tid_get env s = (let (v, s) = cl_dma_cmd_get env s in (ucast (v AND 0xFFFF), s))"

definition hal_cl_dma_1d_transfer_push :: "u32 \<Rightarrow> u32 \<Rightarrow> u32 \<Rightarrow> 'a machine_scheme \<Rightarrow> 'a machine_scheme" where
  "hal_cl_dma_1d_transfer_push cmd loc ext s = cl_dma_cmd_set ext (cl_dma_cmd_set loc (cl_dma_cmd_set cmd s))"

definition hal_cl_dma_2d_transfer_push :: "u32 \<Rightarrow> u32 \<Rightarrow> u32 \<Rightarrow> u32 \<Rightarrow> u32 \<Rightarrow> 'a machine_scheme \<Rightarrow> 'a machine_scheme" where
  "hal_cl_dma_2d_transfer_push cmd loc ext stride len s =
     (let conf_2d = push_bit 0 len OR push_bit 16 stride in
      cl_dma_cmd_set conf_2d (cl_dma_cmd_set ext (cl_dma_cmd_set loc (cl_dma_cmd_set cmd s))))"

definition hal_cl_dma_tid_free :: "u8 \<Rightarrow> 'a machine_scheme \<Rightarrow> 'a machine_scheme" where
  "hal_cl_dma_tid_free tid s = cl_dma_status_set (push_bit (unat tid) 1) s"

partial_function (option) cl_dma_wait_idle ::
  "('a machine_scheme \<Rightarrow> 'a machine_scheme) \<Rightarrow> 'a machine_scheme \<Rightarrow> 'a machine_scheme option" where
  "cl_dma_wait_idle env s =
     (if cl_dma_status_get s AND 0xFFFF \<noteq> 0
      then cl_dma_wait_idle env (snd (hal_eu_evt_mask_wait env (push_bit CL_IRQ_DMA0 1) s))
      else Some s)"

definition hal_cl_dma_flush :: "('a machine_scheme \<Rightarrow> 'a machine_scheme) \<Rightarrow> 'a machine_scheme \<Rightarrow> 'a machine_scheme option" where
  "hal_cl_dma_flush env s = map_option (cl_dma_status_set (-1)) (cl_dma_wait_idle env s)"

partial_function (option) cl_dma_wait_tid ::
  "('a machine_scheme \<Rightarrow> 'a machine_scheme) \<Rightarrow> u8 \<Rightarrow> u32 \<Rightarrow> 'a machine_scheme \<Rightarrow> (u32 \<times> 'a machine_scheme) option" where
  "cl_dma_wait_tid env tid irq s =
     (if cl_dma_status_get s AND push_bit (unat tid) 1 \<noteq> 0
      then let s = restore_irq irq s;
               s = snd (hal_eu_evt_mask_wait env (push_bit CL_IRQ_DMA0 1) s);
               (irq, s) = disable_irq s in
           cl_dma_wait_tid env tid irq s
      else Some (irq, s))"

definition hal_cl_dma_wait :: "('a machine_scheme \<Rightarrow> 'a machine_scheme) \<Rightarrow> u8 \<Rightarrow> 'a machine_scheme \<Rightarrow> 'a machine_scheme option" where
  "hal_cl_dma_wait env tid s =
     (let (irq, s) = disable_irq s in
      map_option (\<lambda>(irq, s). restore_irq irq (hal_cl_dma_tid_free tid s)) (cl_dma_wait_tid env tid irq s))"

subsection \<open>MCHAN commands (cl_dma_internal.h)\<close>

text \<open>A command and a copy structure are words of memory: pi_cl_dma_memcpy passes the address of the one as the other.\<close>

record cl_dma = machine +
  dma_word :: "u32 \<Rightarrow> u32"
  dma_fifo_first :: u32
  dma_fifo_last :: u32

definition dc_tid :: "u32 \<Rightarrow> u32" where "dc_tid p = p"
definition dc_cmd :: "u32 \<Rightarrow> u32" where "dc_cmd p = p + 4"
definition dc_size :: "u32 \<Rightarrow> u32" where "dc_size p = p + 8"
definition dc_stride :: "u32 \<Rightarrow> u32" where "dc_stride p = p + 12"
definition dc_length :: "u32 \<Rightarrow> u32" where "dc_length p = p + 16"
definition dc_loc :: "u32 \<Rightarrow> u32" where "dc_loc p = p + 20"
definition dc_ext :: "u32 \<Rightarrow> u32" where "dc_ext p = p + 24"
definition dc_next :: "u32 \<Rightarrow> u32" where "dc_next p = p + 28"

definition cp_ext :: "u32 \<Rightarrow> u32" where "cp_ext p = p"
definition cp_loc :: "u32 \<Rightarrow> u32" where "cp_loc p = p + 4"
definition cp_size :: "u32 \<Rightarrow> u32" where "cp_size p = p + 12"
definition cp_dir :: "u32 \<Rightarrow> u32" where "cp_dir p = p + 16"
definition cp_merge :: "u32 \<Rightarrow> u32" where "cp_merge p = p + 20"
definition cp_stride :: "u32 \<Rightarrow> u32" where "cp_stride p = p + 24"
definition cp_length :: "u32 \<Rightarrow> u32" where "cp_length p = p + 28"

definition dma_store :: "u32 \<Rightarrow> u32 \<Rightarrow> cl_dma \<Rightarrow> cl_dma" where
  "dma_store a v s = s\<lparr>dma_word := (dma_word s)(a := v)\<rparr>"

definition pi_cl_dma_copy ::
  "(cl_dma \<Rightarrow> cl_dma) \<Rightarrow> u32 \<Rightarrow> u32 \<Rightarrow> u32 \<Rightarrow> u32 \<Rightarrow> u32 \<Rightarrow> u32 \<Rightarrow> u32 \<Rightarrow> cl_dma \<Rightarrow> cl_dma" where
  "pi_cl_dma_copy env ext loc len stride lng dma_cmd cmd s =
     (let iter_length = (if len < lng then len else lng);
          s = dma_store (dc_loc cmd) loc s;
          s = dma_store (dc_ext cmd) ext s;
          s = dma_store (dc_size cmd) len s;
          s = dma_store (dc_stride cmd) stride s;
          s = dma_store (dc_length cmd) lng s;
          s = dma_store (dc_tid cmd) (-1) s;
          s = dma_store (dc_next cmd) 0 s;
          s = (if dma_fifo_first s \<noteq> 0 then dma_store (dc_next (dma_fifo_last s)) cmd s
               else let s = dma_store (dc_loc cmd) (dma_word s (dc_loc cmd) + iter_length) s;
                        s = dma_store (dc_ext cmd) (dma_word s (dc_ext cmd) + stride) s;
                        s = dma_store (dc_size cmd) (dma_word s (dc_size cmd) - iter_length) s;
                        (tid, s) = hal_cl_dma_tid_get env s;
                        s = dma_store (dc_tid cmd) (ucast tid) s;
                        s = hal_cl_dma_1d_transfer_push dma_cmd loc ext s in
                    if dma_word s (dc_length cmd) \<noteq> 0 then s\<lparr>dma_fifo_first := cmd\<rparr> else s) in
      s\<lparr>dma_fifo_last := cmd\<rparr>)"

definition pi_cl_dma_1d_copy ::
  "(u32 \<Rightarrow> u32 \<Rightarrow> nat \<Rightarrow> nat \<Rightarrow> u32) \<Rightarrow> (cl_dma \<Rightarrow> cl_dma) \<Rightarrow> u32 \<Rightarrow> u32 \<Rightarrow> u32 \<Rightarrow> u8 \<Rightarrow> u8 \<Rightarrow> u32 \<Rightarrow> cl_dma \<Rightarrow> cl_dma" where
  "pi_cl_dma_1d_copy bi env ext loc len dir merge cmd s =
     (let (irq, s) = disable_irq s; max_len = push_bit 15 1;
          s = (if len < max_len
               then let iter_length = len;
                        s = dma_store (dc_tid cmd) (-1) s;
                        s = (if merge = 0 then let (tid, s) = hal_cl_dma_tid_get env s in dma_store (dc_tid cmd) (ucast tid) s else s);
                        s = dma_store (dc_length cmd) 0 s;
                        dma_cmd = hal_cl_dma_cmd_make bi (ucast iter_length) dir DMA_INC DMA_IS_1D DMA_ELE_ENA DMA_ILE_DIS DMA_BLE_ENA in
                    hal_cl_dma_1d_transfer_push dma_cmd loc ext s
               else let iter_length = max_len; stride = max_len; lng = max_len;
                        dma_cmd = hal_cl_dma_cmd_make bi (ucast iter_length) dir DMA_INC DMA_IS_1D DMA_ELE_DIS DMA_ILE_ENA DMA_BLE_ENA;
                        s = dma_store (dc_cmd cmd) (hal_cl_dma_cmd_make bi 0 dir DMA_INC DMA_IS_1D DMA_ELE_DIS DMA_ILE_ENA DMA_BLE_ENA) s in
                    pi_cl_dma_copy env ext loc len stride lng dma_cmd cmd s) in
      restore_irq irq s)"

definition pi_cl_dma_2d_copy ::
  "(u32 \<Rightarrow> u32 \<Rightarrow> nat \<Rightarrow> nat \<Rightarrow> u32) \<Rightarrow> (cl_dma \<Rightarrow> cl_dma) \<Rightarrow> u32 \<Rightarrow> u32 \<Rightarrow> u32 \<Rightarrow> u32 \<Rightarrow> u32 \<Rightarrow> u8 \<Rightarrow> u8 \<Rightarrow> u32 \<Rightarrow> cl_dma \<Rightarrow> cl_dma" where
  "pi_cl_dma_2d_copy bi env ext loc len stride lng dir merge cmd s =
     (let (irq, s) = disable_irq s;
          s = (if stride < push_bit 15 1
               then let s = (if merge = 0 then let (tid, s) = hal_cl_dma_tid_get env s in dma_store (dc_tid cmd) (ucast tid) s else s);
                        s = dma_store (dc_length cmd) 0 s;
                        dma_cmd = hal_cl_dma_cmd_make bi (ucast len) dir DMA_INC DMA_IS_2D DMA_ELE_ENA DMA_ILE_DIS DMA_BLE_ENA in
                    hal_cl_dma_2d_transfer_push dma_cmd loc ext stride lng s
               else let iter_length = (if len < lng then len else lng);
                        dma_cmd = hal_cl_dma_cmd_make bi (ucast iter_length) dir DMA_INC DMA_IS_1D DMA_ELE_DIS DMA_ILE_ENA DMA_BLE_ENA;
                        s = dma_store (dc_cmd cmd) (hal_cl_dma_cmd_make bi 0 dir DMA_INC DMA_IS_1D DMA_ELE_DIS DMA_ILE_ENA DMA_BLE_ENA) s in
                    pi_cl_dma_copy env ext loc len stride lng dma_cmd cmd s) in
      restore_irq irq s)"

partial_function (option) cl_dma_wait_size :: "(cl_dma \<Rightarrow> cl_dma) \<Rightarrow> u32 \<Rightarrow> cl_dma \<Rightarrow> cl_dma option" where
  "cl_dma_wait_size env cmd s =
     (if dma_word s (dc_size cmd) > 0
      then cl_dma_wait_size env cmd (snd (hal_eu_evt_mask_wait_and_clr env (push_bit (unat DMA_SW_IRQN) 1) s))
      else Some s)"

definition pi_cl_dma_wait :: "(cl_dma \<Rightarrow> cl_dma) \<Rightarrow> u32 \<Rightarrow> cl_dma \<Rightarrow> cl_dma option" where
  "pi_cl_dma_wait env cmd s =
     (if dma_word s (dc_length cmd) = 0 then hal_cl_dma_wait env (ucast (dma_word s (dc_tid cmd))) s
      else cl_dma_wait_size env cmd s)"

definition pi_cl_dma_cmd ::
  "(u32 \<Rightarrow> u32 \<Rightarrow> nat \<Rightarrow> nat \<Rightarrow> u32) \<Rightarrow> (cl_dma \<Rightarrow> cl_dma) \<Rightarrow> u32 \<Rightarrow> u32 \<Rightarrow> u32 \<Rightarrow> u32 \<Rightarrow> u32 \<Rightarrow> cl_dma \<Rightarrow> cl_dma" where
  "pi_cl_dma_cmd bi env ext loc sz dir cmd s = pi_cl_dma_1d_copy bi env ext loc sz (ucast dir) 0 cmd s"

definition pi_cl_dma_cmd_2d ::
  "(u32 \<Rightarrow> u32 \<Rightarrow> nat \<Rightarrow> nat \<Rightarrow> u32) \<Rightarrow> (cl_dma \<Rightarrow> cl_dma) \<Rightarrow> u32 \<Rightarrow> u32 \<Rightarrow> u32 \<Rightarrow> u32 \<Rightarrow> u32 \<Rightarrow> u32 \<Rightarrow> u32 \<Rightarrow> cl_dma \<Rightarrow> cl_dma" where
  "pi_cl_dma_cmd_2d bi env ext loc sz stride lng dir cmd s = pi_cl_dma_2d_copy bi env ext loc sz stride lng (ucast dir) 0 cmd s"

definition pi_cl_dma_cmd_wait :: "(cl_dma \<Rightarrow> cl_dma) \<Rightarrow> u32 \<Rightarrow> cl_dma \<Rightarrow> cl_dma option" where
  "pi_cl_dma_cmd_wait env cmd s = pi_cl_dma_wait env cmd s"

definition pi_cl_dma_flush :: "(cl_dma \<Rightarrow> cl_dma) \<Rightarrow> cl_dma \<Rightarrow> cl_dma option" where
  "pi_cl_dma_flush env s = hal_cl_dma_flush env s"

definition pi_cl_dma_memcpy ::
  "(u32 \<Rightarrow> u32 \<Rightarrow> nat \<Rightarrow> nat \<Rightarrow> u32) \<Rightarrow> (cl_dma \<Rightarrow> cl_dma) \<Rightarrow> u32 \<Rightarrow> cl_dma \<Rightarrow> cl_dma" where
  "pi_cl_dma_memcpy bi env copy s =
     pi_cl_dma_1d_copy bi env (dma_word s (cp_ext copy)) (dma_word s (cp_loc copy)) (dma_word s (cp_size copy) AND 0xFFFF)
       (ucast (dma_word s (cp_dir copy))) (ucast (dma_word s (cp_merge copy))) copy s"

definition pi_cl_dma_memcpy_2d ::
  "(u32 \<Rightarrow> u32 \<Rightarrow> nat \<Rightarrow> nat \<Rightarrow> u32) \<Rightarrow> (cl_dma \<Rightarrow> cl_dma) \<Rightarrow> u32 \<Rightarrow> cl_dma \<Rightarrow> cl_dma" where
  "pi_cl_dma_memcpy_2d bi env copy s =
     pi_cl_dma_2d_copy bi env (dma_word s (cp_ext copy)) (dma_word s (cp_loc copy)) (dma_word s (cp_size copy) AND 0xFFFF)
       (dma_word s (cp_stride copy)) (dma_word s (cp_length copy))
       (ucast (dma_word s (cp_dir copy))) (ucast (dma_word s (cp_merge copy))) copy s"

subsection \<open>Completion of an iDMA transfer\<close>

text \<open>Identifiers count modulo 2 to the 28; a transfer is over when the counter of finished ones has reached or passed it,
  up to half a turn.\<close>

definition idma_passed :: "u32 \<Rightarrow> u32 \<Rightarrow> bool" where
  "idma_passed my done \<longleftrightarrow> (int (unat done) - int (unat my)) mod 2 ^ 28 < 2 ^ 27"

definition idma_half :: "u32 \<Rightarrow> nat" where
  "idma_half w = unat w div 2 ^ 27"

lemma idma_half_eq:
  "drop_bit 27 a = (drop_bit 27 b :: u32) \<longleftrightarrow> idma_half a = idma_half b"
proof -
  have "unat (drop_bit 27 w) = idma_half w" for w :: u32
    by (simp only: unat_drop_bit_eq) (simp add: idma_half_def drop_bit_eq_div)
  then show ?thesis by (simp only: word_unat_eq_iff)
qed

lemma idma_tx_cplt_code:
  "pulp_idma_tx_cplt t s \<noteq> 0 \<longleftrightarrow>
    idma_half (readw (DMA_ADDR + IDMA_DONE) s) = idma_half (t AND IDMA_ID_MASK) \<and> t AND IDMA_ID_MASK \<le> readw (DMA_ADDR + IDMA_DONE) s"
  by (simp add: pulp_idma_tx_cplt_def DMA_READ_def IDMA_ID_COUNTER_WIDTH_def idma_half_eq Let_def)
    (simp add: IDMA_ID_MASK_def word_less_nat_alt)

lemma counter_same_half:
  fixes x y :: nat
  assumes "x < 268435456" "y < 268435456" "x div 134217728 = y div 134217728"
  shows "(int y - int x) mod 268435456 < 134217728 \<longleftrightarrow> x \<le> y"
proof -
  define h r q where "h = x div 134217728" and "r = x mod 134217728" and "q = y mod 134217728"
  have x: "x = 134217728 * h + r" and y: "y = 134217728 * h + q" and b: "r < 134217728" "q < 134217728"
    using mult_div_mod_eq [of 134217728 x] mult_div_mod_eq [of 134217728 y] assms(3)
    by (simp_all only: h_def r_def q_def)
  have d: "int y - int x = int q - int r" by (simp add: x y)
  show ?thesis
  proof (cases "r \<le> q")
    case True
    then have "(int q - int r) mod 268435456 = int q - int r"
      using b by (intro mod_pos_pos_trivial) linarith+
    then show ?thesis using True b d by (simp add: x y)
  next
    case False
    have "(int q - int r) mod 268435456 = (int q - int r + 268435456) mod 268435456" by simp
    also have "\<dots> = int q - int r + 268435456"
      using False b by (intro mod_pos_pos_trivial) linarith+
    finally show ?thesis using False b d by (simp add: x y)
  qed
qed

lemma idma_passed_half:
  assumes "unat my < 2 ^ 28" "unat fin < 2 ^ 28" "idma_half my = idma_half fin"
  shows "idma_passed my fin \<longleftrightarrow> my \<le> fin"
proof -
  have "unat my < 268435456" "unat fin < 268435456" "unat my div 134217728 = unat fin div 134217728"
    using assms by (simp_all add: idma_half_def)
  from counter_same_half [OF this] show ?thesis by (simp only: idma_passed_def word_le_nat_alt) simp
qed

lemma idma_id_bound: "unat (t AND IDMA_ID_MASK) < 2 ^ 28"
proof -
  have "t AND IDMA_ID_MASK \<le> IDMA_ID_MASK" by (rule word_and_le1)
  then show ?thesis by (simp add: word_le_nat_alt IDMA_ID_MASK_def)
qed

text \<open>C37. While the counter of finished transfers holds 28 bits, pulp_idma_tx_cplt answers "done" exactly
  for a transfer that the counter has passed and whose identifier lies in the same half of the counter: never too early, but a finished
  transfer is not recognised once the counter has crossed into the other half, for the comparison of that case is swallowed by the
  bitwise AND.\<close>

theorem idma_completion:
  assumes "unat (readw (DMA_ADDR + IDMA_DONE) s) < 2 ^ 28"
  shows "pulp_idma_tx_cplt t s \<noteq> 0 \<longleftrightarrow>
    idma_passed (t AND IDMA_ID_MASK) (readw (DMA_ADDR + IDMA_DONE) s)
    \<and> idma_half (readw (DMA_ADDR + IDMA_DONE) s) = idma_half (t AND IDMA_ID_MASK)"
  using idma_passed_half [OF idma_id_bound assms] by (auto simp: idma_tx_cplt_code)

text \<open>A counter that has just moved from the lower half into the upper one.\<close>

definition idma_crossed :: machine where
  "idma_crossed = \<lparr>csrs = (\<lambda>_. 0), regs = (\<lambda>_. 0x8000000), io_log = []\<rparr>"

lemma idma_completion_witness:
  "pulp_idma_tx_cplt 0x7ffffff idma_crossed = 0 \<and> idma_passed (0x7ffffff AND IDMA_ID_MASK) (readw (DMA_ADDR + IDMA_DONE) idma_crossed)
   \<and> pulp_idma_tx_cplt 0x8000000 idma_crossed \<noteq> 0"
proof -
  have r: "readw (DMA_ADDR + IDMA_DONE) idma_crossed = 0x8000000" by (simp add: readw_def idma_crossed_def)
  have "unat (readw (DMA_ADDR + IDMA_DONE) idma_crossed) < 2 ^ 28" by (simp add: r)
  note c = idma_completion [OF this]
  show ?thesis using c [of "0x7ffffff"] c [of "0x8000000"]
    by (simp add: r idma_passed_def idma_half_def IDMA_ID_MASK_def)
qed

end
