(* ===== verification/Syscalls.thy ===== *)
theory Syscalls
  imports Uart Gpio
begin

text \<open>
  The system calls under newlib (libc/syscalls.c). The state adds to the machine errno, the program break, the file
  modes that fstat writes and the bytes of memory. Heap limits, the address of the copy-out
  buffer, its size and the device are parameters; what the hardware does while a loop waits is the parameter env.
\<close>

subsection \<open>State\<close>

record proc = machine +
  errno :: int
  brk :: u32
  st_mode :: "u32 \<Rightarrow> u32"
  mem8 :: "u32 \<Rightarrow> u8"

definition ENOENT :: int where "ENOENT = 2"
definition ECHILD :: int where "ECHILD = 10"
definition EAGAIN :: int where "EAGAIN = 11"
definition ENOMEM :: int where "ENOMEM = 12"
definition EINVAL :: int where "EINVAL = 22"
definition EMLINK :: int where "EMLINK = 31"
definition ENOSYS :: int where "ENOSYS = 88"
definition S_IFCHR :: u32 where "S_IFCHR = 0x2000"

definition STDOUT_FILENO :: int where "STDOUT_FILENO = 1"
definition STDERR_FILENO :: int where "STDERR_FILENO = 2"

definition fails :: "int \<Rightarrow> proc \<Rightarrow> int \<times> proc" where
  "fails e s = (-1, s\<lparr>errno := e\<rparr>)"

subsection \<open>Calls that are not supported\<close>

definition sys_nanosleep :: "proc \<Rightarrow> int \<times> proc" where "sys_nanosleep s = fails ENOSYS s"
definition sys_access :: "proc \<Rightarrow> int \<times> proc" where "sys_access s = fails ENOSYS s"
definition sys_chdir :: "proc \<Rightarrow> int \<times> proc" where "sys_chdir s = fails ENOSYS s"
definition sys_chmod :: "proc \<Rightarrow> int \<times> proc" where "sys_chmod s = fails ENOSYS s"
definition sys_chown :: "proc \<Rightarrow> int \<times> proc" where "sys_chown s = fails ENOSYS s"
definition sys_close :: "proc \<Rightarrow> int \<times> proc" where "sys_close s = (-1, s)"
definition sys_execve :: "proc \<Rightarrow> int \<times> proc" where "sys_execve s = fails ENOMEM s"
definition sys_faccessat :: "proc \<Rightarrow> int \<times> proc" where "sys_faccessat s = fails ENOSYS s"
definition sys_fork :: "proc \<Rightarrow> int \<times> proc" where "sys_fork s = fails EAGAIN s"
definition sys_fstat :: "u32 \<Rightarrow> proc \<Rightarrow> int \<times> proc" where "sys_fstat st s = (0, s\<lparr>st_mode := (st_mode s)(st := S_IFCHR)\<rparr>)"
definition sys_fstatat :: "proc \<Rightarrow> int \<times> proc" where "sys_fstatat s = fails ENOSYS s"
definition sys_ftime :: "proc \<Rightarrow> int \<times> proc" where "sys_ftime s = fails ENOSYS s"
definition sys_getcwd :: "proc \<Rightarrow> u32 \<times> proc" where "sys_getcwd s = (0, s\<lparr>errno := - ENOSYS\<rparr>)"
definition sys_getpid :: int where "sys_getpid = 1"
definition sys_gettimeofday :: "proc \<Rightarrow> int \<times> proc" where "sys_gettimeofday s = fails (- ENOSYS) s"
definition sys_isatty :: "int \<Rightarrow> int" where "sys_isatty file = of_bool (file = STDOUT_FILENO)"
definition sys_kill :: "proc \<Rightarrow> int \<times> proc" where "sys_kill s = fails EINVAL s"
definition sys_link :: "proc \<Rightarrow> int \<times> proc" where "sys_link s = fails EMLINK s"
definition sys_lseek :: int where "sys_lseek = 0"
definition sys_lstat :: "proc \<Rightarrow> int \<times> proc" where "sys_lstat s = fails ENOSYS s"
definition sys_open :: int where "sys_open = -1"
definition sys_openat :: "proc \<Rightarrow> int \<times> proc" where "sys_openat s = fails ENOSYS s"
definition sys_read :: int where "sys_read = 0"
definition sys_stat :: "u32 \<Rightarrow> proc \<Rightarrow> int \<times> proc" where "sys_stat st s = (0, s\<lparr>st_mode := (st_mode s)(st := S_IFCHR)\<rparr>)"
definition sys_sysconf :: int where "sys_sysconf = -1"
definition sys_times :: int where "sys_times = 0"
definition sys_unlink :: "proc \<Rightarrow> int \<times> proc" where "sys_unlink s = fails ENOENT s"
definition sys_utime :: "proc \<Rightarrow> int \<times> proc" where "sys_utime s = fails ENOSYS s"
definition sys_wait :: "proc \<Rightarrow> int \<times> proc" where "sys_wait s = fails ECHILD s"

subsection \<open>Output\<close>

definition PULP_STDOUT_ADDR :: u32 where "PULP_STDOUT_ADDR = 0x1A10F000"
definition STDOUT_PUTC_OFFSET :: u32 where "STDOUT_PUTC_OFFSET = 0x0"
definition APB_SOC_CORESTATUS_OFFSET :: u32 where "APB_SOC_CORESTATUS_OFFSET = 0xA0"
definition APB_SOC_STATUS_EOC_BIT :: nat where "APB_SOC_STATUS_EOC_BIT = 31"

definition pulp_core_id :: "'a machine_scheme \<Rightarrow> u32" where
  "pulp_core_id s = csr_read CSR_MHARTID s AND 0x01f"

definition pulp_cluster_id :: "'a machine_scheme \<Rightarrow> u32" where
  "pulp_cluster_id s = drop_bit 5 (csr_read CSR_MHARTID s) AND 0x3f"

datatype stdio_dev = Stdio_null | Stdio_fake | Stdio_uart u32 u32 u32

partial_function (option) stdio_wait_tx :: "('a machine_scheme \<Rightarrow> 'a machine_scheme) \<Rightarrow> u32 \<Rightarrow> 'a machine_scheme \<Rightarrow> 'a machine_scheme option" where
  "stdio_wait_tx env device s =
     (if readw (UDMA_UART device + UDMA_CHANNEL_TX_OFFSET + UDMA_CHANNEL_CFG_OFFSET) s AND UDMA_CORE_RX_CFG_EN_MASK \<noteq> 0
      then stdio_wait_tx env device (env s) else Some s)"

definition stdout_addr :: "'a machine_scheme \<Rightarrow> u32" where
  "stdout_addr s = PULP_STDOUT_ADDR + STDOUT_PUTC_OFFSET + push_bit 3 (pulp_core_id s) + push_bit 7 (pulp_cluster_id s)"

fun putc_loop :: "nat \<Rightarrow> u32 \<Rightarrow> proc \<Rightarrow> proc" where
  "putc_loop 0 p s = s"
| "putc_loop (Suc n) p s = putc_loop n (p + 1) (writew (ucast (mem8 s p)) (stdout_addr s) s)"

fun copy8 :: "nat \<Rightarrow> u32 \<Rightarrow> u32 \<Rightarrow> (u32 \<Rightarrow> u8) \<Rightarrow> u32 \<Rightarrow> u8" where
  "copy8 0 dst src m = m"
| "copy8 (Suc n) dst src m = copy8 n (dst + 1) (src + 1) (m(dst := m src))"

definition UDMA_CORE_TX_CFG_EN_MASK :: u32 where "UDMA_CORE_TX_CFG_EN_MASK = 0x10"
definition UDMA_CORE_TX_CFG_DATASIZE_MASK :: u32 where "UDMA_CORE_TX_CFG_DATASIZE_MASK = 0x6"
definition UDMA_CORE_CFG_DATASIZE_8 :: u32 where "UDMA_CORE_CFG_DATASIZE_8 = 0x0"

definition sys_write :: "(proc \<Rightarrow> proc) \<Rightarrow> stdio_dev \<Rightarrow> int \<Rightarrow> u32 \<Rightarrow> u32 \<Rightarrow> proc \<Rightarrow> (int \<times> proc) option" where
  "sys_write env stdio file ptr len s =
     (if file \<noteq> STDOUT_FILENO \<and> file \<noteq> STDERR_FILENO then Some (fails ENOSYS s)
      else case stdio of
        Stdio_fake \<Rightarrow> Some (sint len, putc_loop (unat len) ptr s)
      | Stdio_uart device buf bufsize \<Rightarrow>
          map_option (\<lambda>s.
            let s = s\<lparr>mem8 := copy8 (unat (if len < bufsize then len else bufsize)) buf ptr (mem8 s)\<rparr>;
                s = hal_uart_enqueue device buf len
                      (UDMA_CORE_TX_CFG_EN_MASK OR REG_SET 1 UDMA_CORE_TX_CFG_DATASIZE_MASK UDMA_CORE_CFG_DATASIZE_8) TX_CHANNEL s in
            (sint (if len < bufsize then len else bufsize), s)) (stdio_wait_tx env device s)
      | Stdio_null \<Rightarrow> Some (sint len, s))"

definition unimplemented_syscall :: "(proc \<Rightarrow> proc) \<Rightarrow> stdio_dev \<Rightarrow> u32 \<Rightarrow> proc \<Rightarrow> proc option" where
  "unimplemented_syscall env stdio msg s = map_option snd (sys_write env stdio STDOUT_FILENO msg 34 s)"

text \<open>_exit does not return: the state is the one in which it waits for ever.\<close>

definition sys_exit :: "(proc \<Rightarrow> proc) \<Rightarrow> stdio_dev \<Rightarrow> int \<Rightarrow> proc \<Rightarrow> proc option" where
  "sys_exit env stdio exit_status s =
     map_option (writew (word_of_int exit_status OR push_bit APB_SOC_STATUS_EOC_BIT 1) (PULP_APB_SOC_CTRL_ADDR + APB_SOC_CORESTATUS_OFFSET))
       (case stdio of Stdio_uart device _ _ \<Rightarrow> stdio_wait_tx env device s | _ \<Rightarrow> Some s)"

subsection \<open>The program break\<close>

definition sys_brk :: "u32 \<Rightarrow> proc \<Rightarrow> int \<times> proc" where
  "sys_brk addr s = (0, s\<lparr>brk := addr\<rparr>)"

definition sys_sbrk :: "u32 \<Rightarrow> u32 \<Rightarrow> proc \<Rightarrow> u32 \<times> proc" where
  "sys_sbrk heap_end incr s =
     (let old_brk = brk s in
      if heap_end \<le> brk s + incr then (-1, s\<lparr>errno := ENOMEM\<rparr>)
      else (old_brk, s\<lparr>brk := brk s + incr\<rparr>))"

end
