(* ===== verification/SyscallsProps.thy ===== *)
theory SyscallsProps
  imports Syscalls
begin

text \<open>
  Properties of the system calls: the blocks that the program break hands out, and what is written to
  which device.
\<close>

subsection \<open>The program break\<close>

text \<open>A run of requests, positive or negative: the blocks still held, the lowest break so far and the state. A request of 0 or more that is granted
  adds a block; a negative one that is granted takes what lies above the new break off the blocks.\<close>

type_synonym held = "(nat \<times> nat) list"

definition cut_above :: "nat \<Rightarrow> held \<Rightarrow> held" where
  "cut_above e bs = map (\<lambda>(p, n). (p, min n (e - p))) (filter (\<lambda>(p, n). p < e) bs)"

fun sbrk_run :: "u32 \<Rightarrow> u32 list \<Rightarrow> held \<times> nat \<times> proc \<Rightarrow> held \<times> nat \<times> proc" where
  "sbrk_run heap_end [] x = x"
| "sbrk_run heap_end (i # is) (bs, low, s) =
     (let (p, s) = sys_sbrk heap_end i s in
      if p = -1 then sbrk_run heap_end is (bs, low, s)
      else if 0 \<le> sint i then sbrk_run heap_end is (bs @ [(unat p, unat i)], low, s)
      else sbrk_run heap_end is (cut_above (unat (brk s)) bs, min low (unat (brk s)), s))"

definition held_ok :: "u32 \<Rightarrow> held \<times> nat \<times> proc \<Rightarrow> bool" where
  "held_ok heap_end x \<longleftrightarrow>
     (case x of (bs, low, s) \<Rightarrow> unat (brk s) < unat heap_end \<and> low \<le> unat (brk s)
        \<and> sorted_wrt (\<lambda>b c. fst b + snd b \<le> fst c) bs \<and> (\<forall>b \<in> set bs. fst b + snd b \<le> unat (brk s))
        \<and> (\<Union>b \<in> set bs. {fst b..<fst b + snd b}) = {low..<unat (brk s)})"

lemma sbrk_step:
  fixes i :: u32
  assumes "unat (brk s) < unat heap_end" "unat heap_end \<le> 2 ^ 31"
  defines "e \<equiv> int (unat (brk s)) + sint i"
  shows "sys_sbrk heap_end i s = (if 0 \<le> e \<and> e < int (unat heap_end) then (brk s, s\<lparr>brk := word_of_int e\<rparr>) else (-1, s\<lparr>errno := ENOMEM\<rparr>))"
    and "brk s \<noteq> -1" and "0 \<le> e \<Longrightarrow> e < int (unat heap_end) \<Longrightarrow> int (unat (word_of_int e :: u32)) = e"
proof -
  have r: "- (2 ^ 31) \<le> sint i" "sint i < 2 ^ 31" using sint_range_size [of i] by (simp_all add: word_size)
  have s: "brk s + i = word_of_int e" by (simp add: e_def)
  have "unat (brk s) < 2 ^ 31" using assms(1,2) by (rule less_le_trans)
  then have "int (unat (brk s)) < 2 ^ 31" unfolding zless_nat_eq_int_zless [symmetric] by simp
  then have e: "- (2 ^ 31) \<le> e" "e < 2 ^ 32" unfolding e_def using r by (simp_all del: of_nat_unat uint_nat)
  have v: "int (unat (word_of_int e :: u32)) = (if 0 \<le> e then e else e + 2 ^ 32)"
  proof (cases "0 \<le> e")
    case False
    have "(e + 2 ^ 32) mod 2 ^ 32 = e + 2 ^ 32" using False e by (intro mod_pos_pos_trivial) auto
    then have "e mod 2 ^ 32 = e + 2 ^ 32" by simp
    then show ?thesis using False by (simp add: unsigned_of_int take_bit_eq_mod)
  qed (use e in \<open>simp add: unsigned_of_int take_bit_eq_mod\<close>)
  show "sys_sbrk heap_end i s = (if 0 \<le> e \<and> e < int (unat heap_end) then (brk s, s\<lparr>brk := word_of_int e\<rparr>) else (-1, s\<lparr>errno := ENOMEM\<rparr>))"
  proof -
    have "heap_end \<le> brk s + i \<longleftrightarrow> \<not> (0 \<le> e \<and> e < int (unat heap_end))"
    proof -
      have "int (unat heap_end) \<le> int (2 ^ 31)" using assms(2) by (simp only: of_nat_le_iff)
      then have "uint heap_end \<le> 2 ^ 31" by simp
      then show ?thesis unfolding s word_le_def using v e by (auto split: if_splits)
    qed
    then show ?thesis by (simp add: sys_sbrk_def s)
  qed
  show "brk s \<noteq> -1" using assms(1,2) by (auto simp: unsigned_minus_1_eq_mask mask_eq_exp_minus_1)
  show "0 \<le> e \<Longrightarrow> e < int (unat heap_end) \<Longrightarrow> int (unat (word_of_int e :: u32)) = e" using v by simp
qed

lemma cut_above_ok:
  assumes "sorted_wrt (\<lambda>b c. fst b + snd b \<le> fst c) bs"
  shows "sorted_wrt (\<lambda>b c. fst b + snd b \<le> fst c) (cut_above e bs)" "\<forall>b \<in> set (cut_above e bs). fst b + snd b \<le> e"
    "(\<Union>b \<in> set (cut_above e bs). {fst b..<fst b + snd b}) = (\<Union>b \<in> set bs. {fst b..<fst b + snd b}) \<inter> {..<e}"
proof -
  have "sorted_wrt (\<lambda>b c. fst b + snd b \<le> fst c) (filter (\<lambda>(p, n). p < e) bs)" using assms by (rule sorted_wrt_filter)
  then show "sorted_wrt (\<lambda>b c. fst b + snd b \<le> fst c) (cut_above e bs)"
    unfolding cut_above_def sorted_wrt_map by (rule sorted_wrt_mono_rel [rotated]) auto
  show "\<forall>b \<in> set (cut_above e bs). fst b + snd b \<le> e" by (auto simp: cut_above_def min_def)
  show "(\<Union>b \<in> set (cut_above e bs). {fst b..<fst b + snd b}) = (\<Union>b \<in> set bs. {fst b..<fst b + snd b}) \<inter> {..<e}"
  proof (intro set_eqI iffI)
    fix x assume "x \<in> (\<Union>b \<in> set (cut_above e bs). {fst b..<fst b + snd b})"
    then obtain p n where "(p, n) \<in> set bs" "p < e" "p \<le> x" "x < p + min n (e - p)" by (auto simp: cut_above_def)
    then show "x \<in> (\<Union>b \<in> set bs. {fst b..<fst b + snd b}) \<inter> {..<e}" by (intro IntI UN_I [of "(p, n)"]) auto
  next
    fix x assume "x \<in> (\<Union>b \<in> set bs. {fst b..<fst b + snd b}) \<inter> {..<e}"
    then obtain p n where b: "(p, n) \<in> set bs" "p \<le> x" "x < p + n" "x < e" by auto
    then have "(p, min n (e - p)) \<in> set (cut_above e bs)" by (force simp: cut_above_def)
    then show "x \<in> (\<Union>b \<in> set (cut_above e bs). {fst b..<fst b + snd b})" using b by (intro UN_I) auto
  qed
qed

lemma sbrk_run_ok:
  assumes "unat heap_end \<le> 2 ^ 31" "held_ok heap_end x"
  shows "held_ok heap_end (sbrk_run heap_end is x)"
  using assms(2)
proof (induction "is" arbitrary: x)
  case (Cons i "is")
  obtain bs low s where x: "x = (bs, low, s)" by (cases x)
  note h = Cons.prems [unfolded x held_ok_def prod.case]
  let ?e = "int (unat (brk s)) + sint i" let ?t = "s\<lparr>brk := word_of_int ?e\<rparr>"
  note st = sbrk_step(1) [OF conjunct1 [OF h] assms(1), of i] sbrk_step(2) [OF conjunct1 [OF h] assms(1)]
    sbrk_step(3) [OF conjunct1 [OF h] assms(1), of i]
  show ?case
  proof (cases "0 \<le> ?e \<and> ?e < int (unat heap_end)")
    case False
    have "held_ok heap_end (bs, low, s\<lparr>errno := ENOMEM\<rparr>)" using h by (simp add: held_ok_def)
    from Cons.IH [OF this] show ?thesis using st(1) [unfolded if_not_P [OF False]] x by simp
  next
    case True
    then have v: "int (unat (word_of_int ?e :: u32)) = ?e" using st(3) by blast
    have below: "unat (brk ?t) < unat heap_end" using v True by (simp flip: of_nat_less_iff [where 'a = int] del: of_int_add)
    have g: "sys_sbrk heap_end i s = (brk s, ?t)" using st(1) [unfolded if_P [OF True]] .
    show ?thesis
    proof (cases "0 \<le> sint i")
      case True
      then have "uint i = sint i" using sint_range_size [of i] by (simp add: uint_sint [of i] take_bit_eq_mod word_size del: uint_sint)
      then have "int (unat (brk ?t)) = int (unat (brk s) + unat i)" using v by simp
      then have "unat (brk ?t) = unat (brk s) + unat i" by (simp only: of_nat_eq_iff)
      then have "held_ok heap_end (bs @ [(unat (brk s), unat i)], low, ?t)"
        using h below by (auto simp: held_ok_def sorted_wrt_append simp del: of_int_add)
      from Cons.IH [OF this] show ?thesis using g st(2) True x by simp
    next
      case False
      let ?b = "unat (brk ?t)"
      have "int ?b < int (unat (brk s))" using v False by simp
      then have lt: "?b < unat (brk s)" by (simp only: of_nat_less_iff)
      have "held_ok heap_end (cut_above ?b bs, min low ?b, ?t)"
        using h below lt cut_above_ok [of bs ?b] by (auto simp: held_ok_def simp del: of_int_add)
      from Cons.IH [OF this] show ?thesis using g st(2) False x by (simp add: Let_def)
    qed
  qed
qed simp

lemma sbrk_run_low:
  assumes "\<forall>i \<in> set is. 0 \<le> sint i"
  shows "fst (snd (sbrk_run heap_end is x)) = fst (snd x)"
  using assms by (induction "is" arbitrary: x) (auto simp: case_prod_beta Let_def)

text \<open>C33: whatever the sequence of requests, positive or negative, the blocks that _sbrk has granted and that no negative request has
  taken back never overlap; they fill exactly the bytes from the lowest break so far to the present one, which stays below the end of the heap. The
  next request, of either sign, is refused, with errno ENOMEM and no other effect, exactly when the new break would not lie between address 0 and the end of the heap. While no
  request is negative the lowest break is the one at the start; a negative one is not checked against it, so the blocks granted after it
  may lie below the heap.\<close>
theorem sbrk_blocks:
  assumes "unat (brk s) < unat heap_end" "unat heap_end \<le> 2 ^ 31" "sbrk_run heap_end is ([], unat (brk s), s) = (bs, low, t)"
  shows "sorted_wrt (\<lambda>b c. fst b + snd b \<le> fst c) bs \<and> (\<Union>b \<in> set bs. {fst b..<fst b + snd b}) = {low..<unat (brk t)}
    \<and> low \<le> unat (brk t) \<and> unat (brk t) < unat heap_end \<and> ((\<forall>i \<in> set is. 0 \<le> sint i) \<longrightarrow> low = unat (brk s))
    \<and> sys_sbrk heap_end n t =
        (let e = int (unat (brk t)) + sint n in
         if 0 \<le> e \<and> e < int (unat heap_end) then (brk t, t\<lparr>brk := word_of_int e\<rparr>) else (-1, t\<lparr>errno := ENOMEM\<rparr>))"
proof -
  have "held_ok heap_end ([], unat (brk s), s)" using assms(1) by (simp add: held_ok_def)
  from sbrk_run_ok [OF assms(2) this, of "is"] have h: "held_ok heap_end (bs, low, t)" using assms(3) by simp
  then have "unat (brk t) < unat heap_end" by (simp add: held_ok_def)
  from sbrk_step(1) [OF this assms(2), of n] show ?thesis
    using h sbrk_run_low [of "is" heap_end "([], unat (brk s), s)"] assms(3) by (auto simp: held_ok_def Let_def)
qed

definition demo_proc :: proc where
  "demo_proc = \<lparr>csrs = \<lambda>_. 0x23, regs = \<lambda>_. 0, io_log = [], errno = 0, brk = 0x1C010000, st_mode = \<lambda>_. 0, mem8 = \<lambda>a. ucast a\<rparr>"

lemma sbrk_blocks_witness:
  "\<exists>t. sbrk_run 0x1C011000 [0x800, 0x900, -0x400, 0xBFF] ([], 0x1C010000, demo_proc) = ([(0x1C010000, 0x400), (0x1C010400, 0xBFF)], 0x1C010000, t)
     \<and> sys_sbrk 0x1C011000 1 t = (-1, t\<lparr>errno := ENOMEM\<rparr>)"
proof -
  let ?r = "sbrk_run 0x1C011000 [0x800, 0x900, -0x400, 0xBFF] ([], 0x1C010000, demo_proc)"
  obtain bs low t where r: "?r = (bs, low, t)" by (cases ?r)
  have v: "bs = [(0x1C010000, 0x400), (0x1C010400, 0xBFF)]" "low = 0x1C010000" "brk t = 0x1C010FFF"
    using r by (auto simp: demo_proc_def sys_sbrk_def Let_def word_le_nat_alt cut_above_def)
  show ?thesis using sbrk_blocks [of demo_proc "0x1C011000" "[0x800, 0x900, -0x400, 0xBFF]" bs low t 1] r v
    by (simp add: demo_proc_def Let_def)
qed

subsection \<open>Output\<close>

lemma copy8_frame: "(\<And>i. i < n \<Longrightarrow> a \<noteq> dst + word_of_nat i) \<Longrightarrow> copy8 n dst src m a = m a"
proof (induction n arbitrary: dst src m)
  case (Suc n)
  have "a \<noteq> dst + 1 + word_of_nat i" if "i < n" for i
    using Suc.prems [of "Suc i"] that by (simp add: add.assoc)
  moreover have "a \<noteq> dst" using Suc.prems [of 0] by simp
  ultimately show ?case using Suc.IH by simp
qed simp

lemma copy8_copies:
  assumes "i < n" "n \<le> 2 ^ 31" "\<And>i j. i < n \<Longrightarrow> j < n \<Longrightarrow> src + word_of_nat i \<noteq> dst + word_of_nat j"
  shows "copy8 n dst src m (dst + word_of_nat i) = m (src + word_of_nat i)"
  using assms
proof (induction n arbitrary: i dst src m)
  case (Suc n)
  show ?case
  proof (cases i)
    case 0
    have "dst \<noteq> dst + 1 + word_of_nat j" if "j < n" for j
    proof -
      have "unat (word_of_nat (Suc j) :: u32) = Suc j" using that Suc.prems(2) by (intro unat_small_nat) simp
      then have "(word_of_nat (Suc j) :: u32) \<noteq> 0" by (metis nat.distinct(1) unat_0)
      then show ?thesis by (simp add: add.assoc)
    qed
    then show ?thesis by (simp add: 0 copy8_frame)
  next
    case (Suc k)
    have d: "src + 1 + word_of_nat i \<noteq> dst + 1 + word_of_nat j" if "i < n" "j < n" for i j
      using Suc.prems(3) [of "Suc i" "Suc j"] that by (simp add: add.assoc)
    have "copy8 n (dst + 1) (src + 1) (m(dst := m src)) (dst + 1 + word_of_nat k) = (m(dst := m src)) (src + 1 + word_of_nat k)"
      by (rule Suc.IH) (use Suc Suc.prems d in auto)
    moreover have "src + 1 + word_of_nat k \<noteq> dst" using Suc.prems(3) [of "Suc k" 0] Suc Suc.prems(1) by (simp add: add.assoc)
    ultimately show ?thesis by (simp add: Suc add.assoc)
  qed
qed simp

lemma putc_loop_log:
  "io_log (putc_loop n p s) = io_log s @ map (\<lambda>i. (stdout_addr s, ucast (mem8 s (p + word_of_nat i)))) [0..<n]"
proof (induction n arbitrary: p s)
  case (Suc n)
  define u where "u = writew (ucast (mem8 s p)) (stdout_addr s) s"
  have u: "stdout_addr u = stdout_addr s" "mem8 u = mem8 s" "io_log u = io_log s @ [(stdout_addr s, ucast (mem8 s p))]"
    by (simp_all add: u_def writew_def stdout_addr_def pulp_core_id_def pulp_cluster_id_def csr_read_def)
  have "[0..<Suc n] = 0 # map Suc [0..<n]" by (simp add: upt_conv_Cons map_Suc_upt del: upt_Suc)
  then show ?case by (simp add: Suc.IH u_def [symmetric] u comp_def add.assoc del: upt_Suc)
qed simp

lemma uart_programmed:
  "let t = hal_uart_enqueue device buf sz (UDMA_CORE_TX_CFG_EN_MASK OR REG_SET 1 UDMA_CORE_TX_CFG_DATASIZE_MASK UDMA_CORE_CFG_DATASIZE_8) TX_CHANNEL s in
   regs t (uart_tx device) = buf \<and> regs t (uart_tx device + 4) = sz \<and> regs t (uart_tx device + 8) = 0x10"
  by (simp add: Let_def hal_uart_enqueue_def uart_udma_channel_set_def udma_enqueue_channel_def UDMA_CHANNEL_SADDR_OFFSET_def
      UDMA_CHANNEL_SIZE_OFFSET_def UDMA_CHANNEL_CFG_OFFSET_def UDMA_CORE_TX_CFG_EN_MASK_def REG_SET_def UDMA_CORE_CFG_DATASIZE_8_def UDMA_CORE_RX_CFG_EN_MASK_def)

lemma hal_uart_mem8 [simp]: "mem8 (hal_uart_enqueue device buf sz cfg c s) = mem8 s"
  by (cases c) (simp_all add: hal_uart_enqueue_def uart_udma_channel_set_def udma_enqueue_channel_def writew_def)

text \<open>The system call _write refuses every file but stdout and stderr with ENOSYS. On the fake device it writes the bytes one by one, in order, to the word of
  the calling core and returns their number. On the UART it waits for the channel, copies as many
  bytes as its buffer holds, returns that number, and starts a transfer from the buffer; but the transfer has the length that was
  asked for, so that for a longer text it goes on past the buffer.\<close>
lemma stdio_write:
  assumes "stdio_wait_tx env device s = Some u" "unat bufsize < 2 ^ 31"
    "\<And>i j. i < min (unat len) (unat bufsize) \<Longrightarrow> j < min (unat len) (unat bufsize) \<Longrightarrow> ptr + word_of_nat i \<noteq> buf + word_of_nat j"
    "file \<in> {STDOUT_FILENO, STDERR_FILENO}" "other \<notin> {STDOUT_FILENO, STDERR_FILENO}"
  shows "sys_write env dev other ptr len s = Some (-1, s\<lparr>errno := ENOSYS\<rparr>)
     \<and> (\<exists>t. sys_write env Stdio_fake file ptr len s = Some (sint len, t)
          \<and> io_log t = io_log s @ map (\<lambda>i. (stdout_addr s, ucast (mem8 s (ptr + word_of_nat i)))) [0..<unat len])
     \<and> (\<exists>t. sys_write env (Stdio_uart device buf bufsize) file ptr len s = Some (int (min (unat len) (unat bufsize)), t)
          \<and> (\<forall>i < min (unat len) (unat bufsize). mem8 t (buf + word_of_nat i) = mem8 u (ptr + word_of_nat i))
          \<and> (\<forall>a. (\<forall>i < min (unat len) (unat bufsize). a \<noteq> buf + word_of_nat i) \<longrightarrow> mem8 t a = mem8 u a)
          \<and> regs t (uart_tx device) = buf \<and> regs t (uart_tx device + 4) = len \<and> regs t (uart_tx device + 8) = 0x10)"
proof -
  define k where "k = (if len < bufsize then len else bufsize)"
  have k: "unat k = min (unat len) (unat bufsize)" by (simp add: k_def word_less_nat_alt min_def)
  have small: "unat k < 2 ^ 31" using assms(2) by (simp add: k)
  then have si: "sint k = int (min (unat len) (unat bufsize))"
    unfolding k [symmetric] by (intro sint_small) simp
  define v where "v = u\<lparr>mem8 := copy8 (unat k) buf ptr (mem8 u)\<rparr>"
  define t where "t = hal_uart_enqueue device buf len
     (UDMA_CORE_TX_CFG_EN_MASK OR REG_SET 1 UDMA_CORE_TX_CFG_DATASIZE_MASK UDMA_CORE_CFG_DATASIZE_8) TX_CHANNEL v"
  have w: "sys_write env (Stdio_uart device buf bufsize) file ptr len s = Some (sint k, t)"
    using assms(1,4) by (auto simp: sys_write_def k_def [symmetric] v_def [symmetric] Let_def) (simp_all add: t_def)
  have c: "copy8 (unat k) buf ptr (mem8 u) (buf + word_of_nat i) = mem8 u (ptr + word_of_nat i)" if "i < unat k" for i
    by (rule copy8_copies [OF that]) (use small assms(3) k in auto)
  show ?thesis
  proof (intro conjI)
    show "sys_write env dev other ptr len s = Some (-1, s\<lparr>errno := ENOSYS\<rparr>)"
      using assms(5) by (simp add: sys_write_def fails_def)
    show "\<exists>t. sys_write env Stdio_fake file ptr len s = Some (sint len, t)
          \<and> io_log t = io_log s @ map (\<lambda>i. (stdout_addr s, ucast (mem8 s (ptr + word_of_nat i)))) [0..<unat len]"
      using assms(4) by (auto simp: sys_write_def putc_loop_log)
    show "\<exists>t. sys_write env (Stdio_uart device buf bufsize) file ptr len s = Some (int (min (unat len) (unat bufsize)), t)
          \<and> (\<forall>i < min (unat len) (unat bufsize). mem8 t (buf + word_of_nat i) = mem8 u (ptr + word_of_nat i))
          \<and> (\<forall>a. (\<forall>i < min (unat len) (unat bufsize). a \<noteq> buf + word_of_nat i) \<longrightarrow> mem8 t a = mem8 u a)
          \<and> regs t (uart_tx device) = buf \<and> regs t (uart_tx device + 4) = len \<and> regs t (uart_tx device + 8) = 0x10"
      using uart_programmed [of device buf len v] c
      by (intro exI [of _ t]) (simp add: w si k [symmetric] t_def [symmetric] Let_def, simp add: t_def v_def copy8_frame)
  qed
qed

lemma stdio_write_witness:
  "\<exists>t. sys_write (\<lambda>s. s) (Stdio_uart 0 0x1C001000 64) STDOUT_FILENO 0x1C002000 100 demo_proc = Some (64, t)
     \<and> regs t (uart_tx 0) = 0x1C001000 \<and> regs t (uart_tx 0 + 4) = 100"
proof -
  have r: "stdio_wait_tx (\<lambda>s. s) 0 demo_proc = Some demo_proc"
    by (subst stdio_wait_tx.simps) (simp add: readw_def demo_proc_def)
  have d: "(0x1C002000 :: u32) + word_of_nat i \<noteq> 0x1C001000 + word_of_nat j" if "i < 64" "j < 64" for i j
  proof
    assume "(0x1C002000 :: u32) + word_of_nat i = 0x1C001000 + word_of_nat j"
    then have "(word_of_nat (0x1000 + i) :: u32) = word_of_nat j" by (simp add: algebra_simps)
    then have "unat (word_of_nat (0x1000 + i) :: u32) = unat (word_of_nat j :: u32)" by simp
    then show False using that by (simp only: unat_small_nat)
  qed
  show ?thesis
    using stdio_write [OF r, of 64 100 "0x1C002000" "0x1C001000" STDOUT_FILENO 5 Stdio_null] d
    by (auto simp: STDOUT_FILENO_def STDERR_FILENO_def)
qed

end
