(* ===== verification/SpinLock.thy ===== *)
theory SpinLock
  imports Prelude
begin

text \<open>
  Cores that run sections under one test-and-set spinlock: each core spins until its attempt
  finds the lock free, runs its section, and releases the lock. The steps of the cores interleave
  freely. The interface asks of a lock and its sections what makes every interleaving keep an invariant
  of the shared state and no two cores be inside at once.
\<close>

datatype 'op lock_pc = Lk_idle | Lk_spin 'op | Lk_inside 'op | Lk_leaving 'op

fun lk_holds :: "'op lock_pc \<Rightarrow> bool" where
  "lk_holds (Lk_inside _) = True"
| "lk_holds (Lk_leaving _) = True"
| "lk_holds _ = False"

inductive lock_step ::
  "('s \<Rightarrow> bool \<times> 's) \<Rightarrow> ('s \<Rightarrow> 's) \<Rightarrow> ('op \<Rightarrow> 's \<Rightarrow> 's \<Rightarrow> bool) \<Rightarrow> (nat \<Rightarrow> 'op lock_pc) \<times> 's \<Rightarrow> (nat \<Rightarrow> 'op lock_pc) \<times> 's \<Rightarrow> bool"
  for attempt unlock sect where
  start: "pc a = Lk_idle \<Longrightarrow> lock_step attempt unlock sect (pc, s) (pc(a := Lk_spin op), s)"
| spin: "pc a = Lk_spin op \<Longrightarrow> attempt s = (False, s') \<Longrightarrow> lock_step attempt unlock sect (pc, s) (pc, s')"
| enter: "pc a = Lk_spin op \<Longrightarrow> attempt s = (True, s') \<Longrightarrow> lock_step attempt unlock sect (pc, s) (pc(a := Lk_inside op), s')"
| run: "pc a = Lk_inside op \<Longrightarrow> sect op s s' \<Longrightarrow> lock_step attempt unlock sect (pc, s) (pc(a := Lk_leaving op), s')"
| leave: "pc a = Lk_leaving op \<Longrightarrow> lock_step attempt unlock sect (pc, s) (pc(a := Lk_idle), unlock s)"

inductive_cases lock_stepE: "lock_step attempt unlock sect (pc, s) c"

definition lock_reaches ::
  "('s \<Rightarrow> bool \<times> 's) \<Rightarrow> ('s \<Rightarrow> 's) \<Rightarrow> ('op \<Rightarrow> 's \<Rightarrow> 's \<Rightarrow> bool) \<Rightarrow> 's \<Rightarrow> (nat \<Rightarrow> 'op lock_pc) \<Rightarrow> 's \<Rightarrow> bool" where
  "lock_reaches attempt unlock sect s pc u \<longleftrightarrow> (lock_step attempt unlock sect)\<^sup>*\<^sup>* (\<lambda>_. Lk_idle, s) (pc, u)"

lemma lock_reaches_run:
  assumes "lock_reaches attempt unlock sect s (\<lambda>_. Lk_idle) u" "attempt u = (True, v)" "sect op v w"
  shows "lock_reaches attempt unlock sect s (\<lambda>_. Lk_idle) (unlock w)"
proof -
  let ?R = "lock_step attempt unlock sect" and ?pc = "\<lambda>x. (\<lambda>_. Lk_idle)(0 := x)"
  have "?R (\<lambda>_. Lk_idle, u) (?pc (Lk_spin op), u)" by (rule start) simp
  moreover have "?R (?pc (Lk_spin op), u) (?pc (Lk_inside op), v)"
    using enter [of "?pc (Lk_spin op)" 0 op attempt u v] assms(2) by simp
  moreover have "?R (?pc (Lk_inside op), v) (?pc (Lk_leaving op), w)"
    using run [of "?pc (Lk_inside op)" 0 op sect v w] assms(3) by simp
  moreover have "?R (?pc (Lk_leaving op), w) (\<lambda>_. Lk_idle, unlock w)"
    using leave [of "?pc (Lk_leaving op)" 0 op attempt unlock sect w] by (simp add: fun_upd_idem)
  ultimately show ?thesis
    using assms(1) unfolding lock_reaches_def by (meson rtranclp.rtrancl_into_rtrancl)
qed

locale spin_lock =
  fixes attempt :: "'s \<Rightarrow> bool \<times> 's"
    and unlock :: "'s \<Rightarrow> 's"
    and sect :: "'op \<Rightarrow> 's \<Rightarrow> 's \<Rightarrow> bool"
    and lock_free :: "'s \<Rightarrow> bool"
    and shared_ok :: "'s \<Rightarrow> bool"
  assumes attempt_tells: "shared_ok s \<Longrightarrow> fst (attempt s) \<longleftrightarrow> lock_free s"
    and attempt_takes: "shared_ok s \<Longrightarrow> shared_ok (snd (attempt s)) \<and> \<not> lock_free (snd (attempt s))"
    and sect_keeps: "shared_ok s \<Longrightarrow> \<not> lock_free s \<Longrightarrow> sect op s s' \<Longrightarrow> shared_ok s' \<and> \<not> lock_free s'"
    and unlock_frees: "shared_ok s \<Longrightarrow> \<not> lock_free s \<Longrightarrow> shared_ok (unlock s) \<and> lock_free (unlock s)"
begin

definition held_once :: "(nat \<Rightarrow> 'op lock_pc) \<times> 's \<Rightarrow> bool" where
  "held_once c \<longleftrightarrow> shared_ok (snd c) \<and> (\<forall>a b. lk_holds (fst c a) \<and> lk_holds (fst c b) \<longrightarrow> a = b)
     \<and> (lock_free (snd c) \<longleftrightarrow> (\<forall>a. \<not> lk_holds (fst c a)))"

lemma held_once_step: "lock_step attempt unlock sect c c' \<Longrightarrow> held_once c \<Longrightarrow> held_once c'"
proof (induction rule: lock_step.induct)
  case (start pc a s op)
  then have "lk_holds ((pc(a := Lk_spin op)) b) \<longleftrightarrow> lk_holds (pc b)" for b by simp
  then show ?case using start by (simp add: held_once_def del: fun_upd_apply)
next
  case (spin pc a op s s')
  then have "\<not> lock_free s" using attempt_tells [of s] by (simp add: held_once_def)
  then show ?case using spin attempt_takes [of s] by (auto simp: held_once_def)
next
  case (enter pc a op s s')
  then have "lock_free s" using attempt_tells [of s] by (simp add: held_once_def)
  then show ?case using enter attempt_takes [of s] by (auto simp: held_once_def)
next
  case (run pc a op s s')
  have h: "lk_holds (pc a)" using run by simp
  have "\<not> lock_free s" using run(3) h by (metis held_once_def fst_conv snd_conv)
  then have "shared_ok s' \<and> \<not> lock_free s'" using run sect_keeps [OF _ _ run(2)] by (simp add: held_once_def)
  then show ?case using run h by (auto simp: held_once_def split: if_splits)
next
  case (leave pc a op s)
  have h: "lk_holds (pc a)" using leave by simp
  have "\<not> lock_free s" using leave(2) h by (metis held_once_def fst_conv snd_conv)
  then have "shared_ok (unlock s) \<and> lock_free (unlock s)" using leave unlock_frees by (simp add: held_once_def)
  then show ?case using leave h by (auto simp: held_once_def)
qed

lemma lock_safe:
  assumes "shared_ok s" "lock_free s" "lock_reaches attempt unlock sect s pc u"
  shows "shared_ok u" "lk_holds (pc a) \<Longrightarrow> lk_holds (pc b) \<Longrightarrow> a = b" "lock_free u \<longleftrightarrow> (\<forall>a. \<not> lk_holds (pc a))"
proof -
  have "held_once (\<lambda>_. Lk_idle, s)" using assms by (simp add: held_once_def)
  moreover have "held_once c'" if "(lock_step attempt unlock sect)\<^sup>*\<^sup>* c c'" "held_once c" for c c'
    using that by (induction rule: rtranclp_induct) (auto intro: held_once_step)
  ultimately have "held_once (pc, u)" using assms(3) unfolding lock_reaches_def by blast
  then show "shared_ok u" "lk_holds (pc a) \<Longrightarrow> lk_holds (pc b) \<Longrightarrow> a = b" "lock_free u \<longleftrightarrow> (\<forall>a. \<not> lk_holds (pc a))"
    by (auto simp: held_once_def)
qed

end

end
