(* ===== verification/ClusterProps.thy ===== *)
theory ClusterProps
  imports ClusterOps SpinLock "HOL-Library.Multiset" "HOL-Library.Sublist"
begin

text \<open>
  The queue between the fabric controller and the cluster: every interleaving of the cores that
  push, pop and poll under its spinlock follows one sequence of operations on an abstract queue,
  which holds at most two tasks and loses the others.
\<close>

subsection \<open>The abstract queue\<close>

datatype cl_op = Cl_push u32 | Cl_pop | Cl_poll

type_synonym cl_q = "u32 list \<times> bool \<times> u32 list \<times> u32 list"

fun cl_spec_step :: "cl_q \<Rightarrow> cl_op \<Rightarrow> cl_q" where
  "cl_spec_step (q, stale, out, lost) (Cl_push t) =
     (if q = [] then ([t], False, out, lost)
      else if stale then (q, stale, out, lost @ [t])
      else ([hd q, t], False, out, lost @ tl q))"
| "cl_spec_step (q, stale, out, lost) Cl_pop = (tl q, tl q \<noteq> [], out @ [hd q], lost)"
| "cl_spec_step (q, stale, out, lost) Cl_poll = (q, stale, out, lost)"

definition cl_spec :: "cl_op list \<Rightarrow> cl_q" where
  "cl_spec h = foldl cl_spec_step ([], False, [], []) h"

abbreviation cl_queued :: "cl_op list \<Rightarrow> u32 list" where "cl_queued h \<equiv> fst (cl_spec h)"
abbreviation cl_stale :: "cl_op list \<Rightarrow> bool" where "cl_stale h \<equiv> fst (snd (cl_spec h))"
abbreviation cl_popped :: "cl_op list \<Rightarrow> u32 list" where "cl_popped h \<equiv> fst (snd (snd (cl_spec h)))"
abbreviation cl_lost :: "cl_op list \<Rightarrow> u32 list" where "cl_lost h \<equiv> snd (snd (snd (cl_spec h)))"

fun cl_pushed :: "cl_op list \<Rightarrow> u32 list" where
  "cl_pushed [] = []"
| "cl_pushed (Cl_push t # h) = t # cl_pushed h"
| "cl_pushed (_ # h) = cl_pushed h"

definition cl_allowed :: "cl_op list \<Rightarrow> cl_op \<Rightarrow> bool" where
  "cl_allowed h op = (case op of Cl_push t \<Rightarrow> t \<noteq> 0 \<and> t \<notin> set (cl_queued h) | Cl_pop \<Rightarrow> cl_queued h \<noteq> [] | Cl_poll \<Rightarrow> True)"

text \<open>What an operation answers in the state the abstract queue is in, and the answers to a sequence of operations.\<close>

datatype cl_answer = Cl_done | Cl_task u32 | Cl_has bool

fun cl_spec_answer :: "cl_q \<Rightarrow> cl_op \<Rightarrow> cl_answer" where
  "cl_spec_answer q (Cl_push t) = Cl_done"
| "cl_spec_answer q Cl_pop = Cl_task (hd (fst q))"
| "cl_spec_answer q Cl_poll = Cl_has (fst q \<noteq> [])"

definition cl_answers :: "cl_op list \<Rightarrow> cl_answer list" where
  "cl_answers ops = map (\<lambda>k. cl_spec_answer (cl_spec (take k ops)) (ops ! k)) [0..<length ops]"

text \<open>The tasks that pops have answered with.\<close>

fun cl_taken :: "(cl_op \<times> cl_answer) list \<Rightarrow> u32 list" where
  "cl_taken [] = []"
| "cl_taken ((op, Cl_task t) # h) = t # cl_taken h"
| "cl_taken ((op, _) # h) = cl_taken h"

text \<open>No push meets two queued tasks or the one left after a pop from two.\<close>

fun cl_two_at_most :: "cl_op list \<Rightarrow> cl_op list \<Rightarrow> bool" where
  "cl_two_at_most h [] = True"
| "cl_two_at_most h (op # ops) =
     ((case op of Cl_push t \<Rightarrow> length (cl_queued h) \<le> 1 \<and> \<not> cl_stale h | _ \<Rightarrow> True) \<and> cl_two_at_most (h @ [op]) ops)"

subsection \<open>The queue in memory\<close>

definition cl_queue :: "u32 \<Rightarrow> cluster \<Rightarrow> u32 list \<Rightarrow> bool \<Rightarrow> bool" where
  "cl_queue d s q stale \<longleftrightarrow>
     length q \<le> 2 \<and> distinct q \<and> 0 \<notin> set q \<and> (stale \<longrightarrow> length q = 1 \<and> task_last (cdata_at s d) \<notin> set q)
     \<and> task_first (cdata_at s d) = (if q = [] then 0 else hd q)
     \<and> (task_last (cdata_at s d) = 0 \<longleftrightarrow> q = []) \<and> (q \<noteq> [] \<and> \<not> stale \<longrightarrow> task_last (cdata_at s d) = hd q)
     \<and> (q \<noteq> [] \<longrightarrow> ct_next (ctask_at s (hd q)) = (if tl q = [] then 0 else hd (tl q)))
     \<and> (tl q \<noteq> [] \<longrightarrow> ct_next (ctask_at s (hd (tl q))) = 0)"

lemma cl_upd_frame [simp]:
  "ctask_at (upd_cdata p g s) = ctask_at s" "cdata_at (upd_ctask p f s) = cdata_at s"
  "ctask_at (upd_ctask p f s) = (ctask_at s)(p := f (ctask_at s p))" "cdata_at (upd_cdata p g s) = (cdata_at s)(p := g (cdata_at s p))"
  "ctask_at (upd_cram h s) = ctask_at s" "cdata_at (upd_cram h s) = cdata_at s" "ram (cheaps (upd_cram h s)) = h (ram (cheaps s))"
  "cheaps (upd_ctask p f s) = cheaps s" "cheaps (upd_cdata p g s) = cheaps s"
  by (simp_all add: upd_ctask_def upd_cdata_def upd_cram_def)

lemma cl_queue_push:
  assumes "cl_queue d s q stale" "t \<noteq> 0" "t \<notin> set q"
  shows "cl_queue d (push_section d t s) (fst (cl_spec_step (q, stale, out, lost) (Cl_push t)))
           (fst (snd (cl_spec_step (q, stale, out, lost) (Cl_push t))))"
proof (cases q)
  case Nil
  then show ?thesis using assms by (auto simp: cl_queue_def push_section_def Let_def)
next
  case (Cons a r)
  then show ?thesis using assms
    by (cases r) (auto simp: cl_queue_def push_section_def Let_def)
qed

lemma cl_queue_pop:
  assumes "cl_queue d s q stale" "q \<noteq> []"
  obtains u where "pop_section d s = Some (hd q, u)" "cl_queue d u (tl q) (tl q \<noteq> [])" "cheaps u = cheaps s" "fifo_access (cdata_at u d) = fifo_access (cdata_at s d)"
proof -
  from assms(2) obtain a r where q: "q = a # r" by (cases q) auto
  then show ?thesis using assms(1) that
    by (cases r) (auto simp: cl_queue_def pop_section_def Let_def)
qed

subsection \<open>What the abstract queue does\<close>

lemma cl_pushed_append [simp]: "cl_pushed (h @ [op]) = cl_pushed h @ (case op of Cl_push t \<Rightarrow> [t] | _ \<Rightarrow> [])"
  by (induction h rule: cl_pushed.induct) (auto split: cl_op.splits)

lemma cl_spec_Nil [simp]: "cl_spec [] = ([], False, [], [])"
  by (simp add: cl_spec_def)

lemma cl_spec_snoc: "cl_spec (h @ [op]) = cl_spec_step (cl_spec h) op"
  by (simp add: cl_spec_def)

definition cl_account :: "cl_op list \<Rightarrow> bool" where
  "cl_account h \<longleftrightarrow> mset (cl_pushed h) = mset (cl_popped h) + mset (cl_lost h) + mset (cl_queued h)
     \<and> subseq (cl_popped h @ cl_queued h) (cl_pushed h)"

lemma cl_account_step:
  assumes "cl_account h" "cl_allowed h op"
  shows "cl_account (h @ [op])"
proof -
  obtain q st out lost where sp: "cl_spec h = (q, st, out, lost)" by (cases "cl_spec h") auto
  have m: "mset (cl_pushed h) = mset out + mset lost + mset q" and ss: "subseq (out @ q) (cl_pushed h)"
    using assms(1) sp by (simp_all add: cl_account_def)
  show ?thesis
  proof (cases op)
    case (Cl_push t)
    have e: "subseq (xs @ [t]) (cl_pushed h @ [t])" if "subseq xs (out @ q)" for xs
      using that ss subseq_order.order_trans list_emb_append_mono [OF _ subseq_order.order_refl] by metis
    show ?thesis
    proof (cases q)
      case Nil
      then show ?thesis using Cl_push m sp e [of out] by (simp add: cl_account_def cl_spec_snoc)
    next
      case (Cons x r)
      have "subseq (out @ [x]) (out @ q)" using Cons by (auto intro: list_emb_append_mono)
      then show ?thesis using Cl_push m sp e [of "out @ [x]"] ss Cons
        by (auto simp: cl_account_def cl_spec_snoc intro: subseq_order.order_trans [of _ "cl_pushed h"])
    qed
  next
    case Cl_pop
    then obtain x r where "q = x # r" using assms(2) sp by (cases q) (auto simp: cl_allowed_def)
    then show ?thesis using Cl_pop m ss sp by (simp add: cl_account_def cl_spec_snoc)
  next
    case Cl_poll
    then show ?thesis using m ss sp by (simp add: cl_account_def cl_spec_snoc)
  qed
qed

lemma cl_two_at_most_lost: "cl_two_at_most h ops \<Longrightarrow> cl_lost (h @ ops) = cl_lost h"
proof (induction ops arbitrary: h)
  case Nil
  then show ?case by simp
next
  case (Cons op ops)
  obtain q st out lost where sp: "cl_spec h = (q, st, out, lost)" by (cases "cl_spec h") auto
  have "cl_lost (h @ [op]) = cl_lost h"
    using Cons.prems sp by (cases op; cases q; cases "tl q") (auto simp: cl_spec_snoc)
  then show ?case using Cons.IH [of "h @ [op]"] Cons.prems by simp
qed

lemma cl_answers_snoc: "cl_answers (ops @ [op]) = cl_answers ops @ [cl_spec_answer (cl_spec ops) op]"
  by (simp add: cl_answers_def nth_append)

lemma cl_answers_Nil [simp]: "cl_answers [] = []"
  by (simp add: cl_answers_def)

lemma cl_taken_snoc: "cl_taken (h @ [(op, a)]) = cl_taken h @ (case a of Cl_task t \<Rightarrow> [t] | _ \<Rightarrow> [])"
  by (induction h rule: cl_taken.induct) (simp_all split: cl_answer.split)

lemma cl_taken_answers: "map snd h = cl_answers (map fst h) \<Longrightarrow> cl_taken h = cl_popped (map fst h)"
proof (induction h rule: rev_induct)
  case (snoc x h)
  obtain op a where x: "x = (op, a)" by (cases x)
  obtain q st out lost where sp: "cl_spec (map fst h) = (q, st, out, lost)" by (cases "cl_spec (map fst h)") auto
  have "map snd h = cl_answers (map fst h)" "a = cl_spec_answer (cl_spec (map fst h)) op"
    using snoc.prems x by (simp_all add: cl_answers_snoc)
  then show ?case using snoc.IH sp x by (cases op) (simp_all add: cl_taken_snoc cl_spec_snoc)
qed simp

subsection \<open>Every interleaving\<close>

text \<open>The shared state with the history: what the sections run so far were and what the code answered.\<close>

type_synonym cl_hist = "(cl_op \<times> cl_answer) list"

abbreviation cl_ops :: "cl_hist \<Rightarrow> cl_op list" where "cl_ops h \<equiv> map fst h"

definition cl_attempt :: "u32 \<Rightarrow> cl_hist \<times> cluster \<Rightarrow> bool \<times> cl_hist \<times> cluster" where
  "cl_attempt d hs = (let (v, s) = cl_sync_test_and_set_lock (fifo_access (cdata_at (snd hs) d)) (snd hs) in (v \<noteq> -1, fst hs, s))"

definition cl_unlock :: "u32 \<Rightarrow> cl_hist \<times> cluster \<Rightarrow> cl_hist \<times> cluster" where
  "cl_unlock d hs = (fst hs, cl_sync_spinlock_release (fifo_access (cdata_at (snd hs) d)) (snd hs))"

text \<open>A section runs the code and records what it answers; None is an access through NULL. cl_allowed is what the callers see to: a
  task is pushed at a nonzero address and not twice, and a pop follows a poll that has found a task.\<close>

definition cl_code :: "u32 \<Rightarrow> cl_op \<Rightarrow> cluster \<Rightarrow> (cl_answer \<times> cluster) option" where
  "cl_code d op s =
     (case op of Cl_push t \<Rightarrow> Some (Cl_done, push_section d t s)
      | Cl_pop \<Rightarrow> map_option (\<lambda>(t, s). (Cl_task t, s)) (pop_section d s)
      | Cl_poll \<Rightarrow> Some (Cl_has (has_task_section d s), s))"

definition cl_section :: "u32 \<Rightarrow> cl_op \<Rightarrow> cl_hist \<times> cluster \<Rightarrow> cl_hist \<times> cluster \<Rightarrow> bool" where
  "cl_section d op hs hs' \<longleftrightarrow> cl_allowed (cl_ops (fst hs)) op
     \<and> (\<exists>a. cl_code d op (snd hs) = Some (a, snd hs') \<and> fst hs' = fst hs @ [(op, a)])"

definition cl_lock_word :: "u32 \<Rightarrow> cluster \<Rightarrow> u32" where
  "cl_lock_word d s = rd32 (ram (cheaps s)) (release_ptr (fifo_access (cdata_at s d)))"

definition cl_lock_ok :: "u32 \<Rightarrow> cluster \<Rightarrow> bool" where
  "cl_lock_ok d s \<longleftrightarrow> lock_ptr (fifo_access (cdata_at s d)) AND NOT L1_TAS_BASE = release_ptr (fifo_access (cdata_at s d))
     \<and> cl_lock_word d s \<in> {0, -1}"

definition cl_shared_ok :: "u32 \<Rightarrow> cl_hist \<times> cluster \<Rightarrow> bool" where
  "cl_shared_ok d hs \<longleftrightarrow> cl_lock_ok d (snd hs) \<and> cl_queue d (snd hs) (cl_queued (cl_ops (fst hs))) (cl_stale (cl_ops (fst hs)))
     \<and> cl_account (cl_ops (fst hs)) \<and> map snd (fst hs) = cl_answers (cl_ops (fst hs))"

lemma cl_queue_cram [simp]: "cl_queue d (upd_cram f s) q st = cl_queue d s q st"
  by (simp add: cl_queue_def)

text \<open>A section on the queue in memory does and answers what the abstract queue does.\<close>

lemma cl_code_spec:
  assumes "cl_queue d s (cl_queued ops) (cl_stale ops)" "cl_allowed ops op"
  shows "\<exists>u. cl_code d op s = Some (cl_spec_answer (cl_spec ops) op, u)
    \<and> cl_queue d u (cl_queued (ops @ [op])) (cl_stale (ops @ [op]))
    \<and> cheaps u = cheaps s \<and> fifo_access (cdata_at u d) = fifo_access (cdata_at s d)"
proof -
  obtain q st out lost where sp: "cl_spec ops = (q, st, out, lost)" by (cases "cl_spec ops") auto
  have q: "cl_queue d s q st" using assms(1) sp by simp
  show ?thesis
  proof (cases op)
    case (Cl_push t)
    have f: "cheaps (push_section d t s) = cheaps s \<and> fifo_access (cdata_at (push_section d t s) d) = fifo_access (cdata_at s d)"
      by (auto simp: push_section_def Let_def)
    have "cl_queue d (push_section d t s) (cl_queued (ops @ [op])) (cl_stale (ops @ [op]))"
      using Cl_push assms(2) sp cl_queue_push [OF q, of t out lost] by (simp add: cl_allowed_def cl_spec_snoc)
    then show ?thesis using Cl_push f by (simp add: cl_code_def)
  next
    case Cl_pop
    then have "q \<noteq> []" using assms(2) sp by (simp add: cl_allowed_def)
    from cl_queue_pop [OF q this] show ?thesis using Cl_pop sp by (auto simp: cl_code_def cl_spec_snoc)
  next
    case Cl_poll
    have "has_task_section d s \<longleftrightarrow> q \<noteq> []" using q by (cases q) (auto simp: has_task_section_def cl_queue_def)
    then show ?thesis using Cl_poll q sp by (simp add: cl_code_def cl_spec_snoc)
  qed
qed

lemma cl_section_keeps:
  assumes "cl_shared_ok d hs" "cl_section d op hs hs'"
  shows "cl_shared_ok d hs'" "cl_lock_word d (snd hs') = cl_lock_word d (snd hs)"
proof -
  have al: "cl_allowed (cl_ops (fst hs)) op" using assms(2) by (simp add: cl_section_def)
  have k: "cl_lock_ok d (snd hs)" "cl_account (cl_ops (fst hs))" "map snd (fst hs) = cl_answers (cl_ops (fst hs))"
    "cl_queue d (snd hs) (cl_queued (cl_ops (fst hs))) (cl_stale (cl_ops (fst hs)))"
    using assms(1) by (simp_all add: cl_shared_ok_def)
  obtain u where u: "cl_code d op (snd hs) = Some (cl_spec_answer (cl_spec (cl_ops (fst hs))) op, u)"
      "cl_queue d u (cl_queued (cl_ops (fst hs) @ [op])) (cl_stale (cl_ops (fst hs) @ [op]))"
      "cheaps u = cheaps (snd hs)" "fifo_access (cdata_at u d) = fifo_access (cdata_at (snd hs) d)"
    using cl_code_spec [OF k(4) al] by blast
  have h: "snd hs' = u" "fst hs' = fst hs @ [(op, cl_spec_answer (cl_spec (cl_ops (fst hs))) op)]"
    using assms(2) u(1) by (auto simp: cl_section_def)
  show "cl_shared_ok d hs'" using k u(2-4) h cl_account_step [OF k(2) al]
    by (simp add: cl_shared_ok_def cl_lock_ok_def cl_lock_word_def cl_answers_snoc)
  show "cl_lock_word d (snd hs') = cl_lock_word d (snd hs)" using u(3,4) h(1) by (simp add: cl_lock_word_def)
qed

interpretation cl_fifo: spin_lock "cl_attempt d" "cl_unlock d" "cl_section d" "\<lambda>hs. cl_lock_word d (snd hs) = 0" "cl_shared_ok d" for d
proof
  fix hs :: "cl_hist \<times> cluster" and hs' op
  assume ok: "cl_shared_ok d hs"
  then have l: "cl_lock_word d (snd hs) = 0 \<or> cl_lock_word d (snd hs) = -1"
    "lock_ptr (fifo_access (cdata_at (snd hs) d)) AND NOT L1_TAS_BASE = release_ptr (fifo_access (cdata_at (snd hs) d))"
    by (simp_all add: cl_shared_ok_def cl_lock_ok_def)
  show "fst (cl_attempt d hs) \<longleftrightarrow> cl_lock_word d (snd hs) = 0"
    using l by (auto simp: cl_attempt_def cl_sync_test_and_set_lock_def cl_lock_word_def)
  show "cl_shared_ok d (snd (cl_attempt d hs)) \<and> cl_lock_word d (snd (snd (cl_attempt d hs))) \<noteq> 0"
    using ok l(2) by (simp add: cl_attempt_def cl_sync_test_and_set_lock_def cl_lock_word_def cl_shared_ok_def cl_lock_ok_def Let_def)
  show "cl_shared_ok d hs' \<and> cl_lock_word d (snd hs') \<noteq> 0" if "cl_lock_word d (snd hs) \<noteq> 0" "cl_section d op hs hs'"
    using cl_section_keeps [OF ok that(2)] that(1) by simp
  show "cl_shared_ok d (cl_unlock d hs) \<and> cl_lock_word d (snd (cl_unlock d hs)) = 0"
    using ok by (simp add: cl_unlock_def cl_sync_spinlock_release_def cl_lock_word_def cl_shared_ok_def cl_lock_ok_def)
qed

definition cl_empty :: "u32 \<Rightarrow> cluster \<Rightarrow> bool" where
  "cl_empty d s \<longleftrightarrow> cl_lock_ok d s \<and> cl_lock_word d s = 0 \<and> task_first (cdata_at s d) = 0 \<and> task_last (cdata_at s d) = 0"

lemma cl_empty_ok:
  assumes "cl_empty d s"
  shows "cl_shared_ok d ([], s)" "cl_lock_word d (snd ([] :: cl_hist, s)) = 0"
  using assms by (simp_all add: cl_empty_def cl_shared_ok_def cl_queue_def cl_account_def)

lemma cl_run_op:
  assumes "cl_empty d s" "lock_reaches (cl_attempt d) (cl_unlock d) (cl_section d) ([], s) (\<lambda>_. Lk_idle) (h, u)" "cl_allowed (cl_ops h) op"
  shows "\<exists>a v. lock_reaches (cl_attempt d) (cl_unlock d) (cl_section d) ([], s) (\<lambda>_. Lk_idle) (h @ [(op, a)], v)"
proof -
  have u: "cl_shared_ok d (h, u)" "cl_lock_word d u = 0" using cl_fifo.lock_safe [OF cl_empty_ok [OF assms(1)] assms(2)] by simp_all
  obtain v where v: "cl_attempt d (h, u) = (True, h, v)"
    using cl_fifo.attempt_tells [OF u(1)] u(2) by (cases "cl_attempt d (h, u)") (auto simp: cl_attempt_def case_prod_beta)
  have "cl_queue d v (cl_queued (cl_ops h)) (cl_stale (cl_ops h))" using cl_fifo.attempt_takes [OF u(1)] v by (simp add: cl_shared_ok_def)
  from cl_code_spec [OF this assms(3)] obtain a w where "cl_section d op (h, v) (h @ [(op, a)], w)"
    using assms(3) by (auto simp: cl_section_def)
  from lock_reaches_run [OF assms(2) v this] show ?thesis by (auto simp: cl_unlock_def)
qed

text \<open>C10: however the cores that push, pop and poll interleave, at most one is inside its section, every section a
  caller may run there succeeds, and what the code has answered so far is what the abstract queue answers: a pop its first task, a poll
  whether there is one. The queue in memory is that of the abstract queue after the sections run so far, in the order they ran, and no task
  appears or is taken twice: what was pushed is what pops have returned, what is queued and what was lost, and what was returned
  and is queued is in the order it was pushed. Nothing is lost when no push meets two queued tasks or the one left of two.\<close>
theorem cluster_queue:
  assumes "cl_empty d s" "lock_reaches (cl_attempt d) (cl_unlock d) (cl_section d) ([], s) pc (h, u)"
  shows "(\<forall>a b. lk_holds (pc a) \<longrightarrow> lk_holds (pc b) \<longrightarrow> a = b) \<and> cl_queue d u (cl_queued (cl_ops h)) (cl_stale (cl_ops h))
    \<and> map snd h = cl_answers (cl_ops h) \<and> (\<forall>op. cl_allowed (cl_ops h) op \<longrightarrow> cl_code d op u \<noteq> None)
    \<and> mset (cl_pushed (cl_ops h)) = mset (cl_taken h) + mset (cl_lost (cl_ops h)) + mset (cl_queued (cl_ops h))
    \<and> subseq (cl_taken h @ cl_queued (cl_ops h)) (cl_pushed (cl_ops h))
    \<and> (cl_two_at_most [] (cl_ops h) \<longrightarrow> cl_lost (cl_ops h) = [])"
proof -
  note L = cl_fifo.lock_safe [OF cl_empty_ok [OF assms(1)] assms(2)]
  have k: "cl_queue d u (cl_queued (cl_ops h)) (cl_stale (cl_ops h))" "cl_account (cl_ops h)" "map snd h = cl_answers (cl_ops h)"
    using L(1) by (simp_all add: cl_shared_ok_def)
  have "cl_code d op u \<noteq> None" if "cl_allowed (cl_ops h) op" for op using cl_code_spec [OF k(1) that] by auto
  then show ?thesis using L(2) k cl_taken_answers [OF k(3)] cl_two_at_most_lost [of "[]" "cl_ops h"]
    by (auto simp: cl_account_def)
qed

definition demo_cluster :: cluster where
  "demo_cluster = \<lparr>csrs = \<lambda>_. 0, regs = \<lambda>_. 0, io_log = [], fc_event_handlers = [],
     task_at = \<lambda>_. \<lparr>t_arg = \<lambda>_. 0, t_id = PI_TASK_NONE_ID, t_data = \<lambda>_. 0, t_wait_on = \<lparr>sem_object = 0, sem_take_fn = False, sem_give_fn = False\<rparr>,
        t_next = 0, t_done = 0, t_core_id = 0, t_cluster_id = 0, t_destroy = 0\<rparr>,
     os_log = [], dev_data = \<lambda>_. 0x1C000100,
     ctask_at = \<lambda>_. \<lparr>ct_entry = 0, ct_arg = 0, ct_stacks = 0x10001000, ct_stack_size = 0, ct_slave_stack_size = 0, ct_nb_cores = 0,
        ct_completion_callback = 0, ct_stack_allocated = 0, ct_next = 0, ct_cluster_team_mask = 0\<rparr>,
     cdata_at = \<lambda>_. cl_new_data\<lparr>fifo_access := \<lparr>lock_ptr = 0x10100010, release_ptr = 0x10000010\<rparr>\<rparr>,
     cconf_at = \<lambda>_. cluster_default_conf, capi_at = \<lambda>_. cluster_api, spec_api_at = \<lambda>_. spec_cluster_api,
     dev_api = \<lambda>_. 0, dev_config = \<lambda>_. 0, per_cluster_data = [0x1C000100],
     cluster_printf_spinlock = \<lparr>lock_ptr = 0, release_ptr = 0\<rparr>,
     cheaps = \<lparr>csrs = \<lambda>_. 0, regs = \<lambda>_. 0, io_log = [], l2_malloc = \<lparr>first_free = 0, mem_type = 0\<rparr>,
        fc_l1_malloc = \<lparr>first_free = 0, mem_type = 0\<rparr>, cl_l1_malloc = \<lparr>first_free = 0, mem_type = 0\<rparr>, l2_lock = 0, fc_l1_lock = 0,
        ram = \<lambda>_. 0, console = []\<rparr>\<rparr>"

lemma demo_cluster_empty: "cl_empty 0x1C000100 demo_cluster"
  by (simp add: cl_empty_def cl_lock_ok_def cl_lock_word_def demo_cluster_def rd32_def cl_new_data_def Let_def L1_TAS_BASE_def)

lemma cluster_queue_witness:
  "\<exists>h u. cl_queue 0x1C000100 u [0x1C003000] True \<and> cl_taken h = [0x1C001000] \<and> cl_lost (cl_ops h) = [0x1C002000]"
proof -
  let ?d = "0x1C000100" and ?a = "Cl_push 0x1C001000" and ?b = "Cl_push 0x1C002000" and ?c = "Cl_push 0x1C003000"
  let ?reach = "\<lambda>h u. lock_reaches (cl_attempt ?d) (cl_unlock ?d) (cl_section ?d) ([], demo_cluster) (\<lambda>_. Lk_idle) (h, u)"
  have run: "\<exists>x v. ?reach (h @ [(op, x)]) v" if "?reach h u" "cl_allowed (cl_ops h) op" for h u op
    using cl_run_op [OF demo_cluster_empty that] .
  have "?reach [] demo_cluster" by (simp add: lock_reaches_def)
  then obtain h u where 1: "?reach h u" "cl_ops h = [?a]" using run [of "[]" demo_cluster ?a] by (fastforce simp: cl_allowed_def)
  obtain h u where 2: "?reach h u" "cl_ops h = [?a, ?b]" using run [OF 1(1), of ?b] 1(2) by (fastforce simp: cl_allowed_def cl_spec_def)
  obtain h u where 3: "?reach h u" "cl_ops h = [?a, ?b, ?c]" using run [OF 2(1), of ?c] 2(2) by (fastforce simp: cl_allowed_def cl_spec_def)
  obtain h u where 4: "?reach h u" "cl_ops h = [?a, ?b, ?c, Cl_pop]" using run [OF 3(1), of Cl_pop] 3(2) by (fastforce simp: cl_allowed_def cl_spec_def)
  note c = cluster_queue [OF demo_cluster_empty 4(1)]
  have "mset (cl_taken h) = {#0x1C001000#}" using c 4(2) by (simp add: cl_spec_def)
  then have "cl_taken h = [0x1C001000]" by simp
  moreover have "cl_queue ?d u [0x1C003000] True" "cl_lost (cl_ops h) = [0x1C002000]" using c 4(2) by (simp_all add: cl_spec_def)
  ultimately show ?thesis by blast
qed

end
