(* ===== verification/ClusterLife.thy ===== *)
theory ClusterLife
  imports ClusterProps MallocProps
begin

text \<open>
  The life of a cluster task whose stacks the driver allocates: from the L1 heap when it is sent, back to it
  when it is popped, beside the spinlock word, which is a live block of the same heap.
\<close>

definition cl_heap :: "cluster \<Rightarrow> chunk list \<Rightarrow> bool" where
  "cl_heap s xs \<longleftrightarrow> malloc_rep (cl_l1_malloc (cheaps s)) (ram (cheaps s)) xs"

definition cl_lock_apart :: "u32 \<Rightarrow> cluster \<Rightarrow> chunk list \<Rightarrow> bool" where
  "cl_lock_apart d s xs \<longleftrightarrow> (let l = unat (release_ptr (fifo_access (cdata_at s d))) in l + 4 \<le> 4294967296 \<and> block l 4 \<inter> fl_bytes xs = {})"

text \<open>The sizes of the stacks of a task, the defaults where it asks for none, and their sum for the eight cores.\<close>

definition cl_slave_bytes :: "pi_cluster_task \<Rightarrow> u32" where
  "cl_slave_bytes t = (if ct_slave_stack_size t = 0 then CL_SLAVE_CORE_STACK_SIZE else ct_slave_stack_size t)"

definition cl_master_bytes :: "pi_cluster_task \<Rightarrow> u32" where
  "cl_master_bytes t = (if ct_stack_size t = 0 then CL_MASTER_CORE_STACK_SIZE else ct_stack_size t)"

definition cl_stack_bytes :: "pi_cluster_task \<Rightarrow> u32" where
  "cl_stack_bytes t = cl_slave_bytes t * 7 + cl_master_bytes t"

lemmas cl_bytes_def = cl_slave_bytes_def cl_master_bytes_def

lemma rd32_block_cong: "unat p + 4 \<le> 4294967296 \<Longrightarrow> (\<And>x. unat x \<in> block (unat p) 4 \<Longrightarrow> m x = m' x) \<Longrightarrow> rd32 m p = rd32 m' p"
  by (simp add: rd32_def block_def unat_plus_u32)

lemma cl_heap_lock:
  assumes "cl_heap s xs" "cl_lock_apart d s xs"
  shows "cl_heap (upd_cram (\<lambda>m. wr32 m (release_ptr (fifo_access (cdata_at s d))) v) s) xs"
proof -
  let ?l = "release_ptr (fifo_access (cdata_at s d))"
  have "wr32 (ram (cheaps s)) ?l v x = ram (cheaps s) x" if "unat x \<in> fl_bytes xs" for x
    using assms(2) that by (intro wr32_other) (auto simp: cl_lock_apart_def block_def Let_def disjoint_iff not_le, metis not_le)
  then show ?thesis using assms(1) malloc_rep_cong by (simp add: cl_heap_def upd_cram_def)
qed

lemma irq_cl_l1 [simp]:
  "cl_l1_malloc (snd (disable_irq h)) = cl_l1_malloc h" "cl_l1_malloc (restore_irq w h) = cl_l1_malloc h"
  by (simp_all add: disable_irq_def csr_read_clear_def restore_irq_def csr_write_def)

lemma cl_os_frame [simp]:
  "ctask_at (os c s) = ctask_at s" "cdata_at (os c s) = cdata_at s" "cheaps (os c s) = cheaps s"
  "ctask_at (snd (disable_irq s)) = ctask_at s" "cdata_at (snd (disable_irq s)) = cdata_at s" "cheaps (snd (disable_irq s)) = cheaps s"
  "ctask_at (restore_irq w s) = ctask_at s" "cdata_at (restore_irq w s) = cdata_at s" "cheaps (restore_irq w s) = cheaps s"
  "ctask_at (writew v a s) = ctask_at s" "cdata_at (writew v a s) = cdata_at s" "cheaps (writew v a s) = cheaps s"
  "dev_data (upd_ctask p f s) = dev_data s" "dev_data (upd_cdata p g s) = dev_data s" "dev_data (upd_cram h s) = dev_data s"
  "task_at (upd_ctask p f s) = task_at s" "task_at (upd_cdata p g s) = task_at s" "task_at (upd_cram h s) = task_at s"
  "per_cluster_data (upd_ctask p f s) = per_cluster_data s" "per_cluster_data (upd_cdata p g s) = per_cluster_data s"
  "per_cluster_data (upd_cram h s) = per_cluster_data s" "per_cluster_data (os c s) = per_cluster_data s"
  "per_cluster_data (snd (disable_irq s)) = per_cluster_data s" "per_cluster_data (restore_irq w s) = per_cluster_data s"
  "per_cluster_data (writew v a s) = per_cluster_data s"
  "dev_config (upd_ctask p f s) = dev_config s" "dev_config (upd_cdata p g s) = dev_config s" "dev_config (upd_cram h s) = dev_config s"
  "cconf_at (upd_ctask p f s) = cconf_at s" "cconf_at (upd_cdata p g s) = cconf_at s" "cconf_at (upd_cram h s) = cconf_at s"
  "dev_config (os c s) = dev_config s" "dev_config (snd (disable_irq s)) = dev_config s" "dev_config (restore_irq w s) = dev_config s"
  "dev_config (writew v a s) = dev_config s" "cconf_at (os c s) = cconf_at s" "cconf_at (snd (disable_irq s)) = cconf_at s"
  "cconf_at (restore_irq w s) = cconf_at s" "cconf_at (writew v a s) = cconf_at s"
  by (cases s; simp add: os_def disable_irq_def csr_read_clear_def restore_irq_def csr_write_def writew_def upd_ctask_def upd_cdata_def upd_cram_def)+

definition cl_same :: "cluster \<Rightarrow> cluster \<Rightarrow> bool" where
  "cl_same s u \<longleftrightarrow> ctask_at u = ctask_at s \<and> cdata_at u = cdata_at s \<and> dev_data u = dev_data s \<and> task_at u = task_at s
     \<and> per_cluster_data u = per_cluster_data s \<and> dev_config u = dev_config s \<and> cconf_at u = cconf_at s"

text \<open>The state of the driver that no task changes, the data of other clusters and the tasks other than t.\<close>

definition cl_fixed :: "cluster_driver_data \<Rightarrow> u32 \<times> pmsis_mutex \<times> pmsis_mutex \<times> u8" where
  "cl_fixed x = (cluster_is_on x, task_mutex x, powerstate_mutex x, hw_barrier_alloc x)"

definition cl_stays :: "u32 \<Rightarrow> u32 \<Rightarrow> cluster \<Rightarrow> cluster \<Rightarrow> bool" where
  "cl_stays d t s u \<longleftrightarrow> per_cluster_data u = per_cluster_data s \<and> dev_data u = dev_data s \<and> dev_config u = dev_config s
     \<and> cconf_at u = cconf_at s \<and> cl_fixed (cdata_at u d) = cl_fixed (cdata_at s d) \<and> (\<forall>p. p \<noteq> d \<longrightarrow> cdata_at u p = cdata_at s p)
     \<and> (\<forall>p. p \<noteq> t \<longrightarrow> ctask_at u p = ctask_at s p)"

lemma cl_stays_trans: "cl_stays d t s u \<Longrightarrow> cl_stays d t u v \<Longrightarrow> cl_stays d t s v"
  by (simp add: cl_stays_def)

text \<open>What sending and popping a task leave alone.\<close>

definition cl_kept :: "u32 \<Rightarrow> u32 \<Rightarrow> cluster \<Rightarrow> cluster \<Rightarrow> bool" where
  "cl_kept d t s u \<longleftrightarrow> cl_stays d t s u \<and> task_at u = task_at s
     \<and> task_to_fc (cdata_at u d) = task_to_fc (cdata_at s d) \<and> ct_entry (ctask_at u t) = ct_entry (ctask_at s t)
     \<and> ct_arg (ctask_at u t) = ct_arg (ctask_at s t) \<and> ct_completion_callback (ctask_at u t) = ct_completion_callback (ctask_at s t)"

lemma cl_kept_trans: "cl_kept d t s u \<Longrightarrow> cl_kept d t u v \<Longrightarrow> cl_kept d t s v"
  by (simp add: cl_kept_def cl_stays_def)

lemma cl_alloc_rep:
  assumes "malloc (cl_l1_malloc (cheaps s)) (ram (cheaps s)) n = Some (p, a, m)"
  shows "\<exists>u. cl_alloc n s = Some (p, u) \<and> cl_l1_malloc (cheaps u) = a \<and> ram (cheaps u) = m \<and> cl_same s u"
  using assms by (simp add: cl_alloc_def pi_cl_l1_malloc_def heaps_of_def put_heaps_def Let_def case_prod_beta cl_same_def)

lemma cl_release_rep:
  assumes "malloc_free (cl_l1_malloc (cheaps s)) (ram (cheaps s)) p n = Some (a, m)"
  shows "\<exists>u. cl_release p n s = Some u \<and> cl_l1_malloc (cheaps u) = a \<and> ram (cheaps u) = m \<and> cl_same s u"
  using assms by (simp add: cl_release_def pi_cl_l1_free_def heaps_of_def put_heaps_def Let_def case_prod_beta cl_same_def)

definition cl_calm :: "u32 \<Rightarrow> cluster \<Rightarrow> chunk list \<Rightarrow> u32 list \<Rightarrow> bool" where
  "cl_calm d s xs q \<longleftrightarrow> cl_lock_ok d s \<and> cl_lock_word d s = 0 \<and> cl_queue d s q False \<and> cl_heap s xs \<and> cl_lock_apart d s xs"

lemma cl_take_free:
  assumes "cl_lock_ok d s" "cl_lock_word d s = 0"
  shows "cl_sync_spinlock_take env (fifo_access (cdata_at s d)) s
    = Some (upd_cram (\<lambda>m. wr32 m (release_ptr (fifo_access (cdata_at s d))) (-1)) s)"
  using assms by (subst cl_sync_spinlock_take.simps) (simp add: cl_sync_test_and_set_lock_def cl_lock_ok_def cl_lock_word_def Let_def)

lemma cl_push_free:
  assumes "cl_calm d s xs []" "t \<noteq> 0"
  shows "\<exists>u. pi_push_cluster_task env d t s = Some u \<and> cl_calm d u xs [t]
    \<and> ctask_at u = (ctask_at s)(t := (ctask_at s t)\<lparr>ct_next := 0\<rparr>)
    \<and> cdata_at u = (cdata_at s)(d := (cdata_at s d)\<lparr>task_first := t, task_last := t\<rparr>) \<and> dev_data u = dev_data s \<and> cl_kept d t s u"
proof -
  let ?l = "release_ptr (fifo_access (cdata_at s d))"
  have c: "cl_lock_ok d s" "cl_lock_word d s = 0" "cl_queue d s [] False" "cl_heap s xs" "cl_lock_apart d s xs"
    using assms(1) by (simp_all add: cl_calm_def)
  let ?v = "upd_cram (\<lambda>m. wr32 m ?l (-1)) s"
  let ?w = "push_section d t ?v"
  let ?u = "cl_sync_spinlock_release (fifo_access (cdata_at ?w d)) ?w"
  have r: "pi_push_cluster_task env d t s = Some ?u"
    using cl_take_free [OF c(1,2)] by (simp add: pi_push_cluster_task_def Let_def)
  have q: "cl_queue d ?w [t] False" using cl_queue_push [of d ?v "[]" False t "[]" "[]"] c(3) assms(2) by simp
  have last: "task_last (cdata_at s d) = 0" using c(3) by (simp add: cl_queue_def)
  have w: "cdata_at ?w = (cdata_at s)(d := (cdata_at s d)\<lparr>task_first := t, task_last := t\<rparr>)" "cheaps ?w = cheaps ?v"
    "ctask_at ?w = (ctask_at s)(t := (ctask_at s t)\<lparr>ct_next := 0\<rparr>)" "dev_data ?w = dev_data s"
    "task_at ?w = task_at s" "per_cluster_data ?w = per_cluster_data s" "dev_config ?w = dev_config s" "cconf_at ?w = cconf_at s"
    using last by (simp_all add: push_section_def Let_def)
  have "cl_heap ?w xs" using cl_heap_lock [OF c(4,5), of "-1"] w(2) by (simp add: cl_heap_def)
  moreover have "cl_lock_apart d ?w xs" using c(5) w(1) by (simp add: cl_lock_apart_def)
  ultimately have "cl_heap ?u xs" using cl_heap_lock [of ?w xs d 0] w(1) by (simp add: cl_sync_spinlock_release_def)
  then have "cl_calm d ?u xs [t]"
    using q c(1,5) w(1) by (simp add: cl_calm_def cl_sync_spinlock_release_def cl_lock_ok_def cl_lock_word_def cl_lock_apart_def)
  then show ?thesis using r w by (intro exI [of _ ?u]) (simp add: cl_sync_spinlock_release_def cl_kept_def cl_stays_def cl_fixed_def)
qed

lemma cl_calm_mem:
  assumes "cl_calm d s xs q" "cdata_at u = cdata_at s" "\<And>p. ct_next (ctask_at u p) = ct_next (ctask_at s p)"
    "\<And>x. unat x \<notin> fl_bytes zs \<Longrightarrow> ram (cheaps u) x = ram (cheaps s) x" "cl_lock_apart d s zs" "cl_heap u ys" "fl_bytes ys \<subseteq> fl_bytes zs"
  shows "cl_calm d u ys q"
proof -
  have "cl_lock_word d u = cl_lock_word d s"
    using assms(2,4,5) unfolding cl_lock_word_def
    by (auto simp: cl_lock_apart_def Let_def intro!: rd32_block_cong)
  then show ?thesis using assms by (auto simp: cl_calm_def cl_lock_ok_def cl_queue_def cl_lock_apart_def Let_def)
qed

lemma fl_alloc_blk:
  assumes "fl_alloc (round8 (unat n)) xs = Some (unat r, ys)" "fl_ok 0 xs" "size_ok n"
  shows "blk_ok (r, n)" "span (r, n) \<inter> fl_bytes ys = {}" "fl_bytes xs = fl_bytes ys \<union> span (r, n)" "r \<noteq> 0"
proof -
  have n: "0 < unat n" using assms(3) by (simp add: size_ok_def)
  from fl_alloc_ok [OF assms(1,2)] n have p: "8 dvd unat r" "0 < unat r" "block (unat r) (round8 (unat n)) \<subseteq> fl_bytes xs"
    "fl_bytes ys = fl_bytes xs - block (unat r) (round8 (unat n))" by auto
  have "unat r + round8 (unat n) \<le> heap_top" using fl_bytes_heap_top [OF assms(2) p(3)] n by simp
  then show "blk_ok (r, n)" "span (r, n) \<inter> fl_bytes ys = {}" "fl_bytes xs = fl_bytes ys \<union> span (r, n)" "r \<noteq> 0"
    using p n by (auto simp: blk_ok_def span_def)
qed

text \<open>Taking the stacks of a task.\<close>

lemma cl_stacks_rep:
  assumes "cl_calm d s xs q" "ct_stacks (ctask_at s t) = 0" "size_ok (cl_stack_bytes (ctask_at s t))"
  shows "case fl_alloc (round8 (unat (cl_stack_bytes (ctask_at s t)))) xs of
      None \<Rightarrow> \<exists>u. cl_task_stacks t s = Some (False, u) \<and> cl_calm d u xs q \<and> cdata_at u = cdata_at s \<and> dev_data u = dev_data s \<and> cl_kept d t s u
    | Some (r, ys) \<Rightarrow> \<exists>u. cl_task_stacks t s = Some (True, u) \<and> cl_calm d u ys q \<and> cdata_at u = cdata_at s \<and> dev_data u = dev_data s
        \<and> unat (ct_stacks (ctask_at u t)) = r \<and> ct_stack_allocated (ctask_at u t) = 1
        \<and> ct_slave_stack_size (ctask_at u t) = cl_slave_bytes (ctask_at s t) \<and> ct_stack_size (ctask_at u t) = cl_master_bytes (ctask_at s t)
        \<and> (\<forall>p. p \<noteq> t \<longrightarrow> ctask_at u p = ctask_at s p) \<and> cl_kept d t s u"
proof -
  let ?n = "cl_stack_bytes (ctask_at s t)"
  let ?v = "upd_ctask t (\<lambda>t. t\<lparr>ct_stack_size := (if ct_stack_size t = 0 then CL_MASTER_CORE_STACK_SIZE else ct_stack_size t),
       ct_slave_stack_size := (if ct_slave_stack_size t = 0 then CL_SLAVE_CORE_STACK_SIZE else ct_slave_stack_size t)\<rparr>) s"
  have n: "0 < unat ?n" "unat ?n \<le> heap_top - 8" using assms(3) by (auto simp: size_ok_def)
  have c: "cl_heap s xs" "cl_lock_apart d s xs" using assms(1) by (simp_all add: cl_calm_def)
  note R = malloc_refines [OF c(1) [unfolded cl_heap_def] n]
  have run: "cl_task_stacks t s = map_option (\<lambda>(p, s). let s = upd_ctask t (\<lambda>t. t\<lparr>ct_stacks := p\<rparr>) s in
            if p = 0 then (False, s) else (True, upd_ctask t (\<lambda>t. t\<lparr>ct_stack_allocated := 1\<rparr>) s)) (cl_alloc ?n ?v)"
    using assms(2) by (simp add: cl_task_stacks_def cl_stack_bytes_def cl_bytes_def ARCHI_CLUSTER_NB_PE_def Let_def)
  show ?thesis
  proof (cases "fl_alloc (round8 (unat ?n)) xs")
    case None
    then have "malloc (cl_l1_malloc (cheaps ?v)) (ram (cheaps ?v)) ?n = Some (0, cl_l1_malloc (cheaps s), ram (cheaps s))" using R by simp
    from cl_alloc_rep [OF this] obtain u where u: "cl_alloc ?n ?v = Some (0, u)" "cl_l1_malloc (cheaps u) = cl_l1_malloc (cheaps s)"
      "ram (cheaps u) = ram (cheaps s)" "cl_same ?v u" by blast
    let ?w = "upd_ctask t (\<lambda>t. t\<lparr>ct_stacks := 0\<rparr>) u"
    have "cl_calm d ?w xs q" using u c by (intro cl_calm_mem [OF assms(1), of _ xs]) (auto simp: cl_same_def cl_heap_def)
    then show ?thesis using None run u by (auto simp: cl_same_def cl_kept_def cl_stays_def cl_fixed_def Let_def)
  next
    case (Some ry)
    obtain r ys where ry: "ry = (r, ys)" by (cases ry)
    then obtain p a m where p: "malloc (cl_l1_malloc (cheaps ?v)) (ram (cheaps ?v)) ?n = Some (p, a, m)" "unat p = r" "malloc_rep a m ys"
      "\<forall>x. unat x \<notin> hdrs xs \<longrightarrow> m x = ram (cheaps s) x" using R Some by auto
    from cl_alloc_rep [OF p(1)] obtain u where u: "cl_alloc ?n ?v = Some (p, u)" "cl_l1_malloc (cheaps u) = a"
      "ram (cheaps u) = m" "cl_same ?v u" by blast
    have al: "fl_alloc (round8 (unat ?n)) xs = Some (unat p, ys)" using Some ry p(2) by simp
    note b = fl_alloc_blk [OF al malloc_rep_ok [OF c(1) [unfolded cl_heap_def]] assms(3)]
    have h: "hdrs xs \<subseteq> fl_bytes xs" using malloc_rep_hdrs c(1) by (simp add: cl_heap_def)
    let ?w = "upd_ctask t (\<lambda>t. t\<lparr>ct_stack_allocated := 1\<rparr>) (upd_ctask t (\<lambda>t. t\<lparr>ct_stacks := p\<rparr>) u)"
    have "cl_calm d ?w ys q" using u c p(3,4) h b(3)
      by (intro cl_calm_mem [OF assms(1), of _ xs]) (auto simp: cl_same_def cl_heap_def)
    moreover have "cl_task_stacks t s = Some (True, ?w)" using run u(1) b(4) by (simp add: Let_def)
    ultimately show ?thesis using Some ry p(2) u(4)
      by (auto simp: cl_same_def cl_kept_def cl_stays_def cl_fixed_def cl_stack_bytes_def cl_bytes_def intro!: exI [of _ ?w])
  qed
qed

text \<open>Giving them back.\<close>

lemma cl_pop_free:
  assumes "cl_calm d u ys [t]" "fl_alloc (round8 (unat n)) xs = Some (unat (ct_stacks (ctask_at u t)), ys)" "fl_ok 0 xs" "size_ok n"
    "ct_stack_allocated (ctask_at u t) \<noteq> 0" "ct_slave_stack_size (ctask_at u t) * 7 + ct_stack_size (ctask_at u t) = n" "cl_lock_apart d u xs"
  shows "\<exists>v. cl_pop_cluster_task env d u = Some v \<and> cl_calm d v xs []
    \<and> ct_stacks (ctask_at v t) = 0 \<and> ct_stack_size (ctask_at v t) = 0 \<and> ct_slave_stack_size (ctask_at v t) = ct_slave_stack_size (ctask_at u t)
    \<and> cl_kept d t u v"
proof -
  let ?l = "release_ptr (fifo_access (cdata_at u d))"
  have c: "cl_lock_ok d u" "cl_lock_word d u = 0" "cl_queue d u [t] False" "cl_heap u ys" "cl_lock_apart d u ys"
    using assms(1) by (simp_all add: cl_calm_def)
  let ?a = "upd_cram (\<lambda>m. wr32 m ?l (-1)) u"
  have "cl_queue d ?a [t] False" using c(3) by simp
  from cl_queue_pop [OF this] obtain w where w: "pop_section d ?a = Some (t, w)" "cl_queue d w [] False" "cheaps w = cheaps ?a"
    "fifo_access (cdata_at w d) = fifo_access (cdata_at u d)" by auto
  have wt: "ctask_at w = ctask_at u" "cl_kept d t u w" using w(1) by (auto simp: pop_section_def cl_kept_def cl_stays_def cl_fixed_def Let_def split: if_splits)
  let ?b = "cl_sync_spinlock_release (fifo_access (cdata_at w d)) w"
  have hw: "cl_heap w ys" "cl_lock_apart d w ys"
    using cl_heap_lock [OF c(4,5), of "-1"] w(3,4) c(5) by (simp_all add: cl_heap_def cl_lock_apart_def)
  have hb: "cl_heap ?b ys" using cl_heap_lock [OF hw, of 0] by (simp add: cl_sync_spinlock_release_def)
  have b: "cl_calm d ?b ys []"
    using w(2,4) hb c(1) hw(2) by (simp add: cl_calm_def cl_sync_spinlock_release_def cl_lock_ok_def cl_lock_word_def cl_lock_apart_def)
  note bk = fl_alloc_blk [OF assms(2,3,4)]
  have "0 < unat n" using assms(4) by (simp add: size_ok_def)
  obtain a m where f: "malloc_free (cl_l1_malloc (cheaps ?b)) (ram (cheaps ?b)) (ct_stacks (ctask_at u t)) n = Some (a, m)" "malloc_rep a m xs"
    "\<forall>x. unat x \<notin> hdrs ys \<union> block (unat (ct_stacks (ctask_at u t))) 8 \<longrightarrow> m x = ram (cheaps ?b) x"
    using malloc_free_refines [OF hb [unfolded cl_heap_def], of "ct_stacks (ctask_at u t)" n] bk(1,2,4)
      fl_alloc_free [OF assms(2,3)] \<open>0 < unat n\<close> by (auto simp: blk_ok_def span_def)
  from cl_release_rep [OF f(1)] obtain z where z: "cl_release (ct_stacks (ctask_at u t)) n ?b = Some z" "cl_l1_malloc (cheaps z) = a"
    "ram (cheaps z) = m" "cl_same ?b z" by blast
  let ?v = "upd_ctask t (\<lambda>t. t\<lparr>ct_stacks := 0, ct_stack_size := 0, ct_stack_allocated := 0\<rparr>) z"
  have h: "hdrs ys \<union> block (unat (ct_stacks (ctask_at u t))) 8 \<subseteq> fl_bytes xs"
    using malloc_rep_hdrs [OF hb [unfolded cl_heap_def]] bk(3) dvd_imp_le [OF round8_dvd, of "unat n"] \<open>0 < unat n\<close>
    by (auto simp: span_def block_def)
  have "cl_calm d ?v xs []"
    using z f(2,3) h assms(7) w(4)
    by (intro cl_calm_mem [OF b, of _ xs]) (auto simp: cl_same_def cl_heap_def cl_sync_spinlock_release_def cl_lock_apart_def)
  moreover have "cl_pop_cluster_task env d u = Some ?v"
    using cl_take_free [OF c(1,2)] w(1) z(1) assms(5,6)
    by (simp add: cl_pop_cluster_task_def cl_free_stacks_def ARCHI_CLUSTER_NB_PE_def cl_sync_spinlock_release_def wt(1) Let_def)
  ultimately show ?thesis using z(4) wt by (auto simp: cl_same_def cl_kept_def cl_stays_def cl_fixed_def cl_sync_spinlock_release_def)
qed

definition cl_ready :: "u32 \<Rightarrow> cluster \<Rightarrow> bool" where
  "cl_ready d s \<longleftrightarrow> d \<noteq> 0 \<and> cluster_is_on (cdata_at s d) \<noteq> 0 \<and> mutex_take_fn (task_mutex (cdata_at s d)) \<and> mutex_release_fn (task_mutex (cdata_at s d))"

lemma cl_calm_frame:
  assumes "cl_calm d s xs q" "ctask_at u = ctask_at s" "cdata_at u = cdata_at s" "cheaps u = cheaps s"
  shows "cl_calm d u xs q"
  using assms by (simp add: cl_calm_def cl_lock_ok_def cl_lock_word_def cl_queue_def cl_heap_def cl_lock_apart_def)

lemma cl_mutex_frame:
  fixes s :: cluster
  assumes "mutex_release_fn mx"
  shows "\<exists>u. pmsis_mutex_release mx s = Some u \<and> ctask_at u = ctask_at s \<and> cdata_at u = cdata_at s \<and> cheaps u = cheaps s \<and> cl_kept d t s u"
  using assms by (simp add: pmsis_mutex_release_def os_native_api_mutex_release_def cl_kept_def cl_stays_def cl_fixed_def Let_def case_prod_beta)

lemma cl_send:
  assumes "cl_ready (dev_data s dev) s" "cl_calm (dev_data s dev) s xs []" "t \<noteq> 0" "ct_stacks (ctask_at s t) = 0"
    "size_ok (cl_stack_bytes (ctask_at s t))"
  shows "case fl_alloc (round8 (unat (cl_stack_bytes (ctask_at s t)))) xs of
      None \<Rightarrow> \<exists>u. pi_send_task_to_cl env dev t s = Some (-1, u) \<and> cl_calm (dev_data s dev) u xs [] \<and> cl_kept (dev_data s dev) t s u
    | Some (r, ys) \<Rightarrow> \<exists>u. pi_send_task_to_cl env dev t s = Some (0, u) \<and> cl_calm (dev_data s dev) u ys [t]
        \<and> unat (ct_stacks (ctask_at u t)) = r \<and> ct_stack_allocated (ctask_at u t) = 1
        \<and> ct_slave_stack_size (ctask_at u t) * 7 + ct_stack_size (ctask_at u t) = cl_stack_bytes (ctask_at s t)
        \<and> ct_slave_stack_size (ctask_at u t) = cl_slave_bytes (ctask_at s t) \<and> ct_stack_size (ctask_at u t) = cl_master_bytes (ctask_at s t)
        \<and> fifo_access (cdata_at u (dev_data s dev)) = fifo_access (cdata_at s (dev_data s dev)) \<and> cl_kept (dev_data s dev) t s u"
proof -
  let ?d = "dev_data s dev" and ?n = "cl_stack_bytes (ctask_at s t)"
  let ?mx = "task_mutex (cdata_at s ?d)"
  let ?m = "os_native_api_mutex_lock (mutex_object ?mx) s"
  let ?c = "upd_ctask t (\<lambda>t. t\<lparr>ct_nb_cores := (if ct_nb_cores t = 0 then of_nat ARCHI_CLUSTER_NB_PE else ct_nb_cores t)\<rparr>) ?m"
  let ?p = "upd_ctask t (\<lambda>t. t\<lparr>ct_cluster_team_mask := push_bit (unat (ct_nb_cores t)) 1 - 1\<rparr>) ?c"
  let ?unlock = "\<lambda>(r :: int) s. map_option (\<lambda>s. (r, s)) (pmsis_mutex_release (task_mutex (cdata_at s ?d)) s)"
  have rdy: "?d \<noteq> 0" "cluster_is_on (cdata_at s ?d) \<noteq> 0" "mutex_take_fn ?mx" "mutex_release_fn ?mx"
    using assms(1) by (simp_all add: cl_ready_def)
  have run: "pi_send_task_to_cl env dev t s = Option.bind (cl_task_stacks t ?p) (\<lambda>(ok, s).
      if \<not> ok then ?unlock (-1) s
      else Option.bind (pi_push_cluster_task env ?d t s) (\<lambda>s. ?unlock 0 (hal_eu_cluster_evt_trig_set FC_NOTIFY_CLUSTER_EVENT 0 s)))"
    using rdy by (simp add: pi_send_task_to_cl_def pmsis_mutex_take_def os_native_api_mutex_lock_def Let_def)
  have pc: "cdata_at ?p = cdata_at s" "cheaps ?p = cheaps s" "ct_stacks (ctask_at ?p t) = 0" "cl_stack_bytes (ctask_at ?p t) = ?n"
    "\<And>p. ct_next (ctask_at ?p p) = ct_next (ctask_at s p)"
    "cl_kept ?d t s ?p" "cl_slave_bytes (ctask_at ?p t) = cl_slave_bytes (ctask_at s t)" "cl_master_bytes (ctask_at ?p t) = cl_master_bytes (ctask_at s t)"
    using assms(4) by (simp_all add: os_native_api_mutex_lock_def cl_stack_bytes_def cl_bytes_def cl_kept_def cl_stays_def cl_fixed_def)
  have calm: "cl_calm ?d ?p xs []"
    using assms(2) pc by (intro cl_calm_mem [OF assms(2), of _ xs]) (simp_all add: cl_calm_def cl_heap_def)
  note S = cl_stacks_rep [OF calm pc(3), unfolded pc(4), OF assms(5)]
  show ?thesis
  proof (cases "fl_alloc (round8 (unat ?n)) xs")
    case None
    then obtain u where u: "cl_task_stacks t ?p = Some (False, u)" "cl_calm ?d u xs []" "cdata_at u = cdata_at ?p" "cl_kept ?d t ?p u" using S by auto
    obtain v where v: "pmsis_mutex_release (task_mutex (cdata_at u ?d)) u = Some v" "ctask_at v = ctask_at u" "cdata_at v = cdata_at u" "cheaps v = cheaps u"
      "cl_kept ?d t u v"
      using cl_mutex_frame [of "task_mutex (cdata_at u ?d)" u] rdy(4) u(3) pc(1) by auto
    have "cl_calm ?d v xs []" by (rule cl_calm_frame [OF u(2) v(2-4)])
    then show ?thesis using None run u(1) v(1) cl_kept_trans [OF cl_kept_trans [OF pc(6) u(4)] v(5)] by simp
  next
    case (Some ry)
    obtain r ys where ry: "ry = (r, ys)" by (cases ry)
    then obtain u where u: "cl_task_stacks t ?p = Some (True, u)" "cl_calm ?d u ys []" "cdata_at u = cdata_at ?p"
      "unat (ct_stacks (ctask_at u t)) = r" "ct_stack_allocated (ctask_at u t) = 1"
      "ct_slave_stack_size (ctask_at u t) = cl_slave_bytes (ctask_at s t)" "ct_stack_size (ctask_at u t) = cl_master_bytes (ctask_at s t)"
      "cl_kept ?d t ?p u" using S Some unfolding pc(7,8) by auto
    obtain w where w: "pi_push_cluster_task env ?d t u = Some w" "cl_calm ?d w ys [t]"
      "ctask_at w = (ctask_at u)(t := (ctask_at u t)\<lparr>ct_next := 0\<rparr>)"
      "cdata_at w = (cdata_at u)(?d := (cdata_at u ?d)\<lparr>task_first := t, task_last := t\<rparr>)" "cl_kept ?d t u w"
      using cl_push_free [OF u(2) assms(3)] by blast
    let ?e = "hal_eu_cluster_evt_trig_set FC_NOTIFY_CLUSTER_EVENT 0 w"
    have e: "ctask_at ?e = ctask_at w" "cdata_at ?e = cdata_at w" "cheaps ?e = cheaps w" "cl_kept ?d t w ?e"
      by (simp_all add: hal_eu_cluster_evt_trig_set_def cl_kept_def cl_stays_def cl_fixed_def)
    obtain v where v: "pmsis_mutex_release (task_mutex (cdata_at ?e ?d)) ?e = Some v" "ctask_at v = ctask_at ?e" "cdata_at v = cdata_at ?e" "cheaps v = cheaps ?e"
      "cl_kept ?d t ?e v"
      using cl_mutex_frame [of "task_mutex (cdata_at ?e ?d)" ?e] rdy(4) u(3) pc(1) w(4) e(2) by auto
    have "cl_calm ?d v ys [t]" using v(2-4) e by (intro cl_calm_frame [OF w(2)]) simp_all
    moreover have "cl_kept ?d t s v"
      using cl_kept_trans [OF cl_kept_trans [OF cl_kept_trans [OF cl_kept_trans [OF pc(6) u(8)] w(5)] e(4)] v(5)] .
    ultimately show ?thesis using Some ry run u w v e pc(1) by (simp add: cl_stack_bytes_def)
  qed
qed

text \<open>C13: a task sent with no stacks of its own is given a block of the cluster's L1 heap for the
  master's and the seven slaves' stacks exactly when some free chunk is large enough, and is then the queue's only task; when the cluster has
  run it and takes it off the queue the heap has exactly the free chunks it had before. Otherwise the call answers -1 and
  queue, lock and heap are as before. The size of the master's stack that the caller had set is not put back: it is 0.\<close>
theorem cluster_task_stacks:
  assumes "cl_ready (dev_data s dev) s" "cl_calm (dev_data s dev) s xs []" "t \<noteq> 0" "ct_stacks (ctask_at s t) = 0"
    "n = cl_stack_bytes (ctask_at s t)" "size_ok n"
  shows "if \<exists>(a, k) \<in> set xs. round8 (unat n) \<le> k
    then \<exists>u v ys. pi_send_task_to_cl env dev t s = Some (0, u) \<and> cl_calm (dev_data s dev) u ys [t]
      \<and> fl_bytes xs = fl_bytes ys \<union> span (ct_stacks (ctask_at u t), n) \<and> span (ct_stacks (ctask_at u t), n) \<inter> fl_bytes ys = {}
      \<and> cl_pop_cluster_task env (dev_data s dev) u = Some v \<and> cl_calm (dev_data s dev) v xs []
      \<and> ct_stacks (ctask_at v t) = 0 \<and> ct_stack_size (ctask_at v t) = 0
    else \<exists>u. pi_send_task_to_cl env dev t s = Some (-1, u) \<and> cl_calm (dev_data s dev) u xs []"
proof -
  note S = cl_send [OF assms(1-4), folded assms(5), OF assms(6), of env]
  have ok: "fl_ok 0 xs" using assms(2) malloc_rep_ok by (auto simp: cl_calm_def cl_heap_def)
  have fit: "(\<exists>(a, k) \<in> set xs. round8 (unat n) \<le> k) \<longleftrightarrow> fl_alloc (round8 (unat n)) xs \<noteq> None"
    using fl_alloc_None [of "round8 (unat n)" xs] by (simp add: not_less case_prod_beta)
  show ?thesis
  proof (cases "fl_alloc (round8 (unat n)) xs")
    case None
    then show ?thesis using S fit by auto
  next
    case (Some ry)
    obtain r ys where ry: "ry = (r, ys)" by (cases ry)
    then obtain u where u: "pi_send_task_to_cl env dev t s = Some (0, u)" "cl_calm (dev_data s dev) u ys [t]"
      "unat (ct_stacks (ctask_at u t)) = r" "ct_stack_allocated (ctask_at u t) = 1"
      "ct_slave_stack_size (ctask_at u t) * 7 + ct_stack_size (ctask_at u t) = n"
      "fifo_access (cdata_at u (dev_data s dev)) = fifo_access (cdata_at s (dev_data s dev))" using S Some by auto
    have al: "fl_alloc (round8 (unat n)) xs = Some (unat (ct_stacks (ctask_at u t)), ys)" using Some ry u(3) by simp
    have ap: "cl_lock_apart (dev_data s dev) u xs" using assms(2) u(6) by (simp add: cl_calm_def cl_lock_apart_def)
    obtain v where "cl_pop_cluster_task env (dev_data s dev) u = Some v" "cl_calm (dev_data s dev) v xs []"
      "ct_stacks (ctask_at v t) = 0" "ct_stack_size (ctask_at v t) = 0"
      using cl_pop_free [OF u(2) al ok assms(6) _ u(5) ap] u(4) by auto
    moreover have "\<exists>(a, k) \<in> set xs. round8 (unat n) \<le> k" using fit Some by simp
    ultimately show ?thesis using u(1,2) fl_alloc_blk(2,3) [OF al ok assms(6)] by (simp only: if_True) blast
  qed
qed

definition demo_cluster_heap :: cluster where
  "demo_cluster_heap = demo_cluster\<lparr>
     ctask_at := \<lambda>_. \<lparr>ct_entry = 0, ct_arg = 0, ct_stacks = 0, ct_stack_size = 0x400, ct_slave_stack_size = 0x100, ct_nb_cores = 0,
        ct_completion_callback = 0, ct_stack_allocated = 0, ct_next = 0, ct_cluster_team_mask = 0\<rparr>,
     cdata_at := \<lambda>_. cl_new_data\<lparr>cluster_is_on := 1, task_mutex := \<lparr>mutex_object = 1, mutex_take_fn = True, mutex_release_fn = True\<rparr>,
        fifo_access := \<lparr>lock_ptr = 0x10100010, release_ptr = 0x10000010\<rparr>\<rparr>,
     cheaps := (cheaps demo_cluster)\<lparr>cl_l1_malloc := fst demo_heap, ram := wr32 (snd demo_heap) 0x10000010 0\<rparr>\<rparr>"

lemma demo_cluster_heap_ok:
  "cl_ready 0x1C000100 demo_cluster_heap" "cl_calm 0x1C000100 demo_cluster_heap [(0x1C000008, 4088)] []"
proof -
  show "cl_ready 0x1C000100 demo_cluster_heap" by (simp add: cl_ready_def demo_cluster_heap_def)
  have "malloc_rep (fst demo_heap) (wr32 (snd demo_heap) 0x10000010 0) [(0x1C000008, 4088)]"
    by (rule malloc_rep_cong [OF demo_heap_rep], rule wr32_other) (auto simp: block_def)
  then show "cl_calm 0x1C000100 demo_cluster_heap [(0x1C000008, 4088)] []"
    by (simp add: cl_calm_def cl_lock_ok_def cl_lock_word_def cl_queue_def cl_heap_def cl_lock_apart_def demo_cluster_heap_def
        cl_new_data_def L1_TAS_BASE_def block_def Let_def)
qed

lemma cluster_task_stacks_witness:
  "\<exists>u v. pi_send_task_to_cl id 0 0x1C001000 demo_cluster_heap = Some (0, u)
     \<and> cl_pop_cluster_task id 0x1C000100 u = Some v \<and> cl_calm 0x1C000100 v [(0x1C000008, 4088)] [] \<and> ct_stack_size (ctask_at v 0x1C001000) = 0"
proof -
  have d: "dev_data demo_cluster_heap 0 = 0x1C000100" "ct_stacks (ctask_at demo_cluster_heap 0x1C001000) = 0"
    "cl_stack_bytes (ctask_at demo_cluster_heap 0x1C001000) = 0xB00"
    by (simp_all add: demo_cluster_heap_def demo_cluster_def cl_stack_bytes_def cl_bytes_def)
  show ?thesis
    using cluster_task_stacks [of demo_cluster_heap 0 "[(0x1C000008, 4088)]" "0x1C001000" "0xB00" id] demo_cluster_heap_ok d
    by (auto simp: size_ok_def heap_top_def round8_def simp del: fl_bytes.simps)
qed

end
