(* ===== verification/ClusterMailbox.thy ===== *)
theory ClusterMailbox
  imports ClusterLife
begin

text \<open>
  The mailbox of the cluster (drivers/cluster/cl_to_fc_delegate.c) under interleaving. The cores of
  a cluster call pi_cl_send_task_to_fc while the fabric controller takes the interrupts of
  cl_notify_fc_event_handler. A core and the controller are small machines whose steps are the
  accesses of these two functions to what they share: the hardware mutex 0, the field task_to_fc,
  the pending bit of the interrupt, and the event FC_NOTIFY_CLUSTER_EVENT that every core buffers.
  Run without interruption the steps compose to the two functions of ClusterOps
  (sender_alone, receiver_alone). Every interleaving of them delivers each task once and in the
  order of the stores, and no wake-up is lost.
\<close>

subsection \<open>State\<close>

datatype sender = Away | Locking u32 | Checking u32 | Waiting u32 | Storing u32 | Triggering | Unlocking

datatype receiver = Ready | Entered | Handling u32 | Clearing | Notifying

record mailbox =
  shared :: cluster
  sender_at :: "nat \<Rightarrow> sender"
  receiver_at :: receiver
  mutex_owner :: "nat option"
  fc_pending :: bool
  cl_event :: "nat \<Rightarrow> bool"
  asked_tasks :: "u32 list"
  sent_tasks :: "u32 list"
  handled_tasks :: "u32 list"

definition mailbox_slot :: "u32 \<Rightarrow> mailbox \<Rightarrow> u32" where
  "mailbox_slot d m = task_to_fc (cdata_at (shared m) d)"

definition go_to :: "nat \<Rightarrow> sender \<Rightarrow> mailbox \<Rightarrow> mailbox" where
  "go_to i pc m = m\<lparr>sender_at := (sender_at m)(i := pc)\<rparr>"

definition mailbox_empty :: "cluster \<Rightarrow> mailbox" where
  "mailbox_empty s = \<lparr>shared = s, sender_at = \<lambda>_. Away, receiver_at = Ready, mutex_owner = None, fc_pending = False,
     cl_event = \<lambda>_. False, asked_tasks = [], sent_tasks = [], handled_tasks = []\<rparr>"

subsection \<open>Steps\<close>

text \<open>One step of core i inside pi_cl_send_task_to_fc; None when it has to wait.\<close>

definition sender_step :: "u32 \<Rightarrow> nat \<Rightarrow> mailbox \<Rightarrow> mailbox option" where
  "sender_step d i m =
     (case sender_at m i of
        Away \<Rightarrow> None
      | Locking t \<Rightarrow> (if mutex_owner m = None then Some (go_to i (Checking t) (m\<lparr>mutex_owner := Some i\<rparr>)) else None)
      | Checking t \<Rightarrow> Some (go_to i (if mailbox_slot d m \<noteq> 0 then Waiting t else Storing t) m)
      | Waiting t \<Rightarrow> (if cl_event m i then Some (go_to i (Checking t) (m\<lparr>cl_event := (cl_event m)(i := False)\<rparr>)) else None)
      | Storing t \<Rightarrow> Some (go_to i Triggering (m\<lparr>shared := upd_cdata d (\<lambda>x. x\<lparr>task_to_fc := t\<rparr>) (shared m),
                                               sent_tasks := sent_tasks m @ [t]\<rparr>))
      | Triggering \<Rightarrow> map_option (\<lambda>s. go_to i Unlocking (m\<lparr>shared := s, fc_pending := True\<rparr>))
                        (hal_eu_fc_evt_trig_set (uint CLUSTER_TO_FC_NOTIFY_IRQN) 0 (shared m))
      | Unlocking \<Rightarrow> Some (go_to i Away (m\<lparr>shared := hal_eu_mutex_unlock 0 (shared m), mutex_owner := None\<rparr>)))"

text \<open>One step of the fabric controller: the interrupt is taken, which clears its pending bit, and
  cl_notify_fc_event_handler runs.\<close>

definition receiver_step :: "(u32 \<Rightarrow> u32 \<Rightarrow> cluster \<Rightarrow> cluster) \<Rightarrow> u32 \<Rightarrow> mailbox \<Rightarrow> mailbox option" where
  "receiver_step call d m =
     (case receiver_at m of
        Ready \<Rightarrow> (if fc_pending m then Some (m\<lparr>fc_pending := False, receiver_at := Entered\<rparr>) else None)
      | Entered \<Rightarrow> Some (m\<lparr>receiver_at := Handling (mailbox_slot d m)\<rparr>)
      | Handling t \<Rightarrow> map_option (\<lambda>s. m\<lparr>shared := s, handled_tasks := handled_tasks m @ [t], receiver_at := Clearing\<rparr>)
                        (fc_handle_task call t (shared m))
      | Clearing \<Rightarrow> Some (m\<lparr>shared := upd_cdata d (\<lambda>x. x\<lparr>task_to_fc := 0\<rparr>) (shared m), receiver_at := Notifying\<rparr>)
      | Notifying \<Rightarrow> Some (m\<lparr>shared := hal_eu_cluster_evt_trig_set FC_NOTIFY_CLUSTER_EVENT 0 (shared m),
                              cl_event := \<lambda>_. True, receiver_at := Ready\<rparr>))"

text \<open>A step of either side.\<close>

inductive mailbox_step :: "(u32 \<Rightarrow> u32 \<Rightarrow> cluster \<Rightarrow> cluster) \<Rightarrow> u32 \<Rightarrow> mailbox \<Rightarrow> mailbox \<Rightarrow> bool"
  for call d where
  core: "i < ARCHI_CLUSTER_NB_PE \<Longrightarrow> sender_step d i m = Some m' \<Longrightarrow> mailbox_step call d m m'"
| controller: "receiver_step call d m = Some m' \<Longrightarrow> mailbox_step call d m m'"

text \<open>What can happen: a core that is away calls with a task, a step, or other code runs, which
  leaves the mailbox alone.\<close>

inductive mailbox_run :: "(u32 \<Rightarrow> u32 \<Rightarrow> cluster \<Rightarrow> cluster) \<Rightarrow> u32 \<Rightarrow> mailbox \<Rightarrow> bool"
  for call d where
  empty: "task_to_fc (cdata_at s d) = 0 \<Longrightarrow> mailbox_run call d (mailbox_empty s)"
| ask: "mailbox_run call d m \<Longrightarrow> i < ARCHI_CLUSTER_NB_PE \<Longrightarrow> sender_at m i = Away \<Longrightarrow> t \<noteq> 0
        \<Longrightarrow> mailbox_run call d (go_to i (Locking t) (m\<lparr>asked_tasks := asked_tasks m @ [t]\<rparr>))"
| step: "mailbox_run call d m \<Longrightarrow> mailbox_step call d m m' \<Longrightarrow> mailbox_run call d m'"
| other: "mailbox_run call d m \<Longrightarrow> task_to_fc (cdata_at s d) = mailbox_slot d m
          \<Longrightarrow> mailbox_run call d (m\<lparr>shared := s\<rparr>)"

text \<open>The callbacks of light tasks do not write task_to_fc.\<close>

definition keeps_mailbox :: "(u32 \<Rightarrow> u32 \<Rightarrow> cluster \<Rightarrow> cluster) \<Rightarrow> u32 \<Rightarrow> bool" where
  "keeps_mailbox call d \<longleftrightarrow> (\<forall>f x s. task_to_fc (cdata_at (call f x s) d) = task_to_fc (cdata_at s d))"

fun wanted :: "sender \<Rightarrow> u32 multiset" where
  "wanted (Locking t) = {#t#}"
| "wanted (Checking t) = {#t#}"
| "wanted (Waiting t) = {#t#}"
| "wanted (Storing t) = {#t#}"
| "wanted _ = {#}"

fun inside :: "sender \<Rightarrow> bool" where
  "inside Away = False"
| "inside (Locking t) = False"
| "inside _ = True"

subsection \<open>Lemmas\<close>

lemma go_to_simps [simp]:
  "shared (go_to i pc m) = shared m" "sender_at (go_to i pc m) = (sender_at m)(i := pc)"
  "receiver_at (go_to i pc m) = receiver_at m" "mutex_owner (go_to i pc m) = mutex_owner m"
  "fc_pending (go_to i pc m) = fc_pending m" "cl_event (go_to i pc m) = cl_event m"
  "asked_tasks (go_to i pc m) = asked_tasks m" "sent_tasks (go_to i pc m) = sent_tasks m"
  "handled_tasks (go_to i pc m) = handled_tasks m" "mailbox_slot d (go_to i pc m) = mailbox_slot d m"
  by (simp_all add: go_to_def mailbox_slot_def)

lemma slot_frame [simp]:
  "mailbox_slot d (m\<lparr>sender_at := f\<rparr>) = mailbox_slot d m" "mailbox_slot d (m\<lparr>receiver_at := r\<rparr>) = mailbox_slot d m"
  "mailbox_slot d (m\<lparr>mutex_owner := w\<rparr>) = mailbox_slot d m" "mailbox_slot d (m\<lparr>fc_pending := p\<rparr>) = mailbox_slot d m"
  "mailbox_slot d (m\<lparr>cl_event := e\<rparr>) = mailbox_slot d m" "mailbox_slot d (m\<lparr>asked_tasks := a\<rparr>) = mailbox_slot d m"
  "mailbox_slot d (m\<lparr>sent_tasks := a\<rparr>) = mailbox_slot d m" "mailbox_slot d (m\<lparr>handled_tasks := a\<rparr>) = mailbox_slot d m"
  "mailbox_slot d (m\<lparr>shared := s\<rparr>) = task_to_fc (cdata_at s d)"
  by (simp_all add: mailbox_slot_def)

lemma notify_irqn: "uint CLUSTER_TO_FC_NOTIFY_IRQN = 2"
  by (simp add: CLUSTER_TO_FC_NOTIFY_IRQN_def FC_IRQ_SW_EVT_def NB_SW_EVENTS_def)

lemma notify_trigger:
  "hal_eu_fc_evt_trig_set (uint CLUSTER_TO_FC_NOTIFY_IRQN) 0 s = Some (writew 4 (PULP_FC_IRQ_ADDR + IRQ_REG_INT_SET_OFFSET) s)"
  by (simp add: hal_eu_fc_evt_trig_set_def irq_pend_def notify_irqn)

lemma cdata_upd_task [simp]: "cdata_at (upd_task p f s) = cdata_at s"
  by (simp add: upd_task_def)

lemma cdata_release:
  fixes s :: cluster
  shows "pi_task_release p s = Some s' \<Longrightarrow> cdata_at s' = cdata_at s"
  by (auto simp: pi_task_release_def pi_sem_give_def os_native_api_sem_give_def Let_def case_prod_beta split: if_splits)

lemma cdata_push [simp]: "cdata_at (pi_task_push p (s :: cluster)) = cdata_at s"
  by (simp add: pi_task_push_def pi_task_push_delayed_us_def pi_time_wait_us_def Let_def case_prod_beta)

lemma handle_slot:
  assumes "keeps_mailbox call d" "fc_handle_task call t s = Some s'"
  shows "task_to_fc (cdata_at s' d) = task_to_fc (cdata_at s d)"
  using assms by (auto simp: fc_handle_task_def keeps_mailbox_def Let_def dest!: cdata_release split: if_splits)

lemma cdata_event [simp]:
  "cdata_at (hal_eu_cluster_evt_trig_set e v (s :: cluster)) = cdata_at s" "cdata_at (hal_eu_mutex_unlock k (s :: cluster)) = cdata_at s"
  by (simp_all add: hal_eu_cluster_evt_trig_set_def hal_eu_mutex_unlock_def)

text \<open>The steps of one side without interruption are the functions of the source.\<close>

fun iterate :: "nat \<Rightarrow> ('s \<Rightarrow> 's option) \<Rightarrow> 's \<Rightarrow> 's option" where
  "iterate 0 f s = Some s"
| "iterate (Suc n) f s = Option.bind (f s) (iterate n f)"

lemma receiver_alone:
  assumes "cl_data (shared m) = Some d" "receiver_at m = Entered"
  shows "map_option shared (iterate 4 (receiver_step call d) m) = cl_notify_fc_event_handler call (shared m)"
proof -
  have "iterate 4 f = iterate (Suc (Suc (Suc (Suc 0)))) f" for f :: "mailbox \<Rightarrow> mailbox option" by (simp add: numeral_eq_Suc)
  then show ?thesis
    using assms by (cases "fc_handle_task call (mailbox_slot d m) (shared m)")
      (auto simp: receiver_step_def cl_notify_fc_event_handler_def mailbox_slot_def Let_def)
qed

lemma sender_alone:
  assumes "cl_data (shared m) = Some d" "mailbox_slot d m = 0" "mutex_owner m = None" "sender_at m i = Locking t"
  shows "map_option shared (iterate 5 (sender_step d i) m) = pi_cl_send_task_to_fc (\<lambda>s. s) t (shared m)"
proof -
  have "iterate 5 f = iterate (Suc (Suc (Suc (Suc (Suc 0))))) f" for f :: "mailbox \<Rightarrow> mailbox option" by (simp add: numeral_eq_Suc)
  moreover have "cl_wait_fc_free (\<lambda>s. s) d (shared m) = Some (shared m)"
    using assms(2) by (subst cl_wait_fc_free.simps) (simp add: mailbox_slot_def)
  ultimately show ?thesis
    using assms by (simp add: sender_step_def pi_cl_send_task_to_fc_def notify_trigger hal_eu_mutex_lock_def hal_evt_read32_def Let_def)
qed

subsection \<open>Invariant\<close>

fun in_flight :: "receiver \<Rightarrow> u32 \<Rightarrow> u32 list" where
  "in_flight Clearing t = []"
| "in_flight _ t = (if t = 0 then [] else [t])"

definition mailbox_ok :: "u32 \<Rightarrow> mailbox \<Rightarrow> bool" where
  "mailbox_ok d m \<longleftrightarrow>
     (\<forall>i. inside (sender_at m i) \<longleftrightarrow> mutex_owner m = Some i) \<and>
     (\<forall>i. i \<ge> ARCHI_CLUSTER_NB_PE \<longrightarrow> sender_at m i = Away) \<and>
     (\<forall>i. 0 \<notin># wanted (sender_at m i)) \<and>
     sent_tasks m = handled_tasks m @ in_flight (receiver_at m) (mailbox_slot d m) \<and>
     mset (asked_tasks m) = mset (sent_tasks m) + (\<Sum>i<ARCHI_CLUSTER_NB_PE. wanted (sender_at m i))"

definition triggering :: "(nat \<Rightarrow> sender) \<Rightarrow> bool" where
  "triggering f \<longleftrightarrow> (\<exists>i. f i = Triggering)"

fun sender_wakes :: "u32 \<Rightarrow> bool \<Rightarrow> receiver \<Rightarrow> bool \<Rightarrow> sender \<Rightarrow> bool" where
  "sender_wakes v pend r e Triggering = (v \<noteq> 0 \<and> \<not> pend \<and> r \<in> {Ready, Notifying})"
| "sender_wakes v pend r e (Storing t) = (v = 0)"
| "sender_wakes v pend r e (Waiting t) = (v \<noteq> 0 \<or> e \<or> r = Notifying)"
| "sender_wakes v pend r e _ = True"

fun receiver_wakes :: "u32 \<Rightarrow> bool \<Rightarrow> bool \<Rightarrow> receiver \<Rightarrow> bool" where
  "receiver_wakes v pend trig (Handling t) = (v = t \<and> t \<noteq> 0 \<and> \<not> pend)"
| "receiver_wakes v pend trig Entered = (v \<noteq> 0 \<and> \<not> pend)"
| "receiver_wakes v pend trig Clearing = (v \<noteq> 0 \<and> \<not> pend)"
| "receiver_wakes v pend trig _ = ((pend \<longrightarrow> v \<noteq> 0) \<and> (v \<noteq> 0 \<longrightarrow> pend \<or> trig))"

definition mailbox_wakes :: "u32 \<Rightarrow> mailbox \<Rightarrow> bool" where
  "mailbox_wakes d m \<longleftrightarrow>
     receiver_wakes (mailbox_slot d m) (fc_pending m) (triggering (sender_at m)) (receiver_at m) \<and>
     (\<forall>i. sender_wakes (mailbox_slot d m) (fc_pending m) (receiver_at m) (cl_event m i) (sender_at m i))"

lemma triggering_upd: "f i \<noteq> Triggering \<Longrightarrow> triggering (f(i := pc)) \<longleftrightarrow> pc = Triggering \<or> triggering f"
  by (auto simp: triggering_def)

lemma inside_wanted: "\<not> inside pc \<Longrightarrow> pc = Away \<or> (\<exists>t. pc = Locking t)"
  by (cases pc) auto

lemma sum_upd:
  fixes n :: nat and g :: "'a \<Rightarrow> 'b :: comm_monoid_add"
  assumes "i < n"
  shows "(\<Sum>j<n. g ((f(i := x)) j)) + g (f i) = (\<Sum>j<n. g (f j)) + g x"
proof -
  have "(\<Sum>j<n. g (h j)) = g (h i) + (\<Sum>j\<in>{..<n} - {i}. g (h j))" for h
    using assms by (intro sum.remove) auto
  from this [of f] this [of "f(i := x)"] show ?thesis by (simp add: ac_simps)
qed

lemma ok_empty: "task_to_fc (cdata_at s d) = 0 \<Longrightarrow> mailbox_ok d (mailbox_empty s) \<and> mailbox_wakes d (mailbox_empty s)"
  by (simp add: mailbox_ok_def mailbox_wakes_def mailbox_empty_def mailbox_slot_def)

lemma ok_other:
  assumes "mailbox_ok d m \<and> mailbox_wakes d m" "task_to_fc (cdata_at s d) = mailbox_slot d m"
  shows "mailbox_ok d (m\<lparr>shared := s\<rparr>) \<and> mailbox_wakes d (m\<lparr>shared := s\<rparr>)"
  using assms by (simp add: mailbox_ok_def mailbox_wakes_def)

lemma ok_ask:
  assumes "mailbox_ok d m \<and> mailbox_wakes d m" "i < ARCHI_CLUSTER_NB_PE" "sender_at m i = Away" "t \<noteq> 0"
  defines "m' \<equiv> go_to i (Locking t) (m\<lparr>asked_tasks := asked_tasks m @ [t]\<rparr>)"
  shows "mailbox_ok d m' \<and> mailbox_wakes d m'"
proof
  have o: "mutex_owner m \<noteq> Some i" using assms(1,3) by (force simp: mailbox_ok_def)
  then show "mailbox_ok d m'"
    using assms(1-4) sum_upd [OF assms(2), of wanted "sender_at m" "Locking t"]
    by (simp add: mailbox_ok_def m'_def)
  show "mailbox_wakes d m'" using assms(1,3) by (simp add: mailbox_wakes_def m'_def triggering_upd)
qed

lemma handled_slot:
  assumes "keeps_mailbox call d" "receiver_at m = Handling t" "receiver_step call d m = Some m'"
  shows "mailbox_slot d m' = mailbox_slot d m"
  using assms(2,3) handle_slot [OF assms(1), of t "shared m"] by (auto simp: receiver_step_def mailbox_slot_def)

lemma ok_receiver:
  assumes "mailbox_ok d m" "mailbox_wakes d m" "keeps_mailbox call d" "receiver_step call d m = Some m'"
  shows "mailbox_ok d m'"
  using assms handled_slot [OF assms(3) _ assms(4)]
  by (cases "receiver_at m")
    (auto simp: receiver_step_def mailbox_ok_def mailbox_wakes_def mailbox_slot_def split: if_splits)

lemma wakes_receiver:
  assumes "mailbox_wakes d m" "keeps_mailbox call d" "receiver_step call d m = Some m'"
  shows "mailbox_wakes d m'"
proof -
  have r: "receiver_wakes (mailbox_slot d m) (fc_pending m) (triggering (sender_at m)) (receiver_at m)"
    and w: "sender_wakes (mailbox_slot d m) (fc_pending m) (receiver_at m) (cl_event m i) (sender_at m i)" for i
    using assms(1) by (auto simp: mailbox_wakes_def)
  have "sender_wakes (mailbox_slot d m') (fc_pending m') (receiver_at m') (cl_event m' i) (sender_at m' i)" for i
    using assms(3) w [of i] r handled_slot [OF assms(2) _ assms(3)]
    by (cases "receiver_at m"; cases "sender_at m i") (auto simp: receiver_step_def mailbox_slot_def split: if_splits)
  moreover have "receiver_wakes (mailbox_slot d m') (fc_pending m') (triggering (sender_at m')) (receiver_at m')"
    using assms(3) r handled_slot [OF assms(2) _ assms(3)]
    by (cases "receiver_at m") (auto simp: receiver_step_def mailbox_slot_def split: if_splits)
  ultimately show ?thesis by (simp add: mailbox_wakes_def)
qed

lemma sole_sender:
  assumes "mailbox_ok d m" "inside (sender_at m i)" "inside (sender_at m j)"
  shows "j = i"
  using assms by (auto simp: mailbox_ok_def)

text \<open>A core that moves on inside the function: what the two invariants need to know of it.\<close>

lemma ok_move:
  assumes ok: "mailbox_ok d m" and i: "i < ARCHI_CLUSTER_NB_PE"
    and o: "mutex_owner m' = (if inside pc then Some i else None)" "inside (sender_at m i) \<or> mutex_owner m = None"
    and w: "0 \<notin># wanted pc" "mset (sent_tasks m') + wanted pc = mset (sent_tasks m) + wanted (sender_at m i)"
    and s: "sent_tasks m' = handled_tasks m @ in_flight (receiver_at m) (mailbox_slot d m')"
    and f: "sender_at m' = (sender_at m)(i := pc)" "receiver_at m' = receiver_at m" "handled_tasks m' = handled_tasks m"
      "asked_tasks m' = asked_tasks m"
  shows "mailbox_ok d m'"
proof -
  let ?X = "\<lambda>f. \<Sum>j<ARCHI_CLUSTER_NB_PE. wanted (f j)" and ?w = "wanted (sender_at m i)"
  let ?Y = "?X ((sender_at m)(i := pc))"
  have "mset (sent_tasks m') + ?Y + (?w + wanted pc) = (mset (sent_tasks m') + wanted pc) + (?Y + ?w)"
    by (simp only: ac_simps)
  also have "\<dots> = (mset (sent_tasks m) + ?w) + (?X (sender_at m) + wanted pc)"
    by (simp only: sum_upd [OF i] w(2))
  also have "\<dots> = mset (sent_tasks m) + ?X (sender_at m) + (?w + wanted pc)"
    by (simp only: ac_simps)
  finally have "mset (sent_tasks m') + ?Y = mset (sent_tasks m) + ?X (sender_at m)"
    by (simp only: add_right_cancel)
  then have "mset (asked_tasks m) = mset (sent_tasks m') + ?Y" using ok by (simp add: mailbox_ok_def)
  moreover have "inside (((sender_at m)(i := pc)) j) \<longleftrightarrow> mutex_owner m' = Some j" for j
    using ok o by (auto simp: mailbox_ok_def)
  ultimately show ?thesis using ok i w(1) s by (simp add: mailbox_ok_def f)
qed

lemma ok_sender:
  assumes ok: "mailbox_ok d m" and wk: "mailbox_wakes d m" and i: "i < ARCHI_CLUSTER_NB_PE" and st: "sender_step d i m = Some m'"
  shows "mailbox_ok d m'"
proof -
  have z: "0 \<notin># wanted (sender_at m i)" using ok by (simp add: mailbox_ok_def)
  have s: "sent_tasks m = handled_tasks m @ in_flight (receiver_at m) (mailbox_slot d m)" using ok by (simp add: mailbox_ok_def)
  have o: "inside (sender_at m i) \<Longrightarrow> mutex_owner m = Some i" using ok by (simp add: mailbox_ok_def)
  show ?thesis
  proof (cases "sender_at m i")
    case Away
    then show ?thesis using st by (simp add: sender_step_def)
  next
    case (Storing t)
    have "sender_wakes (mailbox_slot d m) (fc_pending m) (receiver_at m) (cl_event m i) (sender_at m i)"
      and "receiver_wakes (mailbox_slot d m) (fc_pending m) (triggering (sender_at m)) (receiver_at m)"
      using wk by (simp_all add: mailbox_wakes_def)
    then have "mailbox_slot d m = 0" "receiver_at m \<noteq> Clearing" using Storing by auto
    then have "in_flight (receiver_at m) (mailbox_slot d m) = []" "t \<noteq> 0 \<Longrightarrow> in_flight (receiver_at m) t = [t]"
      by (cases "receiver_at m"; simp)+
    then show ?thesis using st z s o Storing
      by (intro ok_move [OF ok i, of m' Triggering]) (auto simp: sender_step_def)
  qed (use st z s o in \<open>auto simp: sender_step_def notify_trigger mailbox_slot_def split: if_splits
        intro!: ok_move [OF ok i]\<close>)
qed

lemma wakes_move:
  assumes "receiver_wakes (mailbox_slot d m') (fc_pending m') (triggering (sender_at m')) (receiver_at m')"
    and "sender_at m' = (sender_at m)(i := pc)"
    and "sender_wakes (mailbox_slot d m') (fc_pending m') (receiver_at m') (cl_event m' i) pc"
    and "\<And>j. j \<noteq> i \<Longrightarrow> \<not> inside (sender_at m j)"
  shows "mailbox_wakes d m'"
proof -
  have "sender_wakes (mailbox_slot d m') (fc_pending m') (receiver_at m') (cl_event m' j) (sender_at m' j)" for j
    using assms(2,3) assms(4) [of j] by (cases "j = i"; cases "sender_at m j") auto
  then show ?thesis using assms(1) by (simp add: mailbox_wakes_def)
qed

lemma wakes_sender:
  assumes ok: "mailbox_ok d m" and wk: "mailbox_wakes d m" and st: "sender_step d i m = Some m'"
  shows "mailbox_wakes d m'"
proof -
  have out: "\<not> inside (sender_at m j)" if "inside (sender_at m i)" "j \<noteq> i" for j
    using that sole_sender [OF ok that(1), of j] by blast
  have r: "receiver_wakes (mailbox_slot d m) (fc_pending m) (triggering (sender_at m)) (receiver_at m)"
    and w: "sender_wakes (mailbox_slot d m) (fc_pending m) (receiver_at m) (cl_event m i) (sender_at m i)"
    using wk by (auto simp: mailbox_wakes_def)
  show ?thesis
  proof (cases "sender_at m i")
    case Away
    then show ?thesis using st by (simp add: sender_step_def)
  next
    case (Locking t)
    then show ?thesis using st wk by (auto simp: sender_step_def mailbox_wakes_def triggering_upd split: if_splits)
  next
    case (Checking t)
    then show ?thesis using st r out
      by (intro wakes_move [where pc = "if mailbox_slot d m \<noteq> 0 then Waiting t else Storing t"])
        (auto simp: sender_step_def triggering_upd)
  next
    case (Waiting t)
    then show ?thesis using st r out
      by (intro wakes_move [where pc = "Checking t"]) (auto simp: sender_step_def triggering_upd split: if_splits)
  next
    case (Storing t)
    have "0 \<notin># wanted (sender_at m i)" using ok by (simp add: mailbox_ok_def)
    then have "t \<noteq> 0" using Storing by simp
    then show ?thesis using st Storing w r out
      by (intro wakes_move [where pc = Triggering]; cases "receiver_at m") (auto simp: sender_step_def triggering_upd)
  next
    case Triggering
    then show ?thesis using st r w out
      by (intro wakes_move [where pc = Unlocking]) (auto simp: sender_step_def notify_trigger mailbox_slot_def)
  next
    case Unlocking
    then show ?thesis using st r out
      by (intro wakes_move [where pc = Away]) (auto simp: sender_step_def mailbox_slot_def triggering_upd)
  qed
qed

theorem mailbox_invariant:
  assumes "keeps_mailbox call d" "mailbox_run call d m"
  shows "mailbox_ok d m \<and> mailbox_wakes d m"
  using assms(2)
proof (induction rule: mailbox_run.induct)
  case (step m m')
  show ?case using step(2)
  proof cases
    case (core i)
    then show ?thesis using step.IH ok_sender wakes_sender by blast
  next
    case controller
    then show ?thesis using step.IH ok_receiver wakes_receiver assms(1) by blast
  qed
qed (simp_all add: ok_empty ok_ask ok_other)

subsection \<open>Progress\<close>

text \<open>What is left to do: every step of the two functions takes some of it away.\<close>

fun sender_work :: "sender \<Rightarrow> nat" where
  "sender_work Away = 0"
| "sender_work Unlocking = 1"
| "sender_work Triggering = 2 * ARCHI_CLUSTER_NB_PE + 7"
| "sender_work (Storing t) = 2 * ARCHI_CLUSTER_NB_PE + 8"
| "sender_work (Waiting t) = 2 * ARCHI_CLUSTER_NB_PE + 9"
| "sender_work (Checking t) = 2 * ARCHI_CLUSTER_NB_PE + 10"
| "sender_work (Locking t) = 2 * ARCHI_CLUSTER_NB_PE + 11"

fun receiver_work :: "receiver \<Rightarrow> nat" where
  "receiver_work Ready = 0"
| "receiver_work Notifying = 2 * ARCHI_CLUSTER_NB_PE + 1"
| "receiver_work Clearing = 2 * ARCHI_CLUSTER_NB_PE + 2"
| "receiver_work (Handling t) = 2 * ARCHI_CLUSTER_NB_PE + 3"
| "receiver_work Entered = 2 * ARCHI_CLUSTER_NB_PE + 4"

fun event_work :: "bool \<Rightarrow> nat" where
  "event_work True = 2"
| "event_work False = 0"

definition mailbox_work :: "mailbox \<Rightarrow> nat" where
  "mailbox_work m = (\<Sum>i<ARCHI_CLUSTER_NB_PE. sender_work (sender_at m i)) + (\<Sum>i<ARCHI_CLUSTER_NB_PE. event_work (cl_event m i))
     + (if fc_pending m then 2 * ARCHI_CLUSTER_NB_PE + 5 else 0) + receiver_work (receiver_at m)"

lemma sender_works:
  assumes i: "i < ARCHI_CLUSTER_NB_PE" and st: "sender_step d i m = Some m'"
  shows "mailbox_work m' < mailbox_work m"
proof -
  have s: "(\<Sum>j<ARCHI_CLUSTER_NB_PE. sender_work (((sender_at m)(i := pc)) j)) + sender_work (sender_at m i)
      = (\<Sum>j<ARCHI_CLUSTER_NB_PE. sender_work (sender_at m j)) + sender_work pc" for pc
    by (rule sum_upd [OF i])
  have e: "(\<Sum>j<ARCHI_CLUSTER_NB_PE. event_work (((cl_event m)(i := False)) j)) + event_work (cl_event m i)
      = (\<Sum>j<ARCHI_CLUSTER_NB_PE. event_work (cl_event m j)) + event_work False"
    by (rule sum_upd [OF i])
  show ?thesis
  proof (cases "sender_at m i")
    case Away
    then show ?thesis using st by (simp add: sender_step_def)
  next
    case (Locking t)
    then show ?thesis using st s [of "Checking t"] by (auto simp: sender_step_def mailbox_work_def split: if_splits)
  next
    case (Checking t)
    then show ?thesis using st s [of "Waiting t"] s [of "Storing t"] by (auto simp: sender_step_def mailbox_work_def split: if_splits)
  next
    case (Waiting t)
    then show ?thesis using st s [of "Checking t"] e by (auto simp: sender_step_def mailbox_work_def split: if_splits)
  next
    case (Storing t)
    then show ?thesis using st s [of Triggering] by (auto simp: sender_step_def mailbox_work_def)
  next
    case Triggering
    then show ?thesis using st s [of Unlocking] by (auto simp: sender_step_def notify_trigger mailbox_work_def)
  next
    case Unlocking
    then show ?thesis using st s [of Away] by (auto simp: sender_step_def mailbox_work_def)
  qed
qed

lemma receiver_works:
  assumes "receiver_step call d m = Some m'"
  shows "mailbox_work m' < mailbox_work m"
  using assms by (cases "receiver_at m") (auto simp: receiver_step_def mailbox_work_def split: if_splits)

lemma steps_work: "(mailbox_step call d ^^ n) m m' \<Longrightarrow> mailbox_work m' + n \<le> mailbox_work m"
proof (induction n arbitrary: m')
  case (Suc n)
  then obtain x where x: "(mailbox_step call d ^^ n) m x" "mailbox_step call d x m'" by auto
  have "mailbox_work m' < mailbox_work x"
    using x(2) by cases (auto intro: sender_works receiver_works)
  then show ?case using Suc.IH [OF x(1)] by simp
qed simp

lemma steps_run: "(mailbox_step call d ^^ n) m m' \<Longrightarrow> mailbox_run call d m \<Longrightarrow> mailbox_run call d m' \<and> asked_tasks m' = asked_tasks m"
proof (induction n arbitrary: m')
  case (Suc n)
  then obtain x where x: "(mailbox_step call d ^^ n) m x" "mailbox_step call d x m'" by auto
  have "asked_tasks m' = asked_tasks x" using x(2)
    by cases (auto simp: sender_step_def receiver_step_def split: sender.splits receiver.splits if_splits)
  then show ?case using Suc.IH [OF x(1) Suc.prems(2)] x(2) mailbox_run.step by auto
qed simp

definition mailbox_quiet :: "u32 \<Rightarrow> mailbox \<Rightarrow> bool" where
  "mailbox_quiet d m \<longleftrightarrow> (\<forall>i. sender_at m i = Away) \<and> receiver_at m = Ready \<and> \<not> fc_pending m \<and> mailbox_slot d m = 0"

lemma receiver_blocked:
  assumes "receiver_step call d m = None"
  shows "receiver_at m = Ready \<and> \<not> fc_pending m \<or> (\<exists>t. receiver_at m = Handling t \<and> fc_handle_task call t (shared m) = None)"
  using assms by (auto simp: receiver_step_def split: receiver.splits if_splits)

lemma sender_blocked:
  assumes "sender_step d i m = None"
  shows "sender_at m i = Away \<or> (\<exists>t. sender_at m i = Locking t) \<and> mutex_owner m \<noteq> None
    \<or> (\<exists>t. sender_at m i = Waiting t) \<and> \<not> cl_event m i"
  using assms by (auto simp: sender_step_def notify_trigger split: sender.splits if_splits)

lemma mailbox_progress:
  assumes ok: "mailbox_ok d m" and wk: "mailbox_wakes d m" and no: "\<And>m'. \<not> mailbox_step call d m m'"
  shows "mailbox_quiet d m \<or> (\<exists>t. receiver_at m = Handling t \<and> fc_handle_task call t (shared m) = None)"
proof (cases "receiver_at m = Ready \<and> \<not> fc_pending m")
  case True
  have b: "sender_step d i m = None" if "i < ARCHI_CLUSTER_NB_PE" for i
    using no core [OF that, of d m] by (cases "sender_step d i m") auto
  have bound: "sender_at m i \<noteq> Away \<Longrightarrow> i < ARCHI_CLUSTER_NB_PE" for i
    using ok by (meson mailbox_ok_def not_le)
  have "sender_step d i m = None \<or> sender_at m i = Away" for i using b bound by blast
  then have blk: "sender_at m i = Away \<or> (\<exists>t. sender_at m i = Locking t) \<and> mutex_owner m \<noteq> None
    \<or> (\<exists>t. sender_at m i = Waiting t) \<and> \<not> cl_event m i" for i using sender_blocked by blast
  have "\<not> triggering (sender_at m)"
  proof
    assume "triggering (sender_at m)"
    then obtain i where "sender_at m i = Triggering" by (auto simp: triggering_def)
    then show False using blk [of i] by simp
  qed
  then have z: "mailbox_slot d m = 0" using wk True by (auto simp: mailbox_wakes_def)
  have "\<not> inside (sender_at m i)" for i
    using blk [of i] wk True z by (auto simp: mailbox_wakes_def dest!: spec [of _ i])
  then have "mutex_owner m = None" using ok by (metis mailbox_ok_def not_None_eq)
  then have "sender_at m i = Away" for i
    using blk [of i] \<open>\<not> inside (sender_at m i)\<close> by auto
  then show ?thesis using True z by (simp add: mailbox_quiet_def)
next
  case False
  have "receiver_step call d m \<noteq> Some m'" for m' using no controller by blast
  then have "receiver_step call d m = None" by (metis not_None_eq)
  then show ?thesis using receiver_blocked False by blast
qed

lemma quiet_delivered:
  assumes "mailbox_ok d m" "mailbox_quiet d m"
  shows "handled_tasks m = sent_tasks m \<and> mset (handled_tasks m) = mset (asked_tasks m)"
  using assms by (simp add: mailbox_ok_def mailbox_quiet_def)

subsection \<open>Properties\<close>

text \<open>C12: however the cores of the cluster, the interrupts of the fabric controller
  and the rest of the system interleave, the tasks handled are the tasks stored, in the order of the
  stores, but for the one that is in the slot: none is overwritten, dropped or handled twice. Every
  task asked for was stored or is still held by the core that sends it, and at most one core is
  between the lock and the unlock of the mutex.\<close>

theorem mailbox_fifo:
  assumes "keeps_mailbox call d" "mailbox_run call d m"
  shows "sent_tasks m = handled_tasks m @ in_flight (receiver_at m) (mailbox_slot d m)
    \<and> mset (asked_tasks m) = mset (sent_tasks m) + (\<Sum>i<ARCHI_CLUSTER_NB_PE. wanted (sender_at m i))
    \<and> card {i. inside (sender_at m i)} \<le> 1"
proof -
  have ok: "mailbox_ok d m" using mailbox_invariant [OF assms] by blast
  then have "{i. inside (sender_at m i)} = set_option (mutex_owner m)" by (auto simp: mailbox_ok_def)
  then have "card {i. inside (sender_at m i)} \<le> 1" by (cases "mutex_owner m") simp_all
  then show ?thesis using ok by (simp add: mailbox_ok_def)
qed

text \<open>C11: no wake-up is lost and no core waits for ever. From every state that can
  arise, whatever order the cores and the controller move in, they make at most mailbox_work steps;
  they stop only when every core has returned, the slot is empty and every task asked for has been
  handled exactly once, or when the release of a task calls the give function of a semaphore that
  has none.\<close>

theorem mailbox_delivers:
  assumes "keeps_mailbox call d" "mailbox_run call d m" "(mailbox_step call d ^^ n) m m'"
  shows "n \<le> mailbox_work m \<and>
    ((\<exists>x. mailbox_step call d m' x)
     \<or> mailbox_quiet d m' \<and> handled_tasks m' = sent_tasks m' \<and> mset (handled_tasks m') = mset (asked_tasks m)
     \<or> (\<exists>t. receiver_at m' = Handling t \<and> fc_handle_task call t (shared m') = None))"
proof -
  have run: "mailbox_run call d m'" and a: "asked_tasks m' = asked_tasks m"
    using steps_run [OF assms(3,2)] by auto
  have inv: "mailbox_ok d m'" "mailbox_wakes d m'" using mailbox_invariant [OF assms(1) run] by auto
  have "n \<le> mailbox_work m" using steps_work [OF assms(3)] by simp
  moreover have "(\<exists>x. mailbox_step call d m' x) \<or> mailbox_quiet d m'
      \<or> (\<exists>t. receiver_at m' = Handling t \<and> fc_handle_task call t (shared m') = None)"
    using mailbox_progress [OF inv] by blast
  ultimately show ?thesis using quiet_delivered [OF inv(1)] a by auto
qed

text \<open>Core 3 sends the light task at 8 and has set the interrupt; core 5 waits for the mutex.\<close>

lemma iterate_core:
  assumes "mailbox_run call d m" "i < ARCHI_CLUSTER_NB_PE" "iterate n (sender_step d i) m = Some m'"
  shows "mailbox_run call d m'"
  using assms(1,3)
proof (induction n arbitrary: m)
  case (Suc n)
  then obtain x where "sender_step d i m = Some x" "iterate n (sender_step d i) x = Some m'"
    by (auto simp: bind_eq_Some_conv)
  then show ?case using Suc.IH Suc.prems(1) assms(2) mailbox_run.step mailbox_step.core by blast
qed simp

definition demo_mail :: mailbox where
  "demo_mail = \<lparr>shared = writew 4 (PULP_FC_IRQ_ADDR + IRQ_REG_INT_SET_OFFSET) (upd_cdata 64 (\<lambda>x. x\<lparr>task_to_fc := 9\<rparr>) demo_cluster),
     sender_at = (\<lambda>_. Away)(3 := Unlocking, 5 := Locking 12), receiver_at = Ready, mutex_owner = Some 3, fc_pending = True,
     cl_event = \<lambda>_. False, asked_tasks = [9, 12], sent_tasks = [9], handled_tasks = []\<rparr>"

lemma demo_slot: "task_to_fc (cdata_at demo_cluster 64) = 0"
  by (simp add: demo_cluster_def cl_new_data_def Let_def)

lemma demo_mail_run: "mailbox_run (\<lambda>_ _ s. s) 64 demo_mail"
proof -
  let ?call = "\<lambda>_ _ s. s" and ?m = "go_to 3 (Locking 9) ((mailbox_empty demo_cluster)\<lparr>asked_tasks := [9]\<rparr>)"
  let ?x = "demo_mail\<lparr>sender_at := (\<lambda>_. Away)(3 := Unlocking), asked_tasks := [9]\<rparr>"
  have a: "mailbox_run ?call 64 ?m"
    using ask [OF empty [OF demo_slot], of 3 9 ?call] by (simp add: mailbox_empty_def ARCHI_CLUSTER_NB_PE_def)
  have b: "iterate (Suc (Suc (Suc (Suc 0)))) (sender_step 64 3) ?m = Some ?x"
    by (simp add: sender_step_def mailbox_empty_def demo_mail_def notify_trigger mailbox_slot_def demo_slot go_to_def)
  have c: "(3 :: nat) < ARCHI_CLUSTER_NB_PE" by (simp add: ARCHI_CLUSTER_NB_PE_def)
  from ask [OF iterate_core [OF a c b], of 5 12] show ?thesis
    by (simp add: demo_mail_def go_to_def ARCHI_CLUSTER_NB_PE_def fun_upd_twist)
qed

lemma keeps_demo: "keeps_mailbox (\<lambda>_ _ s. s) d"
  by (simp add: keeps_mailbox_def)

lemma mailbox_fifo_witness:
  "sent_tasks demo_mail = handled_tasks demo_mail @ in_flight Ready (mailbox_slot 64 demo_mail) \<and> sent_tasks demo_mail = [9]
    \<and> mset (asked_tasks demo_mail) = {#9, 12#} \<and> card {i. inside (sender_at demo_mail i)} \<le> 1"
  using mailbox_fifo [OF keeps_demo demo_mail_run] by (simp add: demo_mail_def)

lemma mailbox_delivers_witness:
  "\<exists>m'. (mailbox_step (\<lambda>_ _ s. s) 64 ^^ 5) demo_mail m' \<and> handled_tasks m' = [9] \<and> mailbox_work demo_mail \<ge> 5
    \<and> (\<exists>x. mailbox_step (\<lambda>_ _ s. s) 64 m' x)"
proof -
  let ?call = "\<lambda>_ _ s. s"
  obtain m' where m': "iterate (Suc (Suc (Suc (Suc (Suc 0))))) (receiver_step ?call 64) demo_mail = Some m'"
    and h: "handled_tasks m' = [9]" "sender_at m' 5 = Locking 12" "receiver_at m' = Ready"
    by (simp add: receiver_step_def demo_mail_def mailbox_slot_def fc_handle_task_def demo_cluster_def cl_new_data_def pi_task_release_def Let_def upd_cdata_def writew_def)
  have "iterate n (receiver_step ?call 64) m = Some m' \<Longrightarrow> (mailbox_step ?call 64 ^^ n) m m'" for n m
    by (induction n arbitrary: m) (auto simp: bind_eq_Some_conv simp del: relpowp.simps(2) intro: relpowp_Suc_I2 mailbox_step.controller)
  from this [OF m'] have s: "(mailbox_step ?call 64 ^^ 5) demo_mail m'" by (simp add: numeral_eq_Suc)
  show ?thesis
    using mailbox_delivers [OF keeps_demo demo_mail_run s] s h by (auto simp: mailbox_quiet_def)
qed

end
