(* ===== verification/ClusterLoop.thy ===== *)
theory ClusterLoop
  imports ClusterLife
begin

text \<open>
  The loops of the cluster's cores (target/pulp/cluster.S, equal in target/control-pulp but for a comment): what the master core does with a task before it calls
  its entry, what a slave core does with a message of the dispatch unit, and where the stack of each core lies.
  The address of cl_slave_stack_setup is the parameter stack_fn.
\<close>

text \<open>Registers of the task as the loop loads them: t1 = stack, t2 and t3 = sizes, t4 = cores, t5 = mask of the team.\<close>

definition cl_master_sp :: "pi_cluster_task \<Rightarrow> u32" where
  "cl_master_sp t = ct_stacks t + ct_stack_size t"

definition cl_master_team :: "u32 \<Rightarrow> pi_cluster_task \<Rightarrow> 'a machine_scheme \<Rightarrow> 'a machine_scheme" where
  "cl_master_team stack_fn t s =
     (let team_mask = ct_cluster_team_mask t; all = team_mask OR push_bit ARCHI_CLUSTER_MASTER_CORE 1;
          s2 = cl_demux_eu_barrier 0; s7 = s2 + CL_DEMUX_EU_HW_BARRIER_SIZE * ARCHI_CLUSTER_SYNC_BARR_ID; s1 = cl_demux_eu_dispatch;
          s = (if team_mask = 0 then s
               else writew team_mask (s2 + CL_DEMUX_EU_HW_BARRIER_TARGET_MASK) (writew team_mask (s2 + CL_DEMUX_EU_HW_BARRIER_TRIGGER_MASK) s));
          s = writew all (s7 + CL_DEMUX_EU_HW_BARRIER_TARGET_MASK) (writew all (s7 + CL_DEMUX_EU_HW_BARRIER_TRIGGER_MASK) s) in
      if ct_nb_cores t = 0 then s
      else let s = writew (team_mask XOR push_bit ARCHI_CLUSTER_MASTER_CORE 1) (s1 + CL_DEMUX_EU_DISPATCH_TEAM_CONFIG) s;
               s = writew (stack_fn OR 1) (s1 + CL_DEMUX_EU_DISPATCH_FIFO_ACCESS) s;
               s = writew (cl_master_sp t) (s1 + CL_DEMUX_EU_DISPATCH_FIFO_ACCESS) s in
           writew (ct_slave_stack_size t) (s1 + CL_DEMUX_EU_DISPATCH_FIFO_ACCESS) s)"

text \<open>A slave core with the two words f and a of a message: the lowest bit of the address tells it not to wait at the barrier.\<close>

definition cl_slave_turn ::
  "('a machine_scheme \<Rightarrow> 'a machine_scheme) \<Rightarrow> (u32 \<Rightarrow> u32 \<Rightarrow> 'a machine_scheme \<Rightarrow> 'a machine_scheme) \<Rightarrow> u32 \<Rightarrow> u32 \<Rightarrow> 'a machine_scheme \<Rightarrow> 'a machine_scheme" where
  "cl_slave_turn env call f a s =
     (let s = call (f AND NOT 1) a s in
      if f AND 1 \<noteq> 0 then s else snd (hal_cl_eu_barrier_trigger_wait_clear env ARCHI_CLUSTER_SYNC_BARR_ID s))"

definition cl_slave_stack_setup :: "u32 \<Rightarrow> u32 \<Rightarrow> u32 \<Rightarrow> u32" where
  "cl_slave_stack_setup core_id sp slave_size = sp + slave_size * core_id"

subsection \<open>The stacks\<close>

text \<open>Top and size of the stack of a core.\<close>

definition core_sp :: "pi_cluster_task \<Rightarrow> nat \<Rightarrow> u32" where
  "core_sp t i = (if i = 0 then cl_master_sp t else cl_slave_stack_setup (of_nat i) (cl_master_sp t) (ct_slave_stack_size t))"

definition core_stack :: "pi_cluster_task \<Rightarrow> nat \<Rightarrow> nat set" where
  "core_stack t i = (let n = unat (if i = 0 then ct_stack_size t else ct_slave_stack_size t) in {unat (core_sp t i) - n ..< unat (core_sp t i)})"

lemma core_stacks_apart:
  assumes "unat (ct_stacks t) + (7 * unat (ct_slave_stack_size t) + unat (ct_stack_size t)) \<le> heap_top"
  shows "i < 8 \<Longrightarrow> unat (core_sp t i) = unat (ct_stacks t) + unat (ct_stack_size t) + i * unat (ct_slave_stack_size t)"
    and "i < 8 \<Longrightarrow> core_stack t i \<subseteq> block (unat (ct_stacks t)) (7 * unat (ct_slave_stack_size t) + unat (ct_stack_size t))"
    and "i < j \<Longrightarrow> j < 8 \<Longrightarrow> core_stack t i \<inter> core_stack t j = {}"
proof -
  let ?a = "unat (ct_stacks t)" and ?m = "unat (ct_stack_size t)" and ?v = "unat (ct_slave_stack_size t)"
  show sp: "unat (core_sp t i) = ?a + ?m + i * ?v" if "i < 8" for i
  proof -
    have mul: "i * ?v \<le> 7 * ?v" using that by (intro mult_right_mono) auto
    have bound: "?a + ?m + i * ?v < 4294967296" using assms mul unfolding heap_top_def by linarith
    have "core_sp t i = word_of_nat (?a + ?m + i * ?v)"
      by (simp add: core_sp_def cl_master_sp_def cl_slave_stack_setup_def mult.commute)
    then show ?thesis using unat_small_nat [OF bound] by simp
  qed
  have st: "core_stack t i = {?a + ?m + i * ?v - (if i = 0 then ?m else ?v) ..< ?a + ?m + i * ?v}" if "i < 8" for i
    using sp [OF that] by (simp add: core_stack_def Let_def)
  show "core_stack t i \<subseteq> block ?a (7 * ?v + ?m)" if "i < 8" for i
  proof -
    have "i * ?v \<le> 7 * ?v" using that by (intro mult_right_mono) auto
    then have "?a + ?m + i * ?v \<le> ?a + (7 * ?v + ?m)" by simp
    moreover have "?a \<le> ?a + ?m + i * ?v - (if i = 0 then ?m else ?v)" by (cases i) simp_all
    ultimately show ?thesis unfolding st [OF that] block_def by (meson atLeastLessThan_subset_iff order_refl ivl_subset subset_trans)
  qed
  show "core_stack t i \<inter> core_stack t j = {}" if "i < j" "j < 8"
  proof -
    have "Suc i * ?v \<le> j * ?v" using that by (intro mult_right_mono) auto
    then have "i * ?v + ?v \<le> j * ?v" by (simp add: add.commute)
    then show ?thesis using that unfolding st [OF that(2)] st [OF less_trans [OF that]] by auto
  qed
qed

lemma core_stack_card: 
  assumes "unat (ct_stacks t) + (7 * unat (ct_slave_stack_size t) + unat (ct_stack_size t)) \<le> heap_top" "i < 8"
  shows "card (core_stack t i) = unat (if i = 0 then ct_stack_size t else ct_slave_stack_size t)"
  using core_stacks_apart(1) [OF assms] by (cases i) (simp_all add: core_stack_def Let_def)

text \<open>C16: a task sent without stacks of its own, to a cluster whose L1 heap has a chunk large enough, gives each of the
  eight cores a stack of the size asked for, the master's or the slaves': the stack pointers that the loops of cluster.S compute from the
  task bound pairwise disjoint regions, all inside the block that the driver has just taken from the heap. The sum of the sizes
  must stay below the top of the heap, since the code adds them up in 32 bits.\<close>
theorem cluster_core_stacks:
  assumes "cl_ready (dev_data s dev) s" "cl_calm (dev_data s dev) s xs []" "t \<noteq> 0" "ct_stacks (ctask_at s t) = 0"
    "n = 7 * unat (cl_slave_bytes (ctask_at s t)) + unat (cl_master_bytes (ctask_at s t))" "n \<le> heap_top - 8" "\<exists>(a, k) \<in> set xs. round8 n \<le> k"
  shows "\<exists>u ys. pi_send_task_to_cl env dev t s = Some (0, u) \<and> cl_calm (dev_data s dev) u ys [t]
    \<and> (\<forall>i < ARCHI_CLUSTER_NB_PE. core_stack (ctask_at u t) i \<subseteq> fl_bytes xs - fl_bytes ys
         \<and> card (core_stack (ctask_at u t) i) = unat (if i = 0 then cl_master_bytes (ctask_at s t) else cl_slave_bytes (ctask_at s t)))
    \<and> (\<forall>j < ARCHI_CLUSTER_NB_PE. \<forall>i < j. core_stack (ctask_at u t) i \<inter> core_stack (ctask_at u t) j = {})"
proof -
  let ?d = "dev_data s dev" and ?w = "cl_stack_bytes (ctask_at s t)"
  have "?w = word_of_nat n" by (simp add: assms(5) cl_stack_bytes_def mult.commute)
  then have w: "unat ?w = n" using assms(6) unat_small_nat [of n] by (simp add: heap_top_def)
  have "0 < unat (cl_master_bytes (ctask_at s t))" by (simp add: cl_master_bytes_def CL_MASTER_CORE_STACK_SIZE_def unat_gt_0)
  then have pos: "0 < n" using assms(5) by simp
  then have sz: "size_ok ?w" using w assms(6) by (simp add: size_ok_def)
  have ok: "fl_ok 0 xs" using assms(2) malloc_rep_ok by (auto simp: cl_calm_def cl_heap_def)
  obtain r ys where al: "fl_alloc (round8 (unat ?w)) xs = Some (r, ys)"
    using assms(7) fl_alloc_None [of "round8 n" xs] w by (cases "fl_alloc (round8 n) xs") (auto simp: not_less)
  obtain u where u: "pi_send_task_to_cl env dev t s = Some (0, u)" "cl_calm ?d u ys [t]" "unat (ct_stacks (ctask_at u t)) = r"
    "ct_slave_stack_size (ctask_at u t) = cl_slave_bytes (ctask_at s t)" "ct_stack_size (ctask_at u t) = cl_master_bytes (ctask_at s t)"
    using cl_send [OF assms(1-4) sz, of env] al by auto
  have al': "fl_alloc (round8 (unat ?w)) xs = Some (unat (ct_stacks (ctask_at u t)), ys)" using al u(3) by simp
  note blk = fl_alloc_blk [OF al' ok sz]
  have "block (unat (ct_stacks (ctask_at u t))) n \<subseteq> span (ct_stacks (ctask_at u t), ?w)" using round8_ge [of n] w by (auto simp: span_def block_def)
  then have inside: "block (unat (ct_stacks (ctask_at u t))) n \<subseteq> fl_bytes xs - fl_bytes ys" using blk(2,3) by blast
  then have "unat (ct_stacks (ctask_at u t)) + n \<le> heap_top"
    using fl_bytes_heap_top [OF ok subset_trans [OF inside Diff_subset]] pos by simp
  moreover have sum: "7 * unat (ct_slave_stack_size (ctask_at u t)) + unat (ct_stack_size (ctask_at u t)) = n"
    unfolding u(4,5) using assms(5) by simp
  ultimately have room: "unat (ct_stacks (ctask_at u t)) + (7 * unat (ct_slave_stack_size (ctask_at u t)) + unat (ct_stack_size (ctask_at u t))) \<le> heap_top"
    by simp
  have sub: "core_stack (ctask_at u t) i \<subseteq> fl_bytes xs - fl_bytes ys" if "i < 8" for i
    using core_stacks_apart(2) [OF room that] inside unfolding sum by (rule subset_trans)
  show ?thesis
    by (rule exI [of _ u], rule exI [of _ ys], unfold ARCHI_CLUSTER_NB_PE_def)
      (use u sub core_stack_card [OF room] core_stacks_apart(3) [OF room] in \<open>simp del: fl_bytes.simps\<close>)
qed

lemma cluster_core_stacks_witness:
  "\<exists>u. pi_send_task_to_cl (\<lambda>s. s) 0 0x1C001000 demo_cluster_heap = Some (0, u)
     \<and> core_stack (ctask_at u 0x1C001000) 3 \<inter> core_stack (ctask_at u 0x1C001000) 4 = {} \<and> card (core_stack (ctask_at u 0x1C001000) 0) = 0x400"
proof -
  have d: "dev_data demo_cluster_heap 0 = 0x1C000100" "ct_stacks (ctask_at demo_cluster_heap 0x1C001000) = 0"
    "cl_slave_bytes (ctask_at demo_cluster_heap 0x1C001000) = 0x100" "cl_master_bytes (ctask_at demo_cluster_heap 0x1C001000) = 0x400"
    by (simp_all add: demo_cluster_heap_def demo_cluster_def cl_bytes_def)
  have "\<exists>(a, k) \<in> set [(0x1C000008, 4088)]. round8 0xB00 \<le> k" by (simp add: round8_def)
  with cluster_core_stacks [of demo_cluster_heap 0 "[(0x1C000008, 4088)]" "0x1C001000" "0xB00" "\<lambda>s. s"] demo_cluster_heap_ok d
  show ?thesis by (fastforce simp: heap_top_def ARCHI_CLUSTER_NB_PE_def simp del: fl_bytes.simps)
qed

end
