(* ===== verification/ClusterOffload.thy ===== *)
theory ClusterOffload
  imports ClusterMailbox ClusterLoop Service
begin

text \<open>
  A task of the fabric controller from the send to its return, over all the parts of the driver: the
  queue and the stacks of Cluster, the mailbox of ClusterOps and the notification task of Tasks. The
  loop of the master core (target/pulp/cluster.S) takes the first task of the queue that its register s5 points to, sets up
  the team, calls the entry and then cl_task_finish; the entry is the parameter body. A turn of the cluster is one round of that loop with the
  interrupt it ends in.
\<close>

definition on_hart :: "u32 \<Rightarrow> (cluster \<Rightarrow> cluster option) \<Rightarrow> cluster \<Rightarrow> cluster option" where
  "on_hart h f s = map_option (\<lambda>u. u\<lparr>csrs := (csrs u)(CSR_MHARTID := csrs s CSR_MHARTID)\<rparr>)
     (f (s\<lparr>csrs := (csrs s)(CSR_MHARTID := h)\<rparr>))"

definition cluster_returns :: "(u32 \<Rightarrow> u32 \<Rightarrow> cluster \<Rightarrow> cluster) \<Rightarrow> cluster \<Rightarrow> cluster option" where
  "cluster_returns call s = Option.bind (on_hart 0 (cl_task_finish (\<lambda>s. s)) s) (cl_notify_fc_event_handler call)"

definition cluster_turn ::
  "u32 \<Rightarrow> (u32 \<Rightarrow> u32 \<Rightarrow> cluster \<Rightarrow> cluster) \<Rightarrow> (u32 \<Rightarrow> u32 \<Rightarrow> cluster \<Rightarrow> cluster) \<Rightarrow> u32 \<Rightarrow> cluster \<Rightarrow> cluster" where
  "cluster_turn stack_fn call body s5 s =
     (let t = task_first (cdata_at s s5) in
      if t = 0 then s
      else case cluster_returns call (body (ct_entry (ctask_at s t)) (ct_arg (ctask_at s t)) (cl_master_team stack_fn (ctask_at s t) s)) of
          Some u \<Rightarrow> u | None \<Rightarrow> s)"

text \<open>An entry that leaves the data of the driver and the free memory of the L1 heap alone.\<close>

definition entry_ok :: "(u32 \<Rightarrow> u32 \<Rightarrow> cluster \<Rightarrow> cluster) \<Rightarrow> u32 \<Rightarrow> bool" where
  "entry_ok body d \<longleftrightarrow> (\<forall>f x s. ctask_at (body f x s) = ctask_at s \<and> cdata_at (body f x s) = cdata_at s
     \<and> task_at (body f x s) = task_at s \<and> per_cluster_data (body f x s) = per_cluster_data s
     \<and> dev_data (body f x s) = dev_data s \<and> dev_config (body f x s) = dev_config s \<and> cconf_at (body f x s) = cconf_at s
     \<and> (\<forall>xs q. cl_calm d s xs q \<longrightarrow> cl_calm d (body f x s) xs q))"

lemma cl_calm_slot [simp]: "cl_calm d (upd_cdata d (\<lambda>x. x\<lparr>task_to_fc := v\<rparr>) s) xs q = cl_calm d s xs q"
  by (simp add: cl_calm_def cl_lock_ok_def cl_lock_word_def cl_queue_def cl_heap_def cl_lock_apart_def)

lemma cheaps_csrs [simp]: "cheaps (s\<lparr>csrs := c\<rparr>) = cheaps s"
  by (cases s) simp

lemma cl_calm_csrs [simp]: "cl_calm d (s\<lparr>csrs := c\<rparr>) xs q = cl_calm d s xs q"
  by (simp add: cl_calm_def cl_lock_ok_def cl_lock_word_def cl_queue_def cl_heap_def cl_lock_apart_def)

lemma send_to_fc_free:
  assumes "cl_data s = Some d" "task_to_fc (cdata_at s d) = 0"
  shows "pi_cl_send_task_to_fc (\<lambda>s. s) t s = Some (hal_eu_mutex_unlock 0
     (writew 4 (PULP_FC_IRQ_ADDR + IRQ_REG_INT_SET_OFFSET) (upd_cdata d (\<lambda>x. x\<lparr>task_to_fc := t\<rparr>) s)))"
proof -
  have "cl_wait_fc_free (\<lambda>s. s) d s = Some s" using assms(2) by (subst cl_wait_fc_free.simps) simp
  then show ?thesis
    using assms(1) by (simp add: pi_cl_send_task_to_fc_def notify_trigger hal_eu_mutex_lock_def hal_evt_read32_def Let_def)
qed

text \<open>The end of the task on the cluster.\<close>

lemma finish_sends:
  assumes "cl_calm d u ys [t]" "fl_alloc (round8 (unat n)) xs = Some (unat (ct_stacks (ctask_at u t)), ys)" "fl_ok 0 xs" "size_ok n"
    "ct_stack_allocated (ctask_at u t) \<noteq> 0" "ct_slave_stack_size (ctask_at u t) * 7 + ct_stack_size (ctask_at u t) = n" "cl_lock_apart d u xs"
    and "cl_data u = Some d" "task_to_fc (cdata_at u d) = 0" "ct_completion_callback (ctask_at u t) = b" "b \<noteq> 0"
  shows "\<exists>v. on_hart 0 (cl_task_finish (\<lambda>s. s)) u = Some v \<and> cl_calm d v xs [] \<and> cl_data v = Some d \<and> task_at v = task_at u
     \<and> task_to_fc (cdata_at v d) = b \<and> cl_stays d t u v"
proof -
  let ?h = "u\<lparr>csrs := (csrs u)(CSR_MHARTID := 0)\<rparr>"
  have d: "native_cluster_id ?h = 0" "per_cluster_data u ! 0 = d" "d \<noteq> 0"
    using assms(8) by (auto simp: native_cluster_id_def csr_read_def cl_data_def split: if_splits)
  have first: "task_first (cdata_at u d) = t" using assms(1) by (simp add: cl_calm_def cl_queue_def)
  obtain v where v: "cl_pop_cluster_task (\<lambda>s. s) d ?h = Some v" "cl_calm d v xs []" "cl_kept d t ?h v"
    using cl_pop_free [of d ?h ys t n xs "\<lambda>s. s"] assms(1-7) by (auto simp: cl_lock_apart_def)
  have k: "cl_data v = Some d" "task_to_fc (cdata_at v d) = 0" "ct_completion_callback (ctask_at v t) = b" "task_at v = task_at u"
    "cl_stays d t u v"
    using v(3) assms(8-10) by (auto simp: cl_kept_def cl_stays_def cl_data_def split: if_splits)
  let ?w = "hal_eu_mutex_unlock 0 (writew 4 (PULP_FC_IRQ_ADDR + IRQ_REG_INT_SET_OFFSET) (upd_cdata d (\<lambda>x. x\<lparr>task_to_fc := b\<rparr>) v))"
  have w: "cl_calm d ?w xs []" by (rule cl_calm_frame [of d "upd_cdata d (\<lambda>x. x\<lparr>task_to_fc := b\<rparr>) v"]) (simp_all add: v(2) hal_eu_mutex_unlock_def)
  have "cl_task_finish (\<lambda>s. s) ?h = Some ?w"
    using d first v(1) k(3) assms(11) send_to_fc_free [OF k(1,2)] by (simp add: cl_task_finish_def NB_CLUSTER_def Let_def)
  then show ?thesis
    using w k(1,4,5) by (simp add: on_hart_def cl_data_def cl_stays_def cl_fixed_def hal_eu_mutex_unlock_def split: if_splits)
qed

text \<open>The interrupt on the fabric controller.\<close>

definition cl_store_same :: "cluster \<Rightarrow> cluster \<Rightarrow> bool" where
  "cl_store_same s u \<longleftrightarrow> ctask_at u = ctask_at s \<and> cdata_at u = cdata_at s \<and> cheaps u = cheaps s \<and> per_cluster_data u = per_cluster_data s
     \<and> dev_data u = dev_data s \<and> dev_config u = dev_config s \<and> cconf_at u = cconf_at s"

lemma store_stays: "cl_store_same s u \<Longrightarrow> cl_stays d t s u"
  by (simp add: cl_store_same_def cl_stays_def)

lemma upd_task_store [simp]:
  "dev_data (upd_task p f s) = dev_data s" "dev_config (upd_task p f s) = dev_config s" "cconf_at (upd_task p f s) = cconf_at s"
  "ctask_at (upd_task p f s) = ctask_at s" "cheaps (upd_task p f s) = cheaps s" "per_cluster_data (upd_task p f s) = per_cluster_data s"
  by (simp_all add: upd_task_def)

lemma push_same: "cl_store_same s (pi_task_push p s) \<and> task_at (pi_task_push p s) = task_at s"
  by (simp add: cl_store_same_def pi_task_push_def pi_task_push_delayed_us_def pi_time_wait_us_def Let_def case_prod_beta)

lemma release_same:
  fixes s :: cluster
  assumes "can_release s p"
  shows "\<exists>u. pi_task_release p s = Some u \<and> cl_store_same s u \<and> t_done (task_at u p) = 1 \<and> t_id (task_at u p) = t_id (task_at s p)"
  using assms by (auto simp: pi_task_release_def pi_sem_give_def os_native_api_sem_give_def can_release_def cl_store_same_def Let_def case_prod_beta)

lemma notify_releases:
  assumes "cl_data v = Some d" "cl_calm d v xs q" "task_to_fc (cdata_at v d) = b" "b AND 1 = 0" "can_release v b"
  shows "\<exists>w. cl_notify_fc_event_handler call v = Some w \<and> cl_calm d w xs q \<and> t_done (task_at w b) = 1
     \<and> t_id (task_at w b) = t_id (task_at v b) \<and> task_to_fc (cdata_at w d) = 0 \<and> cl_stays d t v w"
proof -
  have p: "cl_store_same v (pi_task_push b v)" "task_at (pi_task_push b v) = task_at v" using push_same by auto
  then have "can_release (pi_task_push b v) b" using assms(5) by (simp add: can_release_def)
  from release_same [OF this] obtain u where u: "pi_task_release b (pi_task_push b v) = Some u" "cl_store_same (pi_task_push b v) u"
    "t_done (task_at u b) = 1" "t_id (task_at u b) = t_id (task_at v b)" using p(2) by auto
  let ?w = "hal_eu_cluster_evt_trig_set FC_NOTIFY_CLUSTER_EVENT 0 (upd_cdata d (\<lambda>x. x\<lparr>task_to_fc := 0\<rparr>) u)"
  have "cl_calm d u xs q" using u(2) p(1) by (intro cl_calm_frame [OF assms(2)]) (auto simp: cl_store_same_def)
  then have "cl_calm d (upd_cdata d (\<lambda>x. x\<lparr>task_to_fc := 0\<rparr>) u) xs q" by simp
  then have "cl_calm d ?w xs q"
    by (rule cl_calm_frame [of d "upd_cdata d (\<lambda>x. x\<lparr>task_to_fc := 0\<rparr>) u"]) (simp_all add: hal_eu_cluster_evt_trig_set_def)
  moreover have "cl_notify_fc_event_handler call v = Some ?w"
    unfolding cl_notify_fc_event_handler_def fc_handle_task_def assms(1) Option.bind.bind_lunit Let_def assms(3,4) u(1)
    by (simp only: simp_thms if_False u(1) option.map)
  moreover have "cl_stays d t v u" using store_stays [of v "pi_task_push b v" d t] store_stays [OF u(2), of d t] p(1) by (blast intro: cl_stays_trans)
  ultimately show ?thesis using u(3,4) by (simp add: hal_eu_cluster_evt_trig_set_def cl_stays_def cl_fixed_def)
qed

lemma block_same: "cl_store_same s (pi_task_block create p s)"
  by (simp add: cl_store_same_def pi_task_block_def pi_sem_init_def Let_def)

lemma destroy_same: "cl_store_same s (pi_task_destroy p s)"
  by (simp add: cl_store_same_def pi_task_destroy_def pi_sem_deinit_def Let_def)

lemma calm_same: "cl_calm d s xs q \<Longrightarrow> cl_store_same s u \<Longrightarrow> cl_calm d u xs q"
  by (rule cl_calm_frame) (simp_all add: cl_store_same_def)

lemma master_team_same: "cl_store_same s (cl_master_team stack_fn t s) \<and> task_at (cl_master_team stack_fn t s) = task_at s"
  by (simp add: cl_store_same_def cl_master_team_def Let_def)

lemma wait_one_turn:
  assumes "t_done (task_at v b) = 0" "t_done (task_at (env v) b) = 1" "t_id (task_at (env v) b) = PI_TASK_NONE_ID"
  shows "pi_task_wait_on env b v = Some (pi_task_destroy b (env v))"
proof -
  have "(1 :: nat) \<le> 1" "released ((env ^^ 1) v) b" "t_id (task_at ((env ^^ 1) v) b) = PI_TASK_NONE_ID"
    using assms by (simp_all add: released_def)
  from wait_on_released [OF this] obtain k where k: "k \<le> 1"
    "pi_task_wait_on env b v = Some (pi_task_destroy b ((env ^^ k) v))" "t_done (task_at ((env ^^ k) v) b) \<noteq> 0" by blast
  have "k = 1" using k(1,3) assms(1) by (cases k) auto
  then show ?thesis using k(2) by simp
qed

text \<open>A cluster that is on, with no task, nothing in the mailbox and its L1 heap at the free chunks xs.\<close>

definition cl_idle :: "u32 \<Rightarrow> cluster \<Rightarrow> chunk list \<Rightarrow> bool" where
  "cl_idle dev s xs \<longleftrightarrow> (let d = dev_data s dev in cl_ready d s \<and> cl_calm d s xs [] \<and> cl_data s = Some d \<and> task_to_fc (cdata_at s d) = 0)"

definition send_blocked :: "(cluster \<Rightarrow> cluster) \<Rightarrow> (os_call list \<Rightarrow> u32) \<Rightarrow> u32 \<Rightarrow> u32 \<Rightarrow> u32 \<Rightarrow> cluster \<Rightarrow> (int \<times> cluster) option" where
  "send_blocked env create b dev t s =
     pi_send_task_to_cl env dev t (upd_ctask t (\<lambda>t. t\<lparr>ct_completion_callback := b\<rparr>) (pi_task_block create b s))"

definition fits :: "u32 \<Rightarrow> chunk list \<Rightarrow> bool" where
  "fits n xs \<longleftrightarrow> size_ok n \<and> (\<exists>(a, k) \<in> set xs. round8 (unat n) \<le> k)"

lemma offload_sends:
  assumes "cl_idle dev s xs" "t \<noteq> 0" "ct_stacks (ctask_at s t) = 0" "n = cl_stack_bytes (ctask_at s t)" "fits n xs" "d = dev_data s dev"
  shows "\<exists>v ys. send_blocked env create b dev t s = Some (0, v) \<and> cl_calm d v ys [t]
    \<and> fl_alloc (round8 (unat n)) xs = Some (unat (ct_stacks (ctask_at v t)), ys) \<and> ct_stack_allocated (ctask_at v t) \<noteq> 0
    \<and> ct_slave_stack_size (ctask_at v t) * 7 + ct_stack_size (ctask_at v t) = n \<and> cl_lock_apart d v xs
    \<and> cl_kept d t (upd_ctask t (\<lambda>t. t\<lparr>ct_completion_callback := b\<rparr>) (pi_task_block create b s)) v \<and> cl_stays d t s v"
proof -
  let ?s0 = "pi_task_block create b s" let ?s1 = "upd_ctask t (\<lambda>t. t\<lparr>ct_completion_callback := b\<rparr>) ?s0"
  have idle: "cl_ready d s" "cl_calm d s xs []" "cl_data s = Some d" "task_to_fc (cdata_at s d) = 0"
    using assms(1,6) by (simp_all add: cl_idle_def Let_def)
  note same = block_same [of s create b, unfolded cl_store_same_def]
  have dv: "dev_data ?s1 dev = d" using assms(6) by (simp add: block_task(7))
  have s1: "cl_ready d ?s1" "ct_stacks (ctask_at ?s1 t) = 0" "cl_stack_bytes (ctask_at ?s1 t) = n"
    "fifo_access (cdata_at ?s1 d) = fifo_access (cdata_at s d)"
    using idle(1) assms(3,4) same by (auto simp: cl_ready_def cl_stack_bytes_def cl_bytes_def)
  have calm: "cl_calm d ?s1 xs []"
    using calm_same [OF idle(2) block_same]
    by (intro cl_calm_mem [of d ?s0 xs "[]" ?s1 xs xs]) (auto simp: cl_calm_def cl_heap_def)
  obtain r ys where al: "fl_alloc (round8 (unat n)) xs = Some (r, ys)"
    using assms(5) fl_alloc_None [of "round8 (unat n)" xs] by (cases "fl_alloc (round8 (unat n)) xs") (auto simp: fits_def not_less)
  obtain v where v: "pi_send_task_to_cl env dev t ?s1 = Some (0, v)" "cl_calm d v ys [t]" "unat (ct_stacks (ctask_at v t)) = r"
    "ct_stack_allocated (ctask_at v t) = 1" "ct_slave_stack_size (ctask_at v t) * 7 + ct_stack_size (ctask_at v t) = n"
    "fifo_access (cdata_at v d) = fifo_access (cdata_at s d)" "cl_kept d t ?s1 v"
    using cl_send [of ?s1 dev xs t env] s1(1,2) calm assms(2,5) al unfolding dv s1(3,4) by (auto simp: fits_def)
  have "cl_lock_apart d v xs" using idle(2) v(6) by (simp add: cl_calm_def cl_lock_apart_def)
  moreover have "cl_stays d t s ?s1" using same by (simp add: cl_stays_def)
  then have "cl_stays d t s v" using v(7) by (auto simp: cl_kept_def intro: cl_stays_trans)
  ultimately show ?thesis using v al by (auto simp: send_blocked_def)
qed

lemma offload_returns:
  assumes "cl_calm d x ys [t]" "fl_alloc (round8 (unat n)) xs = Some (unat (ct_stacks (ctask_at x t)), ys)" "fl_ok 0 xs" "size_ok n"
    "ct_stack_allocated (ctask_at x t) \<noteq> 0" "ct_slave_stack_size (ctask_at x t) * 7 + ct_stack_size (ctask_at x t) = n" "cl_lock_apart d x xs"
    and "cl_data x = Some d" "task_to_fc (cdata_at x d) = 0" "ct_completion_callback (ctask_at x t) = b" "b \<noteq> 0" "b AND 1 = 0" "can_release x b"
  shows "\<exists>w. cluster_returns call x = Some w \<and> cl_calm d w xs [] \<and> t_done (task_at w b) = 1
    \<and> t_id (task_at w b) = t_id (task_at x b) \<and> task_to_fc (cdata_at w d) = 0 \<and> cl_stays d t x w"
proof -
  obtain y where y: "on_hart 0 (cl_task_finish (\<lambda>s. s)) x = Some y" "cl_calm d y xs []" "cl_data y = Some d" "task_at y = task_at x"
    "task_to_fc (cdata_at y d) = b" "cl_stays d t x y"
    using finish_sends [OF assms(1-11)] by blast
  have "can_release y b" using assms(13) y(4) by (simp add: can_release_def)
  from notify_releases [OF y(3,2,5) assms(12) this, of call t] obtain w where w: "cl_notify_fc_event_handler call y = Some w" "cl_calm d w xs []"
    "t_done (task_at w b) = 1" "t_id (task_at w b) = t_id (task_at y b)" "task_to_fc (cdata_at w d) = 0" "cl_stays d t y w" by blast
  show ?thesis using w y(1,4) cl_stays_trans [OF y(6) w(6)] by (simp add: cluster_returns_def)
qed

lemma cl_stays_idle:
  assumes "cl_idle dev s xs" "cl_stays (dev_data s dev) t s u" "cl_calm (dev_data s dev) u ys []" "task_to_fc (cdata_at u (dev_data s dev)) = 0"
  shows "cl_idle dev u ys"
  using assms by (auto simp: cl_idle_def cl_stays_def cl_ready_def cl_fixed_def cl_data_def Let_def split: if_splits)

lemma offload_idle:
  assumes "cl_idle dev s xs" "t \<noteq> 0" "ct_stacks (ctask_at s t) = 0" "n = cl_stack_bytes (ctask_at s t)" "fits n xs"
    and "b \<noteq> 0" "b AND 1 = 0" "entry_ok body d" "d = dev_data s dev"
  shows "\<exists>u v w. pi_cluster_send_task_to_cl (cluster_turn stack_fn call body d) create b dev t s = Some (0, u)
     \<and> send_blocked (cluster_turn stack_fn call body d) create b dev t s = Some (0, v) \<and> span (ct_stacks (ctask_at v t), n) \<subseteq> fl_bytes xs
     \<and> cluster_returns call (body (ct_entry (ctask_at s t)) (ct_arg (ctask_at s t)) (cl_master_team stack_fn (ctask_at v t) v)) = Some w
     \<and> u = pi_task_destroy b (pi_task_destroy b w) \<and> cl_idle dev u xs \<and> cl_stays d t s u"
proof -
  let ?s0 = "pi_task_block create b s" and ?env = "cluster_turn stack_fn call body d"
  have idle: "cl_calm d s xs []" "cl_data s = Some d" "task_to_fc (cdata_at s d) = 0" using assms(1,9) by (simp_all add: cl_idle_def Let_def)
  have ok: "fl_ok 0 xs" "size_ok n" using idle(1) malloc_rep_ok assms(5) by (auto simp: cl_calm_def cl_heap_def fits_def)
  note same = block_same [of s create b, unfolded cl_store_same_def]
  obtain v ys where v: "send_blocked ?env create b dev t s = Some (0, v)" "cl_calm d v ys [t]"
    "fl_alloc (round8 (unat n)) xs = Some (unat (ct_stacks (ctask_at v t)), ys)" "ct_stack_allocated (ctask_at v t) \<noteq> 0"
    "ct_slave_stack_size (ctask_at v t) * 7 + ct_stack_size (ctask_at v t) = n" "cl_lock_apart d v xs"
    "cl_kept d t (upd_ctask t (\<lambda>t. t\<lparr>ct_completion_callback := b\<rparr>) ?s0) v" "cl_stays d t s v"
    using offload_sends [OF assms(1-5,9), of ?env create b] by blast
  let ?m = "cl_master_team stack_fn (ctask_at v t) v" let ?x = "body (ct_entry (ctask_at s t)) (ct_arg (ctask_at s t)) ?m"
  have m: "cl_store_same v ?m" "task_at ?m = task_at v" using master_team_same by auto
  have mc: "cl_calm d ?m ys [t]" by (rule calm_same [OF v(2) m(1)])
  have kept: "task_at v = task_at ?s0" "cl_data v = Some d" "task_to_fc (cdata_at v d) = 0" "ct_completion_callback (ctask_at v t) = b"
    "ct_entry (ctask_at v t) = ct_entry (ctask_at s t)" "ct_arg (ctask_at v t) = ct_arg (ctask_at s t)"
    using v(7) idle(2,3) same by (auto simp: cl_kept_def cl_stays_def cl_data_def)
  have x: "cl_calm d ?x ys [t]" "ctask_at ?x = ctask_at v" "cdata_at ?x = cdata_at v" "task_at ?x = task_at v" "cl_data ?x = cl_data v"
    "cl_stays d t v ?x" "cl_lock_apart d ?x xs"
    using assms(8) mc m v(6) by (simp_all add: entry_ok_def cl_data_def cl_stays_def cl_lock_apart_def cl_store_same_def)
  have rel: "can_release ?x b" using block_task(4) [of create b s] x(4) kept(1) by (simp add: can_release_def)
  obtain w where w: "cluster_returns call ?x = Some w" "cl_calm d w xs []" "t_done (task_at w b) = 1"
    "t_id (task_at w b) = t_id (task_at ?x b)" "task_to_fc (cdata_at w d) = 0" "cl_stays d t ?x w"
    using offload_returns [OF x(1) _ ok _ _ x(7) _ _ _ assms(6,7) rel, of call] v(3-5) kept(2-4) x(2,3,5) by auto
  have "task_first (cdata_at v d) = t" using v(2) by (simp add: cl_calm_def cl_queue_def)
  then have "?env v = w" using assms(2) w(1) kept(5,6) by (simp add: cluster_turn_def Let_def)
  moreover have "t_id (task_at w b) = PI_TASK_NONE_ID" "t_done (task_at v b) = 0"
    using w(4) x(4) kept(1) block_task(2,3) by simp_all
  ultimately have wt: "pi_task_wait_on ?env b v = Some (pi_task_destroy b w)" using wait_one_turn [of v b ?env] w(3) by simp
  let ?u = "pi_task_destroy b (pi_task_destroy b w)"
  have send: "pi_cluster_send_task_to_cl ?env create b dev t s = Some (0, ?u)"
    using v(1) wt by (simp add: pi_cluster_send_task_to_cl_def send_blocked_def Let_def)
  have fin: "cl_store_same w ?u" using destroy_same [of w b] destroy_same [of "pi_task_destroy b w" b] by (simp add: cl_store_same_def)
  then have st: "cl_stays d t s ?u"
    using cl_stays_trans [OF cl_stays_trans [OF cl_stays_trans [OF v(8) x(6)] w(6)] store_stays] by blast
  have "cl_idle dev ?u xs"
    using cl_stays_idle [OF assms(1), of t ?u xs] st calm_same [OF w(2) fin] w(5) fin assms(9) by (simp add: cl_store_same_def)
  moreover have "span (ct_stacks (ctask_at v t), n) \<subseteq> fl_bytes xs" using fl_alloc_blk(3) [OF v(3) ok] by blast
  ultimately show ?thesis using send v(1) w(1) st by blast
qed

text \<open>C15: a blocking send of a task to an idle cluster, with stacks to be taken from an L1 heap that has a chunk
  large enough, returns 0. By then the cluster has called the entry of the task once, with its argument, in the state after the send and on the
  stacks taken from the heap, after the master core has configured the team; the cluster is idle again with exactly the free chunks it had, and the notification task is destroyed.\<close>
theorem cluster_offload:
  assumes "cl_idle dev s xs" "t \<noteq> 0" "ct_stacks (ctask_at s t) = 0" "n = cl_stack_bytes (ctask_at s t)" "fits n xs"
    and "b \<noteq> 0" "b AND 1 = 0" "entry_ok body (dev_data s dev)"
  shows "\<exists>u v w. pi_cluster_send_task_to_cl (cluster_turn stack_fn call body (dev_data s dev)) create b dev t s = Some (0, u)
     \<and> pi_send_task_to_cl (cluster_turn stack_fn call body (dev_data s dev)) dev t
          (upd_ctask t (\<lambda>t. t\<lparr>ct_completion_callback := b\<rparr>) (pi_task_block create b s)) = Some (0, v)
     \<and> span (ct_stacks (ctask_at v t), n) \<subseteq> fl_bytes xs
     \<and> cluster_returns call (body (ct_entry (ctask_at s t)) (ct_arg (ctask_at s t)) (cl_master_team stack_fn (ctask_at v t) v)) = Some w
     \<and> u = pi_task_destroy b (pi_task_destroy b w) \<and> cl_idle dev u xs"
  using offload_idle [OF assms refl, of stack_fn call create] unfolding send_blocked_def by blast

lemma cluster_offload_witness:
  "\<exists>u. pi_cluster_send_task_to_cl (cluster_turn 0x1C008000 (\<lambda>_ _ s. s) (\<lambda>_ _ s. s) 0x1C000100) (\<lambda>_. 1) 0x1C002000 0 0x1C001000 demo_cluster_heap = Some (0, u)
     \<and> cl_idle 0 u [(0x1C000008, 4088)]"
proof -
  have d: "dev_data demo_cluster_heap 0 = 0x1C000100" "ct_stacks (ctask_at demo_cluster_heap 0x1C001000) = 0"
    "cl_stack_bytes (ctask_at demo_cluster_heap 0x1C001000) = 0xB00" "cl_data demo_cluster_heap = Some 0x1C000100"
    "task_to_fc (cdata_at demo_cluster_heap 0x1C000100) = 0"
    by (simp_all add: demo_cluster_heap_def demo_cluster_def cl_stack_bytes_def cl_bytes_def cl_data_def cl_new_data_def Let_def)
  have "cl_idle 0 demo_cluster_heap [(0x1C000008, 4088)]" using demo_cluster_heap_ok d by (simp add: cl_idle_def)
  moreover have "fits 0xB00 [(0x1C000008, 4088)]" by (simp add: fits_def size_ok_def heap_top_def round8_def)
  moreover have "entry_ok (\<lambda>_ _ s. s) 0x1C000100" by (simp add: entry_ok_def)
  ultimately show ?thesis
    using cluster_offload [of 0 demo_cluster_heap "[(0x1C000008, 4088)]" "0x1C001000" "0xB00" "0x1C002000" "\<lambda>_ _ s. s" "0x1C008000" "\<lambda>_ _ s. s" "\<lambda>_. 1"] d
    by auto
qed

end
