(* ===== verification/ClusterSession.thy ===== *)
theory ClusterSession
  imports ClusterOffload
begin

text \<open>
  The cluster from the first open to the last close (drivers/cluster/fc_to_cl_delegate.c): opening brings the
  driver into the idle state on which ClusterOffload rests, every further operation of the program keeps it.
\<close>

subsection \<open>The words of the spinlocks\<close>

definition in_L1 :: "nat \<Rightarrow> bool" where
  "in_L1 a \<longleftrightarrow> 0x10000000 \<le> a \<and> a < 0x10100000"

lemma L1_not_TAS:
  assumes "in_L1 (unat p)"
  shows "(p OR L1_TAS_BASE) AND NOT L1_TAS_BASE = p"
proof -
  have "unat p div 2 ^ 20 = 256" using assms by (simp add: in_L1_def) linarith
  then have "\<not> bit (unat p) 20" by (simp add: bit_iff_odd)
  then have "\<not> bit p 20" by (simp add: bit_unsigned_iff)
  then show ?thesis unfolding L1_TAS_BASE_def
    by (intro bit_word_eqI) (auto simp: bit_and_iff bit_or_iff bit_not_iff bit_push_bit_iff bit_1_iff simp del: push_bit_of_1)
qed

text \<open>The heap's region: after alignment its one chunk has room for the two locks.\<close>

definition l1_start :: "u32 \<Rightarrow> nat" where
  "l1_start a = round8 (unat a)"

definition l1_room :: "u32 \<Rightarrow> u32 \<Rightarrow> nat" where
  "l1_room a n = (unat a + unat n - round8 (unat a)) div 8 * 8"

definition l1_ok :: "u32 \<Rightarrow> u32 \<Rightarrow> bool" where
  "l1_ok a n \<longleftrightarrow> 0x10000000 \<le> unat a \<and> unat a + unat n \<le> 0x10100000 \<and> 24 \<le> l1_room a n"

lemma l1_room_bounds:
  assumes "l1_ok a n"
  shows "0x10000000 \<le> l1_start a" "l1_start a + l1_room a n \<le> 0x10100000" "24 \<le> l1_room a n" "8 dvd l1_start a" "8 dvd l1_room a n"
    "l1_start a + 8 \<le> unat a + unat n"
proof -
  have "unat a \<le> round8 (unat a)" by (rule round8_ge)
  moreover have "l1_room a n \<le> unat a + unat n - round8 (unat a)" by (simp add: l1_room_def)
  moreover have "24 \<le> l1_room a n" using assms by (simp add: l1_ok_def)
  ultimately show "0x10000000 \<le> l1_start a" "l1_start a + l1_room a n \<le> 0x10100000" "24 \<le> l1_room a n"
    "l1_start a + 8 \<le> unat a + unat n"
    using assms by (auto simp: l1_ok_def l1_start_def)
qed (simp_all add: l1_start_def l1_room_def round8_dvd)

lemma lock_alloc:
  assumes "cl_heap s [(a, k)]" "16 \<le> k" "8 dvd k"
  shows "\<exists>p u. cl_alloc 4 s = Some (p, u) \<and> unat p = a + k - 8 \<and> cl_heap u [(a, k - 8)] \<and> cl_same s u
    \<and> (\<forall>x. unat x \<notin> block a 8 \<longrightarrow> ram (cheaps u) x = ram (cheaps s) x)"
proof -
  have al: "fl_alloc (round8 4) [(a, k)] = Some (a + k - 8, [(a, k - 8)])" using assms(2) by (simp add: round8_def)
  then obtain p c m where p: "malloc (cl_l1_malloc (cheaps s)) (ram (cheaps s)) 4 = Some (p, c, m)" "unat p = a + k - 8"
    "malloc_rep c m [(a, k - 8)]" "\<forall>x. unat x \<notin> block a 8 \<longrightarrow> m x = ram (cheaps s) x"
    using malloc_refines [OF assms(1) [unfolded cl_heap_def], of 4] by (auto simp: heap_top_def)
  from cl_alloc_rep [OF p(1)] show ?thesis using p(2-4) by (auto simp: cl_heap_def)
qed

lemma lock_clear:
  assumes "cl_heap s [(a, k)]" "unat p = a + k" "a + k + 8 \<le> heap_top"
  shows "malloc_rep (cl_l1_malloc (cheaps s)) (wr32 (ram (cheaps s)) p v) [(a, k)]"
    and "unat x \<notin> block (a + k) 4 \<Longrightarrow> wr32 (ram (cheaps s)) p v x = ram (cheaps s) x"
proof -
  show w: "wr32 (ram (cheaps s)) p v x = ram (cheaps s) x" if "unat x \<notin> block (a + k) 4" for x
    using assms(2,3) that by (intro wr32_other) (auto simp: block_def heap_top_def)
  show "malloc_rep (cl_l1_malloc (cheaps s)) (wr32 (ram (cheaps s)) p v) [(a, k)]"
    by (rule malloc_rep_cong [OF assms(1) [unfolded cl_heap_def]], rule w) (auto simp: block_def)
qed

subsection \<open>Opening\<close>

lemma boot_addrs_same: "cl_store_same s (cl_boot_addrs start cs s)"
proof (induction cs arbitrary: s)
  case (Cons c cs)
  show ?case using Cons.IH [of "hal_cl_ctrl_boot_addr_set 0 (of_nat c) start s"]
    by (simp add: cl_store_same_def hal_cl_ctrl_boot_addr_set_def)
qed (simp add: cl_store_same_def)

text \<open>The heap and the two locks in it: the one of the queue above the one of the printf buffers, above the chunk.\<close>

lemma locks_in_heap:
  assumes "cl_heap s [(l1_start a, l1_room a n)]" "l1_ok a n"
  shows "\<exists>p s1 q u. cl_alloc 4 s = Some (p, s1) \<and> unat p = l1_start a + l1_room a n - 8 \<and> cl_same s s1
    \<and> cl_alloc 4 (upd_cdata d (f p) (upd_cram (\<lambda>_. wr32 (ram (cheaps s1)) p 0) s1)) = Some (q, u)
    \<and> cl_heap (upd_cram (\<lambda>_. wr32 (ram (cheaps u)) q 0) u) [(l1_start a, l1_room a n - 16)]
    \<and> rd32 (wr32 (ram (cheaps u)) q 0) p = 0 \<and> cl_same (upd_cdata d (f p) s1) u"
proof -
  let ?a = "l1_start a" and ?k = "l1_room a n"
  note b = l1_room_bounds [OF assms(2)]
  obtain p s1 where p: "cl_alloc 4 s = Some (p, s1)" "unat p = ?a + ?k - 8" "cl_heap s1 [(?a, ?k - 8)]" "cl_same s s1"
    using lock_alloc [OF assms(1)] b(3,5) by auto
  have up: "unat p = ?a + (?k - 8)" and top: "?a + (?k - 8) + 8 \<le> heap_top" using p(2) b(2,3) by (auto simp: heap_top_def)
  let ?s2 = "upd_cdata d (f p) (upd_cram (\<lambda>_. wr32 (ram (cheaps s1)) p 0) s1)"
  have "cl_heap ?s2 [(?a, ?k - 8)]" using lock_clear(1) [OF p(3) up top, of 0] by (simp add: cl_heap_def upd_cram_def)
  moreover have "16 \<le> ?k - 8" "8 dvd ?k - 8" using b(3,5) by auto
  ultimately obtain q u where q: "cl_alloc 4 ?s2 = Some (q, u)" "unat q = ?a + (?k - 8) - 8" "cl_heap u [(?a, ?k - 8 - 8)]" "cl_same ?s2 u"
    "\<forall>x. unat x \<notin> block ?a 8 \<longrightarrow> ram (cheaps u) x = ram (cheaps ?s2) x"
    using lock_alloc by blast
  have uq: "unat q = ?a + (?k - 8 - 8)" and top': "?a + (?k - 8 - 8) + 8 \<le> heap_top" using q(2) b(2,3) by (auto simp: heap_top_def)
  note w = lock_clear [OF q(3) uq top', where v = 0]
  have "rd32 (wr32 (ram (cheaps u)) q 0) p = rd32 (wr32 (ram (cheaps s1)) p 0) p"
  proof (rule rd32_cong)
    fix x :: u32 assume "unat p \<le> unat x" "unat x < unat p + 4"
    then have "unat x \<notin> block (?a + (?k - 8 - 8)) 4" "unat x \<notin> block ?a 8" using p(2) b(3) by (auto simp: block_def)
    then show "wr32 (ram (cheaps u)) q 0 x = wr32 (ram (cheaps s1)) p 0 x" using w(2) q(5) by (simp add: upd_cram_def)
  qed (use p(2) b(2) in linarith)
  then have "rd32 (wr32 (ram (cheaps u)) q 0) p = 0" by simp
  moreover have "cl_heap (upd_cram (\<lambda>_. wr32 (ram (cheaps u)) q 0) u) [(?a, ?k - 16)]" using w(1) by (simp add: cl_heap_def upd_cram_def)
  moreover have "cl_same (upd_cdata d (f p) s1) u" using q(4) by (simp add: cl_same_def)
  ultimately show ?thesis using p(1,2,4) q(1) by blast
qed

lemma power_on:
  assumes "l1_ok (cc_heap_start (cconf_at s conf)) (cc_heap_size (cconf_at s conf))"
  shows "\<exists>u p. cl_power_on ld d conf s = Some u \<and> in_L1 (unat p)
    \<and> unat p = l1_start (cc_heap_start (cconf_at s conf)) + l1_room (cc_heap_start (cconf_at s conf)) (cc_heap_size (cconf_at s conf)) - 8
    \<and> cdata_at u = (cdata_at s)(d := (cdata_at s d)\<lparr>fifo_access := \<lparr>lock_ptr = p OR L1_TAS_BASE, release_ptr = p\<rparr>\<rparr>) \<and> rd32 (ram (cheaps u)) p = 0
    \<and> cl_heap u [(l1_start (cc_heap_start (cconf_at s conf)), l1_room (cc_heap_start (cconf_at s conf)) (cc_heap_size (cconf_at s conf)) - 16)]
    \<and> per_cluster_data u = per_cluster_data s \<and> dev_data u = dev_data s \<and> dev_config u = dev_config s \<and> cconf_at u = cconf_at s
    \<and> ctask_at u = ctask_at s"
proof -
  let ?a = "cc_heap_start (cconf_at s conf)" and ?n = "cc_heap_size (cconf_at s conf)"
  let ?b = "hal_cl_icache_enable 0 (hal_cl_ctrl_fetch_enable 0 (of_nat ARCHI_CLUSTER_NB_PE) (cl_boot_addrs (boot_start ld) [0..<ARCHI_CLUSTER_NB_PE] s))"
  let ?c = "upd_cram (copy_bytes (GAP_CLUSTER_TINY_DATA 0 (l1FcShared_start ld)) (l1FcShared_start ld) (l1FcShared_size ld))
    (upd_cram (copy_bytes (GAP_CLUSTER_TINY_DATA 0 (l1_preload_start ld)) (l1_preload_start_inL2 ld) (l1_preload_size ld)) ?b)"
  let ?s = "put_heaps (pi_cl_l1_malloc_init ?a ?n (heaps_of ?c)) ?c"
  have bs: "cl_store_same s ?b"
    using boot_addrs_same [of s "boot_start ld" "[0..<ARCHI_CLUSTER_NB_PE]"]
    by (simp add: cl_store_same_def hal_cl_icache_enable_def hal_cl_ctrl_fetch_enable_def)
  note bd = l1_room_bounds [OF assms]
  obtain a' m' where i: "malloc_init (cl_l1_malloc (cheaps ?c)) (ram (cheaps ?c)) ?a ?n = (a', m')" by fastforce
  have "malloc_rep a' m' [(l1_start ?a, l1_room ?a ?n)]"
    unfolding l1_start_def l1_room_def
    by (rule malloc_init_rep(1) [OF _ _ _ i]) (use assms bd(6) in \<open>auto simp: l1_ok_def l1_start_def heap_top_def\<close>)
  then have h: "cl_heap ?s [(l1_start ?a, l1_room ?a ?n)]" using i by (simp add: cl_heap_def put_heaps_def pi_cl_l1_malloc_init_def heaps_of_def)
  have same: "cdata_at ?s = cdata_at s" "per_cluster_data ?s = per_cluster_data s" "dev_data ?s = dev_data s" "dev_config ?s = dev_config s"
    "cconf_at ?s = cconf_at s" "cconf_at ?c = cconf_at s" "ctask_at ?s = ctask_at s"
    using bs by (simp_all add: cl_store_same_def put_heaps_def)
  define f :: "u32 \<Rightarrow> cluster_driver_data \<Rightarrow> cluster_driver_data" where "f = (\<lambda>p x. x\<lparr>fifo_access := \<lparr>lock_ptr = p OR L1_TAS_BASE, release_ptr = p\<rparr>\<rparr>)"
  obtain p s1 q u where L: "cl_alloc 4 ?s = Some (p, s1)" "unat p = l1_start ?a + l1_room ?a ?n - 8" "cl_same ?s s1"
    "cl_alloc 4 (upd_cdata d (f p) (upd_cram (\<lambda>_. wr32 (ram (cheaps s1)) p 0) s1)) = Some (q, u)"
    "cl_heap (upd_cram (\<lambda>_. wr32 (ram (cheaps u)) q 0) u) [(l1_start ?a, l1_room ?a ?n - 16)]"
    "rd32 (wr32 (ram (cheaps u)) q 0) p = 0" "cl_same (upd_cdata d (f p) s1) u"
    using locks_in_heap [OF h assms, of d f] by blast
  let ?u = "(upd_cram (\<lambda>_. wr32 (ram (cheaps u)) q 0) u)\<lparr>cluster_printf_spinlock := \<lparr>lock_ptr = q OR L1_TAS_BASE, release_ptr = q\<rparr>\<rparr>"
  have "cl_power_on ld d conf s = Some ?u"
    using L(1,4) same(6) by (simp add: cl_power_on_def cl_sync_init_spinlock_def f_def Let_def)
  moreover have "in_L1 (unat p)" using L(2) bd(1-3) unfolding in_L1_def by linarith
  moreover have "cl_heap ?u [(l1_start ?a, l1_room ?a ?n - 16)]" using L(5) by (simp add: cl_heap_def)
  ultimately show ?thesis
    using L(2,3,6,7) same by (intro exI [of _ ?u] exI [of _ p]) (simp add: cl_same_def f_def upd_cram_def upd_cdata_def)
qed

definition mutex_made :: "pmsis_mutex \<Rightarrow> bool" where
  "mutex_made mx \<longleftrightarrow> mutex_object mx \<noteq> 0 \<and> mutex_take_fn mx \<and> mutex_release_fn mx"

definition same_config :: "cluster \<Rightarrow> cluster \<Rightarrow> bool" where
  "same_config s u \<longleftrightarrow> per_cluster_data u = per_cluster_data s \<and> dev_data u = dev_data s \<and> dev_config u = dev_config s \<and> cconf_at u = cconf_at s
     \<and> ctask_at u = ctask_at s"

lemma init_data:
  assumes "\<forall>l. create l \<noteq> 0" "u = cl_init_data create d s"
  shows "cdata_at u d = (cdata_at s d)\<lparr>task_mutex := task_mutex (cdata_at u d), powerstate_mutex := powerstate_mutex (cdata_at u d),
      task_to_fc := 0, hw_barrier_alloc := ucast CL_ALLOC_INIT_BARRIER\<rparr>"
    and "mutex_made (task_mutex (cdata_at u d))" "mutex_made (powerstate_mutex (cdata_at u d))" "same_config s u"
    and "p \<noteq> d \<Longrightarrow> cdata_at u p = cdata_at s p"
  using assms by (simp_all add: cl_init_data_def pmsis_mutex_init_def os_native_api_mutex_release_def same_config_def mutex_made_def Let_def case_prod_beta)

lemma start_off:
  assumes "d = dev_data s dev" "d \<noteq> 0" "conf = dev_config s dev" "conf \<noteq> 0" "mutex_made (powerstate_mutex (cdata_at s d))"
    "cluster_is_on (cdata_at s d) = 0" "a = cc_heap_start (cconf_at s conf)" "n = cc_heap_size (cconf_at s conf)" "l1_ok a n"
  shows "\<exists>u p. cluster_start ld dev s = Some u \<and> in_L1 (unat p) \<and> unat p = l1_start a + l1_room a n - 8
    \<and> cdata_at u = (cdata_at s)(d := (cdata_at s d)\<lparr>fifo_access := \<lparr>lock_ptr = p OR L1_TAS_BASE, release_ptr = p\<rparr>, cluster_is_on := 1\<rparr>)
    \<and> rd32 (ram (cheaps u)) p = 0 \<and> cl_heap u [(l1_start a, l1_room a n - 16)] \<and> same_config s u"
proof -
  let ?m = "os_native_api_mutex_lock (mutex_object (powerstate_mutex (cdata_at s d))) s"
  have take: "pmsis_mutex_take (powerstate_mutex (cdata_at s d)) s = Some ?m"
    using assms(5) by (simp add: pmsis_mutex_take_def mutex_made_def)
  have m: "cdata_at ?m = cdata_at s" "same_config s ?m" by (simp_all add: os_native_api_mutex_lock_def same_config_def)
  have c: "cconf_at ?m = cconf_at s" by (simp add: os_native_api_mutex_lock_def)
  obtain u p where u: "cl_power_on ld d conf ?m = Some u" "in_L1 (unat p)" "unat p = l1_start a + l1_room a n - 8"
    "cdata_at u = (cdata_at s)(d := (cdata_at s d)\<lparr>fifo_access := \<lparr>lock_ptr = p OR L1_TAS_BASE, release_ptr = p\<rparr>\<rparr>)"
    "rd32 (ram (cheaps u)) p = 0" "cl_heap u [(l1_start a, l1_room a n - 16)]" "same_config ?m u"
    using power_on [of ?m conf ld d] assms(7-9) m(1) unfolding c same_config_def by metis
  let ?v = "upd_cdata d (\<lambda>x. x\<lparr>cluster_is_on := cluster_is_on x + 1\<rparr>) u"
  have "mutex_release_fn (powerstate_mutex (cdata_at ?v d))" using u(4) assms(5) by (simp add: mutex_made_def)
  from cl_mutex_frame [OF this, of ?v d 0] obtain w where w: "pmsis_mutex_release (powerstate_mutex (cdata_at ?v d)) ?v = Some w"
    "cdata_at w = cdata_at ?v" "cheaps w = cheaps ?v" "cl_kept d 0 ?v w" "ctask_at w = ctask_at ?v" by blast
  have "cluster_start ld dev s = Some w" using assms(1-4,6) take m(1) u(1) w(1) by (simp add: cluster_start_def Let_def)
  moreover have "same_config s w" using m(2) u(7) w(4,5) by (simp add: same_config_def cl_kept_def cl_stays_def)
  moreover have "cl_heap w [(l1_start a, l1_room a n - 16)]" using u(6) w(3) by (simp add: cl_heap_def)
  ultimately show ?thesis using u(2-5) w(2,3) assms(6) by (intro exI [of _ w] exI [of _ p]) simp
qed

lemma start_on:
  assumes "d = dev_data s dev" "d \<noteq> 0" "mutex_made (powerstate_mutex (cdata_at s d))" "cluster_is_on (cdata_at s d) \<noteq> 0"
  shows "\<exists>u. cluster_start ld dev s = Some u \<and> cdata_at u = (cdata_at s)(d := (cdata_at s d)\<lparr>cluster_is_on := cluster_is_on (cdata_at s d) + 1\<rparr>)
    \<and> ctask_at u = ctask_at s \<and> cheaps u = cheaps s \<and> same_config s u"
  using assms by (simp add: cluster_start_def pmsis_mutex_take_def pmsis_mutex_release_def mutex_made_def os_native_api_mutex_lock_def
      os_native_api_mutex_release_def same_config_def Let_def case_prod_beta)

lemma delegate_init: "\<exists>u. mc_fc_delegate_init s = Some u \<and> cl_store_same s u"
  by (simp add: mc_fc_delegate_init_def notify_irqn irq_enable_def irq_clint_enable_def csr_read_set_def cl_store_same_def)

text \<open>The driver closed, and open n times.\<close>

definition cl_conf_ok :: "u32 \<Rightarrow> cluster \<Rightarrow> bool" where
  "cl_conf_ok dev s \<longleftrightarrow> dev_config s dev = 0 \<or> cc_id (cconf_at s (dev_config s dev)) = 0"

definition cl_closed :: "u32 \<Rightarrow> cluster \<Rightarrow> bool" where
  "cl_closed dev s \<longleftrightarrow> per_cluster_data s = [0] \<and> cl_conf_ok dev s"

definition cl_opened :: "cluster_link \<Rightarrow> u32 \<Rightarrow> nat \<Rightarrow> cluster \<Rightarrow> bool" where
  "cl_opened ld dev n s \<longleftrightarrow>
     (let d = dev_data s dev; x = cdata_at s d in
      cl_idle dev s [(l1_start (heapsram_start ld), l1_room (heapsram_start ld) (heapsram_size ld) - 16)]
      \<and> cluster_is_on x = of_nat n \<and> mutex_made (task_mutex x) \<and> mutex_made (powerstate_mutex x)
      \<and> per_cluster_data s = [d] \<and> dev_config s dev \<noteq> 0 \<and> cl_conf_ok dev s)"

lemma started_idle:
  assumes "in_L1 (unat p)" "unat p = a + k + 8" "cdata_at u d = x\<lparr>fifo_access := \<lparr>lock_ptr = p OR L1_TAS_BASE, release_ptr = p\<rparr>, cluster_is_on := 1\<rparr>"
    "rd32 (ram (cheaps u)) p = 0" "cl_heap u [(a, k)]" "task_first x = 0" "task_last x = 0" "task_to_fc x = 0" "mutex_made (task_mutex x)"
    "d \<noteq> 0" "d = dev_data u dev" "per_cluster_data u = [d]"
  shows "cl_idle dev u [(a, k)]"
proof -
  have "unat p + 4 \<le> 4294967296" using assms(1) by (simp add: in_L1_def)
  then have "cl_calm d u [(a, k)] []"
    using assms(1-7) L1_not_TAS [OF assms(1)]
    by (auto simp: cl_calm_def cl_lock_ok_def cl_lock_word_def cl_queue_def cl_lock_apart_def block_def Let_def)
  then show ?thesis
    using assms(3,8-12) by (simp add: cl_idle_def cl_ready_def cl_data_def mutex_made_def Let_def)
qed

lemma cluster_open_first:
  assumes "cl_closed dev s" "chunk_api \<noteq> 0" "chunk_conf \<noteq> 0" "chunk_data \<noteq> 0" "\<forall>l. create l \<noteq> 0"
    "l1_ok (heapsram_start ld) (heapsram_size ld)"
  shows "\<exists>u. pi_cluster_open ld create chunk_api chunk_conf chunk_data dev s = Some (0, u) \<and> cl_opened ld dev 1 u \<and> dev_data u dev = chunk_data
    \<and> (\<forall>p. p \<noteq> chunk_data \<longrightarrow> cdata_at u p = cdata_at s p) \<and> ctask_at u = ctask_at s"
proof -
  define conf where "conf = (if dev_config s dev = 0 then chunk_conf else dev_config s dev)"
  let ?api = "s\<lparr>dev_api := (dev_api s)(dev := chunk_api), capi_at := (capi_at s)(chunk_api := cluster_api)\<rparr>"
  let ?cf = "if dev_config s dev = 0
     then ?api\<lparr>dev_config := (dev_config s)(dev := chunk_conf), cconf_at := (cconf_at s)(chunk_conf := cluster_default_conf)\<rparr> else ?api"
  define c where "c = ?cf"
  let ?n = "(c\<lparr>dev_data := (dev_data c)(dev := 0)\<rparr>)\<lparr>cdata_at := (cdata_at s)(chunk_data := cl_new_data), per_cluster_data := [chunk_data],
     dev_data := (dev_data c)(dev := chunk_data)\<rparr>"
  have cf: "per_cluster_data c = [0]" "cdata_at c = cdata_at s" "dev_config c dev = conf" "conf \<noteq> 0" "cc_id (cconf_at c conf) = 0"
    using assms(1,3) by (auto simp: c_def conf_def cl_closed_def cl_conf_ok_def cluster_default_conf_def)
  define i where "i = cl_init_data create chunk_data ?n"
  note I = init_data [OF assms(5) i_def]
  let ?h = "i\<lparr>cconf_at := (cconf_at i)(conf := (cconf_at i conf)\<lparr>cc_heap_start := heapsram_start ld, cc_heap_size := heapsram_size ld\<rparr>)\<rparr>"
  have run: "pi_cluster_open ld create chunk_api chunk_conf chunk_data dev s
    = Option.bind (cluster_start ld dev ?h) (\<lambda>s. map_option (\<lambda>s. (0, s)) (mc_fc_delegate_init s))"
    using assms(1-4) by (cases "dev_config s dev = 0")
      (simp_all add: pi_cluster_open_def c_def i_def conf_def NB_CLUSTER_def cl_closed_def cl_conf_ok_def cluster_default_conf_def Let_def)
  have h: "dev_data ?h dev = chunk_data" "dev_config ?h dev = conf" "per_cluster_data ?h = [chunk_data]" "cc_id (cconf_at ?h conf) = 0"
    using I(4) cf(3,5) by (simp_all add: same_config_def)
  have x: "task_first (cdata_at ?h chunk_data) = 0" "task_last (cdata_at ?h chunk_data) = 0" "task_to_fc (cdata_at ?h chunk_data) = 0"
    "cluster_is_on (cdata_at ?h chunk_data) = 0" "mutex_made (task_mutex (cdata_at ?h chunk_data))" "mutex_made (powerstate_mutex (cdata_at ?h chunk_data))"
    using I(2,3) arg_cong [OF I(1), of task_first] arg_cong [OF I(1), of task_last] arg_cong [OF I(1), of task_to_fc] arg_cong [OF I(1), of cluster_is_on]
    by (simp_all add: cl_new_data_def Let_def)
  obtain u p where u: "cluster_start ld dev ?h = Some u" "in_L1 (unat p)" "unat p = l1_start (heapsram_start ld) + l1_room (heapsram_start ld) (heapsram_size ld) - 8"
    "cdata_at u = (cdata_at ?h)(chunk_data := (cdata_at ?h chunk_data)\<lparr>fifo_access := \<lparr>lock_ptr = p OR L1_TAS_BASE, release_ptr = p\<rparr>, cluster_is_on := 1\<rparr>)"
    "rd32 (ram (cheaps u)) p = 0" "cl_heap u [(l1_start (heapsram_start ld), l1_room (heapsram_start ld) (heapsram_size ld) - 16)]" "same_config ?h u"
    using start_off [of chunk_data ?h dev conf "heapsram_start ld" "heapsram_size ld" ld] h x assms(4,6) cf(4) by auto
  obtain v where v: "mc_fc_delegate_init u = Some v" "cl_store_same u v" using delegate_init by blast
  note vs = v(2) [unfolded cl_store_same_def] and us = u(7) [unfolded same_config_def]
  have "cl_idle dev v [(l1_start (heapsram_start ld), l1_room (heapsram_start ld) (heapsram_size ld) - 16)]"
    by (rule started_idle [of p _ _ v chunk_data "cdata_at ?h chunk_data"])
      (use u h x vs us assms(4) l1_room_bounds(3) [OF assms(6)] in \<open>auto simp: cl_heap_def\<close>)
  then have "cl_opened ld dev 1 v"
    using u(4) h x(5,6) vs us cf(4) by (simp add: cl_opened_def cl_conf_ok_def Let_def)
  moreover have "cdata_at v p = cdata_at s p" if "p \<noteq> chunk_data" for p using I(5) [OF that] that u(4) vs by simp
  moreover have "ctask_at v = ctask_at s" using vs us I(4) by (auto simp: same_config_def c_def)
  ultimately show ?thesis using run u(1) v(1) vs us h(1) by simp
qed

text \<open>A change of the number of users alone.\<close>

lemma recounted:
  assumes "cl_opened ld dev n s" "d = dev_data s dev" "cdata_at u = (cdata_at s)(d := (cdata_at s d)\<lparr>cluster_is_on := word_of_nat k\<rparr>)"
    "ctask_at u = ctask_at s" "cheaps u = cheaps s" "per_cluster_data u = per_cluster_data s" "dev_data u = dev_data s" "dev_config u = dev_config s"
    "cc_id (cconf_at u (dev_config s dev)) = cc_id (cconf_at s (dev_config s dev))" "0 < k" "k < 2147483648"
  shows "cl_opened ld dev k u"
proof -
  let ?xs = "[(l1_start (heapsram_start ld), l1_room (heapsram_start ld) (heapsram_size ld) - 16)]"
  have s: "cl_ready d s" "cl_calm d s ?xs []" "cl_data s = Some d" "task_to_fc (cdata_at s d) = 0"
    using assms(1,2) by (simp_all add: cl_opened_def cl_idle_def Let_def)
  have "cl_calm d u ?xs []"
    using s(2) assms(3-5) by (simp add: cl_calm_def cl_lock_ok_def cl_lock_word_def cl_queue_def cl_heap_def cl_lock_apart_def)
  moreover have "(word_of_nat k :: u32) \<noteq> 0" using assms(10,11) unat_small_nat [of k] by auto
  then have "cl_ready d u" using s(1) assms(3) by (simp add: cl_ready_def)
  moreover have "cl_data u = Some d" using s(3) assms(6) by (simp add: cl_data_def split: if_splits)
  moreover have "task_to_fc (cdata_at u d) = 0" using s(4) assms(3) by simp
  ultimately have "cl_idle dev u ?xs" using assms(2,7) by (simp add: cl_idle_def Let_def)
  then show ?thesis using assms by (auto simp: cl_opened_def cl_conf_ok_def Let_def)
qed

lemma cluster_open_again:
  assumes "cl_opened ld dev n s" "0 < n" "Suc n < 2147483648" "chunk_api \<noteq> 0"
  shows "\<exists>u. pi_cluster_open ld create chunk_api chunk_conf chunk_data dev s = Some (0, u) \<and> cl_opened ld dev (Suc n) u
    \<and> dev_data u dev = dev_data s dev \<and> (\<forall>p. task_first (cdata_at u p) = task_first (cdata_at s p))"
proof -
  define d where "d = dev_data s dev"
  let ?conf = "dev_config s dev"
  let ?h = "s\<lparr>dev_api := (dev_api s)(dev := chunk_api), capi_at := (capi_at s)(chunk_api := cluster_api), dev_data := (dev_data s)(dev := d),
    cconf_at := (cconf_at s)(?conf := (cconf_at s ?conf)\<lparr>cc_heap_start := heapsram_start ld, cc_heap_size := heapsram_size ld\<rparr>)\<rparr>"
  have s: "cluster_is_on (cdata_at s d) = word_of_nat n" "mutex_made (powerstate_mutex (cdata_at s d))" "per_cluster_data s = [d]" "d \<noteq> 0"
    "?conf \<noteq> 0" "cc_id (cconf_at s ?conf) = 0"
    using assms(1) by (auto simp: cl_opened_def cl_idle_def cl_ready_def cl_conf_ok_def d_def Let_def)
  have on: "(word_of_nat n :: u32) \<noteq> 0" using assms(2,3) unat_small_nat [of n] by auto
  have run: "pi_cluster_open ld create chunk_api chunk_conf chunk_data dev s
    = Option.bind (cluster_start ld dev ?h) (\<lambda>s. map_option (\<lambda>s. (0, s)) (mc_fc_delegate_init s))"
    using s assms(4) by (simp add: pi_cluster_open_def NB_CLUSTER_def Let_def)
  obtain u where u: "cluster_start ld dev ?h = Some u"
    "cdata_at u = (cdata_at s)(d := (cdata_at s d)\<lparr>cluster_is_on := word_of_nat n + 1\<rparr>)"
    "ctask_at u = ctask_at s" "cheaps u = cheaps s" "same_config ?h u"
    using start_on [of d ?h dev ld] s on by auto
  obtain v where v: "mc_fc_delegate_init u = Some v" "cl_store_same u v" using delegate_init by blast
  note vs = v(2) [unfolded cl_store_same_def] and us = u(5) [unfolded same_config_def]
  have "cl_opened ld dev (Suc n) v"
    by (rule recounted [OF assms(1) d_def]) (use u(2-4) vs us assms(3) d_def in \<open>auto simp: add.commute\<close>)
  then show ?thesis using run u(1,2) v(1) vs us by (simp add: d_def)
qed

subsection \<open>Closing and sending\<close>

lemma stop_opened:
  assumes "cl_opened ld dev n s" "0 < n" "n < 2147483648" "d = dev_data s dev"
  shows "\<exists>u. cluster_stop dev s = Some (int n - 1, u) \<and> cdata_at u = (cdata_at s)(d := (cdata_at s d)\<lparr>cluster_is_on := word_of_nat (n - 1)\<rparr>)
    \<and> ctask_at u = ctask_at s \<and> cheaps u = cheaps s \<and> same_config s u"
proof -
  have s: "cluster_is_on (cdata_at s d) = word_of_nat n" "mutex_made (powerstate_mutex (cdata_at s d))" "d \<noteq> 0"
    using assms(1,4) by (auto simp: cl_opened_def cl_idle_def cl_ready_def Let_def)
  have n: "word_of_nat n - 1 = (word_of_nat (n - 1) :: u32)" using assms(2) by simp
  have "unat (word_of_nat (n - 1) :: u32) = n - 1" using assms(3) by (intro unat_small_nat) simp
  then have "sint (word_of_nat (n - 1) :: u32) = int n - 1" using sint_small [of "word_of_nat (n - 1)"] assms(2,3) by simp
  then show ?thesis
    using assms(4) s n by (simp add: cluster_stop_def pmsis_mutex_take_def pmsis_mutex_release_def mutex_made_def os_native_api_mutex_lock_def
      os_native_api_mutex_release_def same_config_def Let_def case_prod_beta)
qed

lemma close_opened:
  assumes "cl_opened ld dev n s" "0 < n" "n < 2147483648"
  shows "\<exists>u. pi_cluster_close dev s = Some (int n - 1, u) \<and> (if n = 1 then cl_closed dev u else cl_opened ld dev (n - 1) u)
    \<and> (\<forall>p. task_first (cdata_at u p) = task_first (cdata_at s p)) \<and> ctask_at u = ctask_at s"
proof -
  define d where "d = dev_data s dev"
  obtain u where u: "cluster_stop dev s = Some (int n - 1, u)" "cdata_at u = (cdata_at s)(d := (cdata_at s d)\<lparr>cluster_is_on := word_of_nat (n - 1)\<rparr>)"
    "ctask_at u = ctask_at s" "cheaps u = cheaps s" "same_config s u"
    using stop_opened [OF assms d_def] by blast
  note us = u(5) [unfolded same_config_def]
  have s: "mutex_made (powerstate_mutex (cdata_at s d))" "mutex_made (task_mutex (cdata_at s d))" "per_cluster_data s = [d]"
    "dev_config s dev \<noteq> 0" "cc_id (cconf_at s (dev_config s dev)) = 0"
    using assms(1) by (auto simp: cl_opened_def cl_conf_ok_def d_def Let_def)
  show ?thesis
  proof (cases "n = 1")
    case True
    then show ?thesis using u(1,2) us s
      by (simp add: pi_cluster_close_def pmsis_mutex_deinit_def mutex_made_def cl_closed_def cl_conf_ok_def NB_CLUSTER_def Let_def d_def [symmetric])
  next
    case False
    have "cl_opened ld dev (n - 1) u"
      by (rule recounted [OF assms(1) d_def u(2-4)]) (use us False assms(2,3) in auto)
    then show ?thesis using u(1-3) False assms(2) by (simp add: pi_cluster_close_def)
  qed
qed

lemma stays_opened:
  assumes "cl_opened ld dev n s" "cl_stays (dev_data s dev) t s u" "cl_idle dev u [(l1_start (heapsram_start ld), l1_room (heapsram_start ld) (heapsram_size ld) - 16)]"
  shows "cl_opened ld dev n u"
  using assms by (auto simp: cl_opened_def cl_stays_def cl_fixed_def cl_conf_ok_def Let_def)

definition sendable :: "u32 \<Rightarrow> u32 \<Rightarrow> chunk list \<Rightarrow> cluster \<Rightarrow> bool" where
  "sendable t b xs s \<longleftrightarrow> t \<noteq> 0 \<and> ct_stacks (ctask_at s t) = 0 \<and> fits (cl_stack_bytes (ctask_at s t)) xs \<and> b \<noteq> 0 \<and> b AND 1 = 0"

text \<open>A task in a queue that the master core does not look at.\<close>

lemma send_unseen:
  assumes "cl_idle dev s xs" "sendable t b xs s" "c \<noteq> dev_data s dev" "task_first (cdata_at s c) = 0"
  shows "pi_cluster_send_task_to_cl (cluster_turn stack_fn call body c) create b dev t s = None"
proof -
  let ?env = "cluster_turn stack_fn call body c"
  obtain v where v: "send_blocked ?env create b dev t s = Some (0, v)" "cl_stays (dev_data s dev) t s v"
    "cl_kept (dev_data s dev) t (upd_ctask t (\<lambda>t. t\<lparr>ct_completion_callback := b\<rparr>) (pi_task_block create b s)) v"
    using offload_sends [OF assms(1) _ _ refl _ refl, of t ?env create b] assms(2) unfolding sendable_def by blast
  have "?env v = v" using v(2) assms(3,4) by (simp add: cluster_turn_def cl_stays_def Let_def)
  then have "(?env ^^ k) v = v" for k by (induction k) simp_all
  moreover have "t_done (task_at v b) = 0" using v(3) block_task(3) by (simp add: cl_kept_def)
  ultimately have "wait_done ?env b v = None" using wait_done_iff [of ?env b v] by simp
  then show ?thesis using v(1) by (simp add: pi_cluster_send_task_to_cl_def send_blocked_def pi_task_wait_on_def Let_def)
qed

text \<open>What the program does with the cluster: it opens, sends and closes, as often as it has opened. The master core reads the pointer
  to the driver's data once, when the first open starts it, and keeps it in the register s5: core is that register.\<close>

definition session_heap :: "cluster_link \<Rightarrow> chunk list" where
  "session_heap ld = [(l1_start (heapsram_start ld), l1_room (heapsram_start ld) (heapsram_size ld) - 16)]"

definition chunks_ok :: "u32 \<Rightarrow> u32 \<Rightarrow> u32 \<Rightarrow> bool" where
  "chunks_ok chunk_api chunk_conf chunk_data \<longleftrightarrow> chunk_api \<noteq> 0 \<and> chunk_conf \<noteq> 0 \<and> chunk_data \<noteq> 0"

inductive cluster_used :: "cluster_link \<Rightarrow> (os_call list \<Rightarrow> u32) \<Rightarrow> u32 \<Rightarrow> (u32 \<Rightarrow> u32 \<Rightarrow> cluster \<Rightarrow> cluster) \<Rightarrow> (u32 \<Rightarrow> u32 \<Rightarrow> cluster \<Rightarrow> cluster)
    \<Rightarrow> u32 \<Rightarrow> u32 option \<Rightarrow> nat \<Rightarrow> cluster \<Rightarrow> bool" for ld create stack_fn call body dev where
  used_never: "cl_closed dev s \<Longrightarrow> cluster_used ld create stack_fn call body dev None 0 s"
| used_open: "cluster_used ld create stack_fn call body dev core n s \<Longrightarrow> Suc n < 2147483648 \<Longrightarrow> chunks_ok a c x
    \<Longrightarrow> pi_cluster_open ld create a c x dev s = Some (r, u)
    \<Longrightarrow> cluster_used ld create stack_fn call body dev (case core of None \<Rightarrow> Some (per_cluster_data u ! 0) | Some s5 \<Rightarrow> Some s5) (Suc n) u"
| used_send: "cluster_used ld create stack_fn call body dev (Some s5) n s \<Longrightarrow> 0 < n \<Longrightarrow> sendable t b (session_heap ld) s \<Longrightarrow> entry_ok body (dev_data s dev)
    \<Longrightarrow> pi_cluster_send_task_to_cl (cluster_turn stack_fn call body s5) create b dev t s = Some (r, u)
    \<Longrightarrow> cluster_used ld create stack_fn call body dev (Some s5) n u"
| used_close: "cluster_used ld create stack_fn call body dev core n s \<Longrightarrow> 0 < n \<Longrightarrow> pi_cluster_close dev s = Some (r, u)
    \<Longrightarrow> cluster_used ld create stack_fn call body dev core (n - 1) u"

definition session_ok :: "cluster_link \<Rightarrow> u32 \<Rightarrow> u32 option \<Rightarrow> nat \<Rightarrow> cluster \<Rightarrow> bool" where
  "session_ok ld dev core n s \<longleftrightarrow> n < 2147483648 \<and> (if n = 0 then cl_closed dev s else cl_opened ld dev n s)
     \<and> (core = None \<longrightarrow> n = 0) \<and> (\<forall>s5. core = Some s5 \<longrightarrow> task_first (cdata_at s s5) = 0)"

lemma idle_first: "cl_idle dev s xs \<Longrightarrow> task_first (cdata_at s (dev_data s dev)) = 0"
  by (simp add: cl_idle_def cl_calm_def cl_queue_def Let_def)

lemma opened_idle: "cl_opened ld dev n s \<Longrightarrow> cl_idle dev s (session_heap ld) \<and> per_cluster_data s = [dev_data s dev]"
  by (simp add: cl_opened_def session_heap_def Let_def)

lemma session_open:
  assumes "session_ok ld dev core n s" "Suc n < 2147483648" "chunks_ok a c x" "\<forall>l. create l \<noteq> 0" "l1_ok (heapsram_start ld) (heapsram_size ld)"
  shows "\<exists>u. pi_cluster_open ld create a c x dev s = Some (0, u)
    \<and> session_ok ld dev (case core of None \<Rightarrow> Some (per_cluster_data u ! 0) | Some s5 \<Rightarrow> Some s5) (Suc n) u"
proof (cases n)
  case 0
  then obtain u where u: "pi_cluster_open ld create a c x dev s = Some (0, u)" "cl_opened ld dev 1 u" "dev_data u dev = x"
    "\<forall>p. p \<noteq> x \<longrightarrow> cdata_at u p = cdata_at s p"
    using cluster_open_first [of dev s a c x create ld] assms by (auto simp: session_ok_def chunks_ok_def)
  note o = opened_idle [OF u(2)]
  have x: "task_first (cdata_at u x) = 0" "per_cluster_data u ! 0 = x" using idle_first [of dev u] o u(3) by auto
  have "task_first (cdata_at u p) = 0" if "task_first (cdata_at s p) = 0" for p using u(4) x(1) that by (cases "p = x") auto
  then show ?thesis using u(1,2) x 0 assms(1) by (cases core) (auto simp: session_ok_def)
next
  case (Suc k)
  then obtain u where u: "pi_cluster_open ld create a c x dev s = Some (0, u)" "cl_opened ld dev (Suc n) u"
    "\<forall>p. task_first (cdata_at u p) = task_first (cdata_at s p)"
    using cluster_open_again [of ld dev n s a create c x] assms by (auto simp: session_ok_def chunks_ok_def)
  then show ?thesis using Suc assms(1,2) by (cases core) (auto simp: session_ok_def)
qed

lemma session_send:
  assumes "session_ok ld dev (Some s5) n s" "0 < n" "sendable t b (session_heap ld) s" "entry_ok body (dev_data s dev)"
  shows "if s5 = dev_data s dev
    then \<exists>u. pi_cluster_send_task_to_cl (cluster_turn stack_fn call body s5) create b dev t s = Some (0, u) \<and> session_ok ld dev (Some s5) n u
    else pi_cluster_send_task_to_cl (cluster_turn stack_fn call body s5) create b dev t s = None"
proof -
  have op: "cl_opened ld dev n s" "cl_idle dev s (session_heap ld)" "task_first (cdata_at s s5) = 0"
    using assms(1,2) opened_idle by (auto simp: session_ok_def)
  show ?thesis
  proof (cases "s5 = dev_data s dev")
    case True
    obtain u where u: "pi_cluster_send_task_to_cl (cluster_turn stack_fn call body s5) create b dev t s = Some (0, u)"
      "cl_idle dev u (session_heap ld)" "cl_stays s5 t s u"
      using offload_idle [OF op(2) _ _ refl _ _ _ assms(4) refl, of t b stack_fn call create] assms(3) True unfolding sendable_def by blast
    have "task_first (cdata_at u s5) = 0" using idle_first [OF u(2)] u(3) True by (simp add: cl_stays_def)
    then show ?thesis
      using u(1) stays_opened [OF op(1) u(3) [unfolded True] u(2) [unfolded session_heap_def]] assms(1,2) True by (simp add: session_ok_def)
  next
    case False
    then show ?thesis using send_unseen [OF op(2) assms(3) False op(3)] by simp
  qed
qed

lemma session_close:
  assumes "session_ok ld dev core n s" "0 < n"
  shows "\<exists>u. pi_cluster_close dev s = Some (int n - 1, u) \<and> session_ok ld dev core (n - 1) u"
  using close_opened [of ld dev n s] assms by (fastforce simp: session_ok_def)

lemma used_session:
  assumes "\<forall>l. create l \<noteq> 0" "l1_ok (heapsram_start ld) (heapsram_size ld)"
  shows "cluster_used ld create stack_fn call body dev core n s \<Longrightarrow> session_ok ld dev core n s"
proof (induction rule: cluster_used.induct)
  case (used_never s)
  then show ?case by (simp add: session_ok_def)
next
  case (used_open core n s a c x r u)
  then show ?case using session_open [OF used_open.IH used_open.hyps(2,3) assms] by auto
next
  case (used_send s5 n s t b r u)
  then show ?case using session_send [OF used_send.IH used_send.hyps(2-4), of stack_fn call create] by (auto split: if_splits)
next
  case (used_close core n s r u)
  then show ?case using session_close [OF used_close.IH used_close.hyps(2)] by auto
qed

text \<open>C14: whatever sequence of opens, blocking sends and closes the program has made, a further open answers 0 and a
  further close the number of users left. With users the cluster is on and idle, and its L1 heap is what the first open made of its region
  but for the two locks; after the last close no data of it is left. A blocking send answers 0 as long as the data is that of the first
  open. After a close and an open that allocates new data elsewhere it never returns: the task waits in the new queue, but the master core, which
  nothing restarts, still looks at the old one.\<close>
theorem cluster_sessions:
  assumes "cluster_used ld create stack_fn call body dev core n s" "\<forall>l. create l \<noteq> 0" "l1_ok (heapsram_start ld) (heapsram_size ld)"
  shows "pi_cluster_is_on s = (if n = 0 then 0 else 1)
    \<and> (if n = 0 then per_cluster_data s = [0]
       else cl_idle dev s [(l1_start (heapsram_start ld), l1_room (heapsram_start ld) (heapsram_size ld) - 16)]
         \<and> cluster_is_on (cdata_at s (dev_data s dev)) = of_nat n \<and> core \<noteq> None)
    \<and> (Suc n < 2147483648 \<and> chunks_ok a c x \<longrightarrow> (\<exists>u. pi_cluster_open ld create a c x dev s = Some (0, u)))
    \<and> (0 < n \<and> core = Some s5 \<and> sendable t b (session_heap ld) s \<and> entry_ok body (dev_data s dev)
       \<longrightarrow> (if s5 = dev_data s dev
            then \<exists>u. pi_cluster_send_task_to_cl (cluster_turn stack_fn call body s5) create b dev t s = Some (0, u)
            else pi_cluster_send_task_to_cl (cluster_turn stack_fn call body s5) create b dev t s = None))
    \<and> (0 < n \<longrightarrow> (\<exists>u. pi_cluster_close dev s = Some (int n - 1, u)))"
proof -
  have ok: "session_ok ld dev core n s" using used_session [OF assms(2,3,1)] .
  have "0 < n \<Longrightarrow> (word_of_nat n :: u32) \<noteq> 0" using ok unat_small_nat [of n] by (auto simp: session_ok_def)
  then have "pi_cluster_is_on s = (if n = 0 then 0 else 1)"
    using ok by (cases "n = 0") (auto simp: session_ok_def cl_closed_def cl_opened_def cl_idle_def cl_ready_def pi_cluster_is_on_def NB_CLUSTER_def Let_def)
  moreover have "if n = 0 then per_cluster_data s = [0]
     else cl_idle dev s [(l1_start (heapsram_start ld), l1_room (heapsram_start ld) (heapsram_size ld) - 16)]
       \<and> cluster_is_on (cdata_at s (dev_data s dev)) = of_nat n \<and> core \<noteq> None"
    using ok by (cases "n = 0") (auto simp: session_ok_def cl_closed_def cl_opened_def Let_def)
  moreover have "if s5 = dev_data s dev
      then \<exists>u. pi_cluster_send_task_to_cl (cluster_turn stack_fn call body s5) create b dev t s = Some (0, u)
      else pi_cluster_send_task_to_cl (cluster_turn stack_fn call body s5) create b dev t s = None"
    if "0 < n" "core = Some s5" "sendable t b (session_heap ld) s" "entry_ok body (dev_data s dev)"
    using session_send [OF ok [unfolded that(2)] that(1,3,4), of stack_fn call create] by (auto split: if_splits)
  ultimately show ?thesis
    using session_open [OF ok _ _ assms(2,3), of a c x] session_close [OF ok] by blast
qed

definition demo_link :: cluster_link where
  "demo_link = \<lparr>l1_preload_start = 0, l1_preload_start_inL2 = 0, l1_preload_size = 0, l1FcShared_start = 0, l1FcShared_size = 0,
     heapsram_start = 0x10000004, heapsram_size = 0x8000, boot_start = 0x1C000080\<rparr>"

lemma cluster_sessions_witness:
  "\<exists>s0 s1 s2 s3. s0 = demo_cluster_heap\<lparr>per_cluster_data := [0]\<rparr>
     \<and> pi_cluster_open demo_link (\<lambda>_. 1) 0x1C000200 0x1C000300 0x1C000400 0 s0 = Some (0, s1)
     \<and> pi_cluster_is_on s1 = 1 \<and> cl_idle 0 s1 [(0x10000008, 0x7FE8)] \<and> pi_cluster_close 0 s1 = Some (0, s2)
     \<and> pi_cluster_open demo_link (\<lambda>_. 1) 0x1C000200 0x1C000300 0x1C000500 0 s2 = Some (0, s3)
     \<and> pi_cluster_send_task_to_cl (cluster_turn 0x1C008000 (\<lambda>_ _ s. s) (\<lambda>_ _ s. s) 0x1C000400) (\<lambda>_. 1) 0x1C002000 0 0x1C001000 s3 = None"
proof -
  let ?s0 = "demo_cluster_heap\<lparr>per_cluster_data := [0]\<rparr>" and ?id = "\<lambda>_ _ s. s"
  let ?used = "cluster_used demo_link (\<lambda>_. 1) 0x1C008000 ?id ?id 0" and ?t = "0x1C001000" and ?b = "0x1C002000 :: u32"
  let ?open = "pi_cluster_open demo_link (\<lambda>_. 1) 0x1C000200 0x1C000300"
  have heap: "l1_ok (heapsram_start demo_link) (heapsram_size demo_link)"
    by (simp add: l1_ok_def l1_room_def round8_def demo_link_def)
  have ok: "chunks_ok 0x1C000200 0x1C000300 0x1C000400" "chunks_ok 0x1C000200 0x1C000300 0x1C000500" by (simp_all add: chunks_ok_def)
  have closed: "cl_closed 0 ?s0" by (simp add: cl_closed_def cl_conf_ok_def demo_cluster_heap_def demo_cluster_def)
  have u0: "?used None 0 ?s0" by (rule used_never [OF closed])
  obtain s1 where o1: "?open 0x1C000400 0 ?s0 = Some (0, s1)" "dev_data s1 0 = 0x1C000400" "ctask_at s1 = ctask_at ?s0" "cl_opened demo_link 0 1 s1"
    using cluster_open_first [of 0 ?s0 "0x1C000200" "0x1C000300" "0x1C000400" "\<lambda>_. 1" demo_link] closed heap by auto
  have "per_cluster_data s1 ! 0 = 0x1C000400" using opened_idle [OF o1(4)] o1(2) by simp
  then have u1: "?used (Some 0x1C000400) 1 s1" using used_open [OF u0 _ ok(1) o1(1)] by simp
  obtain s2 where c: "pi_cluster_close 0 s1 = Some (0, s2)" "cl_closed 0 s2" "ctask_at s2 = ctask_at s1"
    using close_opened [OF o1(4)] by auto
  have u2: "?used (Some 0x1C000400) 0 s2" using used_close [OF u1 _ c(1)] by simp
  obtain s3 where o3: "?open 0x1C000500 0 s2 = Some (0, s3)" "dev_data s3 0 = 0x1C000500" "ctask_at s3 = ctask_at s2"
    using cluster_open_first [of 0 s2 "0x1C000200" "0x1C000300" "0x1C000500" "\<lambda>_. 1" demo_link] c(2) heap by auto
  have u3: "?used (Some 0x1C000400) 1 s3" using used_open [OF u2 _ ok(2) o3(1)] by simp
  have "sendable ?t ?b (session_heap demo_link) s3" using o1(3) o3(3) c(3)
    by (simp add: sendable_def fits_def session_heap_def demo_link_def demo_cluster_heap_def cl_stack_bytes_def cl_bytes_def size_ok_def
        heap_top_def round8_def l1_start_def l1_room_def)
  then have "pi_cluster_send_task_to_cl (cluster_turn 0x1C008000 ?id ?id 0x1C000400) (\<lambda>_. 1) ?b 0 ?t s3 = None"
    using cluster_sessions [OF u3 _ heap, of 0 0 0 "0x1C000400" ?t ?b] o3(2) by (simp add: entry_ok_def)
  moreover have "pi_cluster_is_on s1 = 1" "cl_idle 0 s1 [(0x10000008, 0x7FE8)]"
    using cluster_sessions [OF u1 _ heap] by (simp_all add: demo_link_def l1_start_def l1_room_def round8_def)
  ultimately show ?thesis using o1(1) c(1) o3(1) by blast
qed

end
