(* ===== verification/ClusterTeams.thy ===== *)
theory ClusterTeams
  imports ClusterProps
begin

text \<open>
  The teams of a cluster (drivers/include/cluster/cl_team_internal.h): which cores a fork hands its entry
  to and which cores the barriers wait for, and the allocation of the hardware barriers.
\<close>

subsection \<open>Bits\<close>

lemma takeWhile_upt: "length (takeWhile (\<lambda>i. \<not> P i) [0..<n]) = (if \<exists>i < n. P i then (LEAST i. P i) else n)"
proof (induction n)
  case (Suc n)
  show ?case
  proof (cases "\<exists>i < n. P i")
    case True
    then have "takeWhile (\<lambda>i. \<not> P i) ([0..<n] @ [n]) = takeWhile (\<lambda>i. \<not> P i) [0..<n]"
      by (auto simp: takeWhile_append)
    then show ?thesis using Suc True by auto
  next
    case False
    then have e: "takeWhile (\<lambda>i. \<not> P i) ([0..<n] @ [n]) = [0..<n] @ takeWhile (\<lambda>i. \<not> P i) [n]"
      by (intro takeWhile_append2) auto
    have "P n \<Longrightarrow> (LEAST i. P i) = n" using False by (intro Least_equality) (auto, metis not_le)
    then show ?thesis using False e by (auto simp: less_Suc_eq)
  qed
qed simp

lemma FF1_least:
  assumes "\<exists>i < 32. bit w i"
  shows "unat (FF1 w) = (LEAST i. bit w i)" "bit w (unat (FF1 w))" "FF1 w \<noteq> 32"
proof -
  obtain i where i: "i < 32" "bit w i" using assms by blast
  have l: "(LEAST i. bit w i) < 32" using Least_le [of "bit w", OF i(2)] i(1) by simp
  have "FF1 w = word_of_nat (LEAST i. bit w i)" using assms by (simp add: FF1_def takeWhile_upt)
  moreover have "unat (word_of_nat (LEAST i. bit w i) :: u32) = (LEAST i. bit w i)"
    using l by (intro unat_small_nat) simp
  ultimately show f: "unat (FF1 w) = (LEAST i. bit w i)" by simp
  show "bit w (unat (FF1 w))" unfolding f using i(2) by (rule LeastI)
  show "FF1 w \<noteq> 32" using f l by auto
qed

lemma FF1_none: "\<not> (\<exists>i < 32. bit w i) \<Longrightarrow> FF1 w = 32"
  by (auto simp: FF1_def takeWhile_upt)

lemma p_cnt_card: "p_cnt w = of_nat (card {i. bit w i})"
proof -
  have "{i. bit w i} = set (filter (bit w) [0..<32])" by (auto dest: bit_imp_le_length)
  then show ?thesis by (simp add: p_cnt_def distinct_card del: set_filter)
qed

lemma team_bits: "n < 32 \<Longrightarrow> bit (push_bit n 1 - 1 :: u32) i \<longleftrightarrow> i < n"
  using bit_mask_word [of n i] by (auto simp: BIT_MASK_def BIT_def)

lemmas team_addr = cl_demux_eu_dispatch_def cl_demux_eu_barrier_def CL_EU_DEMUX_BASE_def CLUSTER_DEMUX_EU_DISPATCH_OFFSET_def
  CLUSTER_DEMUX_EU_BARRIER_OFFSET_def CL_DEMUX_EU_HW_BARRIER_SIZE_def CL_DEMUX_EU_HW_BARRIER_TRIGGER_MASK_def
  CL_DEMUX_EU_HW_BARRIER_TARGET_MASK_def CL_DEMUX_EU_DISPATCH_FIFO_ACCESS_def CL_DEMUX_EU_DISPATCH_TEAM_CONFIG_def
  ARCHI_CLUSTER_LEGCY_BARR_ID_def ARCHI_CLUSTER_SYNC_BARR_ID_def

subsection \<open>Fork\<close>

definition dispatched :: "'a machine_scheme \<Rightarrow> nat set" where
  "dispatched s = {i. bit (readw (cl_demux_eu_dispatch + CL_DEMUX_EU_DISPATCH_TEAM_CONFIG) s) i}"

definition barrier_team :: "u32 \<Rightarrow> 'a machine_scheme \<Rightarrow> nat set" where
  "barrier_team b s = {i. bit (hal_cl_eu_barrier_team_get b s) i}"

definition team_set_up :: "u32 \<Rightarrow> u32 \<Rightarrow> u32 \<Rightarrow> (u32 \<times> u32) list" where
  "team_set_up m entry a =
     (let bar = (\<lambda>b. [(cl_demux_eu_barrier b + CL_DEMUX_EU_HW_BARRIER_TRIGGER_MASK, m), (cl_demux_eu_barrier b + CL_DEMUX_EU_HW_BARRIER_TARGET_MASK, m)]);
          fifo = cl_demux_eu_dispatch + CL_DEMUX_EU_DISPATCH_FIFO_ACCESS in
      bar ARCHI_CLUSTER_LEGCY_BARR_ID @ bar ARCHI_CLUSTER_SYNC_BARR_ID
      @ [(cl_demux_eu_dispatch + CL_DEMUX_EU_DISPATCH_TEAM_CONFIG, m XOR 1), (fifo, entry), (fifo, a)])"

text \<open>C17: a fork on n cores, 1 to 8, first sets both barriers to exactly the cores 0 to n - 1, then gives the entry and
  its argument to the cores 1 to n - 1 and to no other, then calls the entry once on the master, core 0, and waits at the barrier
  of the team: every core of the team runs the entry once. pi_cl_team_nb_cores is then n, and the variant for the cluster controller
  does the same.\<close>
theorem team_fork:
  assumes "0 < unat n" "unat n \<le> ARCHI_CLUSTER_NB_PE"
  shows "\<exists>u. pi_cl_team_fork env call n entry a s = pi_cl_team_barrier_sync_wait_clear env (call entry a u)
    \<and> pi_cl_team_fork_cc env call n entry a s = pi_cl_team_fork env call n entry a s
    \<and> io_log u = io_log s @ team_set_up (push_bit (unat n) 1 - 1) entry a
    \<and> dispatched u = {1..<unat n} \<and> barrier_team ARCHI_CLUSTER_LEGCY_BARR_ID u = {0..<unat n}
    \<and> barrier_team ARCHI_CLUSTER_SYNC_BARR_ID u = {0..<unat n} \<and> pi_cl_team_nb_cores u = n"
proof -
  define m :: u32 where "m = push_bit (unat n) 1 - 1"
  have m2: "2 ^ unat n - 1 = m" by (simp add: m_def)
  have lt: "unat n < 32" using assms(2) by (simp add: ARCHI_CLUSTER_NB_PE_def)
  have m: "bit m i \<longleftrightarrow> i < unat n" for i unfolding m_def using team_bits [OF lt] .
  have or: "m OR 1 = m" using m assms(1) by (intro bit_word_eqI) (auto simp: bit_simps)
  have "bit (m AND 1) 0" using m [of 0] assms(1) by (simp add: bit_simps)
  then have master: "m AND 1 \<noteq> 0" by (metis bit_0_eq bot_apply bot_bool_def)
  have n0: "n \<noteq> 0" using assms(1) by auto
  let ?u = "pi_cl_team_dispatch entry a (pi_cl_team_config_set m s)"
  have run: "pi_cl_team_fork env call n entry a s = pi_cl_team_barrier_sync_wait_clear env (call entry a ?u)"
    using n0 master by (simp add: pi_cl_team_fork_def ARCHI_CLUSTER_MASTER_CORE_def Let_def m2)
  have cc: "pi_cl_team_fork_cc env call n entry a s = pi_cl_team_barrier_sync_wait_clear env (call entry a ?u)"
    using n0 by (simp add: pi_cl_team_fork_cc_def Let_def m2)
  have log: "io_log ?u = io_log s @ team_set_up m entry a"
    by (simp add: pi_cl_team_dispatch_def pi_cl_team_config_set_def pi_cl_team_barrier_sync_set_def hal_cl_eu_barrier_setup_def
        hal_cl_eu_dispatch_team_config_def hal_cl_eu_dispatch_fifo_push_def ARCHI_CLUSTER_MASTER_CORE_def team_set_up_def or Let_def)
  have regs: "readw (cl_demux_eu_dispatch + CL_DEMUX_EU_DISPATCH_TEAM_CONFIG) ?u = m XOR 1"
    "hal_cl_eu_barrier_team_get ARCHI_CLUSTER_LEGCY_BARR_ID ?u = m" "hal_cl_eu_barrier_team_get ARCHI_CLUSTER_SYNC_BARR_ID ?u = m"
    by (simp_all add: pi_cl_team_dispatch_def pi_cl_team_config_set_def pi_cl_team_barrier_sync_set_def hal_cl_eu_barrier_setup_def
        hal_cl_eu_dispatch_team_config_def hal_cl_eu_dispatch_fifo_push_def hal_cl_eu_barrier_team_get_def ARCHI_CLUSTER_MASTER_CORE_def
        or Let_def team_addr)
  have sets: "dispatched ?u = {1..<unat n}" "barrier_team ARCHI_CLUSTER_LEGCY_BARR_ID ?u = {0..<unat n}"
    "barrier_team ARCHI_CLUSTER_SYNC_BARR_ID ?u = {0..<unat n}"
    unfolding dispatched_def barrier_team_def regs bit_xor_iff bit_1_iff m using assms(1) by auto
  have "{i. bit m i} = {0..<unat n}" unfolding m by auto
  then have nb: "pi_cl_team_nb_cores ?u = n" by (simp add: pi_cl_team_nb_cores_def regs p_cnt_card)
  show ?thesis unfolding m_def [symmetric]
    by (rule exI [of _ ?u], rule conjI, rule run, rule conjI, rule trans [OF cc run [symmetric]]) (intro conjI log sets nb)
qed

subsection \<open>Barriers\<close>

text \<open>The barriers that the program holds after any sequence of allocations and frees of what it holds.\<close>

inductive barriers_held :: "u32 \<Rightarrow> cluster \<Rightarrow> u32 list \<Rightarrow> bool" for d where
  held_none: "cl_data s = Some d \<Longrightarrow> hw_barrier_alloc (cdata_at s d) = ucast CL_ALLOC_INIT_BARRIER \<Longrightarrow> barriers_held d s []"
| held_alloc: "barriers_held d s bs \<Longrightarrow> pi_cl_team_barrier_alloc s = Some (b, s') \<Longrightarrow> barriers_held d s' (if b = -1 then bs else b # bs)"
| held_free: "barriers_held d s bs \<Longrightarrow> b \<in> set bs \<Longrightarrow> pi_cl_team_barrier_free b s = Some s' \<Longrightarrow> barriers_held d s' (remove1 b bs)"

definition barriers_ok :: "u32 \<Rightarrow> cluster \<Rightarrow> u32 list \<Rightarrow> bool" where
  "barriers_ok d s bs \<longleftrightarrow> cl_data s = Some d \<and> distinct bs \<and> unat ` set bs \<subseteq> {2..<8}
     \<and> (\<forall>i. bit (hw_barrier_alloc (cdata_at s d)) i \<longleftrightarrow> i \<in> {2..<8} - unat ` set bs)"

lemma ucast_u8_bit: "bit (ucast (w :: u8) :: u32) i \<longleftrightarrow> bit w i"
  by (auto simp: bit_simps dest: bit_imp_le_length)

lemma barriers_start:
  assumes "cl_data s = Some d" "hw_barrier_alloc (cdata_at s d) = ucast CL_ALLOC_INIT_BARRIER"
  shows "barriers_ok d s []"
proof -
  have "bit CL_ALLOC_INIT_BARRIER i \<longleftrightarrow> 2 \<le> i \<and> i < 8" for i
    unfolding CL_ALLOC_INIT_BARRIER_def CL_EU_HW_BARRIER_RESERVED_MASK_def
    by (auto simp: bit_and_iff bit_not_iff team_bits CL_NB_HW_BARRIER_def CL_EU_HW_BARRIER_RESERVED_def simp del: push_bit_of_1)
  then show ?thesis using assms by (auto simp: barriers_ok_def bit_simps)
qed

lemma barriers_alloc:
  assumes "barriers_ok d s bs" "pi_cl_team_barrier_alloc s = Some (b, s')"
  shows "if unat ` set bs = {2..<8} then b = -1 \<and> s' = s
    else b \<noteq> -1 \<and> unat b = (LEAST i. i \<in> {2..<8} - unat ` set bs) \<and> unat b \<in> {2..<8} - unat ` set bs \<and> barriers_ok d s' (b # bs)"
proof -
  let ?w = "ucast (hw_barrier_alloc (cdata_at s d)) :: u32" and ?free = "{2..<8} - unat ` set bs"
  have d: "cl_data s = Some d" and bits: "bit ?w i \<longleftrightarrow> i \<in> ?free" for i
    using assms(1) by (auto simp: barriers_ok_def ucast_u8_bit)
  show ?thesis
  proof (cases "unat ` set bs = {2..<8}")
    case True
    then have "\<not> (\<exists>i < 32. bit ?w i)" using bits by auto
    from FF1_none [OF this] show ?thesis using assms(2) d True by (simp add: pi_cl_team_barrier_alloc_def)
  next
    case False
    then have ex: "\<exists>i < 32. bit ?w i" using bits assms(1) by (auto simp: barriers_ok_def)
    note F = FF1_least [OF ex]
    have b: "b = FF1 ?w" "s' = upd_cdata d (\<lambda>x. x\<lparr>hw_barrier_alloc := ucast (ucast (hw_barrier_alloc x) AND NOT (push_bit (unat b) (1 :: u32)))\<rparr>) s"
      using assms(2) d F(3) by (auto simp: pi_cl_team_barrier_alloc_def Let_def)
    have in_free: "unat b \<in> ?free" using F(2) bits b(1) by simp
    moreover have "unat b = (LEAST i. i \<in> ?free)" using F(1) bits b(1) by simp
    moreover have "b \<noteq> -1" using in_free by (auto simp: unsigned_minus_1_eq_mask mask_eq_exp_minus_1 simp del: unsigned_of_nat)
    moreover have "barriers_ok d s' (b # bs)"
    proof -
      have "bit (hw_barrier_alloc (cdata_at s' d)) i \<longleftrightarrow> i \<in> {2..<8} - unat ` set (b # bs)" for i
        using bits [of i] b(2) by (auto simp: bit_simps ucast_u8_bit simp del: push_bit_of_1)
      then show ?thesis using assms(1) in_free b(2) d by (auto simp: barriers_ok_def cl_data_def upd_cdata_def split: if_splits)
    qed
    ultimately show ?thesis using False by simp
  qed
qed

lemma barriers_free:
  assumes "barriers_ok d s bs" "b \<in> set bs" "pi_cl_team_barrier_free b s = Some s'"
  shows "barriers_ok d s' (remove1 b bs)"
proof -
  have d: "cl_data s = Some d" and dist: "distinct bs" and rng: "unat ` set bs \<subseteq> {2..<8}"
    and bits: "bit (hw_barrier_alloc (cdata_at s d)) i \<longleftrightarrow> i \<in> {2..<8} - unat ` set bs" for i
    using assms(1) by (auto simp: barriers_ok_def)
  have b: "2 \<le> unat b" "unat b < 8" using rng assms(2) by auto
  have s': "s' = upd_cdata d (\<lambda>x. x\<lparr>hw_barrier_alloc := ucast (ucast (hw_barrier_alloc x) OR (push_bit (unat b) (1 :: u32)))\<rparr>) s"
    using assms(3) d by (simp add: pi_cl_team_barrier_free_def)
  have set: "unat ` set (remove1 b bs) = unat ` set bs - {unat b}" using dist by (auto simp: word_unat_eq_iff)
  have "bit (hw_barrier_alloc (cdata_at s' d)) i \<longleftrightarrow> i \<in> {2..<8} - unat ` set (remove1 b bs)" for i
    unfolding set using bits [of i] b by (auto simp: s' bit_simps ucast_u8_bit simp del: push_bit_of_1)
  moreover have "cl_data s' = Some d" using d by (simp add: s' cl_data_def upd_cdata_def split: if_splits)
  ultimately show ?thesis using dist rng by (auto simp: barriers_ok_def dest: notin_set_remove1)
qed

lemma barriers_held_ok: "barriers_held d s bs \<Longrightarrow> barriers_ok d s bs"
proof (induction rule: barriers_held.induct)
  case (held_none s)
  then show ?case by (rule barriers_start)
next
  case (held_alloc s bs b s')
  from barriers_alloc [OF held_alloc.IH held_alloc.hyps(2)] show ?case using held_alloc.IH by (auto split: if_splits)
next
  case (held_free s bs b s')
  show ?case by (rule barriers_free [OF held_free.IH held_free.hyps(2,3)])
qed

lemma barriers_free_bits:
  assumes "barriers_ok d s bs"
  shows "length bs \<le> 6" "p_cnt (ucast (hw_barrier_alloc (cdata_at s d))) = of_nat (6 - length bs)"
    "unat ` set bs = {2..<8} \<longleftrightarrow> length bs = 6"
proof -
  have c: "card (unat ` set bs) = length bs" 
    using assms by (simp add: barriers_ok_def card_image [OF inj_on_subset [OF inj_unsigned]] distinct_card)
  have sub: "unat ` set bs \<subseteq> {2..<8}" using assms by (simp add: barriers_ok_def)
  show le: "length bs \<le> 6" using card_mono [OF _ sub] c by simp
  have "{i. bit (ucast (hw_barrier_alloc (cdata_at s d)) :: u32) i} = {2..<8} - unat ` set bs"
    using assms by (auto simp: barriers_ok_def ucast_u8_bit)
  then show "p_cnt (ucast (hw_barrier_alloc (cdata_at s d))) = of_nat (6 - length bs)"
    using c sub by (simp add: p_cnt_card card_Diff_subset)
  show "unat ` set bs = {2..<8} \<longleftrightarrow> length bs = 6" using c card_subset_eq [OF _ sub] by auto
qed

text \<open>C19: whatever barriers the program has allocated and freed, it holds distinct barriers among 2 to 7 - 0 and 1
  are those of every team - and pi_cl_team_barrier_available is the number of the others; an allocation returns the least of them, which it does
  not hold, or, only when it holds all six, -1 with nothing changed.\<close>
theorem team_barriers:
  assumes "barriers_held d s bs"
  shows "distinct bs \<and> unat ` set bs \<subseteq> {2..<8} \<and> pi_cl_team_barrier_available s = Some (of_nat (6 - length bs))
    \<and> (\<exists>b s'. pi_cl_team_barrier_alloc s = Some (b, s')
        \<and> (if length bs = 6 then b = -1 \<and> s' = s
           else unat b = (LEAST i. i \<in> {2..<8} - unat ` set bs) \<and> b \<notin> set bs \<and> 2 \<le> unat b \<and> unat b < 8 \<and> barriers_held d s' (b # bs)))"
proof -
  have ok: "barriers_ok d s bs" using assms by (rule barriers_held_ok)
  then have d: "cl_data s = Some d" by (simp add: barriers_ok_def)
  then have "\<exists>r. pi_cl_team_barrier_alloc s = Some r" by (simp add: pi_cl_team_barrier_alloc_def)
  then obtain b s' where al: "pi_cl_team_barrier_alloc s = Some (b, s')" by (metis surj_pair)
  note a = barriers_alloc [OF ok al]
  have "pi_cl_team_barrier_available s = Some (of_nat (6 - length bs))"
    using d barriers_free_bits(2) [OF ok] by (simp add: pi_cl_team_barrier_available_def)
  moreover have "if length bs = 6 then b = -1 \<and> s' = s
     else unat b = (LEAST i. i \<in> {2..<8} - unat ` set bs) \<and> b \<notin> set bs \<and> 2 \<le> unat b \<and> unat b < 8 \<and> barriers_held d s' (b # bs)"
    using a barriers_free_bits(3) [OF ok] held_alloc [OF assms al] by (auto split: if_splits)
  ultimately show ?thesis using ok al unfolding barriers_ok_def by blast
qed

definition demo_team :: cluster where
  "demo_team = upd_cdata 0x1C000100 (\<lambda>x. x\<lparr>hw_barrier_alloc := 0xFC\<rparr>) demo_cluster"

lemma team_barriers_witness:
  "\<exists>b s s'. barriers_held 0x1C000100 s [2] \<and> pi_cl_team_barrier_available s = Some 5 \<and> pi_cl_team_barrier_alloc s = Some (b, s') \<and> b \<noteq> 2"
proof -
  have cd: "cl_data demo_team = Some 0x1C000100" "hw_barrier_alloc (cdata_at demo_team 0x1C000100) = ucast CL_ALLOC_INIT_BARRIER"
    by (simp_all add: demo_team_def demo_cluster_def cl_data_def CL_ALLOC_INIT_BARRIER_def CL_EU_HW_BARRIER_RESERVED_MASK_def
        CL_NB_HW_BARRIER_def CL_EU_HW_BARRIER_RESERVED_def upd_cdata_def)
  have h0: "barriers_held 0x1C000100 demo_team []" by (rule held_none [OF cd])
  have "\<exists>r. pi_cl_team_barrier_alloc demo_team = Some r" using cd(1) by (simp add: pi_cl_team_barrier_alloc_def)
  then obtain b s where b: "pi_cl_team_barrier_alloc demo_team = Some (b, s)" by (metis surj_pair)
  have "unat b = (LEAST i. i \<in> {2..<8})" using barriers_alloc [OF barriers_start [OF cd] b] by simp
  also have "\<dots> = 2" by (rule Least_equality) auto
  finally have al: "pi_cl_team_barrier_alloc demo_team = Some (2, s)" using b by (simp add: word_unat_eq_iff)
  have h: "barriers_held 0x1C000100 s [2]" using held_alloc [OF h0 al] by simp
  show ?thesis using team_barriers [OF h] h by (force simp: Let_def)
qed

lemma team_fork_witness:
  "\<exists>u. pi_cl_team_fork (\<lambda>s. s) (\<lambda>_ _ s. s) 4 0x1000 0x2000 demo_cluster = pi_cl_team_barrier_sync_wait_clear (\<lambda>s. s) u
     \<and> dispatched u = {1, 2, 3} \<and> barrier_team ARCHI_CLUSTER_SYNC_BARR_ID u = {0, 1, 2, 3}"
proof -
  have "{1..<4} = {1, 2, 3 :: nat}" "{0..<4} = {0, 1, 2, 3 :: nat}" by auto
  then show ?thesis
    using team_fork [of 4 "\<lambda>s. s" "\<lambda>_ _ s. s" "0x1000" "0x2000" demo_cluster] by (auto simp: ARCHI_CLUSTER_NB_PE_def)
qed

end
