(* ===== verification/ClusterFork.thy ===== *)
theory ClusterFork
  imports ClusterTeams ClusterLoop
begin

text \<open>
  Forks and joins of a team under every interleaving of its cores. The master core runs pi_cl_team_fork
  (cl_team_internal.h), each slave core the loop of target/pulp/cluster.S; a step is one access to the event unit or one run of the
  entry. The event unit behaves as its interface documents (cluster_event_unit.h, cl_team.h): a message pushed reaches every core of the
  dispatch mask, in order; a core that triggers the barrier sleeps until all cores of the mask have triggered it.
\<close>

datatype fork_pc = Configuring | Pushing_entry | Pushing_arg | Calling | Triggering | Joining

datatype slave_pc = Popping | Popping_arg u32 | Executing u32 u32 | Arriving | Held

record fork_state =
  hw :: machine
  forks_done :: nat
  master_at :: fork_pc
  slave_at :: "nat \<Rightarrow> slave_pc"
  messages :: "nat \<Rightarrow> u32 list"
  arrived :: "nat set"
  barrier_event :: "nat \<Rightarrow> bool"
  executed :: "nat \<Rightarrow> (u32 \<times> u32) list"

definition deliver :: "u32 \<Rightarrow> fork_state \<Rightarrow> fork_state" where
  "deliver w m = m\<lparr>hw := hal_cl_eu_dispatch_fifo_push w (hw m),
     messages := (\<lambda>i. if i \<in> dispatched (hw m) then messages m i @ [w] else messages m i)\<rparr>"

definition arrive :: "nat \<Rightarrow> fork_state \<Rightarrow> fork_state" where
  "arrive i m =
     (let team = barrier_team ARCHI_CLUSTER_SYNC_BARR_ID (hw m); a = insert i (arrived m) in
      if team \<subseteq> a then m\<lparr>arrived := {}, barrier_event := (\<lambda>j. barrier_event m j \<or> j \<in> team)\<rparr> else m\<lparr>arrived := a\<rparr>)"

definition execute :: "nat \<Rightarrow> u32 \<Rightarrow> u32 \<Rightarrow> fork_state \<Rightarrow> fork_state" where
  "execute i f a m = m\<lparr>executed := (executed m)(i := executed m i @ [(f, a)])\<rparr>"

text \<open>The master has a list of forks to make, each a number of cores, an entry and its argument.\<close>

definition master_step :: "(u32 \<times> u32 \<times> u32) list \<Rightarrow> fork_state \<Rightarrow> fork_state option" where
  "master_step prog m =
     (if forks_done m \<ge> length prog then None
      else let (n, e, a) = prog ! forks_done m;
               team_core_mask = (if n \<noteq> 0 then push_bit (unat n) 1 - 1 else hal_cl_eu_barrier_team_get ARCHI_CLUSTER_SYNC_BARR_ID (hw m)) in
      case master_at m of
        Configuring \<Rightarrow> Some (m\<lparr>hw := (if n \<noteq> 0 then pi_cl_team_config_set team_core_mask (hw m) else hw m), master_at := Pushing_entry\<rparr>)
      | Pushing_entry \<Rightarrow> Some ((deliver e m)\<lparr>master_at := Pushing_arg\<rparr>)
      | Pushing_arg \<Rightarrow> Some ((deliver a m)\<lparr>master_at := Calling\<rparr>)
      | Calling \<Rightarrow> Some ((if team_core_mask AND 1 \<noteq> 0 then execute 0 e a m else m)\<lparr>master_at := Triggering\<rparr>)
      | Triggering \<Rightarrow> Some ((arrive 0 m)\<lparr>master_at := Joining\<rparr>)
      | Joining \<Rightarrow> if barrier_event m 0
          then Some (m\<lparr>barrier_event := (barrier_event m)(0 := False), master_at := Configuring, forks_done := Suc (forks_done m)\<rparr>)
          else None)"

definition slave_go :: "nat \<Rightarrow> slave_pc \<Rightarrow> fork_state \<Rightarrow> fork_state" where
  "slave_go i pc m = m\<lparr>slave_at := (slave_at m)(i := pc)\<rparr>"

definition slave_step :: "nat \<Rightarrow> fork_state \<Rightarrow> fork_state option" where
  "slave_step i m =
     (case slave_at m i of
        Popping \<Rightarrow> (case messages m i of [] \<Rightarrow> None | f # q \<Rightarrow> Some (slave_go i (Popping_arg f) (m\<lparr>messages := (messages m)(i := q)\<rparr>)))
      | Popping_arg f \<Rightarrow> (case messages m i of [] \<Rightarrow> None | a # q \<Rightarrow> Some (slave_go i (Executing f a) (m\<lparr>messages := (messages m)(i := q)\<rparr>)))
      | Executing f a \<Rightarrow> Some (slave_go i (if f AND 1 \<noteq> 0 then Popping else Arriving) (execute i (f AND NOT 1) a m))
      | Arriving \<Rightarrow> Some (slave_go i Held (arrive i m))
      | Held \<Rightarrow> if barrier_event m i then Some (slave_go i Popping (m\<lparr>barrier_event := (barrier_event m)(i := False)\<rparr>)) else None)"

inductive fork_step :: "(u32 \<times> u32 \<times> u32) list \<Rightarrow> fork_state \<Rightarrow> fork_state \<Rightarrow> bool" for prog where
  master: "master_step prog m = Some m' \<Longrightarrow> fork_step prog m m'"
| slave: "0 < i \<Longrightarrow> i < ARCHI_CLUSTER_NB_PE \<Longrightarrow> slave_step i m = Some m' \<Longrightarrow> fork_step prog m m'"

definition fork_start :: "machine \<Rightarrow> fork_state" where
  "fork_start s = \<lparr>hw = s, forks_done = 0, master_at = Configuring, slave_at = (\<lambda>_. Popping), messages = (\<lambda>_. []), arrived = {},
     barrier_event = (\<lambda>_. False), executed = (\<lambda>_. [])\<rparr>"

text \<open>The number of cores of each fork, where 0 stands for that of the fork before; what a core has to execute for the first k forks; the
  programs considered: 1 to 8 cores, entries at even addresses.\<close>

fun teams :: "u32 \<Rightarrow> (u32 \<times> u32 \<times> u32) list \<Rightarrow> (u32 \<times> u32 \<times> u32) list" where
  "teams t [] = []"
| "teams t ((n, e, a) # prog) = (let t = (if n = 0 then t else n) in (t, e, a) # teams t prog)"

definition runs :: "(u32 \<times> u32 \<times> u32) list \<Rightarrow> nat \<Rightarrow> nat \<Rightarrow> (u32 \<times> u32) list" where
  "runs prog k i = map snd (filter (\<lambda>(n, e, a). i < unat n) (take k prog))"

definition forks_ok :: "(u32 \<times> u32 \<times> u32) list \<Rightarrow> bool" where
  "forks_ok prog \<longleftrightarrow> (\<forall>(n, e, a) \<in> set prog. 0 < unat n \<and> unat n \<le> ARCHI_CLUSTER_NB_PE \<and> e AND 1 = 0)"

lemma length_teams [simp]: "length (teams t prog) = length prog"
  by (induction t prog rule: teams.induct) (simp_all add: Let_def)

lemma teams_nth:
  "k < length prog \<Longrightarrow> teams t prog ! k = (n, e, a) \<Longrightarrow>
   \<exists>w. prog ! k = (w, e, a) \<and> (w = n \<or> w = 0 \<and> n = (if k = 0 then t else fst (teams t prog ! (k - 1))))"
proof (induction t prog arbitrary: k rule: teams.induct)
  case (2 t w e' a' prog)
  show ?case
  proof (cases k)
    case 0
    then show ?thesis using 2(2,3) by (auto simp: Let_def split: if_splits)
  next
    case (Suc j)
    then have "j < length prog" "teams (if w = 0 then t else w) prog ! j = (n, e, a)" using 2(2,3) by (simp_all add: Let_def)
    from 2(1) [OF refl this] show ?thesis using Suc by (cases j) (auto simp: Let_def)
  qed
qed simp

subsection \<open>The registers\<close>

lemma fork_mask:
  fixes n m :: u32
  assumes "0 < unat n" "unat n \<le> 8" "m = push_bit (unat n) 1 - 1"
  shows "bit m i \<longleftrightarrow> i < unat n" "m OR 1 = m" "m AND 1 \<noteq> 0"
proof -
  show b: "bit m i \<longleftrightarrow> i < unat n" for i unfolding assms(3) using team_bits [of "unat n" i] assms(2) by simp
  show "m OR 1 = m" using b assms(1) by (intro bit_word_eqI) (auto simp: bit_or_iff bit_1_iff)
  have "bit (m AND 1) 0" using b [of 0] assms(1) by (simp add: bit_and_iff bit_1_iff)
  then show "m AND 1 \<noteq> 0" by (metis bit_0_eq bot_apply bot_bool_def)
qed

lemma config_teams:
  fixes n m :: u32
  assumes "0 < unat n" "unat n \<le> 8" "m = push_bit (unat n) 1 - 1"
  shows "dispatched (pi_cl_team_config_set m s) = {1..<unat n}"
    and "barrier_team ARCHI_CLUSTER_SYNC_BARR_ID (pi_cl_team_config_set m s) = {0..<unat n}"
proof -
  note M = fork_mask [OF assms]
  have regs: "readw (cl_demux_eu_dispatch + CL_DEMUX_EU_DISPATCH_TEAM_CONFIG) (pi_cl_team_config_set m s) = m XOR 1"
    "hal_cl_eu_barrier_team_get ARCHI_CLUSTER_SYNC_BARR_ID (pi_cl_team_config_set m s) = m"
    by (simp_all add: pi_cl_team_config_set_def pi_cl_team_barrier_sync_set_def hal_cl_eu_barrier_setup_def
        hal_cl_eu_dispatch_team_config_def hal_cl_eu_barrier_team_get_def ARCHI_CLUSTER_MASTER_CORE_def M(2) Let_def team_addr)
  show "dispatched (pi_cl_team_config_set m s) = {1..<unat n}"
    unfolding dispatched_def regs bit_xor_iff bit_1_iff M(1) using assms(1) by auto
  show "barrier_team ARCHI_CLUSTER_SYNC_BARR_ID (pi_cl_team_config_set m s) = {0..<unat n}"
    unfolding barrier_team_def regs M(1) by auto
qed

lemma push_teams [simp]:
  "dispatched (hal_cl_eu_dispatch_fifo_push w s) = dispatched s"
  "barrier_team ARCHI_CLUSTER_SYNC_BARR_ID (hal_cl_eu_dispatch_fifo_push w s) = barrier_team ARCHI_CLUSTER_SYNC_BARR_ID s"
  by (simp_all add: dispatched_def barrier_team_def hal_cl_eu_dispatch_fifo_push_def hal_cl_eu_barrier_team_get_def team_addr)

subsection \<open>The invariant\<close>

text \<open>A core outside the current fork, or that has been released from it: it waits for a message or is about to leave the barrier.\<close>

fun quiet_core :: "slave_pc \<Rightarrow> u32 list \<Rightarrow> bool \<Rightarrow> bool \<Rightarrow> bool" where
  "quiet_core Popping q ev arr \<longleftrightarrow> q = [] \<and> \<not> ev \<and> \<not> arr"
| "quiet_core Held q ev arr \<longleftrightarrow> q = [] \<and> ev \<and> \<not> arr"
| "quiet_core _ q ev arr \<longleftrightarrow> False"

text \<open>A core of the current fork of entry e and argument a, of which p words have been pushed; old is what it had executed before.\<close>

fun member_core :: "nat \<Rightarrow> u32 \<Rightarrow> u32 \<Rightarrow> (u32 \<times> u32) list \<Rightarrow> slave_pc \<Rightarrow> u32 list \<Rightarrow> bool \<Rightarrow> bool \<Rightarrow> (u32 \<times> u32) list \<Rightarrow> bool" where
  "member_core p e a old Popping q ev arr r \<longleftrightarrow> q = take p [e, a] \<and> \<not> ev \<and> \<not> arr \<and> r = old"
| "member_core p e a old (Popping_arg f) q ev arr r \<longleftrightarrow> f = e \<and> 0 < p \<and> q = drop 1 (take p [e, a]) \<and> \<not> ev \<and> \<not> arr \<and> r = old"
| "member_core p e a old (Executing f x) q ev arr r \<longleftrightarrow> f = e \<and> x = a \<and> p = 2 \<and> q = [] \<and> \<not> ev \<and> \<not> arr \<and> r = old"
| "member_core p e a old Arriving q ev arr r \<longleftrightarrow> p = 2 \<and> q = [] \<and> \<not> ev \<and> \<not> arr \<and> r = old @ [(e, a)]"
| "member_core p e a old Held q ev arr r \<longleftrightarrow>
     (if ev then q = take p [e, a] \<and> \<not> arr \<and> r = old else p = 2 \<and> q = [] \<and> arr \<and> r = old @ [(e, a)])"

definition pushed :: "fork_pc \<Rightarrow> nat" where
  "pushed pc = (case pc of Configuring \<Rightarrow> 0 | Pushing_entry \<Rightarrow> 0 | Pushing_arg \<Rightarrow> 1 | _ \<Rightarrow> 2)"

lemma pushed_simps [simp]:
  "pushed Configuring = 0" "pushed Pushing_entry = 0" "pushed Pushing_arg = 1" "pushed Calling = 2" "pushed Triggering = 2" "pushed Joining = 2"
  by (simp_all add: pushed_def)

text \<open>Core i during the fork number k, before or after it is released (rel).\<close>

definition core_at ::
  "(u32 \<times> u32 \<times> u32) list \<Rightarrow> nat \<Rightarrow> bool \<Rightarrow> nat \<Rightarrow> nat \<Rightarrow> slave_pc \<Rightarrow> u32 list \<Rightarrow> bool \<Rightarrow> bool \<Rightarrow> (u32 \<times> u32) list \<Rightarrow> bool" where
  "core_at prog k rel p i pc q ev arr r \<longleftrightarrow>
     (let (n, e, a) = prog ! k in
      if k < length prog \<and> i < unat n \<and> \<not> rel then member_core p e a (runs prog k i) pc q ev arr r
      else quiet_core pc q ev arr \<and> r = runs prog (if k < length prog then Suc k else k) i)"

definition core_ok :: "(u32 \<times> u32 \<times> u32) list \<Rightarrow> fork_state \<Rightarrow> nat \<Rightarrow> bool" where
  "core_ok prog m i \<longleftrightarrow> core_at prog (forks_done m) (barrier_event m 0) (pushed (master_at m)) i
     (slave_at m i) (messages m i) (barrier_event m i) (i \<in> arrived m) (executed m i)"

definition team_size :: "(u32 \<times> u32 \<times> u32) list \<Rightarrow> nat \<Rightarrow> nat" where
  "team_size prog k = (if k < length prog then unat (fst (prog ! k)) else 0)"

definition fork_inv :: "(u32 \<times> u32 \<times> u32) list \<Rightarrow> fork_state \<Rightarrow> bool" where
  "fork_inv prog m \<longleftrightarrow>
     (let k = forks_done m; team = {0..<team_size prog k}; pc = master_at m in
      k \<le> length prog \<and> (k = length prog \<longrightarrow> pc = Configuring) \<and> (barrier_event m 0 \<longrightarrow> pc = Joining)
      \<and> (0 \<in> arrived m \<longleftrightarrow> pc = Joining \<and> \<not> barrier_event m 0) \<and> arrived m \<subseteq> team \<and> (k < length prog \<longrightarrow> \<not> team \<subseteq> arrived m)
      \<and> (pc \<noteq> Configuring \<longrightarrow> dispatched (hw m) = {1..<team_size prog k} \<and> barrier_team ARCHI_CLUSTER_SYNC_BARR_ID (hw m) = team)
      \<and> (pc = Configuring \<and> 0 < k \<longrightarrow> dispatched (hw m) = {1..<team_size prog (k - 1)}
           \<and> barrier_team ARCHI_CLUSTER_SYNC_BARR_ID (hw m) = {0..<team_size prog (k - 1)})
      \<and> executed m 0 = runs prog (if pc = Triggering \<or> pc = Joining then Suc k else k) 0
      \<and> (\<forall>i \<in> {1..<8}. core_ok prog m i))"

lemma runs_Suc:
  "k < length prog \<Longrightarrow> prog ! k = (n, e, a) \<Longrightarrow> runs prog (Suc k) i = (if i < unat n then runs prog k i @ [(e, a)] else runs prog k i)"
  by (simp add: runs_def take_Suc_conv_app_nth)

lemma core_next:
  assumes "core_at prog k True p i pc q ev arr r" "k < length prog"
  shows "core_at prog (Suc k) False 0 i pc q ev arr r"
proof -
  obtain n e a where x: "prog ! Suc k = (n, e, a)" by (cases "prog ! Suc k")
  have "quiet_core pc q ev arr" "r = runs prog (Suc k) i" using assms by (auto simp: core_at_def case_prod_beta)
  then show ?thesis using x runs_Suc [of "Suc k" prog n e a i] by (cases pc) (auto simp: core_at_def)
qed

lemma core_push_entry:
  assumes "core_at prog k False 0 i pc q ev arr r" "k < length prog" "prog ! k = (n, e, a)"
  shows "core_at prog k False 1 i pc (if i < unat n then q @ [e] else q) ev arr r"
  using assms by (cases pc) (auto simp: core_at_def split: if_splits)

lemma core_push_arg:
  assumes "core_at prog k False 1 i pc q ev arr r" "k < length prog" "prog ! k = (n, e, a)"
  shows "core_at prog k False 2 i pc (if i < unat n then q @ [a] else q) ev arr r"
  using assms by (cases pc) (auto simp: core_at_def split: if_splits)

lemma core_release:
  assumes "core_at prog k False 2 i pc q ev arr r" "k < length prog" "prog ! k = (n, e, a)" "i < unat n \<longrightarrow> arr"
  shows "core_at prog k True 2 i pc q (ev \<or> i < unat n) False r"
  using assms runs_Suc [OF assms(2,3), of i] by (cases pc) (auto simp: core_at_def split: if_splits)

lemma core_not_arrived:
  assumes "core_at prog k rel p i pc q ev arr r" "p < 2 \<or> rel \<or> i \<ge> team_size prog k"
  shows "\<not> arr"
  using assms by (cases pc) (auto simp: core_at_def team_size_def case_prod_beta split: if_splits)

subsection \<open>The steps keep it\<close>

lemma fork_invD:
  assumes "fork_inv prog m" "k = forks_done m"
  shows "k \<le> length prog" "k = length prog \<Longrightarrow> master_at m = Configuring" "barrier_event m 0 \<Longrightarrow> master_at m = Joining"
    "0 \<in> arrived m \<longleftrightarrow> master_at m = Joining \<and> \<not> barrier_event m 0" "arrived m \<subseteq> {0..<team_size prog k}"
    "k < length prog \<Longrightarrow> \<not> {0..<team_size prog k} \<subseteq> arrived m"
    "master_at m \<noteq> Configuring \<Longrightarrow> dispatched (hw m) = {1..<team_size prog k}"
    "master_at m \<noteq> Configuring \<Longrightarrow> barrier_team ARCHI_CLUSTER_SYNC_BARR_ID (hw m) = {0..<team_size prog k}"
    "executed m 0 = runs prog (if master_at m = Triggering \<or> master_at m = Joining then Suc k else k) 0"
    "0 < i \<Longrightarrow> i < 8 \<Longrightarrow> core_at prog k (barrier_event m 0) (pushed (master_at m)) i (slave_at m i) (messages m i) (barrier_event m i) (i \<in> arrived m) (executed m i)"
    "master_at m = Configuring \<Longrightarrow> 0 < k \<Longrightarrow> dispatched (hw m) = {1..<team_size prog (k - 1)}"
    "master_at m = Configuring \<Longrightarrow> 0 < k \<Longrightarrow> barrier_team ARCHI_CLUSTER_SYNC_BARR_ID (hw m) = {0..<team_size prog (k - 1)}"
  using assms by (auto simp: fork_inv_def core_ok_def Let_def)

lemma team_bound:
  assumes "forks_ok prog" "k < length prog"
  shows "0 < team_size prog k \<and> team_size prog k \<le> 8"
proof -
  have "prog ! k \<in> set prog" using assms(2) by simp
  with assms show ?thesis by (cases "prog ! k") (auto simp: forks_ok_def team_size_def ARCHI_CLUSTER_NB_PE_def)
qed

lemma none_arrived:
  assumes "fork_inv prog m" "forks_ok prog" "pushed (master_at m) < 2 \<or> barrier_event m 0"
  shows "arrived m = {}"
proof -
  note I = fork_invD [OF assms(1) refl]
  have "i \<notin> arrived m" for i
  proof (cases "0 < i \<and> i < 8")
    case True
    then show ?thesis using core_not_arrived [OF I(10)] assms(3) by blast
  next
    case False
    have "0 \<notin> arrived m" using I(4) assms(3) by auto
    moreover have "team_size prog (forks_done m) \<le> 8" using team_bound [OF assms(2)] by (cases "forks_done m < length prog") (auto simp: team_size_def)
    ultimately show ?thesis using I(5) False by (cases "i = 0") auto
  qed
  then show ?thesis by blast
qed

text \<open>The master's step with the team it has, configured anew or the one of the fork before.\<close>

lemma master_step_team:
  assumes inv: "fork_inv (teams 0 prog) m" and ok: "forks_ok (teams 0 prog)" and k: "forks_done m < length prog"
    and x: "teams 0 prog ! forks_done m = (n, e, a)"
  shows "\<exists>h. dispatched h = {1..<unat n} \<and> barrier_team ARCHI_CLUSTER_SYNC_BARR_ID h = {0..<unat n} \<and> master_step prog m =
     (case master_at m of
        Configuring \<Rightarrow> Some (m\<lparr>hw := h, master_at := Pushing_entry\<rparr>)
      | Pushing_entry \<Rightarrow> Some ((deliver e m)\<lparr>master_at := Pushing_arg\<rparr>)
      | Pushing_arg \<Rightarrow> Some ((deliver a m)\<lparr>master_at := Calling\<rparr>)
      | Calling \<Rightarrow> Some ((execute 0 e a m)\<lparr>master_at := Triggering\<rparr>)
      | Triggering \<Rightarrow> Some ((arrive 0 m)\<lparr>master_at := Joining\<rparr>)
      | Joining \<Rightarrow> if barrier_event m 0
          then Some (m\<lparr>barrier_event := (barrier_event m)(0 := False), master_at := Configuring, forks_done := Suc (forks_done m)\<rparr>)
          else None)"
proof -
  let ?k = "forks_done m" let ?P = "teams 0 prog"
  note I = fork_invD [OF inv refl]
  obtain w where w: "prog ! ?k = (w, e, a)" "w = n \<or> w = 0 \<and> n = (if ?k = 0 then 0 else fst (?P ! (?k - 1)))"
    using teams_nth [OF k x] by blast
  have sz: "team_size ?P ?k = unat n" "0 < unat n" "unat n \<le> 8" using team_bound [OF ok, of ?k] k x by (auto simp: team_size_def)
  show ?thesis
  proof (cases "w = 0")
    case False
    then have "w \<noteq> 0" "w = n" using w(2) by auto
    then show ?thesis
      using w(1) k config_teams [OF sz(2,3) refl, of "hw m"] fork_mask(3) [OF sz(2,3) refl]
      by (intro exI [of _ "pi_cl_team_config_set (push_bit (unat n) 1 - 1) (hw m)"]) (simp add: master_step_def Let_def split: fork_pc.split)
  next
    case True
    have p: "0 < ?k" "team_size ?P (?k - 1) = unat n" using w(2) True sz(2) k by (auto simp: team_size_def split: if_splits)
    have reg: "dispatched (hw m) = {1..<unat n}" "barrier_team ARCHI_CLUSTER_SYNC_BARR_ID (hw m) = {0..<unat n}"
      using I(7,8,11,12) p sz(1) by (cases "master_at m = Configuring"; simp)+
    have "0 \<in> barrier_team ARCHI_CLUSTER_SYNC_BARR_ID (hw m)" using reg(2) sz(2) by simp
    then have "bit (hal_cl_eu_barrier_team_get ARCHI_CLUSTER_SYNC_BARR_ID (hw m) AND 1) 0"
      by (simp add: barrier_team_def bit_and_iff bit_1_iff)
    then have "hal_cl_eu_barrier_team_get ARCHI_CLUSTER_SYNC_BARR_ID (hw m) AND 1 \<noteq> 0" by (metis bit_0_eq bot_apply bot_bool_def)
    then show ?thesis using w(1) True k reg by (intro exI [of _ "hw m"]) (simp add: master_step_def Let_def split: fork_pc.split)
  qed
qed

lemma master_keeps:
  assumes inv: "fork_inv (teams 0 prog) m" and ok: "forks_ok (teams 0 prog)" and step: "master_step prog m = Some m'"
  shows "fork_inv (teams 0 prog) m'"
proof -
  let ?k = "forks_done m" let ?P = "teams 0 prog"
  note I = fork_invD [OF inv refl]
  have k: "?k < length ?P" using step by (auto simp: master_step_def split: if_splits)
  obtain n e a where x: "?P ! ?k = (n, e, a)" by (cases "?P ! ?k")
  have sz: "team_size ?P ?k = unat n" "0 < unat n" "unat n \<le> 8" using team_bound [OF ok k] k x by (auto simp: team_size_def)
  obtain h where h: "dispatched h = {1..<unat n}" "barrier_team ARCHI_CLUSTER_SYNC_BARR_ID h = {0..<unat n}"
    and st: "master_step prog m = (case master_at m of
        Configuring \<Rightarrow> Some (m\<lparr>hw := h, master_at := Pushing_entry\<rparr>)
      | Pushing_entry \<Rightarrow> Some ((deliver e m)\<lparr>master_at := Pushing_arg\<rparr>)
      | Pushing_arg \<Rightarrow> Some ((deliver a m)\<lparr>master_at := Calling\<rparr>)
      | Calling \<Rightarrow> Some ((execute 0 e a m)\<lparr>master_at := Triggering\<rparr>)
      | Triggering \<Rightarrow> Some ((arrive 0 m)\<lparr>master_at := Joining\<rparr>)
      | Joining \<Rightarrow> if barrier_event m 0
          then Some (m\<lparr>barrier_event := (barrier_event m)(0 := False), master_at := Configuring, forks_done := Suc ?k\<rparr>)
          else None)"
    using master_step_team [OF inv ok _ x] k by auto
  note C = I(10)
  show ?thesis
  proof (cases "master_at m")
    case Configuring
    then have m': "m' = m\<lparr>hw := h, master_at := Pushing_entry\<rparr>"
      using step st by simp
    show ?thesis using I k x sz h Configuring
      unfolding m' fork_inv_def core_ok_def Let_def by auto
  next
    case Pushing_entry
    then have m': "m' = (deliver e m)\<lparr>master_at := Pushing_arg\<rparr>" using step st by simp
    have ev: "\<not> barrier_event m 0" using I(3) Pushing_entry by auto
    have "core_at ?P ?k False 1 i (slave_at m i) (messages m' i) (barrier_event m i) (i \<in> arrived m) (executed m i)" if "0 < i" "i < 8" for i
      using core_push_entry [OF C [OF that, unfolded Pushing_entry pushed_simps iffD2 [OF eq_False ev]] k x] I(7) that ev sz(1) Pushing_entry by (simp add: m' deliver_def)
    then show ?thesis using I k sz ev Pushing_entry unfolding fork_inv_def core_ok_def Let_def by (auto simp: m' deliver_def)
  next
    case Pushing_arg
    then have m': "m' = (deliver a m)\<lparr>master_at := Calling\<rparr>" using step st by simp
    have ev: "\<not> barrier_event m 0" using I(3) Pushing_arg by auto
    have "core_at ?P ?k False 2 i (slave_at m i) (messages m' i) (barrier_event m i) (i \<in> arrived m) (executed m i)" if "0 < i" "i < 8" for i
      using core_push_arg [OF C [OF that, unfolded Pushing_arg pushed_simps iffD2 [OF eq_False ev]] k x] I(7) that ev sz(1) Pushing_arg by (simp add: m' deliver_def)
    then show ?thesis using I k sz ev Pushing_arg unfolding fork_inv_def core_ok_def Let_def by (auto simp: m' deliver_def)
  next
    case Calling
    have "m' = (execute 0 e a m)\<lparr>master_at := Triggering\<rparr>"
      using step st Calling by simp
    moreover have "runs ?P (Suc ?k) 0 = runs ?P ?k 0 @ [(e, a)]" using runs_Suc [OF k x] sz by simp
    ultimately show ?thesis using I k sz Calling unfolding fork_inv_def core_ok_def Let_def by (auto simp: execute_def)
  next
    case Triggering
    then have m': "m' = (arrive 0 m)\<lparr>master_at := Joining\<rparr>" using step st by simp
    have ev: "\<not> barrier_event m 0" using I(3) Triggering by auto
    note bt = I(8) [simplified Triggering fork_pc.distinct not_False_eq_True simp_thms]
    show ?thesis
    proof (cases "{0..<team_size ?P ?k} \<subseteq> insert 0 (arrived m)")
      case True
      then have m'': "m' = m\<lparr>arrived := {}, barrier_event := (\<lambda>j. barrier_event m j \<or> j < unat n), master_at := Joining\<rparr>"
        using bt sz(1) by (simp add: m' arrive_def Let_def)
      have "core_at ?P ?k True 2 i (slave_at m i) (messages m i) (barrier_event m i \<or> i < unat n) False (executed m i)" if "0 < i" "i < 8" for i
      proof -
        have "i < unat n \<longrightarrow> i \<in> arrived m" using subsetD [OF True, of i] sz(1) that by auto
        from core_release [OF C [OF that, unfolded Triggering pushed_simps iffD2 [OF eq_False ev]] k x this] show ?thesis .
      qed
      then show ?thesis using I k sz Triggering unfolding fork_inv_def core_ok_def Let_def by (auto simp: m'')
    next
      case False
      then have m'': "m' = m\<lparr>arrived := insert 0 (arrived m), master_at := Joining\<rparr>" using bt by (simp add: m' arrive_def Let_def)
      show ?thesis using I k sz ev Triggering False unfolding fork_inv_def core_ok_def Let_def by (auto simp: m'')
    qed
  next
    case Joining
    then have m': "m' = m\<lparr>barrier_event := (barrier_event m)(0 := False), master_at := Configuring, forks_done := Suc ?k\<rparr>" and ev: "barrier_event m 0"
      using step st by (auto split: if_splits)
    have none: "arrived m = {}" using none_arrived [OF inv ok] ev by simp
    have "core_at ?P (Suc ?k) False 0 i (slave_at m i) (messages m i) (barrier_event m i) False (executed m i)" if "0 < i" "i < 8" for i
      using core_next [OF C [OF that, unfolded eqTrueI [OF ev]] k] none by simp
    moreover have "Suc ?k < length ?P \<Longrightarrow> 0 < team_size ?P (Suc ?k)" using team_bound [OF ok] by blast
    ultimately show ?thesis using I k none Joining unfolding fork_inv_def core_ok_def Let_def by (auto simp: m')
  qed
qed

lemma core_pop: "core_at prog k rel p i Popping (f # q) ev arr r \<Longrightarrow> p \<le> 2 \<Longrightarrow> core_at prog k rel p i (Popping_arg f) q ev arr r"
  by (cases "p = 0"; cases "p = 1") (auto simp: core_at_def split: if_splits prod.splits)

lemma core_pop_arg: "core_at prog k rel p i (Popping_arg f) (a # q) ev arr r \<Longrightarrow> p \<le> 2 \<Longrightarrow> core_at prog k rel p i (Executing f a) q ev arr r"
  by (cases "p = 0"; cases "p = 1") (auto simp: core_at_def le_Suc_eq numeral_2_eq_2 split: if_splits prod.splits)

lemma core_execute:
  assumes "core_at prog k rel p i (Executing f a) q ev arr r" "forks_ok prog"
  shows "f AND 1 = 0" "core_at prog k rel p i Arriving q ev arr (r @ [(f AND NOT 1, a)])"
proof -
  obtain n e b where x: "prog ! k = (n, e, b)" by (cases "prog ! k")
  have k: "k < length prog" and f: "f = e" using assms(1) x by (auto simp: core_at_def split: if_splits)
  have "(n, e, b) \<in> set prog" using nth_mem [OF k] x by simp
  then show e: "f AND 1 = 0" using assms(2) f by (auto simp: forks_ok_def)
  have "\<not> bit (f AND 1) 0" using e by simp
  then have "f AND NOT 1 = f" by (intro bit_word_eqI) (auto simp: bit_and_iff bit_not_iff bit_1_iff intro!: gr0I)
  then show "core_at prog k rel p i Arriving q ev arr (r @ [(f AND NOT 1, a)])" using assms(1) by (auto simp: core_at_def split: if_splits prod.splits)
qed

lemma core_leave: "core_at prog k rel p i Held q True arr r \<Longrightarrow> core_at prog k rel p i Popping q False arr r"
  by (auto simp: core_at_def split: if_splits prod.splits)

lemma core_arriving:
  assumes "core_at prog k rel p i Arriving q ev arr r"
  shows "k < length prog" "i < team_size prog k" "\<not> rel" "p = 2" "\<not> ev" "\<not> arr"
    and "core_at prog k False p i Held q False True r" "core_at prog k True p i Held q True False r"
  using assms runs_Suc [of k prog] by (auto simp: core_at_def team_size_def split: if_splits prod.splits)

text \<open>A step that changes core c alone.\<close>

lemma slave_local:
  assumes "fork_inv prog m" "0 < c" "c < 8"
    "core_at prog (forks_done m) (barrier_event m 0) (pushed (master_at m)) c pc q ev (c \<in> arrived m) r"
    "slave_at m' = (slave_at m)(c := pc)" "messages m' = (messages m)(c := q)" "barrier_event m' = (barrier_event m)(c := ev)"
    "executed m' = (executed m)(c := r)" "hw m' = hw m" "forks_done m' = forks_done m" "master_at m' = master_at m" "arrived m' = arrived m"
  shows "fork_inv prog m'"
  using assms by (simp add: fork_inv_def core_ok_def Let_def)

lemma slave_arrives:
  assumes inv: "fork_inv prog m" and ok: "forks_ok prog" and c: "0 < c" "c < 8" and pc: "slave_at m c = Arriving"
  shows "fork_inv prog (slave_go c Held (arrive c m))"
proof -
  let ?k = "forks_done m" let ?T = "{0..<team_size prog ?k}"
  note I = fork_invD [OF inv refl]
  note A = core_arriving [OF I(10) [OF c, unfolded pc]]
  obtain n e a where x: "prog ! ?k = (n, e, a)" by (cases "prog ! ?k")
  have sz: "team_size prog ?k = unat n" using A(1) x by (simp add: team_size_def)
  have conf: "master_at m \<noteq> Configuring" using A(4) by auto
  show ?thesis
  proof (cases "?T \<subseteq> insert c (arrived m)")
    case True
    then have m': "slave_go c Held (arrive c m) = m\<lparr>arrived := {}, barrier_event := (\<lambda>j. barrier_event m j \<or> j < unat n), slave_at := (slave_at m)(c := Held)\<rparr>"
      using I(8) [OF conf] sz by (simp add: arrive_def slave_go_def Let_def)
    have "0 \<in> ?T" using A(2) by simp
    then have j: "master_at m = Joining" using True c(1) I(4) by blast
    have "core_at prog ?k True 2 i (slave_at m i) (messages m i) (barrier_event m i \<or> i < unat n) False (executed m i)" if "0 < i" "i < 8" "i \<noteq> c" for i
    proof -
      have "i < unat n \<longrightarrow> i \<in> arrived m" using subsetD [OF True, of i] sz that by auto
      from core_release [OF I(10) [OF that(1,2), unfolded j pushed_simps iffD2 [OF eq_False A(3)]] A(1) x this] show ?thesis .
    qed
    moreover have "core_at prog ?k True 2 c Held (messages m c) True False (executed m c)" using A(4,8) by simp
    ultimately show ?thesis using I A(1-3) sz c j unfolding m' fork_inv_def core_ok_def Let_def by auto
  next
    case False
    then have m': "slave_go c Held (arrive c m) = m\<lparr>arrived := insert c (arrived m), slave_at := (slave_at m)(c := Held)\<rparr>"
      using I(8) [OF conf] by (simp add: arrive_def slave_go_def Let_def)
    show ?thesis using I A False c unfolding m' fork_inv_def core_ok_def Let_def by auto
  qed
qed

lemma pushed_le: "pushed pc \<le> 2"
  by (cases pc) simp_all

lemma slave_keeps:
  assumes inv: "fork_inv prog m" and ok: "forks_ok prog" and c: "0 < c" "c < 8" and step: "slave_step c m = Some m'"
  shows "fork_inv prog m'"
proof -
  note C = fork_invD(10) [OF inv refl c]
  show ?thesis
  proof (cases "slave_at m c")
    case Popping
    then obtain f q where q: "messages m c = f # q" "m' = slave_go c (Popping_arg f) (m\<lparr>messages := (messages m)(c := q)\<rparr>)"
      using step by (auto simp: slave_step_def split: list.splits)
    show ?thesis by (rule slave_local [OF inv c core_pop [OF C [unfolded Popping q(1)] pushed_le]]) (simp_all add: q(2) slave_go_def)
  next
    case (Popping_arg f)
    then obtain a q where q: "messages m c = a # q" "m' = slave_go c (Executing f a) (m\<lparr>messages := (messages m)(c := q)\<rparr>)"
      using step by (auto simp: slave_step_def split: list.splits)
    show ?thesis by (rule slave_local [OF inv c core_pop_arg [OF C [unfolded Popping_arg q(1)] pushed_le]]) (simp_all add: q(2) slave_go_def)
  next
    case (Executing f a)
    note E = core_execute [OF C [unfolded Executing] ok]
    have m': "m' = slave_go c Arriving (execute c (f AND NOT 1) a m)" using step Executing E(1) by (simp add: slave_step_def)
    show ?thesis by (rule slave_local [OF inv c E(2)]) (simp_all add: m' slave_go_def execute_def)
  next
    case Arriving
    then show ?thesis using step slave_arrives [OF inv ok c] by (auto simp: slave_step_def)
  next
    case Held
    then have ev: "barrier_event m c" and m': "m' = slave_go c Popping (m\<lparr>barrier_event := (barrier_event m)(c := False)\<rparr>)"
      using step by (auto simp: slave_step_def split: if_splits)
    show ?thesis by (rule slave_local [OF inv c core_leave [OF C [unfolded Held eqTrueI [OF ev]]]]) (simp_all add: m' slave_go_def)
  qed
qed

subsection \<open>Progress\<close>

lemma fork_start_inv:
  assumes "forks_ok prog"
  shows "fork_inv prog (fork_start s)"
proof -
  obtain n e a where x: "prog ! 0 = (n, e, a)" by (cases "prog ! 0")
  have "0 < length prog \<Longrightarrow> 0 < team_size prog 0" using team_bound [OF assms] by blast
  moreover have "runs prog 0 i = []" for i by (simp add: runs_def)
  ultimately show ?thesis by (auto simp: fork_inv_def fork_start_def core_ok_def core_at_def runs_Suc [OF _ x] x Let_def)
qed

lemma fork_step_keeps: "fork_inv (teams 0 prog) m \<Longrightarrow> forks_ok (teams 0 prog) \<Longrightarrow> fork_step prog m m' \<Longrightarrow> fork_inv (teams 0 prog) m'"
  by (erule fork_step.cases) (auto simp: ARCHI_CLUSTER_NB_PE_def intro: master_keeps slave_keeps)

lemma fork_progress:
  assumes inv: "fork_inv (teams 0 prog) m" and ok: "forks_ok (teams 0 prog)" and k: "forks_done m < length prog"
  shows "\<exists>m'. fork_step prog m m'"
proof (cases "master_at m = Joining \<and> \<not> barrier_event m 0")
  case False
  have "master_step prog m \<noteq> None"
    using k False by (cases "master_at m") (auto simp: master_step_def Let_def split: prod.splits)
  then show ?thesis using fork_step.master by blast
next
  case True
  note I = fork_invD [OF inv refl]
  let ?P = "teams 0 prog"
  have k': "forks_done m < length ?P" using k by simp
  obtain n e a where x: "?P ! forks_done m = (n, e, a)" by (cases "?P ! forks_done m")
  obtain i where i: "i < team_size ?P (forks_done m)" "i \<notin> arrived m" using I(6) [OF k'] unfolding subset_eq by auto
  have "i \<noteq> 0" using i(2) I(4) True by metis
  then have c: "0 < i" "i < 8" using i(1) team_bound [OF ok k'] by auto
  have pc: "master_at m = Joining" "\<not> barrier_event m 0" using True by simp_all
  have "slave_step i m \<noteq> None"
    using I(10) [OF c, unfolded pc(1) pushed_simps iffD2 [OF eq_False pc(2)]] i k' x
    by (cases "slave_at m i") (auto simp: slave_step_def core_at_def team_size_def split: if_splits)
  then show ?thesis using fork_step.slave [of i m _ prog] c by (auto simp: ARCHI_CLUSTER_NB_PE_def)
qed

text \<open>Every step takes something off the work that is left.\<close>

definition core_work :: "(u32 \<times> u32 \<times> u32) list \<Rightarrow> fork_state \<Rightarrow> nat \<Rightarrow> nat" where
  "core_work prog m i = 5 * (length (runs prog (length prog) i) - length (executed m i))
     + (case slave_at m i of Popping \<Rightarrow> 2 | Popping_arg _ \<Rightarrow> 1 | Executing _ _ \<Rightarrow> 0 | Arriving \<Rightarrow> 4 | Held \<Rightarrow> 3)"

definition fork_work :: "(u32 \<times> u32 \<times> u32) list \<Rightarrow> fork_state \<Rightarrow> nat" where
  "fork_work prog m = 6 * (length prog - forks_done m)
     + (case master_at m of Configuring \<Rightarrow> 5 | Pushing_entry \<Rightarrow> 4 | Pushing_arg \<Rightarrow> 3 | Calling \<Rightarrow> 2 | Triggering \<Rightarrow> 1 | Joining \<Rightarrow> 0)
     + (\<Sum>i \<in> {1..<8}. core_work prog m i)"

lemma runs_length_mono: "k \<le> l \<Longrightarrow> length (runs prog k i) \<le> length (runs prog l i)"
proof -
  assume "k \<le> l"
  then have "take l prog = take k prog @ take (l - k) (drop k prog)" by (metis add_diff_inverse_nat le_antisym less_imp_le not_le take_add)
  then show ?thesis by (simp add: runs_def)
qed

lemma master_works:
  assumes "master_step prog m = Some m'"
  shows "fork_work (teams t prog) m' < fork_work (teams t prog) m"
proof -
  have k: "forks_done m < length prog" using assms by (auto simp: master_step_def split: if_splits)
  have c: "core_work (teams t prog) m' i = core_work (teams t prog) m i" if "i \<in> {1..<8}" for i
    using assms that k by (cases "master_at m")
      (auto simp: master_step_def core_work_def deliver_def arrive_def execute_def Let_def split: if_splits prod.splits)
  then have "(\<Sum>i \<in> {1..<8}. core_work (teams t prog) m' i) = (\<Sum>i \<in> {1..<8}. core_work (teams t prog) m i)" by (rule sum.cong [OF refl])
  then show ?thesis
    using assms k by (cases "master_at m")
      (auto simp: master_step_def fork_work_def deliver_def arrive_def execute_def Let_def split: if_splits prod.splits)
qed

lemma slave_works:
  assumes inv: "fork_inv prog m" and c: "0 < c" "c < 8" and step: "slave_step c m = Some m'"
  shows "fork_work prog m' < fork_work prog m"
proof -
  note C = fork_invD(10) [OF inv refl c]
  have room: "length (executed m c) < length (runs prog (length prog) c)" if "slave_at m c = Executing f a" for f a
  proof -
    obtain n e b where x: "prog ! forks_done m = (n, e, b)" by (cases "prog ! forks_done m")
    have "forks_done m < length prog" "c < unat n" "executed m c = runs prog (forks_done m) c"
      using C [unfolded that] x by (auto simp: core_at_def split: if_splits)
    then show ?thesis using runs_Suc [OF _ x] runs_length_mono [of "Suc (forks_done m)" "length prog" prog c] by simp
  qed
  have less: "core_work prog m' c < core_work prog m c"
    using step room by (cases "slave_at m c")
      (auto simp: slave_step_def core_work_def slave_go_def execute_def arrive_def Let_def split: list.splits if_splits)
  have same: "core_work prog m' i = core_work prog m i" if "i \<noteq> c" for i
    using step that by (cases "slave_at m c")
      (auto simp: slave_step_def core_work_def slave_go_def execute_def arrive_def Let_def split: list.splits if_splits)
  have "(\<Sum>i \<in> {1..<8}. core_work prog m' i) < (\<Sum>i \<in> {1..<8}. core_work prog m i)"
  proof (rule sum_strict_mono_ex1)
    show "\<forall>i \<in> {1..<8}. core_work prog m' i \<le> core_work prog m i" using less same by (metis le_less)
    show "\<exists>i \<in> {1..<8}. core_work prog m' i < core_work prog m i" using less c by (intro bexI [of _ c]) auto
  qed simp
  moreover have "forks_done m' = forks_done m" "master_at m' = master_at m"
    using step by (cases "slave_at m c"; auto simp: slave_step_def slave_go_def execute_def arrive_def Let_def split: list.splits if_splits)+
  ultimately show ?thesis by (simp add: fork_work_def)
qed

lemma fork_step_works: "fork_inv (teams 0 prog) m \<Longrightarrow> fork_step prog m m' \<Longrightarrow> fork_work (teams 0 prog) m' < fork_work (teams 0 prog) m"
  by (erule fork_step.cases) (auto simp: ARCHI_CLUSTER_NB_PE_def intro: master_works slave_works)

lemma fork_run:
  assumes "forks_ok (teams 0 prog)"
  shows "(fork_step prog ^^ j) (fork_start s) m \<Longrightarrow> fork_inv (teams 0 prog) m \<and> j + fork_work (teams 0 prog) m \<le> fork_work (teams 0 prog) (fork_start s)"
proof (induction j arbitrary: m)
  case 0
  then show ?case using fork_start_inv [OF assms, of s] by auto
next
  case (Suc j)
  then obtain x where x: "(fork_step prog ^^ j) (fork_start s) x" "fork_step prog x m" by auto
  have inv: "fork_inv (teams 0 prog) x" using Suc.IH [OF x(1)] by simp
  have "fork_work (teams 0 prog) m < fork_work (teams 0 prog) x" using fork_step_works [OF inv x(2)] .
  then show ?case using Suc.IH [OF x(1)] fork_step_keeps [OF inv assms x(2)] by simp
qed

lemma fork_executed:
  assumes "fork_inv prog m" "i < 8"
  shows "executed m i = runs prog (forks_done m) i \<or> forks_done m < length prog \<and> executed m i = runs prog (Suc (forks_done m)) i"
proof (cases "i = 0")
  case True
  then show ?thesis using fork_invD(1,2,9) [OF assms(1) refl] by (auto simp: le_less split: if_splits)
next
  case False
  obtain n e a where x: "prog ! forks_done m = (n, e, a)" by (cases "prog ! forks_done m")
  have "core_at prog (forks_done m) (barrier_event m 0) (pushed (master_at m)) i (slave_at m i) (messages m i) (barrier_event m i)
      (i \<in> arrived m) (executed m i)" using fork_invD(10) [OF assms(1) refl] False assms(2) by simp
  then show ?thesis using x runs_Suc [OF _ x] fork_invD(1) [OF assms(1) refl]
    by (cases "slave_at m i") (auto simp: core_at_def split: if_splits)
qed

lemma fork_ends:
  assumes "fork_inv (teams 0 prog) m" "forks_ok (teams 0 prog)"
  shows "\<exists>j m'. (fork_step prog ^^ j) m m' \<and> (\<nexists>x. fork_step prog m' x)"
  using assms(1)
proof (induction "fork_work (teams 0 prog) m" arbitrary: m rule: less_induct)
  case less
  show ?case
  proof (cases "\<exists>x. fork_step prog m x")
    case True
    then obtain x where x: "fork_step prog m x" by blast
    obtain j m' where "(fork_step prog ^^ j) x m'" "\<nexists>y. fork_step prog m' y"
      using less.hyps [OF fork_step_works [OF less.prems x] fork_step_keeps [OF less.prems assms(2) x]] by blast
    then have "(fork_step prog ^^ Suc j) m m'" using relpowp_Suc_I2 [of "fork_step prog" m x j m'] x by simp
    then show ?thesis using \<open>\<nexists>y. fork_step prog m' y\<close> by blast
  next
    case False
    then show ?thesis using relpowp_0_I by metis
  qed
qed

text \<open>C18: the master makes any list of forks, each on 1 to 8 cores or, with 0, on the cores of the fork
  before, one after the other; slaves and master are interleaved in any way. At every
  moment each core has executed, in order and once each, the entries of the forks that have returned and of which it is a member, and besides
  at most that of the current fork: none runs ahead of the master, none outside its team runs. There are no deadlocks and no endless runs: after at most a computed
  number of steps nothing can go on, and then all forks have returned and every member has executed every entry.\<close>
theorem fork_join:
  assumes "forks_ok (teams 0 prog)" "(fork_step prog ^^ j) (fork_start s) m"
  shows "j \<le> fork_work (teams 0 prog) (fork_start s)
    \<and> (\<forall>i < ARCHI_CLUSTER_NB_PE. executed m i = runs (teams 0 prog) (forks_done m) i
         \<or> forks_done m < length prog \<and> executed m i = runs (teams 0 prog) (Suc (forks_done m)) i)
    \<and> ((\<nexists>m'. fork_step prog m m') \<longrightarrow> forks_done m = length prog \<and> (\<forall>i < ARCHI_CLUSTER_NB_PE. executed m i = runs (teams 0 prog) (length prog) i))"
proof -
  have inv: "fork_inv (teams 0 prog) m" and "j \<le> fork_work (teams 0 prog) (fork_start s)" using fork_run [OF assms] by auto
  moreover have "forks_done m = length prog" if "\<nexists>m'. fork_step prog m m'"
    using fork_progress [OF inv assms(1)] that fork_invD(1) [OF inv refl] unfolding length_teams by (metis le_neq_implies_less)
  moreover note fork_executed [OF inv]
  ultimately show ?thesis by (auto simp: ARCHI_CLUSTER_NB_PE_def)
qed

lemma fork_join_witness:
  "\<exists>j m. (fork_step [(4, 0x1000, 7), (0, 0x1002, 9), (8, 0x1004, 3)] ^^ j) (fork_start \<lparr>csrs = \<lambda>_. 0, regs = \<lambda>_. 0, io_log = []\<rparr>) m
     \<and> executed m 3 = [(0x1000, 7), (0x1002, 9), (0x1004, 3)] \<and> executed m 5 = [(0x1004, 3)]"
proof -
  let ?prog = "[(4, 0x1000, 7), (0, 0x1002, 9), (8, 0x1004, 3)] :: (u32 \<times> u32 \<times> u32) list" and ?s = "\<lparr>csrs = \<lambda>_. 0, regs = \<lambda>_. 0, io_log = []\<rparr> :: machine"
  have ok: "forks_ok (teams 0 ?prog)" by (simp add: forks_ok_def ARCHI_CLUSTER_NB_PE_def)
  obtain j m where r: "(fork_step ?prog ^^ j) (fork_start ?s) m" "\<nexists>x. fork_step ?prog m x"
    using fork_ends [OF fork_start_inv [OF ok] ok] by blast
  have "\<forall>i < ARCHI_CLUSTER_NB_PE. executed m i = runs (teams 0 ?prog) (length ?prog) i" using fork_join [OF ok r(1)] r(2) by blast
  then have "executed m 3 = runs (teams 0 ?prog) 3 3" "executed m 5 = runs (teams 0 ?prog) 3 5" by (simp_all add: ARCHI_CLUSTER_NB_PE_def numeral_3_eq_3)
  then show ?thesis using r(1) by (auto simp: runs_def)
qed

end
