(* ===== verification/System.thy ===== *)
theory System
  imports ClockProps EventProps UartProps
begin

text \<open>
  The start of the system and its interrupt table (target/pulp/system.c, target/pulpissimo/system.c,
  target/core-v-mcu/system.c, target/control-pulp/system.c). The globals of the drivers are one
  state here; the clock functions run on its part that they know. What the FreeRTOS kernel does on
  a tick is a parameter, and so is the call of a handler of the table. A call through an empty
  entry of the table is None.
\<close>

subsection \<open>State\<close>

datatype target = PULP | PULPISSIMO | CORE_V_MCU

datatype isr = Null_isr | Cl_notify_isr | Timer_isr | Fc_soc_event_isr

datatype stdio = STDIO_NULL | STDIO_FAKE | STDIO_UART u32 u32

record 'h system = "'h fc_events" +
  sys_flls_frequency :: "fll_type \<Rightarrow> u32"
  sys_core_clock :: u32
  isr_table :: "isr list"

definition clocks_of :: "('h, 'a) system_scheme \<Rightarrow> clocks" where
  "clocks_of s = \<lparr>csrs = csrs s, regs = regs s, io_log = io_log s,
     flls_frequency = sys_flls_frequency s, core_clock = sys_core_clock s\<rparr>"

definition set_clocks :: "clocks \<Rightarrow> ('h, 'a) system_scheme \<Rightarrow> ('h, 'a) system_scheme" where
  "set_clocks c s = s\<lparr>csrs := csrs c, regs := regs c, io_log := io_log c,
     sys_flls_frequency := flls_frequency c, sys_core_clock := core_clock c\<rparr>"

subsection \<open>Start\<close>

fun ARCHI_NB_FLL :: "target \<Rightarrow> nat" where
  "ARCHI_NB_FLL PULP = 3"
| "ARCHI_NB_FLL PULPISSIMO = 2"
| "ARCHI_NB_FLL CORE_V_MCU = 3"

definition ARCHI_REF_CLOCK :: u32 where "ARCHI_REF_CLOCK = push_bit 15 1"
definition configTICK_RATE_HZ :: u32 where "configTICK_RATE_HZ = 1000"
definition IRQ_FC_EVT_TIMER0_LO :: nat where "IRQ_FC_EVT_TIMER0_LO = 10"
definition IRQ_FC_EVT_SOC_EVT :: nat where "IRQ_FC_EVT_SOC_EVT = 26"
definition UART_SETUP_POLLING_EN_MASK :: u32 where "UART_SETUP_POLLING_EN_MASK = 0x10"

definition fll_at :: "nat \<Rightarrow> fll_type" where
  "fll_at i = (if i = 0 then FLL_SOC else if i = 1 then FLL_PERI else FLL_CLUSTER)"

fun init_flls :: "nat list \<Rightarrow> clocks \<Rightarrow> clocks option" where
  "init_flls [] c = Some c"
| "init_flls (i # is) c = Option.bind (pi_fll_init (fll_at i) False c) (init_flls is)"

definition hook_isr :: "nat \<Rightarrow> isr \<Rightarrow> ('h, 'a) system_scheme \<Rightarrow> ('h, 'a) system_scheme" where
  "hook_isr i h s = s\<lparr>isr_table := (isr_table s)[i := h]\<rparr>"

definition stdio_init :: "u32 \<Rightarrow> stdio \<Rightarrow> 'a machine_scheme \<Rightarrow> 'a machine_scheme option" where
  "stdio_init periph_freq stdio s =
     (case stdio of
        STDIO_UART device baudrate \<Rightarrow>
          (if baudrate = 0 then None
           else let s = udma_ctrl_cg_disable (UDMA_UART_ID device) s;
                    div' = (periph_freq + baudrate div 2) div baudrate;
                    val = 0;
                    val = val OR REG_SET 8 UART_SETUP_TX_ENA_MASK 1;
                    val = val OR REG_SET 9 UART_SETUP_RX_ENA_MASK 1;
                    val = val OR REG_SET 1 UART_SETUP_BIT_LENGTH_MASK 0x3;
                    val = val OR REG_SET 0 UART_SETUP_PARITY_ENA_MASK 0;
                    val = val OR REG_SET 16 UART_SETUP_CLKDIV_MASK (div' - 1);
                    val = val OR REG_SET 4 UART_SETUP_POLLING_EN_MASK 1 in
                Some (uart_setup_set (UDMA_UART_ID device) val s))
      | _ \<Rightarrow> Some s)"

definition system_init :: "target \<Rightarrow> bool \<Rightarrow> stdio \<Rightarrow> ('h, 'a) system_scheme \<Rightarrow> ('h, 'a) system_scheme option" where
  "system_init target config_cluster stdio s =
     Option.bind (init_flls [0..<ARCHI_NB_FLL target] (clocks_of s)) (\<lambda>c.
       let s = set_clocks c s;
           s = pulp_irq_init s;
           s = (if target = PULP \<and> config_cluster then hook_isr 0x2 Cl_notify_isr s else s);
           s = hook_isr 0xa Timer_isr s;
           s = hook_isr 0x1a Fc_soc_event_isr s;
           s = soc_eu_event_init s in
       Option.bind (pi_fc_event_handler_init False 26 s) (\<lambda>s.
         let s = snd (irq_clint_global_enable s) in
         stdio_init (fst (pi_freq_get PI_FREQ_DOMAIN_PERIPH (clocks_of s))) stdio s))"

text \<open>control-pulp has no loops; the peripheral frequency comes from its dividers.\<close>

definition control_system_init ::
  "bool \<Rightarrow> bool \<Rightarrow> u32 \<Rightarrow> stdio \<Rightarrow> ('h, 'a) system_scheme \<Rightarrow> ('h, 'a) system_scheme option" where
  "control_system_init config_clic config_cluster periph_freq stdio s =
     (let s = (if config_clic then clic_pulp_irq_init s else pulp_irq_init s);
          s = (if config_cluster then hook_isr 0x2 Cl_notify_isr s else s);
          s = hook_isr 0xa Timer_isr s;
          s = hook_isr 0x1a Fc_soc_event_isr s;
          s = soc_eu_event_init s in
      Option.bind (pi_fc_event_handler_init config_clic 26 s) (\<lambda>s.
        let s = snd (irq_clint_global_enable s);
            s = snd (irq_clint_enable IRQ_FC_EVT_TIMER0_LO s);
            s = snd (irq_clint_enable IRQ_FC_EVT_SOC_EVT s) in
        stdio_init periph_freq stdio s))"

definition vPortSetupTimerInterrupt :: "'a machine_scheme \<Rightarrow> 'a machine_scheme option" where
  "vPortSetupTimerInterrupt s =
     (let s = snd (timer_irq_init (ARCHI_REF_CLOCK div configTICK_RATE_HZ) s) in
      irq_enable (int IRQ_FC_EVT_TIMER0_LO) s)"

definition control_vPortSetupTimerInterrupt :: "bool \<Rightarrow> 'a machine_scheme \<Rightarrow> 'a machine_scheme option" where
  "control_vPortSetupTimerInterrupt config_clic s =
     (let s = snd (timer_irq_init (32000 div configTICK_RATE_HZ) s) in
      if config_clic then clic_irq_enable (int IRQ_FC_EVT_TIMER0_LO) s else irq_enable (int IRQ_FC_EVT_TIMER0_LO) s)"

subsection \<open>Interrupts\<close>

definition timer_irq_handler :: "('s \<Rightarrow> int \<times> 's) \<Rightarrow> ('s \<Rightarrow> 's) \<Rightarrow> 's \<Rightarrow> 's" where
  "timer_irq_handler increment_tick switch_context s =
     (let (r, s) = increment_tick s in if r \<noteq> 0 then switch_context s else s)"

definition vSystemIrqHandler ::
  "(isr \<Rightarrow> ('h, 'a) system_scheme \<Rightarrow> ('h, 'a) system_scheme option) \<Rightarrow> u32 \<Rightarrow> ('h, 'a) system_scheme \<Rightarrow> ('h, 'a) system_scheme option" where
  "vSystemIrqHandler run mcause s =
     (let h = isr_table s ! unat (mcause AND 0x1f) in
      if h = Null_isr then None else run h s)"

definition ISR_TABLE_SIZE :: "bool \<Rightarrow> u32" where
  "ISR_TABLE_SIZE config_clic = (if config_clic then 256 else 32)"

definition control_vSystemIrqHandler ::
  "bool \<Rightarrow> (isr \<Rightarrow> ('h, 'a) system_scheme \<Rightarrow> ('h, 'a) system_scheme option) \<Rightarrow> u32 \<Rightarrow> ('h, 'a) system_scheme \<Rightarrow> ('h, 'a) system_scheme option" where
  "control_vSystemIrqHandler config_clic run mcause s =
     (let h = isr_table s ! unat (mcause AND (ISR_TABLE_SIZE config_clic - 1)) in
      if h = Null_isr then None else run h s)"

subsection \<open>Lemmas\<close>

lemma writew_frame [simp]:
  "fc_event_handlers (writew v a s) = fc_event_handlers s" "isr_table (writew v a u) = isr_table u"
  "sys_flls_frequency (writew v a u) = sys_flls_frequency u"
  by (simp_all add: writew_def)

lemma csrs_writew [simp]: "csrs (writew v a s) = csrs s"
  by (simp add: writew_def)

lemma set_clocks_fields [simp]:
  "regs (set_clocks c s) = regs c" "csrs (set_clocks c s) = csrs c" "io_log (set_clocks c s) = io_log c"
  "isr_table (set_clocks c s) = isr_table s" "fc_event_handlers (set_clocks c s) = fc_event_handlers s"
  "sys_flls_frequency (set_clocks c s) = flls_frequency c"
  by (simp_all add: set_clocks_def)

lemma clocks_of_fields [simp]:
  "regs (clocks_of s) = regs s" "csrs (clocks_of s) = csrs s" "io_log (clocks_of s) = io_log s"
  "flls_frequency (clocks_of s) = sys_flls_frequency s" "core_clock (clocks_of s) = sys_core_clock s"
  by (simp_all add: clocks_of_def)

lemma hook_isr_fields [simp]:
  "regs (hook_isr i h s) = regs s" "csrs (hook_isr i h s) = csrs s" "io_log (hook_isr i h s) = io_log s"
  "isr_table (hook_isr i h s) = (isr_table s)[i := h]" "fc_event_handlers (hook_isr i h s) = fc_event_handlers s"
  "sys_flls_frequency (hook_isr i h s) = sys_flls_frequency s"
  by (simp_all add: hook_isr_def)

definition fll_reg_set :: "fll_type \<Rightarrow> u32 set" where
  "fll_reg_set f = {FLL_CONF1 f, FLL_CONF2 f, FLL_INTEGRATOR f}"

lemma fll_regs_apart: "f \<noteq> g \<Longrightarrow> FLL_CONF1 f \<notin> fll_reg_set g"
  by (cases f; cases g) (simp_all add: fll_reg_set_def FLL_CONF1_def FLL_CONF2_def FLL_INTEGRATOR_def FLL_CTRL_BASE_def)

text \<open>The loops are set up one by one: none of them disturbs another one.\<close>

definition fll_set_up :: "clocks \<Rightarrow> clocks \<Rightarrow> fll_type \<Rightarrow> bool" where
  "fll_set_up s t f \<longleftrightarrow> bit (regs t (FLL_CONF1 f)) 31
     \<and> flls_frequency t f = fll_get_frequency_from_mult_div
         (REG_GET 0 FLL_CTRL_CONF1_MULTI_FACTOR_MASK (regs s (FLL_CONF1 f)))
         (REG_GET 26 FLL_CTRL_CONF1_CLK_OUT_DIV_MASK (regs s (FLL_CONF1 f)))"

lemma fll_init_step:
  assumes "flls_frequency c f = 0"
  shows "\<exists>t. pi_fll_init f False c = Some t \<and> fll_set_up c t f
     \<and> (\<forall>a. a \<notin> fll_reg_set f \<longrightarrow> regs t a = regs c a)
     \<and> (\<forall>g. g \<noteq> f \<longrightarrow> flls_frequency t g = flls_frequency c g) \<and> csrs t = csrs c"
proof -
  obtain t where t: "pi_fll_init f False c = Some t" "fll_set_up c t f" "\<forall>a. a \<notin> fll_reg_set f \<longrightarrow> regs t a = regs c a"
    using fll_init_reset [OF assms] by (auto simp: fll_set_up_def fll_reg_set_def)
  moreover have "csrs t = csrs c" "\<forall>g. g \<noteq> f \<longrightarrow> flls_frequency t g = flls_frequency c g"
    using t(1) assms by (auto simp: pi_fll_init_def Let_def split: if_splits)
  ultimately show ?thesis by blast
qed

lemma init_flls_ok:
  assumes "distinct (map fll_at is)" "\<forall>i \<in> set is. flls_frequency c (fll_at i) = 0"
  shows "\<exists>t. init_flls is c = Some t \<and> (\<forall>i \<in> set is. fll_set_up c t (fll_at i))
     \<and> (\<forall>a. (\<forall>i \<in> set is. a \<notin> fll_reg_set (fll_at i)) \<longrightarrow> regs t a = regs c a)
     \<and> (\<forall>g. g \<notin> fll_at ` set is \<longrightarrow> flls_frequency t g = flls_frequency c g) \<and> csrs t = csrs c"
  using assms
proof (induction "is" arbitrary: c)
  case (Cons i "is")
  define f where "f = fll_at i"
  have f: "f \<notin> fll_at ` set is" "distinct (map fll_at is)" using Cons.prems by (auto simp: f_def)
  have "flls_frequency c f = 0" using Cons.prems by (simp add: f_def)
  from fll_init_step [OF this] obtain u where u: "pi_fll_init f False c = Some u" "fll_set_up c u f"
    "\<forall>a. a \<notin> fll_reg_set f \<longrightarrow> regs u a = regs c a"
    "\<forall>g. g \<noteq> f \<longrightarrow> flls_frequency u g = flls_frequency c g" "csrs u = csrs c" by blast
  have "\<forall>j \<in> set is. flls_frequency u (fll_at j) = 0"
    using Cons.prems u(4) f by (metis image_eqI list.set_intros(2))
  from Cons.IH [OF f(2) this] obtain t where t: "init_flls is u = Some t" "\<forall>j \<in> set is. fll_set_up u t (fll_at j)"
    "\<forall>a. (\<forall>j \<in> set is. a \<notin> fll_reg_set (fll_at j)) \<longrightarrow> regs t a = regs u a"
    "\<forall>g. g \<notin> fll_at ` set is \<longrightarrow> flls_frequency t g = flls_frequency u g" "csrs t = csrs u" by blast
  have "fll_set_up c t f"
  proof -
    have "regs t (FLL_CONF1 f) = regs u (FLL_CONF1 f)" using t(3) f(1) fll_regs_apart by (metis imageI)
    then show ?thesis using u(2) t(4) f(1) by (simp add: fll_set_up_def)
  qed
  moreover have "fll_set_up c t (fll_at j)" if "j \<in> set is" for j
  proof -
    have "fll_at j \<noteq> f" using f(1) that by (metis imageI)
    then have "regs u (FLL_CONF1 (fll_at j)) = regs c (FLL_CONF1 (fll_at j))" using u(3) fll_regs_apart by blast
    then show ?thesis using t(2) that by (simp add: fll_set_up_def)
  qed
  ultimately have "\<forall>j \<in> set (i # is). fll_set_up c t (fll_at j)" by (simp add: f_def)
  moreover have "\<forall>a. (\<forall>j \<in> set (i # is). a \<notin> fll_reg_set (fll_at j)) \<longrightarrow> regs t a = regs c a"
    using t(3) u(3) by (simp add: f_def)
  moreover have "\<forall>g. g \<notin> fll_at ` set (i # is) \<longrightarrow> flls_frequency t g = flls_frequency c g"
    using t(4) u(4) by (simp add: f_def)
  ultimately show ?case using t(1,5) u(1,5) unfolding f_def by (intro exI [of _ t]) simp
qed simp

lemma fc_mask_writew [simp]:
  "fc_mask w (writew v a s) =
     (if a = PULP_FC_IRQ_ADDR + IRQ_REG_MASK_OFFSET then v
      else if a = PULP_FC_IRQ_ADDR + IRQ_REG_MASK_SET_OFFSET then fc_mask w s OR v
      else if a = PULP_FC_IRQ_ADDR + IRQ_REG_MASK_CLEAR_OFFSET then fc_mask w s AND NOT v
      else fc_mask w s)"
  by (simp add: fc_mask_def irq_mask_after_append writew_def)

lemma fc_clear_frame:
  "fc_clear_handlers is s = Some t \<Longrightarrow> t = s\<lparr>fc_event_handlers := fc_event_handlers t\<rparr>"
proof (induction "is" arbitrary: s)
  case (Cons i "is")
  then obtain u where u: "pi_fc_event_handler_clear (word_of_nat i) s = Some u" "fc_clear_handlers is u = Some t"
    by (auto split: Option.bind_splits)
  from u(1) have "u = s\<lparr>fc_event_handlers := fc_event_handlers u\<rparr>"
    by (auto simp: pi_fc_event_handler_clear_def split: if_splits)
  with Cons.IH [OF u(2)] show ?case by (metis fc_events.update_convs(1) fc_events.surjective)
qed simp

lemma fc_event_init_code:
  assumes "length (fc_event_handlers s) = NB_SOC_EVENTS"
  shows "pi_fc_event_handler_init False 26 s =
    Some (writew (push_bit 26 1) (PULP_FC_IRQ_ADDR + IRQ_REG_MASK_SET_OFFSET)
      (s\<lparr>fc_event_handlers := replicate NB_SOC_EVENTS (Some FC_null_event)\<rparr>))"
proof -
  obtain u where u: "fc_clear_handlers [0..<NB_SOC_EVENTS] s = Some u" "length (fc_event_handlers u) = NB_SOC_EVENTS"
    "\<forall>j < NB_SOC_EVENTS. fc_event_handlers u ! j = Some FC_null_event"
    using fc_clear_handlers_ok [of "[0..<NB_SOC_EVENTS]" s] assms by (auto simp: NB_SOC_EVENTS_def)
  then have "fc_event_handlers u = replicate NB_SOC_EVENTS (Some FC_null_event)" by (intro nth_equalityI) auto
  then show ?thesis using u(1) fc_clear_frame [OF u(1)] by (simp add: pi_fc_event_handler_init_def irq_enable_def)
qed

lemma soc_eu_init_frame [simp]:
  "csrs (soc_eu_event_init s) = csrs s" "fc_event_handlers (soc_eu_event_init r) = fc_event_handlers r"
  "isr_table (soc_eu_event_init u) = isr_table u" "sys_flls_frequency (soc_eu_event_init u) = sys_flls_frequency u"
  by (simp_all add: soc_eu_event_init_def SOC_NB_EVENT_REGS_def upt_rec soc_eu_mask_set_def)

lemma soc_eu_init_regs:
  "regs (soc_eu_event_init s) a =
     (if a \<in> (\<lambda>k. SOC_EU_ADDR + SOC_FC_FIRST_MASK + word_of_nat k * 4) ` {0..<8} then 0xffffffff else regs s a)"
proof -
  have "regs (fold (\<lambda>i. soc_eu_mask_set (SOC_FC_FIRST_MASK + word_of_nat i * 4) 0xffffffff) is s) a =
     (if a \<in> (\<lambda>k. SOC_EU_ADDR + SOC_FC_FIRST_MASK + word_of_nat k * 4) ` set is then 0xffffffff else regs s a)" for "is"
    by (induction "is" arbitrary: s) (auto simp: soc_eu_mask_set_def add.assoc)
  then show ?thesis by (simp add: soc_eu_event_init_def SOC_NB_EVENT_REGS_def)
qed

lemma soc_eu_init_mask [simp]: "fc_mask w (soc_eu_event_init s) = fc_mask w s"
  by (simp add: soc_eu_event_init_def SOC_NB_EVENT_REGS_def upt_rec soc_eu_mask_set_def mmio)

lemma irq_init_mask: "fc_mask w (pulp_irq_init s) = 0"
  by (simp add: pulp_irq_init_def mmio not_all_ones)

definition stdio_ok :: "stdio \<Rightarrow> bool" where
  "stdio_ok stdio = (case stdio of STDIO_UART device baudrate \<Rightarrow> device = 0 \<and> baudrate \<noteq> 0 | _ \<Rightarrow> True)"

lemma stdio_init_ok:
  assumes "stdio_ok stdio"
  shows "\<exists>v w. stdio_init f stdio s = Some (if stdio = STDIO_NULL \<or> stdio = STDIO_FAKE then s
     else writew v (UDMA_UART 0 + 0x24) (writew w UDMA_GC_CG s))"
  using assms
  by (cases stdio) (auto simp: stdio_ok_def stdio_init_def Let_def udma_ctrl_cg_disable_def hal_or32_def uart_setup_set_def uart_setup_def UDMA_UART_ID_def)

lemma tick_setup_code:
  "\<exists>x. vPortSetupTimerInterrupt s = Some (writew (push_bit 10 1) (PULP_FC_IRQ_ADDR + IRQ_REG_MASK_SET_OFFSET)
     (writew x (PULP_FC_TIMER_ADDR + TIMER_CFG_LO_OFFSET) (writew 32 (PULP_FC_TIMER_ADDR + TIMER_CMP_LO_OFFSET)
        (writew 1 (PULP_FC_TIMER_ADDR + TIMER_RESET_LO_OFFSET) s))))"
proof -
  have "ARCHI_REF_CLOCK div configTICK_RATE_HZ = 32"
    by (simp add: ARCHI_REF_CLOCK_def configTICK_RATE_HZ_def word_unat_eq_iff unat_div)
  then show ?thesis
    by (intro exI) (simp add: vPortSetupTimerInterrupt_def timer_irq_init_def timer_irq_set_timeout_def irq_enable_def IRQ_FC_EVT_TIMER0_LO_def)
qed

lemma irq_on_frame [simp]:
  "regs (snd (irq_clint_global_enable s)) = regs s" "fc_mask w (snd (irq_clint_global_enable s)) = fc_mask w s"
  "fc_event_handlers (snd (irq_clint_global_enable r)) = fc_event_handlers r"
  "isr_table (snd (irq_clint_global_enable u)) = isr_table u"
  "sys_flls_frequency (snd (irq_clint_global_enable u)) = sys_flls_frequency u"
  "bit (csrs (snd (irq_clint_global_enable s)) CSR_MSTATUS) 3"
  by (simp_all add: irq_clint_global_enable_def csr_read_set_def fc_mask_def MSTATUS_IE_def bit_or_iff)

lemma handlers_frame [simp]:
  "fc_mask w (s\<lparr>fc_event_handlers := hs\<rparr>) = fc_mask w s" "fc_mask w (hook_isr i h u) = fc_mask w u"
  by (simp_all add: fc_mask_def)

lemma fll_conf1_cases: "FLL_CONF1 f = 0x1A100004 \<or> FLL_CONF1 f = 0x1A100014 \<or> FLL_CONF1 f = 0x1A100024"
  by (cases f) (simp_all add: FLL_CONF1_def FLL_CTRL_BASE_def)

lemma soc_eu_addr_apart:
  assumes "k < 8"
  shows "0x1A106004 \<le> SOC_EU_ADDR + SOC_FC_FIRST_MASK + word_of_nat k * 4"
    "SOC_EU_ADDR + SOC_FC_FIRST_MASK + word_of_nat k * 4 \<le> (0x1A106020 :: u32)"
proof -
  from assms consider "k = 0" | "k = 1" | "k = 2" | "k = 3" | "k = 4" | "k = 5" | "k = 6" | "k = 7" by linarith
  then show "0x1A106004 \<le> SOC_EU_ADDR + SOC_FC_FIRST_MASK + word_of_nat k * 4"
    "SOC_EU_ADDR + SOC_FC_FIRST_MASK + word_of_nat k * 4 \<le> (0x1A106020 :: u32)"
    by (cases; simp add: mmio word_le_nat_alt)+
qed

lemma soc_eu_init_low:
  "a < 0x1A106004 \<or> 0x1A106020 < a \<Longrightarrow> regs (soc_eu_event_init s) a = regs s a"
  using soc_eu_addr_apart by (fastforce simp: soc_eu_init_regs not_less [symmetric])

lemmas boot_mmio = mmio UDMA_UART_def UDMA_UART_ID_def

text \<open>C26: from the state at reset, system_init followed by the set-up of the tick returns on every target with loops: every loop of
  the target is locked in normal mode and its frequency known, of the interrupt lines exactly those of the tick timer
  and of the SoC events are unmasked, these two have their handlers in the table (and line 2 the cluster's, on a pulp
  with cluster, while every other entry is as before), every SoC event of the fabric controller is masked and has the null
  handler, the interrupts of the core are on, and the timer compares with 32 ticks of the reference clock.\<close>
theorem system_boot:
  fixes s :: "('h, 'a) system_scheme"
  assumes "\<forall>f. sys_flls_frequency s f = 0" "length (fc_event_handlers s) = NB_SOC_EVENTS" "length (isr_table s) = 32"
    "stdio_ok stdio"
  shows "\<exists>t. Option.bind (system_init target config_cluster stdio s) vPortSetupTimerInterrupt = Some t
     \<and> (\<forall>i < ARCHI_NB_FLL target. bit (regs t (FLL_CONF1 (fll_at i))) 31
          \<and> sys_flls_frequency t (fll_at i) = fll_get_frequency_from_mult_div
              (REG_GET 0 FLL_CTRL_CONF1_MULTI_FACTOR_MASK (regs s (FLL_CONF1 (fll_at i))))
              (REG_GET 26 FLL_CTRL_CONF1_CLK_OUT_DIV_MASK (regs s (FLL_CONF1 (fll_at i)))))
     \<and> irq_mask_after w (io_log t) = push_bit 10 1 OR push_bit 26 1
     \<and> isr_table t = (let tab = (isr_table s)[10 := Timer_isr, 26 := Fc_soc_event_isr] in
          if target = PULP \<and> config_cluster then tab[2 := Cl_notify_isr] else tab)
     \<and> (\<forall>k < 8. regs t (SOC_EU_ADDR + SOC_FC_MASK0_OFFSET + word_of_nat k * 4) = 0xffffffff)
     \<and> fc_event_handlers t = replicate NB_SOC_EVENTS (Some FC_null_event)
     \<and> irqs_on t
     \<and> regs t (PULP_FC_TIMER_ADDR + TIMER_CMP_LO_OFFSET) = 32"
proof -
  have fl: "distinct (map fll_at [0..<ARCHI_NB_FLL target])"
    by (cases target) (simp_all add: fll_at_def upt_rec)
  obtain c where c: "init_flls [0..<ARCHI_NB_FLL target] (clocks_of s) = Some c"
    "\<forall>i < ARCHI_NB_FLL target. fll_set_up (clocks_of s) c (fll_at i)" "csrs c = csrs s"
    using init_flls_ok [OF fl, of "clocks_of s"] assms(1) by auto
  define s1 where "s1 = pulp_irq_init (set_clocks c s)"
  define s2 where "s2 = soc_eu_event_init (hook_isr 26 Fc_soc_event_isr (hook_isr 10 Timer_isr
     (if target = PULP \<and> config_cluster then hook_isr 2 Cl_notify_isr s1 else s1)))"
  define s3 where "s3 = snd (irq_clint_global_enable (writew (push_bit 26 1) (PULP_FC_IRQ_ADDR + IRQ_REG_MASK_SET_OFFSET)
      (s2\<lparr>fc_event_handlers := replicate NB_SOC_EVENTS (Some FC_null_event)\<rparr>)))"
  define f where "f = fst (pi_freq_get PI_FREQ_DOMAIN_PERIPH (clocks_of s3))"
  obtain v u where s4: "stdio_init f stdio s3 = Some (if stdio = STDIO_NULL \<or> stdio = STDIO_FAKE then s3
     else writew v (UDMA_UART 0 + 0x24) (writew u UDMA_GC_CG s3))" (is "_ = Some ?s4")
    using stdio_init_ok [OF assms(4), of f s3] by blast
  obtain x where t: "vPortSetupTimerInterrupt ?s4 = Some (writew (push_bit 10 1) (PULP_FC_IRQ_ADDR + IRQ_REG_MASK_SET_OFFSET)
     (writew x (PULP_FC_TIMER_ADDR + TIMER_CFG_LO_OFFSET) (writew 32 (PULP_FC_TIMER_ADDR + TIMER_CMP_LO_OFFSET)
        (writew 1 (PULP_FC_TIMER_ADDR + TIMER_RESET_LO_OFFSET) ?s4))))" (is "_ = Some ?t")
    using tick_setup_code by blast
  have h: "fc_event_handlers s2 = fc_event_handlers s" "sys_flls_frequency s2 = flls_frequency c"
    by (simp_all add: s2_def s1_def pulp_irq_init_def)
  have run: "Option.bind (system_init target config_cluster stdio s) vPortSetupTimerInterrupt = Some ?t"
  proof -
    have "pi_fc_event_handler_init False 26 s2 = Some (writew (push_bit 26 1) (PULP_FC_IRQ_ADDR + IRQ_REG_MASK_SET_OFFSET)
      (s2\<lparr>fc_event_handlers := replicate NB_SOC_EVENTS (Some FC_null_event)\<rparr>))"
      by (rule fc_event_init_code) (simp add: h assms(2))
    note init = this
    have "system_init target config_cluster stdio s = Some ?s4"
      unfolding system_init_def c(1) Option.bind.bind_lunit Let_def s1_def [symmetric] s2_def [symmetric] init s3_def [symmetric] f_def [symmetric]
      by (rule s4)
    then show ?thesis by (simp only: Option.bind.bind_lunit t)
  qed
  have conf: "regs ?t (FLL_CONF1 g) = regs c (FLL_CONF1 g)" for g
    using fll_conf1_cases [of g] by (auto simp: s3_def s2_def s1_def pulp_irq_init_def soc_eu_init_low boot_mmio)
  have freq: "sys_flls_frequency ?t = flls_frequency c" "fc_event_handlers ?t = replicate NB_SOC_EVENTS (Some FC_null_event)"
    by (simp_all add: s3_def s2_def s1_def pulp_irq_init_def)
  have msk: "fc_mask w ?t = push_bit 10 1 OR push_bit 26 1"
    by (simp add: s3_def s2_def s1_def irq_init_mask boot_mmio)
  have tab: "isr_table ?t = (let tab = (isr_table s)[10 := Timer_isr, 26 := Fc_soc_event_isr] in
          if target = PULP \<and> config_cluster then tab[2 := Cl_notify_isr] else tab)"
    by (auto simp: s3_def s2_def s1_def pulp_irq_init_def list_update_swap Let_def)
  have eu: "regs ?t (SOC_EU_ADDR + SOC_FC_MASK0_OFFSET + word_of_nat k * 4) = 0xffffffff" if k: "k < 8" for k
  proof -
    define a where "a = SOC_EU_ADDR + SOC_FC_FIRST_MASK + word_of_nat k * 4"
    have "regs s2 a = 0xffffffff" using k by (simp add: s2_def soc_eu_init_regs a_def)
    moreover have "0x1A106004 \<le> a" "a \<le> 0x1A106020" unfolding a_def using soc_eu_addr_apart [OF k] by simp_all
    ultimately have "regs ?t a = 0xffffffff" by (auto simp: s3_def boot_mmio)
    then show ?thesis by (simp add: a_def SOC_FC_MASK0_OFFSET_def SOC_FC_FIRST_MASK_def)
  qed
  have irq: "irqs_on ?t" "regs ?t (PULP_FC_TIMER_ADDR + TIMER_CMP_LO_OFFSET) = 32"
    by (simp_all add: s3_def irqs_on_def boot_mmio)
  show ?thesis
  proof (rule exI [of _ ?t], intro conjI run)
    show "\<forall>i < ARCHI_NB_FLL target. bit (regs ?t (FLL_CONF1 (fll_at i))) 31
          \<and> sys_flls_frequency ?t (fll_at i) = fll_get_frequency_from_mult_div
              (REG_GET 0 FLL_CTRL_CONF1_MULTI_FACTOR_MASK (regs s (FLL_CONF1 (fll_at i))))
              (REG_GET 26 FLL_CTRL_CONF1_CLK_OUT_DIV_MASK (regs s (FLL_CONF1 (fll_at i))))"
      using c(2) unfolding conf freq(1) fll_set_up_def clocks_of_fields by blast
  qed (rule msk [unfolded fc_mask_def] tab irq freq(2) allI impI | erule eu)+
qed

definition reset_state :: "unit system" where
  "reset_state = \<lparr>csrs = \<lambda>_. 0, regs = \<lambda>_. 0, io_log = [], fc_event_handlers = replicate NB_SOC_EVENTS None,
     sys_flls_frequency = \<lambda>_. 0, sys_core_clock = 50000000, isr_table = replicate 32 Null_isr\<rparr>"

lemma system_boot_witness:
  "\<exists>t. Option.bind (system_init PULP True (STDIO_UART 0 115200) reset_state) vPortSetupTimerInterrupt = Some t
     \<and> irq_mask_after 0 (io_log t) = push_bit 10 1 OR push_bit 26 1 \<and> irqs_on t
     \<and> (\<forall>run. vSystemIrqHandler run 0x8000001A t = run Fc_soc_event_isr t
          \<and> vSystemIrqHandler run 0x80000002 t = run Cl_notify_isr t \<and> vSystemIrqHandler run 0x80000003 t = None)"
proof -
  obtain t where "Option.bind (system_init PULP True (STDIO_UART 0 115200) reset_state) vPortSetupTimerInterrupt = Some t"
    "irq_mask_after 0 (io_log t) = push_bit 10 1 OR push_bit 26 1" "irqs_on t"
    "isr_table t = (let tab = (isr_table reset_state)[10 := Timer_isr, 26 := Fc_soc_event_isr] in
        if PULP = PULP \<and> True then tab[2 := Cl_notify_isr] else tab)"
    using system_boot [of reset_state "STDIO_UART 0 115200" PULP True 0] by (auto simp: reset_state_def stdio_ok_def)
  then show ?thesis by (intro exI [of _ t]) (simp add: vSystemIrqHandler_def reset_state_def nth_list_update)
qed

end
