(* ===== verification/Platform.thy ===== *)
theory Platform
  imports System ClusterMailbox
begin

text \<open>
  The thin layers under and beside the drivers: the accessors of memory and of the interrupt
  controller (target/arch/io.h, target/pulp/include/target.h, drivers/include/irq.h), the identity
  of a core, the start without a kernel (target/*/system_metal.c), the start of the kernel
  (drivers/include/os.h), and the functions that forward to newlib or to the kernel
  (libc/pulp_malloc.c, libc/syscalls.c, drivers/device.c). Calls to those two are parameters.
\<close>

subsection \<open>Memory accesses (target/arch/io.h, target.h)\<close>

definition writeb :: "u8 \<Rightarrow> u32 \<Rightarrow> mem \<Rightarrow> mem" where
  "writeb v addr m = m(addr := v)"

definition writeh :: "16 word \<Rightarrow> u32 \<Rightarrow> mem \<Rightarrow> mem" where
  "writeh v addr m = m(addr := ucast v, addr + 1 := ucast (drop_bit 8 v))"

definition writed :: "64 word \<Rightarrow> u32 \<Rightarrow> mem \<Rightarrow> mem" where
  "writed v addr m = wr32 (wr32 m addr (ucast v)) (addr + 4) (ucast (drop_bit 32 v))"

definition readb :: "u32 \<Rightarrow> mem \<Rightarrow> u8" where
  "readb addr m = m addr"

definition readh :: "u32 \<Rightarrow> mem \<Rightarrow> 16 word" where
  "readh addr m = ucast (m addr) OR push_bit 8 (ucast (m (addr + 1)))"

definition readd :: "u32 \<Rightarrow> mem \<Rightarrow> 64 word" where
  "readd addr m = ucast (rd32 m addr) OR push_bit 32 (ucast (rd32 m (addr + 4)))"

definition hal_write8 :: "u32 \<Rightarrow> u8 \<Rightarrow> mem \<Rightarrow> mem" where
  "hal_write8 addr v m = m(addr := v)"

definition hal_read8 :: "u32 \<Rightarrow> mem \<Rightarrow> u8" where
  "hal_read8 addr m = m addr"

definition hal_write32 :: "u32 \<Rightarrow> u32 \<Rightarrow> 'a machine_scheme \<Rightarrow> 'a machine_scheme" where
  "hal_write32 addr v s = writew v addr s"

definition hal_read32 :: "u32 \<Rightarrow> 'a machine_scheme \<Rightarrow> u32" where
  "hal_read32 addr s = readw addr s"

text \<open>The widths fit together: little endian, and what was written is read back.\<close>

lemma readh_writeh: "readh addr (writeh v addr m) = v"
proof -
  have "addr + 1 \<noteq> addr" by simp
  then show ?thesis
    by (intro bit_word_eqI) (auto simp: readh_def writeh_def bit_simps dest: bit_imp_le_length simp del: One_nat_def)
qed

lemma readd_writed:
  assumes "unat addr + 8 \<le> 4294967296"
  shows "readd addr (writed v addr m) = v"
proof -
  have a4: "unat (addr + 4) = unat addr + 4" using assms by (subst unat_plus_u32) auto
  have "rd32 (writed v addr m) addr = ucast v"
    unfolding writed_def using assms a4 by (subst rd32_wr32_other) auto
  moreover have "rd32 (writed v addr m) (addr + 4) = ucast (drop_bit 32 v)" by (simp add: writed_def)
  ultimately show ?thesis
    unfolding readd_def by (intro bit_word_eqI) (auto simp: bit_simps)
qed

lemma byte_of_halves:
  "byte_of 0 v = ucast (ucast v :: 16 word)" "byte_of 1 v = ucast (drop_bit 8 (ucast v :: 16 word))"
  "byte_of 2 v = ucast (ucast (drop_bit 16 v) :: 16 word)" "byte_of 3 v = ucast (drop_bit 8 (ucast (drop_bit 16 v) :: 16 word))"
  by (intro bit_word_eqI; auto simp: byte_of_def bit_simps)+

lemma writew_halves: "wr32 m addr v = writeh (ucast (drop_bit 16 v)) (addr + 2) (writeh (ucast v) addr m)"
  by (simp add: wr32_def writeh_def byte_of_halves add.assoc del: One_nat_def)

lemma rd32_halves: "rd32 m addr = ucast (readh addr m) OR push_bit 16 (ucast (readh (addr + 2) m))"
  by (intro bit_word_eqI) (auto simp: rd32_def readh_def bit_simps add.assoc dest: bit_imp_le_length)

subsection \<open>Interrupt controller (irq.h)\<close>

text \<open>The shift of a 32-bit word by IRQn is undefined from 32 on.\<close>

definition irqn_bit :: "nat \<Rightarrow> u32 option" where
  "irqn_bit n = (if n < 32 then Some (push_bit n 1) else None)"

definition IRQ_REG_INT_OFFSET :: u32 where "IRQ_REG_INT_OFFSET = 0x00C"

definition irqn_enable :: "nat \<Rightarrow> 'a machine_scheme \<Rightarrow> 'a machine_scheme option" where
  "irqn_enable n s = map_option (\<lambda>b. writew b (PULP_FC_IRQ_ADDR + IRQ_REG_MASK_SET_OFFSET) s) (irqn_bit n)"

definition irqn_get_enable :: "nat \<Rightarrow> 'a machine_scheme \<Rightarrow> u32 option" where
  "irqn_get_enable n s = (if n < 32 then Some (drop_bit n (readw (PULP_FC_IRQ_ADDR + IRQ_REG_MASK_OFFSET) s) AND 1) else None)"

definition irqn_disable :: "nat \<Rightarrow> 'a machine_scheme \<Rightarrow> 'a machine_scheme option" where
  "irqn_disable n s = map_option (\<lambda>b. writew b (PULP_FC_IRQ_ADDR + IRQ_REG_MASK_CLEAR_OFFSET) s) (irqn_bit n)"

definition irqn_get_pending :: "nat \<Rightarrow> 'a machine_scheme \<Rightarrow> u32 option" where
  "irqn_get_pending n s = (if n < 32 then Some (drop_bit n (readw (PULP_FC_IRQ_ADDR + IRQ_REG_INT_OFFSET) s) AND 1) else None)"

definition irqn_set_pending :: "nat \<Rightarrow> 'a machine_scheme \<Rightarrow> 'a machine_scheme option" where
  "irqn_set_pending n s = map_option (\<lambda>b. writew b (PULP_FC_IRQ_ADDR + IRQ_REG_INT_SET_OFFSET) s) (irqn_bit n)"

definition irqn_clear_pending :: "nat \<Rightarrow> 'a machine_scheme \<Rightarrow> 'a machine_scheme option" where
  "irqn_clear_pending n s = map_option (\<lambda>b. writew b (PULP_FC_IRQ_ADDR + IRQ_REG_INT_CLEAR_OFFSET) s) (irqn_bit n)"

text \<open>The rest of the header is assert(0).\<close>

definition irqn_get_active :: "nat \<Rightarrow> 'a machine_scheme \<Rightarrow> (u32 \<times> 'a machine_scheme) option" where
  "irqn_get_active n s = None"

definition irqn_forge_it_vect :: "u32 \<Rightarrow> u32 \<Rightarrow> u32 \<Rightarrow> 'a machine_scheme \<Rightarrow> (u32 \<times> 'a machine_scheme) option" where
  "irqn_forge_it_vect base index handler s = None"

definition irqn_set_vector :: "nat \<Rightarrow> u32 \<Rightarrow> 'a machine_scheme \<Rightarrow> 'a machine_scheme option" where
  "irqn_set_vector n vector s = None"

definition irqn_get_vector :: "nat \<Rightarrow> 'a machine_scheme \<Rightarrow> (u32 \<times> 'a machine_scheme) option" where
  "irqn_get_vector n s = None"

definition irqn_system_reset :: "'a machine_scheme \<Rightarrow> 'a machine_scheme option" where
  "irqn_system_reset s = None"

text \<open>The six accessors write what the functions of pclint.c write, and the status of a line is its mask bit.\<close>

lemma irqn_pclint:
  "n < 32 \<Longrightarrow> irqn_enable n s = irq_enable (int n) s" "n < 32 \<Longrightarrow> irqn_disable n s = irq_disable (int n) s"
  "n < 32 \<Longrightarrow> irqn_set_pending n s = irq_pend (int n) s" "n < 32 \<Longrightarrow> irqn_clear_pending n s = irq_clear (int n) s"
  by (simp_all add: irqn_enable_def irqn_disable_def irqn_set_pending_def irqn_clear_pending_def irqn_bit_def
      irq_enable_def irq_disable_def irq_pend_def irq_clear_def)

lemma irqn_get_enable_mask:
  assumes "n < 32" "readw (PULP_FC_IRQ_ADDR + IRQ_REG_MASK_OFFSET) s = fc_mask w s"
  shows "irqn_get_enable n s = Some (if bit (fc_mask w s) n then 1 else 0)"
proof -
  have "drop_bit n (fc_mask w s) AND 1 = (if bit (fc_mask w s) n then 1 else 0)"
    by (simp add: and_one_eq bit_iff_odd_drop_bit mod2_eq_if)
  then show ?thesis using assms by (simp add: irqn_get_enable_def)
qed

subsection \<open>The identity of a core (target.h, target/arch/core_utils.h)\<close>

definition FC_CLUSTER_ID :: u32 where "FC_CLUSTER_ID = 32"

definition native_core_id :: "'a machine_scheme \<Rightarrow> u32" where
  "native_core_id s = csr_read CSR_MHARTID s AND 0x01f"

definition native_is_fc :: "'a machine_scheme \<Rightarrow> u32" where
  "native_is_fc s = 1"

definition core_utils_is_fc :: "'a machine_scheme \<Rightarrow> u32" where
  "core_utils_is_fc s = (if native_cluster_id s = FC_CLUSTER_ID then 1 else 0)"

definition pi_core_id :: "'a machine_scheme \<Rightarrow> u32" where "pi_core_id s = native_core_id s"
definition pi_cluster_id :: "'a machine_scheme \<Rightarrow> u32" where "pi_cluster_id s = native_cluster_id s"
definition pi_is_fc :: "'a machine_scheme \<Rightarrow> u32" where "pi_is_fc s = native_is_fc s"
definition pi_nb_cluster_cores :: u32 where "pi_nb_cluster_cores = of_nat ARCHI_CLUSTER_NB_PE"
definition pi_cl_cluster_nb_cores :: int where "pi_cl_cluster_nb_cores = int ARCHI_CLUSTER_NB_PE"
definition pi_cl_cluster_nb_pe_cores :: u32 where "pi_cl_cluster_nb_pe_cores = of_nat ARCHI_CLUSTER_NB_PE"

definition get_mcause :: "'a machine_scheme \<Rightarrow> u32" where "get_mcause s = csr_read CSR_MCAUSE s"
definition get_mstatus :: "'a machine_scheme \<Rightarrow> u32" where "get_mstatus s = csr_read CSR_MSTATUS s"

text \<open>mhartid holds the cluster above bit 5 and the core below bit 4; the two headers disagree about who is the
  fabric controller on every core of a cluster.\<close>

lemma hart_fields:
  assumes "csrs s CSR_MHARTID = push_bit 5 cl OR c" "cl < 64" "c < 16"
  shows "pi_core_id s = c" "pi_cluster_id s = cl"
    "pi_is_fc s = core_utils_is_fc s \<longleftrightarrow> cl = FC_CLUSTER_ID"
proof -
  have cl: "bit cl i \<Longrightarrow> i < 6" and c: "bit c i \<Longrightarrow> i < 4" for i
    using assms(2,3) bit_small [of cl 6] bit_small [of c 4] by (simp_all add: word_less_nat_alt)
  have m: "(0x1f :: u32) = mask 5" "(0x3f :: u32) = mask 6" by (simp_all add: mask_eq_exp_minus_1)
  show "pi_core_id s = c"
    unfolding pi_core_id_def native_core_id_def csr_read_def assms(1) m
    by (intro bit_word_eqI) (auto simp: bit_simps dest: c cl)
  have id: "native_cluster_id s = cl"
    unfolding native_cluster_id_def csr_read_def assms(1) m
    by (intro bit_word_eqI) (auto simp: bit_simps dest: c cl bit_imp_le_length)
  show "pi_cluster_id s = cl" by (simp add: pi_cluster_id_def id)
  show "pi_is_fc s = core_utils_is_fc s \<longleftrightarrow> cl = FC_CLUSTER_ID"
    by (simp add: pi_is_fc_def native_is_fc_def core_utils_is_fc_def id)
qed

subsection \<open>Start without a kernel (target/*/system_metal.c)\<close>

definition metal_system_init :: "target \<Rightarrow> ('h, 'a) system_scheme \<Rightarrow> ('h, 'a) system_scheme option" where
  "metal_system_init target s =
     Option.bind (init_flls [0..<ARCHI_NB_FLL target] (clocks_of s)) (\<lambda>c.
       let s = set_clocks c s;
           s = pulp_irq_init s;
           s = soc_eu_event_init s in
       Some (snd (irq_clint_global_enable s)))"

definition pulpissimo_metal_system_init :: "('h, 'a) system_scheme \<Rightarrow> ('h, 'a) system_scheme option" where
  "pulpissimo_metal_system_init s = metal_system_init PULPISSIMO s"

definition core_v_mcu_metal_system_init :: "('h, 'a) system_scheme \<Rightarrow> ('h, 'a) system_scheme option" where
  "core_v_mcu_metal_system_init s = metal_system_init CORE_V_MCU s"

definition control_metal_system_init :: "bool \<Rightarrow> 'a machine_scheme \<Rightarrow> 'a machine_scheme" where
  "control_metal_system_init config_clic s =
     (let s = (if config_clic then clic_pulp_irq_init s else pulp_irq_init s);
          s = soc_eu_event_init s in
      snd (irq_clint_global_enable s))"

definition metal_core_clock_update :: "('h, 'a) system_scheme \<Rightarrow> ('h, 'a) system_scheme" where
  "metal_core_clock_update s =
     (let (f, c) = pi_fll_get_frequency FLL_SOC False (clocks_of s) in set_clocks (c\<lparr>core_clock := f\<rparr>) s)"

definition metal_core_clock_get :: "('h, 'a) system_scheme \<Rightarrow> u32 \<times> ('h, 'a) system_scheme" where
  "metal_core_clock_get s = (let s = metal_core_clock_update s in (sys_core_clock s, s))"

text \<open>control-pulp has no loops; with a kernel its clock is a constant that the build can override and that is
  the clock of the chip, not of the FPGA, otherwise.\<close>

definition ASIC_SYSTEM_CLOCK :: u32 where "ASIC_SYSTEM_CLOCK = 600000000"

definition DEFAULT_SYSTEM_CLOCK :: "u32 option \<Rightarrow> u32" where
  "DEFAULT_SYSTEM_CLOCK build = (case build of Some f \<Rightarrow> f | None \<Rightarrow> ASIC_SYSTEM_CLOCK)"

definition control_core_clock_update :: "u32 option \<Rightarrow> ('h, 'a) system_scheme \<Rightarrow> ('h, 'a) system_scheme" where
  "control_core_clock_update build s = s\<lparr>sys_core_clock := DEFAULT_SYSTEM_CLOCK build\<rparr>"

definition control_core_clock_get :: "u32 option \<Rightarrow> ('h, 'a) system_scheme \<Rightarrow> u32 \<times> ('h, 'a) system_scheme" where
  "control_core_clock_get build s = (let s = control_core_clock_update build s in (sys_core_clock s, s))"

text \<open>abort with newlib, a loop without end with the interrupts off without it.\<close>

definition undefined_handler :: "('h, 'a) system_scheme \<Rightarrow> ('h, 'a) system_scheme option" where
  "undefined_handler s = None"

text \<open>Without a kernel the interrupts of the core are on and no line and no SoC event is open; the loops
  are up as with one.\<close>

lemma metal_boot:
  fixes s :: "('h, 'a) system_scheme"
  assumes "\<forall>f. sys_flls_frequency s f = 0"
  shows "\<exists>t. metal_system_init target s = Some t \<and> irqs_on t \<and> fc_mask w t = 0
     \<and> (\<forall>k < 8. regs t (SOC_EU_ADDR + SOC_FC_MASK0_OFFSET + word_of_nat k * 4) = 0xffffffff)
     \<and> (\<forall>i < ARCHI_NB_FLL target. bit (regs t (FLL_CONF1 (fll_at i))) 31)
     \<and> fst (metal_core_clock_get t) = fll_get_frequency_from_mult_div
          (REG_GET 0 FLL_CTRL_CONF1_MULTI_FACTOR_MASK (regs s (FLL_CONF1 FLL_SOC)))
          (REG_GET 26 FLL_CTRL_CONF1_CLK_OUT_DIV_MASK (regs s (FLL_CONF1 FLL_SOC)))"
proof -
  have fl: "distinct (map fll_at [0..<ARCHI_NB_FLL target])" "0 < ARCHI_NB_FLL target"
    by (cases target; simp add: fll_at_def upt_rec)+
  obtain c where c: "init_flls [0..<ARCHI_NB_FLL target] (clocks_of s) = Some c"
    "\<forall>i < ARCHI_NB_FLL target. fll_set_up (clocks_of s) c (fll_at i)" "csrs c = csrs s"
    using init_flls_ok [OF fl(1), of "clocks_of s"] assms(1) by auto
  let ?t = "snd (irq_clint_global_enable (soc_eu_event_init (pulp_irq_init (set_clocks c s))))"
  have conf: "regs ?t (FLL_CONF1 g) = regs c (FLL_CONF1 g)" for g
    using fll_conf1_cases [of g] by (auto simp: pulp_irq_init_def soc_eu_init_low boot_mmio)
  have eu: "regs ?t (SOC_EU_ADDR + SOC_FC_MASK0_OFFSET + word_of_nat k * 4) = 0xffffffff" if "k < 8" for k
    using that by (simp add: soc_eu_init_regs SOC_FC_MASK0_OFFSET_def SOC_FC_FIRST_MASK_def)
  have soc: "fll_set_up (clocks_of s) c FLL_SOC" using c(2) fl(2) by (auto simp: fll_at_def)
  then have "flls_frequency c FLL_SOC = fll_get_frequency_from_mult_div
          (REG_GET 0 FLL_CTRL_CONF1_MULTI_FACTOR_MASK (regs s (FLL_CONF1 FLL_SOC)))
          (REG_GET 26 FLL_CTRL_CONF1_CLK_OUT_DIV_MASK (regs s (FLL_CONF1 FLL_SOC)))" by (simp add: fll_set_up_def)
  then have clk: "fst (metal_core_clock_get ?t) = fll_get_frequency_from_mult_div
          (REG_GET 0 FLL_CTRL_CONF1_MULTI_FACTOR_MASK (regs s (FLL_CONF1 FLL_SOC)))
          (REG_GET 26 FLL_CTRL_CONF1_CLK_OUT_DIV_MASK (regs s (FLL_CONF1 FLL_SOC)))"
    by (simp add: metal_core_clock_get_def metal_core_clock_update_def pi_fll_get_frequency_def set_clocks_def pulp_irq_init_def Let_def)
  show ?thesis
  proof (intro exI [of _ ?t] conjI clk allI impI eu)
    show "metal_system_init target s = Some ?t" by (simp add: metal_system_init_def c(1) Let_def)
    show "irqs_on ?t" by (simp add: irqs_on_def)
    show "fc_mask w ?t = 0" by (simp add: irq_init_mask)
  next
    fix i assume "i < ARCHI_NB_FLL target"
    then show "bit (regs ?t (FLL_CONF1 (fll_at i))) 31" unfolding conf using c(2) by (simp add: fll_set_up_def)
  qed
qed

subsection \<open>Start of the kernel and of its tasks (drivers/include/os.h)\<close>

text \<open>The kernel's xTaskCreate is the parameter create: it is given the entry, the argument, the
  name, the depth of the stack and the priority, and answers whether it created the task and its handle.
  exit of newlib and vTaskStartScheduler are parameters too; None when they do not return.\<close>

definition pmsis_exit :: "(int \<Rightarrow> 's \<Rightarrow> 's option) \<Rightarrow> int \<Rightarrow> 's \<Rightarrow> 's option" where
  "pmsis_exit exit err s = exit err s"

definition pmsis_kickoff ::
  "(u32 \<Rightarrow> u32 \<Rightarrow> string \<Rightarrow> u32 \<Rightarrow> u32 \<Rightarrow> 'a machine_scheme \<Rightarrow> bool \<times> u32 \<times> 'a machine_scheme) \<Rightarrow>
   (int \<Rightarrow> 'a machine_scheme \<Rightarrow> 'a machine_scheme option) \<Rightarrow> ('a machine_scheme \<Rightarrow> 'a machine_scheme option) \<Rightarrow>
   u32 \<Rightarrow> u32 \<Rightarrow> u32 \<Rightarrow> 'a machine_scheme \<Rightarrow> (int \<times> 'a machine_scheme) option" where
  "pmsis_kickoff create exit start_scheduler idle_priority minimal_stack arg s =
     (let (pass, _, s) = create arg 0 ''main'' (minimal_stack AND 0xffff) (idle_priority + 1) s in
      Option.bind (if \<not> pass then pmsis_exit exit (-1) s else Some s) (\<lambda>s.
      let s = enable_irq s in
      map_option (\<lambda>s. (0, s)) (start_scheduler s)))"

definition pmsis_task_create ::
  "(u32 \<Rightarrow> u32 \<Rightarrow> string \<Rightarrow> u32 \<Rightarrow> u32 \<Rightarrow> 's \<Rightarrow> bool \<times> u32 \<times> 's) \<Rightarrow> u32 \<Rightarrow> u32 \<Rightarrow>
   u32 \<Rightarrow> u32 \<Rightarrow> string \<Rightarrow> int \<Rightarrow> 's \<Rightarrow> u32 \<times> 's" where
  "pmsis_task_create create idle_priority minimal_stack entry arg name priority s =
     (let (pass, handle, s) = create entry arg name (2 * minimal_stack) (idle_priority + 1 + word_of_int priority) s in
      if \<not> pass then (0, s) else (handle, s))"

definition pmsis_task_suspend :: "(u32 \<Rightarrow> 's \<Rightarrow> 's) \<Rightarrow> u32 \<Rightarrow> 's \<Rightarrow> 's" where
  "pmsis_task_suspend suspend handle s = suspend handle s"

definition pi_yield :: "'a soc_scheme \<Rightarrow> 'a soc_scheme" where
  "pi_yield s = os OS_Yield s"

text \<open>When exit does not return the scheduler starts only with a main task, and always with the interrupts on.\<close>

lemma kickoff_starts:
  assumes "\<And>s. exit (-1) s = None" "pmsis_kickoff create exit start idle stack arg s = Some (r, t)"
  shows "r = 0 \<and> (\<exists>h u. create arg 0 ''main'' (stack AND 0xffff) (idle + 1) s = (True, h, u)
     \<and> irqs_on (enable_irq u) \<and> start (enable_irq u) = Some t)"
  using assms by (auto simp: pmsis_kickoff_def pmsis_exit_def Let_def split: prod.splits if_splits)

subsection \<open>Forwarding (libc/pulp_malloc.c, libc/syscalls.c, drivers/device.c)\<close>

text \<open>malloc and free of newlib and the kernel's suspension of its scheduler are parameters.\<close>

definition fwd_l2_malloc :: "(u32 \<Rightarrow> 's \<Rightarrow> u32 \<times> 's) \<Rightarrow> int \<Rightarrow> 's \<Rightarrow> u32 \<times> 's" where
  "fwd_l2_malloc newlib_malloc sz s = newlib_malloc (word_of_int sz) s"

definition fwd_l2_free :: "(u32 \<Rightarrow> 's \<Rightarrow> 's) \<Rightarrow> u32 \<Rightarrow> int \<Rightarrow> 's \<Rightarrow> 's" where
  "fwd_l2_free newlib_free chunk sz s = newlib_free chunk s"

definition malloc_lock :: "bool \<Rightarrow> ('s \<Rightarrow> 's) \<Rightarrow> 's \<Rightarrow> 's" where
  "malloc_lock config_freertos_kernel suspend_all s = (if config_freertos_kernel then suspend_all s else s)"

definition malloc_unlock :: "bool \<Rightarrow> ('s \<Rightarrow> int \<times> 's) \<Rightarrow> 's \<Rightarrow> 's" where
  "malloc_unlock config_freertos_kernel resume_all s = (if config_freertos_kernel then snd (resume_all s) else s)"

definition pi_open_from_conf :: "u32 \<Rightarrow> u32 \<Rightarrow> cluster \<Rightarrow> cluster" where
  "pi_open_from_conf device conf s = s\<lparr>dev_config := (dev_config s)(device := conf)\<rparr>"

subsection \<open>Preparing a task of the cluster (fc_to_cl_delegate.h)\<close>

text \<open>No build file defines PMSIS_DRIVERS, so the task is not cleared first.\<close>

definition pi_cluster_task_set :: "u32 \<Rightarrow> u32 \<Rightarrow> u32 \<Rightarrow> cluster \<Rightarrow> u32 \<times> cluster" where
  "pi_cluster_task_set task entry arg s =
     (task, upd_ctask task (\<lambda>t. t\<lparr>ct_entry := entry, ct_arg := arg, ct_stacks := 0, ct_stack_size := 0, ct_nb_cores := 0\<rparr>) s)"

definition pi_cluster_send_task ::
  "(cluster \<Rightarrow> cluster) \<Rightarrow> (os_call list \<Rightarrow> u32) \<Rightarrow> u32 \<Rightarrow> u32 \<Rightarrow> u32 \<Rightarrow> cluster \<Rightarrow> (int \<times> cluster) option" where
  "pi_cluster_send_task env create task_block device task s = pi_cluster_send_task_to_cl env create task_block device task s"

definition pi_cluster_send_task_async :: "(cluster \<Rightarrow> cluster) \<Rightarrow> u32 \<Rightarrow> u32 \<Rightarrow> u32 \<Rightarrow> cluster \<Rightarrow> (int \<times> cluster) option" where
  "pi_cluster_send_task_async env device cluster_task task s = pi_cluster_send_task_to_cl_async env device cluster_task task s"

text \<open>The stacks that the next send asks for still depend on what the memory of the task held before: the
  slaves' stack size is not initialised.\<close>

lemma cluster_task_keeps_slave_size:
  "cl_stack_bytes (ctask_at (snd (pi_cluster_task_set task entry arg s)) task) =
     (if ct_slave_stack_size (ctask_at s task) = 0 then CL_SLAVE_CORE_STACK_SIZE else ct_slave_stack_size (ctask_at s task)) * 7
     + CL_MASTER_CORE_STACK_SIZE"
  by (simp add: pi_cluster_task_set_def cl_stack_bytes_def cl_bytes_def)

end
