(* ===== verification/Spec2Isabelle.thy ===== *)
theory Spec2Isabelle
  imports MallocProps EventProps GpioProps ClockProps UartOpen SpiOpen MallocExternProps I2cClaims IDma SyscallsProps ClusterSession ClusterFork Platform
begin

text \<open>
  The support library of FreeRTOS on the PULP microcontrollers: its allocators, its drivers and
  the code that starts the system. Paths below are relative to src.

  The program. Applications run on the fabric controller, one RISC-V core, under the FreeRTOS
  kernel. target/*/system.c starts the clocks, masks the interrupts, fills the interrupt table and
  starts the tick. Peripherals signal the end of a transfer as a SoC event: the event unit (soc_eu.c) filters
  it, the interrupt controller (pclint.c, clic.c) raises one line for all of them, and fc_event.c pops the
  event number and calls the handler a driver has installed. The UART, SPI and I2C drivers (uart.c,
  spi.c, i2c.c) move data with uDMA channels; each keeps the requests that wait in a linked list of
  notification tasks (pmsis_task.c), and its handler completes the first and starts the next. The blocking
  calls wait on the semaphore of a task. libc/malloc holds the allocators: one for memories the core can
  address, which keeps its free list inside the free chunks, one for memories it cannot, which keeps
  descriptors in L2; l2_malloc.c, fc_l1_malloc.c, cl_l1_malloc.c and pi_malloc.c are the heaps built on
  the first. drivers/cluster hands tasks to the cluster, a second group of cores with its own
  L1 memory, through a queue under a test-and-set spinlock, with the stacks of the tasks from the L1 heap;
  the cluster runs teams of cores and copies memory with a DMA engine.

  The state. Machine holds what all drivers share: control and status registers, the registers of
  the peripherals, and the log of all writes to them in order. A register keeps what was written to it; a
  register that the hardware changes is an input, and where code waits for it the hardware's (and the other
  cores') activity is the parameter env, any function of the state. Each driver extends that record with its
  globals, so that one state serves all the layers below it; System is the exception, which runs the clock functions on the part of the
  state they know. Structures that the code reaches by pointer are stores from addresses to records, or
  words of memory where the code reads them as another type or through NULL. The allocators
  work on bytes: rd32 and wr32 of Prelude are the loads and stores.

  Results. A failed assert, abort, an access through NULL or outside an array, a division by 0 and a
  loop that never ends are None; error codes are numbers as in the code. Loops that may not end are
  partial functions into option, without fuel: a theorem with Some says that they end. Integers are words of the
  width of the C type; int is used for values the code only compares or returns.

  The theories, with the code they model:
    Prelude: words, alignment macros, byte memory.
    Machine: target/arch (csr.h, riscv.h, io.h), drivers/include/bits.h.
    FreeList, Allocator: the abstract allocator and the contract between one and its clients (locale allocator).
    MallocInternal, MallocRefine, MallocAlign, MallocReport, MallocHeap, MallocProps: libc/malloc/malloc_internal.c.
    MallocOs: l2_malloc.c, fc_l1_malloc.c, cl_l1_malloc.c, pi_malloc.c and the locks around them (drivers/include/os.h).
    MallocExtern, MallocExternRefine, MallocExternProps: libc/malloc/malloc_external.c.
    Events, EventProps: soc_eu.c, pclint.c, clic.c, fc_event.c, timer_irq.c.
    Gpio, GpioProps: gpio.c, pinmux.c.
    Clock, ClockProps: fll.c, clkdiv.c, clkconst.c.
    Tasks, TaskQueue, TaskProps: pmsis_task.c, pmsis_types.h, os.h; the contract of a driver's queue of tasks (locale task_fifo).
    Service: the contract of a driver that serves requests by interrupts (locales service, fifo_service, draining_service).
    Udma: udma.h, udma_core.h, udma_ctrl.h.
    Uart, UartProps, UartOpen, UartService: uart.c, udma_uart.h.
    Spi, SpiProps, SpiClaims, SpiOpen: spi.c, udma_spim.h, spi_periph.h.
    I2c, I2cProps, I2cClaims: i2c.c, udma_i2c.h, i2c_periph.h.
    ClusterHal: the registers of the cluster (cluster_ctrl_unit.h, cluster_icache_ctrl.h, cluster_event_unit.h, event_unit.h).
    Cluster, ClusterOps: fc_to_cl_delegate.c, cl_to_fc_delegate.c, cl_synchronisation.h, cl_team_internal.h.
    SpinLock, ClusterProps, ClusterLife: interleavings of sections under a spinlock (locale spin_lock), the queue, the stacks.
    ClusterMailbox: interleavings of cl_to_fc_delegate.c at the grain of its accesses to shared state.
    ClusterLoop: the loops of the cluster's cores (target/pulp/cluster.S) and their stacks.
    ClusterOffload: a task from the send to its return, over the queue, the stacks, the loop, the mailbox and the notification task.
    ClusterSession: the cluster from the first open to the last close.
    ClusterTeams: the forks and the hardware barriers of cl_team_internal.h.
    ClusterFork: the same forks under every interleaving of the cores, at the grain of accesses to the event unit, which is taken to
      do what cluster_event_unit.h documents: it hands each message to the cores of the mask and holds a core until its team has arrived.
    IDma: cl_idma_hal.h, cl_dma_hal.h, cl_dma_internal.h.
    System: target/*/system.c.
    Syscalls, SyscallsProps: libc/syscalls.c.
    Platform: system_metal.c, irq.h, target.h, core_utils.h, os.h, device.c, pulp_malloc.c: the layers that only forward.

  What is shown.
    Allocators: the memory holds a free list that refines the abstract one; malloc takes the first chunk that
    fits and free joins neighbours, with nothing else written. From that the locale gives every client of
    any sequence of requests, releases and own writes: live blocks are disjoint, none is written by another, no byte
    is lost, and once all are released the heap is as at the start. From malloc_init on the heap is well formed and inside its region, for requests
    of 1 to 2 to the 31 - 8 bytes, aligned requests of multiples of 8 bytes at powers of two of at least 16 outside one branch (alignments below 12 are ignored by the code), releases of
    allocated bytes and writes to bytes that are not free. In that branch, the gap of eight bytes, an aligned request frees bytes the allocator does not own;
    other sizes and alignments of aligned requests have no theorem. The external allocator refines the same list as a client of the L2 heap; its free
    answers 0 exactly when a free chunk begins where the block ends or L2 has room for a descriptor. Both allocators agree on equal requests.
    Events: the masks are bitmaps of their own, a dispatched event calls its handler and no other, and after the start exactly two
    lines are open, both with a handler.
    Drivers: from any reachable state the requests are served in order, none is lost and each interrupt completes one, for UART, SPI
    and I2C over all sequences of requests and interrupts. For I2C these are requests of at most 255 bytes, reads not of 0, and the writes to the registers are exactly
    those of the specification, with the command bytes in the buffer the channel reads; the structure for longer transfers is reached through a pointer that
    is never set, so the theorems ask that the word found there is accessible (null_mapped, i2c_serving). Opening a UART programs each field of its setup and no other register. The interrupts come
    through the event FIFO and the dispatcher of fc_event.c; a blocking call returns after as many of them as requests wait; what a request writes to the channel; the bounds of
    dividers and command words; and the requests for which a driver does not do this.
    Cluster: under every interleaving of the cores the queue follows one sequence of pushes and pops and every pop and poll answers what the abstract queue answers; the queue keeps at most two tasks;
    the stacks of a task come from the L1 heap and go back to it; what the cores send to the fabric controller is handled once each,
    in order, and no core waits for ever. A blocking send returns when the entry has run once and leaves queue, mailbox and heap as they were;
    the stacks of the cores are disjoint; every sequence of opens, sends and closes keeps this, until a reopen moves the driver's data away from
    the address the master core has read.
    A fork reaches exactly the cores of its team, and no hardware barrier is given out twice. Of any list of forks each core executes its
    entries in order and once, no core runs ahead of the master, and every run ends with all forks returned.
    DMA, clocks, system calls: when a transfer counts as finished, what frequency is set and reported, which blocks sbrk grants for increments of either sign, where
    a negative one is checked against address 0 only and not against the start of the heap, and what write sends.

  Bounds. A heap lies below 2 to the 31, since sizes are compared as signed words; the heap of the witnesses has 4 KiB.
  Interface and channel numbers are those of the target's memory map, hypotheses where a driver does not check them.

  Not modelled. The FreeRTOS kernel and newlib, which are not in the repository: calls to the kernel are logged
  or parameters. The assembly at reset and in the trap vectors; of the cluster's loop the event masks and the sleep. That nothing but a reset
  starts the cluster's cores anew is a property of the hardware that ClusterSession takes for granted. The order of memory accesses between cores beyond their
  interleaving, caches and time. Traces and printf buffers. Demos, templates and tests. Functions that only abort or are
  disabled by the preprocessor.
\<close>

end
